(* ===== verification/Prelude.thy ===== *)
theory Prelude
  imports Main "HOL-Library.Sublist"
begin

text \<open>
  Shared vocabulary of the development: the errors the SDK raises, results, the
  first-failing-check idiom every contract model's validator uses, the interface of a
  contract model (\<open>contract_model\<close>), and generic list lemmas.

  \<^item> \<open>py_error\<close>: \<open>ContractError\<close> is \<open>core/errors.py\<close>'s class with its code and message;
    \<open>ValidationError\<close> is what a pydantic model raises, identified by the message of the
    first violated check or, for a declared field constraint, by the field's name;
    \<open>ValueErr\<close> is a plain \<open>ValueError\<close>; \<open>KeyErr\<close> a \<open>KeyError\<close>; \<open>AssertErr\<close> a failed \<open>assert\<close>.
  \<^item> A validator is a list of pairs \<open>(violated, message)\<close> in the order of the source;
    \<open>first_failure\<close> is the first one that is violated, which is what a chain of
    \<^verbatim>\<open>if ...: raise\<close> does.
\<close>

named_theorems contract_simps "unfolding rules of the contract models' checks"
named_theorems trim_simps "what the models' normalisation does to a field"

section \<open>Errors and results\<close>

datatype py_error =
    ContractError (err_code: string) (err_message: string)
  | ValidationError (err_message: string)
  | ValueErr (err_message: string)
  | KeyErr (err_message: string)
  | AssertErr

type_synonym 'a result = "py_error + 'a"

definition is_ok :: "'a result \<Rightarrow> bool" where
  "is_ok r = (case r of Inl _ \<Rightarrow> False | Inr _ \<Rightarrow> True)"

lemma is_ok_simps [simp]: "is_ok (Inr x)" "\<not> is_ok (Inl e)"
  by (simp_all add: is_ok_def)

lemma is_ok_iff: "is_ok r \<longleftrightarrow> (\<exists>x. r = Inr x)"
  by (cases r) simp_all

definition and_then :: "'a result \<Rightarrow> ('a \<Rightarrow> 'b result) \<Rightarrow> 'b result" where
  "and_then r f = (case r of Inl e \<Rightarrow> Inl e | Inr x \<Rightarrow> f x)"

lemma and_then_simps [simp]: "and_then (Inl e) f = Inl e" "and_then (Inr x) f = f x"
  by (simp_all add: and_then_def)

lemma and_then_Inr_iff: "and_then r f = Inr y \<longleftrightarrow> (\<exists>x. r = Inr x \<and> f x = Inr y)"
  by (cases r) simp_all

lemma and_then_assoc: "and_then (and_then r f) g = and_then r (\<lambda>x. and_then (f x) g)"
  by (cases r) simp_all

section \<open>Chains of checks\<close>

fun first_failure :: "(bool \<times> string) list \<Rightarrow> string option" where
  "first_failure [] = None"
| "first_failure ((violated, msg) # cs) = (if violated then Some msg else first_failure cs)"

lemma first_failure_None_iff: "first_failure cs = None \<longleftrightarrow> (\<forall>c \<in> set cs. \<not> fst c)"
  by (induction cs rule: first_failure.induct) auto

lemma first_failure_Some: "first_failure cs = Some m \<Longrightarrow> (True, m) \<in> set cs"
  by (induction cs rule: first_failure.induct) (auto split: if_splits)

lemma first_failure_append:
  "first_failure (as @ bs) = (case first_failure as of None \<Rightarrow> first_failure bs | Some m \<Rightarrow> Some m)"
  by (induction "as" rule: first_failure.induct) (simp_all split: option.splits)

text \<open>The checks of the elements of a tuple field, in order.\<close>

definition each :: "('a \<Rightarrow> (bool \<times> string) list) \<Rightarrow> 'a list \<Rightarrow> (bool \<times> string) list" where
  "each f xs = concat (map f xs)"

definition opt_checks :: "('a \<Rightarrow> (bool \<times> string) list) \<Rightarrow> 'a option \<Rightarrow> (bool \<times> string) list" where
  "opt_checks f x = (case x of None \<Rightarrow> [] | Some y \<Rightarrow> f y)"

lemma each_simps [simp]: "each f [] = []" "each f (x # xs) = f x @ each f xs"
  by (simp_all add: each_def)

lemma opt_checks_simps [simp]: "opt_checks f None = []" "opt_checks f (Some y) = f y"
  by (simp_all add: opt_checks_def)

definition passes :: "(bool \<times> string) list \<Rightarrow> bool" where
  "passes cs = (first_failure cs = None)"

lemma passes_simps [simp]:
  "passes []"
  "passes ((b, m) # cs) \<longleftrightarrow> \<not> b \<and> passes cs"
  "passes (as @ bs) \<longleftrightarrow> passes as \<and> passes bs"
  by (auto simp: passes_def first_failure_append split: option.splits)

lemma passes_each [simp]: "passes (each f xs) \<longleftrightarrow> (\<forall>x \<in> set xs. passes (f x))"
  by (induction xs) auto

lemma passes_opt [simp]: "passes (opt_checks f x) \<longleftrightarrow> (\<forall>y. x = Some y \<longrightarrow> passes (f y))"
  by (cases x) auto

section \<open>The interface of a contract model\<close>

text \<open>
  Every pydantic model of the SDK first normalises its fields (\<open>str_strip_whitespace\<close> and
  the fields' own \<open>strip_whitespace\<close>) and then runs its checks; constructing it, and
  \<open>model_validate\<close> on its own dump, are both this.
\<close>

definition validate_model :: "('m \<Rightarrow> 'm) \<Rightarrow> ('m \<Rightarrow> (bool \<times> string) list) \<Rightarrow> 'm \<Rightarrow> 'm result" where
  "validate_model normalise checks m =
     (case first_failure (checks (normalise m)) of
        None \<Rightarrow> Inr (normalise m)
      | Some msg \<Rightarrow> Inl (ValidationError msg))"

locale contract_model =
  fixes normalise :: "'m \<Rightarrow> 'm"
    and checks :: "'m \<Rightarrow> (bool \<times> string) list"
  assumes normalise_idem: "normalise (normalise m) = normalise m"
begin

lemma validate_ok_iff:
  "validate_model normalise checks m = Inr y \<longleftrightarrow> y = normalise m \<and> passes (checks y)"
  by (auto simp: validate_model_def passes_def split: option.splits)

lemma validated_is_normal: "validate_model normalise checks m = Inr y \<Longrightarrow> normalise y = y"
  by (auto simp: validate_ok_iff normalise_idem)

lemma validated_passes: "validate_model normalise checks m = Inr y \<Longrightarrow> passes (checks y)"
  by (auto simp: validate_ok_iff)

lemma revalidation_is_identity:
  "validate_model normalise checks m = Inr y \<Longrightarrow> validate_model normalise checks y = Inr y"
  by (auto simp: validate_ok_iff normalise_idem)

lemma fixpoint_iff: "validate_model normalise checks y = Inr y \<longleftrightarrow> normalise y = y \<and> passes (checks y)"
  by (auto simp: validate_ok_iff)

end

section \<open>Lists, tuples and sets\<close>

text \<open>\<^verbatim>\<open>len(xs) != len(set(xs))\<close>\<close>

definition has_duplicates :: "'a list \<Rightarrow> bool" where
  "has_duplicates xs = (length xs \<noteq> card (set xs))"

lemma has_duplicates_iff [simp]: "has_duplicates xs \<longleftrightarrow> \<not> distinct xs"
  by (metis has_duplicates_def card_distinct distinct_card)

lemma has_duplicates_code [code]: "has_duplicates xs = (\<not> distinct xs)"
  by simp

declare has_duplicates_iff [contract_simps]

text \<open>The first element with a property, as a Python generator with \<^verbatim>\<open>next\<close> yields it.\<close>

lemma find_None_iff_all: "List.find P xs = None \<longleftrightarrow> (\<forall>x \<in> set xs. \<not> P x)"
  by (auto simp: find_None_iff)

lemma filter_subset_eq_iff: "set ys \<subseteq> set xs \<Longrightarrow> distinct xs \<Longrightarrow>
    set [x \<leftarrow> xs. x \<in> set ys] = set ys"
  by auto

lemma map_filter_mem_idem [simp]: "[x \<leftarrow> [y \<leftarrow> xs. P y]. P x] = [y \<leftarrow> xs. P y]"
  by (induction xs) auto

lemma map_fst_idem: "(\<And>x. x \<in> set xs \<Longrightarrow> f (f x) = f x) \<Longrightarrow> map (f \<circ> f) xs = map f xs"
  by simp

lemma map_map_idem [simp]: "(\<And>x. f (f x) = f x) \<Longrightarrow> map f (map f xs) = map f xs"
  by simp

lemma map_option_idem: "(\<And>x. f (f x) = f x) \<Longrightarrow> map_option f (map_option f x) = map_option f x"
  by (cases x) simp_all

lemma map_of_eq_distinct:
  assumes "set xs = set ys" and "distinct (map fst xs)" and "distinct (map fst ys)"
  shows "map_of xs = map_of ys"
proof
  fix k
  show "map_of xs k = map_of ys k"
  proof (cases "map_of xs k")
    case None
    with assms(1) show ?thesis by (metis map_of_eq_None_iff set_map)
  next
    case (Some v)
    with assms show ?thesis by (metis map_of_SomeD map_of_is_SomeI)
  qed
qed

end
