(* ===== verification/Py_Strings.thy ===== *)
theory Py_Strings
  imports Prelude
begin

text \<open>
  The Python string operations the SDK uses. A \<open>string\<close> is a list of \<open>char\<close>s and a \<open>char\<close>
  stands for the code point of the same number, so the model covers the strings over the
  first 256 code points (Latin-1) exactly; other code points are not modelled.
\<close>

section \<open>Characters\<close>

definition code :: "char \<Rightarrow> nat" where
  "code c = of_char c"

lemma code_inject [simp]: "code c = code d \<longleftrightarrow> c = d"
  by (simp add: code_def)

lemma code_less [simp]: "code c < 256"
  by (simp add: code_def)

lemma char_of_code [simp]: "char_of (code c) = c"
  by (simp add: code_def)

lemma code_char_of: "n < 256 \<Longrightarrow> code (char_of n) = n"
  by (simp add: code_def)

definition between :: "char \<Rightarrow> char \<Rightarrow> char \<Rightarrow> bool" where
  "between lo hi c = (code lo \<le> code c \<and> code c \<le> code hi)"

definition is_lower :: "char \<Rightarrow> bool" where
  "is_lower = between (CHR ''a'') (CHR ''z'')"

definition is_upper :: "char \<Rightarrow> bool" where
  "is_upper = between (CHR ''A'') (CHR ''Z'')"

definition is_digit :: "char \<Rightarrow> bool" where
  "is_digit = between (CHR ''0'') (CHR ''9'')"

definition is_hex_lower :: "char \<Rightarrow> bool" where
  "is_hex_lower c = (is_digit c \<or> between (CHR ''a'') (CHR ''f'') c)"

definition is_alnum :: "char \<Rightarrow> bool" where
  "is_alnum c = (is_lower c \<or> is_upper c \<or> is_digit c)"

lemmas char_class_defs = between_def is_lower_def is_upper_def is_digit_def is_hex_lower_def is_alnum_def

text \<open>\<^verbatim>\<open>str.lower()\<close> on one code point below 256.\<close>

definition lower_char :: "char \<Rightarrow> char" where
  "lower_char c =
     (let n = code c in
      if (65 \<le> n \<and> n \<le> 90) \<or> (192 \<le> n \<and> n \<le> 222 \<and> n \<noteq> 215) then char_of (n + 32) else c)"

lemma lower_char_idem [simp]: "lower_char (lower_char c) = lower_char c"
  by (auto simp: lower_char_def Let_def code_char_of)

section \<open>Strings\<close>

definition lower :: "string \<Rightarrow> string" where
  "lower s = map lower_char s"

lemma lower_idem [simp]: "lower (lower s) = lower s"
  by (simp add: lower_def)

lemma lower_append [simp]: "lower (s @ t) = lower s @ lower t"
  by (simp add: lower_def)

lemma lower_Nil_iff [simp]: "lower s = [] \<longleftrightarrow> s = []"
  by (simp add: lower_def)

text \<open>
  Two notions of white space: the one of \<^verbatim>\<open>str.strip()\<close> and \<^verbatim>\<open>str.isspace()\<close>, and the Unicode
  \<^verbatim>\<open>White_Space\<close> property, which pydantic's \<open>strip_whitespace\<close> uses; they differ on the four
  separators 28 to 31.
\<close>

definition py_space :: "char \<Rightarrow> bool" where
  "py_space c = (let n = code c in (9 \<le> n \<and> n \<le> 13) \<or> (28 \<le> n \<and> n \<le> 32) \<or> n = 133 \<or> n = 160)"

definition unicode_space :: "char \<Rightarrow> bool" where
  "unicode_space c = (let n = code c in (9 \<le> n \<and> n \<le> 13) \<or> n = 32 \<or> n = 133 \<or> n = 160)"

definition strip_with :: "(char \<Rightarrow> bool) \<Rightarrow> string \<Rightarrow> string" where
  "strip_with sp s = rev (dropWhile sp (rev (dropWhile sp s)))"

definition strip :: "string \<Rightarrow> string" where
  "strip = strip_with py_space"

definition trim :: "string \<Rightarrow> string" where
  "trim = strip_with unicode_space"

text \<open>The result of stripping starts and ends with a character that is kept.\<close>

lemma strip_with_shape:
  assumes "strip_with sp s \<noteq> []"
  shows "\<not> sp (hd (strip_with sp s))" and "\<not> sp (last (strip_with sp s))"
proof -
  define d where "d = dropWhile sp s"
  define t where "t = dropWhile sp (rev d)"
  have st: "strip_with sp s = rev t" by (simp add: strip_with_def d_def t_def)
  with assms have "t \<noteq> []" by simp
  then have "\<not> sp (hd t)" unfolding t_def by (rule hd_dropWhile)
  with st \<open>t \<noteq> []\<close> show "\<not> sp (last (strip_with sp s))" by (simp add: last_rev)
  have "rev d = takeWhile sp (rev d) @ t" by (simp add: t_def)
  then have "d = rev t @ rev (takeWhile sp (rev d))" by (metis rev_append rev_rev_ident)
  with \<open>t \<noteq> []\<close> have "d \<noteq> []" and "hd (rev t) = hd d"
    by (metis append_is_Nil_conv rev_is_Nil_conv, metis hd_append2 rev_is_Nil_conv)
  moreover have "\<not> sp (hd d)" using \<open>d \<noteq> []\<close> unfolding d_def by (rule hd_dropWhile)
  ultimately show "\<not> sp (hd (strip_with sp s))" by (simp add: st)
qed

lemma strip_with_id:
  assumes "s = [] \<or> (\<not> sp (hd s) \<and> \<not> sp (last s))"
  shows "strip_with sp s = s"
proof (cases "s = []")
  case False
  with assms have "dropWhile sp s = s" "dropWhile sp (rev s) = rev s"
    by (simp_all add: dropWhile_eq_self_iff hd_rev)
  then show ?thesis by (simp add: strip_with_def)
qed (auto simp: strip_with_def dest: set_dropWhileD)

lemma strip_with_fixpoint:
  "strip_with sp s = s \<longleftrightarrow> s = [] \<or> (\<not> sp (hd s) \<and> \<not> sp (last s))"
  using strip_with_shape [of sp s] strip_with_id [of s sp] by auto

lemma strip_with_idem [simp]: "strip_with sp (strip_with sp s) = strip_with sp s"
  using strip_with_shape [of sp s] by (intro strip_with_id) blast

lemma strip_idem [simp]: "strip (strip s) = strip s"
  by (simp add: strip_def)

lemma trim_idem [simp, trim_simps]: "trim (trim s) = trim s"
  by (simp add: trim_def)

text \<open>\<^verbatim>\<open>str.split(sep)\<close> on a one-character separator, and \<^verbatim>\<open>sep.join\<close>.\<close>

fun split_char :: "char \<Rightarrow> string \<Rightarrow> string list" where
  "split_char sep [] = [[]]"
| "split_char sep (c # cs) =
     (if c = sep then [] # split_char sep cs
      else (case split_char sep cs of [] \<Rightarrow> [[c]] | p # ps \<Rightarrow> (c # p) # ps))"

fun join_char :: "char \<Rightarrow> string list \<Rightarrow> string" where
  "join_char sep [] = []"
| "join_char sep [p] = p"
| "join_char sep (p # q # ps) = p @ sep # join_char sep (q # ps)"

lemma split_char_nonempty [simp]: "split_char sep s \<noteq> []"
  by (induction s) (auto split: list.splits)

lemma join_char_Cons: "ps \<noteq> [] \<Longrightarrow> join_char sep (p # ps) = p @ sep # join_char sep ps"
  by (cases ps) simp_all

lemma join_split [simp]: "join_char sep (split_char sep s) = s"
proof (induction s)
  case (Cons c s)
  obtain p ps where split: "split_char sep s = p # ps"
    by (cases "split_char sep s") (use split_char_nonempty [of sep s] in auto)
  with Cons show ?case by (cases ps) auto
qed simp

lemma split_char_no_sep: "p \<in> set (split_char sep s) \<Longrightarrow> sep \<notin> set p"
proof (induction s arbitrary: p)
  case (Cons c s)
  obtain q qs where split: "split_char sep s = q # qs"
    by (cases "split_char sep s") (use split_char_nonempty [of sep s] in auto)
  show ?case
  proof (cases "c = sep")
    case True
    with Cons show ?thesis by auto
  next
    case False
    with Cons.prems split have "p = c # q \<or> p \<in> set qs" by auto
    with False Cons.IH split show ?thesis by auto
  qed
qed simp

lemma split_char_plain: "sep \<notin> set p \<Longrightarrow> split_char sep p = [p]"
  by (induction p) auto

lemma split_char_append: "sep \<notin> set p \<Longrightarrow> split_char sep (p @ sep # s) = p # split_char sep s"
  by (induction p) auto

lemma split_join:
  "ps \<noteq> [] \<Longrightarrow> \<forall>p \<in> set ps. sep \<notin> set p \<Longrightarrow> split_char sep (join_char sep ps) = ps"
proof (induction ps)
  case (Cons p ps)
  then show ?case
    by (cases ps) (simp_all add: split_char_plain split_char_append)
qed simp

definition starts_with :: "string \<Rightarrow> string \<Rightarrow> bool" where
  "starts_with s p = prefix p s"

definition ends_with :: "string \<Rightarrow> string \<Rightarrow> bool" where
  "ends_with s p = suffix p s"

definition contains :: "string \<Rightarrow> string \<Rightarrow> bool" where
  "contains s p = sublist p s"

text \<open>Stripping leaves nothing exactly when there is nothing but white space.\<close>

lemma strip_with_Nil_iff: "strip_with sp s = [] \<longleftrightarrow> (\<forall>c \<in> set s. sp c)"
proof
  assume "strip_with sp s = []"
  then have "\<forall>c \<in> set (dropWhile sp s). sp c" by (simp add: strip_with_def)
  then have "dropWhile sp s = []" using hd_dropWhile [of sp s] by (metis hd_in_set)
  then show "\<forall>c \<in> set s. sp c" by simp
qed (auto simp: strip_with_def dest: set_dropWhileD)

lemma unicode_space_py_space: "unicode_space c \<Longrightarrow> py_space c"
  by (auto simp: unicode_space_def py_space_def Let_def)

lemma trim_if_stripped: "strip s = s \<Longrightarrow> trim s = s"
  using unicode_space_py_space by (auto simp: strip_def trim_def strip_with_fixpoint)

lemma trim_nonempty_if_strip: "strip s \<noteq> [] \<Longrightarrow> trim s \<noteq> []"
  using unicode_space_py_space by (auto simp: strip_def trim_def strip_with_Nil_iff)

lemma trim_nonempty: "c \<in> set s \<Longrightarrow> \<not> unicode_space c \<Longrightarrow> trim s \<noteq> []"
  by (auto simp: trim_def strip_with_Nil_iff)

section \<open>Evaluation\<close>

text \<open>Code equations over binary integers, which the simplifier evaluates faster than naturals.\<close>

lemma int_code: "(of_char c :: int) = int (code c)"
  unfolding code_def by (rule of_nat_of_char [symmetric])

lemma between_code [code]: "between lo hi c = ((of_char lo :: int) \<le> of_char c \<and> (of_char c :: int) \<le> of_char hi)"
  by (simp add: between_def int_code)

lemma lower_char_code [code]:
  "lower_char c =
     (let n = (of_char c :: int) in
      if (65 \<le> n \<and> n \<le> 90) \<or> (192 \<le> n \<and> n \<le> 222 \<and> n \<noteq> 215) then char_of (n + 32) else c)"
proof -
  have "char_of (int (code c) + 32) = char_of (code c + 32)"
    by (metis char_of_nat of_nat_add of_nat_numeral)
  then show ?thesis unfolding lower_char_def int_code Let_def by auto
qed

lemma unicode_space_code [code]:
  "unicode_space c = (let n = (of_char c :: int) in 9 \<le> n \<and> n \<le> 13 \<or> n = 32 \<or> n = 133 \<or> n = 160)"
  unfolding unicode_space_def int_code Let_def by presburger

lemma py_space_code [code]:
  "py_space c = (let n = (of_char c :: int) in 9 \<le> n \<and> n \<le> 13 \<or> 28 \<le> n \<and> n \<le> 32 \<or> n = 133 \<or> n = 160)"
  unfolding py_space_def int_code Let_def by presburger

end
