(* ===== verification/Regex.thy ===== *)
theory Regex
  imports Py_Strings
begin

text \<open>
  The regular expressions of the standard library's \<^verbatim>\<open>re\<close> (and of pydantic's \<open>pattern\<close>
  constraints) that the SDK uses: character classes, sequence, alternation, repetition,
  case-insensitive literals and a leading \<^verbatim>\<open>(?:^|[...])\<close>. The matcher takes Brzozowski
  derivatives, so it is executable; \<open>rx_fullmatch_iff\<close> proves it correct for the relation
  \<open>matches\<close>, which is the textbook meaning.
\<close>

datatype rx =
    Zero
  | One
  | Cls "char \<Rightarrow> bool"
  | Seq rx rx
  | Alt rx rx
  | Star rx

inductive matches :: "rx \<Rightarrow> string \<Rightarrow> bool" where
  m_one: "matches One []"
| m_cls: "p c \<Longrightarrow> matches (Cls p) [c]"
| m_seq: "matches r s \<Longrightarrow> matches q t \<Longrightarrow> matches (Seq r q) (s @ t)"
| m_alt1: "matches r s \<Longrightarrow> matches (Alt r q) s"
| m_alt2: "matches q s \<Longrightarrow> matches (Alt r q) s"
| m_star0: "matches (Star r) []"
| m_star: "matches r s \<Longrightarrow> matches (Star r) t \<Longrightarrow> matches (Star r) (s @ t)"

inductive_simps matches_simps [simp]:
  "matches Zero s" "matches One s" "matches (Cls p) s" "matches (Alt r q) s"
inductive_simps matches_Seq: "matches (Seq r q) s"
inductive_cases matches_StarE: "matches (Star r) s"

section \<open>The matcher\<close>

fun nullable :: "rx \<Rightarrow> bool" where
  "nullable Zero = False"
| "nullable One = True"
| "nullable (Cls p) = False"
| "nullable (Seq r q) = (nullable r \<and> nullable q)"
| "nullable (Alt r q) = (nullable r \<or> nullable q)"
| "nullable (Star r) = True"

text \<open>Smart constructors keep the derivatives small.\<close>

definition seq :: "rx \<Rightarrow> rx \<Rightarrow> rx" where
  "seq r q = (case r of Zero \<Rightarrow> Zero | One \<Rightarrow> q | _ \<Rightarrow> (case q of Zero \<Rightarrow> Zero | One \<Rightarrow> r | _ \<Rightarrow> Seq r q))"

definition alt :: "rx \<Rightarrow> rx \<Rightarrow> rx" where
  "alt r q = (case r of Zero \<Rightarrow> q | _ \<Rightarrow> (case q of Zero \<Rightarrow> r | _ \<Rightarrow> Alt r q))"

fun deriv :: "char \<Rightarrow> rx \<Rightarrow> rx" where
  "deriv c Zero = Zero"
| "deriv c One = Zero"
| "deriv c (Cls p) = (if p c then One else Zero)"
| "deriv c (Seq r q) =
     (if nullable r then alt (seq (deriv c r) q) (deriv c q) else seq (deriv c r) q)"
| "deriv c (Alt r q) = alt (deriv c r) (deriv c q)"
| "deriv c (Star r) = seq (deriv c r) (Star r)"

fun rx_fullmatch :: "rx \<Rightarrow> string \<Rightarrow> bool" where
  "rx_fullmatch r [] = nullable r"
| "rx_fullmatch r (c # s) = rx_fullmatch (deriv c r) s"

lemma nullable_iff: "nullable r \<longleftrightarrow> matches r []"
proof (induction r)
  case (Seq r q)
  then show ?case by (auto simp: matches_Seq intro: exI [of _ "[]"])
next
  case (Star r)
  show ?case by (simp add: m_star0)
qed simp_all

lemma matches_seq [simp]: "matches (seq r q) s \<longleftrightarrow> matches (Seq r q) s"
  by (cases r; cases q) (auto simp: seq_def matches_Seq)

lemma matches_alt [simp]: "matches (alt r q) s \<longleftrightarrow> matches r s \<or> matches q s"
  by (cases r; cases q) (simp_all add: alt_def)

lemma matches_star_Cons:
  assumes "matches (Star r) (c # s)"
  shows "\<exists>u v. s = u @ v \<and> matches r (c # u) \<and> matches (Star r) v"
  using assms
proof (induction "Star r" "c # s" rule: matches.induct)
  case (m_star u v)
  show ?case
  proof (cases u)
    case Nil
    with m_star show ?thesis by simp
  next
    case (Cons d u')
    with m_star show ?thesis by auto
  qed
qed

lemma deriv_iff: "matches (deriv c r) s \<longleftrightarrow> matches r (c # s)"
proof (induction r arbitrary: s)
  case (Seq r q)
  have seq_cons: "matches (Seq r q) (c # s) \<longleftrightarrow>
      (matches r [] \<and> matches q (c # s)) \<or> (\<exists>u v. s = u @ v \<and> matches r (c # u) \<and> matches q v)"
    by (auto simp: matches_Seq Cons_eq_append_conv)
  have "matches (Seq (deriv c r) q) s \<longleftrightarrow>
      (\<exists>u v. s = u @ v \<and> matches r (c # u) \<and> matches q v)"
    by (simp add: matches_Seq Seq.IH)
  then show ?case by (cases "matches r []") (simp_all add: seq_cons nullable_iff Seq.IH disj_commute)
next
  case (Star r)
  have "matches (Star r) (c # s) \<longleftrightarrow> (\<exists>u v. s = u @ v \<and> matches r (c # u) \<and> matches (Star r) v)"
    using matches_star_Cons matches.m_star [of r "c # u" v for u v] by fastforce
  with Star show ?case by (auto simp: matches_Seq)
qed auto

lemma rx_fullmatch_iff: "rx_fullmatch r s \<longleftrightarrow> matches r s"
  by (induction s arbitrary: r) (simp_all add: nullable_iff deriv_iff)

section \<open>Derived forms\<close>

definition chr :: "char \<Rightarrow> rx" where
  "chr c = Cls (\<lambda>d. d = c)"

definition one_of :: "string \<Rightarrow> rx" where
  "one_of cs = Cls (\<lambda>d. d \<in> set cs)"

fun lit :: "string \<Rightarrow> rx" where
  "lit [] = One"
| "lit [c] = chr c"
| "lit (c # d # s) = Seq (chr c) (lit (d # s))"

text \<open>A literal under \<^verbatim>\<open>re.IGNORECASE\<close>; the literals of the SDK are in lower case.\<close>

definition chr_ci :: "char \<Rightarrow> rx" where
  "chr_ci c = Cls (\<lambda>d. lower_char d = lower_char c)"

fun lit_ci :: "string \<Rightarrow> rx" where
  "lit_ci [] = One"
| "lit_ci [c] = chr_ci c"
| "lit_ci (c # d # s) = Seq (chr_ci c) (lit_ci (d # s))"

fun alts :: "rx list \<Rightarrow> rx" where
  "alts [] = Zero"
| "alts [r] = r"
| "alts (r # q # rs) = Alt r (alts (q # rs))"

fun seqs :: "rx list \<Rightarrow> rx" where
  "seqs [] = One"
| "seqs [r] = r"
| "seqs (r # q # rs) = Seq r (seqs (q # rs))"

definition plus :: "rx \<Rightarrow> rx" where
  "plus r = Seq r (Star r)"

definition opt :: "rx \<Rightarrow> rx" where
  "opt r = Alt One r"

primrec times :: "nat \<Rightarrow> rx \<Rightarrow> rx" where
  "times 0 r = One"
| "times (Suc n) r = Seq r (times n r)"

primrec up_to :: "nat \<Rightarrow> rx \<Rightarrow> rx" where
  "up_to 0 r = One"
| "up_to (Suc n) r = Alt One (Seq r (up_to n r))"

definition any_text :: rx where
  "any_text = Star (Cls (\<lambda>_. True))"

text \<open>\<^verbatim>\<open>re.search\<close>, for a pattern without anchors, and for one that starts with \<^verbatim>\<open>(?:^|[sep])\<close>.\<close>

definition rx_search :: "rx \<Rightarrow> string \<Rightarrow> bool" where
  "rx_search r s = rx_fullmatch (Seq any_text (Seq r any_text)) s"

definition after_boundary :: "(char \<Rightarrow> bool) \<Rightarrow> rx \<Rightarrow> string \<Rightarrow> bool" where
  "after_boundary sep r s =
     rx_fullmatch (Seq (Alt One (Seq any_text (Cls sep))) (Seq r any_text)) s"

lemma matches_any_text [simp]: "matches any_text s"
  unfolding any_text_def
proof (induction s)
  case (Cons c s)
  then show ?case using matches.m_star [of "Cls (\<lambda>_. True)" "[c]" s] by simp
qed (rule m_star0)

lemma rx_search_iff: "rx_search r s \<longleftrightarrow> (\<exists>u v w. s = u @ v @ w \<and> matches r v)"
  by (auto simp: rx_search_def rx_fullmatch_iff matches_Seq)

lemma after_boundary_iff:
  "after_boundary sep r s \<longleftrightarrow>
     (\<exists>u v w. s = u @ v @ w \<and> matches r v \<and> (u = [] \<or> sep (last u)))"
proof -
  have bol: "matches (Alt One (Seq any_text (Cls sep))) u \<longleftrightarrow> u = [] \<or> sep (last u)" for u
  proof (cases u rule: rev_cases)
    case (snoc xs x)
    then show ?thesis by (auto simp: matches_Seq)
  qed (simp add: matches_Seq)
  have "after_boundary sep r s \<longleftrightarrow>
      (\<exists>u t. s = u @ t \<and> (u = [] \<or> sep (last u)) \<and> (\<exists>v w. t = v @ w \<and> matches r v))"
    by (simp only: after_boundary_def rx_fullmatch_iff matches_Seq bol) (simp add: matches_Seq)
  then show ?thesis by blast
qed

lemma matches_star_iff:
  "matches (Star (Cls p)) s \<longleftrightarrow> (\<forall>c \<in> set s. p c)"
proof (induction s)
  case (Cons c s)
  have "matches (Star (Cls p)) (c # s) \<longleftrightarrow> p c \<and> matches (Star (Cls p)) s"
    using matches_star_Cons [of "Cls p" c s] matches.m_star [of "Cls p" "[c]" s] by auto
  with Cons show ?case by simp
qed (simp add: m_star0)

lemma matches_Seq_Cls:
  "matches (Seq (Cls p) r) s \<longleftrightarrow> (\<exists>c t. s = c # t \<and> p c \<and> matches r t)"
  by (auto simp: matches_Seq) (metis append_Cons append_Nil)

lemma matches_plus_cls: "matches (plus (Cls p)) s \<longleftrightarrow> s \<noteq> [] \<and> (\<forall>c \<in> set s. p c)"
  by (cases s) (auto simp: plus_def matches_Seq_Cls matches_star_iff)

lemma matches_times_cls: "matches (times n (Cls p)) s \<longleftrightarrow> length s = n \<and> (\<forall>c \<in> set s. p c)"
  by (induction n arbitrary: s) (auto simp: matches_Seq_Cls length_Suc_conv)

lemma matches_lit [simp]: "matches (lit p) s \<longleftrightarrow> s = p"
  by (induction p arbitrary: s rule: lit.induct) (auto simp: matches_Seq chr_def)

section \<open>The identifier patterns the contracts share\<close>

definition lower_or_digit :: "char \<Rightarrow> bool" where
  "lower_or_digit c = (is_lower c \<or> is_digit c)"

text \<open>\<^verbatim>\<open>^[a-z0-9]+(?:[._-][a-z0-9]+)*$\<close>\<close>

definition identifier_rx :: rx where
  "identifier_rx = Seq (plus (Cls lower_or_digit))
     (Star (Seq (one_of ''._-'') (plus (Cls lower_or_digit))))"

text \<open>\<^verbatim>\<open>^[0-9a-f]{40}$\<close> and \<^verbatim>\<open>^[0-9a-f]{64}$\<close>\<close>

definition git_revision_rx :: rx where
  "git_revision_rx = times 40 (Cls is_hex_lower)"

definition sha256_rx :: rx where
  "sha256_rx = times 64 (Cls is_hex_lower)"

lemma sha256_rx_iff: "rx_fullmatch sha256_rx s \<longleftrightarrow> length s = 64 \<and> (\<forall>c \<in> set s. is_hex_lower c)"
  by (simp add: sha256_rx_def rx_fullmatch_iff matches_times_cls)

lemma git_revision_rx_iff:
  "rx_fullmatch git_revision_rx s \<longleftrightarrow> length s = 40 \<and> (\<forall>c \<in> set s. is_hex_lower c)"
  by (simp add: git_revision_rx_def rx_fullmatch_iff matches_times_cls)

section \<open>Deciding without derivatives\<close>

text \<open>The identifier pattern as a scan: \<open>b\<close> says whether the text may end or a separator may follow.\<close>

fun identifier_scan :: "bool \<Rightarrow> string \<Rightarrow> bool" where
  "identifier_scan b [] = b"
| "identifier_scan b (c # s) =
     (if lower_or_digit c then identifier_scan True s else c \<in> set ''._-'' \<and> b \<and> identifier_scan False s)"

lemma identifier_scan_iff:
  "matches identifier_rx s \<longleftrightarrow> identifier_scan False s"
  "matches (Seq (Star (Cls lower_or_digit)) (Star (Seq (one_of ''._-'') (plus (Cls lower_or_digit))))) s \<longleftrightarrow> identifier_scan True s"
proof (induction s)
  case Nil
  show "matches identifier_rx [] \<longleftrightarrow> identifier_scan False []"
    "matches (Seq (Star (Cls lower_or_digit)) (Star (Seq (one_of ''._-'') (plus (Cls lower_or_digit))))) [] \<longleftrightarrow> identifier_scan True []"
    by (simp_all add: nullable_iff [symmetric] identifier_rx_def plus_def)
next
  case (Cons c s)
  have separator: "c \<in> set ''._-'' \<Longrightarrow> \<not> lower_or_digit c"
    by (auto simp: lower_or_digit_def is_lower_def is_digit_def between_def code_def)
  show "matches identifier_rx (c # s) \<longleftrightarrow> identifier_scan False (c # s)"
    using Cons by (simp add: deriv_iff [symmetric] identifier_rx_def plus_def matches_Seq)
  show "matches (Seq (Star (Cls lower_or_digit)) (Star (Seq (one_of ''._-'') (plus (Cls lower_or_digit))))) (c # s)
      \<longleftrightarrow> identifier_scan True (c # s)"
    using Cons separator
    by (simp add: deriv_iff [symmetric] identifier_rx_def plus_def matches_Seq one_of_def)
qed

text \<open>Every text a pattern matches holds a character of \<open>P\<close>.\<close>

fun forces :: "(char \<Rightarrow> bool) \<Rightarrow> rx \<Rightarrow> bool" where
  "forces P Zero = True"
| "forces P One = False"
| "forces P (Cls p) = (\<forall>c. p c \<longrightarrow> P c)"
| "forces P (Seq r q) = (forces P r \<or> forces P q)"
| "forces P (Alt r q) = (forces P r \<and> forces P q)"
| "forces P (Star r) = False"

lemma forces_char: "forces P r \<Longrightarrow> matches r s \<Longrightarrow> \<exists>c \<in> set s. P c"
  by (induction r arbitrary: s) (auto simp: matches_Seq, (meson UnI1 UnI2)+)

lemma forces_search:
  assumes "forces P r" "\<forall>c \<in> set s. \<not> P c"
  shows "\<not> rx_search r s" "\<not> after_boundary sep r s" "\<not> rx_fullmatch r s"
proof -
  have part: "\<not> matches r v" if "s = u @ v @ w" for u v w
    using that assms(2) forces_char [OF assms(1), of v] by auto
  then show "\<not> rx_search r s" "\<not> after_boundary sep r s" by (auto simp: rx_search_iff after_boundary_iff)
  show "\<not> rx_fullmatch r s" using part [of "[]" s "[]"] by (simp add: rx_fullmatch_iff)
qed

end
