(* ===== verification/Sha256.thy ===== *)
theory Sha256
  imports Regex "HOL-Library.Word"
begin

unbundle bit_operations_syntax

text \<open>
  \<^verbatim>\<open>hashlib.sha256(...).hexdigest()\<close> of the standard library, as FIPS 180-4 defines it:
  padding, message schedule, compression on 32-bit words that wrap around, and the lower
  case hexadecimal digest. Also \<^verbatim>\<open>str.encode("utf-8")\<close> for the code points below 256.
  The lemmas: the padding fills whole blocks and is injective, and every digest has the
  form that the contracts' \<open>Sha256\<close> type demands.
\<close>

type_synonym byte = "8 word"
type_synonym w32 = "32 word"

section \<open>Encoding text as bytes\<close>

definition utf8_char :: "char \<Rightarrow> byte list" where
  "utf8_char c =
     (let n = code c in
      if n < 128 then [of_nat n] else [of_nat (192 + n div 64), of_nat (128 + n mod 64)])"

definition utf8 :: "string \<Rightarrow> byte list" where
  "utf8 s = concat (map utf8_char s)"

lemma utf8_append [simp]: "utf8 (s @ t) = utf8 s @ utf8 t"
  by (simp add: utf8_def)

lemma utf8_simps [simp]: "utf8 [] = []" "utf8 (c # s) = utf8_char c @ utf8 s"
  by (simp_all add: utf8_def)

section \<open>The hash function\<close>

text \<open>The constants of the standard, eight hexadecimal digits per word.\<close>

definition hex_digit_value :: "char \<Rightarrow> nat" where
  "hex_digit_value c = (if is_digit c then code c - 48 else code c - 87)"

fun hex_words :: "string \<Rightarrow> w32 list" where
  "hex_words (a # b # c # d # e # f # g # h # rest) =
     of_nat (foldl (\<lambda>n x. 16 * n + hex_digit_value x) 0 [a, b, c, d, e, f, g, h]) # hex_words rest"
| "hex_words _ = []"

definition round_constants :: "w32 list" where
  "round_constants = concat (map hex_words
     [''428a2f9871374491b5c0fbcfe9b5dba53956c25b59f111f1923f82a4ab1c5ed5'',
      ''d807aa9812835b01243185be550c7dc372be5d7480deb1fe9bdc06a7c19bf174'',
      ''e49b69c1efbe47860fc19dc6240ca1cc2de92c6f4a7484aa5cb0a9dc76f988da'',
      ''983e5152a831c66db00327c8bf597fc7c6e00bf3d5a7914706ca635114292967'',
      ''27b70a852e1b21384d2c6dfc53380d13650a7354766a0abb81c2c92e92722c85'',
      ''a2bfe8a1a81a664bc24b8b70c76c51a3d192e819d6990624f40e3585106aa070'',
      ''19a4c1161e376c082748774c34b0bcb5391c0cb34ed8aa4a5b9cca4f682e6ff3'',
      ''748f82ee78a5636f84c878148cc7020890befffaa4506cebbef9a3f7c67178f2''])"

definition initial_hash :: "w32 list" where
  "initial_hash = hex_words ''6a09e667bb67ae853c6ef372a54ff53a510e527f9b05688c1f83d9ab5be0cd19''"

definition rotr :: "nat \<Rightarrow> w32 \<Rightarrow> w32" where
  "rotr n x = drop_bit n x OR push_bit (32 - n) x"

definition ch :: "w32 \<Rightarrow> w32 \<Rightarrow> w32 \<Rightarrow> w32" where
  "ch x y z = (x AND y) XOR (NOT x AND z)"

definition maj :: "w32 \<Rightarrow> w32 \<Rightarrow> w32 \<Rightarrow> w32" where
  "maj x y z = (x AND y) XOR (x AND z) XOR (y AND z)"

definition big_sigma0 :: "w32 \<Rightarrow> w32" where
  "big_sigma0 x = rotr 2 x XOR rotr 13 x XOR rotr 22 x"

definition big_sigma1 :: "w32 \<Rightarrow> w32" where
  "big_sigma1 x = rotr 6 x XOR rotr 11 x XOR rotr 25 x"

definition small_sigma0 :: "w32 \<Rightarrow> w32" where
  "small_sigma0 x = rotr 7 x XOR rotr 18 x XOR drop_bit 3 x"

definition small_sigma1 :: "w32 \<Rightarrow> w32" where
  "small_sigma1 x = rotr 17 x XOR rotr 19 x XOR drop_bit 10 x"

text \<open>The length in bits, as eight big-endian bytes.\<close>

fun big_endian :: "nat \<Rightarrow> nat \<Rightarrow> byte list" where
  "big_endian 0 n = []"
| "big_endian (Suc k) n = big_endian k (n div 256) @ [of_nat (n mod 256)]"

definition zero_count :: "nat \<Rightarrow> nat" where
  "zero_count n = (119 - n mod 64) mod 64"

definition pad :: "byte list \<Rightarrow> byte list" where
  "pad bs = bs @ 0x80 # replicate (zero_count (length bs)) 0 @ big_endian 8 (8 * length bs)"

fun words_of :: "byte list \<Rightarrow> w32 list" where
  "words_of (a # b # c # d # bs) =
     (push_bit 24 (ucast a) OR push_bit 16 (ucast b) OR push_bit 8 (ucast c) OR ucast d) # words_of bs"
| "words_of _ = []"

text \<open>The message schedule, built backwards: the newest word is the head of the list.\<close>

fun extend_schedule :: "nat \<Rightarrow> w32 list \<Rightarrow> w32 list" where
  "extend_schedule 0 ws = ws"
| "extend_schedule (Suc n) ws =
     extend_schedule n ((small_sigma1 (ws ! 1) + ws ! 6 + small_sigma0 (ws ! 14) + ws ! 15) # ws)"

fun rounds :: "(w32 \<times> w32) list \<Rightarrow> w32 list \<Rightarrow> w32 list" where
  "rounds ((k, w) # kws) [a, b, c, d, e, f, g, h] =
     (let t1 = h + big_sigma1 e + ch e f g + k + w; t2 = big_sigma0 a + maj a b c
      in rounds kws [t1 + t2, a, b, c, d + t1, e, f, g])"
| "rounds _ hs = hs"

definition compress :: "w32 list \<Rightarrow> w32 list \<Rightarrow> w32 list" where
  "compress hs block =
     map2 (+) hs (rounds (zip round_constants (rev (extend_schedule 48 (rev block)))) hs)"

function hash_blocks :: "w32 list \<Rightarrow> w32 list \<Rightarrow> w32 list" where
  "hash_blocks hs ws =
     (if length ws < 16 then hs else hash_blocks (compress hs (take 16 ws)) (drop 16 ws))"
  by pat_completeness auto
termination
  by (relation "measure (\<lambda>(hs, ws). length ws)") auto

declare hash_blocks.simps [simp del]

definition hex_digit :: "nat \<Rightarrow> char" where
  "hex_digit n = char_of (if n < 10 then 48 + n else 87 + n)"

definition hex_word :: "w32 \<Rightarrow> string" where
  "hex_word w = map (\<lambda>k. hex_digit (unat (drop_bit k w AND 15))) [28, 24, 20, 16, 12, 8, 4, 0]"

definition sha256 :: "byte list \<Rightarrow> string" where
  "sha256 bs = concat (map hex_word (hash_blocks initial_hash (words_of (pad bs))))"

section \<open>The form of a digest\<close>

lemma length_hex_word [simp]: "length (hex_word w) = 8"
  by (simp add: hex_word_def)

lemma hex_digit_ok: "n < 16 \<Longrightarrow> is_hex_lower (hex_digit n)"
  by (simp add: hex_digit_def is_hex_lower_def char_class_defs code_def)

lemma unat_and_15: "unat (w AND 15 :: w32) < 16"
proof -
  have "w AND 15 \<le> (15 :: w32)" by (rule word_and_le1)
  then have "unat (w AND 15) \<le> unat (15 :: w32)" by (simp add: word_le_nat_alt)
  then show ?thesis by simp
qed

lemma hex_word_ok: "c \<in> set (hex_word w) \<Longrightarrow> is_hex_lower c"
  by (auto simp: hex_word_def intro!: hex_digit_ok unat_and_15)

lemma length_rounds [simp]: "length (rounds kws hs) = length hs"
  by (induction kws hs rule: rounds.induct) (simp_all add: Let_def)

lemma length_compress [simp]: "length (compress hs block) = length hs"
  by (simp add: compress_def)

lemma length_hash_blocks [simp]: "length (hash_blocks hs ws) = length hs"
proof (induction hs ws rule: hash_blocks.induct)
  case (1 hs ws)
  then show ?case by (subst hash_blocks.simps) simp
qed

lemma length_sha256 [simp]: "length (sha256 bs) = 64"
proof -
  have "length (concat (map hex_word ws)) = 8 * length ws" for ws
    by (induction ws) simp_all
  then show ?thesis by (simp add: sha256_def initial_hash_def)
qed

lemma sha256_chars: "c \<in> set (sha256 bs) \<Longrightarrow> is_hex_lower c"
  by (auto simp: sha256_def dest: hex_word_ok)

lemma sha256_is_digest [simp]: "rx_fullmatch sha256_rx (sha256 bs)"
  by (simp add: sha256_rx_iff sha256_chars)

section \<open>The padding\<close>

lemma length_big_endian [simp]: "length (big_endian k n) = k"
  by (induction k arbitrary: n) simp_all

lemma zero_count_eq:
  "zero_count n = (if n mod 64 \<le> 55 then 55 - n mod 64 else 119 - n mod 64)"
proof (cases "n mod 64 \<le> 55")
  case True
  then have "119 - n mod 64 = (55 - n mod 64) + 64" by simp
  then have "zero_count n = (55 - n mod 64) mod 64" by (simp only: zero_count_def mod_add_self2)
  with True show ?thesis by simp
next
  case False
  then have "119 - n mod 64 < 64" by simp
  with False show ?thesis by (simp add: zero_count_def)
qed

lemma pad_whole_blocks: "length (pad bs) mod 64 = 0"
proof -
  let ?r = "length bs mod 64"
  have "?r < 64" by simp
  then have "?r + 9 + zero_count (length bs) = 64 \<or> ?r + 9 + zero_count (length bs) = 128"
    by (simp add: zero_count_eq)
  then have "(?r + 9 + zero_count (length bs)) mod 64 = 0"
    by (metis mod_self mult_2 numeral_Bit0 mod_add_self2)
  moreover have "length (pad bs) = length bs + 9 + zero_count (length bs)"
    by (simp add: pad_def)
  ultimately show ?thesis by (metis mod_add_left_eq add.assoc)
qed

lemma big_endian_inject:
  "m < 256 ^ k \<Longrightarrow> n < 256 ^ k \<Longrightarrow> big_endian k m = big_endian k n \<Longrightarrow> m = n"
proof (induction k arbitrary: m n)
  case (Suc k)
  have "(of_nat (m mod 256) :: byte) = of_nat (n mod 256)" using Suc.prems(3) by simp
  then have "m mod 256 = n mod 256" by (simp add: word_of_nat_eq_iff take_bit_eq_mod)
  moreover have "m div 256 = n div 256"
    using Suc.prems Suc.IH [of "m div 256" "n div 256"] by (simp add: less_mult_imp_div_less mult.commute)
  ultimately show ?case by (metis div_mult_mod_eq)
qed simp

lemma pad_inject:
  assumes "length xs < 2 ^ 61" "length ys < 2 ^ 61" "pad xs = pad ys"
  shows "xs = ys"
proof -
  have last8: "drop (length (pad bs) - 8) (pad bs) = big_endian 8 (8 * length bs)" for bs
    by (simp add: pad_def)
  have "big_endian 8 (8 * length xs) = big_endian 8 (8 * length ys)"
    using last8 [of xs] last8 [of ys] assms(3) by metis
  then have "8 * length xs = 8 * length ys"
    by (rule big_endian_inject [rotated 2]) (use assms(1,2) in simp_all)
  then have "length xs = length ys" by simp
  with assms(3) show ?thesis by (simp add: pad_def)
qed

end
