(* ===== verification/Json.thy ===== *)
theory Json
  imports Sha256 "HOL-Library.Char_ord" "HOL-Library.List_Lexorder" "HOL-Library.Multiset"
begin

text \<open>
  \<^verbatim>\<open>core/digests.py\<close>: canonical JSON (\<^verbatim>\<open>json.dumps(value, sort_keys=True, separators=(",", ":"))\<close>,
  with the standard library's ASCII escapes) and the two digests built on it. The main lemma,
  \<open>dumps_inject\<close>, is that canonical JSON is unambiguous: equal texts come from values equal up
  to the order of object keys. The content digest of a candidate frames path and digest with
  NUL bytes; \<open>content_preimage_inject\<close> says when that framing is unambiguous.

  A finite Python \<open>float\<close> is its \<^verbatim>\<open>repr\<close>, the shortest decimal text that reads back to it, which is also
  what \<^verbatim>\<open>json.dumps\<close> writes; \<open>float_text\<close> is the type of such texts, and \<open>Floats\<close> computes them.
\<close>

definition number_char :: "char \<Rightarrow> bool" where
  "number_char c = (is_digit c \<or> c \<in> set ''+-.e'')"

definition is_float_text :: "string \<Rightarrow> bool" where
  "is_float_text s =
     (s \<noteq> [] \<and> (is_digit (hd s) \<or> hd s = CHR ''-'') \<and> list_all number_char s \<and> (\<exists>c \<in> set s. c \<in> set ''.e''))"

typedef float_text = "{s. is_float_text s}"
  morphisms float_chars float_of_chars
proof -
  have "is_float_text ''0.0''" by (simp add: is_float_text_def number_char_def char_class_defs code_def)
  then show ?thesis by blast
qed

setup_lifting type_definition_float_text

instantiation float_text :: equal
begin

definition equal_float_text :: "float_text \<Rightarrow> float_text \<Rightarrow> bool" where
  "equal_float_text a b = (float_chars a = float_chars b)"

instance by standard (simp add: equal_float_text_def float_chars_inject)

end

datatype json =
    JNull
  | JBool bool
  | JInt int
  | JStr string
  | JFloat float_text
  | JArr "json list"
  | JObj "(string \<times> json) list"

section \<open>Serialisation\<close>

definition hex4 :: "nat \<Rightarrow> string" where
  "hex4 n = map hex_digit [n div 4096 mod 16, n div 256 mod 16, n div 16 mod 16, n mod 16]"

definition escape_char :: "char \<Rightarrow> string" where
  "escape_char c =
     (let n = code c in
      if n = 34 then [CHR 0x5C, CHR 0x22]
      else if n = 92 then [CHR 0x5C, CHR 0x5C]
      else if n = 10 then CHR 0x5C # ''n''
      else if n = 13 then CHR 0x5C # ''r''
      else if n = 9 then CHR 0x5C # ''t''
      else if n = 12 then CHR 0x5C # ''f''
      else if n = 8 then CHR 0x5C # ''b''
      else if 32 \<le> n \<and> n \<le> 126 then [c]
      else CHR 0x5C # CHR ''u'' # hex4 n)"

definition quote :: "string \<Rightarrow> string" where
  "quote s = CHR 0x22 # concat (map escape_char s) @ [CHR 0x22]"

fun show_nat :: "nat \<Rightarrow> string" where
  "show_nat n = (if n < 10 then [char_of (48 + n)] else show_nat (n div 10) @ [char_of (48 + n mod 10)])"

declare show_nat.simps [simp del]

definition show_int :: "int \<Rightarrow> string" where
  "show_int i = (if i < 0 then CHR ''-'' # show_nat (nat (- i)) else show_nat (nat i))"

definition sort_items :: "(string \<times> 'a) list \<Rightarrow> (string \<times> 'a) list" where
  "sort_items = sort_key fst"

definition entry :: "string \<times> string \<Rightarrow> string" where
  "entry kv = quote (fst kv) @ CHR '':'' # snd kv"

fun dumps :: "json \<Rightarrow> string" where
  "dumps JNull = ''null''"
| "dumps (JBool b) = (if b then ''true'' else ''false'')"
| "dumps (JInt i) = show_int i"
| "dumps (JStr s) = quote s"
| "dumps (JFloat t) = float_chars t"
| "dumps (JArr vs) = CHR ''['' # join_char (CHR '','') (map dumps vs) @ '']''"
| "dumps (JObj kvs) =
     CHR ''{'' # join_char (CHR '','') (map entry (sort_items (map (\<lambda>(k, v). (k, dumps v)) kvs))) @ ''}''"

definition canonical_json_sha256 :: "json \<Rightarrow> string" where
  "canonical_json_sha256 v = sha256 (utf8 (dumps v))"

text \<open>The framing of \<open>candidate_content_sha256\<close>: path, NUL, digest, NUL for every file.\<close>

fun content_preimage :: "(string \<times> string) list \<Rightarrow> byte list" where
  "content_preimage [] = []"
| "content_preimage ((path, digest) # fs) = utf8 path @ 0 # utf8 digest @ 0 # content_preimage fs"

definition candidate_content_sha256 :: "(string \<times> string) list \<Rightarrow> string" where
  "candidate_content_sha256 fs = sha256 (content_preimage fs)"

lemma canonical_digest_ok [simp]: "rx_fullmatch sha256_rx (canonical_json_sha256 v)"
  by (simp add: canonical_json_sha256_def)

lemma length_canonical_digest [simp]: "length (canonical_json_sha256 v) = 64"
  by (simp add: canonical_json_sha256_def)

lemma canonical_digest_chars: "c \<in> set (canonical_json_sha256 v) \<Longrightarrow> is_hex_lower c"
  by (simp add: canonical_json_sha256_def sha256_chars)

lemma content_digest_ok [simp]: "rx_fullmatch sha256_rx (candidate_content_sha256 fs)"
  by (simp add: candidate_content_sha256_def)

section \<open>UTF-8 is injective\<close>

lemma utf8_char_ne [simp]: "utf8_char c \<noteq> []"
  by (simp add: utf8_char_def Let_def)

lemma of_nat_byte_inject: "m < 256 \<Longrightarrow> n < 256 \<Longrightarrow> (of_nat m :: byte) = of_nat n \<longleftrightarrow> m = n"
  by (simp add: word_of_nat_eq_iff take_bit_eq_mod)

lemma utf8_char_prefix_free:
  assumes "utf8_char c @ xs = utf8_char d @ ys"
  shows "c = d \<and> xs = ys"
proof -
  have bound: "code c < 256" "code d < 256" by simp_all
  then have hi: "192 + code c div 64 < 256" "192 + code d div 64 < 256" by linarith+
  consider "code c < 128" "code d < 128" | "code c < 128" "\<not> code d < 128"
    | "\<not> code c < 128" "code d < 128" | "\<not> code c < 128" "\<not> code d < 128" by blast
  then show ?thesis
  proof cases
    case 1
    with assms show ?thesis by (simp add: utf8_char_def Let_def of_nat_byte_inject)
  next
    case 2
    with assms have "(of_nat (code c) :: byte) = of_nat (192 + code d div 64)"
      by (simp add: utf8_char_def Let_def)
    with 2 bound hi show ?thesis by (subst (asm) of_nat_byte_inject) simp_all
  next
    case 3
    with assms have "(of_nat (192 + code c div 64) :: byte) = of_nat (code d)"
      by (simp add: utf8_char_def Let_def)
    with 3 bound hi show ?thesis by (subst (asm) of_nat_byte_inject) simp_all
  next
    case 4
    with assms have "(of_nat (192 + code c div 64) :: byte) = of_nat (192 + code d div 64)"
      and m: "(of_nat (128 + code c mod 64) :: byte) = of_nat (128 + code d mod 64)"
      and rest: "xs = ys"
      by (simp_all add: utf8_char_def Let_def)
    then have "code c div 64 = code d div 64" using hi by (subst (asm) of_nat_byte_inject) simp_all
    moreover have "code c mod 64 = code d mod 64"
      using m mod_less_divisor [of 64 "code c"] mod_less_divisor [of 64 "code d"]
      by (subst (asm) of_nat_byte_inject) auto
    ultimately have "code c = code d" by (metis div_mult_mod_eq)
    with rest show ?thesis by simp
  qed
qed

lemma utf8_inject [simp]: "utf8 s = utf8 t \<longleftrightarrow> s = t"
proof
  assume "utf8 s = utf8 t"
  then show "s = t"
  proof (induction s arbitrary: t)
    case Nil
    then show ?case by (cases t) simp_all
  next
    case (Cons c s)
    then show ?case by (cases t) (auto dest: utf8_char_prefix_free)
  qed
qed simp

section \<open>Framing by NUL bytes\<close>

definition nul_free :: "string \<Rightarrow> bool" where
  "nul_free s = (CHR 0x00 \<notin> set s)"

lemma nul_free_simps [simp]: "nul_free []" "nul_free (c # s) \<longleftrightarrow> c \<noteq> CHR 0x00 \<and> nul_free s"
  by (auto simp: nul_free_def)

lemma code_zero: "code c = 0 \<longleftrightarrow> c = CHR 0x00"
proof -
  have "code (CHR 0x00) = 0" by (simp add: code_def)
  then show ?thesis by (metis code_inject)
qed

lemma of_nat_byte_zero: "n < 256 \<Longrightarrow> (of_nat n :: byte) = 0 \<longleftrightarrow> n = 0"
  using of_nat_byte_inject [of n 0] by simp

lemma utf8_nul_free: "nul_free s \<Longrightarrow> 0 \<notin> set (utf8 s)"
proof (induction s)
  case (Cons c s)
  have "code c < 256" by simp
  then have "192 + code c div 64 < 256" by linarith
  moreover have "128 + code c mod 64 < 256" by linarith
  ultimately have "0 \<notin> set (utf8_char c)"
    using Cons.prems of_nat_byte_zero [of "code c"] of_nat_byte_zero [of "192 + code c div 64"]
      of_nat_byte_zero [of "128 + code c mod 64"]
    by (auto simp: utf8_char_def Let_def code_zero)
  with Cons show ?case by auto
qed simp

lemma utf8_nul: "utf8 (CHR 0x00 # s) = 0 # utf8 s"
  by (simp add: utf8_char_def code_def)

lemma framed_inject:
  "0 \<notin> set a \<Longrightarrow> 0 \<notin> set b \<Longrightarrow> a @ (0::byte) # xs = b @ 0 # ys \<Longrightarrow> a = b \<and> xs = ys"
proof (induction a arbitrary: b)
  case Nil
  then show ?case by (cases b) auto
next
  case (Cons x a)
  then show ?case by (cases b) auto
qed

lemma content_preimage_inject:
  assumes "\<forall>(p, d) \<in> set fs. nul_free p \<and> nul_free d" "\<forall>(p, d) \<in> set gs. nul_free p \<and> nul_free d"
    and "content_preimage fs = content_preimage gs"
  shows "fs = gs"
  using assms
proof (induction fs arbitrary: gs rule: content_preimage.induct)
  case 1
  then show ?case by (cases gs) auto
next
  case (2 p d fs)
  then obtain q e gs' where gs: "gs = (q, e) # gs'" by (cases gs) auto
  have free: "0 \<notin> set (utf8 p)" "0 \<notin> set (utf8 q)" "0 \<notin> set (utf8 d)" "0 \<notin> set (utf8 e)"
    using 2(2,3) by (simp_all add: gs utf8_nul_free)
  have eq: "utf8 p @ 0 # utf8 d @ 0 # content_preimage fs = utf8 q @ 0 # utf8 e @ 0 # content_preimage gs'"
    using 2(4) by (simp add: gs)
  note outer = framed_inject [OF free(1,2) eq]
  note inner = framed_inject [OF free(3,4) conjunct2 [OF outer]]
  have "fs = gs'" using 2(2,3) inner by (intro "2.IH") (simp_all add: gs)
  with outer inner show ?case by (simp add: gs)
qed

section \<open>Canonical JSON is unambiguous\<close>

subsection \<open>Strings\<close>

lemma code_hex_digit: "n < 16 \<Longrightarrow> code (hex_digit n) = (if n < 10 then 48 + n else 87 + n)"
  by (simp add: hex_digit_def code_char_of)

lemma hex_digit_inject: "m < 16 \<Longrightarrow> n < 16 \<Longrightarrow> hex_digit m = hex_digit n \<longleftrightarrow> m = n"
  by (simp add: code_hex_digit flip: code_inject)

lemma hex4_inject:
  assumes "m < 256" "n < 256" "hex4 m = hex4 n"
  shows "m = n"
proof -
  have "m div 16 mod 16 = n div 16 mod 16" "m mod 16 = n mod 16"
    using assms(3) by (simp_all add: hex4_def hex_digit_inject)
  moreover have "m div 16 < 16" "n div 16 < 16" using assms(1,2) by linarith+
  ultimately have "m div 16 = n div 16" "m mod 16 = n mod 16" by simp_all
  then show ?thesis by (metis div_mult_mod_eq)
qed

lemma length_hex4 [simp]: "length (hex4 n) = 4"
  by (simp add: hex4_def)

text \<open>The escapes with a letter, as a table.\<close>

definition short_escape :: "nat \<Rightarrow> char option" where
  "short_escape n =
     (if n = 34 then Some (CHR 0x22) else if n = 92 then Some (CHR 0x5C)
      else if n = 10 then Some (CHR ''n'') else if n = 13 then Some (CHR ''r'')
      else if n = 9 then Some (CHR ''t'') else if n = 12 then Some (CHR ''f'')
      else if n = 8 then Some (CHR ''b'') else None)"

lemma escape_char_alt:
  "escape_char c =
     (case short_escape (code c) of
        Some e \<Rightarrow> [CHR 0x5C, e]
      | None \<Rightarrow> if 32 \<le> code c \<and> code c \<le> 126 then [c] else CHR 0x5C # CHR ''u'' # hex4 (code c))"
  by (simp add: escape_char_def short_escape_def Let_def)

lemma short_escape_inject: "short_escape m = Some e \<Longrightarrow> short_escape n = Some e \<Longrightarrow> m = n"
  by (auto simp: short_escape_def split: if_splits)

lemma short_escape_not_u: "short_escape m \<noteq> Some (CHR ''u'')"
  by (simp add: short_escape_def)

lemma plain_not_special:
  "short_escape (code c) = None \<Longrightarrow> c \<noteq> CHR 0x5C \<and> c \<noteq> CHR 0x22"
  by (auto simp: short_escape_def code_def)

lemma escape_char_prefix_free:
  assumes "escape_char c @ xs = escape_char d @ ys"
  shows "c = d \<and> xs = ys"
proof (cases "short_escape (code c)")
  case None
  show ?thesis
  proof (cases "short_escape (code d)")
    case None' : None
    have "code c = code d \<and> xs = ys" if "hex4 (code c) @ xs = hex4 (code d) @ ys"
      using that hex4_inject [of "code c" "code d"] by (simp add: append_eq_append_conv)
    with None None' assms show ?thesis
      using plain_not_special [OF None] plain_not_special [OF None']
      by (auto simp: escape_char_alt split: if_splits)
  next
    case (Some e)
    with None assms plain_not_special [OF None] short_escape_not_u [of "code d"] show ?thesis
      by (auto simp: escape_char_alt split: if_splits)
  qed
next
  case (Some e)
  show ?thesis
  proof (cases "short_escape (code d)")
    case None
    with Some assms plain_not_special [OF None] short_escape_not_u [of "code c"] show ?thesis
      by (auto simp: escape_char_alt split: if_splits)
  next
    case (Some e')
    with \<open>short_escape (code c) = Some e\<close> assms have "e = e'" "xs = ys"
      by (simp_all add: escape_char_alt)
    with Some \<open>short_escape (code c) = Some e\<close> show ?thesis
      using short_escape_inject [of "code c" e "code d"] by simp
  qed
qed

lemma escape_char_head: "\<exists>e es. escape_char c = e # es \<and> e \<noteq> CHR 0x22"
  using plain_not_special [of c] by (auto simp: escape_char_alt split: option.splits)

lemma escaped_prefix_free:
  "concat (map escape_char a) @ CHR 0x22 # xs = concat (map escape_char b) @ CHR 0x22 # ys \<Longrightarrow>
     a = b \<and> xs = ys"
proof (induction a arbitrary: b)
  case Nil
  have no: "escape_char d @ w \<noteq> CHR 0x22 # u" for d u w using escape_char_head [of d] by auto
  from Nil no [THEN not_sym] show ?case by (cases b) auto
next
  case (Cons c a)
  show ?case
  proof (cases b)
    case Nil
    with Cons.prems escape_char_head [of c] show ?thesis by auto
  next
    case b: (Cons d b')
    from Cons.prems have
      eq: "escape_char c @ concat (map escape_char a) @ CHR 0x22 # xs =
           escape_char d @ concat (map escape_char b') @ CHR 0x22 # ys" by (simp add: b)
    note step = escape_char_prefix_free [OF eq]
    from Cons.IH [OF conjunct2 [OF step]] step show ?thesis by (simp add: b)
  qed
qed

lemma quote_prefix_free: "quote a @ xs = quote b @ ys \<Longrightarrow> a = b \<and> xs = ys"
  using escaped_prefix_free [of a xs b ys] by (simp only: quote_def) simp

subsection \<open>Integers\<close>

definition digit_value :: "char \<Rightarrow> nat" where
  "digit_value c = code c - 48"

definition read_nat :: "string \<Rightarrow> nat" where
  "read_nat s = foldl (\<lambda>a c. 10 * a + digit_value c) 0 s"

lemma digit_char: "d < 10 \<Longrightarrow> is_digit (char_of (48 + d)) \<and> digit_value (char_of (48 + d)) = d"
  using code_char_of [of "48 + d"] by (simp add: char_class_defs digit_value_def) (simp add: code_def)

lemma show_nat_props: "(\<forall>c \<in> set (show_nat n). is_digit c) \<and> show_nat n \<noteq> [] \<and> read_nat (show_nat n) = n"
proof (induction n rule: show_nat.induct)
  case (1 n)
  show ?case
  proof (cases "n < 10")
    case True
    then show ?thesis using digit_char by (subst (1 2 3) show_nat.simps) (simp add: read_nat_def)
  next
    case False
    have "show_nat n = show_nat (n div 10) @ [char_of (48 + n mod 10)]"
      using False by (subst show_nat.simps) simp
    then show ?thesis
      using 1 [OF False] digit_char [of "n mod 10"] by (simp add: read_nat_def)
  qed
qed

definition delimited :: "string \<Rightarrow> bool" where
  "delimited s = (s = [] \<or> hd s \<in> {CHR '','', CHR '']'', CHR ''}''})"

lemma delimited_Cons [simp]: "delimited (c # s) \<longleftrightarrow> c \<in> {CHR '','', CHR '']'', CHR ''}''}"
  by (simp add: delimited_def)

lemma delimited_no_digit: "delimited s \<Longrightarrow> takeWhile is_digit s = []"
  by (cases s) (auto simp: char_class_defs code_def)

lemma digits_then_delimited:
  assumes "\<forall>c \<in> set a. is_digit c" "\<forall>c \<in> set b. is_digit c" "delimited s" "delimited t" "a @ s = b @ t"
  shows "a = b \<and> s = t"
proof -
  have "takeWhile is_digit (a @ s) = a" "takeWhile is_digit (b @ t) = b"
    using assms(1-4) by (simp_all add: delimited_no_digit takeWhile_append2)
  with assms(5) have "a = b" by simp
  with assms(5) show ?thesis by simp
qed

lemma show_nat_not_minus: "show_nat n = c # s \<Longrightarrow> c \<noteq> CHR ''-''"
  using show_nat_props [of n] by (auto simp: char_class_defs code_def)

lemma show_nat_delimited:
  "show_nat m @ s = show_nat n @ t \<Longrightarrow> delimited s \<Longrightarrow> delimited t \<Longrightarrow> m = n \<and> s = t"
  using digits_then_delimited [of "show_nat m" "show_nat n" s t] show_nat_props by metis

lemma show_nat_minus: "show_nat n @ u \<noteq> CHR ''-'' # v"
  using show_nat_props [of n] show_nat_not_minus [of n] by (cases "show_nat n") auto

lemma show_int_delimited:
  assumes eq: "show_int i @ s = show_int j @ t" and d: "delimited s" "delimited t"
  shows "i = j \<and> s = t"
proof (cases "i < 0"; cases "j < 0")
  assume "i < 0" "j < 0"
  with eq have "show_nat (nat (- i)) @ s = show_nat (nat (- j)) @ t" by (simp add: show_int_def)
  from show_nat_delimited [OF this d] \<open>i < 0\<close> \<open>j < 0\<close> show ?thesis by auto
next
  assume "\<not> i < 0" "\<not> j < 0"
  with eq have "show_nat (nat i) @ s = show_nat (nat j) @ t" by (simp add: show_int_def)
  from show_nat_delimited [OF this d] \<open>\<not> i < 0\<close> \<open>\<not> j < 0\<close> show ?thesis by auto
next
  assume "i < 0" "\<not> j < 0"
  with eq show_nat_minus [of "nat j" t, THEN not_sym] show ?thesis by (simp add: show_int_def)
next
  assume "\<not> i < 0" "j < 0"
  with eq show_nat_minus [of "nat i" s] show ?thesis by (simp add: show_int_def)
qed

lemma show_int_head: "\<exists>c s. show_int i = c # s \<and> (is_digit c \<or> c = CHR ''-'')"
proof -
  have "\<exists>c s. show_nat n = c # s \<and> is_digit c" for n
    using show_nat_props [of n] by (cases "show_nat n") auto
  from this [of "nat i"] show ?thesis by (cases "i < 0") (auto simp: show_int_def)
qed

text \<open>A number ends where its characters end, and the text of an integer is none of a float.\<close>

lemma float_text_ok: "is_float_text (float_chars t)"
  using float_chars [of t] by simp

lemma delimited_no_number: "delimited s \<Longrightarrow> takeWhile number_char s = []"
  by (cases s) (auto simp: number_char_def char_class_defs code_def)

lemma numbers_then_delimited:
  assumes "list_all number_char a" "list_all number_char b" "delimited s" "delimited t" "a @ s = b @ t"
  shows "a = b \<and> s = t"
proof -
  have "takeWhile number_char (a @ s) = a" "takeWhile number_char (b @ t) = b"
    using assms(1-4) by (simp_all add: delimited_no_number takeWhile_append2 list_all_iff)
  with assms(5) have "a = b" by simp
  with assms(5) show ?thesis by simp
qed

lemma show_int_chars: "\<forall>c \<in> set (show_int i). is_digit c \<or> c = CHR ''-''"
  using show_nat_props by (auto simp: show_int_def)

lemma show_int_number: "list_all number_char (show_int i)"
  using show_int_chars [of i] by (auto simp: list_all_iff number_char_def)

lemma show_int_not_float: "\<not> is_float_text (show_int i)"
  using show_int_chars [of i] by (auto simp: is_float_text_def char_class_defs code_def)

lemma float_text_head: "\<exists>c s. float_chars t = c # s \<and> (is_digit c \<or> c = CHR ''-'')"
  using float_text_ok [of t] by (cases "float_chars t") (auto simp: is_float_text_def)

lemma float_delimited:
  "float_chars a @ s = float_chars b @ t \<Longrightarrow> delimited s \<Longrightarrow> delimited t \<Longrightarrow> a = b \<and> s = t"
  using numbers_then_delimited [of "float_chars a" "float_chars b" s t] float_text_ok
  by (auto simp: is_float_text_def float_chars_inject)

lemma float_not_int: "float_chars a @ s = show_int i @ t \<Longrightarrow> delimited s \<Longrightarrow> delimited t \<Longrightarrow> False"
  using numbers_then_delimited [of "float_chars a" "show_int i" s t] float_text_ok [of a] show_int_number [of i]
    show_int_not_float [of i] by (auto simp: is_float_text_def)

subsection \<open>Values\<close>

text \<open>A value with the items of every object sorted by key: what \<^verbatim>\<open>sort_keys\<close> forgets.\<close>

fun norm :: "json \<Rightarrow> json" where
  "norm (JArr vs) = JArr (map norm vs)"
| "norm (JObj kvs) = JObj (sort_items (map (\<lambda>(k, v). (k, norm v)) kvs))"
| "norm v = v"

lemma sort_items_map:
  "sort_items (map (\<lambda>(k, v). (k, f v)) kvs) = map (\<lambda>(k, v). (k, f v)) (sort_items kvs)"
proof -
  have insort: "insort_key fst (k, f v) (map (\<lambda>(k, v). (k, f v)) xs) =
      map (\<lambda>(k, v). (k, f v)) (insort_key fst (k, v) xs)" for k v xs
    by (induction xs) auto
  show ?thesis unfolding sort_items_def
    by (induction kvs) (auto simp: insort sort_key_simps)
qed

lemma set_sort_items [simp]: "set (sort_items kvs) = set kvs"
  by (simp add: sort_items_def)

lemma dumps_head: "\<exists>c s. dumps v = c # s \<and> c \<noteq> CHR '']''"
proof (cases v)
  case (JInt i)
  then show ?thesis using show_int_head [of i] by (auto simp: char_class_defs code_def)
next
  case (JFloat t)
  then show ?thesis using float_text_head [of t] by (auto simp: char_class_defs code_def)
qed (simp_all add: quote_def)

lemma join_inject:
  assumes "\<And>x y s t. x \<in> set xs \<Longrightarrow> r x @ s = r y @ t \<Longrightarrow> delimited s \<Longrightarrow> delimited t \<Longrightarrow> R x y \<and> s = t"
    and head: "\<And>x. \<exists>c s. r x = c # s \<and> c \<noteq> close"
    and close: "close \<in> {CHR '']'', CHR ''}''}"
    and eq: "join_char (CHR '','') (map r xs) @ close # s = join_char (CHR '','') (map r ys) @ close # t"
  shows "list_all2 R xs ys \<and> s = t"
  using assms(1) eq
proof (induction xs arbitrary: ys)
  case Nil
  have no: "join_char (CHR '','') (map r (z # zs)) @ u \<noteq> close # w" for z zs u w
    using head [of z] by (cases zs) auto
  from Nil no [of _ _ "close # t" s] show ?case by (cases ys) (simp, metis join_char.simps(1) append_Nil list.simps(8))
next
  case (Cons x xs)
  define tl where "tl zs u = (if zs = [] then [] else CHR '','' # join_char (CHR '','') (map r zs)) @ close # u" for zs u
  have tl: "join_char (CHR '','') (map r (z # zs)) @ close # u = r z @ tl zs u" for z zs u
    by (cases zs) (simp_all add: tl_def)
  have dl: "delimited (tl zs u)" for zs u using close by (auto simp: tl_def)
  obtain y ys' where ys: "ys = y # ys'"
    using Cons.prems(2) head [of x] by (cases ys) (auto simp: tl [of x xs s, simplified])
  with Cons.prems(2) have "r x @ tl xs s = r y @ tl ys' t" by (simp only: tl)
  with Cons.prems(1) [OF _ this dl dl] have R: "R x y" and rest: "tl xs s = tl ys' t" by simp_all
  show ?case
  proof (cases xs)
    case Nil
    with rest close have "ys' = []" by (auto simp: tl_def split: if_splits)
    with Nil R rest show ?thesis by (simp add: ys tl_def)
  next
    case (Cons x' xs')
    with rest close have "ys' \<noteq> []" by (auto simp: tl_def split: if_splits)
    with rest Cons have "join_char (CHR '','') (map r xs) @ close # s = join_char (CHR '','') (map r ys') @ close # t"
      by (simp add: tl_def)
    then have "list_all2 R xs ys' \<and> s = t" by (rule Cons.IH [rotated]) (rule Cons.prems(1), simp_all)
    with R show ?thesis by (simp add: ys)
  qed
qed


definition same_entry :: "string \<times> json \<Rightarrow> string \<times> json \<Rightarrow> bool" where
  "same_entry e f = (fst e = fst f \<and> norm (snd e) = norm (snd f))"

definition item :: "string \<times> json \<Rightarrow> string" where
  "item kv = quote (fst kv) @ CHR '':'' # dumps (snd kv)"

lemma dumps_JObj: "dumps (JObj kvs) = CHR ''{'' # join_char (CHR '','') (map item (sort_items kvs)) @ ''}''"
  by (simp add: sort_items_map) (rule arg_cong [of _ _ "join_char _"], simp add: entry_def item_def case_prod_beta)

lemma norm_JObj: "norm (JObj kvs) = JObj (map (\<lambda>(k, v). (k, norm v)) (sort_items kvs))"
  by (simp add: sort_items_map)

lemma same_entries:
  "list_all2 same_entry xs ys \<Longrightarrow> map (\<lambda>(k, v). (k, norm v)) xs = map (\<lambda>(k, v). (k, norm v)) ys"
  by (induction xs ys rule: list_all2_induct) (auto simp: same_entry_def)

lemma item_inject:
  assumes IH: "\<And>w s t. dumps (snd e) @ s = dumps w @ t \<Longrightarrow> delimited s \<Longrightarrow> delimited t \<Longrightarrow>
      norm (snd e) = norm w \<and> s = t"
    and "item e @ s = item f @ t" "delimited s" "delimited t"
  shows "same_entry e f \<and> s = t"
proof -
  from assms(2) have "quote (fst e) @ CHR '':'' # dumps (snd e) @ s = quote (fst f) @ CHR '':'' # dumps (snd f) @ t"
    by (simp add: item_def)
  from quote_prefix_free [OF this] have "fst e = fst f" "dumps (snd e) @ s = dumps (snd f) @ t" by simp_all
  with IH [OF this(2) assms(3,4)] show ?thesis by (simp add: same_entry_def)
qed

lemma item_head: "\<exists>c s. item e = c # s \<and> c \<noteq> CHR ''}''"
  by (simp add: item_def quote_def)

text \<open>The first character tells the constructor.\<close>

definition head_kind :: "char \<Rightarrow> nat" where
  "head_kind c =
     (if c = CHR ''n'' then 0 else if c = CHR ''t'' then 1 else if c = CHR ''f'' then 2
      else if c = CHR 0x22 then 3 else if c = CHR ''['' then 4 else if c = CHR ''{'' then 5 else 6)"

fun json_kind :: "json \<Rightarrow> nat" where
  "json_kind JNull = 0"
| "json_kind (JBool b) = (if b then 1 else 2)"
| "json_kind (JStr s) = 3"
| "json_kind (JArr vs) = 4"
| "json_kind (JObj kvs) = 5"
| "json_kind (JInt i) = 6"
| "json_kind (JFloat t) = 6"

lemma digit_kind: "is_digit c \<or> c = CHR ''-'' \<Longrightarrow> head_kind c = 6"
  by (auto simp: head_kind_def char_class_defs code_def)

lemma dumps_kind: "\<exists>c u. dumps v = c # u \<and> head_kind c = json_kind v"
proof (cases v)
  case (JInt i)
  with show_int_head [of i] show ?thesis by (auto simp: digit_kind)
next
  case (JFloat t)
  with float_text_head [of t] show ?thesis by (auto simp: digit_kind)
qed (simp_all add: quote_def head_kind_def)

lemma same_kind: "dumps v @ s = dumps w @ t \<Longrightarrow> json_kind v = json_kind w"
  using dumps_kind [of v] dumps_kind [of w] by auto

lemma dumps_prefix_free:
  "dumps v @ s = dumps w @ t \<Longrightarrow> delimited s \<Longrightarrow> delimited t \<Longrightarrow> norm v = norm w \<and> s = t"
proof (induction v arbitrary: w s t)
  case JNull
  with same_kind [OF JNull(1)] show ?case by (cases w) (auto split: if_splits)
next
  case (JBool b)
  with same_kind [OF JBool(1)] show ?case by (cases w) (auto split: if_splits)
next
  case (JInt i)
  then consider j where "w = JInt j" | b where "w = JFloat b" using same_kind [OF JInt(1)] by (cases w) (auto split: if_splits)
  then show ?case
  proof cases
    case (1 j)
    then show ?thesis using JInt show_int_delimited [of i s j t] by simp
  next
    case (2 b)
    then show ?thesis using JInt float_not_int [of b t i s] by simp
  qed
next
  case (JFloat a)
  then consider j where "w = JInt j" | b where "w = JFloat b" using same_kind [OF JFloat(1)] by (cases w) (auto split: if_splits)
  then show ?case
  proof cases
    case (1 j)
    then show ?thesis using JFloat float_not_int [of a s j t] by simp
  next
    case (2 b)
    then show ?thesis using JFloat float_delimited [of a s b t] by simp
  qed
next
  case (JStr a)
  then obtain b where "w = JStr b" using same_kind [OF JStr(1)] by (cases w) (auto split: if_splits)
  with JStr quote_prefix_free [of a s b t] show ?case by simp
next
  case (JArr vs)
  then obtain ws where w: "w = JArr ws" using same_kind [OF JArr(2)] by (cases w) (auto split: if_splits)
  have "list_all2 (\<lambda>x y. norm x = norm y) vs ws \<and> s = t"
  proof (rule join_inject [where r = dumps and close = "CHR '']''"])
    show "join_char (CHR '','') (map dumps vs) @ CHR '']'' # s = join_char (CHR '','') (map dumps ws) @ CHR '']'' # t"
      using JArr(2) by (simp add: w)
  next
    fix x y s t
    assume "x \<in> set vs" "dumps x @ s = dumps y @ t" "delimited s" "delimited t"
    then show "norm x = norm y \<and> s = t" by (rule JArr.IH)
  next
    show "\<exists>c s. dumps x = c # s \<and> c \<noteq> CHR '']''" for x by (rule dumps_head)
  qed simp
  then have "map norm vs = map norm ws" by (simp add: list_all2_conv_all_nth list_eq_iff_nth_eq)
  with \<open>list_all2 _ vs ws \<and> s = t\<close> show ?case by (simp add: w)
next
  case (JObj kvs)
  then obtain kws where w: "w = JObj kws" using same_kind [OF JObj(2)] by (cases w) (auto split: if_splits)
  have "list_all2 same_entry (sort_items kvs) (sort_items kws) \<and> s = t"
  proof (rule join_inject [where r = item and close = "CHR ''}''"])
    show "join_char (CHR '','') (map item (sort_items kvs)) @ CHR ''}'' # s =
        join_char (CHR '','') (map item (sort_items kws)) @ CHR ''}'' # t"
      using JObj(2) by (simp add: w dumps_JObj del: dumps.simps(7))
  next
    fix x y s t
    assume x: "x \<in> set (sort_items kvs)" and eq: "item x @ s = item y @ t" and d: "delimited s" "delimited t"
    have "(fst x, snd x) \<in> set kvs" using x by simp
    note IH = JObj.IH [OF this, of "snd x"]
    show "same_entry x y \<and> s = t"
      by (rule item_inject [OF _ eq d]) (rule IH, simp_all add: snds.intros)
  next
    show "\<exists>c s. item x = c # s \<and> c \<noteq> CHR ''}''" for x by (rule item_head)
  qed simp
  then show ?case using same_entries by (simp add: w norm_JObj del: norm.simps(2))
qed

lemma sort_key_idem: "sort_key f (sort_key f xs) = sort_key f xs"
  by (rule properties_for_sort_key) (simp_all add: sort_key_stable)

lemma dumps_inject: "dumps v = dumps w \<longleftrightarrow> norm v = norm w"
proof
  assume "dumps v = dumps w"
  then show "norm v = norm w" using dumps_prefix_free [of v "[]" w "[]"] by (simp add: delimited_def)
next
  have norm_dumps: "dumps (norm u) = dumps u" for u
  proof (induction u)
    case (JArr vs)
    then have eq: "map dumps (map norm vs) = map dumps vs" by simp
    show ?case by (simp only: norm.simps dumps.simps eq)
  next
    case (JObj kvs)
    have "map (\<lambda>(k, v). (k, dumps v)) (map (\<lambda>(k, v). (k, norm v)) kvs) = map (\<lambda>(k, v). (k, dumps v)) kvs"
      using JObj by (auto simp: snds.simps)
    then have "sort_items (map (\<lambda>(k, v). (k, dumps v)) (sort_items (map (\<lambda>(k, v). (k, norm v)) kvs))) =
        sort_items (map (\<lambda>(k, v). (k, dumps v)) kvs)"
      by (simp only: sort_items_map [symmetric]) (simp add: sort_items_def sort_key_idem)
    then show ?case by simp
  qed simp_all
  assume "norm v = norm w"
  then show "dumps v = dumps w" using norm_dumps [of v] norm_dumps [of w] by simp
qed

lemma dumps_permute:
  assumes "mset kvs = mset kws" "distinct (map fst kvs)"
  shows "dumps (JObj kvs) = dumps (JObj kws)"
proof -
  have "sort_key fst kvs = sort_key fst kws"
    using assms by (intro sort_key_inj_key_eq) (simp_all add: distinct_map)
  then have "sort_items kvs = sort_items kws" by (simp add: sort_items_def)
  then show ?thesis by (simp add: dumps_JObj del: dumps.simps(7))
qed

end
