(* ===== verification/Core_Paths.thy ===== *)
theory Core_Paths
  imports Json
begin

text \<open>
  \<^verbatim>\<open>core/paths.py\<close> and \<^verbatim>\<open>core/package_safety.py\<close>: the portable relative path every contract
  uses, and the package-path safety policy. \<^verbatim>\<open>pathlib.PurePosixPath\<close> is modelled by its parts.
  The lemmas: what an accepted path looks like, that it never leaves its root, and what the
  safety policy lets through.
\<close>

section \<open>pathlib.PurePosixPath\<close>

text \<open>
  The root of a POSIX path is \<^verbatim>\<open>/\<close>, or \<^verbatim>\<open>//\<close> when it starts with exactly two slashes; its parts
  are the components that are neither empty nor a dot.
\<close>

definition path_root :: "string \<Rightarrow> string" where
  "path_root p =
     (if starts_with p ''//'' \<and> \<not> starts_with p ''///'' then ''//''
      else if starts_with p ''/'' then ''/'' else [])"

definition path_names :: "string \<Rightarrow> string list" where
  "path_names p = [q \<leftarrow> split_char (CHR ''/'') p. q \<noteq> [] \<and> q \<noteq> ''.'']"

definition path_parts :: "string \<Rightarrow> string list" where
  "path_parts p = (if path_root p = [] then path_names p else path_root p # path_names p)"

definition is_absolute :: "string \<Rightarrow> bool" where
  "is_absolute p = (path_root p \<noteq> [])"

definition as_posix :: "string \<Rightarrow> string" where
  "as_posix p =
     (let names = join_char (CHR ''/'') (path_names p) in
      if path_root p = [] \<and> path_names p = [] then ''.'' else path_root p @ names)"

text \<open>\<^verbatim>\<open>PurePosixPath.suffix\<close>: from the last dot of the name, unless it is first or last.\<close>

definition path_suffix :: "string \<Rightarrow> string" where
  "path_suffix p =
     (let name = (if path_names p = [] then [] else last (path_names p));
          ext = takeWhile (\<lambda>c. c \<noteq> CHR ''.'') (rev name)
      in if ext \<noteq> [] \<and> Suc (length ext) < length name then CHR ''.'' # rev ext else [])"

section \<open>require_portable_relative_path\<close>

definition invalid_path :: "string \<Rightarrow> py_error" where
  "invalid_path msg = ContractError ''invalid_portable_path'' msg"

definition require_portable_relative_path :: "string \<Rightarrow> string result" where
  "require_portable_relative_path value =
     (if value = [] \<or> strip value = [] \<or> CHR 0x5C \<in> set value \<or> CHR 0x0D \<in> set value \<or> CHR 0x0A \<in> set value
      then Inl (invalid_path ''path must be a non-empty POSIX path'')
      else if is_absolute value \<or> ''..'' \<in> set (path_parts value)
        \<or> (path_parts value \<noteq> [] \<and> CHR '':'' \<in> set (hd (path_parts value)))
      then Inl (invalid_path ''path must be relative and cannot escape its root'')
      else if as_posix value \<noteq> value \<or> as_posix value \<in> {''.'', []}
      then Inl (invalid_path ''path must already be normalized'')
      else Inr value)"

definition portable :: "string \<Rightarrow> bool" where
  "portable p = is_ok (require_portable_relative_path p)"

text \<open>\<^verbatim>\<open>str.casefold()\<close> below code point 256 is \<^verbatim>\<open>lower()\<close> except for the sharp s and the micro sign.\<close>

definition casefold :: "string \<Rightarrow> string" where
  "casefold s = concat (map (\<lambda>c. if code c = 223 then ''ss'' else [lower_char c]) s)"

definition EXCLUDED_REFERENCE_TERMS :: "string list" where
  "EXCLUDED_REFERENCE_TERMS =
     [''eval'', ''scorer'', ''rubric'', ''calibration'', ''heldout'', ''held-out'', ''hidden'']"

definition require_matched_reference_path :: "string \<Rightarrow> string list \<Rightarrow> string result" where
  "require_matched_reference_path value selected_skill_paths =
     and_then (require_portable_relative_path value) (\<lambda>path.
       let parts = path_parts path in
       if hd parts = ''skills'' \<and> join_char (CHR ''/'') (take 2 parts) \<notin> set selected_skill_paths
       then Inl (ValueErr ''matched references within skills must belong to a selected child'')
       else if casefold (path_suffix path) \<notin> {''.md'', ''.markdown''}
         \<or> (\<exists>part \<in> set parts. \<exists>term \<in> set EXCLUDED_REFERENCE_TERMS. contains (casefold part) term)
       then Inl (ValueErr ''matched context excludes hidden evaluation inputs and non-Markdown references'')
       else if value \<in> set (map (\<lambda>child. child @ ''/SKILL.md'') selected_skill_paths)
       then Inl (ValueErr ''matched references must not duplicate automatic selected entrypoints'')
       else Inr path)"

section \<open>The package-path safety policy\<close>

definition UNSAFE_PACKAGE_DIRECTORIES :: "string list" where
  "UNSAFE_PACKAGE_DIRECTORIES =
     [''.agents'', ''.cache'', ''.codex'', ''.git'', ''.gnupg'', ''.harness'', ''.mypy_cache'',
      ''.plugin-appserver'', ''.pytest_cache'', ''.ruff_cache'', ''.ssh'', ''.tox'', ''.venv'',
      ''__pycache__'', ''artifacts'', ''dist'', ''node_modules'', ''venv'']"

definition UNSAFE_PACKAGE_FILENAMES :: "string list" where
  "UNSAFE_PACKAGE_FILENAMES =
     [''.env'', ''.netrc'', ''.npmrc'', ''credentials.json'', ''id_ed25519'', ''id_rsa'', ''secrets.json'']"

definition UNSAFE_PACKAGE_SUFFIXES :: "string list" where
  "UNSAFE_PACKAGE_SUFFIXES = [''.key'', ''.p12'', ''.pem'', ''.pfx'', ''.token'']"

definition unsafe_package_file_reason :: "string \<Rightarrow> string option" where
  "unsafe_package_file_reason name =
     (let normalized = lower name in
      if normalized \<in> set UNSAFE_PACKAGE_FILENAMES then Some ''forbidden_filename''
      else if starts_with normalized ''.env.'' then Some ''forbidden_env_family''
      else if normalized = ''skill-package-validation.json'' \<or> ends_with normalized ''-receipt.json''
      then Some ''forbidden_generated_receipt''
      else if \<exists>s \<in> set UNSAFE_PACKAGE_SUFFIXES. ends_with normalized s then Some ''forbidden_secret_suffix''
      else None)"

text \<open>\<^verbatim>\<open>parts[-1]\<close> of a path without parts raises; the callers pass portable paths, which have one.\<close>

definition unsafe_package_path_reason :: "string \<Rightarrow> string option result" where
  "unsafe_package_path_reason path =
     (let parts = map lower (path_parts path) in
      if \<exists>part \<in> set parts. part \<in> set UNSAFE_PACKAGE_DIRECTORIES then Inr (Some ''forbidden_path_part'')
      else if parts = [] then Inl (ValueErr ''IndexError'')
      else Inr (unsafe_package_file_reason (last parts)))"

section \<open>What a portable path is\<close>

lemma portable_iff: "portable p \<longleftrightarrow> require_portable_relative_path p = Inr p"
  by (auto simp: portable_def is_ok_iff require_portable_relative_path_def split: if_splits)

lemma require_portable_Inr: "require_portable_relative_path p = Inr q \<Longrightarrow> q = p"
  by (auto simp: require_portable_relative_path_def split: if_splits)

lemma portable_parts:
  assumes "portable p"
  shows "path_parts p = split_char (CHR ''/'') p" and "path_parts p \<noteq> []"
    and "\<forall>q \<in> set (path_parts p). q \<noteq> [] \<and> q \<noteq> ''.'' \<and> q \<noteq> ''..'' \<and> CHR ''/'' \<notin> set q"
    and "CHR '':'' \<notin> set (hd (path_parts p))"
proof -
  have ok: "require_portable_relative_path p = Inr p" using assms by (simp add: portable_iff)
  then have rel: "path_root p = []" and dots: "''..'' \<notin> set (path_parts p)"
    and colon: "path_parts p = [] \<or> CHR '':'' \<notin> set (hd (path_parts p))"
    and posix: "as_posix p = p" and nonempty: "p \<noteq> []" "as_posix p \<noteq> ''.''"
    by (auto simp: require_portable_relative_path_def is_absolute_def split: if_splits)
  have parts: "path_parts p = path_names p" using rel by (simp add: path_parts_def)
  have names: "path_names p \<noteq> []" and join: "join_char (CHR ''/'') (path_names p) = p"
    using posix nonempty rel by (auto simp: as_posix_def Let_def split: if_splits)
  have slash: "\<forall>q \<in> set (path_names p). CHR ''/'' \<notin> set q"
    using split_char_no_sep by (auto simp: path_names_def)
  from split_join [OF names slash] join have split: "path_names p = split_char (CHR ''/'') p" by simp
  then show "path_parts p = split_char (CHR ''/'') p" using parts by simp
  show "path_parts p \<noteq> []" using names parts by simp
  then show "CHR '':'' \<notin> set (hd (path_parts p))" using colon by simp
  show "\<forall>q \<in> set (path_parts p). q \<noteq> [] \<and> q \<noteq> ''.'' \<and> q \<noteq> ''..'' \<and> CHR ''/'' \<notin> set q"
    using slash dots parts by (auto simp: path_names_def)
qed

lemma portable_join: "portable p \<Longrightarrow> join_char (CHR ''/'') (path_parts p) = p"
  using portable_parts(1) by simp

text \<open>
  Conversely, any non-empty list of well-formed components joins to a portable path, if the
  path is not blank and holds no backslash or line break.
\<close>

definition good_part :: "string \<Rightarrow> bool" where
  "good_part q = (q \<noteq> [] \<and> q \<noteq> ''.'' \<and> q \<noteq> ''..'' \<and> (\<forall>c \<in> set q. c \<notin> {CHR ''/'', CHR 0x5C, CHR 0x0A, CHR 0x0D}))"

lemma set_join_char: "set (join_char sep ps) \<subseteq> insert sep (\<Union> (set ` set ps))"
  by (induction sep ps rule: join_char.induct) auto

lemma portable_intro:
  assumes ps: "ps \<noteq> []" "\<forall>q \<in> set ps. good_part q" "CHR '':'' \<notin> set (hd ps)"
    and blank: "strip (join_char (CHR ''/'') ps) \<noteq> []"
  shows "portable (join_char (CHR ''/'') ps)"
proof -
  let ?p = "join_char (CHR ''/'') ps"
  have chars: "\<forall>c \<in> set ?p. c \<notin> {CHR 0x5C, CHR 0x0A, CHR 0x0D}"
    using set_join_char [of "CHR ''/''" ps] ps(2) by (auto simp: good_part_def)
  have slash: "\<forall>q \<in> set ps. CHR ''/'' \<notin> set q" using ps(2) by (auto simp: good_part_def)
  have split: "split_char (CHR ''/'') ?p = ps" by (rule split_join [OF ps(1) slash])
  have names: "path_names ?p = ps"
    using ps(2) by (auto simp: path_names_def split good_part_def intro: filter_True)
  obtain c q rest where hd: "ps = (c # q) # rest"
    using ps(1,2) by (cases ps; cases "hd ps") (auto simp: good_part_def)
  have "c \<noteq> CHR ''/''" using slash hd by auto
  then have "\<not> starts_with ?p ''/''" using hd by (cases rest) (simp_all add: starts_with_def)
  moreover from this have "\<not> starts_with ?p ''//''"
    by (auto simp: starts_with_def prefix_def)
  ultimately have root: "path_root ?p = []" by (simp add: path_root_def)
  have posix: "as_posix ?p = ?p" using ps(1) by (simp add: as_posix_def names root)
  have "?p \<noteq> ''.''" using names by (auto simp: path_names_def)
  moreover have "?p \<noteq> []" using hd by (cases rest) simp_all
  moreover have "''..'' \<notin> set ps" using ps(2) by (auto simp: good_part_def)
  ultimately show ?thesis
    using chars blank ps(3) posix
    by (auto simp: portable_def require_portable_relative_path_def is_absolute_def root path_parts_def names)
qed

section \<open>A portable path stays below its root\<close>

text \<open>
  Resolving a path component by component from a directory at some depth below the root:
  a dot stays, two dots go up, which is \<open>None\<close> above the root, and a name goes down.
\<close>

fun walk :: "string list \<Rightarrow> nat \<Rightarrow> nat option" where
  "walk [] d = Some d"
| "walk (q # qs) d =
     (if q = [] \<or> q = ''.'' then walk qs d
      else if q = ''..'' then (case d of 0 \<Rightarrow> None | Suc d' \<Rightarrow> walk qs d')
      else walk qs (Suc d))"

lemma walk_names:
  "\<forall>q \<in> set qs. q \<noteq> [] \<and> q \<noteq> ''.'' \<and> q \<noteq> ''..'' \<Longrightarrow> walk qs d = Some (d + length qs)"
  by (induction qs arbitrary: d) auto

section \<open>What the safety policy lets through\<close>

lemma unsafe_file_reason_lower [simp]: "unsafe_package_file_reason (lower n) = unsafe_package_file_reason n"
  by (simp add: unsafe_package_file_reason_def)

lemma unsafe_file_reason_None:
  "unsafe_package_file_reason n = None \<longleftrightarrow>
     lower n \<notin> set UNSAFE_PACKAGE_FILENAMES \<and> \<not> starts_with (lower n) ''.env.'' \<and>
     lower n \<noteq> ''skill-package-validation.json'' \<and> \<not> ends_with (lower n) ''-receipt.json'' \<and>
     (\<forall>s \<in> set UNSAFE_PACKAGE_SUFFIXES. \<not> ends_with (lower n) s)"
  by (simp add: unsafe_package_file_reason_def Let_def)

lemma portable_not_blank: "portable p \<Longrightarrow> strip p \<noteq> []"
  by (auto simp: portable_iff require_portable_relative_path_def split: if_splits)

lemma portable_nonempty: "portable p \<Longrightarrow> p \<noteq> []"
  by (auto simp: portable_iff require_portable_relative_path_def split: if_splits)

lemma unsafe_reason_total: "portable p \<Longrightarrow> \<exists>reason. unsafe_package_path_reason p = Inr reason"
  using portable_parts(2) [of p] by (auto simp: unsafe_package_path_reason_def Let_def)

text \<open>Nothing in the policy excludes a NUL byte.\<close>

lemma portable_nul_path:
  assumes "\<forall>c \<in> set d. is_hex_lower c"
  shows "portable (''a'' @ CHR 0x00 # d @ CHR 0x00 # ''b'')"
proof -
  let ?p = "''a'' @ CHR 0x00 # d @ CHR 0x00 # ''b''"
  have bad: "\<not> is_hex_lower c" if "c \<in> set [CHR ''/'', CHR 0x5C, CHR 0x0A, CHR 0x0D, CHR '':'']" for c
    using that by (auto simp: char_class_defs code_def)
  have "good_part ?p" "CHR '':'' \<notin> set ?p" using assms bad by (auto simp: good_part_def)
  moreover have "strip ?p \<noteq> []"
    by (auto simp: strip_def strip_with_Nil_iff py_space_def code_def)
  ultimately show ?thesis using portable_intro [of "[?p]"] by simp
qed

end
