(* ===== verification/Contracts.thy ===== *)
theory Contracts
  imports Core_Paths
begin

text \<open>
  The field types the contract models share (\<open>models/inventory.py\<close>'s \<open>PackageId\<close>, \<open>GitRevision\<close>,
  \<open>Sha256\<close>, \<open>NonEmptyText\<close> and \<open>PortablePath\<close>): the check each declared constraint makes on the
  field's normalised text, named after the field, and JSON helpers for \<^verbatim>\<open>model_dump(mode="json")\<close>.
\<close>

definition is_identifier :: "string \<Rightarrow> bool" where
  "is_identifier s = rx_fullmatch identifier_rx s"

lemma is_identifier_scan [code]: "is_identifier s = identifier_scan False s"
  by (simp add: is_identifier_def rx_fullmatch_iff identifier_scan_iff)

definition is_git_revision :: "string \<Rightarrow> bool" where
  "is_git_revision s = rx_fullmatch git_revision_rx s"

definition is_sha256 :: "string \<Rightarrow> bool" where
  "is_sha256 s = rx_fullmatch sha256_rx s"

text \<open>\<^verbatim>\<open>^[a-z0-9_]+$\<close>, the pattern of \<open>BlockerCode\<close>.\<close>

definition is_blocker_code :: "string \<Rightarrow> bool" where
  "is_blocker_code s = rx_fullmatch (plus (Cls (\<lambda>c. lower_or_digit c \<or> c = CHR ''_''))) s"

text \<open>A checked field: violated when the predicate fails; the message is the field's name.\<close>

definition field :: "string \<Rightarrow> bool \<Rightarrow> (bool \<times> string) list" where
  "field name ok = [(\<not> ok, name)]"

lemma passes_field [simp]: "passes (field name ok) \<longleftrightarrow> ok"
  by (simp add: field_def)

abbreviation nonempty_text :: "string \<Rightarrow> bool" where
  "nonempty_text s \<equiv> s \<noteq> []"

definition opt_ok :: "('a \<Rightarrow> bool) \<Rightarrow> 'a option \<Rightarrow> bool" where
  "opt_ok p x = (case x of None \<Rightarrow> True | Some y \<Rightarrow> p y)"

lemma opt_ok_simps [simp]: "opt_ok p None" "opt_ok p (Some y) \<longleftrightarrow> p y"
  by (simp_all add: opt_ok_def)

definition texts :: "string list \<Rightarrow> bool" where
  "texts xs = list_all nonempty_text xs"

definition portables :: "string list \<Rightarrow> bool" where
  "portables xs = list_all portable xs"

definition unique_portables :: "string list \<Rightarrow> bool" where
  "unique_portables xs = (\<not> has_duplicates xs \<and> portables xs)"

lemma texts_iff: "texts xs \<longleftrightarrow> (\<forall>x \<in> set xs. x \<noteq> [])"
  by (simp add: texts_def list_all_iff)

lemma portables_iff: "portables xs \<longleftrightarrow> (\<forall>x \<in> set xs. portable x)"
  by (simp add: portables_def list_all_iff)

lemma unique_portables_iff: "unique_portables xs \<longleftrightarrow> distinct xs \<and> (\<forall>x \<in> set xs. portable x)"
  by (simp add: unique_portables_def portables_iff)

section \<open>Normalised text\<close>

lemma trim_no_space: "\<forall>c \<in> set s. \<not> unicode_space c \<Longrightarrow> trim s = s"
  unfolding trim_def by (rule strip_with_id) (cases s, auto)

lemma lower_or_digit_not_space: "lower_or_digit c \<Longrightarrow> \<not> unicode_space c"
  by (auto simp: lower_or_digit_def char_class_defs unicode_space_def code_def Let_def)

lemma hex_not_space: "is_hex_lower c \<Longrightarrow> \<not> unicode_space c"
  by (auto simp: char_class_defs unicode_space_def code_def Let_def)

lemma is_sha256_iff: "is_sha256 s \<longleftrightarrow> length s = 64 \<and> (\<forall>c \<in> set s. is_hex_lower c)"
  by (simp add: is_sha256_def sha256_rx_iff)

lemma is_git_revision_iff: "is_git_revision s \<longleftrightarrow> length s = 40 \<and> (\<forall>c \<in> set s. is_hex_lower c)"
  by (simp add: is_git_revision_def git_revision_rx_iff)

lemma trim_sha256: "is_sha256 s \<Longrightarrow> trim s = s"
  by (rule trim_no_space) (auto simp: is_sha256_iff hex_not_space)

lemma trim_git_revision: "is_git_revision s \<Longrightarrow> trim s = s"
  by (rule trim_no_space) (auto simp: is_git_revision_iff hex_not_space)

lemma canonical_digest_is_sha256 [simp]: "is_sha256 (canonical_json_sha256 v)"
  by (simp add: is_sha256_def)

lemma content_digest_is_sha256 [simp]: "is_sha256 (candidate_content_sha256 fs)"
  by (simp add: is_sha256_def)

lemma sha256_is_sha256: "is_sha256 (sha256 bs)"
  by (simp add: is_sha256_iff sha256_chars)

lemma trim_canonical_digest [simp]: "trim (canonical_json_sha256 v) = canonical_json_sha256 v"
  by (simp add: trim_sha256)

lemma is_sha256_nul_free: "is_sha256 s \<Longrightarrow> nul_free s"
  by (auto simp: is_sha256_iff nul_free_def char_class_defs code_def)

definition identifier_char :: "char \<Rightarrow> bool" where
  "identifier_char c = (lower_or_digit c \<or> c \<in> set ''._-'')"

lemma star_chars: "matches (Star r) s \<Longrightarrow> (\<And>u. matches r u \<Longrightarrow> \<forall>c \<in> set u. p c) \<Longrightarrow> \<forall>c \<in> set s. p c"
  by (induction "Star r" s rule: matches.induct) auto

lemma identifier_chars:
  assumes "is_identifier s"
  shows "s \<noteq> []" and "\<forall>c \<in> set s. identifier_char c"
proof -
  have tail: "\<forall>c \<in> set u. identifier_char c"
    if "matches (Seq (one_of ''._-'') (plus (Cls lower_or_digit))) u" for u
    using that by (auto simp: matches_Seq one_of_def matches_plus_cls identifier_char_def)
  obtain u v where "s = u @ v" "u \<noteq> []" "\<forall>c \<in> set u. lower_or_digit c"
    and v: "matches (Star (Seq (one_of ''._-'') (plus (Cls lower_or_digit)))) v"
    using assms by (auto simp: is_identifier_def identifier_rx_def rx_fullmatch_iff matches_Seq matches_plus_cls)
  moreover from star_chars [OF v tail] have "\<forall>c \<in> set v. identifier_char c" by blast
  ultimately show "s \<noteq> []" "\<forall>c \<in> set s. identifier_char c" by (auto simp: identifier_char_def)
qed

lemma identifier_not_space: "identifier_char c \<Longrightarrow> \<not> unicode_space c"
  by (cases "lower_or_digit c")
    (auto simp: identifier_char_def unicode_space_def code_def Let_def dest: lower_or_digit_not_space)

lemma trim_identifier: "is_identifier s \<Longrightarrow> trim s = s"
  using identifier_chars identifier_not_space by (intro trim_no_space) blast

lemma identifier_nonempty: "is_identifier s \<Longrightarrow> s \<noteq> []"
  by (rule identifier_chars)

text \<open>
  An identifier stays one when a separator and a non-empty run of lower case letters and digits
  are appended: how receipt and plan identifiers are built from digests.
\<close>

lemma star_append: "matches (Star r) s \<Longrightarrow> matches r u \<Longrightarrow> matches (Star r) (s @ u)"
proof (induction "Star r" s rule: matches.induct)
  case m_star0
  then show ?case using matches.m_star [of r u "[]"] by (simp add: matches.m_star0)
next
  case (m_star s t)
  then show ?case using matches.m_star [of r s "t @ u"] by simp
qed

lemma identifier_extend:
  assumes "is_identifier s" "sep \<in> set ''._-''" "d \<noteq> []" "\<forall>c \<in> set d. lower_or_digit c"
  shows "is_identifier (s @ sep # d)"
proof -
  let ?t = "Seq (one_of ''._-'') (plus (Cls lower_or_digit))"
  have "matches ?t (sep # d)"
    unfolding one_of_def matches_Seq_Cls using assms(2-4) by (simp add: matches_plus_cls)
  moreover obtain u v where s: "s = u @ v" and u: "matches (plus (Cls lower_or_digit)) u"
    and v: "matches (Star ?t) v"
    using assms(1) by (auto simp: is_identifier_def identifier_rx_def rx_fullmatch_iff matches_Seq)
  ultimately have "matches (Star ?t) (v @ sep # d)" by (intro star_append)
  with u have "matches identifier_rx (u @ v @ sep # d)"
    unfolding identifier_rx_def matches_Seq by blast
  then show ?thesis by (simp add: s is_identifier_def rx_fullmatch_iff)
qed

lemma hex_lower_or_digit: "is_hex_lower c \<Longrightarrow> lower_or_digit c"
  by (auto simp: lower_or_digit_def char_class_defs code_def)

lemma identifier_digest:
  assumes "is_identifier s"
  shows "is_identifier (s @ CHR ''-'' # take 24 (canonical_json_sha256 v))"
proof (rule identifier_extend [OF assms])
  have "length (canonical_json_sha256 v) = 64" by simp
  then show "take 24 (canonical_json_sha256 v) \<noteq> []" by (cases "canonical_json_sha256 v") auto
  show "\<forall>c \<in> set (take 24 (canonical_json_sha256 v)). lower_or_digit c"
    using canonical_digest_chars hex_lower_or_digit set_take_subset by fastforce
qed simp

section \<open>JSON helpers\<close>

definition opt_json :: "('a \<Rightarrow> json) \<Rightarrow> 'a option \<Rightarrow> json" where
  "opt_json f x = (case x of None \<Rightarrow> JNull | Some y \<Rightarrow> f y)"

definition strs :: "string list \<Rightarrow> json" where
  "strs xs = JArr (map JStr xs)"

definition arr :: "('a \<Rightarrow> json) \<Rightarrow> 'a list \<Rightarrow> json" where
  "arr f xs = JArr (map f xs)"

lemma opt_json_simps [simp]: "opt_json f None = JNull" "opt_json f (Some y) = f y"
  by (simp_all add: opt_json_def)

end
