(* ===== verification/Inventory.thy ===== *)
theory Inventory
  imports Contracts
begin

text \<open>
  \<^verbatim>\<open>models/inventory.py\<close>: the inventory of retained skills and plugins. One record type stands
  for \<open>PackageInventoryRecord\<close> and its subclass \<open>PackageInventoryRecordV2\<close>, told apart by the
  schema version; the version-two class runs the inherited checks and then its own. The lemmas:
  every model is an instance of \<open>contract_model\<close>, the overall mantra status is the worst of the
  nine, and what an accepted admission or merge guarantees.
\<close>

section \<open>Enumerations\<close>

datatype PackageType = TypeSkill | TypePlugin

datatype PackageDisposition =
    AdmitToFoundry | MergeWithExisting | RetainExternalSource | RuntimeOnly | SdkFixtureOnly
  | ArchiveWithProvenance | RejectDuplicate | RejectUnsafe | NeedsOwnerDecision

datatype RuntimeVisibility = UserAgents | ProjectAgents | CodexPluginCache | VisibleNowhere

datatype RiskClass = RiskNone | RiskReview | RiskBlocked

datatype RecommendedMechanism =
    StandaloneSkill | PluginBundle | ExternalSource | ArchiveMechanism | RejectMechanism

text \<open>\<open>ValueDecisionV2\<close>; version one has all but the first.\<close>

datatype ValueDecision = NeedsReview | Retain | Merge | Replace | Retire

datatype MantraStatus = MantraPass | MantraRevise | MantraReject

fun mantra_name :: "MantraStatus \<Rightarrow> string" where
  "mantra_name MantraPass = ''pass''"
| "mantra_name MantraRevise = ''revise''"
| "mantra_name MantraReject = ''reject''"

section \<open>Evidence models\<close>

record SourceProvenance =
  sp_repository :: string
  sp_revision :: string
  sp_path :: string
  sp_content_sha256 :: string

definition normalise_source :: "SourceProvenance \<Rightarrow> SourceProvenance" where
  "normalise_source s =
     \<lparr>sp_repository = trim (sp_repository s), sp_revision = trim (sp_revision s),
      sp_path = sp_path s, sp_content_sha256 = trim (sp_content_sha256 s)\<rparr>"

definition check_source :: "SourceProvenance \<Rightarrow> (bool \<times> string) list" where
  "check_source s =
     field ''repository'' (nonempty_text (sp_repository s))
     @ field ''revision'' (is_git_revision (sp_revision s))
     @ field ''path'' (portable (sp_path s))
     @ field ''content_sha256'' (is_sha256 (sp_content_sha256 s))"

datatype RightsBasis = Authored | License | Permission

record RightsStatus =
  rs_basis :: RightsBasis
  rs_license :: string
  rs_evidence_ref :: string

definition normalise_rights :: "RightsStatus \<Rightarrow> RightsStatus" where
  "normalise_rights r =
     \<lparr>rs_basis = rs_basis r, rs_license = trim (rs_license r), rs_evidence_ref = rs_evidence_ref r\<rparr>"

definition check_rights :: "RightsStatus \<Rightarrow> (bool \<times> string) list" where
  "check_rights r =
     field ''license'' (nonempty_text (rs_license r))
     @ field ''evidence_ref'' (portable (rs_evidence_ref r))"

record FormatChecks =
  fc_root_plugin_manifest :: bool
  fc_codex_adapter_manifest :: bool

record MantraPrinciple =
  mp_status :: MantraStatus
  mp_evidence :: "string list"

definition normalise_principle :: "MantraPrinciple \<Rightarrow> MantraPrinciple" where
  "normalise_principle p = \<lparr>mp_status = mp_status p, mp_evidence = map trim (mp_evidence p)\<rparr>"

definition check_principle :: "MantraPrinciple \<Rightarrow> (bool \<times> string) list" where
  "check_principle p =
     field ''evidence'' (texts (mp_evidence p))
     @ [(mp_evidence p = [], ''mantra evidence must contain at least one reference'')]"

text \<open>The nine principles, in the order of the class.\<close>

record MantraAssessment =
  ma_source_revision :: string
  ma_content_sha256 :: string
  ma_taste :: MantraPrinciple
  ma_thin_surfaces :: MantraPrinciple
  ma_strong_guardrails :: MantraPrinciple
  ma_simplicity :: MantraPrinciple
  ma_progressive_disclosure :: MantraPrinciple
  ma_durable_memory :: MantraPrinciple
  ma_valuemaxxing :: MantraPrinciple
  ma_self_improvement :: MantraPrinciple
  ma_professional_output :: MantraPrinciple
  ma_overall :: MantraStatus

definition principles :: "MantraAssessment \<Rightarrow> MantraPrinciple list" where
  "principles m =
     [ma_taste m, ma_thin_surfaces m, ma_strong_guardrails m, ma_simplicity m,
      ma_progressive_disclosure m, ma_durable_memory m, ma_valuemaxxing m, ma_self_improvement m,
      ma_professional_output m]"

definition expected_overall :: "MantraAssessment \<Rightarrow> MantraStatus" where
  "expected_overall m =
     (let statuses = map mp_status (principles m) in
      if MantraReject \<in> set statuses then MantraReject
      else if MantraRevise \<in> set statuses then MantraRevise
      else MantraPass)"

definition normalise_mantra :: "MantraAssessment \<Rightarrow> MantraAssessment" where
  "normalise_mantra m =
     \<lparr>ma_source_revision = trim (ma_source_revision m), ma_content_sha256 = trim (ma_content_sha256 m),
      ma_taste = normalise_principle (ma_taste m),
      ma_thin_surfaces = normalise_principle (ma_thin_surfaces m),
      ma_strong_guardrails = normalise_principle (ma_strong_guardrails m),
      ma_simplicity = normalise_principle (ma_simplicity m),
      ma_progressive_disclosure = normalise_principle (ma_progressive_disclosure m),
      ma_durable_memory = normalise_principle (ma_durable_memory m),
      ma_valuemaxxing = normalise_principle (ma_valuemaxxing m),
      ma_self_improvement = normalise_principle (ma_self_improvement m),
      ma_professional_output = normalise_principle (ma_professional_output m),
      ma_overall = ma_overall m\<rparr>"

definition check_mantra :: "MantraAssessment \<Rightarrow> (bool \<times> string) list" where
  "check_mantra m =
     field ''source_revision'' (is_git_revision (ma_source_revision m))
     @ field ''content_sha256'' (is_sha256 (ma_content_sha256 m))
     @ each check_principle (principles m)
     @ [(ma_overall m \<noteq> expected_overall m, 
        ''mantra overall must be '' @ mantra_name (expected_overall m) @ '' for the principle statuses'')]"

section \<open>Inventory records\<close>

datatype InventoryVersion = InventoryV1 | InventoryV2

record PackageInventoryRecord =
  ir_schema_version :: InventoryVersion
  ir_package_id :: string
  ir_display_name :: "string option"
  ir_package_type :: PackageType
  ir_current_path :: string
  ir_declared_version :: "string option"
  ir_owner :: string
  ir_user_outcome :: string
  ir_distinctive_value :: string
  ir_maintenance_cost :: string
  ir_context_cost :: string
  ir_overlap_with_existing :: "string list"
  ir_recommended_mechanism :: RecommendedMechanism
  ir_value_decision :: ValueDecision
  ir_mantra :: MantraAssessment
  ir_source :: "SourceProvenance option"
  ir_rights :: "RightsStatus option"
  ir_direct_consumers :: "string list"
  ir_runtime_visibility :: "RuntimeVisibility list"
  ir_duplicate_of :: "string option"
  ir_risk :: RiskClass
  ir_external_dependencies :: "string list"
  ir_tessl_identity :: "string option"
  ir_blocker_codes :: "string list"
  ir_format_checks :: "FormatChecks option"
  ir_intended_disposition :: PackageDisposition

definition normalise_record :: "PackageInventoryRecord \<Rightarrow> PackageInventoryRecord" where
  "normalise_record r = r\<lparr>
     ir_package_id := trim (ir_package_id r),
     ir_display_name := map_option trim (ir_display_name r),
     ir_declared_version := map_option trim (ir_declared_version r),
     ir_owner := trim (ir_owner r),
     ir_user_outcome := trim (ir_user_outcome r),
     ir_distinctive_value := trim (ir_distinctive_value r),
     ir_maintenance_cost := trim (ir_maintenance_cost r),
     ir_context_cost := trim (ir_context_cost r),
     ir_overlap_with_existing := map trim (ir_overlap_with_existing r),
     ir_mantra := normalise_mantra (ir_mantra r),
     ir_source := map_option normalise_source (ir_source r),
     ir_rights := map_option normalise_rights (ir_rights r),
     ir_duplicate_of := map_option trim (ir_duplicate_of r),
     ir_external_dependencies := map trim (ir_external_dependencies r),
     ir_tessl_identity := map_option trim (ir_tessl_identity r),
     ir_blocker_codes := map trim (ir_blocker_codes r)\<rparr>"

definition check_record_fields :: "PackageInventoryRecord \<Rightarrow> (bool \<times> string) list" where
  "check_record_fields r =
     field ''package_id'' (is_identifier (ir_package_id r))
     @ field ''display_name'' (opt_ok nonempty_text (ir_display_name r))
     @ field ''current_path'' (portable (ir_current_path r))
     @ field ''declared_version'' (opt_ok nonempty_text (ir_declared_version r))
     @ field ''owner'' (nonempty_text (ir_owner r))
     @ field ''user_outcome'' (nonempty_text (ir_user_outcome r))
     @ field ''distinctive_value'' (nonempty_text (ir_distinctive_value r))
     @ field ''maintenance_cost'' (nonempty_text (ir_maintenance_cost r))
     @ field ''context_cost'' (nonempty_text (ir_context_cost r))
     @ field ''overlap_with_existing'' (texts (ir_overlap_with_existing r))
     @ field ''value_decision'' (ir_schema_version r = InventoryV1 \<longrightarrow> ir_value_decision r \<noteq> NeedsReview)
     @ check_mantra (ir_mantra r)
     @ opt_checks check_source (ir_source r)
     @ opt_checks check_rights (ir_rights r)
     @ field ''direct_consumers'' (portables (ir_direct_consumers r))
     @ field ''duplicate_of'' (opt_ok is_identifier (ir_duplicate_of r))
     @ field ''external_dependencies'' (texts (ir_external_dependencies r))
     @ field ''tessl_identity'' (opt_ok nonempty_text (ir_tessl_identity r))
     @ field ''blocker_codes'' (texts (ir_blocker_codes r))"

definition admits_or_merges :: "PackageInventoryRecord \<Rightarrow> bool" where
  "admits_or_merges r = (ir_intended_disposition r \<in> {AdmitToFoundry, MergeWithExisting})"

definition duplicate_requires_target :: "PackageInventoryRecord \<Rightarrow> (bool \<times> string) list" where
  "duplicate_requires_target r =
     [(ir_duplicate_of r = Some (ir_package_id r), ''duplicate_of must identify a different package''),
      (ir_intended_disposition r = RejectDuplicate \<and> ir_duplicate_of r = None,
       ''reject_duplicate requires duplicate_of''),
      (ir_intended_disposition r = AdmitToFoundry \<and> (ir_source r = None \<or> ir_rights r = None),
       ''admit_to_foundry requires source and rights evidence''),
      (case ir_source r of None \<Rightarrow> False
       | Some s \<Rightarrow> ma_source_revision (ir_mantra r) \<noteq> sp_revision s
           \<or> ma_content_sha256 (ir_mantra r) \<noteq> sp_content_sha256 s,
       ''mantra assessment must bind the exact source revision and content digest''),
      (ir_package_type r = TypeSkill \<and> ir_recommended_mechanism r = PluginBundle,
       ''a skill cannot recommend plugin_bundle without a plugin package boundary''),
      (ir_package_type r = TypePlugin \<and> ir_recommended_mechanism r = StandaloneSkill,
       ''a plugin cannot recommend standalone_skill''),
      (ir_value_decision r = Merge \<and> ir_overlap_with_existing r = [],
       ''merge value decision requires overlap_with_existing evidence''),
      (ir_value_decision r = Retire \<and> admits_or_merges r,
       ''retire value decision cannot admit or merge a package''),
      (admits_or_merges r \<and> ma_overall (ir_mantra r) \<noteq> MantraPass,
       ''admission and merge require a passing mantra assessment'')]"

definition pending_value_review_is_blocked :: "PackageInventoryRecord \<Rightarrow> (bool \<times> string) list" where
  "pending_value_review_is_blocked r =
     [(ir_value_decision r = NeedsReview
         \<and> (ir_intended_disposition r \<noteq> NeedsOwnerDecision
            \<or> ''value_review_required'' \<notin> set (ir_blocker_codes r)),
       ''needs_review value decision requires needs_owner_decision and value_review_required'')]"

definition check_record :: "PackageInventoryRecord \<Rightarrow> (bool \<times> string) list" where
  "check_record r =
     check_record_fields r @ duplicate_requires_target r
     @ (if ir_schema_version r = InventoryV2 then pending_value_review_is_blocked r else [])"

section \<open>Inventory snapshots\<close>

text \<open>\<open>PackageInventory\<close> and \<open>PackageInventoryV2\<close> differ in the version they demand of their records.\<close>

record PackageInventory =
  pi_schema_version :: InventoryVersion
  pi_source_revision :: string
  pi_records :: "PackageInventoryRecord list"

definition normalise_inventory :: "PackageInventory \<Rightarrow> PackageInventory" where
  "normalise_inventory i =
     \<lparr>pi_schema_version = pi_schema_version i, pi_source_revision = trim (pi_source_revision i),
      pi_records = map normalise_record (pi_records i)\<rparr>"

definition check_inventory :: "PackageInventory \<Rightarrow> (bool \<times> string) list" where
  "check_inventory i =
     field ''source_revision'' (is_git_revision (pi_source_revision i))
     @ each check_record (pi_records i)
     @ [(\<exists>r \<in> set (pi_records i). ir_schema_version r \<noteq> pi_schema_version i,
         case pi_schema_version i of
           InventoryV1 \<Rightarrow> ''package-inventory-set/v1 requires package-inventory/v1 records''
         | InventoryV2 \<Rightarrow> ''package-inventory-set/v2 requires package-inventory/v2 records''),
        (has_duplicates (map ir_package_id (pi_records i)), ''inventory package_id values must be unique'')]"

section \<open>The models as instances of the interface\<close>

lemma normalise_principle_idem [simp]: "normalise_principle (normalise_principle p) = normalise_principle p"
  by (simp add: normalise_principle_def)

lemma normalise_mantra_idem [simp]: "normalise_mantra (normalise_mantra m) = normalise_mantra m"
  by (simp add: normalise_mantra_def)

lemma normalise_source_idem [simp]: "normalise_source (normalise_source s) = normalise_source s"
  by (simp add: normalise_source_def)

lemma normalise_rights_idem [simp]: "normalise_rights (normalise_rights r) = normalise_rights r"
  by (simp add: normalise_rights_def)

lemma map_option_twice: "(\<And>x. f (f x) = f x) \<Longrightarrow> map_option f (map_option f x) = map_option f x"
  by (cases x) simp_all

lemma normalise_record_idem [simp]: "normalise_record (normalise_record r) = normalise_record r"
  by (simp add: normalise_record_def map_option_twice)

lemma normalise_inventory_idem [simp]: "normalise_inventory (normalise_inventory i) = normalise_inventory i"
  by (simp add: normalise_inventory_def)

interpretation source_model: contract_model normalise_source check_source
  by unfold_locales simp

interpretation rights_model: contract_model normalise_rights check_rights
  by unfold_locales simp

interpretation mantra_model: contract_model normalise_mantra check_mantra
  by unfold_locales simp

interpretation record_model: contract_model normalise_record check_record
  by unfold_locales simp

interpretation inventory_model: contract_model normalise_inventory check_inventory
  by unfold_locales simp

section \<open>Consequences\<close>

lemma expected_overall_pass:
  "expected_overall m = MantraPass \<longleftrightarrow> (\<forall>p \<in> set (principles m). mp_status p = MantraPass)"
proof -
  have "(\<forall>s \<in> S. s = MantraPass) \<longleftrightarrow> MantraReject \<notin> S \<and> MantraRevise \<notin> S" for S
    by (metis MantraStatus.exhaust MantraStatus.distinct)
  from this [of "mp_status ` set (principles m)"] show ?thesis
    by (simp add: expected_overall_def Let_def)
qed

lemma check_mantra_overall: "passes (check_mantra m) \<Longrightarrow> ma_overall m = expected_overall m"
  by (simp add: check_mantra_def)

lemma check_record_mantra: "passes (check_record r) \<Longrightarrow> passes (check_mantra (ir_mantra r))"
  by (simp add: check_record_def check_record_fields_def)

end
