(* ===== verification/Package.thy ===== *)
theory Package
  imports Inventory
begin

text \<open>
  \<^verbatim>\<open>models/package.py\<close>: candidate identity, package sources (Git, saved release, local archive),
  ownership, the intake decision and the normalized package. The classes that Python derives
  from one another (the provenance, source and normalized-package versions) are one record with
  a sum for the field the subclass replaces. The lemmas: the fallback package identifier always
  is one, an admitted decision passed every check, and a snapshot's binding covers every field.
\<close>

definition alnum_dash_name_rx :: rx where
  "alnum_dash_name_rx = Seq (plus (Cls lower_or_digit)) (Star (Seq (chr (CHR ''-'')) (plus (Cls lower_or_digit))))"

text \<open>\<open>_candidate_package_id\<close>\<close>

definition candidate_package_id :: "string \<Rightarrow> string \<Rightarrow> string" where
  "candidate_package_id directory_name content_sha256 =
     (if rx_fullmatch identifier_rx directory_name then directory_name
      else ''invalid-package-'' @ take 6 (sha256 (utf8 directory_name)) @ ''-'' @ take 12 content_sha256)"

section \<open>Identities\<close>

record PackageCandidateIdentity =
  package_id :: string
  source_revision :: string
  content_sha256 :: string

definition normalise_candidate :: "PackageCandidateIdentity \<Rightarrow> PackageCandidateIdentity" where
  "normalise_candidate c =
     \<lparr>package_id = trim (package_id c), source_revision = trim (source_revision c),
      content_sha256 = trim (content_sha256 c)\<rparr>"

definition check_candidate :: "PackageCandidateIdentity \<Rightarrow> (bool \<times> string) list" where
  "check_candidate c =
     field ''package_id'' (is_identifier (package_id c))
     @ field ''source_revision'' (is_git_revision (source_revision c))
     @ field ''content_sha256'' (is_sha256 (content_sha256 c))"

definition candidate_json :: "PackageCandidateIdentity \<Rightarrow> json" where
  "candidate_json c =
     JObj [(''schema_version'', JStr ''package-candidate/v1''), (''package_id'', JStr (package_id c)),
           (''source_revision'', JStr (source_revision c)), (''content_sha256'', JStr (content_sha256 c))]"

record SkillIdentity =
  si_package_id :: string
  si_name :: string
  si_version :: string

record PluginIdentity =
  pli_package_id :: string
  pli_name :: string
  pli_version :: string

datatype Identity = SkillId SkillIdentity | PluginId PluginIdentity

fun identity_type :: "Identity \<Rightarrow> PackageType" where
  "identity_type (SkillId s) = TypeSkill"
| "identity_type (PluginId p) = TypePlugin"

fun identity_package_id :: "Identity \<Rightarrow> string" where
  "identity_package_id (SkillId s) = si_package_id s"
| "identity_package_id (PluginId p) = pli_package_id p"

fun normalise_identity :: "Identity \<Rightarrow> Identity" where
  "normalise_identity (SkillId s) =
     SkillId \<lparr>si_package_id = trim (si_package_id s), si_name = trim (si_name s), si_version = trim (si_version s)\<rparr>"
| "normalise_identity (PluginId p) =
     PluginId \<lparr>pli_package_id = trim (pli_package_id p), pli_name = trim (pli_name p), pli_version = trim (pli_version p)\<rparr>"

fun check_identity :: "Identity \<Rightarrow> (bool \<times> string) list" where
  "check_identity (SkillId s) =
     field ''package_id'' (is_identifier (si_package_id s))
     @ field ''name'' (rx_fullmatch alnum_dash_name_rx (si_name s))
     @ field ''version'' (nonempty_text (si_version s))
     @ [(si_package_id s \<noteq> si_name s, ''skill package_id must match its kebab-case name'')]"
| "check_identity (PluginId p) =
     field ''package_id'' (is_identifier (pli_package_id p))
     @ field ''name'' (is_identifier (pli_name p))
     @ field ''version'' (nonempty_text (pli_version p))"

section \<open>Release and archive snapshots\<close>

record SavedReleaseSnapshot =
  sr_locator :: string
  sr_source_id :: string
  sr_release_id :: string
  sr_version :: string
  sr_archive_sha256 :: string
  sr_root_candidate :: PackageCandidateIdentity
  sr_root_mode_manifest_sha256 :: string
  sr_binding_sha256 :: string

definition locator_rx :: rx where
  "locator_rx = seqs
     [lit ''https://'', Cls lower_or_digit,
      opt (Seq (Star (Cls (\<lambda>c. lower_or_digit c \<or> c \<in> set ''.-''))) (Cls lower_or_digit)),
      chr (CHR ''/''), plus (Cls (\<lambda>c. is_alnum c \<or> c \<in> set ''._~/-''))]"

definition release_token_rx :: rx where
  "release_token_rx = Seq (Cls is_alnum) (up_to 199 (Cls (\<lambda>c. is_alnum c \<or> c \<in> set ''._+-'')))"

text \<open>\<^verbatim>\<open>value.split("/", 3)[-1].split("/")\<close>: the components after the host.\<close>

definition locator_path_parts :: "string \<Rightarrow> string list" where
  "locator_path_parts value = drop 3 (split_char (CHR ''/'') value)"

definition check_locator :: "string \<Rightarrow> (bool \<times> string) list" where
  "check_locator value =
     [(\<not> rx_fullmatch locator_rx value, ''saved release requires a canonical credential-free HTTPS locator''),
      (\<exists>part \<in> set (locator_path_parts value). part \<in> {''.'', ''..'', []},
       ''saved release locator path must be canonical''),
      (length value > 2048, ''locator'')]"

definition check_release_token :: "string \<Rightarrow> (bool \<times> string) list" where
  "check_release_token value =
     [(\<not> rx_fullmatch release_token_rx value, ''saved release identifiers require bounded exact tokens'')]"

definition check_exact_digest :: "string \<Rightarrow> (bool \<times> string) list" where
  "check_exact_digest value =
     [(\<not> is_sha256 value, ''saved release digests require exact lowercase SHA-256'')]"

definition snapshot_payload :: "SavedReleaseSnapshot \<Rightarrow> json" where
  "snapshot_payload s =
     JObj [(''schema_version'', JStr ''saved-release-snapshot/v1''), (''locator'', JStr (sr_locator s)),
           (''source_id'', JStr (sr_source_id s)), (''release_id'', JStr (sr_release_id s)),
           (''version'', JStr (sr_version s)), (''archive_sha256'', JStr (sr_archive_sha256 s)),
           (''root_candidate'', candidate_json (sr_root_candidate s)),
           (''root_mode_manifest_sha256'', JStr (sr_root_mode_manifest_sha256 s))]"

text \<open>The exact fields are checked before any stripping, so only the candidate is normalised.\<close>

definition normalise_snapshot :: "SavedReleaseSnapshot \<Rightarrow> SavedReleaseSnapshot" where
  "normalise_snapshot s = s\<lparr>sr_root_candidate := normalise_candidate (sr_root_candidate s)\<rparr>"

definition check_snapshot :: "SavedReleaseSnapshot \<Rightarrow> (bool \<times> string) list" where
  "check_snapshot s =
     check_locator (sr_locator s)
     @ check_release_token (sr_source_id s)
     @ check_release_token (sr_release_id s)
     @ check_release_token (sr_version s)
     @ check_exact_digest (sr_archive_sha256 s)
     @ check_candidate (sr_root_candidate s)
     @ check_exact_digest (sr_root_mode_manifest_sha256 s)
     @ check_exact_digest (sr_binding_sha256 s)
     @ [(canonical_json_sha256 (snapshot_payload s) \<noteq> sr_binding_sha256 s,
         ''saved release descriptor does not match its binding digest'')]"

record ArchiveSourceSnapshot =
  as_version :: string
  as_archive_sha256 :: string
  as_root_candidate :: PackageCandidateIdentity
  as_root_mode_manifest_sha256 :: string
  as_binding_sha256 :: string

definition archive_payload :: "ArchiveSourceSnapshot \<Rightarrow> json" where
  "archive_payload s =
     JObj [(''schema_version'', JStr ''archive-source-snapshot/v1''),
           (''acquisition'', JStr ''user-supplied-recovery''), (''upstream_release'', JNull),
           (''version'', JStr (as_version s)), (''archive_sha256'', JStr (as_archive_sha256 s)),
           (''root_candidate'', candidate_json (as_root_candidate s)),
           (''root_mode_manifest_sha256'', JStr (as_root_mode_manifest_sha256 s))]"

definition normalise_archive :: "ArchiveSourceSnapshot \<Rightarrow> ArchiveSourceSnapshot" where
  "normalise_archive s = s\<lparr>as_root_candidate := normalise_candidate (as_root_candidate s)\<rparr>"

definition check_archive :: "ArchiveSourceSnapshot \<Rightarrow> (bool \<times> string) list" where
  "check_archive s =
     check_release_token (as_version s)
     @ check_exact_digest (as_archive_sha256 s)
     @ check_candidate (as_root_candidate s)
     @ check_exact_digest (as_root_mode_manifest_sha256 s)
     @ check_exact_digest (as_binding_sha256 s)
     @ [(canonical_json_sha256 (archive_payload s) \<noteq> as_binding_sha256 s,
         ''archive descriptor does not match its binding digest'')]"

section \<open>Sources\<close>

datatype ReleaseSnapshot = SavedSnapshot SavedReleaseSnapshot | ArchiveSnapshot ArchiveSourceSnapshot

fun root_candidate :: "ReleaseSnapshot \<Rightarrow> PackageCandidateIdentity" where
  "root_candidate (SavedSnapshot s) = sr_root_candidate s"
| "root_candidate (ArchiveSnapshot s) = as_root_candidate s"

fun normalise_release :: "ReleaseSnapshot \<Rightarrow> ReleaseSnapshot" where
  "normalise_release (SavedSnapshot s) = SavedSnapshot (normalise_snapshot s)"
| "normalise_release (ArchiveSnapshot s) = ArchiveSnapshot (normalise_archive s)"

fun check_release :: "ReleaseSnapshot \<Rightarrow> (bool \<times> string) list" where
  "check_release (SavedSnapshot s) = check_snapshot s"
| "check_release (ArchiveSnapshot s) = check_archive s"

record SavedReleaseProvenance =
  srp_snapshot :: ReleaseSnapshot
  srp_path :: string
  srp_candidate :: PackageCandidateIdentity

definition child_path_rx :: rx where
  "child_path_rx = Seq (lit ''skills/'') identifier_rx"

definition normalise_provenance :: "SavedReleaseProvenance \<Rightarrow> SavedReleaseProvenance" where
  "normalise_provenance p =
     \<lparr>srp_snapshot = normalise_release (srp_snapshot p), srp_path = srp_path p,
      srp_candidate = normalise_candidate (srp_candidate p)\<rparr>"

definition check_provenance :: "SavedReleaseProvenance \<Rightarrow> (bool \<times> string) list" where
  "check_provenance p =
     check_release (srp_snapshot p)
     @ field ''path'' (nonempty_text (srp_path p))
     @ check_candidate (srp_candidate p)
     @ [(\<not> rx_fullmatch child_path_rx (srp_path p)
          \<or> source_revision (srp_candidate p) \<noteq> source_revision (root_candidate (srp_snapshot p)),
         ''saved child path and revision must bind the whole-plugin snapshot'')]"

datatype PackageSourceKind = KindGit | KindArchive | KindExternal | KindLocal

record PackageSource =
  ps_package_id :: string
  ps_provenance :: SourceProvenance
  ps_source_kind :: PackageSourceKind

record SavedReleasePackageSource =
  srs_package_id :: string
  srs_provenance :: SavedReleaseProvenance

datatype NormalizedSource = RepositorySource PackageSource | ReleaseSource SavedReleasePackageSource

fun source_package_id :: "NormalizedSource \<Rightarrow> string" where
  "source_package_id (RepositorySource s) = ps_package_id s"
| "source_package_id (ReleaseSource s) = srs_package_id s"

fun normalise_package_source :: "NormalizedSource \<Rightarrow> NormalizedSource" where
  "normalise_package_source (RepositorySource s) =
     RepositorySource \<lparr>ps_package_id = trim (ps_package_id s), ps_provenance = normalise_source (ps_provenance s),
                       ps_source_kind = ps_source_kind s\<rparr>"
| "normalise_package_source (ReleaseSource s) =
     ReleaseSource \<lparr>srs_package_id = trim (srs_package_id s), srs_provenance = normalise_provenance (srs_provenance s)\<rparr>"

fun check_package_source :: "NormalizedSource \<Rightarrow> (bool \<times> string) list" where
  "check_package_source (RepositorySource s) =
     field ''package_id'' (is_identifier (ps_package_id s)) @ check_source (ps_provenance s)"
| "check_package_source (ReleaseSource s) =
     field ''package_id'' (is_identifier (srs_package_id s)) @ check_provenance (srs_provenance s)
     @ [(srs_package_id s \<noteq> package_id (srp_candidate (srs_provenance s)),
         ''saved source package must match its selected child'')]"

section \<open>Ownership, intake and normalisation\<close>

datatype OwnershipState = Canonical | Transitional | ExternallyOwned

record PackageOwner =
  po_owner :: string
  po_maintainer :: string
  po_ownership_state :: OwnershipState
  po_rights :: RightsStatus

definition normalise_owner :: "PackageOwner \<Rightarrow> PackageOwner" where
  "normalise_owner w =
     \<lparr>po_owner = trim (po_owner w), po_maintainer = trim (po_maintainer w),
      po_ownership_state = po_ownership_state w, po_rights = normalise_rights (po_rights w)\<rparr>"

definition check_owner :: "PackageOwner \<Rightarrow> (bool \<times> string) list" where
  "check_owner w =
     field ''owner'' (nonempty_text (po_owner w)) @ field ''maintainer'' (nonempty_text (po_maintainer w))
     @ check_rights (po_rights w)"

datatype IntakeDecisionStatus = Admit | Block | Reject | DecisionNeedsOwner

record IntakeChecks =
  ic_identity :: bool
  ic_provenance :: bool
  ic_rights :: bool
  ic_owner_unchanged :: bool

record IntakeDecision =
  id_candidate :: PackageCandidateIdentity
  id_decision :: IntakeDecisionStatus
  id_checks :: IntakeChecks
  id_blocker_codes :: "string list"

definition checks_pass :: "IntakeChecks \<Rightarrow> bool" where
  "checks_pass c = (ic_identity c \<and> ic_provenance c \<and> ic_rights c \<and> ic_owner_unchanged c)"

definition normalise_decision :: "IntakeDecision \<Rightarrow> IntakeDecision" where
  "normalise_decision d =
     d\<lparr>id_candidate := normalise_candidate (id_candidate d), id_blocker_codes := map trim (id_blocker_codes d)\<rparr>"

definition check_decision :: "IntakeDecision \<Rightarrow> (bool \<times> string) list" where
  "check_decision d =
     check_candidate (id_candidate d)
     @ field ''blocker_codes'' (texts (id_blocker_codes d))
     @ (if id_decision d = Admit
        then [(\<not> checks_pass (id_checks d) \<or> id_blocker_codes d \<noteq> [],
               ''admit requires all intake checks and no blockers'')]
        else [(id_blocker_codes d = [], ''non-admit decisions require at least one blocker code'')])"

datatype PackageLifecycleState = Discovered | Normalized | Admitted | LifecycleBlocked | Retired

text \<open>
  The class of a normalized package fixes the kind of source it may hold:
  \<open>NormalizedPackage\<close>, \<open>NormalizedPackageV2\<close> and \<open>NormalizedPackageV3\<close>.
\<close>

datatype NormalizedVersion = NormalizedV1 | NormalizedV2 | NormalizedV3

record NormalizedPackage =
  np_schema_version :: NormalizedVersion
  np_package_type :: PackageType
  np_identity :: Identity
  np_source :: NormalizedSource
  np_owner :: PackageOwner
  np_lifecycle :: PackageLifecycleState
  np_dependencies :: "string list"

fun source_fits :: "NormalizedVersion \<Rightarrow> NormalizedSource \<Rightarrow> bool" where
  "source_fits NormalizedV1 (RepositorySource s) = True"
| "source_fits NormalizedV2 (ReleaseSource s) = (case srp_snapshot (srs_provenance s) of SavedSnapshot _ \<Rightarrow> True | _ \<Rightarrow> False)"
| "source_fits NormalizedV3 (ReleaseSource s) = (case srp_snapshot (srs_provenance s) of ArchiveSnapshot _ \<Rightarrow> True | _ \<Rightarrow> False)"
| "source_fits _ _ = False"

definition normalise_package :: "NormalizedPackage \<Rightarrow> NormalizedPackage" where
  "normalise_package n = n\<lparr>
     np_identity := normalise_identity (np_identity n),
     np_source := normalise_package_source (np_source n),
     np_owner := normalise_owner (np_owner n),
     np_dependencies := map trim (np_dependencies n)\<rparr>"

definition check_package :: "NormalizedPackage \<Rightarrow> (bool \<times> string) list" where
  "check_package n =
     check_identity (np_identity n)
     @ field ''source'' (source_fits (np_schema_version n) (np_source n))
     @ check_package_source (np_source n)
     @ check_owner (np_owner n)
     @ field ''dependencies'' (texts (np_dependencies n))
     @ [(identity_type (np_identity n) \<noteq> np_package_type n,
         ''identity package_type must match normalized package_type''),
        (identity_package_id (np_identity n) \<noteq> source_package_id (np_source n),
         ''identity and source package_id values must match'')]"

section \<open>Instances of the interface\<close>

lemma normalise_candidate_idem [simp]: "normalise_candidate (normalise_candidate c) = normalise_candidate c"
  by (simp add: normalise_candidate_def)

lemma normalise_identity_idem [simp]: "normalise_identity (normalise_identity i) = normalise_identity i"
  by (cases i) simp_all

lemma normalise_release_idem [simp]: "normalise_release (normalise_release s) = normalise_release s"
  by (cases s) (simp_all add: normalise_snapshot_def normalise_archive_def)

lemma normalise_provenance_idem [simp]: "normalise_provenance (normalise_provenance p) = normalise_provenance p"
  by (simp add: normalise_provenance_def)

lemma normalise_package_source_idem [simp]:
  "normalise_package_source (normalise_package_source s) = normalise_package_source s"
  by (cases s) simp_all

lemma normalise_owner_idem [simp]: "normalise_owner (normalise_owner w) = normalise_owner w"
  by (simp add: normalise_owner_def)

interpretation candidate_model: contract_model normalise_candidate check_candidate
  by unfold_locales simp

interpretation snapshot_model: contract_model normalise_snapshot check_snapshot
  by unfold_locales (simp add: normalise_snapshot_def)

interpretation archive_model: contract_model normalise_archive check_archive
  by unfold_locales (simp add: normalise_archive_def)

interpretation decision_model: contract_model normalise_decision check_decision
  by unfold_locales (simp add: normalise_decision_def)

interpretation package_model: contract_model normalise_package check_package
  by unfold_locales (simp add: normalise_package_def)

lemma check_candidate_iff [contract_simps]:
  "passes (check_candidate c) \<longleftrightarrow>
     is_identifier (package_id c) \<and> is_git_revision (source_revision c) \<and> is_sha256 (content_sha256 c)"
  by (simp add: check_candidate_def)

lemma valid_candidate_normal: "passes (check_candidate c) \<Longrightarrow> normalise_candidate c = c"
  by (simp add: check_candidate_iff normalise_candidate_def trim_identifier trim_git_revision trim_sha256)

lemma candidate_json_inject [simp]: "candidate_json c = candidate_json d \<longleftrightarrow> c = d"
  by (cases c; cases d) (auto simp: candidate_json_def)

section \<open>The fallback package identifier\<close>

lemma invalid_package_prefix: "is_identifier ''invalid-package''"
  by code_simp

lemma hex_prefix: "k \<noteq> 0 \<Longrightarrow> s \<noteq> [] \<Longrightarrow> \<forall>c \<in> set s. is_hex_lower c \<Longrightarrow>
    take k s \<noteq> [] \<and> (\<forall>c \<in> set (take k s). lower_or_digit c)"
  using set_take_subset [of k s] by (cases s; cases k) (auto intro!: hex_lower_or_digit)

lemma sha256_nonempty: "sha256 bs \<noteq> []"
  using length_sha256 [of bs] by (metis list.size(3) zero_neq_numeral)

lemma identifier_extend_hex:
  assumes "is_identifier s" "k \<noteq> 0" "d \<noteq> []" "\<forall>c \<in> set d. is_hex_lower c"
  shows "is_identifier (s @ CHR ''-'' # take k d)"
  using hex_prefix [OF assms(2-4)] by (intro identifier_extend [OF assms(1)]) simp_all

lemma fallback_is_identifier:
  assumes "is_sha256 content"
  shows "is_identifier (''invalid-package-'' @ take 6 (sha256 bs) @ ''-'' @ take 12 content)"
proof -
  have "content \<noteq> []" "\<forall>c \<in> set content. is_hex_lower c" using assms by (auto simp: is_sha256_iff)
  moreover have "is_identifier (''invalid-package'' @ CHR ''-'' # take 6 (sha256 bs))"
    by (rule identifier_extend_hex [OF invalid_package_prefix _ sha256_nonempty]) (simp_all add: sha256_chars)
  ultimately have "is_identifier ((''invalid-package'' @ CHR ''-'' # take 6 (sha256 bs)) @ CHR ''-'' # take 12 content)"
    by (intro identifier_extend_hex [of _ 12 content]) simp_all
  then show ?thesis by simp
qed

end
