(* ===== verification/Packaging.thy ===== *)
theory Packaging
  imports Package
begin

text \<open>
  \<^verbatim>\<open>models/packaging.py\<close>: the package manifest, the build receipt (versions 1 and 2), the archive
  verification policy and receipt, and the hardening policy, checks and receipt. Version 2 of the
  build receipt adds one validator to version 1, so both are one record with a version field.
  The lemmas: what a built receipt, a passing archive proof and a passing hardening receipt
  guarantee, and that the manifest's JSON determines the manifest.
\<close>

section \<open>Manifest\<close>

datatype PackageFileRole = RoleSkillMd | RoleReadme | RoleReference | RoleScript | RoleAsset | RoleEval

fun role_name :: "PackageFileRole \<Rightarrow> string" where
  "role_name RoleSkillMd = ''skill_md''"
| "role_name RoleReadme = ''readme''"
| "role_name RoleReference = ''reference''"
| "role_name RoleScript = ''script''"
| "role_name RoleAsset = ''asset''"
| "role_name RoleEval = ''eval''"

text \<open>\<open>_file_role\<close>: the first component decides, everything else is an asset.\<close>

definition file_role :: "string \<Rightarrow> PackageFileRole" where
  "file_role relative =
     (if relative = ''SKILL.md'' then RoleSkillMd
      else if relative = ''README.md'' then RoleReadme
      else (case map_of [(''references'', RoleReference), (''scripts'', RoleScript),
                         (''assets'', RoleAsset), (''evals'', RoleEval)]
                   (hd (split_char (CHR ''/'') relative)) of
              Some r \<Rightarrow> r | None \<Rightarrow> RoleAsset))"

record PackageManifestFile =
  mf_path :: string
  mf_sha256 :: string
  mf_size_bytes :: int
  mf_role :: PackageFileRole

definition normalise_file :: "PackageManifestFile \<Rightarrow> PackageManifestFile" where
  "normalise_file f = f\<lparr>mf_sha256 := trim (mf_sha256 f)\<rparr>"

definition check_file :: "PackageManifestFile \<Rightarrow> (bool \<times> string) list" where
  "check_file f =
     field ''path'' (portable (mf_path f))
     @ field ''sha256'' (is_sha256 (mf_sha256 f))
     @ field ''size_bytes'' (0 \<le> mf_size_bytes f)"

definition file_json :: "PackageManifestFile \<Rightarrow> json" where
  "file_json f =
     JObj [(''path'', JStr (mf_path f)), (''sha256'', JStr (mf_sha256 f)),
           (''size_bytes'', JInt (mf_size_bytes f)), (''role'', JStr (role_name (mf_role f)))]"

record PackageManifestProvenance =
  pmp_source :: "string list"
  pmp_builder :: string

definition normalise_manifest_provenance :: "PackageManifestProvenance \<Rightarrow> PackageManifestProvenance" where
  "normalise_manifest_provenance p = p\<lparr>pmp_builder := trim (pmp_builder p)\<rparr>"

definition check_manifest_provenance :: "PackageManifestProvenance \<Rightarrow> (bool \<times> string) list" where
  "check_manifest_provenance p =
     field ''source'' (pmp_source p \<noteq> [] \<and> portables (pmp_source p))
     @ field ''builder'' (nonempty_text (pmp_builder p))"

definition manifest_provenance_json :: "PackageManifestProvenance \<Rightarrow> json" where
  "manifest_provenance_json p = JObj [(''source'', strs (pmp_source p)), (''builder'', JStr (pmp_builder p))]"

record PackageManifest =
  pm_candidate :: PackageCandidateIdentity
  pm_version :: string
  pm_files :: "PackageManifestFile list"
  pm_provenance :: PackageManifestProvenance

definition normalise_manifest :: "PackageManifest \<Rightarrow> PackageManifest" where
  "normalise_manifest m =
     \<lparr>pm_candidate = normalise_candidate (pm_candidate m), pm_version = trim (pm_version m),
      pm_files = map normalise_file (pm_files m),
      pm_provenance = normalise_manifest_provenance (pm_provenance m)\<rparr>"

definition manifest_paths :: "PackageManifest \<Rightarrow> string list" where
  "manifest_paths m = map mf_path (pm_files m)"

definition check_manifest :: "PackageManifest \<Rightarrow> (bool \<times> string) list" where
  "check_manifest m =
     check_candidate (pm_candidate m)
     @ field ''version'' (nonempty_text (pm_version m))
     @ field ''files'' (pm_files m \<noteq> []) @ each check_file (pm_files m)
     @ check_manifest_provenance (pm_provenance m)
     @ [(has_duplicates (manifest_paths m), ''package manifest paths must be unique'')]"

definition manifest_json :: "PackageManifest \<Rightarrow> json" where
  "manifest_json m =
     JObj [(''schema_version'', JStr ''package-manifest/v1''), (''candidate'', candidate_json (pm_candidate m)),
           (''version'', JStr (pm_version m)), (''files'', arr file_json (pm_files m)),
           (''provenance'', manifest_provenance_json (pm_provenance m))]"

text \<open>The (path, digest) pairs \<open>candidate_content_sha256\<close> reads from manifest files.\<close>

definition digest_files :: "PackageManifestFile list \<Rightarrow> (string \<times> string) list" where
  "digest_files fs = map (\<lambda>f. (mf_path f, mf_sha256 f)) fs"

section \<open>Build receipt\<close>

record PackageReceiptBlocker =
  rb_code :: string
  rb_message :: string
  rb_evidence_refs :: "string list"

definition normalise_blocker :: "PackageReceiptBlocker \<Rightarrow> PackageReceiptBlocker" where
  "normalise_blocker b = b\<lparr>rb_code := trim (rb_code b), rb_message := trim (rb_message b)\<rparr>"

definition check_blocker :: "PackageReceiptBlocker \<Rightarrow> (bool \<times> string) list" where
  "check_blocker b =
     field ''code'' (is_blocker_code (rb_code b))
     @ field ''message'' (nonempty_text (rb_message b))
     @ field ''evidence_refs'' (portables (rb_evidence_refs b))"

datatype BuildStatus = Built | BuildBlocked

datatype ReceiptVersion = ReceiptV1 | ReceiptV2

record PackageReceipt =
  pr_schema_version :: ReceiptVersion
  pr_receipt_id :: string
  pr_candidate :: "PackageCandidateIdentity option"
  pr_status :: BuildStatus
  pr_started_at :: int
  pr_finished_at :: int
  pr_evidence :: "string list"
  pr_blocker :: "PackageReceiptBlocker option"
  pr_package_digest :: "string option"
  pr_manifest :: "PackageManifest option"
  pr_included_files :: "string list"
  pr_excluded_files :: "string list"

definition normalise_receipt :: "PackageReceipt \<Rightarrow> PackageReceipt" where
  "normalise_receipt r = r\<lparr>
     pr_receipt_id := trim (pr_receipt_id r),
     pr_candidate := map_option normalise_candidate (pr_candidate r),
     pr_blocker := map_option normalise_blocker (pr_blocker r),
     pr_package_digest := map_option trim (pr_package_digest r),
     pr_manifest := map_option normalise_manifest (pr_manifest r)\<rparr>"

definition paths_of :: "PackageManifest option \<Rightarrow> string list" where
  "paths_of m = (case m of None \<Rightarrow> [] | Some m \<Rightarrow> manifest_paths m)"

text \<open>\<open>receipt_matches_manifest\<close>\<close>

definition receipt_matches_manifest :: "PackageReceipt \<Rightarrow> (bool \<times> string) list" where
  "receipt_matches_manifest r =
     (let paths = set (paths_of (pr_manifest r)); included = set (pr_included_files r);
          excluded = set (pr_excluded_files r)
      in [(pr_finished_at r < pr_started_at r, ''package receipt finished_at must not precede started_at''),
          (pr_manifest r \<noteq> None \<and> map_option pm_candidate (pr_manifest r) \<noteq> pr_candidate r,
           ''package receipt and manifest must bind the same candidate'')]
         @ (if pr_status r = Built then
              [(pr_candidate r = None \<or> pr_package_digest r = None \<or> pr_manifest r = None,
                ''built package receipt requires candidate, package_digest, and manifest''),
               (included = {} \<or> included \<noteq> paths, ''built package receipt must include every manifest path''),
               (pr_blocker r \<noteq> None, ''built package receipt cannot contain a blocker'')]
            else
              [(pr_blocker r = None, ''blocked package receipt requires a blocker''),
               (pr_package_digest r \<noteq> None, ''blocked package receipt cannot claim a package digest''),
               (pr_manifest r = None \<and> (pr_included_files r \<noteq> [] \<or> pr_excluded_files r \<noteq> []),
                ''blocked receipt paths require a manifest''),
               (\<not> included \<subseteq> paths, ''blocked package receipt included files must be manifested''),
               (excluded \<inter> paths \<noteq> {}, ''blocked package receipt excluded files must not be manifested'')])
         @ [(included \<inter> excluded \<noteq> {}, ''included and excluded package paths must be disjoint'')])"

text \<open>\<open>package_digest_matches_manifest\<close>, version 2 only.\<close>

definition package_digest_matches_manifest :: "PackageReceipt \<Rightarrow> (bool \<times> string) list" where
  "package_digest_matches_manifest r =
     (case (pr_status r, pr_manifest r, pr_candidate r) of
        (Built, Some m, Some c) \<Rightarrow>
          [(content_sha256 c \<noteq> candidate_content_sha256 (digest_files (pm_files m)),
            ''built package receipt candidate digest must match manifest files''),
           (pr_package_digest r \<noteq> Some (canonical_json_sha256 (manifest_json m)),
            ''built package receipt digest must match the canonical manifest'')]
      | (Built, _, _) \<Rightarrow> [(True, ''assert'')]
      | (BuildBlocked, _, _) \<Rightarrow> [])"

definition check_receipt :: "PackageReceipt \<Rightarrow> (bool \<times> string) list" where
  "check_receipt r =
     field ''receipt_id'' (is_identifier (pr_receipt_id r))
     @ opt_checks check_candidate (pr_candidate r)
     @ field ''evidence'' (pr_evidence r \<noteq> [] \<and> unique_portables (pr_evidence r))
     @ opt_checks check_blocker (pr_blocker r)
     @ field ''package_digest'' (opt_ok is_sha256 (pr_package_digest r))
     @ opt_checks check_manifest (pr_manifest r)
     @ field ''included_files'' (unique_portables (pr_included_files r))
     @ field ''excluded_files'' (unique_portables (pr_excluded_files r))
     @ receipt_matches_manifest r
     @ (case pr_schema_version r of ReceiptV1 \<Rightarrow> [] | ReceiptV2 \<Rightarrow> package_digest_matches_manifest r)"

section \<open>Archive verification\<close>

record PackageArchiveVerificationPolicy =
  vp_max_archive_bytes :: int
  vp_max_entry_count :: int
  vp_max_total_uncompressed_bytes :: int

definition default_verification_policy :: PackageArchiveVerificationPolicy where
  "default_verification_policy =
     \<lparr>vp_max_archive_bytes = 25 * 1024 * 1024, vp_max_entry_count = 500,
      vp_max_total_uncompressed_bytes = 20 * 1024 * 1024\<rparr>"

definition check_verification_policy :: "PackageArchiveVerificationPolicy \<Rightarrow> (bool \<times> string) list" where
  "check_verification_policy p =
     field ''max_archive_bytes'' (1 \<le> vp_max_archive_bytes p)
     @ field ''max_entry_count'' (1 \<le> vp_max_entry_count p)
     @ field ''max_total_uncompressed_bytes'' (1 \<le> vp_max_total_uncompressed_bytes p)"

datatype PassStatus = PassResult | BlockedResult

record PackageArchiveVerificationReceipt =
  av_status :: PassStatus
  av_archive_sha256 :: "string option"
  av_candidate :: "PackageCandidateIdentity option"
  av_package_digest :: "string option"
  av_manifest :: "PackageManifest option"
  av_verified_files :: "string list"
  av_blocker :: "PackageReceiptBlocker option"

definition normalise_verification :: "PackageArchiveVerificationReceipt \<Rightarrow> PackageArchiveVerificationReceipt" where
  "normalise_verification r = r\<lparr>
     av_archive_sha256 := map_option trim (av_archive_sha256 r),
     av_candidate := map_option normalise_candidate (av_candidate r),
     av_package_digest := map_option trim (av_package_digest r),
     av_manifest := map_option normalise_manifest (av_manifest r),
     av_blocker := map_option normalise_blocker (av_blocker r)\<rparr>"

text \<open>\<open>status_matches_proof\<close>\<close>

definition status_matches_proof :: "PackageArchiveVerificationReceipt \<Rightarrow> (bool \<times> string) list" where
  "status_matches_proof r =
     (if av_status r = PassResult then
        (case (av_archive_sha256 r, av_candidate r, av_package_digest r, av_manifest r) of
           (Some a, Some c, Some d, Some m) \<Rightarrow>
             [(av_blocker r \<noteq> None, ''passing archive verification cannot contain a blocker''),
              (c \<noteq> pm_candidate m, ''archive verification candidate must match the manifest''),
              (content_sha256 c \<noteq> candidate_content_sha256 (digest_files (pm_files m)),
               ''archive verification candidate digest must match manifest files''),
              (d \<noteq> canonical_json_sha256 (manifest_json m),
               ''archive verification package digest must match the canonical manifest''),
              (set (av_verified_files r) \<noteq> set (manifest_paths m),
               ''passing archive verification must verify every manifest file'')]
         | _ \<Rightarrow> [(True, ''passing archive verification requires complete digest and manifest proof'')])
      else
        [(av_blocker r = None, ''blocked archive verification requires a blocker''),
         (av_archive_sha256 r \<notin> {None, Some []} \<or> av_candidate r \<noteq> None
            \<or> av_package_digest r \<notin> {None, Some []} \<or> av_manifest r \<noteq> None \<or> av_verified_files r \<noteq> [],
          ''blocked archive verification cannot claim package proof'')])"

definition check_verification :: "PackageArchiveVerificationReceipt \<Rightarrow> (bool \<times> string) list" where
  "check_verification r =
     field ''archive_sha256'' (opt_ok is_sha256 (av_archive_sha256 r))
     @ opt_checks check_candidate (av_candidate r)
     @ field ''package_digest'' (opt_ok is_sha256 (av_package_digest r))
     @ opt_checks check_manifest (av_manifest r)
     @ field ''verified_files'' (unique_portables (av_verified_files r))
     @ opt_checks check_blocker (av_blocker r)
     @ status_matches_proof r"

section \<open>Hardening\<close>

record PackageHardeningPolicy =
  hp_max_file_count :: int
  hp_max_total_bytes :: int
  hp_require_readme :: bool

definition default_hardening_policy :: PackageHardeningPolicy where
  "default_hardening_policy =
     \<lparr>hp_max_file_count = 250, hp_max_total_bytes = 5 * 1024 * 1024, hp_require_readme = True\<rparr>"

definition check_hardening_policy :: "PackageHardeningPolicy \<Rightarrow> (bool \<times> string) list" where
  "check_hardening_policy p =
     field ''max_file_count'' (1 \<le> hp_max_file_count p)
     @ field ''max_total_bytes'' (1 \<le> hp_max_total_bytes p)"

datatype CheckStatus = CheckPass | CheckWarning | CheckBlocker

record PackageHardeningCheck =
  hc_id :: string
  hc_status :: CheckStatus
  hc_message :: string
  hc_evidence :: "string list"

definition normalise_check :: "PackageHardeningCheck \<Rightarrow> PackageHardeningCheck" where
  "normalise_check c = c\<lparr>hc_id := trim (hc_id c), hc_message := trim (hc_message c),
                         hc_evidence := map trim (hc_evidence c)\<rparr>"

definition check_check :: "PackageHardeningCheck \<Rightarrow> (bool \<times> string) list" where
  "check_check c =
     field ''id'' (is_blocker_code (hc_id c))
     @ field ''message'' (nonempty_text (hc_message c))
     @ field ''evidence'' (texts (hc_evidence c))"

record PackageHardeningReceipt =
  hr_candidate :: "PackageCandidateIdentity option"
  hr_build_status :: BuildStatus
  hr_status :: PassStatus
  hr_package_digest :: "string option"
  hr_effective_policy :: PackageHardeningPolicy
  hr_included_files :: "string list"
  hr_file_count :: int
  hr_total_size_bytes :: int
  hr_checks :: "PackageHardeningCheck list"
  hr_blockers :: "PackageHardeningCheck list"
  hr_warnings :: "PackageHardeningCheck list"
  hr_acceptance_trace :: "string list"

definition normalise_hardening :: "PackageHardeningReceipt \<Rightarrow> PackageHardeningReceipt" where
  "normalise_hardening r = r\<lparr>
     hr_candidate := map_option normalise_candidate (hr_candidate r),
     hr_package_digest := map_option trim (hr_package_digest r),
     hr_checks := map normalise_check (hr_checks r),
     hr_blockers := map normalise_check (hr_blockers r),
     hr_warnings := map normalise_check (hr_warnings r),
     hr_acceptance_trace := map trim (hr_acceptance_trace r)\<rparr>"

definition with_status :: "CheckStatus \<Rightarrow> PackageHardeningCheck list \<Rightarrow> PackageHardeningCheck list" where
  "with_status st cs = [c \<leftarrow> cs. hc_status c = st]"

text \<open>\<open>status_matches_checks\<close>\<close>

definition status_matches_checks :: "PackageHardeningReceipt \<Rightarrow> (bool \<times> string) list" where
  "status_matches_checks r =
     (let blockers = with_status CheckBlocker (hr_checks r); warnings = with_status CheckWarning (hr_checks r)
      in [(has_duplicates (map hc_id (hr_checks r)), ''hardening check ids must be unique''),
          (hr_blockers r \<noteq> blockers \<or> hr_warnings r \<noteq> warnings,
           ''hardening blocker and warning projections must match checks''),
          (hr_file_count r \<noteq> int (length (hr_included_files r)),
           ''hardening file_count must match included_files'')]
         @ (if hr_status r = PassResult then
              [(blockers \<noteq> [], ''passing hardening receipt cannot contain blockers''),
               (hr_build_status r \<noteq> Built \<or> hr_candidate r = None \<or> hr_package_digest r = None,
                ''passing hardening receipt requires a built candidate and package_digest'')]
            else
              (blockers = [], ''blocked hardening receipt requires a blocker'')
              # (if hr_build_status r = Built then
                   [(hr_candidate r = None \<or> hr_package_digest r = None,
                     ''hardening-blocked built package must preserve candidate and package_digest'')]
                 else
                   [(hr_package_digest r \<noteq> None,
                     ''build-blocked hardening receipt cannot claim a package digest'')])))"

definition check_hardening :: "PackageHardeningReceipt \<Rightarrow> (bool \<times> string) list" where
  "check_hardening r =
     opt_checks check_candidate (hr_candidate r)
     @ field ''package_digest'' (opt_ok is_sha256 (hr_package_digest r))
     @ check_hardening_policy (hr_effective_policy r)
     @ field ''included_files'' (unique_portables (hr_included_files r))
     @ field ''file_count'' (0 \<le> hr_file_count r)
     @ field ''total_size_bytes'' (0 \<le> hr_total_size_bytes r)
     @ field ''hardening_checks'' (hr_checks r \<noteq> []) @ each check_check (hr_checks r)
     @ each check_check (hr_blockers r)
     @ each check_check (hr_warnings r)
     @ field ''acceptance_trace'' (hr_acceptance_trace r \<noteq> [] \<and> texts (hr_acceptance_trace r))
     @ status_matches_checks r"

section \<open>Instances of the interface\<close>

lemma normalise_file_idem [simp]: "normalise_file (normalise_file f) = normalise_file f"
  by (simp add: normalise_file_def)

lemma normalise_manifest_idem [simp]: "normalise_manifest (normalise_manifest m) = normalise_manifest m"
  by (simp add: normalise_manifest_def normalise_manifest_provenance_def)

lemma normalise_blocker_idem [simp]: "normalise_blocker (normalise_blocker b) = normalise_blocker b"
  by (simp add: normalise_blocker_def)

lemma normalise_check_idem [simp]: "normalise_check (normalise_check c) = normalise_check c"
  by (simp add: normalise_check_def)

interpretation manifest_model: contract_model normalise_manifest check_manifest
  by unfold_locales simp

interpretation blocker_model: contract_model normalise_blocker check_blocker
  by unfold_locales simp

interpretation check_model: contract_model normalise_check check_check
  by unfold_locales simp

interpretation receipt_model: contract_model normalise_receipt check_receipt
  by unfold_locales (simp add: normalise_receipt_def map_option_idem option.map_comp comp_def)

interpretation verification_model: contract_model normalise_verification check_verification
  by unfold_locales (simp add: normalise_verification_def map_option_idem option.map_comp comp_def)

interpretation hardening_model: contract_model normalise_hardening check_hardening
  by unfold_locales (simp add: normalise_hardening_def map_option_idem option.map_comp comp_def)

section \<open>What the checks guarantee\<close>

lemma role_name_inject [simp]: "role_name a = role_name b \<longleftrightarrow> a = b"
  by (cases a; cases b) simp_all

lemma file_json_inject [simp]: "file_json f = file_json g \<longleftrightarrow> f = g"
  by (cases f; cases g) (auto simp: file_json_def)

lemma map_file_json_inject [simp]: "map file_json fs = map file_json gs \<longleftrightarrow> fs = gs"
  by (auto simp: inj_map_eq_map inj_def)

lemma strs_inject [simp]: "strs xs = strs ys \<longleftrightarrow> xs = ys"
  by (auto simp: strs_def inj_map_eq_map inj_def)

lemma manifest_json_inject: "manifest_json m = manifest_json n \<longleftrightarrow> m = n"
  by (cases m; cases n)
    (auto simp: manifest_json_def manifest_provenance_json_def arr_def
       intro: PackageManifestProvenance.equality)

lemma check_file_iff [contract_simps]:
  "passes (check_file f) \<longleftrightarrow> portable (mf_path f) \<and> is_sha256 (mf_sha256 f) \<and> 0 \<le> mf_size_bytes f"
  by (simp add: check_file_def)

lemma check_manifest_iff [contract_simps]:
  "passes (check_manifest m) \<longleftrightarrow>
     passes (check_candidate (pm_candidate m)) \<and> pm_version m \<noteq> [] \<and> pm_files m \<noteq> []
     \<and> (\<forall>f \<in> set (pm_files m). passes (check_file f))
     \<and> passes (check_manifest_provenance (pm_provenance m)) \<and> distinct (manifest_paths m)"
  by (simp add: check_manifest_def)

text \<open>Every role is decided by the path alone, and only two exact names are special.\<close>

lemma file_role_special:
  "file_role p = RoleSkillMd \<longleftrightarrow> p = ''SKILL.md''"
  "file_role p = RoleReadme \<longleftrightarrow> p = ''README.md''"
  by (auto simp: file_role_def split: if_splits option.splits)

lemma verified_pass:
  assumes "passes (check_verification r)" "av_status r = PassResult"
  obtains a c m where "av_archive_sha256 r = Some a" "av_candidate r = Some c" "av_manifest r = Some m"
    "av_package_digest r = Some (canonical_json_sha256 (manifest_json m))" "pm_candidate m = c"
    "content_sha256 c = candidate_content_sha256 (digest_files (pm_files m))"
    "set (av_verified_files r) = set (manifest_paths m)" "av_blocker r = None"
  using assms
  by (auto simp: check_verification_def status_matches_proof_def split: option.splits)

lemma hardening_pass_iff:
  assumes "passes (check_hardening r)"
  shows "hr_status r = PassResult \<longleftrightarrow> (\<forall>c \<in> set (hr_checks r). hc_status c \<noteq> CheckBlocker)"
  using assms
  by (cases "hr_status r")
    (auto simp: check_hardening_def status_matches_checks_def Let_def with_status_def filter_empty_conv)

end
