(* ===== verification/Hardening.thy ===== *)
theory Hardening
  imports Packaging
begin

text \<open>
  \<^verbatim>\<open>packaging/hardening.py\<close>: the five hardening checks over an immutable build receipt and the
  receipt they make. Every \<open>_check\<close> constructs a validated \<open>PackageHardeningCheck\<close>, so it can fail;
  the lemmas show that on a valid build receipt it never does, that the resulting receipt passes
  its own validator, and when it is a pass.
\<close>

definition ACCEPTANCE_TRACE :: "string list" where
  "ACCEPTANCE_TRACE = [''portable-package'', ''immutable-candidate'', ''non-mutating-hardening'']"

definition hardening_check :: "string \<Rightarrow> CheckStatus \<Rightarrow> string \<Rightarrow> string list \<Rightarrow> PackageHardeningCheck result" where
  "hardening_check check_id status message evidence =
     validate_model normalise_check check_check
       \<lparr>hc_id = check_id, hc_status = status, hc_message = message, hc_evidence = evidence\<rparr>"

fun build_status_name :: "BuildStatus \<Rightarrow> string" where
  "build_status_name Built = ''built''"
| "build_status_name BuildBlocked = ''blocked''"

definition package_receipt_check :: "PackageReceipt \<Rightarrow> PackageHardeningCheck result" where
  "package_receipt_check r =
     hardening_check ''package_receipt_built'' (if pr_status r = Built then CheckPass else CheckBlocker)
       ''Package hardening requires a successful immutable package receipt.''
       [''package_receipt_status:'' @ build_status_name (pr_status r)]"

text \<open>The generator expression stops at the first path whose reason raises.\<close>

fun forbidden_paths :: "string list \<Rightarrow> string list result" where
  "forbidden_paths [] = Inr []"
| "forbidden_paths (path # ps) =
     and_then (unsafe_package_path_reason path) (\<lambda>reason.
       and_then (forbidden_paths ps) (\<lambda>rest.
         Inr (case reason of None \<Rightarrow> rest | Some why \<Rightarrow> (path @ '':'' @ why) # rest)))"

definition forbidden_paths_check :: "PackageReceipt \<Rightarrow> PackageHardeningCheck result" where
  "forbidden_paths_check r =
     and_then (forbidden_paths (pr_included_files r)) (\<lambda>forbidden.
       hardening_check ''forbidden_package_paths'' (if forbidden \<noteq> [] then CheckBlocker else CheckPass)
         ''Package contents must exclude runtime, generated, dependency, and secret-bearing paths.''
         forbidden)"

definition total_size :: "PackageManifestFile list \<Rightarrow> int" where
  "total_size fs = sum_list (map mf_size_bytes fs)"

definition within_budget :: "PackageManifestFile list \<Rightarrow> PackageHardeningPolicy \<Rightarrow> bool" where
  "within_budget fs p = (int (length fs) \<le> hp_max_file_count p \<and> total_size fs \<le> hp_max_total_bytes p)"

definition size_budget_check :: "PackageManifestFile list \<Rightarrow> PackageHardeningPolicy \<Rightarrow> PackageHardeningCheck result" where
  "size_budget_check fs p =
     hardening_check ''package_size_budget'' (if within_budget fs p then CheckPass else CheckWarning)
       ''Package contents should remain within the explicit hardening budget.''
       [''files:'' @ show_int (int (length fs)) @ ''/'' @ show_int (hp_max_file_count p),
        ''total_size_bytes:'' @ show_int (total_size fs) @ ''/'' @ show_int (hp_max_total_bytes p)]"

definition MANIFEST_BUILDER :: string where
  "MANIFEST_BUILDER = ''skills-sdk.packaging.manifest/v1''"

definition provenance_valid :: "PackageReceipt \<Rightarrow> bool" where
  "provenance_valid r =
     (case pr_manifest r of
        None \<Rightarrow> False
      | Some m \<Rightarrow> pmp_builder (pm_provenance m) = MANIFEST_BUILDER
                 \<and> ''SKILL.md'' \<in> set (pmp_source (pm_provenance m)))"

definition provenance_check :: "PackageReceipt \<Rightarrow> PackageHardeningCheck result" where
  "provenance_check r =
     hardening_check ''provenance_trace'' (if provenance_valid r then CheckPass else CheckBlocker)
       ''Package hardening requires the Skills SDK manifest builder and SKILL.md source provenance.''
       (case pr_manifest r of
          None \<Rightarrow> []
        | Some m \<Rightarrow> (''builder:'' @ pmp_builder (pm_provenance m)) # pmp_source (pm_provenance m))"

definition file_roles :: "PackageManifestFile list \<Rightarrow> string list" where
  "file_roles fs = sort (remdups (map (role_name \<circ> mf_role) fs))"

definition required_roles_valid :: "PackageManifestFile list \<Rightarrow> PackageHardeningPolicy \<Rightarrow> bool" where
  "required_roles_valid fs p =
     (''skill_md'' \<in> set (file_roles fs)
      \<and> ((\<exists>f \<in> set fs. role_name (mf_role f) = ''readme'' \<and> mf_path f = ''README.md'')
         \<or> \<not> hp_require_readme p))"

definition required_role_check :: "PackageManifestFile list \<Rightarrow> PackageHardeningPolicy \<Rightarrow> PackageHardeningCheck result" where
  "required_role_check fs p =
     hardening_check ''required_package_roles'' (if required_roles_valid fs p then CheckPass else CheckBlocker)
       ''Package manifest must include SKILL.md and, when required, root README.md roles.''
       (file_roles fs)"

definition included_manifest_files :: "PackageReceipt \<Rightarrow> PackageManifestFile list" where
  "included_manifest_files r =
     (case pr_manifest r of
        None \<Rightarrow> []
      | Some m \<Rightarrow> [f \<leftarrow> pm_files m. mf_path f \<in> set (pr_included_files r)])"

definition hardening_checks :: "PackageReceipt \<Rightarrow> PackageHardeningPolicy \<Rightarrow> PackageHardeningCheck list result" where
  "hardening_checks r p =
     (let fs = included_manifest_files r in
      and_then (package_receipt_check r) (\<lambda>c1.
      and_then (forbidden_paths_check r) (\<lambda>c2.
      and_then (size_budget_check fs p) (\<lambda>c3.
      and_then (provenance_check r) (\<lambda>c4.
      and_then (required_role_check fs p) (\<lambda>c5.
        Inr [c1, c2, c3, c4, c5]))))))"

definition hardening_receipt ::
  "PackageReceipt \<Rightarrow> PackageHardeningPolicy \<Rightarrow> PackageHardeningCheck list \<Rightarrow> PackageHardeningReceipt" where
  "hardening_receipt r p checks =
     (let fs = included_manifest_files r; blockers = with_status CheckBlocker checks in
      \<lparr>hr_candidate = pr_candidate r, hr_build_status = pr_status r,
       hr_status = (if blockers \<noteq> [] then BlockedResult else PassResult),
       hr_package_digest = pr_package_digest r, hr_effective_policy = p,
       hr_included_files = pr_included_files r, hr_file_count = int (length fs),
       hr_total_size_bytes = total_size fs, hr_checks = checks, hr_blockers = blockers,
       hr_warnings = with_status CheckWarning checks, hr_acceptance_trace = ACCEPTANCE_TRACE\<rparr>)"

definition harden_skill_package ::
  "PackageReceipt \<Rightarrow> PackageHardeningPolicy option \<Rightarrow> PackageHardeningReceipt result" where
  "harden_skill_package package_receipt policy =
     and_then (validate_model normalise_receipt check_receipt package_receipt) (\<lambda>r.
       let active = (case policy of None \<Rightarrow> default_hardening_policy | Some p \<Rightarrow> p) in
       and_then (hardening_checks r active) (\<lambda>checks.
         validate_model normalise_hardening check_hardening (hardening_receipt r active checks)))"

section \<open>The checks never raise\<close>

lemma trim_blocker_code: "is_blocker_code s \<Longrightarrow> trim s = s"
proof (rule trim_no_space)
  assume "is_blocker_code s"
  then have "\<forall>c \<in> set s. identifier_char c"
    by (auto simp: is_blocker_code_def rx_fullmatch_iff matches_plus_cls identifier_char_def)
  then show "\<forall>c \<in> set s. \<not> unicode_space c" using identifier_not_space by blast
qed

lemma trim_of_string: "\<not> unicode_space c \<Longrightarrow> trim (c # s) \<noteq> []"
  by (rule trim_nonempty [of c]) simp_all

lemma portable_trim: "portable p \<Longrightarrow> trim p \<noteq> []"
  by (intro trim_nonempty_if_strip portable_not_blank)

lemmas text_simps = trim_of_string unicode_space_def code_def Let_def

text \<open>A check whose texts are not blank is constructed, with its evidence stripped.\<close>

lemma hardening_check_ok:
  assumes "is_blocker_code cid" "trim msg \<noteq> []" "\<forall>e \<in> set ev. trim e \<noteq> []"
  shows "\<exists>c. hardening_check cid st msg ev = Inr c \<and> hc_id c = cid \<and> hc_status c = st
    \<and> normalise_check c = c \<and> passes (check_check c)"
  using assms
  by (simp add: hardening_check_def check_model.validate_ok_iff)
    (simp add: normalise_check_def check_check_def texts_iff trim_blocker_code)

lemma forbidden_paths_ok:
  assumes "\<forall>p \<in> set ps. portable p"
  obtains forb where "forbidden_paths ps = Inr forb" "\<forall>e \<in> set forb. trim e \<noteq> []"
    "forb = [] \<longleftrightarrow> (\<forall>p \<in> set ps. unsafe_package_path_reason p = Inr None)"
  using assms
proof (induction ps arbitrary: thesis)
  case (Cons p ps)
  obtain forb where forb: "forbidden_paths ps = Inr forb" "\<forall>e \<in> set forb. trim e \<noteq> []"
    "forb = [] \<longleftrightarrow> (\<forall>p \<in> set ps. unsafe_package_path_reason p = Inr None)"
    using Cons.IH Cons.prems(2) by auto
  obtain reason where reason: "unsafe_package_path_reason p = Inr reason"
    using unsafe_reason_total Cons.prems(2) by auto
  have colon: "trim (p @ CHR '':'' # w) \<noteq> []" for w
    by (rule trim_nonempty [of "CHR '':''"]) (simp_all add: unicode_space_def code_def Let_def)
  show ?case
    by (rule Cons.prems(1) [of "case reason of None \<Rightarrow> forb | Some why \<Rightarrow> (p @ '':'' @ why) # forb"])
      (use forb reason colon in \<open>auto split: option.splits\<close>)
qed simp

definition check_ids :: "string list" where
  "check_ids = [''package_receipt_built'', ''forbidden_package_paths'', ''package_size_budget'',
                ''provenance_trace'', ''required_package_roles'']"

definition hardening_statuses :: "PackageReceipt \<Rightarrow> PackageHardeningPolicy \<Rightarrow> CheckStatus list" where
  "hardening_statuses r p =
     (let fs = included_manifest_files r; gate = (\<lambda>b. if b then CheckPass else CheckBlocker) in
      [gate (pr_status r = Built),
       gate (\<forall>path \<in> set (pr_included_files r). unsafe_package_path_reason path = Inr None),
       if within_budget fs p then CheckPass else CheckWarning,
       gate (provenance_valid r),
       gate (required_roles_valid fs p)])"

lemma role_name_trim: "trim (role_name x) \<noteq> []"
  by (cases x) (simp_all add: trim_of_string unicode_space_def code_def Let_def)

definition hardening_made :: "PackageHardeningCheck \<Rightarrow> nat \<Rightarrow> CheckStatus \<Rightarrow> bool" where
  "hardening_made c i st =
     (hc_id c = check_ids ! i \<and> hc_status c = st \<and> normalise_check c = c \<and> passes (check_check c))"

lemma check_ids_ok: "i < 5 \<Longrightarrow> is_blocker_code (check_ids ! i)"
proof -
  assume "i < 5"
  moreover have "list_all is_blocker_code check_ids \<and> length check_ids = 5" by code_simp
  ultimately show ?thesis by (simp add: list_all_length)
qed

lemma hardening_check_made:
  assumes "i < 5" "trim msg \<noteq> []" "\<forall>e \<in> set ev. trim e \<noteq> []"
  shows "\<exists>c. hardening_check (check_ids ! i) st msg ev = Inr c \<and> hardening_made c i st"
  using hardening_check_ok [OF check_ids_ok [OF assms(1)] assms(2,3)] by (auto simp: hardening_made_def)

lemma hardening_checks_ok:
  assumes "passes (check_receipt r)"
  shows "\<exists>cs. hardening_checks r p = Inr cs \<and> map hc_id cs = check_ids
    \<and> map hc_status cs = hardening_statuses r p
    \<and> (\<forall>c \<in> set cs. normalise_check c = c \<and> passes (check_check c))"
proof -
  have inc: "\<forall>q \<in> set (pr_included_files r). portable q"
    using assms by (simp add: check_receipt_def unique_portables_iff)
  have src: "\<forall>q \<in> set (pmp_source (pm_provenance m)). trim q \<noteq> []" if "pr_manifest r = Some m" for m
    using assms that
    by (auto simp: check_receipt_def check_manifest_def check_manifest_provenance_def portables_iff
        dest: portable_trim)
  obtain forb where forb: "forbidden_paths (pr_included_files r) = Inr forb" "\<forall>e \<in> set forb. trim e \<noteq> []"
    "forb = [] \<longleftrightarrow> (\<forall>q \<in> set (pr_included_files r). unsafe_package_path_reason q = Inr None)"
    using forbidden_paths_ok [OF inc] by blast
  note made = hardening_check_made
  note unf = hardening_made_def hardening_statuses_def check_ids_def text_simps
  let ?fs = "included_manifest_files r" and ?st = "\<lambda>i. hardening_statuses r p ! i"
  have "\<exists>c. package_receipt_check r = Inr c \<and> hardening_made c 0 (?st 0)"
    using made [of 0] by (simp add: package_receipt_check_def unf)
  moreover have "\<exists>c. forbidden_paths_check r = Inr c \<and> hardening_made c 1 (?st 1)"
    using made [of 1] forb by (simp add: forbidden_paths_check_def unf)
  moreover have "\<exists>c. size_budget_check ?fs p = Inr c \<and> hardening_made c 2 (?st 2)"
    using made [of 2] by (simp add: size_budget_check_def unf)
  moreover have "\<exists>c. provenance_check r = Inr c \<and> hardening_made c 3 (?st 3)"
    using made [of 3] src by (cases "pr_manifest r") (simp_all add: provenance_check_def unf)
  moreover have "\<exists>c. required_role_check ?fs p = Inr c \<and> hardening_made c 4 (?st 4)"
    using made [of 4] role_name_trim by (simp add: required_role_check_def unf file_roles_def)
  ultimately show ?thesis
    by (auto simp: hardening_checks_def Let_def hardening_made_def check_ids_def hardening_statuses_def)
qed

section \<open>The receipt passes its own validator\<close>

lemma included_count:
  assumes "passes (check_receipt r)"
  shows "length (included_manifest_files r) = length (pr_included_files r)"
    and "\<forall>f \<in> set (included_manifest_files r). 0 \<le> mf_size_bytes f"
proof -
  have rm: "passes (receipt_matches_manifest r)" and inc: "distinct (pr_included_files r)"
    and man: "\<forall>m. pr_manifest r = Some m \<longrightarrow> passes (check_manifest m)"
    using assms by (simp_all add: check_receipt_def unique_portables_iff)
  show "length (included_manifest_files r) = length (pr_included_files r)"
  proof (cases "pr_manifest r")
    case None
    then show ?thesis
      using rm by (cases "pr_status r") (auto simp: included_manifest_files_def receipt_matches_manifest_def Let_def)
  next
    case (Some m)
    let ?fs = "[f \<leftarrow> pm_files m. mf_path f \<in> set (pr_included_files r)]"
    have "set (pr_included_files r) \<subseteq> set (manifest_paths m)"
      using rm Some by (cases "pr_status r") (auto simp: receipt_matches_manifest_def Let_def paths_of_def)
    then have "set (map mf_path ?fs) = set (pr_included_files r)" by (auto simp: manifest_paths_def)
    moreover have "distinct (map mf_path ?fs)"
      using man Some by (auto simp: check_manifest_iff manifest_paths_def intro: distinct_map_filter)
    ultimately have "length (map mf_path ?fs) = length (pr_included_files r)"
      using inc by (metis distinct_card)
    then show ?thesis using Some by (simp add: included_manifest_files_def)
  qed
  show "\<forall>f \<in> set (included_manifest_files r). 0 \<le> mf_size_bytes f"
    using man by (cases "pr_manifest r") (auto simp: included_manifest_files_def check_manifest_iff check_file_iff)
qed

text \<open>When the five checks let a package through.\<close>

definition hardened :: "PackageReceipt \<Rightarrow> PackageHardeningPolicy \<Rightarrow> bool" where
  "hardened r p =
     (pr_status r = Built
      \<and> (\<forall>path \<in> set (pr_included_files r). unsafe_package_path_reason path = Inr None)
      \<and> provenance_valid r \<and> required_roles_valid (included_manifest_files r) p)"

lemma no_blockers_iff:
  assumes "map hc_status cs = hardening_statuses r p"
  shows "with_status CheckBlocker cs = [] \<longleftrightarrow> hardened r p"
proof -
  have "with_status CheckBlocker cs = [] \<longleftrightarrow> CheckBlocker \<notin> set (map hc_status cs)"
    by (simp add: with_status_def filter_empty_conv image_iff) metis
  then show ?thesis by (auto simp: assms hardening_statuses_def hardened_def Let_def)
qed

lemma map_normal: "\<forall>c \<in> set cs. f c = c \<Longrightarrow> map f cs = cs"
  by (simp add: map_idI)

lemma with_status_normal: "\<forall>c \<in> set cs. f c = c \<Longrightarrow> map f (with_status st cs) = with_status st cs"
  unfolding with_status_def by (rule map_idI) simp

lemma acceptance_trace_ok: "map trim ACCEPTANCE_TRACE = ACCEPTANCE_TRACE \<and> ACCEPTANCE_TRACE \<noteq> [] \<and> texts ACCEPTANCE_TRACE"
  by code_simp

lemma harden_ok:
  assumes valid: "validate_model normalise_receipt check_receipt receipt = Inr r"
    and active: "active = (case policy of None \<Rightarrow> default_hardening_policy | Some p \<Rightarrow> p)"
      "passes (check_hardening_policy active)"
  obtains h where "harden_skill_package receipt policy = Inr h"
    "validate_model normalise_hardening check_hardening h = Inr h"
    "hr_status h = PassResult \<longleftrightarrow> hardened r active"
    "map hc_status (hr_checks h) = hardening_statuses r active"
    "hr_candidate h = pr_candidate r" "hr_package_digest h = pr_package_digest r"
    "hr_included_files h = pr_included_files r" "hr_total_size_bytes h = total_size (included_manifest_files r)"
proof -
  have r: "normalise_receipt r = r" "passes (check_receipt r)"
    using receipt_model.validated_is_normal [OF valid] receipt_model.validated_passes [OF valid] by auto
  obtain cs where cs: "hardening_checks r active = Inr cs" "map hc_id cs = check_ids"
    "map hc_status cs = hardening_statuses r active"
    "\<forall>c \<in> set cs. normalise_check c = c" "\<forall>c \<in> set cs. passes (check_check c)"
    using hardening_checks_ok [OF r(2)] by blast
  let ?h = "hardening_receipt r active cs"
  have norm: "map_option normalise_candidate (pr_candidate r) = pr_candidate r"
    "map_option trim (pr_package_digest r) = pr_package_digest r"
    using arg_cong [OF r(1), of pr_candidate] arg_cong [OF r(1), of pr_package_digest]
    by (simp_all add: normalise_receipt_def)
  have normal: "normalise_hardening ?h = ?h"
    by (simp add: normalise_hardening_def hardening_receipt_def Let_def norm acceptance_trace_ok
        map_normal [OF cs(4)] with_status_normal [OF cs(4)])
  have "pr_candidate r \<noteq> None \<and> pr_package_digest r \<noteq> None" if "pr_status r = Built"
    using r(2) that by (simp add: check_receipt_def receipt_matches_manifest_def Let_def)
  moreover have "pr_package_digest r = None" if "pr_status r \<noteq> Built"
    using r(2) that by (simp add: check_receipt_def receipt_matches_manifest_def Let_def)
  moreover have "pr_status r = Built" if "hardened r active" using that by (simp add: hardened_def)
  moreover have "distinct (map hc_id cs)" "cs \<noteq> []" using cs(2) by (auto simp: check_ids_def)
  ultimately have status: "passes (status_matches_checks ?h)"
    using included_count(1) [OF r(2)] no_blockers_iff [OF cs(3)]
    by (cases "pr_status r") (auto simp: status_matches_checks_def hardening_receipt_def Let_def)
  have "0 \<le> total_size (included_manifest_files r)"
    using included_count(2) [OF r(2)] unfolding total_size_def by (intro sum_list_nonneg) auto
  then have "passes (check_hardening ?h)"
    using r(2) active(2) status cs(5) \<open>cs \<noteq> []\<close>
    by (auto simp: check_hardening_def check_receipt_def hardening_receipt_def Let_def
        acceptance_trace_ok with_status_def)
  then have valid_h: "validate_model normalise_hardening check_hardening ?h = Inr ?h"
    using normal by (simp add: hardening_model.fixpoint_iff)
  show thesis
  proof (rule that [of ?h])
    show "harden_skill_package receipt policy = Inr ?h"
      using valid cs(1) valid_h by (simp add: harden_skill_package_def Let_def active(1) [symmetric])
  qed (use valid_h no_blockers_iff [OF cs(3)] cs(3) in \<open>simp_all add: hardening_receipt_def Let_def\<close>)
qed

end
