(* ===== verification/Central_Directory.thy ===== *)
theory Central_Directory
  imports Packaging
begin

text \<open>
  The byte-level half of \<^verbatim>\<open>packaging/archive_verification.py\<close>: finding and validating the end
  record and the central directory of a ZIP before the standard library's parser sees it, and
  reading a stream up to a limit. Offsets are unbounded integers as in Python, and a snapshot is a
  list of bytes. The lemmas: both loops terminate, an accepted directory is tiled exactly by the
  announced number of records within the policy's bound, the chosen end record is valid and the
  only non-empty one, and the bounded read returns the first \<open>limit + 1\<close> bytes.
\<close>

definition EOCD_SIGNATURE :: "byte list" where "EOCD_SIGNATURE = [80, 75, 5, 6]"

definition EOCD_SIZE :: int where "EOCD_SIZE = 22"

definition CENTRAL_SIGNATURE :: "byte list" where "CENTRAL_SIGNATURE = [80, 75, 1, 2]"

definition CENTRAL_HEADER_SIZE :: int where "CENTRAL_HEADER_SIZE = 46"

definition MAX_ZIP_COMMENT_BYTES :: int where "MAX_ZIP_COMMENT_BYTES = 65535"

definition byte_len :: "byte list \<Rightarrow> int" where
  "byte_len bs = int (length bs)"

text \<open>\<^verbatim>\<open>snapshot[i : i + n]\<close> and little-endian \<^verbatim>\<open>struct.unpack_from\<close>, at offsets the callers have bounded.\<close>

definition bytes_at :: "byte list \<Rightarrow> int \<Rightarrow> nat \<Rightarrow> byte list" where
  "bytes_at bs i n = take n (drop (nat i) bs)"

fun little_endian :: "byte list \<Rightarrow> int" where
  "little_endian [] = 0"
| "little_endian (b # bs) = uint b + 256 * little_endian bs"

definition u16 :: "byte list \<Rightarrow> int \<Rightarrow> int" where
  "u16 bs i = little_endian (bytes_at bs i 2)"

definition u32 :: "byte list \<Rightarrow> int \<Rightarrow> int" where
  "u32 bs i = little_endian (bytes_at bs i 4)"

lemma little_endian_nonneg [simp]: "0 \<le> little_endian bs"
  by (induction bs) simp_all

lemma u16_nonneg [simp]: "0 \<le> u16 bs i"
  by (simp add: u16_def)

lemma u32_nonneg [simp]: "0 \<le> u32 bs i"
  by (simp add: u32_def)

lemma little_endian_bound: "little_endian bs < 256 ^ length bs"
proof (induction bs)
  case (Cons b bs)
  have "uint b < 256" using uint_lt2p [of b] by simp
  with Cons show ?case by simp
qed simp

section \<open>The central directory\<close>

text \<open>The size of the record at a cursor: the fixed header and its three variable parts.\<close>

definition record_size :: "byte list \<Rightarrow> int \<Rightarrow> int" where
  "record_size snapshot cursor =
     CENTRAL_HEADER_SIZE + u16 snapshot (cursor + 28) + u16 snapshot (cursor + 30) + u16 snapshot (cursor + 32)"

lemma record_size_ge: "46 \<le> record_size snapshot cursor"
  using u16_nonneg [of snapshot "cursor + 28"] u16_nonneg [of snapshot "cursor + 30"]
    u16_nonneg [of snapshot "cursor + 32"]
  by (simp add: record_size_def CENTRAL_HEADER_SIZE_def)

text \<open>The \<^verbatim>\<open>while\<close> loop: \<open>None\<close> for its \<^verbatim>\<open>return False\<close>, else the final cursor and count.\<close>

function walk_records :: "byte list \<Rightarrow> int \<Rightarrow> int \<Rightarrow> int \<Rightarrow> int \<Rightarrow> (int \<times> int) option" where
  "walk_records snapshot max_entries offset cursor observed =
     (if cursor < offset then
        if cursor + CENTRAL_HEADER_SIZE > offset \<or> bytes_at snapshot cursor 4 \<noteq> CENTRAL_SIGNATURE then None
        else let cursor' = cursor + record_size snapshot cursor; observed' = observed + 1 in
          if cursor' > offset \<or> observed' > max_entries then None
          else walk_records snapshot max_entries offset cursor' observed'
      else Some (cursor, observed))"
  by pat_completeness auto
termination
proof (relation "measure (\<lambda>(s, m, offset, cursor, n). nat (offset - cursor))")
  fix s :: "byte list" and m offset cursor n x y :: int
  assume "cursor < offset" "x = cursor + record_size s cursor"
  then show "((s, m, offset, x, y), (s, m, offset, cursor, n)) \<in> measure (\<lambda>(s, m, offset, cursor, n). nat (offset - cursor))"
    using record_size_ge [of s cursor] by simp
qed simp

declare walk_records.simps [simp del]

definition valid_central_directory_at :: "byte list \<Rightarrow> PackageArchiveVerificationPolicy \<Rightarrow> int \<Rightarrow> bool" where
  "valid_central_directory_at snapshot policy offset =
     (if offset < 0 \<or> offset + EOCD_SIZE > byte_len snapshot then False
      else
        let disk = u16 snapshot (offset + 4); central_disk = u16 snapshot (offset + 6);
            disk_entries = u16 snapshot (offset + 8); total_entries = u16 snapshot (offset + 10);
            size = u32 snapshot (offset + 12); directory_offset = u32 snapshot (offset + 16);
            comment_size = u16 snapshot (offset + 20); directory_start = offset - size
        in if offset + EOCD_SIZE + comment_size \<noteq> byte_len snapshot then False
           else if disk \<noteq> 0 \<or> central_disk \<noteq> 0 \<or> disk_entries \<noteq> total_entries then False
           else if total_entries = 0xFFFF \<or> size = 0xFFFFFFFF \<or> directory_offset = 0xFFFFFFFF then False
           else if total_entries > vp_max_entry_count policy \<or> directory_start < 0
             \<or> directory_offset > directory_start then False
           else (case walk_records snapshot (vp_max_entry_count policy) offset directory_start 0 of
                   None \<Rightarrow> False
                 | Some (cursor, observed) \<Rightarrow> cursor = offset \<and> observed = total_entries))"

text \<open>\<^verbatim>\<open>snapshot.rfind(signature, start, end)\<close>: the last position within the bounds, or \<open>-1\<close>.\<close>

function rfind :: "byte list \<Rightarrow> byte list \<Rightarrow> int \<Rightarrow> int \<Rightarrow> int" where
  "rfind snapshot signature start end_at =
     (let i = end_at - byte_len signature in
      if i < start \<or> i < 0 then -1
      else if bytes_at snapshot i (length signature) = signature then i
      else rfind snapshot signature start (end_at - 1))"
  by pat_completeness auto
termination
  by (relation "measure (\<lambda>(s, sig, start, end_at). nat (end_at + 1))") (simp_all add: byte_len_def)

declare rfind.simps [simp del]

definition search_start :: "byte list \<Rightarrow> int" where
  "search_start snapshot = max 0 (byte_len snapshot - EOCD_SIZE - MAX_ZIP_COMMENT_BYTES)"

lemma rfind_bound: "rfind s sig st e \<le> max (-1) (e - byte_len sig)"
proof (induction s sig st e rule: rfind.induct)
  case (1 s sig st e)
  show ?case
    using 1 by (subst rfind.simps) (fastforce simp: Let_def)
qed

lemma rfind_less: "0 \<le> e \<Longrightarrow> rfind s EOCD_SIGNATURE st e < e"
  using rfind_bound [of s EOCD_SIGNATURE st e] by (simp add: EOCD_SIGNATURE_def byte_len_def)

lemma rfind_decreases:
  assumes "search_start s \<le> offset"
  shows "0 \<le> offset \<and> rfind s EOCD_SIGNATURE st offset + 1 \<le> offset"
proof -
  have "0 \<le> offset" using assms by (simp add: search_start_def)
  with rfind_less [OF this, of s st] show ?thesis by linarith
qed

text \<open>
  The loop of \<open>_preflight_central_directory\<close> over the signatures from the end of the snapshot
  backwards, with the two offsets found so far.
\<close>

function preflight_loop ::
  "byte list \<Rightarrow> PackageArchiveVerificationPolicy \<Rightarrow> int \<Rightarrow> int option \<Rightarrow> int option \<Rightarrow> int option" where
  "preflight_loop snapshot policy offset nonempty_offset empty_offset =
     (if offset \<ge> search_start snapshot then
        let next_offset = rfind snapshot EOCD_SIGNATURE (search_start snapshot) offset in
        if valid_central_directory_at snapshot policy offset then
          if u16 snapshot (offset + 10) \<noteq> 0 then
            if nonempty_offset \<noteq> None then None
            else preflight_loop snapshot policy next_offset (Some offset) empty_offset
          else preflight_loop snapshot policy next_offset nonempty_offset (Some offset)
        else preflight_loop snapshot policy next_offset nonempty_offset empty_offset
      else if nonempty_offset \<noteq> None then nonempty_offset else empty_offset)"
  by pat_completeness auto
termination
  by (relation "measure (\<lambda>(s, p, offset, a, b). nat (offset + 1))") (simp_all add: rfind_decreases)

declare preflight_loop.simps [simp del]

definition preflight_central_directory :: "byte list \<Rightarrow> PackageArchiveVerificationPolicy \<Rightarrow> int option" where
  "preflight_central_directory snapshot policy =
     preflight_loop snapshot policy
       (rfind snapshot EOCD_SIGNATURE (search_start snapshot) (byte_len snapshot)) None None"

section \<open>An accepted directory is tiled by its records\<close>

text \<open>The reference: records of the given sizes lie one after the other from \<open>start\<close>.\<close>

fun tiled :: "byte list \<Rightarrow> int \<Rightarrow> int list \<Rightarrow> bool" where
  "tiled snapshot start [] = True"
| "tiled snapshot start (n # ns) =
     (bytes_at snapshot start 4 = CENTRAL_SIGNATURE \<and> n = record_size snapshot start
      \<and> tiled snapshot (start + n) ns)"

lemma walk_records_tiled:
  assumes "walk_records snapshot m offset cursor n = Some (c, k)" "cursor \<le> offset"
  obtains ns where "tiled snapshot cursor ns" "int (length ns) = k - n" "sum_list ns = offset - cursor" "c = offset"
    "ns = [] \<or> k \<le> m"
  using assms
proof (induction snapshot m offset cursor n arbitrary: thesis rule: walk_records.induct)
  case (1 s m offset cursor n)
  show ?case
  proof (cases "cursor < offset")
    case True
    let ?c = "cursor + record_size s cursor"
    have step: "walk_records s m offset ?c (n + 1) = Some (c, k)" "bytes_at s cursor 4 = CENTRAL_SIGNATURE"
      "?c \<le> offset" "n + 1 \<le> m" "\<not> (cursor + CENTRAL_HEADER_SIZE > offset \<or> bytes_at s cursor 4 \<noteq> CENTRAL_SIGNATURE)"
      using 1(3) True by (auto simp: walk_records.simps [of s m offset cursor] Let_def split: if_splits)
    obtain ns where ns: "tiled s ?c ns" "int (length ns) = k - (n + 1)" "sum_list ns = offset - ?c" "c = offset"
      "ns = [] \<or> k \<le> m"
      using 1(1) [OF True step(5) refl refl] step by (metis leD)
    show ?thesis
      by (rule 1(2) [of "record_size s cursor # ns"]) (use ns step in auto)
  next
    case False
    with 1(4) have "cursor = offset" by simp
    then show ?thesis using 1(2) [of "[]"] 1(3) by (auto simp: walk_records.simps [of s m offset offset])
  qed
qed

lemma valid_directory_tiled:
  assumes "valid_central_directory_at snapshot policy offset"
  obtains ns where "tiled snapshot (offset - u32 snapshot (offset + 12)) ns"
    "int (length ns) = u16 snapshot (offset + 10)" "sum_list ns = u32 snapshot (offset + 12)"
    "int (length ns) \<le> vp_max_entry_count policy"
    "0 \<le> offset - u32 snapshot (offset + 12)" "offset + 22 + u16 snapshot (offset + 20) = byte_len snapshot"
proof -
  from assms have walk: "walk_records snapshot (vp_max_entry_count policy) offset (offset - u32 snapshot (offset + 12)) 0
      = Some (offset, u16 snapshot (offset + 10))"
    and bounds: "u16 snapshot (offset + 10) \<le> vp_max_entry_count policy"
      "0 \<le> offset - u32 snapshot (offset + 12)" "offset + 22 + u16 snapshot (offset + 20) = byte_len snapshot"
    by (auto simp: valid_central_directory_at_def EOCD_SIZE_def Let_def split: if_splits option.splits)
  from walk_records_tiled [OF walk] obtain ns where "tiled snapshot (offset - u32 snapshot (offset + 12)) ns"
    "int (length ns) = u16 snapshot (offset + 10)" "sum_list ns = u32 snapshot (offset + 12)"
    by (smt (verit) u32_nonneg)
  with bounds show thesis using that by simp
qed

section \<open>The chosen end record\<close>

lemma rfind_spec:
  assumes "0 \<le> st" "sig \<noteq> []"
  shows "(rfind s sig st e = -1 \<or> st \<le> rfind s sig st e \<and> bytes_at s (rfind s sig st e) (length sig) = sig)
    \<and> (\<forall>j. st \<le> j \<and> rfind s sig st e < j \<and> j + byte_len sig \<le> e \<longrightarrow> bytes_at s j (length sig) \<noteq> sig)"
  using assms
proof (induction s sig st e rule: rfind.induct)
  case (1 s sig st e)
  let ?i = "e - byte_len sig"
  consider "?i < st" | "st \<le> ?i" "bytes_at s ?i (length sig) = sig" | "st \<le> ?i" "bytes_at s ?i (length sig) \<noteq> sig"
    by linarith
  then show ?case
  proof cases
    case 3
    then have eq: "rfind s sig st e = rfind s sig st (e - 1)"
      using 1(2) by (subst rfind.simps) (simp add: Let_def)
    have IH: "(rfind s sig st (e - 1) = -1 \<or> st \<le> rfind s sig st (e - 1) \<and> bytes_at s (rfind s sig st (e - 1)) (length sig) = sig)
      \<and> (\<forall>j. st \<le> j \<and> rfind s sig st (e - 1) < j \<and> j + byte_len sig \<le> e - 1 \<longrightarrow> bytes_at s j (length sig) \<noteq> sig)"
      using 1 3 by auto
    have "bytes_at s j (length sig) \<noteq> sig" if j: "st \<le> j" "rfind s sig st e < j" "j + byte_len sig \<le> e" for j
    proof (cases "j = ?i")
      case False
      with j(3) have "j + byte_len sig \<le> e - 1" by simp
      with IH j eq show ?thesis by simp
    qed (use 3 in simp)
    with IH show ?thesis unfolding eq by blast
  qed (use 1(2) in \<open>auto simp: rfind.simps [of s sig st e] Let_def\<close>)
qed

lemma signature_length [simp]: "length EOCD_SIGNATURE = 4" "byte_len EOCD_SIGNATURE = 4" "EOCD_SIGNATURE \<noteq> []"
  by (simp_all add: EOCD_SIGNATURE_def byte_len_def)

definition end_record :: "byte list \<Rightarrow> PackageArchiveVerificationPolicy \<Rightarrow> int \<Rightarrow> bool" where
  "end_record s p j =
     (search_start s \<le> j \<and> bytes_at s j 4 = EOCD_SIGNATURE \<and> valid_central_directory_at s p j \<and> u16 s (j + 10) \<noteq> 0)"

text \<open>Two signatures never overlap, so searching on from before the last one misses none.\<close>

lemma signature_no_overlap:
  assumes "bytes_at s i 4 = EOCD_SIGNATURE" "bytes_at s j 4 = EOCD_SIGNATURE" "0 \<le> j" "j < i"
  shows "j + 4 \<le> i"
proof (rule ccontr)
  assume "\<not> j + 4 \<le> i"
  then have d: "nat i = nat j + 1 \<or> nat i = nat j + 2 \<or> nat i = nat j + 3" using assms(3,4) by auto
  have nth: "s ! (nat k + n) = EOCD_SIGNATURE ! n" if "bytes_at s k 4 = EOCD_SIGNATURE" "n < 4" for k n
  proof -
    have "length (bytes_at s k 4) = 4" using that(1) by simp
    then have "nat k + 4 \<le> length s" by (simp add: bytes_at_def min_def split: if_splits)
    then have "bytes_at s k 4 ! n = s ! (nat k + n)" using that(2) by (simp add: bytes_at_def)
    then show ?thesis using that(1) by simp
  qed
  have "s ! nat i = 80" using nth [OF assms(1), of 0] by (simp add: EOCD_SIGNATURE_def)
  moreover have "s ! (nat j + 1) = 75" "s ! (nat j + 2) = 5" "s ! (nat j + 3) = 6"
    using nth [OF assms(2), of 1] nth [OF assms(2), of 2] nth [OF assms(2), of 3]
    by (simp_all add: EOCD_SIGNATURE_def numeral_2_eq_2 numeral_3_eq_3)
  ultimately show False using d by auto
qed

lemma search_start_nonneg [simp]: "0 \<le> search_start s"
  by (simp add: search_start_def)

definition earlier :: "byte list \<Rightarrow> int \<Rightarrow> int" where
  "earlier s offset = rfind s EOCD_SIGNATURE (search_start s) offset"

lemma earlier_signature: "earlier s offset < search_start s \<or> bytes_at s (earlier s offset) 4 = EOCD_SIGNATURE"
proof -
  have "-1 < search_start s" using search_start_nonneg [of s] by linarith
  then show ?thesis
    using rfind_spec [of "search_start s" EOCD_SIGNATURE s offset] by (auto simp: earlier_def)
qed

lemma earlier_complete:
  assumes "bytes_at s offset 4 = EOCD_SIGNATURE" "search_start s \<le> j" "bytes_at s j 4 = EOCD_SIGNATURE" "j < offset"
  shows "j \<le> earlier s offset"
proof -
  have "j + 4 \<le> offset"
    using assms search_start_nonneg [of s] by (intro signature_no_overlap [OF assms(1,3)]) linarith+
  then show ?thesis
    using rfind_spec [of "search_start s" EOCD_SIGNATURE s offset] assms(2,3)
    by (force simp: earlier_def)
qed

lemma preflight_loop_step:
  "preflight_loop s p offset ne em =
     (if search_start s \<le> offset then
        if valid_central_directory_at s p offset then
          if u16 s (offset + 10) \<noteq> 0 then
            (if ne \<noteq> None then None else preflight_loop s p (earlier s offset) (Some offset) em)
          else preflight_loop s p (earlier s offset) ne (Some offset)
        else preflight_loop s p (earlier s offset) ne em
      else if ne \<noteq> None then ne else em)"
  by (subst preflight_loop.simps) (simp add: Let_def earlier_def)

lemma preflight_loop_unique:
  assumes "preflight_loop s p offset ne em = Some r"
    "offset < search_start s \<or> bytes_at s offset 4 = EOCD_SIGNATURE"
  shows "(\<forall>x. ne = Some x \<longrightarrow> r = x) \<and> (\<forall>j \<le> offset. end_record s p j \<longrightarrow> ne = None \<and> j = r)"
  using assms
proof (induction s p offset ne em rule: preflight_loop.induct)
  case (1 s p offset ne em)
  show ?case
  proof (cases "search_start s \<le> offset")
    case start: True
    then have sig: "bytes_at s offset 4 = EOCD_SIGNATURE" using 1(5) by simp
    have complete: "j \<le> earlier s offset" if "j \<le> offset" "j \<noteq> offset" "end_record s p j" for j
      using earlier_complete [OF sig] that by (auto simp: end_record_def)
    show ?thesis
    proof (cases "valid_central_directory_at s p offset \<and> u16 s (offset + 10) \<noteq> 0")
      case here: True
      then have ne: "ne = None" and rest: "preflight_loop s p (earlier s offset) (Some offset) em = Some r"
        using 1(4) start by (auto simp: preflight_loop_step [of s p offset] split: if_splits)
      have r: "r = offset \<and> (\<forall>j \<le> earlier s offset. \<not> end_record s p j)"
        using 1(1) [OF start refl] here ne rest earlier_signature [of s offset] by (auto simp: earlier_def)
      have "j = r" if "j \<le> offset" "end_record s p j" for j
        using that r complete [OF that(1) _ that(2)] by blast
      then show ?thesis using ne by blast
    next
      case False
      then have "\<not> end_record s p offset" by (auto simp: end_record_def)
      moreover have "(\<forall>x. ne = Some x \<longrightarrow> r = x) \<and> (\<forall>j \<le> earlier s offset. end_record s p j \<longrightarrow> ne = None \<and> j = r)"
      proof (cases "valid_central_directory_at s p offset")
        case True
        then show ?thesis
          using 1(2) [OF start refl True] False 1(4) start earlier_signature [of s offset]
          by (simp add: preflight_loop_step [of s p offset]) (simp add: earlier_def)
      next
        case invalid: False
        then show ?thesis
          using 1(3) [OF start refl invalid] 1(4) start earlier_signature [of s offset]
          by (simp add: preflight_loop_step [of s p offset]) (simp add: earlier_def)
      qed
      ultimately show ?thesis using complete by metis
    qed
  next
    case False
    then show ?thesis using 1(4) by (auto simp: preflight_loop_step [of s p offset] end_record_def split: if_splits)
  qed
qed

lemma preflight_loop_valid:
  assumes "preflight_loop s p offset ne em = Some r"
    "\<forall>x. ne = Some x \<or> em = Some x \<longrightarrow> valid_central_directory_at s p x"
  shows "valid_central_directory_at s p r"
  using assms
proof (induction s p offset ne em rule: preflight_loop.induct)
  case (1 s p offset ne em)
  then show ?case
    by (simp add: preflight_loop_step [of s p offset] earlier_def [symmetric] split: if_splits)
qed

text \<open>The accepted end record is valid, and no other position holds a valid non-empty one.\<close>

lemma preflight_sound:
  assumes "preflight_central_directory s p = Some r"
  shows "valid_central_directory_at s p r" and "end_record s p j \<Longrightarrow> j = r"
proof -
  let ?last = "earlier s (byte_len s)"
  have loop: "preflight_loop s p ?last None None = Some r"
    using assms by (simp add: preflight_central_directory_def earlier_def)
  from preflight_loop_valid [OF this] show "valid_central_directory_at s p r" by simp
  assume j: "end_record s p j"
  then have "length (bytes_at s j 4) = 4" by (simp add: end_record_def)
  then have "j + 4 \<le> byte_len s" using search_start_nonneg [of s] j
    by (auto simp: bytes_at_def byte_len_def end_record_def)
  then have "j \<le> ?last"
    using rfind_spec [of "search_start s" EOCD_SIGNATURE s "byte_len s"] j
    by (force simp: earlier_def end_record_def)
  then show "j = r" using preflight_loop_unique [OF loop earlier_signature] j by blast
qed

section \<open>Bounded reading\<close>

text \<open>
  \<open>_read_bounded_bytes\<close>: chunks of at most a mebibyte until the limit is exceeded or the stream
  ends; the stream is the list of bytes it still holds.
\<close>

function read_bounded_from :: "byte list \<Rightarrow> nat \<Rightarrow> byte list \<Rightarrow> byte list" where
  "read_bounded_from stream limit collected =
     (if length collected \<le> limit then
        let chunk = take (min (1024 * 1024) (limit - length collected + 1)) stream in
        if chunk = [] then collected
        else read_bounded_from (drop (length chunk) stream) limit (collected @ chunk)
      else collected)"
  by pat_completeness auto
termination
  by (relation "measure (\<lambda>(stream, limit, collected). length stream)") auto

declare read_bounded_from.simps [simp del]

definition read_bounded_bytes :: "byte list \<Rightarrow> nat \<Rightarrow> byte list" where
  "read_bounded_bytes stream limit = read_bounded_from stream limit []"

lemma take_in_two_steps:
  assumes "a \<le> n"
  shows "take a xs @ take (n - length (take a xs)) (drop (length (take a xs)) xs) = take n xs"
proof (cases "length xs \<le> a")
  case False
  then have "length (take a xs) = a" by simp
  then show ?thesis using assms take_add [of a "n - a" xs] by simp
qed (use assms in simp)

lemma read_bounded_from_eq:
  "length collected \<le> Suc limit \<Longrightarrow>
   read_bounded_from stream limit collected = collected @ take (Suc limit - length collected) stream"
proof (induction stream limit collected rule: read_bounded_from.induct)
  case (1 stream limit collected)
  let ?n = "min (1024 * 1024) (limit - length collected + 1)"
  let ?chunk = "take ?n stream"
  show ?case
  proof (cases "length collected \<le> limit \<and> ?chunk \<noteq> []")
    case True
    have le: "?n \<le> Suc limit - length collected" using True by (simp add: Suc_diff_le)
    have len: "length (collected @ ?chunk) \<le> Suc limit" using True by auto
    have "read_bounded_from stream limit collected
        = read_bounded_from (drop (length ?chunk) stream) limit (collected @ ?chunk)"
      using True by (subst read_bounded_from.simps) (simp add: Let_def)
    also have "\<dots> = collected @ ?chunk @ take (Suc limit - length (collected @ ?chunk)) (drop (length ?chunk) stream)"
      using 1(1) [OF _ refl] True len by simp
    also have "?chunk @ take (Suc limit - length (collected @ ?chunk)) (drop (length ?chunk) stream)
        = take (Suc limit - length collected) stream"
      using take_in_two_steps [OF le, of stream] by (simp add: diff_diff_left)
    finally show ?thesis .
  next
    case False
    then show ?thesis using 1(2) by (subst read_bounded_from.simps) (auto simp: Let_def)
  qed
qed

lemma read_bounded_bytes_eq: "read_bounded_bytes stream limit = take (Suc limit) stream"
  by (simp add: read_bounded_bytes_def read_bounded_from_eq)

end
