(* ===== verification/Archive_Verification.thy ===== *)
theory Archive_Verification
  imports Central_Directory
begin

unbundle bit_operations_syntax

text \<open>
  \<^verbatim>\<open>packaging/archive_verification.py\<close> above the byte level: the checks on the entries, the payload
  and the bindings, and \<open>verify_package_archive\<close>. What the standard library's ZIP and JSON parsers
  and the JSON schema registry return for given bytes are parameters (\<open>zip_library\<close>); the decoding
  of a manifest from JSON is \<open>manifest_of_json\<close>. A stage of the verification either raises one of
  the exceptions the code catches, fails with a blocker, or continues.
  The lemmas: verification always returns a receipt that passes its own validator, and what
  a passing receipt says of the bytes.
\<close>

section \<open>What the parsers give\<close>

record ZipInfo =
  zi_filename :: string
  zi_orig_filename :: string
  zi_external_attr :: nat
  zi_flag_bits :: nat
  zi_compress_type :: int
  zi_file_size :: int
  zi_header_offset :: int

text \<open>The two groups of exceptions the code tells apart.\<close>

datatype zip_error = ZipRuntimeError | ZipFormatError

record zip_library =
  zip_infolist :: "byte list \<Rightarrow> zip_error + ZipInfo list"
  zip_read :: "byte list \<Rightarrow> ZipInfo \<Rightarrow> zip_error + byte list"
  json_loads :: "byte list \<Rightarrow> json option"
  schema_accepts :: "string \<Rightarrow> json \<Rightarrow> bool"

type_synonym failure = "string \<times> string \<times> string list"

text \<open>A lookup error is the one exception that would escape; it is never reached.\<close>

datatype stop = Raised zip_error | Failed failure | EscapedKeyError

type_synonym 'a stage = "stop + 'a"

definition bind_stage :: "'a stage \<Rightarrow> ('a \<Rightarrow> 'b stage) \<Rightarrow> 'b stage" where
  "bind_stage s f = (case s of Inl e \<Rightarrow> Inl e | Inr x \<Rightarrow> f x)"

lemma bind_stage_simps [simp]: "bind_stage (Inl e) f = Inl e" "bind_stage (Inr x) f = f x"
  by (simp_all add: bind_stage_def)

lemma bind_stage_Inr: "bind_stage s f = Inr y \<longleftrightarrow> (\<exists>x. s = Inr x \<and> f x = Inr y)"
  by (cases s) simp_all

lemma bind_stage_Inl: "bind_stage s f = Inl e \<longleftrightarrow> s = Inl e \<or> (\<exists>x. s = Inr x \<and> f x = Inl e)"
  by (cases s) simp_all

definition fail :: "string \<Rightarrow> string \<Rightarrow> string list \<Rightarrow> 'a stage" where
  "fail blocker message evidence = Inl (Failed (blocker, message, evidence))"

definition lift_zip :: "zip_error + 'a \<Rightarrow> 'a stage" where
  "lift_zip r = (case r of Inl e \<Rightarrow> Inl (Raised e) | Inr x \<Rightarrow> Inr x)"

section \<open>Receipts\<close>

definition blocked :: "failure \<Rightarrow> PackageArchiveVerificationReceipt result" where
  "blocked f = (case f of (blocker, message, evidence) \<Rightarrow>
     and_then (validate_model normalise_blocker check_blocker
         \<lparr>rb_code = blocker, rb_message = message, rb_evidence_refs = evidence\<rparr>) (\<lambda>b.
       validate_model normalise_verification check_verification
         \<lparr>av_status = BlockedResult, av_archive_sha256 = None, av_candidate = None, av_package_digest = None,
          av_manifest = None, av_verified_files = [], av_blocker = Some b\<rparr>))"

section \<open>Reading a manifest\<close>

fun unique_keys :: "json \<Rightarrow> bool" where
  "unique_keys (JArr vs) = list_all unique_keys vs"
| "unique_keys (JObj kvs) = (distinct (map fst kvs) \<and> list_all unique_keys (map snd kvs))"
| "unique_keys v = True"

fun str_of :: "json \<Rightarrow> string option" where
  "str_of (JStr s) = Some s" | "str_of _ = None"

fun int_of :: "json \<Rightarrow> int option" where
  "int_of (JInt i) = Some i" | "int_of _ = None"

fun items_of :: "(json \<Rightarrow> 'a option) \<Rightarrow> json \<Rightarrow> 'a list option" where
  "items_of f (JArr vs) = those (map f vs)" | "items_of f _ = None"

text \<open>A closed object (\<^verbatim>\<open>extra="forbid"\<close>, every field required): its members in the order of the fields.\<close>

fun members_of :: "string list \<Rightarrow> json \<Rightarrow> json list option" where
  "members_of keys (JObj kvs) =
     (if set (map fst kvs) \<subseteq> set keys then those (map (map_of kvs) keys) else None)"
| "members_of keys _ = None"

fun role_of :: "json \<Rightarrow> PackageFileRole option" where
  "role_of (JStr s) =
     List.find (\<lambda>r. role_name r = s) [RoleSkillMd, RoleReadme, RoleReference, RoleScript, RoleAsset, RoleEval]"
| "role_of _ = None"

fun candidate_of_json :: "json \<Rightarrow> PackageCandidateIdentity option" where
  "candidate_of_json v =
     (case members_of [''schema_version'', ''package_id'', ''source_revision'', ''content_sha256''] v of
        Some [JStr sv, JStr p, JStr r, JStr c] \<Rightarrow>
          if sv = ''package-candidate/v1''
          then Some \<lparr>package_id = p, source_revision = r, content_sha256 = c\<rparr> else None
      | _ \<Rightarrow> None)"

fun file_of_json :: "json \<Rightarrow> PackageManifestFile option" where
  "file_of_json v =
     (case members_of [''path'', ''sha256'', ''size_bytes'', ''role''] v of
        Some [JStr p, JStr d, JInt n, r] \<Rightarrow>
          map_option (\<lambda>role. \<lparr>mf_path = p, mf_sha256 = d, mf_size_bytes = n, mf_role = role\<rparr>) (role_of r)
      | _ \<Rightarrow> None)"

fun provenance_of_json :: "json \<Rightarrow> PackageManifestProvenance option" where
  "provenance_of_json v =
     (case members_of [''source'', ''builder''] v of
        Some [src, JStr b] \<Rightarrow> map_option (\<lambda>s. \<lparr>pmp_source = s, pmp_builder = b\<rparr>) (items_of str_of src)
      | _ \<Rightarrow> None)"

fun manifest_of_json :: "json \<Rightarrow> PackageManifest option" where
  "manifest_of_json v =
     (case members_of [''schema_version'', ''candidate'', ''version'', ''files'', ''provenance''] v of
        Some [JStr sv, c, JStr ver, fs, p] \<Rightarrow>
          (case (candidate_of_json c, items_of file_of_json fs, provenance_of_json p) of
             (Some c, Some fs, Some p) \<Rightarrow>
               if sv = ''package-manifest/v1''
               then Some \<lparr>pm_candidate = c, pm_version = ver, pm_files = fs, pm_provenance = p\<rparr> else None
           | _ \<Rightarrow> None)
      | _ \<Rightarrow> None)"

definition parse_manifest :: "zip_library \<Rightarrow> byte list \<Rightarrow> PackageManifest option" where
  "parse_manifest lib data =
     (case json_loads lib data of
        None \<Rightarrow> None
      | Some payload \<Rightarrow>
          if \<not> unique_keys payload \<or> \<not> schema_accepts lib ''package-manifest.v1'' payload then None
          else (case manifest_of_json payload of
                  None \<Rightarrow> None
                | Some m \<Rightarrow> (case validate_model normalise_manifest check_manifest m of
                               Inl e \<Rightarrow> None | Inr m' \<Rightarrow> Some m')))"

text \<open>\<open>_read_manifest\<close>: the entry's stream is read up to its announced size and one byte.\<close>

definition read_manifest :: "zip_library \<Rightarrow> byte list \<Rightarrow> ZipInfo \<Rightarrow> PackageManifest option stage" where
  "read_manifest lib archive info =
     bind_stage (lift_zip (zip_read lib archive info)) (\<lambda>stream.
       let data = read_bounded_bytes stream (nat (zi_file_size info)) in
       Inr (if byte_len data \<noteq> zi_file_size info then None else parse_manifest lib data))"

section \<open>The entries\<close>

definition MANIFEST_PATH :: string where "MANIFEST_PATH = ''package-manifest.json''"

definition zip_is_dir :: "ZipInfo \<Rightarrow> bool" where
  "zip_is_dir info = ends_with (zi_filename info) ''/''"

definition entry_path :: "ZipInfo \<Rightarrow> string option" where
  "entry_path info =
     (let name = zi_filename info in
      if CHR 0x00 \<in> set (zi_orig_filename info) \<or> zi_orig_filename info \<noteq> name \<or> zip_is_dir info then None
      else if is_ok (require_portable_relative_path name) then Some name else None)"

text \<open>\<^verbatim>\<open>stat.S_ISLNK(info.external_attr >> 16)\<close>\<close>

definition is_symlink :: "ZipInfo \<Rightarrow> bool" where
  "is_symlink info = (drop_bit 16 (zi_external_attr info) AND 0xF000 = 0xA000)"

definition ZIP_STORED :: int where "ZIP_STORED = 0"

definition ZIP_DEFLATED :: int where "ZIP_DEFLATED = 8"

definition local_compression_matches :: "byte list \<Rightarrow> ZipInfo \<Rightarrow> bool" where
  "local_compression_matches snapshot info =
     (let offset = zi_header_offset info in
      offset \<ge> 0 \<and> offset + 30 \<le> byte_len snapshot \<and> bytes_at snapshot offset 4 = [80, 75, 3, 4]
      \<and> u16 snapshot (offset + 8) = zi_compress_type info)"

text \<open>The body of the loop over the entries: a failure, or the path under which the entry is kept.\<close>

definition check_entry :: "byte list \<Rightarrow> string list \<Rightarrow> ZipInfo \<Rightarrow> string stage" where
  "check_entry snapshot seen info =
     (case entry_path info of
        None \<Rightarrow> fail ''archive_path_invalid'' ''archive entry path is not portable'' []
      | Some path \<Rightarrow>
          if path \<in> set seen
          then fail (if path = MANIFEST_PATH then ''archive_manifest_duplicate'' else ''archive_entry_duplicate'')
                 ''archive entry path is duplicated'' [path]
          else if zi_flag_bits info AND 1 \<noteq> 0
          then fail ''archive_unreadable'' ''encrypted archive entries are not supported'' [path]
          else if zi_compress_type info \<notin> {ZIP_STORED, ZIP_DEFLATED}
          then fail ''archive_invalid_zip'' ''archive compression method is not supported'' [path]
          else if \<not> local_compression_matches snapshot info
          then fail ''archive_invalid_zip'' ''archive compression headers disagree'' [path]
          else if is_symlink info
          then fail ''archive_symlink_forbidden'' ''archive symlink entries are forbidden'' [path]
          else Inr path)"

fun collect_entries :: "byte list \<Rightarrow> ZipInfo list \<Rightarrow> (string \<times> ZipInfo) list \<Rightarrow> (string \<times> ZipInfo) list stage" where
  "collect_entries snapshot [] entries = Inr entries"
| "collect_entries snapshot (info # infos) entries =
     bind_stage (check_entry snapshot (map fst entries) info) (\<lambda>path.
       collect_entries snapshot infos (entries @ [(path, info)]))"

definition validate_entries ::
  "ZipInfo list \<Rightarrow> PackageArchiveVerificationPolicy \<Rightarrow> byte list \<Rightarrow> (string \<times> ZipInfo) list stage" where
  "validate_entries infos policy snapshot =
     (if int (length infos) > vp_max_entry_count policy
         \<or> sum_list (map zi_file_size infos) > vp_max_total_uncompressed_bytes policy
      then fail ''archive_invalid_zip'' ''archive exceeds configured verification bounds'' []
      else collect_entries snapshot infos [])"

section \<open>The payload\<close>

definition sorted_missing :: "string list \<Rightarrow> string list \<Rightarrow> string list" where
  "sorted_missing xs ys = sort (remdups [x \<leftarrow> xs. x \<notin> set ys])"

definition verify_record ::
  "zip_library \<Rightarrow> byte list \<Rightarrow> (string \<times> ZipInfo) list \<Rightarrow> PackageManifestFile \<Rightarrow> unit stage" where
  "verify_record lib archive entries record =
     (let path = mf_path record in
      case map_of entries path of
        None \<Rightarrow> Inl EscapedKeyError
      | Some info \<Rightarrow>
          if zi_file_size info \<noteq> mf_size_bytes record
          then fail ''archive_payload_size_mismatch'' ''payload size does not match the manifest'' [path]
          else bind_stage (lift_zip (zip_read lib archive info)) (\<lambda>payload.
            if byte_len payload \<noteq> zi_file_size info \<or> byte_len payload \<noteq> mf_size_bytes record
            then fail ''archive_payload_size_mismatch'' ''payload size does not match the manifest'' [path]
            else if sha256 payload \<noteq> mf_sha256 record
            then fail ''archive_payload_digest_mismatch'' ''payload digest does not match the manifest'' [path]
            else Inr ()))"

fun verify_records ::
  "zip_library \<Rightarrow> byte list \<Rightarrow> (string \<times> ZipInfo) list \<Rightarrow> PackageManifestFile list \<Rightarrow> unit stage" where
  "verify_records lib archive entries [] = Inr ()"
| "verify_records lib archive entries (r # rs) =
     bind_stage (verify_record lib archive entries r) (\<lambda>u. verify_records lib archive entries rs)"

definition verify_payload ::
  "zip_library \<Rightarrow> byte list \<Rightarrow> (string \<times> ZipInfo) list \<Rightarrow> PackageManifest \<Rightarrow> unit stage" where
  "verify_payload lib archive entries manifest =
     (let payload = [p \<leftarrow> map fst entries. p \<noteq> MANIFEST_PATH]; declared = manifest_paths manifest;
          missing = sorted_missing declared payload; undeclared = sorted_missing payload declared
      in if missing \<noteq> []
         then fail ''archive_payload_missing'' ''archive is missing a declared payload'' [hd missing]
         else if undeclared \<noteq> []
         then fail ''archive_payload_undeclared'' ''archive contains an undeclared payload'' [hd undeclared]
         else verify_records lib archive entries (sort_key mf_path (pm_files manifest)))"

section \<open>The bindings\<close>

definition verify_bindings :: "PackageManifest \<Rightarrow> PackageReceipt option \<Rightarrow> string stage" where
  "verify_bindings manifest expected_receipt =
     (if candidate_content_sha256 (digest_files (pm_files manifest)) \<noteq> content_sha256 (pm_candidate manifest)
      then fail ''archive_candidate_digest_mismatch'' ''manifest files do not match the candidate digest'' []
      else
        let package_digest = canonical_json_sha256 (manifest_json manifest) in
        case expected_receipt of
          None \<Rightarrow> Inr package_digest
        | Some raw \<Rightarrow>
            if pr_schema_version raw \<noteq> ReceiptV2 \<or> \<not> is_ok (validate_model normalise_receipt check_receipt raw)
            then fail ''archive_receipt_invalid'' ''expected receipt violates its contract'' []
            else let expected = normalise_receipt raw in
              if pr_status expected \<noteq> Built \<or> pr_candidate expected \<noteq> Some (pm_candidate manifest)
                \<or> pr_manifest expected \<noteq> Some manifest
              then fail ''archive_receipt_mismatch'' ''expected receipt does not bind this package archive'' []
              else if pr_package_digest expected \<noteq> Some package_digest
              then fail ''archive_package_digest_mismatch'' ''package digest does not match the expected receipt'' []
              else Inr package_digest)"

section \<open>Reading the snapshot\<close>

text \<open>
  What the file system answers: opening may fail in three ways; an opened descriptor has a kind,
  a size, and content that may be unreadable or, when the file grows, longer than that size.
\<close>

datatype archive_file =
    FileMissing
  | FileIsDirectory
  | FileUnreadable
  | FileOpened (file_regular: bool) (file_size: int) (file_content: "byte list option")

definition read_snapshot :: "archive_file \<Rightarrow> PackageArchiveVerificationPolicy \<Rightarrow> byte list stage" where
  "read_snapshot file policy =
     (case file of
        FileMissing \<Rightarrow> fail ''archive_missing'' ''package archive does not exist'' []
      | FileIsDirectory \<Rightarrow> fail ''archive_not_regular_file'' ''package archive is not a regular file'' []
      | FileUnreadable \<Rightarrow> fail ''archive_unreadable'' ''package archive cannot be read'' []
      | FileOpened regular st_size content \<Rightarrow>
          if \<not> regular then fail ''archive_not_regular_file'' ''package archive is not a regular file'' []
          else if st_size > vp_max_archive_bytes policy
          then fail ''archive_invalid_zip'' ''archive exceeds configured verification bounds'' []
          else (case content of
                  None \<Rightarrow> fail ''archive_unreadable'' ''package archive cannot be read'' []
                | Some bytes \<Rightarrow> Inr (read_bounded_bytes bytes (nat (vp_max_archive_bytes policy)))))"

section \<open>verify_package_archive\<close>

text \<open>The snapshot with the comment after the accepted end record cut off.\<close>

definition without_comment :: "byte list \<Rightarrow> int \<Rightarrow> byte list" where
  "without_comment snapshot eocd_offset = take (nat (eocd_offset + EOCD_SIZE - 2)) snapshot @ [0, 0]"

definition verify_stages ::
  "zip_library \<Rightarrow> archive_file \<Rightarrow> string option \<Rightarrow> PackageReceipt option
   \<Rightarrow> PackageArchiveVerificationPolicy \<Rightarrow> (string \<times> PackageManifest \<times> string) stage" where
  "verify_stages lib file expected_archive_sha256 expected_receipt policy =
     bind_stage (read_snapshot file policy) (\<lambda>snapshot.
     if byte_len snapshot > vp_max_archive_bytes policy
     then fail ''archive_invalid_zip'' ''archive exceeds configured verification bounds'' []
     else case preflight_central_directory snapshot policy of
       None \<Rightarrow> fail ''archive_invalid_zip'' ''archive central directory violates verification bounds'' []
     | Some eocd_offset \<Rightarrow>
       let archive_digest = sha256 snapshot; archive = without_comment snapshot eocd_offset in
       if expected_archive_sha256 \<noteq> None \<and> expected_archive_sha256 \<noteq> Some archive_digest
       then fail ''archive_digest_mismatch'' ''archive digest does not match the expected digest'' []
       else
         bind_stage (lift_zip (zip_infolist lib archive)) (\<lambda>infos.
         bind_stage (validate_entries infos policy snapshot) (\<lambda>entries.
         case map_of entries MANIFEST_PATH of
           None \<Rightarrow> fail ''archive_manifest_missing'' ''canonical package manifest is missing'' []
         | Some manifest_info \<Rightarrow>
           bind_stage (read_manifest lib archive manifest_info) (\<lambda>parsed.
           case parsed of
             None \<Rightarrow> fail ''archive_manifest_invalid'' ''canonical package manifest is invalid'' [MANIFEST_PATH]
           | Some manifest \<Rightarrow>
             bind_stage (verify_payload lib archive entries manifest) (\<lambda>u.
             bind_stage (verify_bindings manifest expected_receipt) (\<lambda>package_digest.
               Inr (archive_digest, manifest, package_digest)))))))"

definition verify_package_archive ::
  "zip_library \<Rightarrow> archive_file \<Rightarrow> string option \<Rightarrow> PackageReceipt option
   \<Rightarrow> PackageArchiveVerificationPolicy option \<Rightarrow> PackageArchiveVerificationReceipt result" where
  "verify_package_archive lib file expected_archive_sha256 expected_receipt policy =
     (case verify_stages lib file expected_archive_sha256 expected_receipt
             (case policy of None \<Rightarrow> default_verification_policy | Some p \<Rightarrow> p) of
        Inl (Failed f) \<Rightarrow> blocked f
      | Inl (Raised ZipRuntimeError) \<Rightarrow>
          blocked (''archive_unreadable'', ''package archive contains an unreadable entry'', [])
      | Inl (Raised ZipFormatError) \<Rightarrow>
          blocked (''archive_invalid_zip'', ''package archive is not a readable ZIP'', [])
      | Inl EscapedKeyError \<Rightarrow> Inl (ValueErr ''KeyError'')
      | Inr (archive_digest, manifest, package_digest) \<Rightarrow>
          validate_model normalise_verification check_verification
            \<lparr>av_status = PassResult, av_archive_sha256 = Some archive_digest,
             av_candidate = Some (pm_candidate manifest), av_package_digest = Some package_digest,
             av_manifest = Some manifest, av_verified_files = manifest_paths manifest, av_blocker = None\<rparr>)"

section \<open>Every failure is a well-formed blocker\<close>

definition failure_ok :: "failure \<Rightarrow> bool" where
  "failure_ok f = (case f of (blocker, message, evidence) \<Rightarrow>
     is_blocker_code blocker \<and> trim blocker = blocker \<and> trim message \<noteq> [] \<and> portables evidence)"

lemma blocked_ok:
  assumes "failure_ok f"
  obtains r where "blocked f = Inr r" "av_status r = BlockedResult"
    "validate_model normalise_verification check_verification r = Inr r"
proof -
  obtain c m e where f: "f = (c, m, e)" by (cases f)
  let ?b = "\<lparr>rb_code = c, rb_message = trim m, rb_evidence_refs = e\<rparr>"
  let ?r = "\<lparr>av_status = BlockedResult, av_archive_sha256 = None, av_candidate = None, av_package_digest = None,
          av_manifest = None, av_verified_files = [], av_blocker = Some ?b\<rparr>"
  have b: "validate_model normalise_blocker check_blocker
      \<lparr>rb_code = c, rb_message = m, rb_evidence_refs = e\<rparr> = Inr ?b"
    using assms by (simp add: blocker_model.validate_ok_iff normalise_blocker_def check_blocker_def failure_ok_def f)
  have nb: "normalise_blocker ?b = ?b" "passes (check_blocker ?b)"
    using assms by (simp_all add: normalise_blocker_def check_blocker_def failure_ok_def f)
  have "validate_model normalise_verification check_verification ?r = Inr ?r"
    using nb by (simp add: verification_model.fixpoint_iff normalise_verification_def check_verification_def
        status_matches_proof_def unique_portables_iff)
  then show thesis using that [of ?r] by (simp add: blocked_def f b)
qed

text \<open>The failures a stage can end in.\<close>

definition stage_ok :: "'a stage \<Rightarrow> bool" where
  "stage_ok s = (case s of Inl (Failed f) \<Rightarrow> failure_ok f | Inl EscapedKeyError \<Rightarrow> False | _ \<Rightarrow> True)"

lemma stage_ok_Inr [simp]: "stage_ok (Inr x)"
  by (simp add: stage_ok_def)

lemma stage_ok_lift [simp]: "stage_ok (lift_zip r)"
  by (cases r) (simp_all add: stage_ok_def lift_zip_def)

lemma stage_ok_bind: "stage_ok s \<Longrightarrow> (\<And>x. s = Inr x \<Longrightarrow> stage_ok (f x)) \<Longrightarrow> stage_ok (bind_stage s f)"
  by (cases s) (auto simp: stage_ok_def)

lemma stage_ok_if: "(b \<Longrightarrow> stage_ok s) \<Longrightarrow> (\<not> b \<Longrightarrow> stage_ok t) \<Longrightarrow> stage_ok (if b then s else t)"
  by simp

definition FAILURE_CODES :: "string list" where
  "FAILURE_CODES =
     [''archive_path_invalid'', ''archive_manifest_duplicate'', ''archive_entry_duplicate'', ''archive_unreadable'',
      ''archive_invalid_zip'', ''archive_symlink_forbidden'', ''archive_payload_size_mismatch'',
      ''archive_payload_digest_mismatch'', ''archive_payload_missing'', ''archive_payload_undeclared'',
      ''archive_candidate_digest_mismatch'', ''archive_receipt_invalid'', ''archive_receipt_mismatch'',
      ''archive_package_digest_mismatch'', ''archive_missing'', ''archive_not_regular_file'',
      ''archive_digest_mismatch'', ''archive_manifest_missing'', ''archive_manifest_invalid'']"

lemma failure_codes_ok: "c \<in> set FAILURE_CODES \<Longrightarrow> is_blocker_code c \<and> trim c = c"
proof -
  have "list_all (\<lambda>c. is_blocker_code c \<and> trim c = c) FAILURE_CODES" by code_simp
  then show "c \<in> set FAILURE_CODES \<Longrightarrow> is_blocker_code c \<and> trim c = c" by (simp add: list_all_iff)
qed

lemma stage_ok_fail:
  "c \<in> set FAILURE_CODES \<Longrightarrow> trim m \<noteq> [] \<Longrightarrow> portables e \<Longrightarrow> stage_ok (fail c m e)"
  using failure_codes_ok [of c] by (simp add: stage_ok_def fail_def failure_ok_def)

lemma message_ok: "is_lower c \<Longrightarrow> trim (c # s) \<noteq> []"
  by (rule trim_nonempty [of c])
    (auto simp: is_lower_def between_def unicode_space_def code_def Let_def)

lemma is_lower_literal: "is_lower c = (97 \<le> code c \<and> code c \<le> 122)"
  by (simp add: is_lower_def between_def code_def)

lemmas fail_simps = stage_ok_fail FAILURE_CODES_def message_ok is_lower_literal code_def portables_iff

lemma entry_path_portable: "entry_path info = Some p \<Longrightarrow> portable p \<and> p = zi_filename info"
  by (auto simp: entry_path_def portable_def Let_def split: if_splits)

lemma check_entry_stage_ok: "stage_ok (check_entry snapshot seen info)"
proof (cases "entry_path info")
  case (Some path)
  then have "portables [path]" using entry_path_portable by (simp add: portables_iff)
  then show ?thesis
    unfolding check_entry_def Some option.case
    by (intro stage_ok_if stage_ok_Inr stage_ok_fail) (simp_all add: fail_simps)
qed (simp add: check_entry_def fail_simps)

lemma collect_entries_stage_ok: "stage_ok (collect_entries snapshot infos entries)"
  by (induction snapshot infos entries rule: collect_entries.induct)
    (simp_all add: stage_ok_bind check_entry_stage_ok)

lemma validate_entries_stage_ok: "stage_ok (validate_entries infos policy snapshot)"
  unfolding validate_entries_def
  by (intro stage_ok_if collect_entries_stage_ok stage_ok_fail) (simp_all add: fail_simps)

lemma read_snapshot_stage_ok: "stage_ok (read_snapshot file policy)"
  by (auto simp: read_snapshot_def fail_simps split: archive_file.splits option.splits)

lemma read_manifest_stage_ok: "stage_ok (read_manifest lib archive info)"
  by (auto simp: read_manifest_def Let_def intro!: stage_ok_bind)

lemma verify_bindings_stage_ok: "stage_ok (verify_bindings manifest expected)"
  by (auto simp: verify_bindings_def Let_def fail_simps split: option.splits)

section \<open>What each stage establishes\<close>

text \<open>An accepted entry: its own path, neither encrypted nor a symbolic link, a known compression.\<close>

definition entry_ok :: "byte list \<Rightarrow> string \<times> ZipInfo \<Rightarrow> bool" where
  "entry_ok snapshot e =
     (entry_path (snd e) = Some (fst e) \<and> zi_flag_bits (snd e) AND 1 = 0
      \<and> zi_compress_type (snd e) \<in> {ZIP_STORED, ZIP_DEFLATED}
      \<and> local_compression_matches snapshot (snd e) \<and> \<not> is_symlink (snd e))"

lemma check_entry_ok:
  "check_entry snapshot seen info = Inr path \<Longrightarrow> path \<notin> set seen \<and> entry_ok snapshot (path, info)"
  by (cases "entry_path info") (simp_all add: check_entry_def entry_ok_def fail_def split: if_splits)

lemma collect_entries_ok:
  assumes "collect_entries snapshot infos entries = Inr es" "distinct (map fst entries)"
    "\<forall>e \<in> set entries. entry_ok snapshot e"
  shows "distinct (map fst es) \<and> (\<forall>e \<in> set es. entry_ok snapshot e) \<and> map snd es = map snd entries @ infos"
  using assms
proof (induction snapshot infos entries rule: collect_entries.induct)
  case (2 snapshot info infos entries)
  from 2(2) obtain path where path: "check_entry snapshot (map fst entries) info = Inr path"
    and rest: "collect_entries snapshot infos (entries @ [(path, info)]) = Inr es"
    by (auto simp: bind_stage_Inr)
  have "distinct (map fst (entries @ [(path, info)]))" "\<forall>e \<in> set (entries @ [(path, info)]). entry_ok snapshot e"
    using check_entry_ok [OF path] 2(3,4) by auto
  from 2(1) [OF rest this] show ?case by simp
qed simp

lemma validate_entries_ok:
  assumes "validate_entries infos policy snapshot = Inr es"
  shows "distinct (map fst es)" and "\<forall>e \<in> set es. entry_ok snapshot e" and "map snd es = infos"
    and "int (length es) \<le> vp_max_entry_count policy"
    and "sum_list (map (zi_file_size \<circ> snd) es) \<le> vp_max_total_uncompressed_bytes policy"
proof -
  from assms have c: "collect_entries snapshot infos [] = Inr es"
    and b: "int (length infos) \<le> vp_max_entry_count policy"
      "sum_list (map zi_file_size infos) \<le> vp_max_total_uncompressed_bytes policy"
    by (auto simp: validate_entries_def fail_def split: if_splits)
  from collect_entries_ok [OF c] have es: "distinct (map fst es)" "\<forall>e \<in> set es. entry_ok snapshot e" "map snd es = infos"
    by simp_all
  then show "distinct (map fst es)" "\<forall>e \<in> set es. entry_ok snapshot e" "map snd es = infos" by simp_all
  have "length es = length infos" using es(3) by (metis length_map)
  then show "int (length es) \<le> vp_max_entry_count policy" using b by simp
  show "sum_list (map (zi_file_size \<circ> snd) es) \<le> vp_max_total_uncompressed_bytes policy"
    using b(2) unfolding es(3) [symmetric] by (simp add: comp_def)
qed

text \<open>A verified file: an entry of its path whose content has the announced size and digest.\<close>

definition payload_matches ::
  "zip_library \<Rightarrow> byte list \<Rightarrow> (string \<times> ZipInfo) list \<Rightarrow> PackageManifestFile \<Rightarrow> bool" where
  "payload_matches lib archive entries f =
     (\<exists>info payload. map_of entries (mf_path f) = Some info \<and> zip_read lib archive info = Inr payload
        \<and> byte_len payload = mf_size_bytes f \<and> sha256 payload = mf_sha256 f)"

lemma verify_record_ok: "verify_record lib archive entries r = Inr u \<Longrightarrow> payload_matches lib archive entries r"
  by (cases "map_of entries (mf_path r)")
    (auto simp: verify_record_def Let_def bind_stage_Inr fail_def lift_zip_def payload_matches_def
      split: if_splits sum.splits)

lemma verify_records_ok:
  "verify_records lib archive entries rs = Inr u \<Longrightarrow> \<forall>r \<in> set rs. payload_matches lib archive entries r"
  by (induction rs) (auto simp: bind_stage_Inr dest: verify_record_ok)

lemma sorted_missing_Nil: "sorted_missing xs ys = [] \<longleftrightarrow> set xs \<subseteq> set ys"
proof -
  have "sorted_missing xs ys = [] \<longleftrightarrow> set (sorted_missing xs ys) = {}" by simp
  then show ?thesis by (auto simp: sorted_missing_def)
qed

lemma sorted_missing_hd: "sorted_missing xs ys \<noteq> [] \<Longrightarrow> hd (sorted_missing xs ys) \<in> set xs"
  using hd_in_set [of "sorted_missing xs ys"] by (auto simp: sorted_missing_def)

lemma verify_payload_ok:
  assumes "verify_payload lib archive entries manifest = Inr u"
  shows "\<forall>f \<in> set (pm_files manifest). payload_matches lib archive entries f"
    and "set (map fst entries) - {MANIFEST_PATH} = set (manifest_paths manifest)"
proof -
  from assms have rs: "verify_records lib archive entries (sort_key mf_path (pm_files manifest)) = Inr u"
    and eq: "set (manifest_paths manifest) \<subseteq> set (map fst entries) - {MANIFEST_PATH}"
      "set (map fst entries) - {MANIFEST_PATH} \<subseteq> set (manifest_paths manifest)"
    by (auto simp: verify_payload_def Let_def fail_def sorted_missing_Nil split: if_splits)
  from verify_records_ok [OF rs] show "\<forall>f \<in> set (pm_files manifest). payload_matches lib archive entries f" by simp
  from eq show "set (map fst entries) - {MANIFEST_PATH} = set (manifest_paths manifest)" by blast
qed

section \<open>Verification always returns a receipt\<close>

lemma verify_record_stage_ok:
  assumes "portable (mf_path r)" "mf_path r \<in> set (map fst entries)"
  shows "stage_ok (verify_record lib archive entries r)"
proof -
  obtain info where info: "map_of entries (mf_path r) = Some info"
    using assms(2) by (metis map_of_eq_None_iff not_Some_eq set_map)
  have "portables [mf_path r]" using assms(1) by (simp add: portables_iff)
  then show ?thesis
    unfolding verify_record_def Let_def info option.case
    by (intro stage_ok_if stage_ok_bind stage_ok_lift stage_ok_Inr stage_ok_fail) (simp_all add: fail_simps)
qed

lemma verify_records_stage_ok:
  "\<forall>r \<in> set rs. portable (mf_path r) \<and> mf_path r \<in> set (map fst entries) \<Longrightarrow>
   stage_ok (verify_records lib archive entries rs)"
  by (induction rs) (simp_all add: stage_ok_bind verify_record_stage_ok)

lemma verify_payload_stage_ok:
  assumes "\<forall>e \<in> set entries. portable (fst e)" "\<forall>f \<in> set (pm_files m). portable (mf_path f)"
  shows "stage_ok (verify_payload lib archive entries m)"
proof -
  let ?payload = "[p \<leftarrow> map fst entries. p \<noteq> MANIFEST_PATH]" and ?declared = "manifest_paths m"
  have missing: "portables [hd (sorted_missing xs ys)]"
    if "sorted_missing xs ys \<noteq> []" "\<forall>x \<in> set xs. portable x" for xs ys
    using sorted_missing_hd [OF that(1)] that(2) by (simp add: portables_iff)
  have "stage_ok (verify_records lib archive entries (sort_key mf_path (pm_files m)))"
    if "sorted_missing ?declared ?payload = []"
    using that assms by (intro verify_records_stage_ok) (auto simp: sorted_missing_Nil manifest_paths_def)
  moreover have "\<forall>x \<in> set ?declared. portable x" "\<forall>x \<in> set ?payload. portable x"
    using assms by (auto simp: manifest_paths_def)
  ultimately show ?thesis
    unfolding verify_payload_def Let_def
    by (intro stage_ok_if stage_ok_fail missing) (simp_all add: fail_simps)
qed

lemma parse_manifest_valid:
  "parse_manifest lib data = Some m \<Longrightarrow> normalise_manifest m = m \<and> passes (check_manifest m)"
  by (auto simp: parse_manifest_def manifest_model.validate_ok_iff split: option.splits if_splits sum.splits)

lemma read_manifest_valid:
  "read_manifest lib archive info = Inr (Some m) \<Longrightarrow> normalise_manifest m = m \<and> passes (check_manifest m)"
  by (auto simp: read_manifest_def bind_stage_Inr Let_def split: if_splits dest: parse_manifest_valid)

lemma manifest_path_ok: "portables [MANIFEST_PATH]"
  by code_simp

lemma payload_stage_ok:
  assumes "validate_entries infos policy snapshot = Inr es" "read_manifest lib archive info = Inr (Some m)"
  shows "stage_ok (verify_payload lib archive' es m)"
proof (rule verify_payload_stage_ok)
  show "\<forall>e \<in> set es. portable (fst e)"
    using validate_entries_ok(2) [OF assms(1)] entry_path_portable by (auto simp: entry_ok_def)
  show "\<forall>f \<in> set (pm_files m). portable (mf_path f)"
    using read_manifest_valid [OF assms(2)] by (simp add: check_manifest_iff check_file_iff)
qed

lemma verify_stages_stage_ok: "stage_ok (verify_stages lib file sha receipt policy)"
  unfolding verify_stages_def Let_def
  apply (intro stage_ok_bind read_snapshot_stage_ok stage_ok_if)
  apply (auto simp: fail_simps manifest_path_ok [unfolded portables_iff] split: option.splits
      intro!: stage_ok_bind validate_entries_stage_ok read_manifest_stage_ok verify_bindings_stage_ok)
  apply (rule payload_stage_ok; assumption)+
  done

lemma verify_stages_ok:
  assumes "verify_stages lib file sha receipt policy = Inr (d, m, pd)"
  obtains snapshot eocd infos entries info where
    "read_snapshot file policy = Inr snapshot" "byte_len snapshot \<le> vp_max_archive_bytes policy"
    "preflight_central_directory snapshot policy = Some eocd"
    "d = sha256 snapshot" "sha = None \<or> sha = Some d"
    "zip_infolist lib (without_comment snapshot eocd) = Inr infos"
    "validate_entries infos policy snapshot = Inr entries" "map_of entries MANIFEST_PATH = Some info"
    "read_manifest lib (without_comment snapshot eocd) info = Inr (Some m)"
    "verify_payload lib (without_comment snapshot eocd) entries m = Inr ()"
    "verify_bindings m receipt = Inr pd"
  using assms
  by (auto simp: verify_stages_def Let_def bind_stage_Inr fail_def lift_zip_def
      split: if_splits option.splits sum.splits)

lemma verify_bindings_ok:
  assumes "verify_bindings m receipt = Inr pd"
  shows "candidate_content_sha256 (digest_files (pm_files m)) = content_sha256 (pm_candidate m)"
    and "pd = canonical_json_sha256 (manifest_json m)"
    and "receipt = Some r \<Longrightarrow> pr_status (normalise_receipt r) = Built
      \<and> pr_manifest (normalise_receipt r) = Some m \<and> pr_package_digest (normalise_receipt r) = Some pd"
  using assms by (auto simp: verify_bindings_def fail_def Let_def split: if_splits option.splits)

definition pass_receipt :: "string \<Rightarrow> PackageManifest \<Rightarrow> string \<Rightarrow> PackageArchiveVerificationReceipt" where
  "pass_receipt archive_digest manifest package_digest =
     \<lparr>av_status = PassResult, av_archive_sha256 = Some archive_digest,
      av_candidate = Some (pm_candidate manifest), av_package_digest = Some package_digest,
      av_manifest = Some manifest, av_verified_files = manifest_paths manifest, av_blocker = None\<rparr>"

lemma pass_receipt_valid:
  assumes "verify_stages lib file sha receipt policy = Inr (d, m, pd)"
  shows "validate_model normalise_verification check_verification (pass_receipt d m pd) = Inr (pass_receipt d m pd)"
proof -
  from verify_stages_ok [OF assms] obtain archive info snapshot
    where r: "read_manifest lib archive info = Inr (Some m)" "verify_bindings m receipt = Inr pd" "d = sha256 snapshot"
    by metis
  have m: "normalise_manifest m = m" "passes (check_manifest m)" using read_manifest_valid [OF r(1)] by auto
  then have c: "normalise_candidate (pm_candidate m) = pm_candidate m" "passes (check_candidate (pm_candidate m))"
    by (simp_all add: check_manifest_iff valid_candidate_normal)
  have p: "unique_portables (manifest_paths m)"
    using m(2) by (auto simp: check_manifest_iff unique_portables_iff check_file_iff manifest_paths_def)
  note b = verify_bindings_ok(1,2) [OF r(2)]
  have "passes (status_matches_proof (pass_receipt d m pd))"
    using b by (simp add: status_matches_proof_def pass_receipt_def)
  moreover have "normalise_verification (pass_receipt d m pd) = pass_receipt d m pd"
    using m c b r(3) by (simp add: normalise_verification_def pass_receipt_def trim_sha256 sha256_is_sha256)
  ultimately show ?thesis
    using m c p b r(3)
    by (simp add: verification_model.fixpoint_iff check_verification_def)
      (simp add: pass_receipt_def sha256_is_sha256)
qed

lemma verify_package_archive_cases:
  obtains (pass) d m pd where
    "verify_stages lib file sha receipt (case policy of None \<Rightarrow> default_verification_policy | Some p \<Rightarrow> p) = Inr (d, m, pd)"
    "verify_package_archive lib file sha receipt policy = Inr (pass_receipt d m pd)"
  | (blocked) r where "verify_package_archive lib file sha receipt policy = Inr r" "av_status r = BlockedResult"
    "validate_model normalise_verification check_verification r = Inr r"
proof -
  let ?s = "verify_stages lib file sha receipt (case policy of None \<Rightarrow> default_verification_policy | Some p \<Rightarrow> p)"
  have raised: "failure_ok (''archive_unreadable'', ''package archive contains an unreadable entry'', [])"
    "failure_ok (''archive_invalid_zip'', ''package archive is not a readable ZIP'', [])"
    by code_simp+
  consider d m pd where "?s = Inr (d, m, pd)" | f where "?s = Inl (Failed f)" "failure_ok f"
    | "?s = Inl (Raised ZipRuntimeError)" | "?s = Inl (Raised ZipFormatError)"
    using verify_stages_stage_ok [of "lib" "file" "sha" "receipt"
        "case policy of None \<Rightarrow> default_verification_policy | Some p \<Rightarrow> p"]
    by (cases ?s) (auto simp: stage_ok_def split: stop.splits intro: zip_error.exhaust)
  then show thesis
  proof cases
    case 1
    then show thesis using pass [OF 1] pass_receipt_valid [OF 1]
      by (simp add: verify_package_archive_def pass_receipt_def)
  next
    case 2
    then show thesis using blocked by (auto simp: verify_package_archive_def elim: blocked_ok)
  next
    case 3
    then show thesis using blocked blocked_ok [OF raised(1)] by (auto simp: verify_package_archive_def)
  next
    case 4
    then show thesis using blocked blocked_ok [OF raised(2)] by (auto simp: verify_package_archive_def)
  qed
qed

end
