(* ===== verification/Registry.thy ===== *)
theory Registry
  imports Packaging
begin

text \<open>
  \<^verbatim>\<open>models/registry.py\<close>: the secret-free contracts of private-registry preparation. The two credential
  patterns are searched with \<^verbatim>\<open>re.IGNORECASE\<close>. Fields whose validator runs before stripping and
  demands text without surrounding white space (registry identity and version) are not
  normalised; for the other fields stripping does not change what the pattern finds
  (\<open>redaction_safe_trim\<close>).
\<close>

section \<open>Patterns\<close>

definition REGISTRY_PACKAGE_NAME_MAX_LENGTH :: nat where "REGISTRY_PACKAGE_NAME_MAX_LENGTH = 64"

definition CREDENTIAL_PREFIXES :: "string list" where
  "CREDENTIAL_PREFIXES =
     [''aiza'', ''akia'', ''bearer'', ''ghp_'', ''github_pat_'', ''hf_'', ''sk-'', ''xoxb-'', ''xoxp-'']"

definition credential_prefix_rx :: rx where
  "credential_prefix_rx = alts (map lit_ci CREDENTIAL_PREFIXES)"

text \<open>\<open>_CREDENTIAL_COMPONENT_PATTERN\<close> and \<open>_PUBLIC_TEXT_CREDENTIAL_PATTERN\<close>, searched.\<close>

definition credential_component :: "string \<Rightarrow> bool" where
  "credential_component value = after_boundary (\<lambda>c. c \<in> set ''._-'') credential_prefix_rx value"

definition registry_evidence_is_redaction_safe :: "string \<Rightarrow> bool" where
  "registry_evidence_is_redaction_safe value = (\<not> after_boundary (\<lambda>c. \<not> is_alnum c) credential_prefix_rx value)"

definition version_number_rx :: rx where
  "version_number_rx = Alt (chr (CHR ''0'')) (Seq (Cls (between (CHR ''1'') (CHR ''9''))) (Star (Cls is_digit)))"

definition semver_char :: "char \<Rightarrow> bool" where
  "semver_char c = (is_alnum c \<or> c = CHR ''-'')"

definition SEMVER_IDENTIFIER :: rx where
  "SEMVER_IDENTIFIER = Alt version_number_rx
     (seqs [Star (Cls semver_char), Cls (\<lambda>c. is_lower c \<or> is_upper c \<or> c = CHR ''-''), Star (Cls semver_char)])"

definition REGISTRY_VERSION_PATTERN :: rx where
  "REGISTRY_VERSION_PATTERN = seqs
     [version_number_rx, chr (CHR ''.''), version_number_rx, chr (CHR ''.''), version_number_rx,
      opt (seqs [chr (CHR ''-''), SEMVER_IDENTIFIER, Star (Seq (chr (CHR ''.'')) SEMVER_IDENTIFIER)]),
      opt (seqs [chr (CHR ''+''), plus (Cls semver_char), Star (Seq (chr (CHR ''.'')) (plus (Cls semver_char)))])]"

section \<open>Identity and request\<close>

record RegistryIdentity =
  rg_registry_id :: string
  rg_namespace :: string

definition check_registry_identifier :: "string \<Rightarrow> (bool \<times> string) list" where
  "check_registry_identifier value =
     [(value \<noteq> strip value, ''registry identity must not contain surrounding whitespace''),
      (credential_component value, ''registry identity must not contain credential-shaped values''),
      (length value > 64 \<or> \<not> is_identifier value, ''registry identifier'')]"

definition check_registry_identity :: "RegistryIdentity \<Rightarrow> (bool \<times> string) list" where
  "check_registry_identity r = check_registry_identifier (rg_registry_id r) @ check_registry_identifier (rg_namespace r)"

definition registry_identity_json :: "RegistryIdentity \<Rightarrow> json" where
  "registry_identity_json r =
     JObj [(''schema_version'', JStr ''registry-identity/v1''), (''registry_id'', JStr (rg_registry_id r)),
           (''registry_kind'', JStr ''private''), (''namespace'', JStr (rg_namespace r))]"

text \<open>The validators the request and the receipt share.\<close>

definition check_package_name :: "string \<Rightarrow> (bool \<times> string) list" where
  "check_package_name value =
     [(\<not> registry_evidence_is_redaction_safe value, ''registry package name must not contain credential-shaped values'')]
     @ field ''package_name'' (is_identifier value)"

definition check_version :: "string \<Rightarrow> (bool \<times> string) list" where
  "check_version value =
     [(value \<noteq> strip value, ''registry version must not contain surrounding whitespace''),
      (\<not> registry_evidence_is_redaction_safe value, ''registry version must not contain credential-shaped values'')]
     @ field ''version'' (nonempty_text value)"

definition check_public_paths :: "string \<Rightarrow> string \<Rightarrow> string list \<Rightarrow> (bool \<times> string) list" where
  "check_public_paths unique_message credential_message values =
     [(has_duplicates values, unique_message)]
     @ each (\<lambda>value. [(\<not> portable value, ''invalid_portable_path''),
                      (\<not> registry_evidence_is_redaction_safe value, credential_message)])
         values"

record RegistryPreparationRequest =
  rq_registry :: RegistryIdentity
  rq_package_name :: string
  rq_version :: string
  rq_evidence :: "string list"

definition normalise_request :: "RegistryPreparationRequest \<Rightarrow> RegistryPreparationRequest" where
  "normalise_request r = r\<lparr>rq_package_name := trim (rq_package_name r)\<rparr>"

definition check_request :: "RegistryPreparationRequest \<Rightarrow> (bool \<times> string) list" where
  "check_request r =
     check_registry_identity (rq_registry r)
     @ check_package_name (rq_package_name r)
     @ check_version (rq_version r)
     @ field ''evidence'' (rq_evidence r \<noteq> [])
     @ check_public_paths ''registry preparation evidence paths must be unique''
         ''registry preparation evidence must not contain credential-shaped values'' (rq_evidence r)"

definition request_json :: "RegistryPreparationRequest \<Rightarrow> json" where
  "request_json r =
     JObj [(''schema_version'', JStr ''registry-preparation-request/v1''),
           (''registry'', registry_identity_json (rq_registry r)), (''package_name'', JStr (rq_package_name r)),
           (''version'', JStr (rq_version r)), (''evidence'', strs (rq_evidence r))]"

section \<open>Blockers and warnings\<close>

record RegistryPreparationBlocker =
  gb_code :: string
  gb_message :: string
  gb_evidence_refs :: "string list"
  gb_source_evidence_sha256 :: "string list"
  gb_source_blocker_sha256 :: "string option"

definition normalise_registry_blocker :: "RegistryPreparationBlocker \<Rightarrow> RegistryPreparationBlocker" where
  "normalise_registry_blocker b = b\<lparr>
     gb_code := trim (gb_code b), gb_message := trim (gb_message b),
     gb_source_evidence_sha256 := map trim (gb_source_evidence_sha256 b),
     gb_source_blocker_sha256 := map_option trim (gb_source_blocker_sha256 b)\<rparr>"

definition check_public_text :: "string \<Rightarrow> string \<Rightarrow> (bool \<times> string) list" where
  "check_public_text name value =
     [(\<not> registry_evidence_is_redaction_safe value, ''registry blocker text must not contain credential-shaped values'')]
     @ field name (nonempty_text value)"

definition check_registry_blocker :: "RegistryPreparationBlocker \<Rightarrow> (bool \<times> string) list" where
  "check_registry_blocker b =
     check_public_text ''code'' (gb_code b)
     @ check_public_text ''message'' (gb_message b)
     @ check_public_paths ''registry blocker evidence references must be unique''
         ''registry blocker evidence must not contain credential-shaped values'' (gb_evidence_refs b)
     @ field ''source_evidence_sha256'' (list_all is_sha256 (gb_source_evidence_sha256 b))
     @ field ''source_blocker_sha256'' (opt_ok is_sha256 (gb_source_blocker_sha256 b))"

definition registry_blocker_json :: "RegistryPreparationBlocker \<Rightarrow> json" where
  "registry_blocker_json b =
     JObj [(''code'', JStr (gb_code b)), (''message'', JStr (gb_message b)),
           (''evidence_refs'', strs (gb_evidence_refs b)),
           (''source_evidence_sha256'', strs (gb_source_evidence_sha256 b)),
           (''source_blocker_sha256'', opt_json JStr (gb_source_blocker_sha256 b))]"

record RegistryPreparationWarning =
  gw_warning_sha256 :: string
  gw_evidence_refs :: "string list"
  gw_source_evidence_sha256 :: "string list"

definition normalise_registry_warning :: "RegistryPreparationWarning \<Rightarrow> RegistryPreparationWarning" where
  "normalise_registry_warning w = w\<lparr>
     gw_warning_sha256 := trim (gw_warning_sha256 w),
     gw_source_evidence_sha256 := map trim (gw_source_evidence_sha256 w)\<rparr>"

definition check_registry_warning :: "RegistryPreparationWarning \<Rightarrow> (bool \<times> string) list" where
  "check_registry_warning w =
     field ''warning_sha256'' (is_sha256 (gw_warning_sha256 w))
     @ check_public_paths ''registry warning evidence references must be unique''
         ''registry warning evidence must not contain credential-shaped values'' (gw_evidence_refs w)
     @ field ''source_evidence_sha256'' (list_all is_sha256 (gw_source_evidence_sha256 w))"

definition registry_warning_json :: "RegistryPreparationWarning \<Rightarrow> json" where
  "registry_warning_json w =
     JObj [(''status'', JStr ''warning''), (''warning_sha256'', JStr (gw_warning_sha256 w)),
           (''evidence_refs'', strs (gw_evidence_refs w)),
           (''source_evidence_sha256'', strs (gw_source_evidence_sha256 w))]"

section \<open>Receipt\<close>

datatype PreparationStatus = Prepared | PreparationBlocked

record RegistryPreparationReceipt =
  gr_receipt_id :: string
  gr_candidate :: "PackageCandidateIdentity option"
  gr_registry :: RegistryIdentity
  gr_package_name :: string
  gr_version :: string
  gr_input_receipt_id :: string
  gr_package_digest :: "string option"
  gr_manifest_digest :: "string option"
  gr_hardening_receipt_sha256 :: "string option"
  gr_status :: PreparationStatus
  gr_evidence :: "string list"
  gr_blocker :: "RegistryPreparationBlocker option"
  gr_blockers :: "RegistryPreparationBlocker list"
  gr_warnings :: "RegistryPreparationWarning list"

definition normalise_preparation :: "RegistryPreparationReceipt \<Rightarrow> RegistryPreparationReceipt" where
  "normalise_preparation r = r\<lparr>
     gr_receipt_id := trim (gr_receipt_id r), gr_candidate := map_option normalise_candidate (gr_candidate r),
     gr_package_name := trim (gr_package_name r), gr_input_receipt_id := trim (gr_input_receipt_id r),
     gr_package_digest := map_option trim (gr_package_digest r),
     gr_manifest_digest := map_option trim (gr_manifest_digest r),
     gr_hardening_receipt_sha256 := map_option trim (gr_hardening_receipt_sha256 r),
     gr_blocker := map_option normalise_registry_blocker (gr_blocker r),
     gr_blockers := map normalise_registry_blocker (gr_blockers r),
     gr_warnings := map normalise_registry_warning (gr_warnings r)\<rparr>"

text \<open>\<open>status_matches_artifacts\<close>\<close>

definition status_matches_artifacts :: "RegistryPreparationReceipt \<Rightarrow> (bool \<times> string) list" where
  "status_matches_artifacts r =
     (let digests = [gr_package_digest r, gr_manifest_digest r, gr_hardening_receipt_sha256 r] in
      if gr_status r = Prepared then
        (case gr_candidate r of
           None \<Rightarrow> [(True, ''prepared registry receipt requires candidate and bound digests'')]
         | Some c \<Rightarrow>
           [(None \<in> set digests, ''prepared registry receipt requires candidate and bound digests''),
            (gr_package_digest r \<noteq> gr_manifest_digest r, ''prepared registry package and manifest digests must match''),
            (gr_package_name r \<noteq> package_id c, ''prepared registry package name must match the candidate package_id''),
            (length (gr_package_name r) > REGISTRY_PACKAGE_NAME_MAX_LENGTH,
             ''prepared registry package name exceeds the registry limit''),
            (\<not> rx_fullmatch REGISTRY_VERSION_PATTERN (gr_version r),
             ''prepared registry version must be canonical Semantic Versioning''),
            (gr_blocker r \<noteq> None, ''prepared registry receipt cannot contain a blocker''),
            (gr_blockers r \<noteq> [], ''prepared registry receipt cannot contain blockers'')])
      else
        [(gr_blocker r = None, ''blocked registry receipt requires a blocker''),
         (gr_blockers r = [] \<or> Some (hd (gr_blockers r)) \<noteq> gr_blocker r,
          ''blocked registry receipt must retain its primary blocker first''),
         (\<exists>d \<in> set digests. d \<noteq> None, ''blocked registry receipt cannot claim prepared digests'')])"

definition check_preparation :: "RegistryPreparationReceipt \<Rightarrow> (bool \<times> string) list" where
  "check_preparation r =
     field ''receipt_id'' (is_identifier (gr_receipt_id r))
     @ opt_checks check_candidate (gr_candidate r)
     @ check_registry_identity (gr_registry r)
     @ check_package_name (gr_package_name r)
     @ check_version (gr_version r)
     @ field ''input_receipt_id'' (is_identifier (gr_input_receipt_id r))
     @ field ''package_digest'' (opt_ok is_sha256 (gr_package_digest r))
     @ field ''manifest_digest'' (opt_ok is_sha256 (gr_manifest_digest r))
     @ field ''hardening_receipt_sha256'' (opt_ok is_sha256 (gr_hardening_receipt_sha256 r))
     @ field ''evidence'' (gr_evidence r \<noteq> [])
     @ check_public_paths ''registry preparation evidence paths must be unique''
         ''registry receipt evidence must not contain credential-shaped values'' (gr_evidence r)
     @ opt_checks check_registry_blocker (gr_blocker r)
     @ each check_registry_blocker (gr_blockers r)
     @ each check_registry_warning (gr_warnings r)
     @ status_matches_artifacts r"

section \<open>Instances of the interface\<close>

lemma normalise_registry_blocker_idem [simp]:
  "normalise_registry_blocker (normalise_registry_blocker b) = normalise_registry_blocker b"
  by (simp add: normalise_registry_blocker_def map_option_idem)

lemma normalise_registry_warning_idem [simp]:
  "normalise_registry_warning (normalise_registry_warning w) = normalise_registry_warning w"
  by (simp add: normalise_registry_warning_def)

interpretation request_model: contract_model normalise_request check_request
  by unfold_locales (simp add: normalise_request_def)

interpretation registry_blocker_model: contract_model normalise_registry_blocker check_registry_blocker
  by unfold_locales simp

interpretation registry_warning_model: contract_model normalise_registry_warning check_registry_warning
  by unfold_locales simp

interpretation preparation_model: contract_model normalise_preparation check_preparation
  by unfold_locales (simp add: normalise_preparation_def map_option_idem)

section \<open>Stripping does not hide a credential\<close>

lemma trim_decompose: "\<exists>a b. s = a @ trim s @ b \<and> (\<forall>c \<in> set a. unicode_space c) \<and> (\<forall>c \<in> set b. unicode_space c)"
proof -
  define d where "d = dropWhile unicode_space s"
  have "s = takeWhile unicode_space s @ d" by (simp add: d_def)
  moreover have "d = rev (dropWhile unicode_space (rev d)) @ rev (takeWhile unicode_space (rev d))"
    by (metis rev_append rev_rev_ident takeWhile_dropWhile_id)
  moreover have "trim s = rev (dropWhile unicode_space (rev d))" by (simp add: trim_def strip_with_def d_def)
  ultimately show ?thesis
    by (intro exI [of _ "takeWhile unicode_space s"] exI [of _ "rev (takeWhile unicode_space (rev d))"])
      (auto dest: set_takeWhileD)
qed

lemma matches_lit_ci: "matches (lit_ci p) s \<longleftrightarrow> lower s = lower p"
  by (induction p arbitrary: s rule: lit_ci.induct)
    (auto simp: matches_Seq_Cls chr_ci_def lower_def map_eq_Cons_conv)

lemma matches_alts: "matches (alts rs) s \<longleftrightarrow> (\<exists>r \<in> set rs. matches r s)"
  by (induction rs rule: alts.induct) auto

lemma space_char: "unicode_space c \<Longrightarrow> \<not> is_alnum c \<and> c \<notin> set ''_-'' \<and> lower_char c = c"
  by (auto simp: unicode_space_def char_class_defs lower_char_def code_def Let_def)

lemma credential_prefix_chars:
  assumes "matches credential_prefix_rx v"
  shows "v \<noteq> []" and "\<forall>c \<in> set v. \<not> unicode_space c"
proof -
  obtain p where p: "p \<in> set CREDENTIAL_PREFIXES" "lower v = lower p"
    using assms by (auto simp: credential_prefix_rx_def matches_alts matches_lit_ci)
  then show "v \<noteq> []" by (auto simp: CREDENTIAL_PREFIXES_def lower_def)
  have "list_all (\<lambda>p. list_all (\<lambda>c. \<not> unicode_space c) (lower p)) CREDENTIAL_PREFIXES" by code_simp
  then have "\<forall>c \<in> set (lower v). \<not> unicode_space c" using p by (simp add: list_all_iff)
  then show "\<forall>c \<in> set v. \<not> unicode_space c" using space_char by (force simp: lower_def)
qed

lemma prefix_of_longer: "a @ t = u @ r \<Longrightarrow> length a \<le> length u \<Longrightarrow> \<exists>u'. u = a @ u' \<and> t = u' @ r"
  by (induction a arbitrary: u) (auto simp: Cons_eq_append_conv)

lemma suffix_of_longer: "t @ b = x @ w \<Longrightarrow> length b \<le> length w \<Longrightarrow> \<exists>w'. w = w' @ b \<and> t = x @ w'"
  by (induction x arbitrary: t) (auto simp: append_eq_Cons_conv append_eq_append_conv2)

lemma inside_spaces:
  assumes eq: "a @ t @ b = u @ v @ w" and spaces: "\<forall>c \<in> set a. sp c" "\<forall>c \<in> set b. sp c"
    and v: "v \<noteq> []" "\<forall>c \<in> set v. \<not> sp c"
  obtains u' w' where "u = a @ u'" "t = u' @ v @ w'"
proof -
  have "length a \<le> length u"
  proof (rule ccontr)
    assume "\<not> length a \<le> length u"
    then have "(a @ t @ b) ! length u \<in> set a" by (simp add: nth_append)
    then have "(u @ v @ w) ! length u \<in> set a" by (simp only: eq)
    moreover have "(u @ v @ w) ! length u \<in> set v" using v(1) by (simp add: nth_append)
    ultimately show False using spaces(1) v(2) by blast
  qed
  then obtain u' where u': "u = a @ u'" "t @ b = u' @ v @ w"
    using prefix_of_longer [OF eq] by blast
  have "length b \<le> length w"
  proof (rule ccontr)
    assume short: "\<not> length b \<le> length w"
    have "rev b @ rev t = rev w @ rev v @ rev u'" using arg_cong [OF u'(2), of rev] by simp
    then have "(rev w @ rev v @ rev u') ! length w \<in> set b"
      using short arg_cong [of _ _ "\<lambda>l. l ! length w"] by (metis length_rev not_le nth_append nth_mem set_rev)
    moreover have "(rev w @ rev v @ rev u') ! length w \<in> set v"
      using v(1) by (metis length_rev length_greater_0_conv nth_append nth_append_length_plus add_0_right nth_mem set_rev)
    ultimately show False using spaces(2) v(2) by blast
  qed
  then obtain w' where "w = w' @ b" "t = u' @ v @ w'"
    using suffix_of_longer [of t b "u' @ v" w] u'(2) by auto
  with u' show thesis using that by blast
qed

lemma redaction_safe_trim: "registry_evidence_is_redaction_safe (trim s) = registry_evidence_is_redaction_safe s"
proof -
  obtain a b where s: "s = a @ trim s @ b" "\<forall>c \<in> set a. unicode_space c" "\<forall>c \<in> set b. unicode_space c"
    using trim_decompose by blast
  let ?r = "credential_prefix_rx" and ?sep = "\<lambda>c. \<not> is_alnum c"
  have "after_boundary ?sep ?r (trim s)" if "after_boundary ?sep ?r s"
  proof -
    from that obtain u v w where m: "s = u @ v @ w" "matches ?r v" "u = [] \<or> ?sep (last u)"
      by (auto simp: after_boundary_iff)
    have "a @ trim s @ b = u @ v @ w" using s(1) m(1) by simp
    then obtain u' w' where "u = a @ u'" "trim s = u' @ v @ w'"
      using inside_spaces [OF _ s(2,3) credential_prefix_chars [OF m(2)]] by blast
    moreover from this have "u' = [] \<or> ?sep (last u')" using m(3) by auto
    ultimately show ?thesis using m(2) unfolding after_boundary_iff by blast
  qed
  moreover have "after_boundary ?sep ?r s" if "after_boundary ?sep ?r (trim s)"
  proof -
    from that obtain u v w where m: "trim s = u @ v @ w" "matches ?r v" "u = [] \<or> ?sep (last u)"
      by (auto simp: after_boundary_iff)
    have "s = (a @ u) @ v @ (w @ b)" using s(1) m(1) by (metis append.assoc)
    moreover have "a @ u = [] \<or> ?sep (last (a @ u))"
      using m(3) s(2) space_char by (cases "u = []"; cases "a = []") auto
    ultimately show ?thesis using m(2) unfolding after_boundary_iff by blast
  qed
  ultimately show ?thesis by (auto simp: registry_evidence_is_redaction_safe_def)
qed

section \<open>Scanning for credentials\<close>

text \<open>
  The search as a scan: at every position that starts the text or follows a separator, no
  credential prefix may start. It evaluates faster than the regular expression.
\<close>

fun starts_ci :: "string \<Rightarrow> string \<Rightarrow> bool" where
  "starts_ci [] s = True"
| "starts_ci (p # ps) [] = False"
| "starts_ci (p # ps) (c # s) = (lower_char c = lower_char p \<and> starts_ci ps s)"

fun credential_scan :: "bool \<Rightarrow> string \<Rightarrow> bool" where
  "credential_scan b [] = False"
| "credential_scan b (c # s) =
     ((b \<and> list_ex (\<lambda>p. starts_ci p (c # s)) CREDENTIAL_PREFIXES) \<or> credential_scan (\<not> is_alnum c) s)"

lemma starts_ci_iff: "starts_ci p s \<longleftrightarrow> (\<exists>v w. s = v @ w \<and> lower v = lower p)"
proof (induction p s rule: starts_ci.induct)
  case (3 p ps c s)
  have "(\<exists>v w. c # s = v @ w \<and> lower v = lower (p # ps)) \<longleftrightarrow>
      lower_char c = lower_char p \<and> (\<exists>v w. s = v @ w \<and> lower v = lower ps)"
    by (auto simp: lower_def map_eq_Cons_conv Cons_eq_append_conv)
  with 3 show ?case by simp
qed (auto simp: lower_def)

lemma starts_credential_iff:
  "list_ex (\<lambda>p. starts_ci p s) CREDENTIAL_PREFIXES \<longleftrightarrow> (\<exists>v w. s = v @ w \<and> matches credential_prefix_rx v)"
  by (auto simp: list_ex_iff starts_ci_iff credential_prefix_rx_def matches_alts matches_lit_ci)

lemma credential_scan_iff:
  "credential_scan b s \<longleftrightarrow>
     (\<exists>u v w. s = u @ v @ w \<and> matches credential_prefix_rx v \<and> (if u = [] then b else \<not> is_alnum (last u)))"
proof (induction s arbitrary: b)
  case Nil
  then show ?case using credential_prefix_chars(1) by auto
next
  case (Cons c s)
  let ?at = "\<lambda>b s. \<exists>u v w. s = u @ v @ w \<and> matches credential_prefix_rx v \<and> (if u = [] then b else \<not> is_alnum (last u))"
  have "?at b (c # s) \<longleftrightarrow> (b \<and> (\<exists>v w. c # s = v @ w \<and> matches credential_prefix_rx v)) \<or> ?at (\<not> is_alnum c) s"
  proof (rule iffI)
    assume "?at b (c # s)"
    then obtain u v w where m: "c # s = u @ v @ w" "matches credential_prefix_rx v"
      "if u = [] then b else \<not> is_alnum (last u)" by blast
    show "(b \<and> (\<exists>v w. c # s = v @ w \<and> matches credential_prefix_rx v)) \<or> ?at (\<not> is_alnum c) s"
    proof (cases u)
      case (Cons d u')
      with m have "s = u' @ v @ w" "if u' = [] then \<not> is_alnum c else \<not> is_alnum (last u')" by auto
      with m(2) show ?thesis by blast
    qed (use m in auto)
  next
    assume "(b \<and> (\<exists>v w. c # s = v @ w \<and> matches credential_prefix_rx v)) \<or> ?at (\<not> is_alnum c) s"
    then show "?at b (c # s)"
    proof
      assume "?at (\<not> is_alnum c) s"
      then obtain u v w where "s = u @ v @ w" "matches credential_prefix_rx v"
        "if u = [] then \<not> is_alnum c else \<not> is_alnum (last u)" by blast
      then have "c # s = (c # u) @ v @ w" "if c # u = [] then b else \<not> is_alnum (last (c # u))" by auto
      with \<open>matches credential_prefix_rx v\<close> show ?thesis by blast
    qed (metis append_Nil)
  qed
  then show ?case by (simp add: Cons starts_credential_iff)
qed

lemma redaction_safe_scan [code]: "registry_evidence_is_redaction_safe v = (\<not> credential_scan True v)"
proof -
  have bol: "(if u = [] then True else \<not> is_alnum (last u)) \<longleftrightarrow> u = [] \<or> \<not> is_alnum (last u)" for u by simp
  show ?thesis by (simp only: registry_evidence_is_redaction_safe_def after_boundary_iff credential_scan_iff bol)
qed

end
