(* ===== verification/Lifecycle.thy ===== *)
theory Lifecycle
  imports Registry
begin

text \<open>
  \<^verbatim>\<open>models/lifecycle.py\<close>: what public lifecycle text may contain, the runtime lock with its entries,
  and the install plan whose identifier binds everything it says. The lemmas: a lock maps each
  key to at most one entry, and a valid plan's identifier determines its identity payload.
\<close>

section \<open>Public text\<close>

definition word_char :: "char \<Rightarrow> bool" where
  "word_char c = (is_alnum c \<or> c = CHR ''_'')"

definition lower_or_upper :: "char \<Rightarrow> bool" where
  "lower_or_upper c = (is_lower c \<or> is_upper c)"

definition opt_sep :: rx where "opt_sep = opt (one_of ''_-'')"

text \<open>The alternatives of \<open>_CREDENTIAL_PATTERN\<close> after its boundary, under \<^verbatim>\<open>re.IGNORECASE | re.ASCII\<close>.\<close>

definition private_key_header_rx :: rx where
  "private_key_header_rx =
     seqs [lit_ci ''-----begin'', opt (Seq (chr (CHR '' '')) (plus (Cls is_alnum))), lit_ci '' private key-----'']"

definition jwt_rx :: rx where
  "jwt_rx =
     (let part = plus (Cls (\<lambda>c. word_char c \<or> c = CHR ''-'')) in
      seqs [lit_ci ''eyj'', part, chr (CHR ''.''), part, chr (CHR ''.''), part])"

definition client_secret_rx :: rx where
  "client_secret_rx =
     seqs [alts [lit_ci ''client'', lit_ci ''access''], opt_sep,
           alts [lit_ci ''secret'', lit_ci ''token'', Seq (lit_ci ''key'') (opt (Seq opt_sep (lit_ci ''id'')))]]"

definition secret_assignment_rx :: rx where
  "secret_assignment_rx = seqs
     [alts [seqs [opt (lit_ci ''ssh_''), lit_ci ''private'', opt_sep, lit_ci ''key''],
            seqs [lit_ci ''api'', opt_sep, lit_ci ''key''],
            lit_ci ''credential'', lit_ci ''password'', lit_ci ''secret'', lit_ci ''token''],
      Star (Seq (one_of ''_-'') (plus (Cls is_alnum))),
      opt (Cls (\<lambda>c. c = CHR 0x22 \<or> c = CHR 0x27)), Star (Cls py_space), one_of '':='']"

definition lifecycle_credential_rx :: rx where
  "lifecycle_credential_rx =
     alts (map lit_ci CREDENTIAL_PREFIXES @ [private_key_header_rx, jwt_rx, client_secret_rx, secret_assignment_rx])"

definition has_credential :: "string \<Rightarrow> bool" where
  "has_credential value = after_boundary (\<lambda>c. \<not> is_alnum c) lifecycle_credential_rx value"

text \<open>The alternatives of \<open>_MACHINE_PATH_PATTERN\<close>, in order.\<close>

definition path_char :: "char \<Rightarrow> bool" where
  "path_char c = (is_alnum c \<or> c \<in> set ''._-'')"

definition host_directory_rx :: rx where
  "host_directory_rx = alts
     [lit_ci ''users'', lit_ci ''home'', lit_ci ''private'', lit_ci ''tmp'', lit_ci ''workspace'',
      lit_ci ''var/folders'', lit_ci ''root'']"

definition start_of :: "(char \<Rightarrow> bool) \<Rightarrow> rx" where
  "start_of sep = Alt One (Seq any_text (Cls sep))"

definition has_machine_path :: "string \<Rightarrow> bool" where
  "has_machine_path value =
     (rx_search (Seq (lit_ci ''file:'') (plus (chr (CHR ''/'')))) value
      \<or> after_boundary (\<lambda>c. \<not> is_alnum c)
          (seqs [chr (CHR ''$''), Cls (\<lambda>c. lower_or_upper c \<or> c = CHR ''_''), Star (Cls word_char), chr (CHR ''/'')]) value
      \<or> rx_search (Seq (plus (Seq (plus (Cls path_char)) (chr (CHR 0x5C)))) (plus (Cls path_char))) value
      \<or> after_boundary (\<lambda>c. \<not> is_alnum c) (chr (CHR 0x5C)) value
      \<or> rx_fullmatch (seqs [start_of (\<lambda>c. \<not> is_alnum c \<and> c \<noteq> CHR ''/''), chr (CHR ''/''),
          Alt One (Seq (Cls (\<lambda>c. c \<noteq> CHR ''/'')) any_text)]) value
      \<or> after_boundary (\<lambda>c. \<not> is_alnum c \<and> c \<noteq> CHR ''/'')
          (seqs [chr (CHR ''/''), host_directory_rx, chr (CHR ''/'')]) value
      \<or> after_boundary (\<lambda>c. \<not> is_alnum c \<and> c \<notin> set ''.:/'')
          (seqs [plus (Seq (plus (Cls path_char)) (chr (CHR ''/''))), host_directory_rx, chr (CHR ''/'')]) value
      \<or> after_boundary (\<lambda>c. \<not> is_alnum c) (Seq (Cls lower_or_upper) (chr (CHR '':''))) value)"

definition lifecycle_text_is_public_safe :: "string \<Rightarrow> bool" where
  "lifecycle_text_is_public_safe value = (\<not> has_credential value \<and> \<not> has_machine_path value)"

text \<open>
  Most public texts are of word characters, dots and dashes, and no position in them starts a
  credential shape: such a text is safe, whatever its word boundaries.
\<close>

definition CREDENTIAL_STARTS :: "string list" where
  "CREDENTIAL_STARTS = CREDENTIAL_PREFIXES @ [''-----begin'', ''eyj'', ''client'', ''access'']"

fun starts_within :: "string \<Rightarrow> bool" where
  "starts_within [] = False"
| "starts_within (c # s) = (list_ex (\<lambda>p. starts_ci p (c # s)) CREDENTIAL_STARTS \<or> starts_within s)"

definition plain_public :: "string \<Rightarrow> bool" where
  "plain_public s = (list_all path_char s \<and> \<not> starts_within s)"

lemma starts_within_suffix: "p \<in> set CREDENTIAL_STARTS \<Longrightarrow> starts_ci p (v @ w) \<Longrightarrow> v \<noteq> [] \<Longrightarrow> starts_within (u @ v @ w)"
proof (induction u)
  case Nil
  then show ?case by (cases v) (auto simp: list_ex_iff)
qed simp

lemma starts_ci_matches: "matches (lit_ci p) v \<Longrightarrow> starts_ci p (v @ w)"
  by (auto simp: matches_lit_ci starts_ci_iff)

lemma plain_char: "\<not> path_char (CHR ''/'')" "\<not> path_char (CHR '':'')" "\<not> path_char (CHR ''$'')"
    "\<not> path_char (CHR 0x5C)" "\<not> path_char (CHR ''='')"
  by (simp_all add: path_char_def char_class_defs code_def)

lemma no_machine_path:
  assumes "list_all path_char s"
  shows "\<not> has_machine_path s"
proof -
  have s: "\<forall>c \<in> set s. \<not> c \<in> {CHR ''/'', CHR '':'', CHR ''$'', CHR 0x5C}"
    using assms plain_char by (auto simp: list_all_iff)
  have forced: "forces (\<lambda>c. c \<in> {CHR ''/'', CHR '':'', CHR ''$'', CHR 0x5C}) r \<Longrightarrow>
      \<not> rx_search r s \<and> \<not> after_boundary sep r s \<and> \<not> rx_fullmatch r s" for r sep
    using forces_search [OF _ s] by blast
  show ?thesis
    unfolding has_machine_path_def de_Morgan_disj
    by (intro conjI; rule forced [THEN conjunct1] forced [THEN conjunct2, THEN conjunct1] forced [THEN conjunct2, THEN conjunct2])
      (simp_all add: plus_def chr_def)
qed

lemma starts_found:
  assumes "p \<in> set CREDENTIAL_STARTS" "matches (lit_ci p) a"
  shows "starts_within (u @ (a @ b) @ w)"
proof -
  have "lower a \<noteq> []" using assms by (auto simp: matches_lit_ci CREDENTIAL_STARTS_def CREDENTIAL_PREFIXES_def lower_def)
  then have "a \<noteq> []" by (auto simp: lower_def)
  with starts_within_suffix [OF assms(1) starts_ci_matches [OF assms(2)]] show ?thesis by simp
qed

lemma no_credential:
  assumes "plain_public s"
  shows "\<not> has_credential s"
proof
  assume "has_credential s"
  then obtain u v w r where s: "s = u @ v @ w" and r: "matches r v"
    "r \<in> set (map lit_ci CREDENTIAL_PREFIXES @ [private_key_header_rx, jwt_rx, client_secret_rx, secret_assignment_rx])"
    unfolding has_credential_def after_boundary_iff lifecycle_credential_rx_def matches_alts by blast
  have starts: "set CREDENTIAL_PREFIXES \<subseteq> set CREDENTIAL_STARTS" "''-----begin'' \<in> set CREDENTIAL_STARTS"
    "''eyj'' \<in> set CREDENTIAL_STARTS" "''client'' \<in> set CREDENTIAL_STARTS" "''access'' \<in> set CREDENTIAL_STARTS"
    by (auto simp: CREDENTIAL_STARTS_def)
  have found: "p \<in> set CREDENTIAL_STARTS \<Longrightarrow> v = a @ b \<Longrightarrow> \<not> matches (lit_ci p) a" for p a b
    using starts_found [of p a u b w] assms by (auto simp: plain_public_def s)
  have forced: "\<not> matches secret_assignment_rx v"
  proof
    assume "matches secret_assignment_rx v"
    moreover have "forces (\<lambda>c. c \<in> {CHR '':'', CHR ''=''}) secret_assignment_rx"
      by (simp add: secret_assignment_rx_def one_of_def)
    ultimately obtain c where "c \<in> set v" "c \<in> {CHR '':'', CHR ''=''}" using forces_char by blast
    then show False using assms plain_char by (auto simp: plain_public_def list_all_iff s)
  qed
  have "\<not> matches private_key_header_rx v" "\<not> matches jwt_rx v" "\<not> matches client_secret_rx v"
    using found starts
    by (auto simp: private_key_header_rx_def jwt_rx_def client_secret_rx_def Let_def matches_Seq simp del: lit_ci.simps)
  moreover have "p \<in> set CREDENTIAL_PREFIXES \<Longrightarrow> \<not> matches (lit_ci p) v" for p
    using found [of p v "[]"] starts(1) by auto
  ultimately show False using r forced by auto
qed

lemma public_safe_code [code]:
  "lifecycle_text_is_public_safe value = (plain_public value \<or> \<not> has_credential value \<and> \<not> has_machine_path value)"
  using no_credential no_machine_path by (auto simp: lifecycle_text_is_public_safe_def plain_public_def)

definition require_public_text :: "string \<Rightarrow> string \<Rightarrow> (bool \<times> string) list" where
  "require_public_text value what =
     [(\<not> lifecycle_text_is_public_safe value, what @ '' must not contain credential-shaped or machine-path values'')]"

definition require_public_portable_text :: "string \<Rightarrow> string \<Rightarrow> (bool \<times> string) list" where
  "require_public_portable_text value what =
     (\<not> portable value, ''invalid_portable_path'') # require_public_text value what"

definition lifecycle_plan_id :: "json \<Rightarrow> string" where
  "lifecycle_plan_id payload = ''install-plan-'' @ take 24 (canonical_json_sha256 payload)"

section \<open>Target, files, lock entries\<close>

datatype RuntimeScope = UserScope | ProjectScope

fun scope_name :: "RuntimeScope \<Rightarrow> string" where
  "scope_name UserScope = ''user''" | "scope_name ProjectScope = ''project''"

record RuntimeTarget =
  rt_scope :: RuntimeScope
  rt_target_id :: string

definition normalise_target :: "RuntimeTarget \<Rightarrow> RuntimeTarget" where
  "normalise_target t = t\<lparr>rt_target_id := trim (rt_target_id t)\<rparr>"

definition check_target :: "RuntimeTarget \<Rightarrow> (bool \<times> string) list" where
  "check_target t =
     field ''target_id'' (is_identifier (rt_target_id t))
     @ require_public_text (rt_target_id t) ''runtime target identity''"

definition target_json :: "RuntimeTarget \<Rightarrow> json" where
  "target_json t = JObj [(''scope'', JStr (scope_name (rt_scope t))), (''target_id'', JStr (rt_target_id t))]"

record RuntimeFile =
  rf_path :: string
  rf_sha256 :: string

definition normalise_runtime_file :: "RuntimeFile \<Rightarrow> RuntimeFile" where
  "normalise_runtime_file f = f\<lparr>rf_sha256 := trim (rf_sha256 f)\<rparr>"

definition check_runtime_file :: "RuntimeFile \<Rightarrow> (bool \<times> string) list" where
  "check_runtime_file f =
     require_public_portable_text (rf_path f) ''runtime file path'' @ field ''sha256'' (is_sha256 (rf_sha256 f))"

definition runtime_file_json :: "RuntimeFile \<Rightarrow> json" where
  "runtime_file_json f = JObj [(''path'', JStr (rf_path f)), (''sha256'', JStr (rf_sha256 f))]"

record RuntimeLockEntry =
  le_package_name :: string
  le_version :: string
  le_candidate :: PackageCandidateIdentity
  le_package_digest :: string
  le_registry :: RegistryIdentity
  le_package_receipt_id :: string
  le_registry_preparation_receipt_id :: string
  le_target :: RuntimeTarget
  le_files :: "RuntimeFile list"

definition normalise_entry :: "RuntimeLockEntry \<Rightarrow> RuntimeLockEntry" where
  "normalise_entry e = e\<lparr>
     le_package_name := trim (le_package_name e), le_version := trim (le_version e),
     le_candidate := normalise_candidate (le_candidate e), le_package_digest := trim (le_package_digest e),
     le_package_receipt_id := trim (le_package_receipt_id e),
     le_registry_preparation_receipt_id := trim (le_registry_preparation_receipt_id e),
     le_target := normalise_target (le_target e), le_files := map normalise_runtime_file (le_files e)\<rparr>"

definition runtime_digest_files :: "RuntimeFile list \<Rightarrow> (string \<times> string) list" where
  "runtime_digest_files fs = map (\<lambda>f. (rf_path f, rf_sha256 f)) fs"

definition check_entry_identity :: "RuntimeLockEntry \<Rightarrow> (bool \<times> string) list" where
  "check_entry_identity e =
     [(le_package_name e \<noteq> package_id (le_candidate e), ''runtime lock package name must match candidate package_id''),
      (has_duplicates (map rf_path (le_files e)), ''runtime lock file paths must be unique''),
      (candidate_content_sha256 (runtime_digest_files (le_files e)) \<noteq> content_sha256 (le_candidate e),
       ''runtime lock candidate digest must match runtime files'')]"

definition check_lock_entry :: "RuntimeLockEntry \<Rightarrow> (bool \<times> string) list" where
  "check_lock_entry e =
     field ''package_name'' (is_identifier (le_package_name e))
     @ require_public_text (le_package_name e) ''runtime package identity''
     @ field ''version'' (nonempty_text (le_version e))
     @ require_public_text (le_version e) ''runtime package identity''
     @ check_candidate (le_candidate e)
     @ field ''package_digest'' (is_sha256 (le_package_digest e))
     @ check_registry_identity (le_registry e)
     @ field ''package_receipt_id'' (is_identifier (le_package_receipt_id e))
     @ require_public_text (le_package_receipt_id e) ''runtime receipt identity''
     @ field ''registry_preparation_receipt_id'' (is_identifier (le_registry_preparation_receipt_id e))
     @ require_public_text (le_registry_preparation_receipt_id e) ''runtime receipt identity''
     @ check_target (le_target e)
     @ field ''files'' (le_files e \<noteq> []) @ each check_runtime_file (le_files e)
     @ check_entry_identity e"

definition entry_json :: "RuntimeLockEntry \<Rightarrow> json" where
  "entry_json e =
     JObj [(''package_name'', JStr (le_package_name e)), (''version'', JStr (le_version e)),
           (''candidate'', candidate_json (le_candidate e)), (''package_digest'', JStr (le_package_digest e)),
           (''registry'', registry_identity_json (le_registry e)),
           (''package_receipt_id'', JStr (le_package_receipt_id e)),
           (''registry_preparation_receipt_id'', JStr (le_registry_preparation_receipt_id e)),
           (''target'', target_json (le_target e)), (''files'', arr runtime_file_json (le_files e))]"

type_synonym lock_key = "RuntimeScope \<times> string \<times> string"

definition entry_key :: "RuntimeLockEntry \<Rightarrow> lock_key" where
  "entry_key e = (rt_scope (le_target e), rt_target_id (le_target e), le_package_name e)"

text \<open>\<open>RuntimeLock\<close> holds its entries only; its schema version is a constant.\<close>

type_synonym RuntimeLock = "RuntimeLockEntry list"

definition normalise_lock :: "RuntimeLock \<Rightarrow> RuntimeLock" where
  "normalise_lock l = map normalise_entry l"

definition check_lock :: "RuntimeLock \<Rightarrow> (bool \<times> string) list" where
  "check_lock l =
     each check_lock_entry l
     @ [(has_duplicates (map entry_key l), ''runtime lock entries must be unique by target and package'')]"

definition lock_json :: "RuntimeLock \<Rightarrow> json" where
  "lock_json l = JObj [(''schema_version'', JStr ''runtime-lock/v1''), (''entries'', arr entry_json l)]"

section \<open>Install plan\<close>

datatype PlanStatus = Planned | PlanBlocked

datatype PlanOperation = OpInstall | OpUpdate | OpNoChange

fun operation_name :: "PlanOperation \<Rightarrow> string" where
  "operation_name OpInstall = ''install''"
| "operation_name OpUpdate = ''update''"
| "operation_name OpNoChange = ''no_change''"

fun plan_status_name :: "PlanStatus \<Rightarrow> string" where
  "plan_status_name Planned = ''planned''" | "plan_status_name PlanBlocked = ''blocked''"

record InstallPlan =
  ip_plan_id :: string
  ip_candidate :: "PackageCandidateIdentity option"
  ip_package_name :: string
  ip_version :: string
  ip_package_digest :: "string option"
  ip_package_receipt_id :: string
  ip_status :: PlanStatus
  ip_operation :: "PlanOperation option"
  ip_target :: RuntimeTarget
  ip_registry :: RegistryIdentity
  ip_registry_preparation_receipt_id :: string
  ip_registry_input_receipt_id :: string
  ip_current_lock_sha256 :: string
  ip_rollback_lock_sha256 :: string
  ip_proposed_lock_sha256 :: "string option"
  ip_proposed_entry :: "RuntimeLockEntry option"
  ip_evidence :: "string list"
  ip_blocker :: "RegistryPreparationBlocker option"

definition normalise_plan :: "InstallPlan \<Rightarrow> InstallPlan" where
  "normalise_plan p = p\<lparr>
     ip_plan_id := trim (ip_plan_id p), ip_candidate := map_option normalise_candidate (ip_candidate p),
     ip_package_name := trim (ip_package_name p), ip_version := trim (ip_version p),
     ip_package_digest := map_option trim (ip_package_digest p),
     ip_package_receipt_id := trim (ip_package_receipt_id p), ip_target := normalise_target (ip_target p),
     ip_registry_preparation_receipt_id := trim (ip_registry_preparation_receipt_id p),
     ip_registry_input_receipt_id := trim (ip_registry_input_receipt_id p),
     ip_current_lock_sha256 := trim (ip_current_lock_sha256 p),
     ip_rollback_lock_sha256 := trim (ip_rollback_lock_sha256 p),
     ip_proposed_lock_sha256 := map_option trim (ip_proposed_lock_sha256 p),
     ip_proposed_entry := map_option normalise_entry (ip_proposed_entry p),
     ip_blocker := map_option normalise_registry_blocker (ip_blocker p)\<rparr>"

text \<open>\<open>_identity_payload\<close>\<close>

definition identity_payload :: "InstallPlan \<Rightarrow> json" where
  "identity_payload p =
     JObj ([(''candidate'', opt_json candidate_json (ip_candidate p)), (''package_name'', JStr (ip_package_name p)),
            (''version'', JStr (ip_version p)), (''package_digest'', opt_json JStr (ip_package_digest p)),
            (''package_receipt_id'', JStr (ip_package_receipt_id p)),
            (''registry'', registry_identity_json (ip_registry p)),
            (''registry_preparation_receipt_id'', JStr (ip_registry_preparation_receipt_id p)),
            (''registry_input_receipt_id'', JStr (ip_registry_input_receipt_id p)),
            (''current_lock_sha256'', JStr (ip_current_lock_sha256 p)),
            (''rollback_lock_sha256'', JStr (ip_rollback_lock_sha256 p)),
            (''target'', target_json (ip_target p)), (''status'', JStr (plan_status_name (ip_status p))),
            (''evidence'', strs (ip_evidence p))]
           @ (if ip_status p = Planned
              then [(''operation'', opt_json (\<lambda>v. JStr (operation_name v)) (ip_operation p)),
                    (''proposed_lock_sha256'', opt_json JStr (ip_proposed_lock_sha256 p)),
                    (''proposed_entry'', opt_json entry_json (ip_proposed_entry p))]
              else [(''blocker'', opt_json registry_blocker_json (ip_blocker p))]))"

text \<open>\<open>_validate_planned_state\<close>\<close>

definition validate_planned_state :: "InstallPlan \<Rightarrow> (bool \<times> string) list" where
  "validate_planned_state p =
     (case (ip_candidate p, ip_package_digest p) of
        (Some c, Some d) \<Rightarrow>
          (case (ip_operation p, ip_proposed_lock_sha256 p, ip_proposed_entry p) of
             (Some v, Some lock, Some e) \<Rightarrow>
               [(le_candidate e \<noteq> c \<or> le_target e \<noteq> ip_target p,
                 ''install plan and runtime entry must bind the same candidate and target''),
                (le_package_digest e \<noteq> d, ''install plan and runtime entry must bind the same package digest''),
                (le_package_name e \<noteq> ip_package_name p \<or> ip_package_name p \<noteq> package_id c,
                 ''install plan and runtime entry must bind the same package name''),
                (le_version e \<noteq> ip_version p, ''install plan and runtime entry must bind the same version''),
                (le_package_receipt_id e \<noteq> ip_package_receipt_id p,
                 ''install plan and runtime entry must bind the same package receipt''),
                (le_registry_preparation_receipt_id e \<noteq> ip_registry_preparation_receipt_id p,
                 ''install plan and runtime entry must bind the same registry preparation receipt''),
                (le_registry e \<noteq> ip_registry p, ''install plan and runtime entry must bind the same registry''),
                (ip_blocker p \<noteq> None, ''planned install cannot contain a blocker''),
                (v = OpNoChange \<and> ip_current_lock_sha256 p \<noteq> lock,
                 ''no-change install plan requires identical current and proposed lock identities''),
                (v \<in> {OpInstall, OpUpdate} \<and> ip_current_lock_sha256 p = lock,
                 ''install or update plan requires distinct current and proposed lock identities'')]
           | _ \<Rightarrow> [(True, ''planned install requires operation, proposed lock, and entry'')])
      | _ \<Rightarrow> [(True, ''planned install requires candidate and package digest'')])"

definition public_blocker :: "RegistryPreparationBlocker \<Rightarrow> bool" where
  "public_blocker b =
     (lifecycle_text_is_public_safe (gb_code b) \<and> lifecycle_text_is_public_safe (gb_message b)
      \<and> list_all lifecycle_text_is_public_safe (gb_evidence_refs b))"

text \<open>\<open>status_matches_transition\<close>\<close>

definition status_matches_transition :: "InstallPlan \<Rightarrow> (bool \<times> string) list" where
  "status_matches_transition p =
     (ip_rollback_lock_sha256 p \<noteq> ip_current_lock_sha256 p,
      ''install plan rollback identity must match the current lock'')
     # (if ip_status p = Planned then
          (ip_registry_input_receipt_id p \<noteq> ip_package_receipt_id p,
           ''planned install registry input must match the package receipt'')
          # validate_planned_state p
        else
          [(ip_operation p \<noteq> None \<or> ip_proposed_lock_sha256 p \<noteq> None \<or> ip_proposed_entry p \<noteq> None,
            ''blocked install plan cannot claim a proposed transition''),
           (ip_blocker p = None, ''blocked install plan requires a blocker''),
           (ip_candidate p \<noteq> None \<and> map_option package_id (ip_candidate p) \<noteq> Some (ip_package_name p),
            ''blocked install plan package name must match candidate package_id''),
           (\<not> opt_ok public_blocker (ip_blocker p),
            ''install plan blocker must not contain credential-shaped or machine-path values'')])
     @ [(ip_plan_id p \<noteq> lifecycle_plan_id (identity_payload p),
         ''install plan id must bind the complete emitted plan identity'')]"

definition check_plan :: "InstallPlan \<Rightarrow> (bool \<times> string) list" where
  "check_plan p =
     field ''plan_id'' (is_identifier (ip_plan_id p))
     @ opt_checks check_candidate (ip_candidate p)
     @ field ''package_name'' (is_identifier (ip_package_name p))
     @ require_public_text (ip_package_name p) ''install plan package identity''
     @ field ''version'' (nonempty_text (ip_version p))
     @ require_public_text (ip_version p) ''install plan package identity''
     @ field ''package_digest'' (opt_ok is_sha256 (ip_package_digest p))
     @ field ''package_receipt_id'' (is_identifier (ip_package_receipt_id p))
     @ require_public_text (ip_package_receipt_id p) ''install plan receipt identity''
     @ check_target (ip_target p)
     @ check_registry_identity (ip_registry p)
     @ field ''registry_preparation_receipt_id'' (is_identifier (ip_registry_preparation_receipt_id p))
     @ require_public_text (ip_registry_preparation_receipt_id p) ''install plan receipt identity''
     @ field ''registry_input_receipt_id'' (is_identifier (ip_registry_input_receipt_id p))
     @ require_public_text (ip_registry_input_receipt_id p) ''install plan receipt identity''
     @ field ''current_lock_sha256'' (is_sha256 (ip_current_lock_sha256 p))
     @ field ''rollback_lock_sha256'' (is_sha256 (ip_rollback_lock_sha256 p))
     @ field ''proposed_lock_sha256'' (opt_ok is_sha256 (ip_proposed_lock_sha256 p))
     @ opt_checks check_lock_entry (ip_proposed_entry p)
     @ field ''evidence'' (ip_evidence p \<noteq> [])
     @ [(has_duplicates (ip_evidence p), ''install plan evidence paths must be unique'')]
     @ each (\<lambda>v. require_public_portable_text v ''install plan evidence'') (ip_evidence p)
     @ opt_checks check_registry_blocker (ip_blocker p)
     @ status_matches_transition p"

section \<open>Instances of the interface\<close>

lemma normalise_target_idem [simp]: "normalise_target (normalise_target t) = normalise_target t"
  by (simp add: normalise_target_def)

lemma normalise_runtime_file_idem [simp]: "normalise_runtime_file (normalise_runtime_file f) = normalise_runtime_file f"
  by (simp add: normalise_runtime_file_def)

lemma normalise_entry_idem [simp]: "normalise_entry (normalise_entry e) = normalise_entry e"
  by (simp add: normalise_entry_def)

interpretation target_model: contract_model normalise_target check_target
  by unfold_locales simp

interpretation entry_model: contract_model normalise_entry check_lock_entry
  by unfold_locales simp

interpretation lock_model: contract_model normalise_lock check_lock
  by unfold_locales (simp add: normalise_lock_def)

interpretation plan_model: contract_model normalise_plan check_plan
  by unfold_locales (simp add: normalise_plan_def map_option_idem)

section \<open>The plan identity binds the plan\<close>

text \<open>Members of objects whose canonical texts agree.\<close>

fun lookup :: "json \<Rightarrow> string \<Rightarrow> json option" where
  "lookup (JObj kvs) k = map_of kvs k"
| "lookup _ k = None"

fun keys_ok :: "json \<Rightarrow> bool" where
  "keys_ok (JObj kvs) = distinct (map fst kvs)"
| "keys_ok _ = False"

lemma norm_lookup:
  assumes "norm v = norm w" "keys_ok v" "keys_ok w"
  shows "map_option norm (lookup v k) = map_option norm (lookup w k)"
proof -
  obtain a b where v: "v = JObj a" and w: "w = JObj b" using assms(2,3) by (cases v; cases w) auto
  let ?n = "map (\<lambda>(k, v). (k, norm v))"
  have "sort_items (?n a) = sort_items (?n b)" using assms(1) v w by simp
  then have eq: "set (?n a) = set (?n b)" by (metis set_sort_items)
  have keys: "map fst (?n xs) = map fst xs" for xs :: "(string \<times> json) list"
    by (induction xs) auto
  have "map_of (?n a) = map_of (?n b)"
    using assms(2,3) v w by (intro map_of_eq_distinct [OF eq]) (simp_all only: keys keys_ok.simps)
  moreover have "map_of (?n xs) k = map_option norm (map_of xs k)" for xs :: "(string \<times> json) list"
    by (induction xs) auto
  ultimately show ?thesis by (metis v w lookup.simps(1))
qed

lemma norm_strs [simp]: "norm (strs xs) = strs xs"
  by (simp add: strs_def map_idI)

lemma norm_candidate_inject: "norm (candidate_json c) = norm (candidate_json d) \<Longrightarrow> c = d"
  using norm_lookup [of "candidate_json c" "candidate_json d" "''package_id''"]
    norm_lookup [of "candidate_json c" "candidate_json d" "''source_revision''"]
    norm_lookup [of "candidate_json c" "candidate_json d" "''content_sha256''"]
  by (cases c; cases d) (simp add: candidate_json_def del: norm.simps(2))

lemma norm_snapshot_inject:
  assumes "norm (snapshot_payload s) = norm (snapshot_payload t)" "sr_binding_sha256 s = sr_binding_sha256 t"
  shows "s = t"
proof -
  have keys: "keys_ok (snapshot_payload s)" "keys_ok (snapshot_payload t)" by (simp_all add: snapshot_payload_def)
  note member = norm_lookup [OF assms(1) keys]
  have "sr_root_candidate s = sr_root_candidate t"
    using member [of "''root_candidate''"] by (auto simp: snapshot_payload_def intro: norm_candidate_inject)
  then show ?thesis
    using member [of "''locator''"] member [of "''source_id''"] member [of "''release_id''"] member [of "''version''"]
      member [of "''archive_sha256''"] member [of "''root_mode_manifest_sha256''"] assms(2)
    by (cases s; cases t) (simp add: snapshot_payload_def)
qed

lemma norm_registry_inject: "norm (registry_identity_json c) = norm (registry_identity_json d) \<Longrightarrow> c = d"
  using norm_lookup [of "registry_identity_json c" "registry_identity_json d" "''registry_id''"]
    norm_lookup [of "registry_identity_json c" "registry_identity_json d" "''namespace''"]
  by (cases c; cases d) (simp add: registry_identity_json_def del: norm.simps(2))

lemma scope_name_inject [simp]: "scope_name a = scope_name b \<longleftrightarrow> a = b"
  by (cases a; cases b) simp_all

lemma norm_target_inject: "norm (target_json c) = norm (target_json d) \<Longrightarrow> c = d"
  using norm_lookup [of "target_json c" "target_json d" "''scope''"]
    norm_lookup [of "target_json c" "target_json d" "''target_id''"]
  by (cases c; cases d) (simp add: target_json_def del: norm.simps(2))

lemma norm_runtime_file_inject: "norm (runtime_file_json c) = norm (runtime_file_json d) \<Longrightarrow> c = d"
  using norm_lookup [of "runtime_file_json c" "runtime_file_json d" "''path''"]
    norm_lookup [of "runtime_file_json c" "runtime_file_json d" "''sha256''"]
  by (cases c; cases d) (simp add: runtime_file_json_def del: norm.simps(2))

lemma norm_arr_inject:
  assumes "\<And>x y. norm (f x) = norm (f y) \<Longrightarrow> x = y" "norm (arr f xs) = norm (arr f ys)"
  shows "xs = ys"
proof -
  have "map (norm \<circ> f) xs = map (norm \<circ> f) ys" using assms(2) by (simp add: arr_def)
  moreover have "inj (norm \<circ> f)" using assms(1) by (auto simp: inj_def)
  ultimately show ?thesis by (simp only: inj_map_eq_map)
qed

lemma norm_opt_inject:
  assumes "\<And>x y. norm (f x) = norm (f y) \<Longrightarrow> x = y" "\<And>x. f x \<noteq> JNull" "\<And>x. norm (f x) \<noteq> JNull"
    "norm (opt_json f a) = norm (opt_json f b)"
  shows "a = b"
  using assms(3,4) assms(1) by (cases a; cases b) (auto, metis+)

lemma norm_files_inject: "norm (arr runtime_file_json xs) = norm (arr runtime_file_json ys) \<Longrightarrow> xs = ys"
  by (rule norm_arr_inject [OF norm_runtime_file_inject])

lemma norm_entry_inject:
  assumes "norm (entry_json c) = norm (entry_json d)"
  shows "c = d"
proof -
  have keys: "keys_ok (entry_json e)" for e by (simp add: entry_json_def)
  note member = norm_lookup [OF assms keys keys]
  have look: "lookup (entry_json e) ''package_name'' = Some (JStr (le_package_name e))"
    "lookup (entry_json e) ''version'' = Some (JStr (le_version e))"
    "lookup (entry_json e) ''candidate'' = Some (candidate_json (le_candidate e))"
    "lookup (entry_json e) ''package_digest'' = Some (JStr (le_package_digest e))"
    "lookup (entry_json e) ''registry'' = Some (registry_identity_json (le_registry e))"
    "lookup (entry_json e) ''package_receipt_id'' = Some (JStr (le_package_receipt_id e))"
    "lookup (entry_json e) ''registry_preparation_receipt_id'' = Some (JStr (le_registry_preparation_receipt_id e))"
    "lookup (entry_json e) ''target'' = Some (target_json (le_target e))"
    "lookup (entry_json e) ''files'' = Some (arr runtime_file_json (le_files e))" for e
    by (simp_all add: entry_json_def)
  have "le_package_name c = le_package_name d" using member [of "''package_name''"] by (simp add: look)
  moreover have "le_version c = le_version d" using member [of "''version''"] by (simp add: look)
  moreover have "le_candidate c = le_candidate d"
    using member [of "''candidate''"] by (auto simp only: look option.map option.inject intro: norm_candidate_inject)
  moreover have "le_package_digest c = le_package_digest d" using member [of "''package_digest''"] by (simp add: look)
  moreover have "le_registry c = le_registry d"
    using member [of "''registry''"] by (auto simp only: look option.map option.inject intro: norm_registry_inject)
  moreover have "le_package_receipt_id c = le_package_receipt_id d"
    using member [of "''package_receipt_id''"] by (simp add: look)
  moreover have "le_registry_preparation_receipt_id c = le_registry_preparation_receipt_id d"
    using member [of "''registry_preparation_receipt_id''"] by (simp add: look)
  moreover have "le_target c = le_target d"
    using member [of "''target''"] by (auto simp only: look option.map option.inject intro: norm_target_inject)
  moreover have "le_files c = le_files d"
    using member [of "''files''"] by (auto simp only: look option.map option.inject intro: norm_files_inject)
  ultimately show ?thesis by simp
qed

lemma norm_registry_blocker_inject:
  assumes "norm (registry_blocker_json c) = norm (registry_blocker_json d)"
  shows "c = d"
proof -
  have keys: "keys_ok (registry_blocker_json e)" for e by (simp add: registry_blocker_json_def)
  note member = norm_lookup [OF assms keys keys]
  have look: "lookup (registry_blocker_json e) ''code'' = Some (JStr (gb_code e))"
    "lookup (registry_blocker_json e) ''message'' = Some (JStr (gb_message e))"
    "lookup (registry_blocker_json e) ''evidence_refs'' = Some (strs (gb_evidence_refs e))"
    "lookup (registry_blocker_json e) ''source_evidence_sha256'' = Some (strs (gb_source_evidence_sha256 e))"
    "lookup (registry_blocker_json e) ''source_blocker_sha256'' = Some (opt_json JStr (gb_source_blocker_sha256 e))" for e
    by (simp_all add: registry_blocker_json_def)
  have "gb_code c = gb_code d" using member [of "''code''"] by (simp add: look)
  moreover have "gb_message c = gb_message d" using member [of "''message''"] by (simp add: look)
  moreover have "gb_evidence_refs c = gb_evidence_refs d" using member [of "''evidence_refs''"] by (simp add: look)
  moreover have "gb_source_evidence_sha256 c = gb_source_evidence_sha256 d"
    using member [of "''source_evidence_sha256''"] by (simp add: look)
  moreover have "gb_source_blocker_sha256 c = gb_source_blocker_sha256 d"
    using member [of "''source_blocker_sha256''"]
    by (cases "gb_source_blocker_sha256 c"; cases "gb_source_blocker_sha256 d") (simp_all add: look)
  ultimately show ?thesis by simp
qed

lemma not_null_json [simp]: "norm (candidate_json c) \<noteq> JNull" "norm (entry_json e) \<noteq> JNull" "norm (registry_blocker_json b) \<noteq> JNull"
  by (simp_all add: candidate_json_def entry_json_def registry_blocker_json_def)

lemma norm_opt_inject':
  assumes "\<And>x y. norm (f x) = norm (f y) \<Longrightarrow> x = y" "\<And>x. norm (f x) \<noteq> JNull" "norm (opt_json f a) = norm (opt_json f b)"
  shows "a = b"
  using assms(2,3) assms(1) by (cases a; cases b) (auto, metis+)

lemma identity_payload_lookup:
  shows "lookup (identity_payload e) ''candidate'' = Some (opt_json candidate_json (ip_candidate e))"
    and "lookup (identity_payload e) ''package_name'' = Some (JStr (ip_package_name e))"
    and "lookup (identity_payload e) ''version'' = Some (JStr (ip_version e))"
    and "lookup (identity_payload e) ''package_receipt_id'' = Some (JStr (ip_package_receipt_id e))"
    and "lookup (identity_payload e) ''registry_preparation_receipt_id'' = Some (JStr (ip_registry_preparation_receipt_id e))"
    and "lookup (identity_payload e) ''registry_input_receipt_id'' = Some (JStr (ip_registry_input_receipt_id e))"
    and "lookup (identity_payload e) ''current_lock_sha256'' = Some (JStr (ip_current_lock_sha256 e))"
    and "lookup (identity_payload e) ''rollback_lock_sha256'' = Some (JStr (ip_rollback_lock_sha256 e))"
    and "lookup (identity_payload e) ''package_digest'' = Some (opt_json JStr (ip_package_digest e))"
    and "lookup (identity_payload e) ''registry'' = Some (registry_identity_json (ip_registry e))"
    and "lookup (identity_payload e) ''target'' = Some (target_json (ip_target e))"
    and "lookup (identity_payload e) ''status'' = Some (JStr (plan_status_name (ip_status e)))"
    and "lookup (identity_payload e) ''evidence'' = Some (strs (ip_evidence e))"
  by (simp_all add: identity_payload_def)

lemma planned_payload_lookup:
  assumes "ip_status e = Planned"
  shows "lookup (identity_payload e) ''operation'' = Some (opt_json (\<lambda>v. JStr (operation_name v)) (ip_operation e))"
    and "lookup (identity_payload e) ''proposed_lock_sha256'' = Some (opt_json JStr (ip_proposed_lock_sha256 e))"
    and "lookup (identity_payload e) ''proposed_entry'' = Some (opt_json entry_json (ip_proposed_entry e))"
  using assms by (simp_all add: identity_payload_def)

lemma blocked_payload_lookup:
  "ip_status e = PlanBlocked \<Longrightarrow>
   lookup (identity_payload e) ''blocker'' = Some (opt_json registry_blocker_json (ip_blocker e))"
  by (simp add: identity_payload_def)

lemma identity_payload_keys: "keys_ok (identity_payload e)"
  by (cases "ip_status e") (simp_all add: identity_payload_def)

lemma opt_str_inject: "norm (opt_json JStr a) = norm (opt_json JStr b) \<Longrightarrow> a = b"
  by (rule norm_opt_inject' [of JStr]) simp_all

lemma operation_name_inject: "operation_name a = operation_name b \<Longrightarrow> a = b"
  by (cases a; cases b) simp_all

lemma opt_operation_inject:
  "norm (opt_json (\<lambda>v. JStr (operation_name v)) a) = norm (opt_json (\<lambda>v. JStr (operation_name v)) b) \<Longrightarrow> a = b"
  by (rule norm_opt_inject' [of "\<lambda>v. JStr (operation_name v)"]) (simp_all add: operation_name_inject)

lemma opt_candidate_inject: "norm (opt_json candidate_json a) = norm (opt_json candidate_json b) \<Longrightarrow> a = b"
  by (rule norm_opt_inject' [OF norm_candidate_inject]) simp_all

lemma opt_entry_inject: "norm (opt_json entry_json a) = norm (opt_json entry_json b) \<Longrightarrow> a = b"
  by (rule norm_opt_inject' [OF norm_entry_inject]) simp_all

lemma opt_blocker_inject: "norm (opt_json registry_blocker_json a) = norm (opt_json registry_blocker_json b) \<Longrightarrow> a = b"
  by (rule norm_opt_inject' [OF norm_registry_blocker_inject]) simp_all

lemma plan_status_name_inject: "plan_status_name a = plan_status_name b \<Longrightarrow> a = b"
  by (cases a; cases b) simp_all

text \<open>The payload determines every field of a valid plan but its identifier.\<close>

lemma identity_payload_members:
  assumes "dumps (identity_payload p) = dumps (identity_payload q)"
  shows "ip_candidate p = ip_candidate q \<and> ip_package_name p = ip_package_name q \<and> ip_version p = ip_version q
    \<and> ip_package_digest p = ip_package_digest q \<and> ip_package_receipt_id p = ip_package_receipt_id q
    \<and> ip_registry p = ip_registry q \<and> ip_status p = ip_status q \<and> ip_target p = ip_target q
    \<and> ip_registry_preparation_receipt_id p = ip_registry_preparation_receipt_id q
    \<and> ip_registry_input_receipt_id p = ip_registry_input_receipt_id q
    \<and> ip_current_lock_sha256 p = ip_current_lock_sha256 q \<and> ip_rollback_lock_sha256 p = ip_rollback_lock_sha256 q
    \<and> ip_evidence p = ip_evidence q
    \<and> (if ip_status p = Planned
       then ip_operation p = ip_operation q \<and> ip_proposed_lock_sha256 p = ip_proposed_lock_sha256 q
          \<and> ip_proposed_entry p = ip_proposed_entry q
       else ip_blocker p = ip_blocker q)"
proof -
  have eq: "norm (identity_payload p) = norm (identity_payload q)" using assms by (simp add: dumps_inject)
  note member = norm_lookup [OF eq identity_payload_keys identity_payload_keys]
  have status: "ip_status p = ip_status q"
    using member [of "''status''"] plan_status_name_inject by (simp add: identity_payload_lookup)
  moreover have "ip_package_name p = ip_package_name q" using member [of "''package_name''"] by (simp add: identity_payload_lookup)
  moreover have "ip_version p = ip_version q" using member [of "''version''"] by (simp add: identity_payload_lookup)
  moreover have "ip_package_receipt_id p = ip_package_receipt_id q" using member [of "''package_receipt_id''"] by (simp add: identity_payload_lookup)
  moreover have "ip_registry_preparation_receipt_id p = ip_registry_preparation_receipt_id q" using member [of "''registry_preparation_receipt_id''"] by (simp add: identity_payload_lookup)
  moreover have "ip_registry_input_receipt_id p = ip_registry_input_receipt_id q" using member [of "''registry_input_receipt_id''"] by (simp add: identity_payload_lookup)
  moreover have "ip_current_lock_sha256 p = ip_current_lock_sha256 q" using member [of "''current_lock_sha256''"] by (simp add: identity_payload_lookup)
  moreover have "ip_rollback_lock_sha256 p = ip_rollback_lock_sha256 q" using member [of "''rollback_lock_sha256''"] by (simp add: identity_payload_lookup)
  moreover have "ip_candidate p = ip_candidate q"
    using member [of "''candidate''"] by (auto simp only: identity_payload_lookup option.map option.inject intro: opt_candidate_inject)
  moreover have "ip_package_digest p = ip_package_digest q"
    using member [of "''package_digest''"] by (auto simp only: identity_payload_lookup option.map option.inject intro: opt_str_inject)
  moreover have "ip_registry p = ip_registry q"
    using member [of "''registry''"] by (auto simp only: identity_payload_lookup option.map option.inject intro: norm_registry_inject)
  moreover have "ip_target p = ip_target q"
    using member [of "''target''"] by (auto simp only: identity_payload_lookup option.map option.inject intro: norm_target_inject)
  moreover have "ip_evidence p = ip_evidence q" using member [of "''evidence''"] by (simp add: identity_payload_lookup)
  moreover have "if ip_status p = Planned
       then ip_operation p = ip_operation q \<and> ip_proposed_lock_sha256 p = ip_proposed_lock_sha256 q
          \<and> ip_proposed_entry p = ip_proposed_entry q
       else ip_blocker p = ip_blocker q"
  proof (cases "ip_status p")
    case Planned
    note look = planned_payload_lookup [OF Planned] planned_payload_lookup [OF Planned [unfolded status]]
    have "ip_operation p = ip_operation q"
      using member [of "''operation''"] by (auto simp only: look option.map option.inject intro: opt_operation_inject)
    moreover have "ip_proposed_lock_sha256 p = ip_proposed_lock_sha256 q"
      using member [of "''proposed_lock_sha256''"] by (auto simp only: look option.map option.inject intro: opt_str_inject)
    moreover have "ip_proposed_entry p = ip_proposed_entry q"
      using member [of "''proposed_entry''"] by (auto simp only: look option.map option.inject intro: opt_entry_inject)
    ultimately show ?thesis by (simp add: Planned)
  next
    case PlanBlocked
    note look = blocked_payload_lookup [OF PlanBlocked] blocked_payload_lookup [OF PlanBlocked [unfolded status]]
    have "ip_blocker p = ip_blocker q"
      using member [of "''blocker''"] by (auto simp only: look option.map option.inject intro: opt_blocker_inject)
    then show ?thesis by (simp add: PlanBlocked)
  qed
  ultimately show ?thesis using status by blast
qed

text \<open>Two valid plans with one identifier are the same plan, or their payloads' truncated digests collide.\<close>

lemma plan_id_binds:
  assumes "passes (check_plan p)" "passes (check_plan q)" "ip_plan_id p = ip_plan_id q"
  shows "p = q \<or> dumps (identity_payload p) \<noteq> dumps (identity_payload q)
    \<and> take 24 (sha256 (utf8 (dumps (identity_payload p)))) = take 24 (sha256 (utf8 (dumps (identity_payload q))))"
proof (cases "dumps (identity_payload p) = dumps (identity_payload q)")
  case True
  note same = identity_payload_members [OF True]
  have "ip_operation p = ip_operation q \<and> ip_proposed_lock_sha256 p = ip_proposed_lock_sha256 q
      \<and> ip_proposed_entry p = ip_proposed_entry q \<and> ip_blocker p = ip_blocker q"
  proof (cases "ip_status p")
    case Planned
    have "ip_blocker r = None" if "passes (check_plan r)" "ip_status r = Planned" for r
      using that by (auto simp: check_plan_def status_matches_transition_def validate_planned_state_def split: option.splits)
    then show ?thesis using same Planned assms(1,2) by simp
  next
    case PlanBlocked
    have "ip_operation r = None \<and> ip_proposed_lock_sha256 r = None \<and> ip_proposed_entry r = None"
      if "passes (check_plan r)" "ip_status r = PlanBlocked" for r
      using that by (simp add: check_plan_def status_matches_transition_def)
    then show ?thesis using same PlanBlocked assms(1,2) by simp
  qed
  with same assms(3) have "p = q" by simp
  then show ?thesis ..
next
  case False
  have "ip_plan_id r = lifecycle_plan_id (identity_payload r)" if "passes (check_plan r)" for r
    using that by (simp add: check_plan_def status_matches_transition_def)
  with assms have "lifecycle_plan_id (identity_payload p) = lifecycle_plan_id (identity_payload q)" by metis
  with False show ?thesis by (simp add: lifecycle_plan_id_def canonical_json_sha256_def)
qed

end
