(* ===== verification/Private_Registry.thy ===== *)
theory Private_Registry
  imports Registry
begin

text \<open>
  \<^verbatim>\<open>distribution/private_registry.py\<close>: preparing a private-registry receipt from a build receipt, a
  hardening receipt and a request, without network or file system. Every intermediate blocker and
  warning is a validated contract model, so each step can fail; the lemmas show that on valid
  inputs none does, when a receipt is prepared, and what the receipt retains.
\<close>

section \<open>JSON of the inputs\<close>

fun check_status_name :: "CheckStatus \<Rightarrow> string" where
  "check_status_name CheckPass = ''pass''"
| "check_status_name CheckWarning = ''warning''"
| "check_status_name CheckBlocker = ''blocker''"

fun build_name :: "BuildStatus \<Rightarrow> string" where
  "build_name Built = ''built''" | "build_name BuildBlocked = ''blocked''"

fun pass_name :: "PassStatus \<Rightarrow> string" where
  "pass_name PassResult = ''pass''" | "pass_name BlockedResult = ''blocked''"

definition receipt_blocker_json :: "PackageReceiptBlocker \<Rightarrow> json" where
  "receipt_blocker_json b =
     JObj [(''code'', JStr (rb_code b)), (''message'', JStr (rb_message b)), (''evidence_refs'', strs (rb_evidence_refs b))]"

definition hardening_check_json :: "PackageHardeningCheck \<Rightarrow> json" where
  "hardening_check_json c =
     JObj [(''id'', JStr (hc_id c)), (''status'', JStr (check_status_name (hc_status c))),
           (''message'', JStr (hc_message c)), (''evidence'', strs (hc_evidence c))]"

definition hardening_policy_json :: "PackageHardeningPolicy \<Rightarrow> json" where
  "hardening_policy_json p =
     JObj [(''max_file_count'', JInt (hp_max_file_count p)), (''max_total_bytes'', JInt (hp_max_total_bytes p)),
           (''require_readme'', JBool (hp_require_readme p))]"

definition hardening_receipt_json :: "PackageHardeningReceipt \<Rightarrow> json" where
  "hardening_receipt_json r =
     JObj [(''schema_version'', JStr ''package-hardening/v1''), (''candidate'', opt_json candidate_json (hr_candidate r)),
           (''build_status'', JStr (build_name (hr_build_status r))), (''status'', JStr (pass_name (hr_status r))),
           (''package_digest'', opt_json JStr (hr_package_digest r)),
           (''effective_policy'', hardening_policy_json (hr_effective_policy r)),
           (''included_files'', strs (hr_included_files r)), (''file_count'', JInt (hr_file_count r)),
           (''total_size_bytes'', JInt (hr_total_size_bytes r)),
           (''hardening_checks'', arr hardening_check_json (hr_checks r)),
           (''blockers'', arr hardening_check_json (hr_blockers r)),
           (''warnings'', arr hardening_check_json (hr_warnings r)), (''mutation_performed'', JBool False),
           (''acceptance_trace'', strs (hr_acceptance_trace r))]"

section \<open>Projection of evidence\<close>

definition add_new :: "'a \<Rightarrow> 'a list \<Rightarrow> 'a list" where
  "add_new x xs = (if x \<in> set xs then xs else xs @ [x])"

text \<open>The loop of \<open>_split_evidence\<close> with its two accumulators.\<close>

fun split_evidence_loop :: "string list \<Rightarrow> string list \<Rightarrow> string list \<Rightarrow> string list \<times> string list" where
  "split_evidence_loop [] refs source_digests = (refs, source_digests)"
| "split_evidence_loop (value # values) refs source_digests =
     (if \<not> registry_evidence_is_redaction_safe value
      then split_evidence_loop values refs (add_new (canonical_json_sha256 (JStr value)) source_digests)
      else if \<not> is_ok (require_portable_relative_path value)
      then split_evidence_loop values refs (add_new (canonical_json_sha256 (JStr value)) source_digests)
      else split_evidence_loop values (add_new value refs) source_digests)"

definition split_evidence :: "string list \<Rightarrow> string list \<times> string list" where
  "split_evidence values = split_evidence_loop values [] []"

definition REDACTED_CODE :: string where "REDACTED_CODE = ''source_blocker_redacted''"

definition REDACTED_MESSAGE :: string where
  "REDACTED_MESSAGE = ''Source blocker metadata was redacted; use its digest for identity.''"

text \<open>What \<open>_registry_blocker\<close> and the loop of \<open>_hardening_blockers\<close> do with one source blocker.\<close>

definition project_blocker :: "string \<Rightarrow> string \<Rightarrow> string list \<Rightarrow> json \<Rightarrow> RegistryPreparationBlocker result" where
  "project_blocker source_code source_message evidence source_json =
     (let (refs, digests) = split_evidence evidence;
          public_text_safe = registry_evidence_is_redaction_safe source_code
            \<and> registry_evidence_is_redaction_safe source_message
      in validate_model normalise_registry_blocker check_registry_blocker
           \<lparr>gb_code = (if public_text_safe then source_code else REDACTED_CODE),
            gb_message = (if public_text_safe then source_message else REDACTED_MESSAGE),
            gb_evidence_refs = refs, gb_source_evidence_sha256 = digests,
            gb_source_blocker_sha256 = Some (canonical_json_sha256 source_json)\<rparr>)"

definition registry_blocker :: "PackageReceiptBlocker \<Rightarrow> RegistryPreparationBlocker result" where
  "registry_blocker b = project_blocker (rb_code b) (rb_message b) (rb_evidence_refs b) (receipt_blocker_json b)"

fun map_result :: "('a \<Rightarrow> 'b result) \<Rightarrow> 'a list \<Rightarrow> 'b list result" where
  "map_result f [] = Inr []"
| "map_result f (x # xs) = and_then (f x) (\<lambda>y. and_then (map_result f xs) (\<lambda>ys. Inr (y # ys)))"

definition hardening_blockers :: "PackageHardeningReceipt \<Rightarrow> RegistryPreparationBlocker list result" where
  "hardening_blockers h =
     map_result (\<lambda>item. project_blocker (hc_id item) (hc_message item) (hc_evidence item) (hardening_check_json item))
       (hr_blockers h)"

definition registry_warnings :: "PackageHardeningReceipt \<Rightarrow> RegistryPreparationWarning list result" where
  "registry_warnings h =
     map_result (\<lambda>warning.
       let (refs, digests) = split_evidence (hc_evidence warning) in
       validate_model normalise_registry_warning check_registry_warning
         \<lparr>gw_warning_sha256 = canonical_json_sha256 (hardening_check_json warning), gw_evidence_refs = refs,
          gw_source_evidence_sha256 = digests\<rparr>)
       (hr_warnings h)"

section \<open>Blockers\<close>

definition plain_blocker :: "string \<Rightarrow> string \<Rightarrow> RegistryPreparationBlocker result" where
  "plain_blocker blocker_code message =
     validate_model normalise_registry_blocker check_registry_blocker
       \<lparr>gb_code = blocker_code, gb_message = message, gb_evidence_refs = [],
        gb_source_evidence_sha256 = [], gb_source_blocker_sha256 = None\<rparr>"

definition single_blocker :: "RegistryPreparationBlocker result \<Rightarrow> RegistryPreparationBlocker list result" where
  "single_blocker b = and_then b (\<lambda>b. Inr [b])"

definition input_blockers ::
  "PackageReceipt \<Rightarrow> PackageHardeningReceipt \<Rightarrow> RegistryPreparationRequest \<Rightarrow> RegistryPreparationBlocker list result" where
  "input_blockers p h q =
     (if pr_status p = BuildBlocked then
        single_blocker (case pr_blocker p of
            Some b \<Rightarrow> registry_blocker b
          | None \<Rightarrow> plain_blocker ''package_receipt_blocked''
                      ''Private-registry preparation requires a built package receipt.'')
      else if hr_candidate h \<noteq> pr_candidate p \<or> hr_package_digest h \<noteq> pr_package_digest p then
        single_blocker (plain_blocker ''hardening_identity_mismatch''
          ''Package and hardening receipts must bind the same candidate and package digest.'')
      else case pr_manifest p of
        None \<Rightarrow> Inl AssertErr
      | Some manifest \<Rightarrow>
        if rq_version q \<noteq> pm_version manifest then
          and_then (plain_blocker ''package_version_mismatch''
              ''Registry version must match the immutable package manifest version.'') (\<lambda>version_blocker.
            and_then (if hr_status h = BlockedResult then hardening_blockers h else Inr []) (\<lambda>rest.
              Inr (version_blocker # rest)))
        else if hr_status h = BlockedResult then hardening_blockers h
        else case pr_candidate p of
          None \<Rightarrow> Inl AssertErr
        | Some candidate \<Rightarrow>
          if rq_package_name q \<noteq> package_id candidate then
            single_blocker (plain_blocker ''package_name_mismatch''
              ''Registry package name must match the immutable candidate package_id.'')
          else if length (rq_package_name q) > REGISTRY_PACKAGE_NAME_MAX_LENGTH then
            single_blocker (plain_blocker ''registry_package_name_unsupported''
              ''Registry package name exceeds the supported length limit.'')
          else if \<not> rx_fullmatch REGISTRY_VERSION_PATTERN (rq_version q) then
            single_blocker (plain_blocker ''registry_version_unsupported''
              ''Registry version must use canonical Semantic Versioning.'')
          else Inr [])"

section \<open>Receipts\<close>

definition preparation_receipt_id :: "json \<Rightarrow> string" where
  "preparation_receipt_id payload = ''registry-preparation-'' @ take 24 (canonical_json_sha256 payload)"

definition blocked_payload ::
  "PackageReceipt \<Rightarrow> PackageHardeningReceipt \<Rightarrow> RegistryPreparationRequest \<Rightarrow> RegistryPreparationBlocker
   \<Rightarrow> RegistryPreparationBlocker list \<Rightarrow> RegistryPreparationWarning list \<Rightarrow> json" where
  "blocked_payload p h q blocker blockers warnings =
     JObj [(''candidate'', opt_json candidate_json (pr_candidate p)), (''request'', request_json q),
           (''input_receipt_id'', JStr (pr_receipt_id p)),
           (''hardening_receipt_sha256'', JStr (canonical_json_sha256 (hardening_receipt_json h))),
           (''blocker'', registry_blocker_json blocker), (''blockers'', arr registry_blocker_json blockers),
           (''warnings'', arr registry_warning_json warnings)]"

definition blocked_receipt ::
  "PackageReceipt \<Rightarrow> PackageHardeningReceipt \<Rightarrow> RegistryPreparationRequest \<Rightarrow> RegistryPreparationBlocker
   \<Rightarrow> RegistryPreparationBlocker list \<Rightarrow> RegistryPreparationWarning list \<Rightarrow> RegistryPreparationReceipt result" where
  "blocked_receipt p h q blocker blockers warnings =
     (let retained = (if blockers = [] then [blocker] else blockers) in
      validate_model normalise_preparation check_preparation
        \<lparr>gr_receipt_id = preparation_receipt_id (blocked_payload p h q blocker retained warnings),
         gr_candidate = pr_candidate p, gr_registry = rq_registry q, gr_package_name = rq_package_name q,
         gr_version = rq_version q, gr_input_receipt_id = pr_receipt_id p, gr_package_digest = None,
         gr_manifest_digest = None, gr_hardening_receipt_sha256 = None, gr_status = PreparationBlocked,
         gr_evidence = rq_evidence q, gr_blocker = Some blocker, gr_blockers = retained, gr_warnings = warnings\<rparr>)"

definition prepared_payload ::
  "PackageReceipt \<Rightarrow> PackageHardeningReceipt \<Rightarrow> RegistryPreparationRequest \<Rightarrow> PackageCandidateIdentity
   \<Rightarrow> string \<Rightarrow> string \<Rightarrow> RegistryPreparationWarning list \<Rightarrow> json" where
  "prepared_payload p h q candidate package_digest manifest_digest warnings =
     JObj [(''candidate'', candidate_json candidate), (''request'', request_json q),
           (''input_receipt_id'', JStr (pr_receipt_id p)), (''package_digest'', JStr package_digest),
           (''manifest_digest'', JStr manifest_digest),
           (''hardening_receipt_sha256'', JStr (canonical_json_sha256 (hardening_receipt_json h))),
           (''warnings'', arr registry_warning_json warnings)]"

definition prepared_receipt ::
  "PackageReceipt \<Rightarrow> PackageHardeningReceipt \<Rightarrow> RegistryPreparationRequest \<Rightarrow> RegistryPreparationReceipt result" where
  "prepared_receipt p h q =
     (case (pr_candidate p, pr_manifest p, pr_package_digest p) of
        (Some candidate, Some manifest, Some package_digest) \<Rightarrow>
          (let manifest_digest = canonical_json_sha256 (manifest_json manifest) in
           and_then (registry_warnings h) (\<lambda>warnings.
             validate_model normalise_preparation check_preparation
               \<lparr>gr_receipt_id = preparation_receipt_id
                    (prepared_payload p h q candidate package_digest manifest_digest warnings),
                gr_candidate = Some candidate, gr_registry = rq_registry q, gr_package_name = rq_package_name q,
                gr_version = rq_version q, gr_input_receipt_id = pr_receipt_id p,
                gr_package_digest = Some package_digest, gr_manifest_digest = Some manifest_digest,
                gr_hardening_receipt_sha256 = Some (canonical_json_sha256 (hardening_receipt_json h)),
                gr_status = Prepared, gr_evidence = rq_evidence q, gr_blocker = None, gr_blockers = [],
                gr_warnings = warnings\<rparr>))
      | _ \<Rightarrow> Inl AssertErr)"

definition prepare_private_registry_candidate ::
  "PackageReceipt \<Rightarrow> PackageHardeningReceipt \<Rightarrow> RegistryPreparationRequest \<Rightarrow> RegistryPreparationReceipt result" where
  "prepare_private_registry_candidate package_receipt hardening_receipt request =
     and_then (if pr_schema_version package_receipt = ReceiptV2
               then validate_model normalise_receipt check_receipt package_receipt
               else Inl (ValidationError ''schema_version'')) (\<lambda>p.
     and_then (validate_model normalise_hardening check_hardening hardening_receipt) (\<lambda>h.
     and_then (validate_model normalise_request check_request request) (\<lambda>q.
     and_then (input_blockers p h q) (\<lambda>blockers.
       case blockers of
         [] \<Rightarrow> prepared_receipt p h q
       | blocker # _ \<Rightarrow>
         and_then (if pr_status p \<noteq> BuildBlocked then registry_warnings h else Inr []) (\<lambda>warnings.
           blocked_receipt p h q blocker blockers
             (if gb_code blocker = ''hardening_identity_mismatch'' then [] else warnings))))))"

section \<open>Evidence is neither lost nor exposed\<close>

definition public_ref :: "string \<Rightarrow> bool" where
  "public_ref v = (registry_evidence_is_redaction_safe v \<and> portable v)"

lemma set_add_new [simp]: "set (add_new x xs) = insert x (set xs)"
  by (auto simp: add_new_def)

lemma distinct_add_new [simp]: "distinct (add_new x xs) = distinct xs"
  by (simp add: add_new_def)

lemma split_evidence_loop_ok:
  assumes "split_evidence_loop values refs digests = (refs', digests')"
  shows "set refs' = set refs \<union> {v \<in> set values. public_ref v}"
    and "set digests' = set digests \<union> (\<lambda>v. canonical_json_sha256 (JStr v)) ` {v \<in> set values. \<not> public_ref v}"
    and "distinct refs \<Longrightarrow> distinct refs'"
  using assms
  by (induction "values" refs digests rule: split_evidence_loop.induct)
    (auto simp: public_ref_def portable_def split: if_splits)

lemma split_evidence_ok:
  assumes "split_evidence values = (refs, digests)"
  shows "distinct refs" and "\<forall>v \<in> set refs. public_ref v" and "list_all is_sha256 digests"
    and "\<forall>v \<in> set values. v \<in> set refs \<or> canonical_json_sha256 (JStr v) \<in> set digests"
  using split_evidence_loop_ok [OF assms [unfolded split_evidence_def]] by (auto simp: list_all_iff)

section \<open>Blockers and warnings are well formed\<close>

definition registry_blocker_ok :: "RegistryPreparationBlocker \<Rightarrow> bool" where
  "registry_blocker_ok b = (normalise_registry_blocker b = b \<and> passes (check_registry_blocker b))"

definition registry_warning_ok :: "RegistryPreparationWarning \<Rightarrow> bool" where
  "registry_warning_ok w = (normalise_registry_warning w = w \<and> passes (check_registry_warning w))"

lemma passes_public_paths:
  "passes (check_public_paths um cm refs) \<longleftrightarrow> distinct refs \<and> (\<forall>v \<in> set refs. public_ref v)"
  by (auto simp: check_public_paths_def public_ref_def)

lemma map_trim_sha256: "list_all is_sha256 ds \<Longrightarrow> map trim ds = ds"
  by (induction ds) (simp_all add: trim_sha256)

lemma redacted_ok: "registry_evidence_is_redaction_safe REDACTED_CODE" "trim REDACTED_CODE = REDACTED_CODE \<and> REDACTED_CODE \<noteq> []"
  "registry_evidence_is_redaction_safe REDACTED_MESSAGE" "trim REDACTED_MESSAGE = REDACTED_MESSAGE \<and> REDACTED_MESSAGE \<noteq> []"
  by code_simp+

lemma project_blocker_ok:
  assumes "trim source_code = source_code" "source_code \<noteq> []" "trim source_message = source_message" "source_message \<noteq> []"
  shows "\<exists>b. project_blocker source_code source_message evidence source = Inr b \<and> registry_blocker_ok b"
proof -
  obtain refs digests where se: "split_evidence evidence = (refs, digests)" by fastforce
  note facts = split_evidence_ok [OF se]
  show ?thesis
    using assms redacted_ok facts
    by (simp add: project_blocker_def se Let_def registry_blocker_model.validate_ok_iff registry_blocker_ok_def
        normalise_registry_blocker_def check_registry_blocker_def check_public_text_def passes_public_paths
        map_trim_sha256)
qed

lemma plain_blocker_ok:
  assumes "registry_evidence_is_redaction_safe c \<and> trim c = c \<and> c \<noteq> []"
    "registry_evidence_is_redaction_safe m \<and> trim m = m \<and> m \<noteq> []"
  shows "\<exists>b. plain_blocker c m = Inr b \<and> registry_blocker_ok b"
  using assms
  by (simp add: plain_blocker_def registry_blocker_model.validate_ok_iff registry_blocker_ok_def
      normalise_registry_blocker_def check_registry_blocker_def check_public_text_def passes_public_paths)

lemma map_result_ok:
  "\<forall>x \<in> set xs. \<exists>y. f x = Inr y \<and> P y \<Longrightarrow> \<exists>ys. map_result f xs = Inr ys \<and> length ys = length xs \<and> (\<forall>y \<in> set ys. P y)"
  by (induction xs) fastforce+

lemma registry_warnings_ok: "\<exists>ws. registry_warnings h = Inr ws \<and> length ws = length (hr_warnings h) \<and> (\<forall>w \<in> set ws. registry_warning_ok w)"
  unfolding registry_warnings_def
proof (rule map_result_ok, rule ballI)
  fix c :: PackageHardeningCheck
  obtain refs digests where se: "split_evidence (hc_evidence c) = (refs, digests)" by fastforce
  show "\<exists>w. (let (refs, digests) = split_evidence (hc_evidence c) in
       validate_model normalise_registry_warning check_registry_warning
         \<lparr>gw_warning_sha256 = canonical_json_sha256 (hardening_check_json c), gw_evidence_refs = refs,
          gw_source_evidence_sha256 = digests\<rparr>) = Inr w \<and> registry_warning_ok w"
    using split_evidence_ok [OF se]
    by (simp add: se registry_warning_model.validate_ok_iff registry_warning_ok_def normalise_registry_warning_def
        check_registry_warning_def passes_public_paths map_trim_sha256)
qed

section \<open>When a package is prepared\<close>

definition preparable :: "PackageReceipt \<Rightarrow> PackageHardeningReceipt \<Rightarrow> RegistryPreparationRequest \<Rightarrow> bool" where
  "preparable p h q =
     (pr_status p = Built \<and> hr_candidate h = pr_candidate p \<and> hr_package_digest h = pr_package_digest p
      \<and> hr_status h = PassResult
      \<and> (case (pr_manifest p, pr_candidate p) of
            (Some m, Some c) \<Rightarrow>
              rq_version q = pm_version m \<and> rq_package_name q = package_id c
              \<and> length (rq_package_name q) \<le> REGISTRY_PACKAGE_NAME_MAX_LENGTH
              \<and> rx_fullmatch REGISTRY_VERSION_PATTERN (rq_version q)
          | _ \<Rightarrow> False))"

definition PLAIN_BLOCKERS :: "(string \<times> string) list" where
  "PLAIN_BLOCKERS =
     [(''package_receipt_blocked'', ''Private-registry preparation requires a built package receipt.''),
      (''hardening_identity_mismatch'', ''Package and hardening receipts must bind the same candidate and package digest.''),
      (''package_version_mismatch'', ''Registry version must match the immutable package manifest version.''),
      (''package_name_mismatch'', ''Registry package name must match the immutable candidate package_id.''),
      (''registry_package_name_unsupported'', ''Registry package name exceeds the supported length limit.''),
      (''registry_version_unsupported'', ''Registry version must use canonical Semantic Versioning.'')]"

lemma plain_blockers_ok:
  assumes "(c, m) \<in> set PLAIN_BLOCKERS"
  shows "\<exists>b. plain_blocker c m = Inr b \<and> registry_blocker_ok b"
proof (rule plain_blocker_ok)
  have "list_all (\<lambda>(c, m). (registry_evidence_is_redaction_safe c \<and> trim c = c \<and> c \<noteq> [])
      \<and> (registry_evidence_is_redaction_safe m \<and> trim m = m \<and> m \<noteq> [])) PLAIN_BLOCKERS"
    by code_simp
  then show "registry_evidence_is_redaction_safe c \<and> trim c = c \<and> c \<noteq> []"
    "registry_evidence_is_redaction_safe m \<and> trim m = m \<and> m \<noteq> []"
    using assms by (auto simp: list_all_iff)
qed

lemma single_plain_ok:
  "(c, m) \<in> set PLAIN_BLOCKERS \<Longrightarrow>
   \<exists>bs. single_blocker (plain_blocker c m) = Inr bs \<and> bs \<noteq> [] \<and> (\<forall>b \<in> set bs. registry_blocker_ok b)"
  using plain_blockers_ok [of c m] by (auto simp: single_blocker_def)

lemma normal_check_fields:
  "normalise_check c = c \<Longrightarrow> trim (hc_id c) = hc_id c \<and> trim (hc_message c) = hc_message c"
  by (cases c) (simp add: normalise_check_def)

lemma hardening_blockers_ok:
  assumes "normalise_hardening h = h" "passes (check_hardening h)"
  shows "\<exists>bs. hardening_blockers h = Inr bs \<and> length bs = length (hr_blockers h) \<and> (\<forall>b \<in> set bs. registry_blocker_ok b)"
  unfolding hardening_blockers_def
proof (rule map_result_ok, rule ballI)
  fix c assume c: "c \<in> set (hr_blockers h)"
  have "map normalise_check (hr_blockers h) = hr_blockers h"
    using arg_cong [OF assms(1), of hr_blockers] by (simp add: normalise_hardening_def)
  then have "normalise_check c = c" using c by (metis map_idI map_eq_conv map_ident)
  moreover have "passes (check_check c)" using assms(2) c by (simp add: check_hardening_def)
  then have "hc_id c \<noteq> []" "hc_message c \<noteq> []"
    by (auto simp: check_check_def is_blocker_code_def rx_fullmatch_iff matches_plus_cls)
  ultimately show "\<exists>b. project_blocker (hc_id c) (hc_message c) (hc_evidence c) (hardening_check_json c) = Inr b
      \<and> registry_blocker_ok b"
    using normal_check_fields by (intro project_blocker_ok) auto
qed

lemma registry_blocker_total:
  assumes "normalise_blocker b = b" "passes (check_blocker b)"
  shows "\<exists>g. registry_blocker b = Inr g \<and> registry_blocker_ok g"
  unfolding registry_blocker_def
  using assms
  by (cases b, intro project_blocker_ok)
    (auto simp: normalise_blocker_def check_blocker_def is_blocker_code_def rx_fullmatch_iff matches_plus_cls)

lemma blocked_hardening_blockers:
  "passes (check_hardening h) \<Longrightarrow> hr_status h = BlockedResult \<Longrightarrow> hr_blockers h \<noteq> []"
  by (auto simp: check_hardening_def status_matches_checks_def Let_def)

lemma built_receipt_parts:
  assumes "passes (check_receipt p)" "pr_status p = Built"
  obtains c m d where "pr_candidate p = Some c" "pr_manifest p = Some m" "pr_package_digest p = Some d"
  using assms by (auto simp: check_receipt_def receipt_matches_manifest_def Let_def)

lemma input_blockers_ok:
  assumes p: "normalise_receipt p = p" "passes (check_receipt p)"
    and h: "normalise_hardening h = h" "passes (check_hardening h)"
  shows "\<exists>bs. input_blockers p h q = Inr bs \<and> (bs = [] \<longleftrightarrow> preparable p h q) \<and> (\<forall>b \<in> set bs. registry_blocker_ok b)"
proof (cases "pr_status p")
  case BuildBlocked
  have "map_option normalise_blocker (pr_blocker p) = pr_blocker p"
    using arg_cong [OF p(1), of pr_blocker] by (simp add: normalise_receipt_def)
  then have "\<forall>b. pr_blocker p = Some b \<longrightarrow> normalise_blocker b = b" by auto
  moreover have "\<forall>b. pr_blocker p = Some b \<longrightarrow> passes (check_blocker b)" using p(2) by (simp add: check_receipt_def)
  ultimately show ?thesis
    using BuildBlocked registry_blocker_total single_plain_ok [of "''package_receipt_blocked''"]
    by (cases "pr_blocker p")
      (fastforce simp: input_blockers_def preparable_def single_blocker_def PLAIN_BLOCKERS_def)+
next
  case Built
  then obtain c m d where parts: "pr_candidate p = Some c" "pr_manifest p = Some m" "pr_package_digest p = Some d"
    using built_receipt_parts [OF p(2)] by blast
  obtain hs where hs: "hardening_blockers h = Inr hs" "length hs = length (hr_blockers h)"
    "\<forall>b \<in> set hs. registry_blocker_ok b" using hardening_blockers_ok [OF h] by blast
  have hs_ne: "hr_status h = BlockedResult \<Longrightarrow> hs \<noteq> []"
    using blocked_hardening_blockers [OF h(2)] hs(2) by auto
  have "(''package_version_mismatch'', ''Registry version must match the immutable package manifest version.'')
      \<in> set PLAIN_BLOCKERS" by (simp add: PLAIN_BLOCKERS_def)
  from plain_blockers_ok [OF this] obtain vb where vb: "plain_blocker ''package_version_mismatch''
      ''Registry version must match the immutable package manifest version.'' = Inr vb" "registry_blocker_ok vb"
    by blast
  let ?same = "hr_candidate h = pr_candidate p \<and> hr_package_digest h = pr_package_digest p"
  have prep_iff: "preparable p h q \<longleftrightarrow> ?same \<and> rq_version q = pm_version m \<and> hr_status h = PassResult
      \<and> rq_package_name q = package_id c \<and> length (rq_package_name q) \<le> REGISTRY_PACKAGE_NAME_MAX_LENGTH
      \<and> rx_fullmatch REGISTRY_VERSION_PATTERN (rq_version q)"
    using Built parts by (auto simp: preparable_def)
  consider "\<not> ?same" | "?same" "rq_version q \<noteq> pm_version m"
    | "?same" "rq_version q = pm_version m" "hr_status h = BlockedResult"
    | "?same" "rq_version q = pm_version m" "hr_status h = PassResult" "rq_package_name q \<noteq> package_id c"
    | "?same" "rq_version q = pm_version m" "hr_status h = PassResult" "rq_package_name q = package_id c"
      "length (rq_package_name q) > REGISTRY_PACKAGE_NAME_MAX_LENGTH"
    | "?same" "rq_version q = pm_version m" "hr_status h = PassResult" "rq_package_name q = package_id c"
      "length (rq_package_name q) \<le> REGISTRY_PACKAGE_NAME_MAX_LENGTH" "\<not> rx_fullmatch REGISTRY_VERSION_PATTERN (rq_version q)"
    | "preparable p h q"
    using prep_iff PassStatus.exhaust [of "hr_status h"] leI by blast
  then show ?thesis
  proof cases
    case 1
    then show ?thesis using Built single_plain_ok [of "''hardening_identity_mismatch''"]
      by (fastforce simp: input_blockers_def preparable_def PLAIN_BLOCKERS_def)
  next
    case 2
    then show ?thesis using Built parts vb hs by (cases "hr_status h") (auto simp: input_blockers_def preparable_def)
  next
    case 3
    then show ?thesis using Built parts hs hs_ne by (auto simp: input_blockers_def preparable_def)
  next
    case 4
    then show ?thesis using Built parts single_plain_ok [of "''package_name_mismatch''"]
      by (fastforce simp: input_blockers_def preparable_def PLAIN_BLOCKERS_def)
  next
    case 5
    then show ?thesis using Built parts single_plain_ok [of "''registry_package_name_unsupported''"]
      by (fastforce simp: input_blockers_def preparable_def PLAIN_BLOCKERS_def)
  next
    case 6
    then show ?thesis using Built parts single_plain_ok [of "''registry_version_unsupported''"]
      by (fastforce simp: input_blockers_def preparable_def PLAIN_BLOCKERS_def)
  next
    case 7
    then show ?thesis using Built parts by (auto simp: input_blockers_def preparable_def not_less)
  qed
qed

section \<open>Preparation on valid inputs\<close>

lemma registry_digest_id: "is_identifier (preparation_receipt_id payload)"
proof -
  have "is_identifier ''registry-preparation''" by code_simp
  from identifier_digest [OF this, of payload] show ?thesis by (simp add: preparation_receipt_id_def)
qed

lemma request_parts:
  assumes "normalise_request q = q" "passes (check_request q)"
  shows "passes (check_registry_identity (rq_registry q))" "passes (check_package_name (rq_package_name q))"
    "trim (rq_package_name q) = rq_package_name q" "passes (check_version (rq_version q))"
    "rq_evidence q \<noteq> []" "distinct (rq_evidence q)" "\<forall>v \<in> set (rq_evidence q). public_ref v"
  using assms by (cases q, simp add: normalise_request_def check_request_def passes_public_paths)+

lemma blocked_receipt_ok:
  assumes p: "normalise_receipt p = p" "passes (check_receipt p)"
    and q: "normalise_request q = q" "passes (check_request q)"
    and bs: "registry_blocker_ok b" "\<forall>b \<in> set bs. registry_blocker_ok b" and ws: "\<forall>w \<in> set ws. registry_warning_ok w"
  obtains r where "blocked_receipt p h q b (b # bs) ws = Inr r" "gr_status r = PreparationBlocked"
    "gr_blockers r = b # bs" "gr_warnings r = ws" "gr_candidate r = pr_candidate p" "gr_evidence r = rq_evidence q"
    "validate_model normalise_preparation check_preparation r = Inr r"
proof -
  let ?r = "\<lparr>gr_receipt_id = preparation_receipt_id (blocked_payload p h q b (b # bs) ws),
         gr_candidate = pr_candidate p, gr_registry = rq_registry q, gr_package_name = rq_package_name q,
         gr_version = rq_version q, gr_input_receipt_id = pr_receipt_id p, gr_package_digest = None,
         gr_manifest_digest = None, gr_hardening_receipt_sha256 = None, gr_status = PreparationBlocked,
         gr_evidence = rq_evidence q, gr_blocker = Some b, gr_blockers = b # bs, gr_warnings = ws\<rparr>"
  have pc: "map_option normalise_candidate (pr_candidate p) = pr_candidate p" "trim (pr_receipt_id p) = pr_receipt_id p"
    using p(1) by (cases p, simp add: normalise_receipt_def)+
  have maps: "map normalise_registry_blocker bs = bs" "map normalise_registry_warning ws = ws"
    using bs ws by (simp_all add: registry_blocker_ok_def registry_warning_ok_def map_idI)
  have "validate_model normalise_preparation check_preparation ?r = Inr ?r"
    using p(2) request_parts [OF q] pc maps bs ws registry_digest_id
    by (simp add: preparation_model.fixpoint_iff normalise_preparation_def check_preparation_def check_receipt_def
        passes_public_paths status_matches_artifacts_def trim_identifier registry_blocker_ok_def registry_warning_ok_def)
  then have made: "blocked_receipt p h q b (b # bs) ws = Inr ?r" and valid: "validate_model normalise_preparation check_preparation ?r = Inr ?r"
    by (simp_all add: blocked_receipt_def Let_def)
  show thesis by (rule that [OF made]) (simp_all add: valid)
qed

lemma prepared_receipt_ok:
  assumes p: "normalise_receipt p = p" "passes (check_receipt p)" "pr_schema_version p = ReceiptV2"
    and q: "normalise_request q = q" "passes (check_request q)" and prep: "preparable p h q"
  obtains r c m where "prepared_receipt p h q = Inr r" "gr_status r = Prepared"
    "pr_candidate p = Some c" "pr_manifest p = Some m" "gr_candidate r = Some c"
    "gr_package_digest r = Some (canonical_json_sha256 (manifest_json m))"
    "gr_hardening_receipt_sha256 r = Some (canonical_json_sha256 (hardening_receipt_json h))"
    "gr_package_name r = package_id c" "gr_version r = pm_version m" "gr_input_receipt_id r = pr_receipt_id p"
    "validate_model normalise_preparation check_preparation r = Inr r"
proof -
  obtain c m d where parts: "pr_candidate p = Some c" "pr_manifest p = Some m" "pr_package_digest p = Some d"
    using built_receipt_parts [OF p(2)] prep by (auto simp: preparable_def)
  obtain ws where ws: "registry_warnings h = Inr ws" "\<forall>w \<in> set ws. registry_warning_ok w"
    using registry_warnings_ok by blast
  have d: "d = canonical_json_sha256 (manifest_json m)"
    using p prep parts by (simp add: check_receipt_def package_digest_matches_manifest_def preparable_def)
  let ?r = "\<lparr>gr_receipt_id = preparation_receipt_id (prepared_payload p h q c d d ws),
         gr_candidate = Some c, gr_registry = rq_registry q, gr_package_name = rq_package_name q,
         gr_version = rq_version q, gr_input_receipt_id = pr_receipt_id p,
         gr_package_digest = Some d, gr_manifest_digest = Some d,
         gr_hardening_receipt_sha256 = Some (canonical_json_sha256 (hardening_receipt_json h)),
         gr_status = Prepared, gr_evidence = rq_evidence q, gr_blocker = None, gr_blockers = [], gr_warnings = ws\<rparr>"
  have pc: "normalise_candidate c = c" "trim (pr_receipt_id p) = pr_receipt_id p" "passes (check_candidate c)"
    using p(1,2) parts by (cases p, simp add: normalise_receipt_def check_receipt_def)+
  have maps: "map normalise_registry_warning ws = ws" using ws by (simp add: registry_warning_ok_def map_idI)
  note rq = request_parts [OF q]
  have norm: "normalise_preparation ?r = ?r"
    using pc maps rq(3) by (simp add: normalise_preparation_def registry_digest_id trim_identifier d)
  have status: "passes (status_matches_artifacts ?r)"
    using prep parts by (auto simp: status_matches_artifacts_def preparable_def)
  have rid: "is_identifier (pr_receipt_id p)" using p(2) by (simp add: check_receipt_def)
  have "passes (check_preparation ?r)"
    using rid rq pc ws status registry_digest_id
    by (simp add: check_preparation_def passes_public_paths registry_warning_ok_def d)
  with norm have valid: "validate_model normalise_preparation check_preparation ?r = Inr ?r"
    by (simp add: preparation_model.fixpoint_iff)
  have made: "prepared_receipt p h q = Inr ?r"
    using parts ws d valid by (simp add: prepared_receipt_def Let_def)
  show thesis
    by (rule that [OF made, of c m]) (use valid parts d prep in \<open>simp_all add: preparable_def\<close>)
qed

text \<open>The three stages together.\<close>

lemma prepare_ok:
  assumes p: "validate_model normalise_receipt check_receipt package = Inr p" "pr_schema_version package = ReceiptV2"
    and h: "validate_model normalise_hardening check_hardening hardening = Inr h"
    and q: "validate_model normalise_request check_request request = Inr q"
  shows "\<exists>r. prepare_private_registry_candidate package hardening request = Inr r
    \<and> validate_model normalise_preparation check_preparation r = Inr r
    \<and> (gr_status r = Prepared \<longleftrightarrow> preparable p h q)
    \<and> gr_candidate r = pr_candidate p"
proof -
  note np = receipt_model.validated_is_normal [OF p(1)] receipt_model.validated_passes [OF p(1)]
  note nh = hardening_model.validated_is_normal [OF h] hardening_model.validated_passes [OF h]
  note nq = request_model.validated_is_normal [OF q] request_model.validated_passes [OF q]
  have v2: "pr_schema_version p = ReceiptV2"
    using p by (auto simp: receipt_model.validate_ok_iff normalise_receipt_def)
  obtain bs where bs: "input_blockers p h q = Inr bs" "bs = [] \<longleftrightarrow> preparable p h q" "\<forall>b \<in> set bs. registry_blocker_ok b"
    using input_blockers_ok [OF np nh] by blast
  have run: "prepare_private_registry_candidate package hardening request =
     (case bs of [] \<Rightarrow> prepared_receipt p h q
      | b # _ \<Rightarrow> and_then (if pr_status p \<noteq> BuildBlocked then registry_warnings h else Inr []) (\<lambda>ws.
          blocked_receipt p h q b bs (if gb_code b = ''hardening_identity_mismatch'' then [] else ws)))"
    by (simp only: prepare_private_registry_candidate_def p h q bs(1) simp_thms if_True and_then_simps)
  show ?thesis
  proof (cases bs)
    case Nil
    then show ?thesis using run bs(2) by (auto elim: prepared_receipt_ok [OF np v2 nq])
  next
    case (Cons b rest)
    obtain ws where ws: "(if pr_status p \<noteq> BuildBlocked then registry_warnings h else Inr []) = Inr ws"
      "\<forall>w \<in> set ws. registry_warning_ok w"
      using registry_warnings_ok [of h] by (cases "pr_status p") auto
    let ?ws = "if gb_code b = ''hardening_identity_mismatch'' then [] else ws"
    have "registry_blocker_ok b" "\<forall>b \<in> set rest. registry_blocker_ok b" "\<forall>w \<in> set ?ws. registry_warning_ok w"
      using bs(3) Cons ws(2) by auto
    from blocked_receipt_ok [OF np nq this, of h]
    obtain r where "blocked_receipt p h q b (b # rest) ?ws = Inr r" "gr_status r = PreparationBlocked"
      "gr_candidate r = pr_candidate p" "validate_model normalise_preparation check_preparation r = Inr r" by blast
    then show ?thesis using run bs(2) Cons ws(1) by simp
  qed
qed

end
