(* ===== verification/Planning.thy ===== *)
theory Planning
  imports Lifecycle Private_Registry
begin

text \<open>
  \<^verbatim>\<open>lifecycle/planning.py\<close>: the install plan for a package receipt, a registry preparation receipt, a
  runtime lock and a target. The plan's identity is written out here as the planner writes it, in
  the planner's order of members; the validator of \<open>InstallPlan\<close> recomputes it in its own order.
  The lemmas: the two identities have the same digest, the proposed lock changes exactly the
  planned key, and planning again against the proposed lock changes nothing.
\<close>

definition lock_digest :: "RuntimeLock \<Rightarrow> string" where
  "lock_digest l = canonical_json_sha256 (lock_json l)"

section \<open>Blocked plans\<close>

definition blocked_identity ::
  "PackageReceipt \<Rightarrow> RegistryPreparationReceipt \<Rightarrow> RuntimeTarget \<Rightarrow> string list \<Rightarrow> RegistryPreparationBlocker
   \<Rightarrow> string \<Rightarrow> string \<Rightarrow> string \<Rightarrow> string option \<Rightarrow> json" where
  "blocked_identity p g t evidence blocker current package_name version package_digest =
     JObj [(''candidate'', opt_json candidate_json (pr_candidate p)), (''package_name'', JStr package_name),
           (''version'', JStr version), (''package_digest'', opt_json JStr package_digest),
           (''package_receipt_id'', JStr (pr_receipt_id p)), (''registry'', registry_identity_json (gr_registry g)),
           (''registry_preparation_receipt_id'', JStr (gr_receipt_id g)),
           (''registry_input_receipt_id'', JStr (gr_input_receipt_id g)),
           (''current_lock_sha256'', JStr current), (''rollback_lock_sha256'', JStr current),
           (''target'', target_json t), (''status'', JStr ''blocked''), (''evidence'', strs evidence),
           (''blocker'', registry_blocker_json blocker)]"

definition blocked_plan ::
  "PackageReceipt \<Rightarrow> RegistryPreparationReceipt \<Rightarrow> RuntimeLock \<Rightarrow> RuntimeTarget \<Rightarrow> string list
   \<Rightarrow> RegistryPreparationBlocker \<Rightarrow> InstallPlan result" where
  "blocked_plan p g l t evidence blocker =
     (let current = lock_digest l; candidate = pr_candidate p;
          package_name = (case candidate of Some c \<Rightarrow> package_id c | None \<Rightarrow> gr_package_name g);
          version = (case pr_manifest p of Some m \<Rightarrow> pm_version m | None \<Rightarrow> gr_version g);
          package_digest = (if pr_status p = Built then pr_package_digest p else None)
      in validate_model normalise_plan check_plan
           \<lparr>ip_plan_id = lifecycle_plan_id
              (blocked_identity p g t evidence blocker current package_name version package_digest),
            ip_candidate = candidate, ip_package_name = package_name, ip_version = version,
            ip_package_digest = package_digest, ip_package_receipt_id = pr_receipt_id p, ip_status = PlanBlocked,
            ip_operation = None, ip_target = t, ip_registry = gr_registry g,
            ip_registry_preparation_receipt_id = gr_receipt_id g,
            ip_registry_input_receipt_id = gr_input_receipt_id g, ip_current_lock_sha256 = current,
            ip_rollback_lock_sha256 = current, ip_proposed_lock_sha256 = None, ip_proposed_entry = None,
            ip_evidence = evidence, ip_blocker = Some blocker\<rparr>)"

text \<open>\<open>_identity_blocker\<close>: \<open>None\<close> lets the transition be planned.\<close>

definition some_blocker :: "RegistryPreparationBlocker result \<Rightarrow> RegistryPreparationBlocker option result" where
  "some_blocker b = and_then b (\<lambda>b. Inr (Some b))"

definition identity_blocker ::
  "PackageReceipt \<Rightarrow> RegistryPreparationReceipt \<Rightarrow> RegistryPreparationBlocker option result" where
  "identity_blocker p g =
     (if gr_input_receipt_id g \<noteq> pr_receipt_id p then
        some_blocker (plain_blocker ''installation_input_receipt_mismatch''
          ''Registry preparation must identify the exact package receipt used for planning.'')
      else if gr_status g = PreparationBlocked then
        (case gr_blocker g of
           None \<Rightarrow> Inl AssertErr
         | Some b \<Rightarrow>
           if \<not> public_blocker b then
             some_blocker (plain_blocker ''installation_registry_blocker_not_portable''
               ''Registry preparation blocker cannot be projected into a portable install plan.'')
           else Inr (Some b))
      else if pr_status p \<noteq> Built \<or> pr_candidate p \<noteq> gr_candidate g \<or> pr_package_digest p \<noteq> gr_package_digest g then
        some_blocker (plain_blocker ''installation_identity_mismatch''
          ''Package and registry preparation must bind the same built candidate and digest.'')
      else if map_option pm_version (pr_manifest p) \<noteq> Some (gr_version g) then
        some_blocker (plain_blocker ''installation_version_mismatch''
          ''Package manifest and registry preparation must bind the same version.'')
      else Inr None)"

section \<open>Planned transitions\<close>

definition runtime_file :: "PackageManifestFile \<Rightarrow> RuntimeFile result" where
  "runtime_file f =
     validate_model normalise_runtime_file check_runtime_file \<lparr>rf_path = mf_path f, rf_sha256 = mf_sha256 f\<rparr>"

definition lock_entry ::
  "PackageReceipt \<Rightarrow> RegistryPreparationReceipt \<Rightarrow> RuntimeTarget \<Rightarrow> PackageCandidateIdentity
   \<Rightarrow> string \<Rightarrow> RuntimeFile list \<Rightarrow> RuntimeLockEntry" where
  "lock_entry p g t candidate package_digest files =
     \<lparr>le_package_name = gr_package_name g, le_version = gr_version g, le_candidate = candidate,
      le_package_digest = package_digest, le_registry = gr_registry g, le_package_receipt_id = pr_receipt_id p,
      le_registry_preparation_receipt_id = gr_receipt_id g, le_target = t, le_files = files\<rparr>"

definition matching_entries :: "RuntimeLock \<Rightarrow> lock_key \<Rightarrow> RuntimeLockEntry list" where
  "matching_entries l key = [e \<leftarrow> l. entry_key e = key]"

definition transition_operation :: "RuntimeLock \<Rightarrow> RuntimeLockEntry \<Rightarrow> PlanOperation" where
  "transition_operation l ent =
     (let matching = matching_entries l (entry_key ent) in
      if matching = [ent] then OpNoChange else if matching \<noteq> [] then OpUpdate else OpInstall)"

definition proposed_entries :: "RuntimeLock \<Rightarrow> RuntimeLockEntry \<Rightarrow> RuntimeLock" where
  "proposed_entries l ent =
     (let replaced = map (\<lambda>e. if entry_key e = entry_key ent then ent else e) l in
      if matching_entries l (entry_key ent) = [] then replaced @ [ent] else replaced)"

definition planned_identity ::
  "PackageReceipt \<Rightarrow> RegistryPreparationReceipt \<Rightarrow> RuntimeTarget \<Rightarrow> string list \<Rightarrow> RuntimeLockEntry
   \<Rightarrow> PlanOperation \<Rightarrow> string \<Rightarrow> string \<Rightarrow> json" where
  "planned_identity p g t evidence ent operation current proposed =
     JObj [(''candidate'', candidate_json (le_candidate ent)), (''package_name'', JStr (gr_package_name g)),
           (''version'', JStr (gr_version g)), (''package_digest'', JStr (le_package_digest ent)),
           (''package_receipt_id'', JStr (pr_receipt_id p)), (''registry'', registry_identity_json (gr_registry g)),
           (''registry_preparation_receipt_id'', JStr (gr_receipt_id g)),
           (''registry_input_receipt_id'', JStr (gr_input_receipt_id g)),
           (''current_lock_sha256'', JStr current), (''rollback_lock_sha256'', JStr current),
           (''proposed_lock_sha256'', JStr proposed), (''target'', target_json t), (''status'', JStr ''planned''),
           (''operation'', JStr (operation_name operation)), (''proposed_entry'', entry_json ent),
           (''evidence'', strs evidence)]"

definition planned_plan ::
  "PackageReceipt \<Rightarrow> RegistryPreparationReceipt \<Rightarrow> RuntimeTarget \<Rightarrow> string list \<Rightarrow> RuntimeLockEntry
   \<Rightarrow> PlanOperation \<Rightarrow> string \<Rightarrow> string \<Rightarrow> InstallPlan" where
  "planned_plan p g t evidence ent operation current proposed =
     \<lparr>ip_plan_id = lifecycle_plan_id (planned_identity p g t evidence ent operation current proposed),
      ip_candidate = Some (le_candidate ent), ip_package_name = gr_package_name g, ip_version = gr_version g,
      ip_package_digest = Some (le_package_digest ent), ip_package_receipt_id = pr_receipt_id p,
      ip_status = Planned, ip_operation = Some operation, ip_target = t, ip_registry = gr_registry g,
      ip_registry_preparation_receipt_id = gr_receipt_id g,
      ip_registry_input_receipt_id = gr_input_receipt_id g, ip_current_lock_sha256 = current,
      ip_rollback_lock_sha256 = current, ip_proposed_lock_sha256 = Some proposed,
      ip_proposed_entry = Some ent, ip_evidence = evidence, ip_blocker = None\<rparr>"

definition planned_transition ::
  "PackageReceipt \<Rightarrow> RegistryPreparationReceipt \<Rightarrow> RuntimeLock \<Rightarrow> RuntimeTarget \<Rightarrow> string list \<Rightarrow> InstallPlan result" where
  "planned_transition p g l t evidence =
     (case (pr_candidate p, pr_manifest p, pr_package_digest p) of
        (Some candidate, Some manifest, Some package_digest) \<Rightarrow>
          and_then (map_result runtime_file (pm_files manifest)) (\<lambda>files.
          and_then (validate_model normalise_entry check_lock_entry
              (lock_entry p g t candidate package_digest files)) (\<lambda>ent.
          let operation = transition_operation l ent in
          and_then (validate_model normalise_lock check_lock (proposed_entries l ent)) (\<lambda>proposed_lock.
            validate_model normalise_plan check_plan
              (planned_plan p g t evidence ent operation (lock_digest l) (lock_digest proposed_lock)))))
      | _ \<Rightarrow> Inl AssertErr)"

definition plan_runtime_install ::
  "PackageReceipt \<Rightarrow> RegistryPreparationReceipt \<Rightarrow> RuntimeLock \<Rightarrow> RuntimeTarget \<Rightarrow> string list \<Rightarrow> InstallPlan result" where
  "plan_runtime_install package_receipt registry_receipt current_lock target evidence =
     and_then (if pr_schema_version package_receipt = ReceiptV2
               then validate_model normalise_receipt check_receipt package_receipt
               else Inl (ValidationError ''schema_version'')) (\<lambda>p.
     and_then (validate_model normalise_preparation check_preparation registry_receipt) (\<lambda>g.
     and_then (validate_model normalise_lock check_lock current_lock) (\<lambda>l.
     and_then (validate_model normalise_target check_target target) (\<lambda>t.
     and_then (identity_blocker p g) (\<lambda>blocker.
       case blocker of
         Some b \<Rightarrow> blocked_plan p g l t evidence b
       | None \<Rightarrow> planned_transition p g l t evidence)))))"

section \<open>The two identities agree\<close>

lemma blocked_identity_eq:
  assumes "ip_status plan = PlanBlocked" "ip_candidate plan = pr_candidate p" "ip_package_receipt_id plan = pr_receipt_id p"
    "ip_registry plan = gr_registry g" "ip_registry_preparation_receipt_id plan = gr_receipt_id g"
    "ip_registry_input_receipt_id plan = gr_input_receipt_id g" "ip_rollback_lock_sha256 plan = ip_current_lock_sha256 plan"
    "ip_target plan = t" "ip_evidence plan = evidence" "ip_blocker plan = Some b"
  shows "blocked_identity p g t evidence b (ip_current_lock_sha256 plan) (ip_package_name plan) (ip_version plan)
    (ip_package_digest plan) = identity_payload plan"
  using assms by (simp add: blocked_identity_def identity_payload_def)

text \<open>The planner writes the members of a planned identity in another order; the canonical text is the same.\<close>

lemma planned_identity_eq:
  "dumps (planned_identity p g t evidence e operation current proposed) =
   dumps (identity_payload (planned_plan p g t evidence e operation current proposed))"
proof -
  obtain a where a: "planned_identity p g t evidence e operation current proposed = JObj a"
    and a_def: "JObj a = planned_identity p g t evidence e operation current proposed"
    by (metis planned_identity_def)
  obtain b where b: "identity_payload (planned_plan p g t evidence e operation current proposed) = JObj b"
    and b_def: "JObj b = identity_payload (planned_plan p g t evidence e operation current proposed)"
    by (metis identity_payload_def)
  have "distinct (map fst a)" "distinct (map fst b)"
    using a_def b_def by (simp_all add: planned_identity_def identity_payload_def planned_plan_def)
  moreover from this have "distinct a" "distinct b" by (auto simp: distinct_map)
  moreover have "set a = set b"
    using a_def b_def by (simp add: planned_identity_def identity_payload_def planned_plan_def insert_commute)
  ultimately have "mset a = mset b" by (simp add: set_eq_iff_mset_eq_distinct [symmetric])
  then show ?thesis unfolding a b by (rule dumps_permute) fact
qed

section \<open>The proposed lock\<close>

definition lock_lookup :: "RuntimeLock \<Rightarrow> lock_key \<Rightarrow> RuntimeLockEntry option" where
  "lock_lookup l k = List.find (\<lambda>e. entry_key e = k) l"

lemma lock_lookup_simps [simp]:
  "lock_lookup [] k = None"
  "lock_lookup (e # l) k = (if entry_key e = k then Some e else lock_lookup l k)"
  by (simp_all add: lock_lookup_def)

lemma lock_lookup_append: "lock_lookup (l @ m) k = (case lock_lookup l k of None \<Rightarrow> lock_lookup m k | Some e \<Rightarrow> Some e)"
  by (induction l) auto

lemma lock_lookup_None: "lock_lookup l k = None \<longleftrightarrow> k \<notin> entry_key ` set l"
  by (induction l) auto

lemma matching_Nil: "matching_entries l k = [] \<longleftrightarrow> lock_lookup l k = None"
  by (induction l) (auto simp: matching_entries_def)

lemma matching_distinct:
  assumes "distinct (map entry_key l)"
  shows "matching_entries l k = (case lock_lookup l k of None \<Rightarrow> [] | Some e \<Rightarrow> [e])"
  using assms
proof (induction l)
  case (Cons e l)
  show ?case
  proof (cases "entry_key e = k")
    case True
    with Cons.prems have "lock_lookup l k = None" by (auto simp: lock_lookup_None)
    then have "matching_entries l k = []" by (simp add: matching_Nil)
    with True show ?thesis by (simp add: matching_entries_def)
  next
    case False
    with Cons show ?thesis by (simp add: matching_entries_def)
  qed
qed (simp add: matching_entries_def)

lemma replaced_keys: "map entry_key (map (\<lambda>e. if entry_key e = entry_key x then x else e) l) = map entry_key l"
  by (induction l) auto

lemma replaced_lookup:
  "lock_lookup (map (\<lambda>e. if entry_key e = entry_key x then x else e) l) k =
     (if k = entry_key x \<and> lock_lookup l k \<noteq> None then Some x else lock_lookup l k)"
  by (induction l) auto

lemma proposed_lookup:
  "lock_lookup (proposed_entries l x) k = (if k = entry_key x then Some x else lock_lookup l k)"
  by (auto simp: proposed_entries_def Let_def lock_lookup_append replaced_lookup matching_Nil split: option.splits)

lemma proposed_distinct:
  assumes "distinct (map entry_key l)"
  shows "distinct (map entry_key (proposed_entries l x))"
proof -
  let ?r = "map (\<lambda>e. if entry_key e = entry_key x then x else e) l"
  have keys: "map entry_key ?r = map entry_key l" by (rule replaced_keys)
  have "set (map entry_key ?r) = entry_key ` set l" unfolding keys by simp
  then have "entry_key x \<notin> set (map entry_key ?r)" if "lock_lookup l (entry_key x) = None"
    using that by (simp add: lock_lookup_None)
  then show ?thesis using assms keys by (auto simp: proposed_entries_def Let_def matching_Nil simp del: map_map)
qed

lemma replace_identity:
  "lock_lookup l (entry_key x) = Some x \<Longrightarrow> distinct (map entry_key l) \<Longrightarrow>
   map (\<lambda>e. if entry_key e = entry_key x then x else e) l = l"
proof (induction l)
  case (Cons e l)
  show ?case
  proof (cases "entry_key e = entry_key x")
    case True
    with Cons.prems have "e = x" "\<forall>y \<in> set l. entry_key y \<noteq> entry_key x" by (auto intro: rev_image_eqI)
    then show ?thesis by (simp add: map_idI)
  qed (use Cons in simp)
qed simp

lemma operation_iff:
  assumes "distinct (map entry_key l)"
  shows "transition_operation l x = OpNoChange \<longleftrightarrow> lock_lookup l (entry_key x) = Some x"
    and "transition_operation l x = OpInstall \<longleftrightarrow> lock_lookup l (entry_key x) = None"
    and "transition_operation l x = OpNoChange \<Longrightarrow> proposed_entries l x = l"
proof -
  show no: "transition_operation l x = OpNoChange \<longleftrightarrow> lock_lookup l (entry_key x) = Some x"
    "transition_operation l x = OpInstall \<longleftrightarrow> lock_lookup l (entry_key x) = None"
    by (auto simp: transition_operation_def Let_def matching_distinct [OF assms] split: option.splits)
  assume "transition_operation l x = OpNoChange"
  then have "lock_lookup l (entry_key x) = Some x" by (simp add: no)
  with replace_identity [OF this assms] show "proposed_entries l x = l"
    by (simp add: proposed_entries_def Let_def matching_Nil)
qed

text \<open>Planning the same entry against the proposed lock is a no-change.\<close>

lemma proposed_again:
  assumes "distinct (map entry_key l)"
  shows "transition_operation (proposed_entries l x) x = OpNoChange"
    and "proposed_entries (proposed_entries l x) x = proposed_entries l x"
proof -
  show *: "transition_operation (proposed_entries l x) x = OpNoChange"
    using operation_iff(1) [OF proposed_distinct [OF assms, of x], of x] by (simp add: proposed_lookup)
  show "proposed_entries (proposed_entries l x) x = proposed_entries l x"
    by (rule operation_iff(3) [OF proposed_distinct [OF assms] *])
qed

section \<open>Plans\<close>

lemma planned_transition_ok:
  assumes "planned_transition p g l t evidence = Inr plan"
  obtains candidate manifest package_digest files ent lock where
    "pr_candidate p = Some candidate" "pr_manifest p = Some manifest" "pr_package_digest p = Some package_digest"
    "map_result runtime_file (pm_files manifest) = Inr files"
    "validate_model normalise_entry check_lock_entry (lock_entry p g t candidate package_digest files) = Inr ent"
    "validate_model normalise_lock check_lock (proposed_entries l ent) = Inr lock"
    "validate_model normalise_plan check_plan
       (planned_plan p g t evidence ent (transition_operation l ent) (lock_digest l) (lock_digest lock)) = Inr plan"
  using assms by (auto simp: planned_transition_def and_then_Inr_iff Let_def split: option.splits)

lemma valid_lock_parts:
  assumes "validate_model normalise_lock check_lock l0 = Inr l"
  shows "distinct (map entry_key l)" and "normalise_lock l = l" and "passes (check_lock l)"
    and "\<forall>e \<in> set l. normalise_entry e = e \<and> passes (check_lock_entry e)"
proof -
  show n: "normalise_lock l = l" and c: "passes (check_lock l)"
    using lock_model.validated_is_normal [OF assms] lock_model.validated_passes [OF assms] by auto
  show "distinct (map entry_key l)" using c by (simp add: check_lock_def)
  show "\<forall>e \<in> set l. normalise_entry e = e \<and> passes (check_lock_entry e)"
    using n c by (simp add: check_lock_def normalise_lock_def) (metis map_eq_conv map_ident)
qed

lemma set_proposed: "set (proposed_entries l x) \<subseteq> insert x (set l)"
  by (auto simp: proposed_entries_def Let_def)

text \<open>The proposed lock is valid without further normalisation, so building it never fails.\<close>

lemma proposed_valid:
  assumes "validate_model normalise_lock check_lock l0 = Inr l"
    "validate_model normalise_entry check_lock_entry e0 = Inr e"
  shows "validate_model normalise_lock check_lock (proposed_entries l e) = Inr (proposed_entries l e)"
proof -
  have e: "normalise_entry e = e" "passes (check_lock_entry e)"
    using entry_model.validated_is_normal [OF assms(2)] entry_model.validated_passes [OF assms(2)] by auto
  have all: "\<forall>x \<in> set (proposed_entries l e). normalise_entry x = x \<and> passes (check_lock_entry x)"
    using set_proposed [of l e] valid_lock_parts(4) [OF assms(1)] e by blast
  then have "normalise_lock (proposed_entries l e) = proposed_entries l e"
    by (simp add: normalise_lock_def map_idI)
  then show ?thesis
    using all proposed_distinct [OF valid_lock_parts(1) [OF assms(1)], of e]
    by (simp add: lock_model.fixpoint_iff check_lock_def)
qed

definition planned_result ::
  "PackageReceipt \<Rightarrow> RegistryPreparationReceipt \<Rightarrow> RuntimeLock \<Rightarrow> RuntimeTarget \<Rightarrow> string list \<Rightarrow> RuntimeLockEntry \<Rightarrow> InstallPlan" where
  "planned_result p g l t evidence e =
     planned_plan p g t evidence e (transition_operation l e) (lock_digest l) (lock_digest (proposed_entries l e))"

lemma planned_transition_result:
  assumes l: "validate_model normalise_lock check_lock l0 = Inr l"
    and plan: "planned_transition p g l t evidence = Inr plan"
  obtains e where "plan = normalise_plan (planned_result p g l t evidence e)" "passes (check_plan plan)"
    "ip_proposed_entry plan = Some e" "normalise_entry e = e" "passes (check_lock_entry e)"
    "planned_transition p g (proposed_entries l e) t evidence =
       validate_model normalise_plan check_plan (planned_result p g (proposed_entries l e) t evidence e)"
proof -
  from planned_transition_ok [OF plan] obtain c m d files e lock where parts:
    "pr_candidate p = Some c" "pr_manifest p = Some m" "pr_package_digest p = Some d"
    "map_result runtime_file (pm_files m) = Inr files"
    and e: "validate_model normalise_entry check_lock_entry (lock_entry p g t c d files) = Inr e"
    and lock: "validate_model normalise_lock check_lock (proposed_entries l e) = Inr lock"
    and v: "validate_model normalise_plan check_plan
       (planned_plan p g t evidence e (transition_operation l e) (lock_digest l) (lock_digest lock)) = Inr plan" .
  have "lock = proposed_entries l e" using proposed_valid [OF l e] lock by simp
  with v have v': "validate_model normalise_plan check_plan (planned_result p g l t evidence e) = Inr plan"
    by (simp add: planned_result_def)
  have ne: "normalise_entry e = e" "passes (check_lock_entry e)"
    using entry_model.validated_is_normal [OF e] entry_model.validated_passes [OF e] by auto
  have plan_eq: "plan = normalise_plan (planned_result p g l t evidence e)" "passes (check_plan plan)"
    using v' by (auto simp: plan_model.validate_ok_iff)
  have "validate_model normalise_lock check_lock (proposed_entries (proposed_entries l e) e) = Inr (proposed_entries (proposed_entries l e) e)"
    by (rule proposed_valid [OF proposed_valid [OF l e] e])
  then have "planned_transition p g (proposed_entries l e) t evidence =
       validate_model normalise_plan check_plan (planned_result p g (proposed_entries l e) t evidence e)"
    using parts e by (simp add: planned_transition_def Let_def planned_result_def)
  moreover have "ip_proposed_entry plan = Some e"
    using ne by (simp add: plan_eq(1) normalise_plan_def planned_result_def planned_plan_def)
  ultimately show thesis using that plan_eq ne by blast
qed

lemma plan_runtime_install_ok:
  assumes "plan_runtime_install package registry lock target evidence = Inr plan"
  obtains p g l t b where
    "pr_schema_version package = ReceiptV2" "validate_model normalise_receipt check_receipt package = Inr p"
    "validate_model normalise_preparation check_preparation registry = Inr g"
    "validate_model normalise_lock check_lock lock = Inr l" "validate_model normalise_target check_target target = Inr t"
    "identity_blocker p g = Inr b"
    "(case b of Some b \<Rightarrow> blocked_plan p g l t evidence b | None \<Rightarrow> planned_transition p g l t evidence) = Inr plan"
  using assms by (auto simp: plan_runtime_install_def and_then_Inr_iff split: if_splits)

lemma blocked_plan_status: "blocked_plan p g l t evidence b = Inr plan \<Longrightarrow> ip_status plan = PlanBlocked"
  by (auto simp: blocked_plan_def Let_def plan_model.validate_ok_iff normalise_plan_def)

section \<open>Replanning\<close>

lemma planned_plan_sel [simp]:
  "ip_candidate (planned_plan p g t evidence e v cur prop) = Some (le_candidate e)"
  "ip_package_name (planned_plan p g t evidence e v cur prop) = gr_package_name g"
  "ip_version (planned_plan p g t evidence e v cur prop) = gr_version g"
  "ip_package_digest (planned_plan p g t evidence e v cur prop) = Some (le_package_digest e)"
  "ip_package_receipt_id (planned_plan p g t evidence e v cur prop) = pr_receipt_id p"
  "ip_status (planned_plan p g t evidence e v cur prop) = Planned"
  "ip_operation (planned_plan p g t evidence e v cur prop) = Some v"
  "ip_target (planned_plan p g t evidence e v cur prop) = t"
  "ip_registry (planned_plan p g t evidence e v cur prop) = gr_registry g"
  "ip_registry_preparation_receipt_id (planned_plan p g t evidence e v cur prop) = gr_receipt_id g"
  "ip_registry_input_receipt_id (planned_plan p g t evidence e v cur prop) = gr_input_receipt_id g"
  "ip_current_lock_sha256 (planned_plan p g t evidence e v cur prop) = cur"
  "ip_rollback_lock_sha256 (planned_plan p g t evidence e v cur prop) = cur"
  "ip_proposed_lock_sha256 (planned_plan p g t evidence e v cur prop) = Some prop"
  "ip_proposed_entry (planned_plan p g t evidence e v cur prop) = Some e"
  "ip_evidence (planned_plan p g t evidence e v cur prop) = evidence"
  "ip_blocker (planned_plan p g t evidence e v cur prop) = None"
  by (simp_all add: planned_plan_def)

lemma planned_plan_id_ok:
  "ip_plan_id (planned_plan p g t evidence e v cur prop) = lifecycle_plan_id (identity_payload (planned_plan p g t evidence e v cur prop))"
proof -
  have "ip_plan_id (planned_plan p g t evidence e v cur prop) = lifecycle_plan_id (planned_identity p g t evidence e v cur prop)"
    by (simp add: planned_plan_def)
  then show ?thesis by (simp add: lifecycle_plan_id_def canonical_json_sha256_def planned_identity_eq)
qed

lemma lifecycle_plan_id_ok: "is_identifier (lifecycle_plan_id payload)"
proof -
  have "is_identifier ''install-plan''" by code_simp
  from identifier_digest [OF this, of payload] show ?thesis by (simp add: lifecycle_plan_id_def)
qed

lemma lock_digest_ok [simp]: "is_sha256 (lock_digest l)" "trim (lock_digest l) = lock_digest l"
  by (simp_all add: lock_digest_def)

lemma planned_plan_normal:
  assumes "normalise_receipt p = p" "normalise_preparation g = g" "normalise_target t = t" "normalise_entry e = e"
    "trim cur = cur" "trim prop = prop" "trim (gr_version g) = gr_version g"
  shows "normalise_plan (planned_plan p g t evidence e v cur prop) = (planned_plan p g t evidence e v cur prop)"
proof -
  have "trim (pr_receipt_id p) = pr_receipt_id p" using assms(1) by (cases p) (simp add: normalise_receipt_def)
  moreover have "trim (gr_package_name g) = gr_package_name g" "trim (gr_receipt_id g) = gr_receipt_id g"
    "trim (gr_input_receipt_id g) = gr_input_receipt_id g"
    using assms(2) by (cases g, simp add: normalise_preparation_def)+
  moreover have "normalise_candidate (le_candidate e) = le_candidate e" "trim (le_package_digest e) = le_package_digest e"
    using assms(4) by (cases e, simp add: normalise_entry_def)+
  moreover have "trim (lifecycle_plan_id payload) = lifecycle_plan_id payload" for payload
    by (simp add: trim_identifier lifecycle_plan_id_ok)
  ultimately show ?thesis using assms(3-6) assms(7) by (simp add: normalise_plan_def planned_plan_def)
qed

lemma planned_plan_check:
  assumes "passes (check_plan (planned_plan p g t evidence e v cur prop))" "is_sha256 cur'"
  shows "passes (check_plan (planned_plan p g t evidence e OpNoChange cur' cur'))"
  using assms
  by (auto simp: check_plan_def status_matches_transition_def validate_planned_state_def planned_plan_id_ok
      lifecycle_plan_id_ok)

text \<open>The planned plan holds the requested entry, and planning again against the proposed lock is a no-change.\<close>

lemma replan:
  assumes plan: "plan_runtime_install package registry lock target evidence = Inr plan" "ip_status plan = Planned"
    and l: "validate_model normalise_lock check_lock lock = Inr l"
  obtains e where "ip_proposed_entry plan = Some e" "ip_operation plan = Some (transition_operation l e)"
    "ip_current_lock_sha256 plan = lock_digest l" "ip_rollback_lock_sha256 plan = lock_digest l"
    "ip_proposed_lock_sha256 plan = Some (lock_digest (proposed_entries l e))"
    "\<exists>plan'. plan_runtime_install package registry (proposed_entries l e) target evidence = Inr plan'
       \<and> ip_operation plan' = Some OpNoChange \<and> ip_proposed_entry plan' = Some e
       \<and> ip_proposed_lock_sha256 plan' = Some (ip_current_lock_sha256 plan')"
proof -
  obtain p g t b where parts: "pr_schema_version package = ReceiptV2"
    "validate_model normalise_receipt check_receipt package = Inr p"
    "validate_model normalise_preparation check_preparation registry = Inr g"
    "validate_model normalise_target check_target target = Inr t" "identity_blocker p g = Inr b"
    "(case b of Some b \<Rightarrow> blocked_plan p g l t evidence b | None \<Rightarrow> planned_transition p g l t evidence) = Inr plan"
    using plan_runtime_install_ok [OF plan(1)] l by (metis sum.inject(2))
  then have b: "b = None" and tr: "planned_transition p g l t evidence = Inr plan"
    using plan(2) by (auto split: option.splits dest: blocked_plan_status)
  from planned_transition_result [OF l tr] obtain e where e:
    "plan = normalise_plan (planned_result p g l t evidence e)" "passes (check_plan plan)"
    "ip_proposed_entry plan = Some e" "normalise_entry e = e" "passes (check_lock_entry e)"
    and again: "planned_transition p g (proposed_entries l e) t evidence =
       validate_model normalise_plan check_plan (planned_result p g (proposed_entries l e) t evidence e)" .
  have np: "normalise_receipt p = p" "normalise_preparation g = g" "normalise_target t = t"
    using receipt_model.validated_is_normal parts(2) preparation_model.validated_is_normal parts(3)
      target_model.validated_is_normal parts(4) by blast+
  have "passes (check_preparation g)" using preparation_model.validated_passes parts(3) by blast
  then have "strip (gr_version g) = gr_version g" by (auto simp: check_preparation_def check_version_def)
  then have version: "trim (gr_version g) = gr_version g" by (rule trim_if_stripped)
  have norm: "normalise_plan (planned_result p g m t evidence e) = planned_result p g m t evidence e" for m
    unfolding planned_result_def by (rule planned_plan_normal [OF np e(4)]) (simp_all add: version)
  have plan_eq: "plan = planned_result p g l t evidence e" using e(1) norm by simp
  let ?l = "proposed_entries l e"
  have dist: "distinct (map entry_key l)" by (rule valid_lock_parts(1) [OF l])
  have plan': "planned_result p g ?l t evidence e = planned_plan p g t evidence e OpNoChange (lock_digest ?l) (lock_digest ?l)"
    by (simp add: planned_result_def proposed_again [OF dist])
  have "passes (check_plan (planned_result p g ?l t evidence e))"
    unfolding plan' by (rule planned_plan_check) (use e(2) plan_eq in \<open>simp_all add: planned_result_def\<close>)
  then have valid: "planned_transition p g ?l t evidence = Inr (planned_result p g ?l t evidence e)"
    using again norm by (simp add: plan_model.validate_ok_iff)
  have lock: "validate_model normalise_lock check_lock ?l = Inr ?l"
    by (rule proposed_valid [OF l]) (rule entry_model.fixpoint_iff [THEN iffD2], simp add: e)
  have "plan_runtime_install package registry ?l target evidence = Inr (planned_result p g ?l t evidence e)"
    using parts(1-5) b lock valid by (simp add: plan_runtime_install_def)
  then have "plan_runtime_install package registry ?l target evidence =
      Inr (planned_plan p g t evidence e OpNoChange (lock_digest ?l) (lock_digest ?l))" by (simp only: plan')
  then have again: "\<exists>plan'. plan_runtime_install package registry ?l target evidence = Inr plan'
       \<and> ip_operation plan' = Some OpNoChange \<and> ip_proposed_entry plan' = Some e
       \<and> ip_proposed_lock_sha256 plan' = Some (ip_current_lock_sha256 plan')" by simp
  show thesis by (rule that [of e, OF _ _ _ _ _ again]) (simp_all add: plan_eq planned_result_def)
qed

end
