(* ===== verification/Demo_Package.thy ===== *)
theory Demo_Package
  imports Hardening Archive_Verification Planning
begin

text \<open>
  A concrete package that runs through the whole pipeline: two files, their manifest, a version 2
  build receipt, a registry request and preparation receipt, and a runtime target. File digests
  are SHA-256 terms that are never computed; everything else is evaluated.
\<close>

definition demo_files :: "PackageManifestFile list" where
  "demo_files =
     [\<lparr>mf_path = ''SKILL.md'', mf_sha256 = sha256 [1], mf_size_bytes = 1, mf_role = RoleSkillMd\<rparr>,
      \<lparr>mf_path = ''README.md'', mf_sha256 = sha256 [2], mf_size_bytes = 1, mf_role = RoleReadme\<rparr>]"

definition demo_candidate :: PackageCandidateIdentity where
  "demo_candidate =
     \<lparr>package_id = ''demo'', source_revision = replicate 40 (CHR ''0''),
      content_sha256 = candidate_content_sha256 (digest_files demo_files)\<rparr>"

definition demo_manifest :: PackageManifest where
  "demo_manifest =
     \<lparr>pm_candidate = demo_candidate, pm_version = ''1.0.0'', pm_files = demo_files,
      pm_provenance = \<lparr>pmp_source = [''SKILL.md''], pmp_builder = ''skills-sdk.packaging.manifest/v1''\<rparr>\<rparr>"

definition demo_receipt :: PackageReceipt where
  "demo_receipt =
     \<lparr>pr_schema_version = ReceiptV2, pr_receipt_id = ''demo-1'', pr_candidate = Some demo_candidate,
      pr_status = Built, pr_started_at = 0, pr_finished_at = 1, pr_evidence = [''SKILL.md'', ''README.md''],
      pr_blocker = None, pr_package_digest = Some (canonical_json_sha256 (manifest_json demo_manifest)),
      pr_manifest = Some demo_manifest, pr_included_files = [''SKILL.md'', ''README.md''], pr_excluded_files = []\<rparr>"

lemma demo_paths: "portable ''SKILL.md''" "portable ''README.md''"
  by code_simp+

lemma demo_texts: "is_identifier ''demo''" "is_identifier ''demo-1''" "trim ''1.0.0'' = ''1.0.0''"
  "trim ''skills-sdk.packaging.manifest/v1'' = ''skills-sdk.packaging.manifest/v1''"
  "is_git_revision (replicate 40 (CHR ''0''))"
  by code_simp+

lemma demo_candidate_ok: "normalise_candidate demo_candidate = demo_candidate" "passes (check_candidate demo_candidate)"
  using demo_texts(1,5)
  by (simp_all add: demo_candidate_def normalise_candidate_def check_candidate_iff trim_identifier trim_git_revision
      trim_sha256)

lemma demo_files_ok: "map normalise_file demo_files = demo_files" "\<forall>f \<in> set demo_files. passes (check_file f)"
  by (simp_all add: demo_files_def normalise_file_def trim_sha256 sha256_is_sha256 check_file_iff demo_paths)

lemma demo_manifest_ok: "normalise_manifest demo_manifest = demo_manifest" "passes (check_manifest demo_manifest)"
proof -
  show "normalise_manifest demo_manifest = demo_manifest"
    using demo_candidate_ok demo_files_ok demo_texts
    by (simp add: demo_manifest_def normalise_manifest_def normalise_manifest_provenance_def)
  have "distinct (manifest_paths demo_manifest)"
    by (simp add: demo_manifest_def manifest_paths_def demo_files_def)
  then show "passes (check_manifest demo_manifest)"
    using demo_candidate_ok demo_files_ok
    by (simp add: check_manifest_iff)
      (simp add: demo_manifest_def demo_files_def check_manifest_provenance_def portables_iff demo_paths)
qed

lemma demo_receipt_valid: "validate_model normalise_receipt check_receipt demo_receipt = Inr demo_receipt"
proof -
  have "passes (receipt_matches_manifest demo_receipt)"
    by (simp add: receipt_matches_manifest_def demo_receipt_def paths_of_def demo_manifest_def manifest_paths_def
        demo_files_def)
  moreover have "passes (package_digest_matches_manifest demo_receipt)"
    by (simp add: package_digest_matches_manifest_def demo_receipt_def demo_manifest_def demo_candidate_def)
  ultimately show ?thesis
    using demo_candidate_ok demo_manifest_ok demo_texts demo_paths
    by (simp add: receipt_model.fixpoint_iff check_receipt_def)
      (simp add: demo_receipt_def normalise_receipt_def trim_identifier unique_portables_iff)
qed

lemma demo_hardened: "hardened demo_receipt default_hardening_policy"
proof -
  have "unsafe_package_path_reason ''SKILL.md'' = Inr None" "unsafe_package_path_reason ''README.md'' = Inr None"
    by code_simp+
  moreover have "provenance_valid demo_receipt"
    by (simp add: provenance_valid_def demo_receipt_def demo_manifest_def MANIFEST_BUILDER_def)
  moreover have "required_roles_valid (included_manifest_files demo_receipt) default_hardening_policy"
    by (simp add: required_roles_valid_def included_manifest_files_def demo_receipt_def demo_manifest_def
        demo_files_def file_roles_def)
  ultimately show ?thesis by (simp add: hardened_def demo_receipt_def)
qed

lemma default_hardening_policy_ok: "passes (check_hardening_policy default_hardening_policy)"
  by (simp add: check_hardening_policy_def default_hardening_policy_def)

section \<open>Registry\<close>

definition demo_registry :: RegistryIdentity where
  "demo_registry = \<lparr>rg_registry_id = ''internal'', rg_namespace = ''skills''\<rparr>"

definition demo_request :: RegistryPreparationRequest where
  "demo_request =
     \<lparr>rq_registry = demo_registry, rq_package_name = ''demo'', rq_version = ''1.0.0'', rq_evidence = [''SKILL.md'']\<rparr>"

lemma demo_registry_ok: "passes (check_registry_identity demo_registry)"
  by code_simp

lemma demo_request_valid: "validate_model normalise_request check_request demo_request = Inr demo_request"
  by code_simp

lemma demo_version_ok: "rx_fullmatch REGISTRY_VERSION_PATTERN ''1.0.0''"
  by code_simp

section \<open>Planning\<close>

definition demo_preparation :: RegistryPreparationReceipt where
  "demo_preparation =
     \<lparr>gr_receipt_id = ''prep-1'', gr_candidate = Some demo_candidate, gr_registry = demo_registry,
      gr_package_name = ''demo'', gr_version = ''1.0.0'', gr_input_receipt_id = ''demo-1'',
      gr_package_digest = Some (canonical_json_sha256 (manifest_json demo_manifest)),
      gr_manifest_digest = Some (canonical_json_sha256 (manifest_json demo_manifest)),
      gr_hardening_receipt_sha256 = Some (sha256 [3]), gr_status = Prepared, gr_evidence = [''SKILL.md''],
      gr_blocker = None, gr_blockers = [], gr_warnings = []\<rparr>"

definition demo_target :: RuntimeTarget where
  "demo_target = \<lparr>rt_scope = UserScope, rt_target_id = ''default''\<rparr>"

lemma demo_public_name: "lifecycle_text_is_public_safe ''demo''"
  by code_simp

lemma demo_public_receipt: "lifecycle_text_is_public_safe ''demo-1''"
  by code_simp

lemma demo_public_preparation: "lifecycle_text_is_public_safe ''prep-1''"
  by code_simp

lemma demo_public_version: "lifecycle_text_is_public_safe ''1.0.0''"
  by code_simp

lemma demo_public_target: "lifecycle_text_is_public_safe ''default''"
  by code_simp

lemma demo_public_skill: "lifecycle_text_is_public_safe ''SKILL.md''"
  by code_simp

lemma demo_public_readme: "lifecycle_text_is_public_safe ''README.md''"
  by code_simp

lemmas demo_public = demo_public_name demo_public_receipt demo_public_preparation demo_public_version demo_public_target demo_public_skill demo_public_readme

lemma demo_preparation_valid:
  "validate_model normalise_preparation check_preparation demo_preparation = Inr demo_preparation"
proof -
  have "passes (status_matches_artifacts demo_preparation)"
    using demo_version_ok
    by (simp add: status_matches_artifacts_def demo_preparation_def demo_candidate_def REGISTRY_PACKAGE_NAME_MAX_LENGTH_def)
  moreover have "is_identifier ''prep-1''" by code_simp
  moreover have "passes (check_package_name ''demo'')" "passes (check_version ''1.0.0'')" by code_simp+
  moreover have "passes (check_public_paths um cm [''SKILL.md''])" for um cm
    using demo_paths by (simp add: passes_public_paths public_ref_def) code_simp
  ultimately show ?thesis
    using demo_candidate_ok demo_registry_ok demo_texts
    by (simp add: preparation_model.fixpoint_iff check_preparation_def)
      (simp add: demo_preparation_def normalise_preparation_def trim_identifier trim_sha256 sha256_is_sha256)
qed

definition demo_entry :: RuntimeLockEntry where
  "demo_entry =
     lock_entry demo_receipt demo_preparation demo_target demo_candidate
       (canonical_json_sha256 (manifest_json demo_manifest))
       (map (\<lambda>f. \<lparr>rf_path = mf_path f, rf_sha256 = mf_sha256 f\<rparr>) demo_files)"

lemma demo_target_valid: "validate_model normalise_target check_target demo_target = Inr demo_target"
proof -
  have "is_identifier ''default''" by code_simp
  then show ?thesis using demo_public
    by (simp add: target_model.fixpoint_iff normalise_target_def check_target_def demo_target_def require_public_text_def
        trim_identifier)
qed

lemma demo_runtime_files:
  "map_result runtime_file demo_files = Inr (map (\<lambda>f. \<lparr>rf_path = mf_path f, rf_sha256 = mf_sha256 f\<rparr>) demo_files)"
  using demo_public demo_paths
  by (simp add: demo_files_def runtime_file_def validate_model_def normalise_runtime_file_def check_runtime_file_def
      require_public_portable_text_def require_public_text_def field_def trim_sha256 sha256_is_sha256)

lemma demo_entry_valid:
  "validate_model normalise_entry check_lock_entry demo_entry = Inr demo_entry"
proof -
  have "passes (check_entry_identity demo_entry)"
    by (simp add: check_entry_identity_def demo_entry_def lock_entry_def demo_preparation_def demo_candidate_def
        demo_files_def runtime_digest_files_def digest_files_def)
  moreover have "passes (check_target demo_target)" "normalise_target demo_target = demo_target"
    using demo_target_valid by (simp_all add: target_model.fixpoint_iff)
  moreover have "is_identifier ''prep-1''" by code_simp
  ultimately show ?thesis
    using demo_candidate_ok demo_registry_ok demo_texts demo_public demo_paths
    by (simp add: entry_model.fixpoint_iff check_lock_entry_def require_public_text_def)
      (simp add: demo_entry_def lock_entry_def demo_preparation_def demo_receipt_def normalise_entry_def demo_files_def
        trim_identifier trim_sha256 sha256_is_sha256 normalise_runtime_file_def check_runtime_file_def
        require_public_portable_text_def require_public_text_def)
qed

text \<open>The lock already holds the entry, so the plan is a no-change and no two digests have to differ.\<close>

lemma demo_lock_valid: "validate_model normalise_lock check_lock [demo_entry] = Inr [demo_entry]"
  using demo_entry_valid
  by (simp add: entry_model.fixpoint_iff lock_model.fixpoint_iff normalise_lock_def check_lock_def)

definition demo_plan :: InstallPlan where
  "demo_plan = planned_result demo_receipt demo_preparation [demo_entry] demo_target [''SKILL.md''] demo_entry"

lemma demo_plan_eq:
  "demo_plan = planned_plan demo_receipt demo_preparation demo_target [''SKILL.md''] demo_entry OpNoChange
     (lock_digest [demo_entry]) (lock_digest [demo_entry])"
proof -
  have "distinct (map entry_key [demo_entry])" by simp
  then have "transition_operation [demo_entry] demo_entry = OpNoChange" "proposed_entries [demo_entry] demo_entry = [demo_entry]"
    using operation_iff(1,3) [of "[demo_entry]" demo_entry] by simp_all
  then show ?thesis by (simp add: demo_plan_def planned_result_def)
qed

lemma demo_plan_valid: "validate_model normalise_plan check_plan demo_plan = Inr demo_plan"
proof -
  have valid: "normalise_receipt demo_receipt = demo_receipt" "normalise_preparation demo_preparation = demo_preparation"
    "normalise_target demo_target = demo_target" "normalise_entry demo_entry = demo_entry"
    "passes (check_target demo_target)" "passes (check_lock_entry demo_entry)"
    using demo_receipt_valid demo_preparation_valid demo_target_valid demo_entry_valid
    by (simp_all add: receipt_model.fixpoint_iff preparation_model.fixpoint_iff target_model.fixpoint_iff
        entry_model.fixpoint_iff)
  have "normalise_plan demo_plan = demo_plan"
    unfolding demo_plan_eq
    by (rule planned_plan_normal [OF valid(1-4)]) (simp_all add: demo_preparation_def demo_texts)
  moreover have "is_identifier ''prep-1''" by code_simp
  then have "passes (check_plan demo_plan)"
    using valid demo_candidate_ok demo_registry_ok demo_texts demo_public demo_paths
    unfolding demo_plan_eq
    by (simp add: check_plan_def status_matches_transition_def validate_planned_state_def planned_plan_id_ok
        lifecycle_plan_id_ok require_public_text_def require_public_portable_text_def demo_entry_def lock_entry_def)
      (simp add: demo_preparation_def demo_receipt_def demo_candidate_def)
  ultimately show ?thesis by (simp add: plan_model.fixpoint_iff)
qed

lemma demo_plan_made:
  "plan_runtime_install demo_receipt demo_preparation [demo_entry] demo_target [''SKILL.md''] = Inr demo_plan"
proof -
  have "identity_blocker demo_receipt demo_preparation = Inr None"
    by (simp add: identity_blocker_def demo_preparation_def demo_receipt_def demo_manifest_def)
  moreover have "planned_transition demo_receipt demo_preparation [demo_entry] demo_target [''SKILL.md''] = Inr demo_plan"
  proof -
    have parts: "pr_candidate demo_receipt = Some demo_candidate" "pr_manifest demo_receipt = Some demo_manifest"
      "pr_package_digest demo_receipt = Some (canonical_json_sha256 (manifest_json demo_manifest))"
      "pm_files demo_manifest = demo_files"
      by (simp_all add: demo_receipt_def demo_manifest_def)
    have "validate_model normalise_lock check_lock (proposed_entries [demo_entry] demo_entry)
        = Inr (proposed_entries [demo_entry] demo_entry)"
      by (rule proposed_valid [OF demo_lock_valid demo_entry_valid])
    then show ?thesis
      using demo_runtime_files demo_entry_valid demo_plan_valid
      by (simp add: planned_transition_def parts Let_def demo_entry_def [symmetric] planned_result_def demo_plan_def)
  qed
  ultimately show ?thesis
    using demo_receipt_valid demo_preparation_valid demo_lock_valid demo_target_valid
    by (simp add: plan_runtime_install_def) (simp add: demo_receipt_def)
qed

end
