(* ===== verification/Archive_Round_Trip.thy ===== *)
theory Archive_Round_Trip
  imports Archive_Verification
begin

text \<open>
  The manifest that an archive carries: reading back the JSON of a manifest yields the manifest, its
  objects have unique keys, and a manifest that is valid survives its own serialisation, parsing
  and validation.
\<close>

lemma those_map_Some: "(\<And>x. x \<in> set xs \<Longrightarrow> f (g x) = Some x) \<Longrightarrow> those (map f (map g xs)) = Some xs"
  by (induction xs) auto

lemma items_of_arr: "(\<And>x. x \<in> set xs \<Longrightarrow> f (g x) = Some x) \<Longrightarrow> items_of f (arr g xs) = Some xs"
  using those_map_Some [of xs f g] by (simp add: arr_def)

lemma items_of_strs: "items_of str_of (strs xs) = Some xs"
  using those_map_Some [of xs str_of JStr] by (simp add: strs_def)

lemma role_round_trip: "role_of (JStr (role_name r)) = Some r"
  by (cases r) simp_all

lemma candidate_round_trip: "candidate_of_json (candidate_json c) = Some c"
  by (simp add: candidate_json_def)

lemma file_round_trip: "file_of_json (file_json f) = Some f"
  by (simp add: file_json_def role_round_trip del: role_of.simps)

lemma provenance_round_trip: "provenance_of_json (manifest_provenance_json p) = Some p"
  by (simp add: manifest_provenance_json_def items_of_strs)

lemma manifest_round_trip: "manifest_of_json (manifest_json m) = Some m"
  by (simp add: manifest_json_def candidate_round_trip items_of_arr file_round_trip provenance_round_trip
      del: candidate_of_json.simps file_of_json.simps provenance_of_json.simps)

lemma manifest_unique_keys: "unique_keys (manifest_json m)"
  by (simp add: manifest_json_def candidate_json_def arr_def file_json_def manifest_provenance_json_def strs_def list_all_iff)

lemma parse_round_trip:
  assumes "normalise_manifest m = m" "passes (check_manifest m)"
    and "json_loads lib data = Some (manifest_json m)" "schema_accepts lib ''package-manifest.v1'' (manifest_json m)"
  shows "parse_manifest lib data = Some m"
proof -
  have "validate_model normalise_manifest check_manifest m = Inr m"
    using assms(1,2) by (simp add: manifest_model.fixpoint_iff)
  then show ?thesis
    using assms(3,4) manifest_round_trip [of m] manifest_unique_keys [of m]
    by (simp add: parse_manifest_def del: manifest_of_json.simps)
qed

end
