(* ===== verification/Demo_Archive.thy ===== *)
theory Demo_Archive
  imports Demo_Package Archive_Round_Trip
begin

text \<open>
  A concrete archive of the demonstration package: a local file header, the central directory of
  its three entries and the end record, and a ZIP library that answers for it. The manifest the
  library's JSON parser returns is the one of \<open>Demo_Package\<close>.
\<close>

definition le16 :: "nat \<Rightarrow> byte list" where
  "le16 n = [of_nat (n mod 256), of_nat (n div 256)]"

definition local_header :: "byte list" where
  "local_header = [80, 75, 3, 4] @ replicate 26 0"

definition central_record :: "string \<Rightarrow> byte list" where
  "central_record name = [80, 75, 1, 2] @ replicate 24 0 @ le16 (length name) @ replicate 16 0 @ utf8 name"

definition demo_names :: "string list" where
  "demo_names = [''package-manifest.json'', ''SKILL.md'', ''README.md'']"

definition demo_snapshot :: "byte list" where
  "demo_snapshot = local_header @ concat (map central_record demo_names)
     @ [80, 75, 5, 6, 0, 0, 0, 0] @ le16 3 @ le16 3 @ le16 176 @ [0, 0] @ le16 30 @ [0, 0, 0, 0]"

definition demo_info :: "string \<Rightarrow> int \<Rightarrow> ZipInfo" where
  "demo_info name n = \<lparr>zi_filename = name, zi_orig_filename = name, zi_external_attr = 0, zi_flag_bits = 0,
     zi_compress_type = 0, zi_file_size = n, zi_header_offset = 0\<rparr>"

definition demo_infos :: "ZipInfo list" where
  "demo_infos = [demo_info ''package-manifest.json'' 2, demo_info ''SKILL.md'' 1, demo_info ''README.md'' 1]"

definition demo_library :: zip_library where
  "demo_library = \<lparr>zip_infolist = (\<lambda>_. Inr demo_infos),
     zip_read = (\<lambda>_ info. Inr (if zi_filename info = ''SKILL.md'' then [1] else if zi_filename info = ''README.md'' then [2] else [123, 125])),
     json_loads = (\<lambda>_. Some (manifest_json demo_manifest)), schema_accepts = (\<lambda>_ _. True)\<rparr>"

definition demo_archive_file :: archive_file where
  "demo_archive_file = FileOpened True 228 (Some demo_snapshot)"

lemma demo_snapshot_bytes: "demo_snapshot =
  [80,75,3,4] @ replicate 26 0
  @ [80,75,1,2] @ replicate 24 0 @ [21,0] @ replicate 16 0 @ [112,97,99,107,97,103,101,45,109,97,110,105,102,101,115,116,46,106,115,111,110]
  @ [80,75,1,2] @ replicate 24 0 @ [8,0] @ replicate 16 0 @ [83,75,73,76,76,46,109,100]
  @ [80,75,1,2] @ replicate 24 0 @ [9,0] @ replicate 16 0 @ [82,69,65,68,77,69,46,109,100]
  @ [80,75,5,6,0,0,0,0,3,0,3,0,176,0,0,0,30,0,0,0,0,0]"
  by code_simp

lemma demo_snapshot_length: "length demo_snapshot = 228"
  by code_simp

lemma demo_directory: "valid_central_directory_at demo_snapshot default_verification_policy 206"
  by code_simp

lemma demo_fives: "list_all (\<lambda>b. b \<noteq> 5) (take 208 demo_snapshot)" "list_all (\<lambda>b. b \<noteq> 5) (drop 209 demo_snapshot)"
  by code_simp+

lemma demo_signature: "bytes_at demo_snapshot 206 4 = EOCD_SIGNATURE"
  by code_simp

lemma demo_signature_unique: "0 \<le> j \<Longrightarrow> bytes_at demo_snapshot j 4 = EOCD_SIGNATURE \<Longrightarrow> j = 206"
proof -
  assume j: "0 \<le> j" "bytes_at demo_snapshot j 4 = EOCD_SIGNATURE"
  let ?i = "nat j + 2"
  have len: "length (bytes_at demo_snapshot j 4) = 4" by (simp add: j(2) EOCD_SIGNATURE_def)
  have bound: "?i < 228" using len by (simp add: bytes_at_def demo_snapshot_length)
  have "bytes_at demo_snapshot j 4 ! 2 = demo_snapshot ! ?i" using bound by (simp add: bytes_at_def demo_snapshot_length)
  then have five: "demo_snapshot ! ?i = 5" by (simp add: j(2) EOCD_SIGNATURE_def)
  have "\<not> ?i < 208"
  proof
    assume "?i < 208"
    then have "take 208 demo_snapshot ! ?i = 5" using five by simp
    moreover have "take 208 demo_snapshot ! ?i \<in> set (take 208 demo_snapshot)"
      using \<open>?i < 208\<close> by (intro nth_mem) (simp add: demo_snapshot_length)
    ultimately show False using demo_fives(1) by (auto simp: list_all_iff)
  qed
  moreover have "\<not> 208 < ?i"
  proof
    assume "208 < ?i"
    then have "drop 209 demo_snapshot ! (?i - 209) = 5" using five by (simp add: demo_snapshot_length)
    moreover have "drop 209 demo_snapshot ! (?i - 209) \<in> set (drop 209 demo_snapshot)"
      using \<open>208 < ?i\<close> bound by (intro nth_mem) (simp add: demo_snapshot_length)
    ultimately show False using demo_fives(2) by (auto simp: list_all_iff)
  qed
  ultimately show "j = 206" using j(1) by linarith
qed

lemma demo_search_start: "search_start demo_snapshot = 0"
  by (simp add: search_start_def byte_len_def demo_snapshot_length EOCD_SIZE_def MAX_ZIP_COMMENT_BYTES_def)

lemma demo_earlier: "earlier demo_snapshot 228 = 206" "earlier demo_snapshot 206 < 0"
proof -
  have sig: "EOCD_SIGNATURE \<noteq> []" "length EOCD_SIGNATURE = 4" "byte_len EOCD_SIGNATURE = 4"
    by (simp_all add: EOCD_SIGNATURE_def byte_len_def)
  have "\<not> earlier demo_snapshot 228 < 206"
    using rfind_spec [of 0 EOCD_SIGNATURE demo_snapshot 228] demo_signature sig
    by (auto simp: earlier_def demo_search_start)
  then show "earlier demo_snapshot 228 = 206"
    using earlier_signature [of demo_snapshot 228] demo_signature_unique by (simp add: demo_search_start)
  have "earlier demo_snapshot 206 < 206" unfolding earlier_def by (rule rfind_less) simp
  then show "earlier demo_snapshot 206 < 0"
    using earlier_signature [of demo_snapshot 206] demo_signature_unique [of "earlier demo_snapshot 206"]
    by (cases "0 \<le> earlier demo_snapshot 206") (auto simp: demo_search_start)
qed

lemma demo_preflight: "preflight_central_directory demo_snapshot default_verification_policy = Some 206"
proof -
  have "u16 demo_snapshot 216 \<noteq> 0" by code_simp
  then have "preflight_loop demo_snapshot default_verification_policy (earlier demo_snapshot 228) None None = Some 206"
    using demo_directory demo_earlier
    by (subst preflight_loop_step) (subst preflight_loop_step, simp add: demo_search_start)
  then show ?thesis
    by (simp add: preflight_central_directory_def earlier_def byte_len_def demo_snapshot_length)
qed

lemma demo_read: "read_snapshot demo_archive_file default_verification_policy = Inr demo_snapshot"
  by (simp add: read_snapshot_def demo_archive_file_def default_verification_policy_def read_bounded_bytes_eq
      demo_snapshot_length)

lemma demo_local: "bytes_at demo_snapshot 0 4 = [80, 75, 3, 4]" "u16 demo_snapshot 8 = 0"
  by code_simp+

lemma demo_check_entry:
  assumes "portable name" "name \<notin> set seen" "CHR 0x00 \<notin> set name" "\<not> ends_with name ''/''"
  shows "check_entry demo_snapshot seen (demo_info name n) = Inr name"
  using assms demo_local
  by (simp add: check_entry_def demo_info_def entry_path_def Let_def zip_is_dir_def portable_def ZIP_STORED_def
      local_compression_matches_def is_symlink_def byte_len_def demo_snapshot_length)

lemma demo_names_ok: "portable ''package-manifest.json''"
  "\<not> ends_with ''package-manifest.json'' ''/''" "\<not> ends_with ''SKILL.md'' ''/''" "\<not> ends_with ''README.md'' ''/''"
  by code_simp+

definition demo_entries :: "(string \<times> ZipInfo) list" where
  "demo_entries = map (\<lambda>i. (zi_filename i, i)) demo_infos"

lemma demo_validate_entries: "validate_entries demo_infos default_verification_policy demo_snapshot = Inr demo_entries"
proof -
  have small: "\<not> int (length demo_infos) > vp_max_entry_count default_verification_policy"
    "\<not> sum_list (map zi_file_size demo_infos) > vp_max_total_uncompressed_bytes default_verification_policy"
    by (simp_all add: demo_infos_def demo_info_def default_verification_policy_def)
  have "collect_entries demo_snapshot demo_infos [] = Inr demo_entries"
    using demo_names_ok demo_paths
    by (simp add: demo_infos_def demo_check_entry) (simp add: demo_entries_def demo_infos_def demo_info_def)
  then show ?thesis using small by (simp add: validate_entries_def)
qed

lemma demo_read_manifest:
  "read_manifest demo_library archive (demo_info ''package-manifest.json'' 2) = Inr (Some demo_manifest)"
proof -
  have "parse_manifest demo_library [123, 125] = Some demo_manifest"
    by (rule parse_round_trip [OF demo_manifest_ok]) (simp_all add: demo_library_def)
  then show ?thesis
    by (simp add: read_manifest_def demo_library_def demo_info_def lift_zip_def read_bounded_bytes_eq byte_len_def Let_def)
qed

lemma demo_payload_record:
  "verify_record demo_library archive demo_entries \<lparr>mf_path = ''SKILL.md'', mf_sha256 = sha256 [1], mf_size_bytes = 1, mf_role = r\<rparr> = Inr ()"
  "verify_record demo_library archive demo_entries \<lparr>mf_path = ''README.md'', mf_sha256 = sha256 [2], mf_size_bytes = 1, mf_role = r\<rparr> = Inr ()"
  by (simp_all add: verify_record_def demo_entries_def demo_infos_def demo_info_def demo_library_def lift_zip_def byte_len_def)

lemma demo_verify_payload: "verify_payload demo_library archive demo_entries demo_manifest = Inr ()"
proof -
  have paths: "manifest_paths demo_manifest = [''SKILL.md'', ''README.md'']"
    by (simp add: manifest_paths_def demo_manifest_def demo_files_def)
  have entries: "[p \<leftarrow> map fst demo_entries. p \<noteq> MANIFEST_PATH] = [''SKILL.md'', ''README.md'']"
    by (simp add: demo_entries_def demo_infos_def demo_info_def MANIFEST_PATH_def)
  have none: "sorted_missing [''SKILL.md'', ''README.md''] [''SKILL.md'', ''README.md''] = []"
    by (simp add: sorted_missing_Nil)
  have "set (sort_key mf_path demo_files) = set demo_files" by simp
  moreover have "\<forall>f \<in> set demo_files. verify_record demo_library archive demo_entries f = Inr ()"
    by (simp add: demo_files_def demo_payload_record)
  ultimately have "\<forall>f \<in> set (sort_key mf_path demo_files). verify_record demo_library archive demo_entries f = Inr ()"
    by blast
  moreover have "verify_records demo_library archive demo_entries fs = Inr ()"
    if "\<forall>f \<in> set fs. verify_record demo_library archive demo_entries f = Inr ()" for fs
    using that by (induction fs) simp_all
  ultimately show ?thesis
    by (simp add: verify_payload_def Let_def paths entries none) (simp add: demo_manifest_def)
qed

lemma demo_verify_bindings:
  "verify_bindings demo_manifest (Some demo_receipt) = Inr (canonical_json_sha256 (manifest_json demo_manifest))"
proof -
  have "is_ok (validate_model normalise_receipt check_receipt demo_receipt)" by (simp add: demo_receipt_valid)
  moreover have "normalise_receipt demo_receipt = demo_receipt"
    by (rule receipt_model.validated_is_normal [OF demo_receipt_valid])
  moreover have "pr_schema_version demo_receipt = ReceiptV2" "pr_status demo_receipt = Built"
    "pr_candidate demo_receipt = Some (pm_candidate demo_manifest)" "pr_manifest demo_receipt = Some demo_manifest"
    "pr_package_digest demo_receipt = Some (canonical_json_sha256 (manifest_json demo_manifest))"
    by (simp_all add: demo_receipt_def demo_manifest_def)
  moreover have "candidate_content_sha256 (digest_files (pm_files demo_manifest)) = content_sha256 (pm_candidate demo_manifest)"
    by (simp add: demo_manifest_def demo_candidate_def)
  ultimately show ?thesis by (simp add: verify_bindings_def Let_def)
qed

lemma demo_verify_stages:
  "verify_stages demo_library demo_archive_file None (Some demo_receipt) default_verification_policy
     = Inr (sha256 demo_snapshot, demo_manifest, canonical_json_sha256 (manifest_json demo_manifest))"
proof -
  have "zip_infolist demo_library archive = Inr demo_infos" for archive by (simp add: demo_library_def)
  moreover have "map_of demo_entries MANIFEST_PATH = Some (demo_info ''package-manifest.json'' 2)"
    by (simp add: demo_entries_def demo_infos_def demo_info_def MANIFEST_PATH_def)
  moreover have "\<not> byte_len demo_snapshot > vp_max_archive_bytes default_verification_policy"
    by (simp add: byte_len_def demo_snapshot_length default_verification_policy_def)
  ultimately show ?thesis
    by (simp add: verify_stages_def Let_def demo_read demo_preflight lift_zip_def demo_validate_entries demo_read_manifest
        demo_verify_payload demo_verify_bindings)
qed

definition demo_pass :: PackageArchiveVerificationReceipt where
  "demo_pass = pass_receipt (sha256 demo_snapshot) demo_manifest (canonical_json_sha256 (manifest_json demo_manifest))"

lemma demo_verify: "verify_package_archive demo_library demo_archive_file None (Some demo_receipt) None = Inr demo_pass"
proof (cases rule: verify_package_archive_cases [of demo_library demo_archive_file None "Some demo_receipt" None])
  case (pass d m pd)
  then show ?thesis using demo_verify_stages by (simp add: demo_pass_def)
next
  case (blocked r)
  then show ?thesis
    using demo_verify_stages pass_receipt_valid [OF demo_verify_stages]
    by (simp add: verify_package_archive_def demo_pass_def pass_receipt_def)
qed

end
