(* ===== verification/Provider.thy ===== *)
theory Provider
  imports Registry
begin

text \<open>
  \<^verbatim>\<open>models/provider.py\<close>: the identity of an external provider and its adapter, in the two versions of
  the schema (the classes have the same fields, so they share a record and differ in their checks).
  Every field's validator runs before stripping and refuses surrounding white space, so the models
  have no normalisation. The lemmas: every credential shape of the first version is one of the
  second, and the identity pattern as a condition on characters.
\<close>

datatype ProviderKind = Llm | Agent | External

fun provider_kind_name :: "ProviderKind \<Rightarrow> string" where
  "provider_kind_name Llm = ''llm''"
| "provider_kind_name Agent = ''agent''"
| "provider_kind_name External = ''external''"

definition is_provider_slug :: "string \<Rightarrow> bool" where
  "is_provider_slug s = (length s \<le> 64 \<and> is_identifier s)"

definition identity_char :: "char \<Rightarrow> bool" where
  "identity_char c = (is_alnum c \<or> c \<in> set ''._:+-'')"

definition identity_rx :: rx where
  "identity_rx = Seq (Cls is_alnum) (Star (Cls identity_char))"

definition is_identity_text :: "string \<Rightarrow> bool" where
  "is_identity_text s = (length s \<le> 128 \<and> rx_fullmatch identity_rx s)"

definition is_model_identity_text :: "string \<Rightarrow> bool" where
  "is_model_identity_text s =
     (length s \<le> 128 \<and> rx_fullmatch (Seq identity_rx (Star (Seq (chr (CHR ''/'')) identity_rx))) s)"

section \<open>Credential shapes\<close>

definition V1_CREDENTIAL_PREFIXES :: "string list" where
  "V1_CREDENTIAL_PREFIXES = [''akia'', ''bearer'', ''ghp_'', ''github_pat_'', ''sk-'', ''xoxb-'', ''xoxp-'']"

definition V2_CREDENTIAL_PREFIXES :: "string list" where
  "V2_CREDENTIAL_PREFIXES =
     [''aiza'', ''akia'', ''bearer'', ''ghp_'', ''github_pat_'', ''hf_'', ''sk-'', ''xoxb-'', ''xoxp-'']"

definition v1_credential_component :: "string \<Rightarrow> bool" where
  "v1_credential_component = after_boundary (\<lambda>c. c \<in> set ''._:+-'') (alts (map lit_ci V1_CREDENTIAL_PREFIXES))"

definition v2_credential_component :: "string \<Rightarrow> bool" where
  "v2_credential_component = after_boundary (\<lambda>c. c \<in> set ''._:+/-'') (alts (map lit_ci V2_CREDENTIAL_PREFIXES))"

text \<open>\<open>_URI_SCHEME_PATTERN.match\<close>: a scheme and a colon at the start.\<close>

definition uri_scheme_rx :: rx where
  "uri_scheme_rx = seqs [Cls (\<lambda>c. is_lower c \<or> is_upper c),
     Star (Cls (\<lambda>c. is_alnum c \<or> c \<in> set ''+.-'')), chr (CHR '':'')]"

definition has_uri_scheme :: "string \<Rightarrow> bool" where
  "has_uri_scheme value = rx_fullmatch (Seq uri_scheme_rx any_text) value"

section \<open>Identities\<close>

record ProviderIdentity =
  pi_provider_id :: string
  pi_provider_kind :: ProviderKind
  pi_model_id :: string
  pi_version_or_digest :: string
  pi_adapter_id :: string
  pi_adapter_version_or_digest :: string

definition identity_text_is_redaction_safe :: "(string \<Rightarrow> bool) \<Rightarrow> string \<Rightarrow> (bool \<times> string) list" where
  "identity_text_is_redaction_safe credential value =
     [(value \<noteq> strip value, ''provider identity text must not contain surrounding whitespace''),
      (credential value, ''provider identity text must not contain credential-shaped values'')]"

definition check_provider_identity :: "ProviderIdentity \<Rightarrow> (bool \<times> string) list" where
  "check_provider_identity p =
     identity_text_is_redaction_safe v1_credential_component (pi_provider_id p)
     @ field ''provider_id'' (is_provider_slug (pi_provider_id p))
     @ identity_text_is_redaction_safe v1_credential_component (pi_model_id p)
     @ field ''model_id'' (is_identity_text (pi_model_id p))
     @ identity_text_is_redaction_safe v1_credential_component (pi_version_or_digest p)
     @ field ''version_or_digest'' (is_identity_text (pi_version_or_digest p))
     @ identity_text_is_redaction_safe v1_credential_component (pi_adapter_id p)
     @ field ''adapter_id'' (is_provider_slug (pi_adapter_id p))
     @ identity_text_is_redaction_safe v1_credential_component (pi_adapter_version_or_digest p)
     @ field ''adapter_version_or_digest'' (is_identity_text (pi_adapter_version_or_digest p))"

definition check_provider_identity_v2 :: "ProviderIdentity \<Rightarrow> (bool \<times> string) list" where
  "check_provider_identity_v2 p =
     identity_text_is_redaction_safe v2_credential_component (pi_provider_id p)
     @ field ''provider_id'' (is_provider_slug (pi_provider_id p))
     @ identity_text_is_redaction_safe v2_credential_component (pi_model_id p)
     @ [(has_uri_scheme (pi_model_id p), ''provider model_id must not be a URI'')]
     @ field ''model_id'' (is_model_identity_text (pi_model_id p))
     @ identity_text_is_redaction_safe v2_credential_component (pi_version_or_digest p)
     @ field ''version_or_digest'' (is_identity_text (pi_version_or_digest p))
     @ identity_text_is_redaction_safe v2_credential_component (pi_adapter_id p)
     @ field ''adapter_id'' (is_provider_slug (pi_adapter_id p))
     @ identity_text_is_redaction_safe v2_credential_component (pi_adapter_version_or_digest p)
     @ field ''adapter_version_or_digest'' (is_identity_text (pi_adapter_version_or_digest p))"

definition provider_identity_json :: "string \<Rightarrow> ProviderIdentity \<Rightarrow> json" where
  "provider_identity_json schema_version p =
     JObj [(''schema_version'', JStr schema_version), (''provider_id'', JStr (pi_provider_id p)),
           (''provider_kind'', JStr (provider_kind_name (pi_provider_kind p))),
           (''model_id'', JStr (pi_model_id p)), (''version_or_digest'', JStr (pi_version_or_digest p)),
           (''adapter_id'', JStr (pi_adapter_id p)),
           (''adapter_version_or_digest'', JStr (pi_adapter_version_or_digest p))]"

definition provider_v2_json :: "ProviderIdentity \<Rightarrow> json" where
  "provider_v2_json = provider_identity_json ''provider-identity/v2''"

interpretation provider_model: contract_model id check_provider_identity
  by unfold_locales simp

interpretation provider_v2_model: contract_model id check_provider_identity_v2
  by unfold_locales simp

section \<open>The second version is the stricter one\<close>

lemma lit_ci_prefixes: "matches (alts (map lit_ci V1_CREDENTIAL_PREFIXES)) v \<Longrightarrow>
    matches (alts (map lit_ci V2_CREDENTIAL_PREFIXES)) v"
  by (simp add: matches_alts V1_CREDENTIAL_PREFIXES_def V2_CREDENTIAL_PREFIXES_def del: lit_ci.simps) auto

lemma v1_component_v2: "v1_credential_component s \<Longrightarrow> v2_credential_component s"
  unfolding v1_credential_component_def v2_credential_component_def after_boundary_iff
  using lit_ci_prefixes by fastforce

lemma identity_rx_iff: "rx_fullmatch identity_rx s \<longleftrightarrow>
    (\<exists>c u. s = c # u \<and> is_alnum c \<and> (\<forall>d \<in> set u. identity_char d))"
  by (simp add: rx_fullmatch_iff identity_rx_def matches_Seq_Cls matches_star_iff)

end
