(* ===== verification/Provider_Execution.thy ===== *)
theory Provider_Execution
  imports Provider
begin

text \<open>
  \<^verbatim>\<open>models/provider_execution.py\<close>: the secret-free envelopes around a provider execution, and the
  checks that bind a result to its request and to the result it replays. Validators that refuse
  surrounding white space run before stripping, so these models have no normalisation.

  A time stamp is a parsed \<open>aware_datetime\<close>: an instant in microseconds and the offset it was
  written with. How pydantic renders one in JSON is third-party code: the parameter \<open>render\<close> of the
  JSON functions.
\<close>

section \<open>Time stamps\<close>

record aware_datetime =
  dt_instant :: int
  dt_offset :: int

text \<open>\<^verbatim>\<open>datetime.isoformat()\<close>: the proleptic Gregorian date of the local time, in digits.\<close>

definition civil_date :: "int \<Rightarrow> int \<times> int \<times> int" where
  "civil_date days =
     (let z = days + 719468;
          doe = z mod 146097;
          yoe = (doe - doe div 1460 + doe div 36524 - doe div 146096) div 365;
          doy = doe - (365 * yoe + yoe div 4 - yoe div 100);
          mp = (5 * doy + 2) div 153;
          month = (if mp < 10 then mp + 3 else mp - 9);
          year = yoe + 400 * (z div 146097) + (if month \<le> 2 then 1 else 0)
      in (year, month, doy - (153 * mp + 2) div 5 + 1))"

definition pad_zeros :: "nat \<Rightarrow> int \<Rightarrow> string" where
  "pad_zeros width n = (let s = show_int n in replicate (width - length s) (CHR ''0'') @ s)"

definition iso_seconds :: "int \<Rightarrow> string" where
  "iso_seconds us = pad_zeros 2 (us div 1000000 mod 60)
     @ (if us mod 1000000 = 0 then [] else CHR ''.'' # pad_zeros 6 (us mod 1000000))"

definition iso_offset :: "int \<Rightarrow> string" where
  "iso_offset offset =
     (let us = \<bar>offset\<bar> in
      (if offset < 0 then CHR ''-'' else CHR ''+'') # pad_zeros 2 (us div 3600000000) @ CHR '':'' # pad_zeros 2 (us div 60000000 mod 60)
      @ (if us mod 60000000 = 0 then [] else CHR '':'' # iso_seconds us))"

definition isoformat :: "aware_datetime \<Rightarrow> string" where
  "isoformat t =
     (let us = dt_instant t + dt_offset t;
          (year, month, day) = civil_date (us div 86400000000)
      in pad_zeros 4 year @ CHR ''-'' # pad_zeros 2 month @ CHR ''-'' # pad_zeros 2 day
         @ CHR ''T'' # pad_zeros 2 (us div 3600000000 mod 24) @ CHR '':'' # pad_zeros 2 (us div 60000000 mod 60)
         @ CHR '':'' # iso_seconds us @ iso_offset (dt_offset t))"

text \<open>\<open>_RFC3339_PATTERN.fullmatch\<close>\<close>

definition digits_rx :: "nat \<Rightarrow> rx" where
  "digits_rx n = times n (Cls is_digit)"

definition RFC3339_PATTERN :: rx where
  "RFC3339_PATTERN = seqs
     [digits_rx 4, chr (CHR ''-''), digits_rx 2, chr (CHR ''-''), digits_rx 2, one_of ''Tt'',
      digits_rx 2, chr (CHR '':''), digits_rx 2, chr (CHR '':''), digits_rx 2,
      opt (Seq (chr (CHR ''.'')) (plus (Cls is_digit))),
      Alt (one_of ''Zz'') (seqs [one_of ''+-'', digits_rx 2, chr (CHR '':''), digits_rx 2])]"

definition rfc3339 :: "string \<Rightarrow> bool" where
  "rfc3339 s = rx_fullmatch RFC3339_PATTERN s"

section \<open>Public text\<close>

definition private_key_rx :: rx where
  "private_key_rx = seqs
     [lit_ci ''-----begin'',
      opt (Seq (chr (CHR '' '')) (plus (Cls is_alnum))), lit_ci '' private key-----'']"

definition execution_secret_rx :: rx where
  "execution_secret_rx = seqs
     [alts [seqs [lit_ci ''api'', opt (one_of ''_-''), lit_ci ''key''], lit_ci ''credential'', lit_ci ''password'',
            seqs [lit_ci ''private'', opt (one_of ''_ -''), lit_ci ''key''], lit_ci ''secret'', lit_ci ''token''],
      opt (one_of [CHR 0x22, CHR 0x27]), Star (Cls py_space), one_of '':='']"

text \<open>\<open>_CREDENTIAL_PATTERN.search\<close>\<close>

definition execution_credential :: "string \<Rightarrow> bool" where
  "execution_credential value =
     (rx_search private_key_rx value
      \<or> after_boundary (\<lambda>c. \<not> is_alnum c) credential_prefix_rx value
      \<or> after_boundary (\<lambda>c. \<not> is_alnum c) execution_secret_rx value)"

definition slash :: "char \<Rightarrow> bool" where
  "slash c = (c = CHR ''/'' \<or> c = CHR 0x5C)"

definition machine_root_rx :: rx where
  "machine_root_rx = seqs
     [opt (lit_ci ''file:''), plus (chr (CHR ''/'')),
      alts [lit_ci ''users'', lit_ci ''home'', lit_ci ''private'', lit_ci ''tmp'', lit_ci ''workspace'', lit_ci ''var/folders''],
      chr (CHR ''/'')]"

definition drive_rx :: rx where
  "drive_rx = seqs
     [Cls (\<lambda>c. is_lower c \<or> is_upper c), chr (CHR '':''), plus (Cls slash), Alt (lit_ci ''users'') (lit_ci ''home''), Cls slash]"

definition home_component_rx :: rx where
  "home_component_rx =
     (let home = alts [lit_ci ''home'', lit_ci ''user'', lit_ci ''userprofile''] in
      alts [seqs [chr (CHR ''$''), opt (chr (CHR ''{'')), home, opt (chr (CHR ''}''))],
            seqs [chr (CHR 0x25), home, chr (CHR 0x25)], lit_ci ''root'', chr (CHR ''~'')])"

text \<open>\<^verbatim>\<open>(?:[\\/]|$)\<close>: \<^verbatim>\<open>$\<close> also matches before a newline that ends the text.\<close>

definition component_end_rx :: rx where
  "component_end_rx = Alt (Seq (Cls slash) any_text) (opt (chr (CHR 0x0A)))"

definition home_component :: "string \<Rightarrow> bool" where
  "home_component value =
     rx_fullmatch (Seq (Alt One (Seq any_text (Cls slash))) (Seq home_component_rx component_end_rx)) value"

definition machine_path :: "string \<Rightarrow> bool" where
  "machine_path value = (rx_search machine_root_rx value \<or> rx_search drive_rx value \<or> home_component value)"

definition identity_is_public :: "string \<Rightarrow> bool" where
  "identity_is_public value = (\<not> execution_credential value \<and> \<not> machine_path value)"

definition candidate_is_public :: "PackageCandidateIdentity \<Rightarrow> bool" where
  "candidate_is_public c = identity_is_public (package_id c)"

section \<open>Blockers, errors and usage\<close>

text \<open>\<open>_require_normalized_text\<close> and the redaction check of an identity field, on its raw text.\<close>

definition require_normalized_text :: "string \<Rightarrow> string \<Rightarrow> (bool \<times> string) list" where
  "require_normalized_text field_group value =
     [(value \<noteq> strip value, ''provider execution '' @ field_group @ '' must already be normalized'')]"

definition public_id_checks :: "string \<Rightarrow> string \<Rightarrow> string \<Rightarrow> (bool \<times> string) list" where
  "public_id_checks field_group message value =
     require_normalized_text field_group value @ [(\<not> identity_is_public value, message)]"

definition evidence_checks :: "string \<Rightarrow> string list \<Rightarrow> (bool \<times> string) list" where
  "evidence_checks owner values =
     [(has_duplicates values, ''provider execution '' @ owner @ '' evidence refs must be unique'')]
     @ each (\<lambda>value. [(\<not> portable value, ''invalid_portable_path''),
                      (\<not> identity_is_public value,
                       ''provider execution '' @ owner @ '' evidence must not contain credential-shaped values'')])
         values"

datatype FailureCategory =
  CatProvider | CatAdapter | CatTransport | CatTimeout | CatPolicy | CatSafety | CatInput | CatUnknown

fun category_name :: "FailureCategory \<Rightarrow> string" where
  "category_name CatProvider = ''provider''"
| "category_name CatAdapter = ''adapter''"
| "category_name CatTransport = ''transport''"
| "category_name CatTimeout = ''timeout''"
| "category_name CatPolicy = ''policy''"
| "category_name CatSafety = ''safety''"
| "category_name CatInput = ''input''"
| "category_name CatUnknown = ''unknown''"

record ProviderExecutionBlocker =
  xb_code :: string
  xb_category :: FailureCategory
  xb_evidence_refs :: "string list"

definition check_execution_blocker :: "ProviderExecutionBlocker \<Rightarrow> (bool \<times> string) list" where
  "check_execution_blocker b =
     public_id_checks ''blocker code'' ''provider execution blocker code must not contain credential-shaped values'' (xb_code b)
     @ field ''code'' (is_blocker_code (xb_code b))
     @ field ''category'' (xb_category b \<noteq> CatTimeout)
     @ evidence_checks ''blocker'' (xb_evidence_refs b)"

definition execution_blocker_json :: "ProviderExecutionBlocker \<Rightarrow> json" where
  "execution_blocker_json b =
     JObj [(''code'', JStr (xb_code b)), (''category'', JStr (category_name (xb_category b))),
           (''evidence_refs'', strs (xb_evidence_refs b))]"

record ProviderExecutionError =
  xe_code :: string
  xe_category :: FailureCategory
  xe_retryable :: bool
  xe_evidence_refs :: "string list"

definition check_execution_error :: "ProviderExecutionError \<Rightarrow> (bool \<times> string) list" where
  "check_execution_error e =
     public_id_checks ''error code'' ''provider execution error code must not contain credential-shaped values'' (xe_code e)
     @ field ''code'' (is_blocker_code (xe_code e))
     @ field ''category'' (xe_category e \<notin> {CatSafety, CatInput})
     @ field ''evidence_refs'' (xe_evidence_refs e \<noteq> [])
     @ evidence_checks ''error'' (xe_evidence_refs e)"

definition execution_error_json :: "ProviderExecutionError \<Rightarrow> json" where
  "execution_error_json e =
     JObj [(''code'', JStr (xe_code e)), (''category'', JStr (category_name (xe_category e))),
           (''retryable'', JBool (xe_retryable e)), (''evidence_refs'', strs (xe_evidence_refs e))]"

datatype UnitKind = Tokens | Characters | Items | ProviderUnits

fun unit_kind_name :: "UnitKind \<Rightarrow> string" where
  "unit_kind_name Tokens = ''tokens''"
| "unit_kind_name Characters = ''characters''"
| "unit_kind_name Items = ''items''"
| "unit_kind_name ProviderUnits = ''provider_units''"

record ProviderUsageMetadata =
  us_unit_kind :: UnitKind
  us_input_units :: int
  us_output_units :: int
  us_total_units :: int

definition check_usage :: "ProviderUsageMetadata \<Rightarrow> (bool \<times> string) list" where
  "check_usage u =
     field ''input_units'' (0 \<le> us_input_units u)
     @ field ''output_units'' (0 \<le> us_output_units u)
     @ field ''total_units'' (0 \<le> us_total_units u)
     @ [(us_total_units u \<noteq> us_input_units u + us_output_units u,
         ''provider usage total must match input and output units'')]"

definition usage_json :: "ProviderUsageMetadata \<Rightarrow> json" where
  "usage_json u =
     JObj [(''unit_kind'', JStr (unit_kind_name (us_unit_kind u))), (''input_units'', JInt (us_input_units u)),
           (''output_units'', JInt (us_output_units u)), (''total_units'', JInt (us_total_units u))]"

interpretation execution_blocker_model: contract_model id check_execution_blocker
  by unfold_locales simp

interpretation execution_error_model: contract_model id check_execution_error
  by unfold_locales simp

interpretation usage_model: contract_model id check_usage
  by unfold_locales simp

section \<open>The request\<close>

datatype Capability = ResponseGeneration | AgentRun | Embedding | Classification | OtherCapability

fun capability_name :: "Capability \<Rightarrow> string" where
  "capability_name ResponseGeneration = ''response_generation''"
| "capability_name AgentRun = ''agent_run''"
| "capability_name Embedding = ''embedding''"
| "capability_name Classification = ''classification''"
| "capability_name OtherCapability = ''other''"

record ProviderExecutionRequest =
  xr_request_id :: string
  xr_candidate :: PackageCandidateIdentity
  xr_scenario_set_id :: string
  xr_case_id :: string
  xr_provider :: ProviderIdentity
  xr_declared_capability :: Capability
  xr_input_sha256 :: string
  xr_idempotency_key_sha256 :: string
  xr_package_safety_receipt_id :: string
  xr_package_safety_receipt_sha256 :: string
  xr_prepared_at :: aware_datetime
  xr_prepared :: bool
  xr_blocker :: "ProviderExecutionBlocker option"
  xr_evidence_refs :: "string list"

definition public_id :: "string \<Rightarrow> string \<Rightarrow> (bool \<times> string) list" where
  "public_id name value =
     public_id_checks ''identity'' ''provider execution identity must not contain credential-shaped values'' value
     @ field name (is_identifier value)"

definition normalized_digest :: "string \<Rightarrow> string \<Rightarrow> (bool \<times> string) list" where
  "normalized_digest name value = require_normalized_text ''digest bindings'' value @ field name (is_sha256 value)"

text \<open>The candidate's fields are checked for white space, then the candidate, then its identifier.\<close>

definition check_public_candidate :: "PackageCandidateIdentity \<Rightarrow> (bool \<times> string) list" where
  "check_public_candidate c =
     each (require_normalized_text ''candidate identity fields'') [package_id c, source_revision c, content_sha256 c]
     @ check_candidate c
     @ [(\<not> candidate_is_public c,
         ''provider execution candidate package id must not contain credential-shaped values'')]"

definition check_execution_request :: "ProviderExecutionRequest \<Rightarrow> (bool \<times> string) list" where
  "check_execution_request r =
     public_id ''request_id'' (xr_request_id r)
     @ check_public_candidate (xr_candidate r)
     @ public_id ''scenario_set_id'' (xr_scenario_set_id r)
     @ public_id ''case_id'' (xr_case_id r)
     @ check_provider_identity_v2 (xr_provider r)
     @ normalized_digest ''input_sha256'' (xr_input_sha256 r)
     @ normalized_digest ''idempotency_key_sha256'' (xr_idempotency_key_sha256 r)
     @ public_id ''package_safety_receipt_id'' (xr_package_safety_receipt_id r)
     @ normalized_digest ''package_safety_receipt_sha256'' (xr_package_safety_receipt_sha256 r)
     @ opt_checks check_execution_blocker (xr_blocker r)
     @ evidence_checks ''request'' (xr_evidence_refs r)
     @ [(xr_prepared r \<and> xr_blocker r \<noteq> None, ''prepared provider execution request cannot contain a blocker''),
        (\<not> xr_prepared r \<and> xr_blocker r = None, ''blocked provider execution request requires a blocker'')]"

definition execution_request_json :: "(aware_datetime \<Rightarrow> string) \<Rightarrow> ProviderExecutionRequest \<Rightarrow> json" where
  "execution_request_json render r =
     JObj [(''schema_version'', JStr ''provider-execution-request/v1''), (''request_id'', JStr (xr_request_id r)),
           (''candidate'', candidate_json (xr_candidate r)), (''scenario_set_id'', JStr (xr_scenario_set_id r)),
           (''case_id'', JStr (xr_case_id r)), (''provider'', provider_v2_json (xr_provider r)),
           (''declared_capability'', JStr (capability_name (xr_declared_capability r))),
           (''input_sha256'', JStr (xr_input_sha256 r)),
           (''idempotency_key_sha256'', JStr (xr_idempotency_key_sha256 r)),
           (''package_safety_receipt_id'', JStr (xr_package_safety_receipt_id r)),
           (''package_safety_receipt_sha256'', JStr (xr_package_safety_receipt_sha256 r)),
           (''prepared_at'', JStr (render (xr_prepared_at r))),
           (''status'', JStr (if xr_prepared r then ''prepared'' else ''blocked'')),
           (''blocker'', opt_json execution_blocker_json (xr_blocker r)),
           (''evidence_refs'', strs (xr_evidence_refs r)),
           (''provider_execution_performed'', JBool False), (''credentials_included'', JBool False),
           (''raw_payloads_included'', JBool False), (''cost_claimed'', JBool False)]"

interpretation execution_request_model: contract_model id check_execution_request
  by unfold_locales simp

section \<open>The result\<close>

datatype ExecutionStatus = Completed | Failed | ExecutionBlocked | Indeterminate

fun execution_status_name :: "ExecutionStatus \<Rightarrow> string" where
  "execution_status_name Completed = ''completed''"
| "execution_status_name Failed = ''failed''"
| "execution_status_name ExecutionBlocked = ''blocked''"
| "execution_status_name Indeterminate = ''indeterminate''"

record ProviderExecutionResult =
  xs_result_id :: string
  xs_request_id :: string
  xs_request_sha256 :: string
  xs_idempotency_key_sha256 :: string
  xs_candidate :: PackageCandidateIdentity
  xs_scenario_set_id :: string
  xs_case_id :: string
  xs_provider :: ProviderIdentity
  xs_status :: ExecutionStatus
  xs_started_at :: aware_datetime
  xs_finished_at :: aware_datetime
  xs_output_sha256 :: "string option"
  xs_usage :: "ProviderUsageMetadata option"
  xs_evidence_refs :: "string list"
  xs_blocker :: "ProviderExecutionBlocker option"
  xs_error :: "ProviderExecutionError option"
  xs_replay_of_result_id :: "string option"
  xs_replay_of_result_sha256 :: "string option"

definition status_matches_observation :: "ProviderExecutionResult \<Rightarrow> (bool \<times> string) list" where
  "status_matches_observation r =
     [((xs_replay_of_result_id r = None) \<noteq> (xs_replay_of_result_sha256 r = None),
       ''provider replay identity and digest must be supplied together''),
      (xs_replay_of_result_id r = Some (xs_result_id r), ''provider execution result cannot replay itself''),
      (dt_instant (xs_finished_at r) < dt_instant (xs_started_at r),
       ''provider execution result cannot finish before it starts''),
      (case xs_status r of
         Completed \<Rightarrow> (xs_output_sha256 r = None \<or> xs_evidence_refs r = [] \<or> xs_blocker r \<noteq> None \<or> xs_error r \<noteq> None,
           ''completed provider execution requires output evidence and no failure'')
       | Failed \<Rightarrow> (xs_error r = None \<or> xs_blocker r \<noteq> None \<or> xs_output_sha256 r \<noteq> None,
           ''failed provider execution requires only a typed error'')
       | ExecutionBlocked \<Rightarrow>
           (xs_blocker r = None \<or> xs_error r \<noteq> None \<or> xs_output_sha256 r \<noteq> None \<or> xs_usage r \<noteq> None,
            ''blocked provider execution requires only a blocker'')
       | Indeterminate \<Rightarrow>
           (xs_error r = None \<or> xs_blocker r \<noteq> None \<or> xs_output_sha256 r \<noteq> None \<or> xs_usage r \<noteq> None,
            ''indeterminate provider execution requires only a typed error''))]"

definition check_execution_result :: "ProviderExecutionResult \<Rightarrow> (bool \<times> string) list" where
  "check_execution_result r =
     public_id ''result_id'' (xs_result_id r)
     @ public_id ''request_id'' (xs_request_id r)
     @ normalized_digest ''request_sha256'' (xs_request_sha256 r)
     @ normalized_digest ''idempotency_key_sha256'' (xs_idempotency_key_sha256 r)
     @ check_public_candidate (xs_candidate r)
     @ public_id ''scenario_set_id'' (xs_scenario_set_id r)
     @ public_id ''case_id'' (xs_case_id r)
     @ check_provider_identity_v2 (xs_provider r)
     @ opt_checks (normalized_digest ''output_sha256'') (xs_output_sha256 r)
     @ opt_checks check_usage (xs_usage r)
     @ evidence_checks ''result'' (xs_evidence_refs r)
     @ opt_checks check_execution_blocker (xs_blocker r)
     @ opt_checks check_execution_error (xs_error r)
     @ opt_checks (public_id ''replay_of_result_id'') (xs_replay_of_result_id r)
     @ opt_checks (normalized_digest ''replay_of_result_sha256'') (xs_replay_of_result_sha256 r)
     @ status_matches_observation r"

definition execution_result_json :: "(aware_datetime \<Rightarrow> string) \<Rightarrow> ProviderExecutionResult \<Rightarrow> json" where
  "execution_result_json render r =
     JObj [(''schema_version'', JStr ''provider-execution-result/v1''), (''result_id'', JStr (xs_result_id r)),
           (''request_id'', JStr (xs_request_id r)), (''request_sha256'', JStr (xs_request_sha256 r)),
           (''idempotency_key_sha256'', JStr (xs_idempotency_key_sha256 r)),
           (''candidate'', candidate_json (xs_candidate r)), (''scenario_set_id'', JStr (xs_scenario_set_id r)),
           (''case_id'', JStr (xs_case_id r)), (''provider'', provider_v2_json (xs_provider r)),
           (''status'', JStr (execution_status_name (xs_status r))),
           (''started_at'', JStr (render (xs_started_at r))), (''finished_at'', JStr (render (xs_finished_at r))),
           (''output_sha256'', opt_json JStr (xs_output_sha256 r)), (''usage'', opt_json usage_json (xs_usage r)),
           (''evidence_refs'', strs (xs_evidence_refs r)),
           (''blocker'', opt_json execution_blocker_json (xs_blocker r)),
           (''error'', opt_json execution_error_json (xs_error r)),
           (''replay_of_result_id'', opt_json JStr (xs_replay_of_result_id r)),
           (''replay_of_result_sha256'', opt_json JStr (xs_replay_of_result_sha256 r)),
           (''sdk_execution_performed'', JBool False), (''credentials_retained'', JBool False),
           (''raw_payloads_retained'', JBool False), (''cost_claimed'', JBool False)]"

interpretation execution_result_model: contract_model id check_execution_result
  by unfold_locales simp

definition request_bindings ::
  "(aware_datetime \<Rightarrow> string) \<Rightarrow> ProviderExecutionResult \<Rightarrow> ProviderExecutionRequest \<Rightarrow> (bool \<times> string) list" where
  "request_bindings render r request =
     [(\<not> xr_prepared request \<and> xs_status r \<noteq> ExecutionBlocked,
       ''blocked provider execution request requires a blocked result''),
      (dt_instant (xs_started_at r) < dt_instant (xr_prepared_at request),
       ''provider execution result cannot start before request preparation''),
      (xs_request_sha256 r \<noteq> canonical_json_sha256 (execution_request_json render request),
       ''provider execution request digest must match the supplied request''),
      (xs_request_id r \<noteq> xr_request_id request, ''provider execution request id must match the supplied request''),
      (xs_idempotency_key_sha256 r \<noteq> xr_idempotency_key_sha256 request,
       ''provider execution idempotency key must match the supplied request''),
      ((xs_candidate r, xs_scenario_set_id r, xs_case_id r, xs_provider r)
         \<noteq> (xr_candidate request, xr_scenario_set_id request, xr_case_id request, xr_provider request),
       ''provider execution result bindings must match the supplied request'')]"

definition validate_against_request ::
  "(aware_datetime \<Rightarrow> string) \<Rightarrow> ProviderExecutionResult \<Rightarrow> ProviderExecutionRequest \<Rightarrow> ProviderExecutionResult result" where
  "validate_against_request render r request =
     and_then (validate_model id check_execution_request request) (\<lambda>request.
       case first_failure (request_bindings render r request) of
         Some message \<Rightarrow> Inl (ValueErr message)
       | None \<Rightarrow> Inr r)"

definition replay_bindings ::
  "(aware_datetime \<Rightarrow> string) \<Rightarrow> ProviderExecutionResult \<Rightarrow> ProviderExecutionResult \<Rightarrow> (bool \<times> string) list" where
  "replay_bindings render r replayed =
     [(xs_replay_of_result_id r \<noteq> Some (xs_result_id replayed),
       ''provider replay result id must match the supplied prior result''),
      (xs_replay_of_result_sha256 r \<noteq> Some (canonical_json_sha256 (execution_result_json render replayed)),
       ''provider replay result digest must match the supplied prior result'')]"

definition validate_against_replayed_result ::
  "(aware_datetime \<Rightarrow> string) \<Rightarrow> ProviderExecutionResult \<Rightarrow> ProviderExecutionResult \<Rightarrow> ProviderExecutionResult result" where
  "validate_against_replayed_result render r replayed =
     and_then (validate_model id check_execution_result replayed) (\<lambda>replayed.
       case first_failure (replay_bindings render r replayed) of
         Some message \<Rightarrow> Inl (ValueErr message)
       | None \<Rightarrow> Inr r)"

section \<open>Lemmas\<close>

lemma strip_no_space: "\<forall>c \<in> set s. \<not> py_space c \<Longrightarrow> strip s = s"
  unfolding strip_def by (rule strip_with_id) (cases s, auto)

lemma identifier_not_py_space: "identifier_char c \<Longrightarrow> \<not> py_space c"
  by (auto simp: identifier_char_def lower_or_digit_def char_class_defs py_space_def code_def Let_def)

lemma identifier_stripped: "is_identifier s \<Longrightarrow> strip s = s"
  using identifier_chars identifier_not_py_space by (intro strip_no_space) blast

lemma sha256_stripped: "is_sha256 s \<Longrightarrow> strip s = s"
  by (rule strip_no_space) (auto simp: is_sha256_iff char_class_defs py_space_def code_def Let_def)

lemma git_revision_stripped: "is_git_revision s \<Longrightarrow> strip s = s"
  by (rule strip_no_space) (auto simp: is_git_revision_iff char_class_defs py_space_def code_def Let_def)

lemma passes_public_candidate: "passes (check_public_candidate c) \<longleftrightarrow> passes (check_candidate c) \<and> candidate_is_public c"
  by (auto simp: check_public_candidate_def require_normalized_text_def check_candidate_iff identifier_stripped
      sha256_stripped git_revision_stripped)

lemma passes_public_id: "passes (public_id name value) \<longleftrightarrow> is_identifier value \<and> identity_is_public value"
  by (auto simp: public_id_def public_id_checks_def require_normalized_text_def identifier_stripped)

lemma passes_normalized_digest: "passes (normalized_digest name value) \<longleftrightarrow> is_sha256 value"
  by (auto simp: normalized_digest_def require_normalized_text_def sha256_stripped)

lemma passes_evidence: "passes (evidence_checks owner xs) \<longleftrightarrow>
    distinct xs \<and> (\<forall>x \<in> set xs. portable x \<and> identity_is_public x)"
  by (auto simp: evidence_checks_def)

lemma bound_to_request: "validate_against_request render r request = Inr s \<longleftrightarrow>
    s = r \<and> passes (check_execution_request request) \<and> passes (request_bindings render r request)"
  by (auto simp: validate_against_request_def and_then_Inr_iff execution_request_model.validate_ok_iff passes_def
      split: option.splits)

lemma bound_to_replayed: "validate_against_replayed_result render r replayed = Inr s \<longleftrightarrow>
    s = r \<and> passes (check_execution_result replayed) \<and> passes (replay_bindings render r replayed)"
  by (auto simp: validate_against_replayed_result_def and_then_Inr_iff execution_result_model.validate_ok_iff passes_def
      split: option.splits)

section \<open>Which identifiers are public\<close>

lemma identifier_char_lower: "identifier_char c \<Longrightarrow> lower_char c = c"
  by (auto simp: identifier_char_def lower_or_digit_def char_class_defs lower_char_def code_def Let_def)

lemma identifier_lower: "is_identifier s \<Longrightarrow> lower s = s"
  using identifier_chars(2) [of s] by (auto simp: lower_def identifier_char_lower intro: map_idI)

lemma no_identifier_char: "\<not> identifier_char (CHR '' '')" "\<not> identifier_char (CHR '':'')" "\<not> identifier_char (CHR ''='')"
    "\<not> identifier_char (CHR ''/'')" "\<not> identifier_char (CHR 0x5C)" "\<not> identifier_char (CHR ''$'')"
    "\<not> identifier_char (CHR 0x25)" "\<not> identifier_char (CHR ''~'')" "\<not> identifier_char (CHR 0x0A)"
  by code_simp+

text \<open>The characters of identifiers and of the references made of them.\<close>

definition public_path_char :: "char \<Rightarrow> bool" where
  "public_path_char c = (identifier_char c \<or> c = CHR ''/'')"

lemma path_chars: "\<forall>c \<in> set v. identifier_char c \<Longrightarrow> \<forall>c \<in> set v. public_path_char c"
  by (simp add: public_path_char_def)

lemma no_public_path_char: "\<not> public_path_char (CHR '' '')" "\<not> public_path_char (CHR '':'')" "\<not> public_path_char (CHR ''='')"
    "\<not> public_path_char (CHR 0x5C)" "\<not> public_path_char (CHR ''$'')" "\<not> public_path_char (CHR 0x25)" "\<not> public_path_char (CHR ''~'')"
    "\<not> public_path_char (CHR 0x0A)"
  by (simp_all add: public_path_char_def no_identifier_char)

lemma path_char_lower: "public_path_char c \<Longrightarrow> lower_char c = c"
proof -
  have "lower_char (CHR ''/'') = CHR ''/''" by code_simp
  then show "public_path_char c \<Longrightarrow> lower_char c = c" by (auto simp: public_path_char_def identifier_char_lower)
qed

lemma path_lower: "\<forall>c \<in> set v. public_path_char c \<Longrightarrow> lower v = v"
  unfolding lower_def by (rule map_idI) (simp add: path_char_lower)

lemma not_private_key:
  assumes "\<forall>c \<in> set v. public_path_char c"
  shows "\<not> matches private_key_rx v"
proof
  assume "matches private_key_rx v"
  then obtain u x t where v: "v = u @ x @ t" and t: "lower t = lower '' private key-----''"
    by (auto simp: private_key_rx_def matches_Seq matches_lit_ci simp del: lit_ci.simps)
  have "lower t = t" using assms by (intro path_lower) (simp add: v)
  moreover have "CHR '' '' \<in> set (lower '' private key-----'')" by code_simp
  ultimately have "CHR '' '' \<in> set v" using t by (simp add: v)
  with assms show False using no_public_path_char(1) by blast
qed

lemma not_secret_assignment:
  assumes "\<forall>c \<in> set v. public_path_char c"
  shows "\<not> matches execution_secret_rx v"
proof
  assume "matches execution_secret_rx v"
  then have "CHR '':'' \<in> set v \<or> CHR ''='' \<in> set v"
    by (auto simp: execution_secret_rx_def matches_Seq one_of_def simp del: lit_ci.simps alts.simps)
  with assms show False by (auto simp: no_public_path_char)
qed

lemma not_drive:
  assumes "\<forall>c \<in> set v. public_path_char c"
  shows "\<not> matches drive_rx v"
  using assms by (auto simp: drive_rx_def matches_Seq chr_def no_public_path_char simp del: lit_ci.simps)

lemma machine_root_slashes:
  assumes "matches machine_root_rx v"
  shows "2 \<le> length (filter (\<lambda>c. c = CHR ''/'') v)"
proof -
  obtain f c x y where v: "v = f @ (c # x) @ y @ ''/''" and "\<forall>d \<in> set (c # x). d = CHR ''/''"
    using assms by (auto simp: machine_root_rx_def matches_Seq chr_def matches_plus_cls neq_Nil_conv simp del: lit_ci.simps alts.simps)
  then have c: "c = CHR ''/''" by simp
  then have "filter (\<lambda>c. c = CHR ''/'') v = filter (\<lambda>c. c = CHR ''/'') f @ CHR ''/'' # filter (\<lambda>c. c = CHR ''/'') (x @ y) @ ''/''"
    by (simp add: v)
  then show ?thesis by simp
qed

text \<open>The part of a reference that the home pattern matched is the word root between separators.\<close>

lemma home_component_root:
  assumes chars: "\<forall>c \<in> set t. public_path_char c" and "home_component t"
  obtains u w where "t = u @ ''root'' @ w" "u = [] \<or> (\<exists>u'. u = u' @ ''/'')" "w = [] \<or> (\<exists>w'. w = CHR ''/'' # w')"
proof -
  have "\<exists>u r. t = u @ r \<and> matches (Alt One (Seq any_text (Cls slash))) u
      \<and> (\<exists>v w. r = v @ w \<and> matches home_component_rx v \<and> matches component_end_rx w)"
    using assms(2) by (simp only: home_component_def rx_fullmatch_iff matches_Seq)
  then obtain u v w where t: "t = u @ v @ w" and u: "matches (Alt One (Seq any_text (Cls slash))) u"
    and v: "matches home_component_rx v" and w: "matches component_end_rx w" by auto
  have vchars: "\<forall>c \<in> set v. public_path_char c" using chars by (simp add: t)
  then have root: "v = ''root''" using v path_lower [OF vchars]
    by (auto simp: home_component_rx_def Let_def matches_alts matches_Seq chr_def no_public_path_char matches_lit_ci
        lower_def lower_char_def code_def simp del: lit_ci.simps)
  have "w = [] \<or> (\<exists>w'. w = CHR ''/'' # w')"
    using w chars by (auto simp: t component_end_rx_def matches_Seq_Cls opt_def chr_def slash_def no_public_path_char)
  moreover have "u = [] \<or> (\<exists>u'. u = u' @ ''/'')"
    using u chars by (auto simp: t matches_Seq slash_def no_public_path_char)
  ultimately show thesis using that t root by blast
qed

lemma home_component_identifier:
  assumes chars: "\<forall>c \<in> set t. identifier_char c" and "t \<noteq> ''root''"
  shows "\<not> home_component t"
proof
  assume "home_component t"
  then obtain u w where t: "t = u @ ''root'' @ w" "u = [] \<or> (\<exists>u'. u = u' @ ''/'')" "w = [] \<or> (\<exists>w'. w = CHR ''/'' # w')"
    using home_component_root path_chars [OF chars] by blast
  then show False using assms by (auto simp: no_identifier_char)
qed

lemma search_chars:
  "\<forall>c \<in> set t. P c \<Longrightarrow> (\<And>v. \<forall>c \<in> set v. P c \<Longrightarrow> \<not> matches r v) \<Longrightarrow> \<not> rx_search r t"
  unfolding rx_search_iff by auto

lemma search_after_chars:
  "\<forall>c \<in> set t. P c \<Longrightarrow> (\<And>v. \<forall>c \<in> set v. P c \<Longrightarrow> \<not> matches r v) \<Longrightarrow> \<not> after_boundary b r t"
  unfolding after_boundary_iff by auto

lemma public_path_iff:
  assumes "\<forall>c \<in> set t. public_path_char c" and "length (filter (\<lambda>c. c = CHR ''/'') t) < 2"
  shows "identity_is_public t \<longleftrightarrow> registry_evidence_is_redaction_safe t \<and> \<not> home_component t"
proof -
  note search = search_chars [OF assms(1)] search_after_chars [OF assms(1)]
  have "\<not> rx_search private_key_rx t" by (rule search, rule not_private_key)
  moreover have "\<not> rx_search drive_rx t" by (rule search, rule not_drive)
  moreover have "\<not> after_boundary (\<lambda>c. \<not> is_alnum c) execution_secret_rx t"
    by (rule search, rule not_secret_assignment)
  moreover have "\<not> rx_search machine_root_rx t"
    using assms(2) machine_root_slashes unfolding rx_search_iff by fastforce
  ultimately show ?thesis
    by (auto simp: identity_is_public_def execution_credential_def machine_path_def registry_evidence_is_redaction_safe_def)
qed

lemma identifier_no_slash: "is_identifier a \<Longrightarrow> filter (\<lambda>c. c = CHR ''/'') a = []"
  using identifier_chars(2) [of a] no_identifier_char(4) by (auto simp: filter_empty_conv)

lemma identifier_public_iff:
  assumes "is_identifier t"
  shows "identity_is_public t \<longleftrightarrow> registry_evidence_is_redaction_safe t \<and> t \<noteq> ''root''"
proof -
  note chars = identifier_chars(2) [OF assms]
  have "home_component ''root''" by code_simp
  then have "home_component t \<longleftrightarrow> t = ''root''" using home_component_identifier [OF chars] by blast
  then show ?thesis
    using public_path_iff [OF path_chars [OF chars]] identifier_no_slash [OF assms] by simp
qed

text \<open>Result identifiers are the request's with a suffix, and are public when it is.\<close>

lemma starts_ci_append:
  "\<forall>c \<in> set p. lower_char c \<noteq> lower_char sep \<Longrightarrow> starts_ci p (s @ sep # w) \<longleftrightarrow> starts_ci p s"
  by (induction p s rule: starts_ci.induct) auto

lemma credential_scan_append:
  assumes "\<not> is_alnum sep" "\<forall>p \<in> set CREDENTIAL_PREFIXES. \<forall>c \<in> set p. lower_char c \<noteq> lower_char sep"
  shows "credential_scan b (s @ sep # w) \<longleftrightarrow> credential_scan b s \<or> credential_scan True w"
proof -
  have shift: "list_ex (\<lambda>p. starts_ci p (u @ sep # w)) CREDENTIAL_PREFIXES
      \<longleftrightarrow> list_ex (\<lambda>p. starts_ci p u) CREDENTIAL_PREFIXES" for u
    using assms(2) starts_ci_append by (auto simp: list_ex_iff)
  have none: "\<not> list_ex (\<lambda>p. starts_ci p []) CREDENTIAL_PREFIXES"
    by (simp add: CREDENTIAL_PREFIXES_def)
  show ?thesis
  proof (induction s arbitrary: b)
    case Nil
    then show ?case using assms(1) shift [of "[]"] none by simp
  next
    case (Cons c s)
    then show ?case using shift [of "c # s"] by simp
  qed
qed

lemma result_id_public:
  assumes "is_identifier s" and "identity_is_public s"
  shows "is_identifier (s @ ''.result'')" and "identity_is_public (s @ ''.result'')"
proof -
  show id: "is_identifier (s @ ''.result'')"
    using identifier_extend [OF assms(1), of "CHR ''.''" "''result''"]
    by (simp add: lower_or_digit_def char_class_defs code_def)
  have "\<forall>p \<in> set CREDENTIAL_PREFIXES. \<forall>c \<in> set p. lower_char c \<noteq> lower_char (CHR ''.'')"
    by code_simp
  moreover have "\<not> is_alnum (CHR ''.'')" "\<not> credential_scan True ''result''" by code_simp+
  moreover have "\<not> credential_scan True s"
    using assms by (simp add: identifier_public_iff redaction_safe_scan)
  ultimately have "registry_evidence_is_redaction_safe (s @ ''.result'')"
    by (simp add: redaction_safe_scan credential_scan_append)
  then show "identity_is_public (s @ ''.result'')"
    unfolding identifier_public_iff [OF id] by auto
qed

text \<open>A reference of two public identifiers is public.\<close>

lemma split_char_join: "split_char sep (u @ sep # s) = split_char sep u @ split_char sep s"
proof (induction u)
  case (Cons c u)
  then show ?case by (cases "split_char sep u") simp_all
qed simp

lemma two_part_ref_public:
  assumes a: "is_identifier a" "identity_is_public a" and b: "is_identifier b" "identity_is_public b"
  shows "identity_is_public (a @ CHR ''/'' # b)"
proof -
  let ?t = "a @ CHR ''/'' # b"
  have chars: "\<forall>c \<in> set ?t. public_path_char c" using identifier_chars(2) a(1) b(1) by (auto simp: public_path_char_def)
  have one: "length (filter (\<lambda>c. c = CHR ''/'') ?t) = 1" using identifier_no_slash a(1) b(1) by simp
  have slash: "CHR ''/'' \<notin> set a" "CHR ''/'' \<notin> set b"
    using identifier_no_slash a(1) b(1) by (auto simp: filter_empty_conv)
  have parts: "split_char (CHR ''/'') ?t = [a, b]" using slash by (simp add: split_char_append split_char_plain)
  have "\<not> home_component ?t"
  proof
    assume "home_component ?t"
    then obtain u w where t: "?t = u @ ''root'' @ w" and u: "u = [] \<or> (\<exists>u'. u = u' @ ''/'')"
      and w: "w = [] \<or> (\<exists>w'. w = CHR ''/'' # w')" using home_component_root [OF chars] by blast
    have no: "CHR ''/'' \<notin> set ''root''" by simp
    have "''root'' \<in> set (split_char (CHR ''/'') (''root'' @ w))"
      using w split_char_append [OF no] by (auto simp: split_char_plain)
    then have "''root'' \<in> set (split_char (CHR ''/'') ?t)"
      unfolding t using u by (auto simp: split_char_join)
    then show False using parts a b identifier_public_iff by auto
  qed
  moreover have "registry_evidence_is_redaction_safe ?t"
  proof -
    have "\<forall>p \<in> set CREDENTIAL_PREFIXES. \<forall>c \<in> set p. lower_char c \<noteq> lower_char (CHR ''/'')" "\<not> is_alnum (CHR ''/'')"
      by code_simp+
    then show ?thesis using a b by (simp add: identifier_public_iff redaction_safe_scan credential_scan_append)
  qed
  ultimately show ?thesis using public_path_iff [OF chars] one by simp
qed

end
