(* ===== verification/Provider_Input.thy ===== *)
theory Provider_Input
  imports Provider_Execution Private_Registry
begin

text \<open>
  The input side of \<^verbatim>\<open>providers/call.py\<close>: the caller's limits (\<^verbatim>\<open>providers/types.py\<close>) and the
  normalisation of the JSON payload. Python containers are mutable objects with an identity, so a
  payload may share a list or contain itself: the model keeps them in a heap, and a value refers to
  a container by its address.

  \<open>normalize_json\<close> recurses at most \<open>maximum_depth\<close> levels, so it is total on every heap, cyclic ones
  included. \<open>reads\<close> is its specification: the finite tree a value unfolds to within a depth.
  \<open>normalize_reads\<close> shows that the code accepts exactly the values that have such a tree, and
  returns it; the check for active containers never refuses anything else.

  A finite \<^verbatim>\<open>float\<close> is its \<^verbatim>\<open>repr\<close>, a \<open>float_text\<close>.
\<close>

section \<open>Limits\<close>

text \<open>
  A Python number of seconds: an \<^verbatim>\<open>int\<close> or a finite \<^verbatim>\<open>float\<close> as its \<^verbatim>\<open>as_integer_ratio()\<close>, whose
  denominator is positive, or not finite.
\<close>

datatype seconds = Ratio int int | NotFinite

record ProviderCallLimits =
  pl_input_bytes :: int
  pl_metadata_bytes :: int
  pl_nesting_depth :: int
  pl_output_bytes :: int
  pl_chunk_bytes :: int
  pl_events :: int
  pl_buffered_events :: int
  pl_overall_seconds :: seconds
  pl_idle_seconds :: seconds
  pl_cleanup_seconds :: seconds

definition LIMIT_CEILINGS :: ProviderCallLimits where
  "LIMIT_CEILINGS = \<lparr>pl_input_bytes = 262144, pl_metadata_bytes = 65536, pl_nesting_depth = 32,
     pl_output_bytes = 1048576, pl_chunk_bytes = 16384, pl_events = 4096, pl_buffered_events = 8,
     pl_overall_seconds = Ratio 30 1, pl_idle_seconds = Ratio 5 1, pl_cleanup_seconds = Ratio 1 1\<rparr>"

definition DEFAULT_PROVIDER_CALL_LIMITS :: ProviderCallLimits where
  "DEFAULT_PROVIDER_CALL_LIMITS = LIMIT_CEILINGS"

fun tightens :: "seconds \<Rightarrow> seconds \<Rightarrow> bool" where
  "tightens (Ratio n d) (Ratio n' d') = (0 < d \<and> 0 < n \<and> n * d' \<le> n' * d)"
| "tightens _ _ = False"

definition limit_checks :: "ProviderCallLimits \<Rightarrow> (bool \<times> string) list" where
  "limit_checks limits =
     map (\<lambda>(name, get). (get limits \<le> 0 \<or> get limits > get LIMIT_CEILINGS,
            ''provider call '' @ name @ '' must be a positive tightening of the default''))
       [(''input_bytes'', pl_input_bytes), (''metadata_bytes'', pl_metadata_bytes),
        (''nesting_depth'', pl_nesting_depth), (''output_bytes'', pl_output_bytes),
        (''chunk_bytes'', pl_chunk_bytes), (''events'', pl_events)]
     @ [(pl_buffered_events limits < 0 \<or> pl_buffered_events limits > pl_buffered_events LIMIT_CEILINGS,
         ''provider call buffered_events must be a non-negative tightening of the default'')]
     @ map (\<lambda>(name, get). (\<not> tightens (get limits) (get LIMIT_CEILINGS),
            ''provider call '' @ name @ '' must be a positive tightening of the default''))
       [(''overall_seconds'', pl_overall_seconds), (''idle_seconds'', pl_idle_seconds),
        (''cleanup_seconds'', pl_cleanup_seconds)]"

definition check_limits :: "ProviderCallLimits \<Rightarrow> unit result" where
  "check_limits limits = (case first_failure (limit_checks limits) of
     Some message \<Rightarrow> Inl (ValueErr message) | None \<Rightarrow> Inr ())"

section \<open>Payloads\<close>

text \<open>A \<^verbatim>\<open>str\<close>: one that UTF-8 can encode, or one with lone surrogates, of which only its length matters.\<close>

datatype py_text = Encodable string | Surrogates nat

datatype py_value =
    PyNone
  | PyBool bool
  | PyInt int
  | PyStr py_text
  | PyFloat float_text
  | PyNonFinite
  | PyRef nat
  | PyOther

datatype py_key = StrKey py_text | OtherKey

datatype py_object = PyList "py_value list" | PyDict "(py_key \<times> py_value) list"

type_synonym heap = "nat \<Rightarrow> py_object"

definition contract_error :: "string \<Rightarrow> string \<Rightarrow> 'a result" where
  "contract_error error_code message = Inl (ContractError error_code message)"

definition invalid_input :: "string \<Rightarrow> 'a result" where
  "invalid_input message = contract_error ''invalid_provider_input'' message"

fun key_text :: "py_key \<Rightarrow> string option" where
  "key_text (StrKey (Encodable s)) = Some s"
| "key_text _ = None"

definition checked_keys :: "(py_key \<times> py_value) list \<Rightarrow> string list result" where
  "checked_keys kvs =
     (if OtherKey \<in> fst ` set kvs then invalid_input ''provider input object keys must be strings''
      else if \<exists>k \<in> fst ` set kvs. key_text k = None then invalid_input ''provider input keys must be valid UTF-8''
      else Inr (map (the \<circ> key_text \<circ> fst) kvs))"

text \<open>\<open>room\<close> is \<^verbatim>\<open>maximum_depth + 1 - depth\<close>, the levels that are left.\<close>

primrec normalize_within :: "nat \<Rightarrow> heap \<Rightarrow> nat set \<Rightarrow> py_value \<Rightarrow> json result" where
  "normalize_within 0 h active v =
     contract_error ''provider_input_depth_exceeded'' ''provider input exceeds the nesting-depth limit''"
| "normalize_within (Suc room) h active v =
     (case v of
        PyNone \<Rightarrow> Inr JNull
      | PyBool b \<Rightarrow> Inr (JBool b)
      | PyInt i \<Rightarrow> Inr (JInt i)
      | PyStr (Encodable s) \<Rightarrow> Inr (JStr s)
      | PyStr (Surrogates n) \<Rightarrow> invalid_input ''provider input strings must be valid UTF-8''
      | PyFloat t \<Rightarrow> Inr (JFloat t)
      | PyNonFinite \<Rightarrow> invalid_input ''provider input contains a non-finite number''
      | PyRef n \<Rightarrow>
          if n \<in> active then invalid_input ''provider input contains a cyclic container''
          else (case h n of
              PyList items \<Rightarrow> and_then (map_result (normalize_within room h (insert n active)) items) (\<lambda>js. Inr (JArr js))
            | PyDict kvs \<Rightarrow>
                and_then (checked_keys kvs) (\<lambda>keys.
                and_then (map_result (normalize_within room h (insert n active)) (map snd kvs)) (\<lambda>js.
                  Inr (JObj (zip keys js)))))
      | PyOther \<Rightarrow> invalid_input ''provider input must contain only JSON-compatible values'')"

definition normalize_json :: "heap \<Rightarrow> nat \<Rightarrow> py_value \<Rightarrow> json result" where
  "normalize_json h maximum_depth v = normalize_within (Suc maximum_depth) h {} v"

definition canonical_bytes :: "json \<Rightarrow> byte list" where
  "canonical_bytes v = utf8 (dumps v)"

definition metadata_of :: "json \<Rightarrow> json option" where
  "metadata_of v = (case v of JObj kvs \<Rightarrow> map_of kvs ''metadata'' | _ \<Rightarrow> None)"

definition validate_request_and_input ::
  "heap \<Rightarrow> ProviderExecutionRequest \<Rightarrow> py_value \<Rightarrow> ProviderCallLimits \<Rightarrow> (ProviderExecutionRequest \<times> json) result" where
  "validate_request_and_input h request input_payload limits =
     (if \<not> is_ok (validate_model id check_execution_request request)
      then contract_error ''invalid_provider_request'' ''provider request failed revalidation''
      else if \<not> xr_prepared request
      then contract_error ''unsupported_provider_request'' ''provider call requires a prepared request''
      else and_then (normalize_json h (nat (pl_nesting_depth limits)) input_payload) (\<lambda>normalized.
        if int (length (canonical_bytes normalized)) > pl_input_bytes limits
        then contract_error ''provider_input_too_large'' ''provider input exceeds the byte limit''
        else if (case metadata_of normalized of None \<Rightarrow> False
                 | Some m \<Rightarrow> int (length (canonical_bytes m)) > pl_metadata_bytes limits)
        then contract_error ''provider_metadata_too_large'' ''provider metadata exceeds the byte limit''
        else if canonical_json_sha256 normalized \<noteq> xr_input_sha256 request
        then contract_error ''provider_input_digest_mismatch'' ''provider input digest does not match the request''
        else Inr (request, normalized)))"

section \<open>What normalisation accepts\<close>

inductive reads :: "heap \<Rightarrow> nat \<Rightarrow> py_value \<Rightarrow> json \<Rightarrow> bool" for h :: heap where
  "reads h (Suc room) PyNone JNull"
| "reads h (Suc room) (PyBool b) (JBool b)"
| "reads h (Suc room) (PyInt i) (JInt i)"
| "reads h (Suc room) (PyStr (Encodable s)) (JStr s)"
| "reads h (Suc room) (PyFloat t) (JFloat t)"
| "h n = PyList items \<Longrightarrow> list_all2 (reads h room) items js \<Longrightarrow> reads h (Suc room) (PyRef n) (JArr js)"
| "h n = PyDict kvs \<Longrightarrow> map fst kvs = map (StrKey \<circ> Encodable) keys \<Longrightarrow>
     list_all2 (reads h room) (map snd kvs) js \<Longrightarrow> reads h (Suc room) (PyRef n) (JObj (zip keys js))"

inductive_cases reads_cases [elim!]:
  "reads h room PyNone j" "reads h room (PyBool b) j" "reads h room (PyInt i) j" "reads h room (PyStr t) j"
  "reads h room (PyFloat f) j" "reads h room PyNonFinite j" "reads h room PyOther j"
inductive_cases reads_ref_cases: "reads h room (PyRef n) j"
inductive_cases reads_zeroE [elim!]: "reads h 0 v j"

lemma key_text_Some: "key_text k = Some s \<longleftrightarrow> k = StrKey (Encodable s)"
  by (cases k rule: key_text.cases) auto

lemma checked_keys_Inr: "checked_keys kvs = Inr keys \<longleftrightarrow> map fst kvs = map (StrKey \<circ> Encodable) keys"
proof
  assume ok: "checked_keys kvs = Inr keys"
  then have "\<forall>k \<in> set (map fst kvs). key_text k \<noteq> None" and keys: "keys = map (the \<circ> key_text \<circ> fst) kvs"
    by (auto simp: checked_keys_def invalid_input_def contract_error_def split: if_splits)
  then have "\<forall>kv \<in> set kvs. fst kv = StrKey (Encodable (the (key_text (fst kv))))"
    by (auto simp: key_text_Some [symmetric])
  then show "map fst kvs = map (StrKey \<circ> Encodable) keys" by (auto simp: keys)
next
  assume eq: "map fst kvs = map (StrKey \<circ> Encodable) keys"
  then have "fst ` set kvs = set (map (StrKey \<circ> Encodable) keys)" by (metis set_map)
  then have "OtherKey \<notin> fst ` set kvs" "\<forall>k \<in> fst ` set kvs. key_text k \<noteq> None" by auto
  moreover have "map (the \<circ> key_text \<circ> fst) kvs = map (the \<circ> key_text) (map fst kvs)" by simp
  then have "map (the \<circ> key_text \<circ> fst) kvs = keys" by (simp add: eq comp_def)
  ultimately show "checked_keys kvs = Inr keys" by (auto simp: checked_keys_def)
qed

lemma map_result_Inr: "map_result f xs = Inr ys \<longleftrightarrow> list_all2 (\<lambda>x y. f x = Inr y) xs ys"
  by (induction f xs arbitrary: ys rule: map_result.induct) (auto simp: and_then_Inr_iff list_all2_Cons1)

lemma list_all2_unique:
  "list_all2 P xs ys \<Longrightarrow> list_all2 Q xs zs \<Longrightarrow> (\<And>x y z. P x y \<Longrightarrow> Q x z \<Longrightarrow> y = z) \<Longrightarrow> ys = zs"
  by (induction xs arbitrary: ys zs) (auto simp: list_all2_Cons1)

lemma map_inject_keys: "map (StrKey \<circ> Encodable) ks = map (StrKey \<circ> Encodable) ls \<longleftrightarrow> ks = ls"
  by (rule inj_map_eq_map) (auto simp: inj_def)

lemma reads_list: "reads h room (PyRef n) k \<Longrightarrow> h n = PyList items \<Longrightarrow>
    \<exists>r js. room = Suc r \<and> k = JArr js \<and> list_all2 (reads h r) items js"
  by (erule reads_ref_cases) auto

lemma reads_dict: "reads h room (PyRef n) k \<Longrightarrow> h n = PyDict kvs \<Longrightarrow>
    \<exists>r keys js. room = Suc r \<and> k = JObj (zip keys js) \<and> map fst kvs = map (StrKey \<circ> Encodable) keys
      \<and> list_all2 (reads h r) (map snd kvs) js"
  by (erule reads_ref_cases) auto

lemma reads_unique: "reads h room v j \<Longrightarrow> reads h room' v k \<Longrightarrow> j = k"
proof (induction arbitrary: room' k rule: reads.induct)
  case (6 n items room js)
  obtain r js' where k: "k = JArr js'" and items: "list_all2 (reads h r) items js'"
    using reads_list [OF 6(3,1)] by blast
  have "js = js'" by (rule list_all2_unique [OF 6(2) items]) blast
  then show ?case by (simp add: k)
next
  case (7 n kvs keys room js)
  obtain r keys' js' where k: "k = JObj (zip keys' js')" and keys: "map fst kvs = map (StrKey \<circ> Encodable) keys'"
    and items: "list_all2 (reads h r) (map snd kvs) js'"
    using reads_dict [OF 7(4,1)] by blast
  have "js = js'" by (rule list_all2_unique [OF 7(3) items]) blast
  moreover have "keys = keys'" using 7(2) keys by (simp only: map_inject_keys)
  ultimately show ?case by (simp add: k)
qed auto

lemma normalize_sound: "normalize_within room h active v = Inr j \<Longrightarrow> reads h room v j"
proof (induction room arbitrary: active v j)
  case (Suc room)
  have items: "list_all2 (reads h room) xs js" if "map_result (normalize_within room h act) xs = Inr js" for act xs js
    using that Suc.IH by (auto simp: map_result_Inr elim: list_all2_mono)
  show ?case
  proof (cases v)
    case (PyRef n)
    with Suc.prems show ?thesis
      by (auto simp: and_then_Inr_iff checked_keys_Inr invalid_input_def contract_error_def
          intro!: reads.intros items split: if_splits py_object.splits)
  qed (use Suc.prems in \<open>auto simp: invalid_input_def contract_error_def intro!: reads.intros split: py_text.splits\<close>)
qed (simp add: contract_error_def)

text \<open>A container that is read inside its own reading would have a reading smaller than itself.\<close>

lemma size_JArr: "j \<in> set js \<Longrightarrow> size j < size (JArr js)"
  by (simp add: less_Suc_eq_le size_list_estimation')

lemma size_member: "(k, j) \<in> set kvs \<Longrightarrow> size j < size (JObj kvs)"
  by (induction kvs) auto

lemma size_JObj: "j \<in> set js \<Longrightarrow> length keys = length js \<Longrightarrow> size j < size (JObj (zip keys js))"
  by (metis in_set_conv_nth nth_zip length_zip min.idem nth_mem size_member)

lemma normalize_items:
  assumes "list_all2 (\<lambda>v j. \<forall>active. (\<forall>n \<in> active. \<forall>r k. reads h r (PyRef n) k \<longrightarrow> size j < size k) \<longrightarrow> f active v = Inr j) vs js"
    and whole: "\<forall>m \<in> active. \<forall>r k. reads h r (PyRef m) k \<longrightarrow> size whole < size k"
    and n: "reads h room (PyRef n) whole" and smaller: "\<forall>j \<in> set js. size j < size whole"
  shows "map_result (f (insert n active)) vs = Inr js"
proof -
  have "f (insert n active) v = Inr j"
    if vj: "\<forall>active. (\<forall>n \<in> active. \<forall>r k. reads h r (PyRef n) k \<longrightarrow> size j < size k) \<longrightarrow> f active v = Inr j"
      and j: "j \<in> set js" for v j
  proof -
    have "size j < size k" if "m \<in> insert n active" "reads h r (PyRef m) k" for m r k
    proof (cases "m = n")
      case True
      then have "k = whole" using reads_unique n that(2) by blast
      then show ?thesis using smaller j by simp
    next
      case False
      then have "size whole < size k" using whole that by blast
      then show ?thesis using smaller j by fastforce
    qed
    then show ?thesis using vj by blast
  qed
  moreover have "\<And>v j. (v, j) \<in> set (zip vs js) \<Longrightarrow> j \<in> set js" by (meson set_zip_rightD)
  ultimately show ?thesis using assms(1) by (auto simp: map_result_Inr list_all2_iff)
qed

lemma normalize_complete:
  "reads h room v j \<Longrightarrow> (\<forall>n \<in> active. \<forall>r k. reads h r (PyRef n) k \<longrightarrow> size j < size k) \<Longrightarrow>
   normalize_within room h active v = Inr j"
proof (induction arbitrary: active rule: reads.induct)
  case (6 n items room js)
  have sub: "list_all2 (reads h room) items js" using 6(2) by (rule list_all2_mono) blast
  have whole: "reads h (Suc room) (PyRef n) (JArr js)" by (rule reads.intros(6) [OF 6(1) sub])
  have "n \<notin> active" using 6(3) whole by blast
  moreover have "map_result (normalize_within room h (insert n active)) items = Inr js"
    by (rule normalize_items [where f = "normalize_within room h", OF _ 6(3) whole])
      (use 6(2) size_JArr in \<open>auto elim: list_all2_mono\<close>)
  ultimately show ?case using 6(1) by simp
next
  case (7 n kvs keys room js)
  have sub: "list_all2 (reads h room) (map snd kvs) js" using 7(3) by (rule list_all2_mono) blast
  have whole: "reads h (Suc room) (PyRef n) (JObj (zip keys js))" by (rule reads.intros(7) [OF 7(1,2) sub])
  have len: "length keys = length js" using 7(2) sub by (metis length_map list_all2_lengthD)
  have "n \<notin> active" using 7(4) whole by blast
  moreover have "map_result (normalize_within room h (insert n active)) (map snd kvs) = Inr js"
    by (rule normalize_items [where f = "normalize_within room h", OF _ 7(4) whole])
      (use 7(3) size_JObj [OF _ len] in \<open>auto elim: list_all2_mono\<close>)
  moreover have "checked_keys kvs = Inr keys" using 7(2) by (simp add: checked_keys_Inr)
  ultimately show ?case using 7(1) by simp
qed simp_all

lemma normalize_reads: "normalize_json h depth v = Inr j \<longleftrightarrow> reads h (Suc depth) v j"
  unfolding normalize_json_def using normalize_sound normalize_complete by blast

end
