(* ===== verification/Provider_Evidence.thy ===== *)
theory Provider_Evidence
  imports Provider_Execution
begin

text \<open>
  \<^verbatim>\<open>models/provider_call.py\<close>: the adapter's descriptor, its cost observation, and the public evidence of
  one provider call. Python's \<^verbatim>\<open>Decimal\<close> is a coefficient and a scale; \<open>decimal_str\<close> is its \<^verbatim>\<open>str\<close>, which
  is also the text pydantic dumps, and \<open>decimal_of\<close> reads a text the pattern accepts. The lemmas
  say exactly which amounts survive the dump and the validation of the dump
  (\<open>decimal_str_accepted\<close>, \<open>decimal_round_trip\<close>): the ones that \<^verbatim>\<open>str\<close> writes without an exponent.
\<close>

section \<open>The adapter's descriptor\<close>

datatype CallMode = CompleteMode | StreamMode

record TextProviderAdapterDescriptor =
  td_provider :: ProviderIdentity
  td_mode :: CallMode

definition check_descriptor :: "TextProviderAdapterDescriptor \<Rightarrow> (bool \<times> string) list" where
  "check_descriptor d = check_provider_identity_v2 (td_provider d)"

interpretation descriptor_model: contract_model id check_descriptor
  by unfold_locales simp

section \<open>Decimal amounts\<close>

record decimal =
  coefficient :: nat
  scale :: nat

definition DECIMAL_STRING_PATTERN :: rx where
  "DECIMAL_STRING_PATTERN = Seq version_number_rx (opt (Seq (chr (CHR ''.'')) (plus (Cls is_digit))))"

definition is_decimal_string :: "string \<Rightarrow> bool" where
  "is_decimal_string s = rx_fullmatch DECIMAL_STRING_PATTERN s"

definition fraction_digits :: "string \<Rightarrow> string" where
  "fraction_digits s = drop 1 (dropWhile (\<lambda>c. c \<noteq> CHR ''.'') s)"

definition decimal_of :: "string \<Rightarrow> decimal" where
  "decimal_of s = \<lparr>coefficient = read_nat (filter is_digit s), scale = length (fraction_digits s)\<rparr>"

definition signed :: "int \<Rightarrow> string" where
  "signed i = (if i < 0 then show_int i else CHR ''+'' # show_int i)"

definition decimal_str :: "decimal \<Rightarrow> string" where
  "decimal_str d =
     (let digits = show_nat (coefficient d);
          leftdigits = int (length digits) - int (scale d);
          dotplace = (if leftdigits > -6 then leftdigits else 1);
          mantissa =
            (if dotplace \<le> 0 then ''0.'' @ replicate (nat (- dotplace)) (CHR ''0'') @ digits
             else if dotplace \<ge> int (length digits) then digits @ replicate (nat (dotplace - int (length digits))) (CHR ''0'')
             else take (nat dotplace) digits @ CHR ''.'' # drop (nat dotplace) digits)
      in mantissa @ (if leftdigits = dotplace then [] else CHR ''E'' # signed (leftdigits - dotplace)))"

text \<open>\<^verbatim>\<open>str\<close> writes no exponent.\<close>

definition plain_decimal :: "decimal \<Rightarrow> bool" where
  "plain_decimal d = (int (length (show_nat (coefficient d))) - int (scale d) > -6)"

section \<open>The cost observation\<close>

record ProviderCostObservation =
  co_amount :: decimal
  co_currency :: string
  co_observed_at :: aware_datetime

definition is_currency_code :: "string \<Rightarrow> bool" where
  "is_currency_code s = rx_fullmatch (times 3 (Cls is_upper)) s"

definition normalise_cost :: "ProviderCostObservation \<Rightarrow> ProviderCostObservation" where
  "normalise_cost c = c\<lparr>co_currency := trim (co_currency c)\<rparr>"

text \<open>Revalidating an observation validates the text its amount is dumped as.\<close>

definition check_cost :: "ProviderCostObservation \<Rightarrow> (bool \<times> string) list" where
  "check_cost c =
     [(\<not> is_decimal_string (decimal_str (co_amount c)), ''provider cost amount must be a decimal string'')]
     @ field ''currency'' (is_currency_code (co_currency c))"

text \<open>Building one from the wire text of its amount.\<close>

definition observe_cost :: "string \<Rightarrow> string \<Rightarrow> aware_datetime \<Rightarrow> ProviderCostObservation result" where
  "observe_cost amount currency observed_at =
     (if \<not> is_decimal_string amount then Inl (ValidationError ''provider cost amount must be a decimal string'')
      else if \<not> is_currency_code (trim currency) then Inl (ValidationError ''currency'')
      else Inr \<lparr>co_amount = decimal_of amount, co_currency = trim currency, co_observed_at = observed_at\<rparr>)"

lemma normalise_cost_idem [simp]: "normalise_cost (normalise_cost c) = normalise_cost c"
  by (simp add: normalise_cost_def)

interpretation cost_model: contract_model normalise_cost check_cost
  by unfold_locales simp

section \<open>The public result of a call\<close>

record ProviderCallPublicResult =
  cr_request_id :: string
  cr_mode :: CallMode
  cr_status :: ExecutionStatus
  cr_event_count :: int
  cr_output_bytes :: int
  cr_output_sha256 :: "string option"
  cr_event_sha256 :: string
  cr_max_buffered_events :: int
  cr_cleanup_attempted :: bool
  cr_cleanup_succeeded :: bool
  cr_cleanup_failed_code :: bool
  cr_usage :: "ProviderUsageMetadata option"
  cr_cost :: "ProviderCostObservation option"
  cr_execution :: ProviderExecutionResult

definition normalise_call_result :: "ProviderCallPublicResult \<Rightarrow> ProviderCallPublicResult" where
  "normalise_call_result r = r\<lparr>
     cr_request_id := trim (cr_request_id r), cr_output_sha256 := map_option trim (cr_output_sha256 r),
     cr_event_sha256 := trim (cr_event_sha256 r), cr_cost := map_option normalise_cost (cr_cost r)\<rparr>"

definition result_is_consistent :: "ProviderCallPublicResult \<Rightarrow> (bool \<times> string) list" where
  "result_is_consistent r =
     [(cr_request_id r \<noteq> xs_request_id (cr_execution r) \<or> cr_status r \<noteq> xs_status (cr_execution r),
       ''provider call result must match its execution evidence''),
      (\<not> cr_cleanup_attempted r, ''provider call cleanup result requires an attempted cleanup''),
      ((\<not> cr_cleanup_succeeded r) \<noteq> cr_cleanup_failed_code r,
       ''provider call cleanup failure requires redacted diagnostic evidence''),
      (if cr_status r = Completed
       then (cr_output_sha256 r = None \<or> cr_output_sha256 r \<noteq> xs_output_sha256 (cr_execution r),
             ''completed provider call must bind its output digest'')
       else (cr_output_sha256 r \<noteq> None \<or> cr_output_bytes r \<noteq> 0,
             ''non-completed provider call cannot expose output evidence'')),
      (cr_usage r \<noteq> xs_usage (cr_execution r), ''provider call usage must match execution evidence'')]"

definition check_call_result :: "ProviderCallPublicResult \<Rightarrow> (bool \<times> string) list" where
  "check_call_result r =
     field ''request_id'' (is_identifier (cr_request_id r))
     @ field ''event_count'' (0 \<le> cr_event_count r \<and> cr_event_count r \<le> 4096)
     @ field ''output_bytes'' (0 \<le> cr_output_bytes r \<and> cr_output_bytes r \<le> 1048576)
     @ field ''output_sha256'' (opt_ok is_sha256 (cr_output_sha256 r))
     @ field ''event_sha256'' (is_sha256 (cr_event_sha256 r))
     @ field ''max_buffered_events'' (0 \<le> cr_max_buffered_events r \<and> cr_max_buffered_events r \<le> 8)
     @ opt_checks check_usage (cr_usage r)
     @ opt_checks check_cost (cr_cost r)
     @ check_execution_result (cr_execution r)
     @ result_is_consistent r"

interpretation call_result_model: contract_model normalise_call_result check_call_result
  by unfold_locales (simp add: normalise_call_result_def option.map_comp comp_def)

section \<open>Which amounts survive revalidation\<close>

definition whole_part :: "string \<Rightarrow> bool" where
  "whole_part s = (s = ''0'' \<or> (\<exists>c u. s = c # u \<and> between (CHR ''1'') (CHR ''9'') c \<and> (\<forall>d \<in> set u. is_digit d)))"

lemma version_number_iff: "matches version_number_rx s \<longleftrightarrow> whole_part s"
  by (auto simp: version_number_rx_def whole_part_def chr_def matches_Seq_Cls matches_star_iff)

lemma decimal_string_iff: "is_decimal_string s \<longleftrightarrow>
    (\<exists>i f. whole_part i \<and> (\<forall>c \<in> set f. is_digit c) \<and> s = i @ (if f = [] then [] else CHR ''.'' # f))"
proof -
  have "matches (opt (Seq (chr (CHR ''.'')) (plus (Cls is_digit)))) t \<longleftrightarrow>
      (\<exists>f. (\<forall>c \<in> set f. is_digit c) \<and> t = (if f = [] then [] else CHR ''.'' # f))" for t
    by (auto simp: opt_def chr_def matches_Seq_Cls matches_plus_cls)
  then show ?thesis
    by (simp add: is_decimal_string_def rx_fullmatch_iff DECIMAL_STRING_PATTERN_def matches_Seq version_number_iff) blast
qed

lemma whole_part_digits: "whole_part s \<Longrightarrow> \<forall>c \<in> set s. is_digit c"
  by (auto simp: whole_part_def char_class_defs code_def)

lemma whole_part_take:
  assumes "whole_part s" and "0 < n"
  shows "whole_part (take n s)"
proof (cases "s = ''0''")
  case False
  with assms(1) obtain c u where "s = c # u" "between (CHR ''1'') (CHR ''9'') c" "\<forall>d \<in> set u. is_digit d"
    by (auto simp: whole_part_def)
  moreover have "\<forall>d \<in> set (take (n - 1) u). is_digit d" using calculation(3) by (meson in_set_takeD)
  ultimately show ?thesis using assms(2) by (cases n) (auto simp: whole_part_def)
qed (use assms in \<open>cases n; simp add: whole_part_def\<close>)

lemma char_of_48: "char_of (48 :: nat) = CHR ''0''"
  using char_of_code [of "CHR ''0''"] by (simp add: code_def)

lemma whole_part_snoc: "whole_part s \<Longrightarrow> s \<noteq> ''0'' \<Longrightarrow> is_digit d \<Longrightarrow> whole_part (s @ [d])"
  by (auto simp: whole_part_def)

lemma show_nat_whole: "whole_part (show_nat n)"
proof (induction n rule: show_nat.induct)
  case (1 n)
  show ?case
  proof (cases "n < 10")
    case True
    then have "between (CHR ''1'') (CHR ''9'') (char_of (48 + n)) \<or> char_of (48 + n) = CHR ''0''"
      using code_char_of [of "48 + n"] by (cases "n = 0") (auto simp: between_def code_def char_of_48)
    then show ?thesis using True by (subst show_nat.simps) (auto simp: whole_part_def)
  next
    case False
    have "read_nat (show_nat (n div 10)) = n div 10" using show_nat_props by simp
    moreover have "read_nat ''0'' = 0" by (simp add: read_nat_def digit_value_def code_def)
    ultimately have "show_nat (n div 10) \<noteq> ''0''" using False by auto
    moreover have "is_digit (char_of (48 + n mod 10))" using digit_char [of "n mod 10"] by simp
    moreover have "show_nat n = show_nat (n div 10) @ [char_of (48 + n mod 10)]"
      using False by (subst show_nat.simps) simp
    ultimately show ?thesis using whole_part_snoc [OF 1 [OF False]] by simp
  qed
qed

lemma read_nat_zeros: "read_nat (replicate k (CHR ''0'') @ s) = read_nat s"
  by (induction k) (simp_all add: read_nat_def digit_value_def code_def)

lemma decimal_str_plain:
  assumes "plain_decimal d"
  shows "\<exists>i f. decimal_str d = i @ (if f = [] then [] else CHR ''.'' # f) \<and> whole_part i \<and> (\<forall>c \<in> set f. is_digit c)
    \<and> length f = scale d \<and> read_nat (i @ f) = coefficient d"
proof -
  let ?s = "show_nat (coefficient d)"
  let ?n = "scale d"
  have digits: "\<forall>c \<in> set ?s. is_digit c" "?s \<noteq> []" "read_nat ?s = coefficient d" using show_nat_props by auto
  have whole: "whole_part ?s" by (rule show_nat_whole)
  have left: "int (length ?s) - int ?n > -6" using assms by (simp add: plain_decimal_def)
  consider (none) "?n = 0" | (inside) "0 < ?n" "?n < length ?s" | (before) "length ?s \<le> ?n" by linarith
  then show ?thesis
  proof cases
    case none
    then have "decimal_str d = ?s" using digits(2) by (simp add: decimal_str_def Let_def)
    then show ?thesis using none whole digits by (intro exI [of _ ?s] exI [of _ "[]"]) simp
  next
    case inside
    let ?k = "length ?s - ?n"
    have k: "nat (int (length ?s) - int ?n) = ?k" "0 < ?k" using inside by linarith+
    have "decimal_str d = take ?k ?s @ CHR ''.'' # drop ?k ?s"
      using inside left k(1) by (simp add: decimal_str_def Let_def)
    moreover have "\<forall>c \<in> set (drop ?k ?s). is_digit c" using digits(1) by (meson in_set_dropD)
    ultimately show ?thesis using inside k(2) digits(3) whole_part_take [OF whole k(2)]
      by (intro exI [of _ "take ?k ?s"] exI [of _ "drop ?k ?s"]) auto
  next
    case before
    let ?f = "replicate (?n - length ?s) (CHR ''0'') @ ?s"
    have "nat (- (int (length ?s) - int ?n)) = ?n - length ?s" using before by linarith
    then have "decimal_str d = ''0'' @ CHR ''.'' # ?f"
      using before left by (simp add: decimal_str_def Let_def)
    moreover have "read_nat (''0'' @ ?f) = coefficient d"
      using read_nat_zeros [of "Suc (?n - length ?s)" ?s] digits(3) by simp
    moreover have "\<forall>c \<in> set ?f. is_digit c" using digits(1) by (auto simp: char_class_defs code_def)
    ultimately show ?thesis using before digits(2)
      by (intro exI [of _ "''0''"] exI [of _ ?f]) (simp add: whole_part_def)
  qed
qed

lemma decimal_string_shape:
  assumes "whole_part i" "\<forall>c \<in> set f. is_digit c" "s = i @ (if f = [] then [] else CHR ''.'' # f)"
  shows "filter is_digit s = i @ f" and "fraction_digits s = f"
proof -
  have digits: "\<forall>c \<in> set i. is_digit c" by (rule whole_part_digits [OF assms(1)])
  have dot: "\<not> is_digit (CHR ''.'')" by code_simp
  then have no_dot: "\<forall>c \<in> set i. c \<noteq> CHR ''.''" using digits by blast
  show "filter is_digit s = i @ f" using digits assms(2) dot by (simp add: assms(3) filter_True)
  show "fraction_digits s = f" using no_dot by (simp add: assms(3) fraction_digits_def dropWhile_append2)
qed

lemma decimal_round_trip: "plain_decimal d \<Longrightarrow> is_decimal_string (decimal_str d) \<and> decimal_of (decimal_str d) = d"
proof -
  assume "plain_decimal d"
  then obtain i f where s: "decimal_str d = i @ (if f = [] then [] else CHR ''.'' # f)" "whole_part i"
    "\<forall>c \<in> set f. is_digit c" "length f = scale d" "read_nat (i @ f) = coefficient d"
    using decimal_str_plain by blast
  then have "is_decimal_string (decimal_str d)" unfolding decimal_string_iff by blast
  moreover have "decimal_of (decimal_str d) = d"
    using s decimal_string_shape [OF s(2,3,1)] by (simp add: decimal_of_def)
  ultimately show ?thesis by simp
qed

lemma decimal_str_accepted: "is_decimal_string (decimal_str d) \<longleftrightarrow> plain_decimal d"
proof
  assume ok: "is_decimal_string (decimal_str d)"
  show "plain_decimal d"
  proof (rule ccontr)
    assume "\<not> plain_decimal d"
    then have "CHR ''E'' \<in> set (decimal_str d)"
      by (auto simp: decimal_str_def plain_decimal_def Let_def)
    moreover have "\<not> is_digit (CHR ''E'')" by code_simp
    ultimately show False using ok whole_part_digits by (fastforce simp: decimal_string_iff split: if_splits)
  qed
qed (use decimal_round_trip in blast)

lemma check_cost_iff: "passes (check_cost c) \<longleftrightarrow> plain_decimal (co_amount c) \<and> is_currency_code (co_currency c)"
  by (simp add: check_cost_def decimal_str_accepted)

end
