(* ===== verification/Provider_Call.thy ===== *)
theory Provider_Call
  imports Provider_Input Provider_Evidence
begin

text \<open>
  \<^verbatim>\<open>providers/call.py\<close>: the bounded orchestration of one provider call. The adapter and the clock are
  the caller's objects; the model takes their answers as data: every awaited operation is a
  \<open>schedule\<close> (what the clock's scheduler did) together with the outcome the operation itself would
  have, an exception or a value, and a stream is the sequence of its pulls.

  \<^item> \<open>consume_chunk\<close>, \<open>consume_events\<close>, \<open>stream_step\<close> and \<open>stream_loop\<close> are the stream's state machine; the
    loop's termination proof is that every pull that does not end the stream adds an event.
  \<^item> \<open>execute_provider_call\<close> returns the log of the runner and cleanup steps beside the result, so
    that cleanup on every path is a property of the model.
  \<^item> The cancellation of the caller's own task while it waits is not modelled, nor is the wait for
    tasks an earlier timeout left behind (it delays cleanup and does not change its result).
\<close>

section \<open>Exceptions and the clock\<close>

record ProviderAdapterFailure =
  pf_code :: string
  pf_category :: FailureCategory
  pf_retryable :: bool
  pf_evidence_refs :: "string list"
  pf_status :: ExecutionStatus

datatype exc =
    ContractExc string string
  | FailureExc ProviderAdapterFailure
  | TimeoutExc
  | StopExc
  | CancelledExc
  | OtherExc

type_synonym 'a run = "exc + 'a"

definition bind_run :: "'a run \<Rightarrow> ('a \<Rightarrow> 'b run) \<Rightarrow> 'b run" where
  "bind_run r f = (case r of Inl e \<Rightarrow> Inl e | Inr x \<Rightarrow> f x)"

lemma bind_run_simps [simp]: "bind_run (Inl e) f = Inl e" "bind_run (Inr x) f = f x"
  by (simp_all add: bind_run_def)

lemma bind_run_Inr: "bind_run r f = Inr y \<longleftrightarrow> (\<exists>x. r = Inr x \<and> f x = Inr y)"
  by (cases r) simp_all

definition raise_contract :: "string \<Rightarrow> string \<Rightarrow> 'a run" where
  "raise_contract error_code message = Inl (ContractExc error_code message)"

lemma raise_not_Inr [simp]: "raise_contract c m \<noteq> Inr x"
  by (simp add: raise_contract_def)

fun lift_result :: "'a result \<Rightarrow> 'a run" where
  "lift_result (Inl (ContractError c m)) = Inl (ContractExc c m)"
| "lift_result (Inl e) = Inl OtherExc"
| "lift_result (Inr x) = Inr x"

text \<open>What \<^verbatim>\<open>clock.wait_for\<close> does with an awaitable.\<close>

datatype schedule =
    SchedulerRaises
  | SchedulerNotAwaitable
  | WaitTimesOut
  | WaitRaises
  | WaitInvalid
  | WaitCompletes

fun clock_wait_for :: "schedule \<Rightarrow> 'a run \<Rightarrow> 'a run" where
  "clock_wait_for SchedulerRaises operation = raise_contract ''invalid_provider_clock'' ''provider clock scheduler failed''"
| "clock_wait_for SchedulerNotAwaitable operation =
     raise_contract ''invalid_provider_clock'' ''provider clock scheduler must return an awaitable''"
| "clock_wait_for WaitTimesOut operation = Inl TimeoutExc"
| "clock_wait_for WaitRaises operation = raise_contract ''invalid_provider_clock'' ''provider clock scheduler failed''"
| "clock_wait_for WaitInvalid operation =
     raise_contract ''invalid_provider_clock'' ''provider clock scheduler returned an invalid result''"
| "clock_wait_for WaitCompletes operation = operation"

datatype clock_reading = NowFails | NotAware | NowIs aware_datetime

fun read_clock :: "clock_reading \<Rightarrow> aware_datetime run" where
  "read_clock NowFails = raise_contract ''invalid_provider_clock'' ''provider adapter clock failed''"
| "read_clock NotAware =
     raise_contract ''invalid_provider_clock'' ''provider adapter clock must return an aware datetime''"
| "read_clock (NowIs t) = Inr t"

section \<open>Text and evidence of the adapter\<close>

definition utf8_bytes :: "py_text \<Rightarrow> byte list run" where
  "utf8_bytes t = (case t of
     Encodable s \<Rightarrow> Inr (utf8 s)
   | Surrogates n \<Rightarrow> raise_contract ''invalid_provider_event'' ''provider text must be valid UTF-8'')"

fun text_length :: "py_text \<Rightarrow> int" where
  "text_length (Encodable s) = int (length s)"
| "text_length (Surrogates n) = int n"

definition text_digest :: "string \<Rightarrow> string" where
  "text_digest s = sha256 (utf8 s)"

definition event_digest :: "json list \<Rightarrow> string" where
  "event_digest events = canonical_json_sha256 (JArr events)"

text \<open>Evidence as the adapter hands it over: none, a value with the fields of the model, or neither.\<close>

datatype 'a raw = NoEvidence | Fields 'a | Malformed

definition validate_usage :: "ProviderUsageMetadata raw \<Rightarrow> ProviderUsageMetadata option run" where
  "validate_usage v =
     (let invalid = raise_contract ''invalid_provider_event'' ''provider usage evidence failed validation'' in
      case v of NoEvidence \<Rightarrow> Inr None | Malformed \<Rightarrow> invalid
      | Fields u \<Rightarrow> (case validate_model id check_usage u of Inl e \<Rightarrow> invalid | Inr u \<Rightarrow> Inr (Some u)))"

definition validate_cost :: "ProviderCostObservation raw \<Rightarrow> ProviderCostObservation option run" where
  "validate_cost v =
     (let invalid = raise_contract ''invalid_provider_event'' ''provider cost evidence failed validation'' in
      case v of NoEvidence \<Rightarrow> Inr None | Malformed \<Rightarrow> invalid
      | Fields c \<Rightarrow> (case validate_model normalise_cost check_cost c of Inl e \<Rightarrow> invalid | Inr c \<Rightarrow> Inr (Some c)))"

record Terminal =
  tm_status :: ExecutionStatus
  tm_text :: "string option"
  tm_output_sha256 :: "string option"
  tm_event_sha256 :: string
  tm_event_count :: int
  tm_max_buffered_events :: int
  tm_usage :: "ProviderUsageMetadata option"
  tm_cost :: "ProviderCostObservation option"
  tm_evidence_refs :: "string list"
  tm_blocker :: "ProviderExecutionBlocker option"
  tm_error :: "ProviderExecutionError option"

section \<open>The complete mode\<close>

text \<open>The answer of \<open>complete\<close>: its text (None if it is not a \<^verbatim>\<open>str\<close>), or no \<open>ProviderAdapterComplete\<close>.\<close>

datatype adapter_complete =
    CompleteAnswer "py_text option" "string list" "ProviderUsageMetadata raw" "ProviderCostObservation raw"
  | NotComplete

definition too_large :: "'a run" where
  "too_large = raise_contract ''provider_output_too_large'' ''provider output exceeds the byte limit''"

definition run_complete :: "adapter_complete \<Rightarrow> ProviderCallLimits \<Rightarrow> Terminal run" where
  "run_complete answer limits =
     (case answer of
        CompleteAnswer (Some t) refs usage cost \<Rightarrow>
          if text_length t > pl_output_bytes limits then too_large
          else bind_run (utf8_bytes t) (\<lambda>encoded.
            if int (length encoded) > pl_output_bytes limits then too_large
            else bind_run (validate_usage usage) (\<lambda>usage. bind_run (validate_cost cost) (\<lambda>cost.
              let text = (case t of Encodable s \<Rightarrow> s | Surrogates _ \<Rightarrow> []);
                  digest = text_digest text
              in Inr \<lparr>tm_status = Completed, tm_text = Some text, tm_output_sha256 = Some digest,
                   tm_event_sha256 = event_digest
                     [JObj [(''kind'', JStr ''complete''), (''sequence'', JInt 0), (''bytes'', JInt (int (length encoded))),
                            (''sha256'', JStr digest)]],
                   tm_event_count = 1, tm_max_buffered_events = 0, tm_usage = usage, tm_cost = cost,
                   tm_evidence_refs = refs, tm_blocker = None, tm_error = None\<rparr>)))
      | _ \<Rightarrow> raise_contract ''invalid_provider_event'' ''complete adapter returned an invalid result'')"

section \<open>The stream mode\<close>

datatype stream_event =
    Chunk "py_text option"
  | TerminalEvent "string list" "ProviderUsageMetadata raw" "ProviderCostObservation raw"
  | Unsupported

text \<open>One pull: an event, or a batch (None if its events are not a tuple).\<close>

datatype stream_item = Single stream_event | Batch "stream_event list option"

record StreamState =
  ss_chunks :: "string list"
  ss_events :: "json list"
  ss_total_bytes :: int
  ss_max_buffered_events :: int

definition initial_stream :: StreamState where
  "initial_stream = \<lparr>ss_chunks = [], ss_events = [], ss_total_bytes = 0, ss_max_buffered_events = 0\<rparr>"

definition chunk_json :: "int \<Rightarrow> byte list \<Rightarrow> json" where
  "chunk_json sequence encoded =
     JObj [(''kind'', JStr ''chunk''), (''sequence'', JInt sequence), (''bytes'', JInt (int (length encoded))),
           (''sha256'', JStr (sha256 encoded))]"

definition terminal_json :: "int \<Rightarrow> string \<Rightarrow> json" where
  "terminal_json sequence status =
     JObj [(''kind'', JStr ''terminal''), (''sequence'', JInt sequence), (''status'', JStr status)]"

definition event_count :: "StreamState \<Rightarrow> int" where
  "event_count state = int (length (ss_events state))"

definition consume_chunk :: "py_text option \<Rightarrow> StreamState \<Rightarrow> ProviderCallLimits \<Rightarrow> StreamState run" where
  "consume_chunk chunk state limits =
     (let large = raise_contract ''provider_chunk_too_large'' ''provider stream chunk exceeds the byte limit'' in
      case chunk of
        None \<Rightarrow> raise_contract ''invalid_provider_event'' ''provider stream chunk must contain text''
      | Some t \<Rightarrow>
          if text_length t > pl_chunk_bytes limits then large
          else bind_run (utf8_bytes t) (\<lambda>encoded.
            if int (length encoded) > pl_chunk_bytes limits then large
            else if ss_total_bytes state + int (length encoded) > pl_output_bytes limits then too_large
            else Inr (state\<lparr>
              ss_total_bytes := ss_total_bytes state + int (length encoded),
              ss_chunks := ss_chunks state @ [case t of Encodable s \<Rightarrow> s | Surrogates _ \<Rightarrow> []],
              ss_events := ss_events state @ [chunk_json (event_count state) encoded]\<rparr>)))"

definition stream_terminal ::
  "StreamState \<Rightarrow> string list \<Rightarrow> ProviderUsageMetadata raw \<Rightarrow> ProviderCostObservation raw \<Rightarrow> Terminal run" where
  "stream_terminal state refs usage cost =
     (let text = concat (ss_chunks state);
          events = ss_events state @ [terminal_json (event_count state) ''completed'']
      in bind_run (validate_usage usage) (\<lambda>usage. bind_run (validate_cost cost) (\<lambda>cost.
           Inr \<lparr>tm_status = Completed, tm_text = Some text, tm_output_sha256 = Some (text_digest text),
             tm_event_sha256 = event_digest events, tm_event_count = int (length events),
             tm_max_buffered_events = ss_max_buffered_events state, tm_usage = usage, tm_cost = cost,
             tm_evidence_refs = refs, tm_blocker = None, tm_error = None\<rparr>)))"

definition event_limit_exceeded :: "'a run" where
  "event_limit_exceeded = raise_contract ''provider_event_limit_exceeded'' ''provider stream exceeds the event limit''"

text \<open>The events of one pull: the state after them, and the terminal if they ended the stream.\<close>

fun consume_events ::
  "stream_event list \<Rightarrow> StreamState \<Rightarrow> ProviderCallLimits \<Rightarrow> (StreamState \<times> Terminal option) run" where
  "consume_events [] state limits = Inr (state, None)"
| "consume_events (e # rest) state limits =
     (if event_count state \<ge> pl_events limits then event_limit_exceeded
      else case e of
        Chunk chunk \<Rightarrow> bind_run (consume_chunk chunk state limits) (\<lambda>state. consume_events rest state limits)
      | TerminalEvent refs usage cost \<Rightarrow>
          if rest \<noteq> [] then raise_contract ''provider_event_after_terminal''
            ''provider stream batch contains an event after terminal''
          else bind_run (stream_terminal state refs usage cost) (\<lambda>t. Inr (state, Some t))
      | Unsupported \<Rightarrow> raise_contract ''invalid_provider_event'' ''provider stream returned an unsupported event'')"

definition item_events :: "stream_item \<Rightarrow> stream_event list option" where
  "item_events pulled = (case pulled of Single e \<Rightarrow> Some [e] | Batch events \<Rightarrow> events)"

definition buffered_count :: "stream_item \<Rightarrow> int" where
  "buffered_count pulled = (case pulled of Batch (Some events) \<Rightarrow> int (length events) | _ \<Rightarrow> 0)"

definition batch_refused :: "stream_item \<Rightarrow> ProviderCallLimits \<Rightarrow> bool" where
  "batch_refused pulled limits = (case pulled of
     Batch (Some events) \<Rightarrow> events = [] \<or> pl_buffered_events limits = 0 \<or> int (length events) > pl_buffered_events limits
   | _ \<Rightarrow> False)"

definition stream_step ::
  "stream_item \<Rightarrow> StreamState \<Rightarrow> ProviderCallLimits \<Rightarrow> (StreamState \<times> Terminal option) run" where
  "stream_step pulled state limits =
     (case item_events pulled of
        None \<Rightarrow> raise_contract ''invalid_provider_event'' ''provider stream batch has an invalid event container''
      | Some buffered \<Rightarrow>
          if batch_refused pulled limits
          then raise_contract ''provider_buffer_limit_exceeded'' ''provider stream batch exceeds the buffer limit''
          else consume_events buffered
            (state\<lparr>ss_max_buffered_events := max (ss_max_buffered_events state) (buffered_count pulled)\<rparr>) limits)"

text \<open>A pull: \<open>__anext__()\<close> raises, does not return an awaitable, or returns one that is waited for.\<close>

datatype pull = PullRaises exc | PullNotAwaitable | PullAwaits schedule "stream_item run"

fun pull_item :: "pull \<Rightarrow> stream_item run" where
  "pull_item (PullRaises e) = Inl e"
| "pull_item PullNotAwaitable =
     raise_contract ''invalid_provider_adapter'' ''provider stream pulls must be awaitable''"
| "pull_item (PullAwaits s pulled) = clock_wait_for s pulled"

definition idle_timeout :: ProviderAdapterFailure where
  "idle_timeout = \<lparr>pf_code = ''provider_idle_timeout'', pf_category = CatTimeout, pf_retryable = True,
     pf_evidence_refs = [''provider-call/idle-timeout''], pf_status = Failed\<rparr>"

definition next_item :: "pull \<Rightarrow> stream_item run" where
  "next_item p = (case pull_item p of
     Inl TimeoutExc \<Rightarrow> Inl (FailureExc idle_timeout)
   | Inl StopExc \<Rightarrow> raise_contract ''provider_stream_missing_terminal'' ''provider stream ended without a terminal event''
   | Inl e \<Rightarrow> Inl e
   | Inr pulled \<Rightarrow> Inr pulled)"

lemma consume_chunk_count: "consume_chunk c state limits = Inr state' \<Longrightarrow> event_count state' = event_count state + 1"
  by (auto simp: consume_chunk_def event_count_def too_large_def Let_def bind_run_Inr split: option.splits if_splits)

lemma consume_events_count:
  "consume_events es state limits = Inr (state', None) \<Longrightarrow> event_count state' = event_count state + int (length es)"
proof (induction es state limits rule: consume_events.induct)
  case (2 e rest state limits)
  then show ?case
    by (auto simp: bind_run_Inr event_limit_exceeded_def dest!: consume_chunk_count split: if_splits stream_event.splits)
qed simp

lemma stream_step_progress:
  "stream_step pulled state limits = Inr (state', None) \<Longrightarrow> event_count state < event_count state'"
  by (auto simp: stream_step_def item_events_def batch_refused_def dest!: consume_events_count
      split: option.splits if_splits stream_item.splits) (auto simp: event_count_def)

function stream_loop :: "(nat \<Rightarrow> pull) \<Rightarrow> nat \<Rightarrow> StreamState \<Rightarrow> ProviderCallLimits \<Rightarrow> Terminal run" where
  "stream_loop pulls n state limits =
     (if event_count state \<ge> pl_events limits then event_limit_exceeded
      else case next_item (pulls n) of
        Inl e \<Rightarrow> Inl e
      | Inr pulled \<Rightarrow>
          (case stream_step pulled state limits of
             Inl e \<Rightarrow> Inl e
           | Inr (state', Some t) \<Rightarrow> Inr t
           | Inr (state', None) \<Rightarrow> stream_loop pulls (Suc n) state' limits))"
  by pat_completeness auto
termination
  by (relation "measure (\<lambda>(_, _, state, limits). nat (pl_events limits - event_count state))")
    (auto dest: stream_step_progress)

declare stream_loop.simps [simp del]

text \<open>The value of \<open>stream\<close>: it raises, it is no asynchronous iterator, or it is one.\<close>

datatype stream_opening = OpenRaises exc | NotIterator | Opens "nat \<Rightarrow> pull"

definition run_stream :: "stream_opening \<Rightarrow> ProviderCallLimits \<Rightarrow> Terminal run" where
  "run_stream opening limits = (case opening of
     OpenRaises e \<Rightarrow> Inl e
   | NotIterator \<Rightarrow> raise_contract ''invalid_provider_adapter'' ''provider stream must return an async iterator''
   | Opens pulls \<Rightarrow> stream_loop pulls 0 initial_stream limits)"

section \<open>Failures and outcomes\<close>

definition failure_event_sha256 :: "ExecutionStatus \<Rightarrow> string" where
  "failure_event_sha256 status = event_digest [terminal_json 0 (execution_status_name status)]"

definition failed_terminal ::
  "ProviderAdapterFailure \<Rightarrow> ExecutionStatus \<Rightarrow> ProviderExecutionBlocker option \<Rightarrow> ProviderExecutionError option \<Rightarrow> Terminal" where
  "failed_terminal failure status blocker error =
     \<lparr>tm_status = status, tm_text = None, tm_output_sha256 = None,
      tm_event_sha256 = failure_event_sha256 (pf_status failure), tm_event_count = 1, tm_max_buffered_events = 0,
      tm_usage = None, tm_cost = None, tm_evidence_refs = pf_evidence_refs failure, tm_blocker = blocker, tm_error = error\<rparr>"

definition failure_terminal :: "ProviderAdapterFailure \<Rightarrow> Terminal run" where
  "failure_terminal failure =
     (let invalid = raise_contract ''invalid_provider_failure'' ''provider failure evidence failed validation'' in
      if pf_status failure = ExecutionBlocked
      then (case validate_model id check_execution_blocker
                \<lparr>xb_code = pf_code failure,
                 xb_category = (if pf_category failure = CatTimeout then CatTransport else pf_category failure),
                 xb_evidence_refs = pf_evidence_refs failure\<rparr> of
              Inl e \<Rightarrow> invalid
            | Inr blocker \<Rightarrow> Inr (failed_terminal failure ExecutionBlocked (Some blocker) None))
      else (case validate_model id check_execution_error
                \<lparr>xe_code = pf_code failure, xe_category = pf_category failure,
                 xe_retryable = pf_retryable failure, xe_evidence_refs = pf_evidence_refs failure\<rparr> of
              Inl e \<Rightarrow> invalid
            | Inr error \<Rightarrow> Inr (failed_terminal failure (pf_status failure) None (Some error))))"

definition call_timeout :: ProviderAdapterFailure where
  "call_timeout = \<lparr>pf_code = ''provider_call_timeout'', pf_category = CatTimeout, pf_retryable = True,
     pf_evidence_refs = [''provider-call/timeout''], pf_status = Failed\<rparr>"

definition call_indeterminate :: ProviderAdapterFailure where
  "call_indeterminate = \<lparr>pf_code = ''provider_call_indeterminate'', pf_category = CatUnknown, pf_retryable = False,
     pf_evidence_refs = [''provider-call/indeterminate''], pf_status = Indeterminate\<rparr>"

definition unsupported_capability :: ProviderAdapterFailure where
  "unsupported_capability = \<lparr>pf_code = ''unsupported_provider_capability'', pf_category = CatAdapter, pf_retryable = False,
     pf_evidence_refs = [''provider-call/capability''], pf_status = ExecutionBlocked\<rparr>"

fun terminal_from_observed :: "Terminal run \<Rightarrow> Terminal run" where
  "terminal_from_observed (Inr t) = Inr t"
| "terminal_from_observed (Inl (FailureExc failure)) = failure_terminal failure"
| "terminal_from_observed (Inl TimeoutExc) = failure_terminal call_timeout"
| "terminal_from_observed (Inl (ContractExc c m)) = Inl (ContractExc c m)"
| "terminal_from_observed (Inl CancelledExc) = Inl CancelledExc"
| "terminal_from_observed (Inl StopExc) = failure_terminal call_indeterminate"
| "terminal_from_observed (Inl OtherExc) = failure_terminal call_indeterminate"

section \<open>The execution result\<close>

text \<open>\<^verbatim>\<open>str.replace\<close>\<close>

function replace_text :: "string \<Rightarrow> string \<Rightarrow> string \<Rightarrow> string" where
  "replace_text old new s =
     (if s = [] \<or> old = [] then s
      else if take (length old) s = old then new @ replace_text old new (drop (length old) s)
      else hd s # replace_text old new (tl s))"
  by pat_completeness auto
termination by (relation "measure (\<lambda>(_, _, s). length s)") auto

declare replace_text.simps [simp del]

definition wire_time :: "aware_datetime \<Rightarrow> string" where
  "wire_time t = replace_text ''+00:00'' ''Z'' (isoformat t)"

definition built_result ::
  "(aware_datetime \<Rightarrow> string) \<Rightarrow> ProviderExecutionRequest \<Rightarrow> Terminal \<Rightarrow> aware_datetime \<Rightarrow> aware_datetime \<Rightarrow> ProviderExecutionResult" where
  "built_result render request terminal started_at finished_at =
     \<lparr>xs_result_id = xr_request_id request @ ''.result'', xs_request_id = xr_request_id request,
      xs_request_sha256 = canonical_json_sha256 (execution_request_json render request),
      xs_idempotency_key_sha256 = xr_idempotency_key_sha256 request, xs_candidate = xr_candidate request,
      xs_scenario_set_id = xr_scenario_set_id request, xs_case_id = xr_case_id request,
      xs_provider = xr_provider request, xs_status = tm_status terminal, xs_started_at = started_at,
      xs_finished_at = finished_at, xs_output_sha256 = tm_output_sha256 terminal, xs_usage = tm_usage terminal,
      xs_evidence_refs = tm_evidence_refs terminal, xs_blocker = tm_blocker terminal, xs_error = tm_error terminal,
      xs_replay_of_result_id = None, xs_replay_of_result_sha256 = None\<rparr>"

definition execution_result ::
  "(aware_datetime \<Rightarrow> string) \<Rightarrow> ProviderExecutionRequest \<Rightarrow> Terminal \<Rightarrow> aware_datetime \<Rightarrow> aware_datetime \<Rightarrow> ProviderExecutionResult run" where
  "execution_result render request terminal started_at finished_at =
     (let result = built_result render request terminal started_at finished_at in
      if \<not> rfc3339 (wire_time started_at) \<or> \<not> rfc3339 (wire_time finished_at)
         \<or> \<not> is_ok (validate_model id check_execution_result result)
         \<or> \<not> is_ok (validate_against_request render result request)
      then raise_contract ''invalid_provider_result'' ''provider result evidence failed validation''
      else Inr result)"

section \<open>The adapter\<close>

text \<open>A hook as \<^verbatim>\<open>inspect\<close> sees it: callable, a coroutine function, and accepting its arguments.\<close>

record hook =
  hk_callable :: bool
  hk_coroutine :: bool
  hk_binds :: bool

text \<open>What reading the adapter's members yields; a descriptor that is no descriptor is None.\<close>

datatype adapter_members =
    MembersUnreadable
  | Members "TextProviderAdapterDescriptor option" hook hook

datatype cleanup_call = CleanupRaises exc | CleanupNotAwaitable | CleanupReturns bool | CleanupFails exc

record adapter =
  ad_members :: adapter_members
  ad_complete :: "ProviderExecutionRequest \<Rightarrow> json \<Rightarrow> adapter_complete run"
  ad_stream :: "ProviderExecutionRequest \<Rightarrow> json \<Rightarrow> stream_opening"
  ad_cleanup :: cleanup_call

definition invalid_adapter :: "string \<Rightarrow> 'a run" where
  "invalid_adapter message = raise_contract ''invalid_provider_adapter'' message"

definition read_adapter :: "ProviderExecutionRequest \<Rightarrow> adapter_members \<Rightarrow> TextProviderAdapterDescriptor run" where
  "read_adapter request members =
     (case members of
        MembersUnreadable \<Rightarrow> invalid_adapter ''provider adapter members could not be read''
      | Members None selected cleanup \<Rightarrow> invalid_adapter ''provider adapter descriptor failed revalidation''
      | Members (Some descriptor) selected cleanup \<Rightarrow>
          if \<not> is_ok (validate_model id check_descriptor descriptor)
          then invalid_adapter ''provider adapter descriptor failed revalidation''
          else if td_provider descriptor \<noteq> xr_provider request
          then raise_contract ''provider_adapter_mismatch'' ''provider adapter identity does not match the request''
          else if \<not> hk_callable cleanup \<or> \<not> hk_coroutine cleanup
          then invalid_adapter ''provider adapter does not implement cleanup''
          else if \<not> hk_callable selected
          then invalid_adapter ''provider adapter does not implement its selected mode''
          else if \<not> hk_coroutine selected
          then invalid_adapter ''provider selected hook must be asynchronous''
          else if \<not> hk_binds selected \<or> \<not> hk_binds cleanup
          then invalid_adapter ''provider adapter hook signature is invalid''
          else Inr descriptor)"

section \<open>Cleanup and the call\<close>

text \<open>
  What the clock answers during one call: whether its members could be read, its two readings, and
  its scheduling of the runner, of the adapter's cleanup and of the wait for it.
\<close>

record clock =
  ck_readable :: bool
  ck_started :: clock_reading
  ck_finished :: clock_reading
  ck_overall :: schedule
  ck_cleanup :: schedule
  ck_cleanup_wait :: schedule

text \<open>The cleanup task: its value says whether the hook resolved to \<^verbatim>\<open>None\<close>.\<close>

definition cleanup_task :: "schedule \<Rightarrow> cleanup_call \<Rightarrow> bool run" where
  "cleanup_task s c = (case c of
     CleanupRaises e \<Rightarrow> Inl e
   | CleanupNotAwaitable \<Rightarrow> invalid_adapter ''provider cleanup must return an awaitable''
   | CleanupReturns is_none \<Rightarrow> clock_wait_for s (Inr is_none)
   | CleanupFails e \<Rightarrow> clock_wait_for s (Inl e))"

definition run_cleanup :: "clock \<Rightarrow> cleanup_call \<Rightarrow> bool run" where
  "run_cleanup ck c = (case clock_wait_for (ck_cleanup_wait ck) (cleanup_task (ck_cleanup ck) c) of
     Inl (ContractExc error_code message) \<Rightarrow> Inl (ContractExc error_code message)
   | Inl e \<Rightarrow> Inr False
   | Inr is_none \<Rightarrow> if is_none then Inr True else invalid_adapter ''provider cleanup must resolve to None'')"

datatype call_step = RunnerScheduled | CleanupRun

record ProviderCallOutcome =
  po_public_result :: ProviderCallPublicResult
  po_complete_text :: "string option"

definition runner ::
  "ProviderExecutionRequest \<Rightarrow> json \<Rightarrow> adapter \<Rightarrow> CallMode \<Rightarrow> ProviderCallLimits \<Rightarrow> Terminal run" where
  "runner request payload ad mode limits = (case mode of
     CompleteMode \<Rightarrow> bind_run (ad_complete ad request payload) (\<lambda>answer. run_complete answer limits)
   | StreamMode \<Rightarrow> run_stream (ad_stream ad request payload) limits)"

text \<open>The body of the \<^verbatim>\<open>try\<close>: the first clock reading and the terminal.\<close>

definition attempt ::
  "ProviderExecutionRequest \<Rightarrow> json \<Rightarrow> adapter \<Rightarrow> CallMode \<Rightarrow> ProviderCallLimits \<Rightarrow> clock
     \<Rightarrow> call_step list \<times> (aware_datetime \<times> Terminal) run" where
  "attempt request payload ad mode limits ck =
     (case read_clock (ck_started ck) of
        Inl e \<Rightarrow> ([], Inl e)
      | Inr started_at \<Rightarrow>
          if xr_declared_capability request \<noteq> ResponseGeneration
          then ([], bind_run (failure_terminal unsupported_capability) (\<lambda>t. Inr (started_at, t)))
          else ([RunnerScheduled],
                bind_run (terminal_from_observed (clock_wait_for (ck_overall ck) (runner request payload ad mode limits)))
                  (\<lambda>t. Inr (started_at, t))))"

definition public_result ::
  "ProviderExecutionRequest \<Rightarrow> CallMode \<Rightarrow> Terminal \<Rightarrow> bool \<Rightarrow> ProviderExecutionResult \<Rightarrow> ProviderCallPublicResult" where
  "public_result request mode t cleanup_succeeded execution =
     \<lparr>cr_request_id = xr_request_id request, cr_mode = mode, cr_status = tm_status t,
      cr_event_count = tm_event_count t,
      cr_output_bytes = (case tm_text t of None \<Rightarrow> 0 | Some text \<Rightarrow> int (length (utf8 text))),
      cr_output_sha256 = tm_output_sha256 t, cr_event_sha256 = tm_event_sha256 t,
      cr_max_buffered_events = tm_max_buffered_events t, cr_cleanup_attempted = True,
      cr_cleanup_succeeded = cleanup_succeeded, cr_cleanup_failed_code = (\<not> cleanup_succeeded),
      cr_usage = tm_usage t, cr_cost = tm_cost t, cr_execution = execution\<rparr>"

definition finish_call ::
  "(aware_datetime \<Rightarrow> string) \<Rightarrow> ProviderExecutionRequest \<Rightarrow> CallMode \<Rightarrow> clock \<Rightarrow> bool \<Rightarrow> aware_datetime \<times> Terminal
     \<Rightarrow> ProviderCallOutcome run" where
  "finish_call render request mode ck cleanup_succeeded observed =
     (case observed of (started_at, t) \<Rightarrow>
        bind_run (read_clock (ck_finished ck)) (\<lambda>finished_at.
        bind_run (execution_result render request t started_at finished_at) (\<lambda>execution.
          case validate_model normalise_call_result check_call_result (public_result request mode t cleanup_succeeded execution) of
            Inl e \<Rightarrow> raise_contract ''invalid_provider_result'' ''provider result evidence failed validation''
          | Inr r \<Rightarrow> Inr \<lparr>po_public_result = r, po_complete_text = tm_text t\<rparr>)))"

definition execute_provider_call ::
  "(aware_datetime \<Rightarrow> string) \<Rightarrow> heap \<Rightarrow> ProviderExecutionRequest \<Rightarrow> py_value \<Rightarrow> adapter \<Rightarrow> ProviderCallLimits \<Rightarrow> clock
     \<Rightarrow> call_step list \<times> ProviderCallOutcome run" where
  "execute_provider_call render h request input_payload ad limits ck =
     (if \<not> is_ok (check_limits limits)
      then ([], raise_contract ''invalid_provider_limits'' ''provider call limits failed validation'')
      else case validate_request_and_input h request input_payload limits of
        Inl e \<Rightarrow> ([], lift_result (Inl e))
      | Inr (request, payload) \<Rightarrow>
          if \<not> ck_readable ck
          then ([], raise_contract ''invalid_provider_clock'' ''provider clock members are invalid'')
          else (case read_adapter request (ad_members ad) of
              Inl e \<Rightarrow> ([], Inl e)
            | Inr descriptor \<Rightarrow>
                (let (steps, observed) = attempt request payload ad (td_mode descriptor) limits ck in
                 (steps @ [CleanupRun],
                  bind_run (run_cleanup ck (ad_cleanup ad)) (\<lambda>cleanup_succeeded.
                  bind_run observed (finish_call render request (td_mode descriptor) ck cleanup_succeeded))))))"

end
