(* ===== verification/Provider_Safety.thy ===== *)
theory Provider_Safety
  imports Provider_Call
begin

text \<open>
  The properties of a provider call. \<open>stream_inv\<close> is the invariant of the stream's state and
  \<open>terminal_ok\<close> what every terminal satisfies; the loop preserves them by computation induction.
  \<open>stream_loop_flat\<close> is a refinement: a stream that ends consumed exactly the concatenation of the
  events of its pulls, so batching is invisible in the output and in the event digest.
\<close>

section \<open>The invariant of the stream\<close>

text \<open>The events are the chunks, numbered in order: the specification of the event log.\<close>

definition chunk_log :: "string list \<Rightarrow> json list" where
  "chunk_log chunks = map (\<lambda>(i, c). chunk_json (int i) (utf8 c)) (zip [0..<length chunks] chunks)"

definition stream_inv :: "ProviderCallLimits \<Rightarrow> StreamState \<Rightarrow> bool" where
  "stream_inv limits state \<longleftrightarrow>
     ss_events state = chunk_log (ss_chunks state)
     \<and> ss_total_bytes state = int (length (utf8 (concat (ss_chunks state))))
     \<and> ss_total_bytes state \<le> pl_output_bytes limits
     \<and> event_count state \<le> pl_events limits
     \<and> 0 \<le> ss_max_buffered_events state \<and> ss_max_buffered_events state \<le> pl_buffered_events limits"

lemma chunk_log_snoc: "chunk_log (cs @ [c]) = chunk_log cs @ [chunk_json (int (length cs)) (utf8 c)]"
  by (simp add: chunk_log_def)

lemma length_chunk_log [simp]: "length (chunk_log cs) = length cs"
  by (simp add: chunk_log_def)

lemma consume_chunk_Inr:
  "consume_chunk chunk state limits = Inr state' \<longleftrightarrow>
     (\<exists>s. chunk = Some (Encodable s) \<and> int (length (utf8 s)) \<le> pl_chunk_bytes limits
        \<and> int (length s) \<le> pl_chunk_bytes limits
        \<and> ss_total_bytes state + int (length (utf8 s)) \<le> pl_output_bytes limits
        \<and> state' = state\<lparr>ss_total_bytes := ss_total_bytes state + int (length (utf8 s)),
                         ss_chunks := ss_chunks state @ [s],
                         ss_events := ss_events state @ [chunk_json (event_count state) (utf8 s)]\<rparr>)"
proof (cases chunk)
  case (Some t)
  then show ?thesis by (cases t) (auto simp: consume_chunk_def Let_def utf8_bytes_def too_large_def not_less bind_run_Inr)
qed (simp add: consume_chunk_def Let_def)

lemma consume_chunk_inv:
  assumes "consume_chunk chunk state limits = Inr state'" "stream_inv limits state" "event_count state < pl_events limits"
  shows "stream_inv limits state'" "ss_max_buffered_events state' = ss_max_buffered_events state"
  using assms by (auto simp: consume_chunk_Inr stream_inv_def chunk_log_snoc event_count_def utf8_append)

lemma consume_events_inv:
  "consume_events es state limits = Inr (state', t) \<Longrightarrow> stream_inv limits state \<Longrightarrow> stream_inv limits state'"
proof (induction es state limits rule: consume_events.induct)
  case (2 e rest state limits)
  then show ?case
    by (auto simp: bind_run_Inr event_limit_exceeded_def not_le split: if_splits stream_event.splits
        dest: consume_chunk_inv)
qed simp

section \<open>Terminals\<close>

definition evidence_ok :: "ProviderUsageMetadata option \<Rightarrow> ProviderCostObservation option \<Rightarrow> bool" where
  "evidence_ok usage cost \<longleftrightarrow> (\<forall>u. usage = Some u \<longrightarrow> passes (check_usage u))
     \<and> (\<forall>c. cost = Some c \<longrightarrow> passes (check_cost c) \<and> normalise_cost c = c)"

definition completed_terminal :: "ProviderCallLimits \<Rightarrow> string \<Rightarrow> Terminal \<Rightarrow> bool" where
  "completed_terminal limits text t \<longleftrightarrow>
     tm_status t = Completed \<and> tm_text t = Some text \<and> tm_output_sha256 t = Some (text_digest text)
     \<and> int (length (utf8 text)) \<le> pl_output_bytes limits
     \<and> 1 \<le> tm_event_count t \<and> tm_event_count t \<le> pl_events limits
     \<and> 0 \<le> tm_max_buffered_events t \<and> tm_max_buffered_events t \<le> pl_buffered_events limits
     \<and> is_sha256 (tm_event_sha256 t) \<and> evidence_ok (tm_usage t) (tm_cost t)
     \<and> tm_blocker t = None \<and> tm_error t = None"

definition failed_terminal_ok :: "Terminal \<Rightarrow> bool" where
  "failed_terminal_ok t \<longleftrightarrow>
     tm_text t = None \<and> tm_output_sha256 t = None \<and> tm_usage t = None \<and> tm_cost t = None
     \<and> tm_event_count t = 1 \<and> tm_max_buffered_events t = 0 \<and> is_sha256 (tm_event_sha256 t)"

definition terminal_ok :: "ProviderCallLimits \<Rightarrow> Terminal \<Rightarrow> bool" where
  "terminal_ok limits t \<longleftrightarrow> failed_terminal_ok t \<or> (\<exists>text. completed_terminal limits text t)"

lemma event_digest_ok [simp]: "is_sha256 (event_digest es)"
  by (simp add: event_digest_def)

lemma validate_usage_Inr: "validate_usage v = Inr u \<Longrightarrow> \<forall>x. u = Some x \<longrightarrow> passes (check_usage x)"
  by (auto simp: validate_usage_def Let_def usage_model.validate_ok_iff split: raw.splits sum.splits)

lemma validate_cost_Inr: "validate_cost v = Inr c \<Longrightarrow> \<forall>x. c = Some x \<longrightarrow> passes (check_cost x) \<and> normalise_cost x = x"
  by (auto simp: validate_cost_def Let_def cost_model.validate_ok_iff split: raw.splits sum.splits)

lemma evidence_made: "validate_usage v = Inr u \<Longrightarrow> validate_cost w = Inr c \<Longrightarrow> evidence_ok u c"
  unfolding evidence_ok_def using validate_usage_Inr validate_cost_Inr by blast

lemma stream_terminal_ok:
  assumes "stream_terminal state refs usage cost = Inr t" "stream_inv limits state" "event_count state < pl_events limits"
  shows "completed_terminal limits (concat (ss_chunks state)) t"
  using assms
  by (auto simp: stream_terminal_def Let_def bind_run_Inr completed_terminal_def stream_inv_def event_count_def
      intro: evidence_made)

lemma consume_events_terminal:
  "consume_events es state limits = Inr (state', Some t) \<Longrightarrow> stream_inv limits state \<Longrightarrow>
   completed_terminal limits (concat (ss_chunks state')) t"
proof (induction es state limits rule: consume_events.induct)
  case (2 e rest state limits)
  then show ?case
    by (auto simp: bind_run_Inr event_limit_exceeded_def not_le split: if_splits stream_event.splits
        dest: consume_chunk_inv stream_terminal_ok)
qed simp

lemma stream_step_inv:
  assumes "stream_step pulled state limits = Inr (state', t)" "stream_inv limits state"
  shows "stream_inv limits state'" and "\<And>u. t = Some u \<Longrightarrow> completed_terminal limits (concat (ss_chunks state')) u"
proof -
  obtain es where es: "consume_events es
      (state\<lparr>ss_max_buffered_events := max (ss_max_buffered_events state) (buffered_count pulled)\<rparr>) limits = Inr (state', t)"
    and "\<not> batch_refused pulled limits"
    using assms(1) by (auto simp: stream_step_def split: option.splits if_splits)
  moreover from this assms(2) have
    "stream_inv limits (state\<lparr>ss_max_buffered_events := max (ss_max_buffered_events state) (buffered_count pulled)\<rparr>)"
    by (auto simp: stream_inv_def event_count_def batch_refused_def buffered_count_def split: stream_item.splits option.splits)
  ultimately show "stream_inv limits state'" "\<And>u. t = Some u \<Longrightarrow> completed_terminal limits (concat (ss_chunks state')) u"
    using consume_events_inv consume_events_terminal by blast+
qed

lemma stream_loop_ok:
  "stream_loop pulls n state limits = Inr t \<Longrightarrow> stream_inv limits state \<Longrightarrow> \<exists>text. completed_terminal limits text t"
proof (induction pulls n state limits rule: stream_loop.induct)
  case (1 pulls n state limits)
  from 1(2) obtain pulled state' o' where nxt: "next_item (pulls n) = Inr pulled" "\<not> event_count state \<ge> pl_events limits"
    and stp: "stream_step pulled state limits = Inr (state', o')"
    by (subst (asm) stream_loop.simps) (auto simp: event_limit_exceeded_def split: if_splits sum.splits)
  show ?case
  proof (cases o')
    case None
    then have "stream_loop pulls (Suc n) state' limits = Inr t"
      using 1(2) nxt stp by (subst (asm) stream_loop.simps) simp
    then show ?thesis using 1(1) nxt stp None stream_step_inv(1) [OF stp 1(3)] by blast
  next
    case (Some u)
    then have "t = u" using 1(2) nxt stp by (subst (asm) stream_loop.simps) simp
    then show ?thesis using stream_step_inv(2) [OF stp 1(3) Some] by blast
  qed
qed

lemma initial_stream_inv: "0 \<le> pl_output_bytes limits \<Longrightarrow> 0 \<le> pl_events limits \<Longrightarrow> 0 \<le> pl_buffered_events limits \<Longrightarrow>
    stream_inv limits initial_stream"
  by (simp add: stream_inv_def initial_stream_def chunk_log_def event_count_def)

lemma run_complete_ok:
  assumes "run_complete answer limits = Inr t" and "1 \<le> pl_events limits" "0 \<le> pl_buffered_events limits"
  shows "\<exists>text. completed_terminal limits text t"
  using assms
  by (auto simp: run_complete_def too_large_def bind_run_Inr utf8_bytes_def Let_def completed_terminal_def not_less
      intro: evidence_made split: adapter_complete.splits option.splits if_splits py_text.splits)

section \<open>Limits\<close>

lemma check_limits_ok:
  assumes "is_ok (check_limits limits)"
  shows "1 \<le> pl_events limits" "pl_events limits \<le> 4096" "1 \<le> pl_output_bytes limits" "pl_output_bytes limits \<le> 1048576"
    "0 \<le> pl_buffered_events limits" "pl_buffered_events limits \<le> 8" "1 \<le> pl_chunk_bytes limits"
proof -
  have "passes (limit_checks limits)" using assms by (auto simp: check_limits_def passes_def split: option.splits)
  then show "1 \<le> pl_events limits" "pl_events limits \<le> 4096" "1 \<le> pl_output_bytes limits" "pl_output_bytes limits \<le> 1048576"
    "0 \<le> pl_buffered_events limits" "pl_buffered_events limits \<le> 8" "1 \<le> pl_chunk_bytes limits"
    by (simp_all add: limit_checks_def LIMIT_CEILINGS_def)
qed

section \<open>The runner and its outcome\<close>

lemma runner_ok:
  assumes "is_ok (check_limits limits)" and "runner request payload ad mode limits = Inr t"
  shows "\<exists>text. completed_terminal limits text t"
proof (cases mode)
  case CompleteMode
  then show ?thesis using assms(2) run_complete_ok check_limits_ok [OF assms(1)]
    by (auto simp: runner_def bind_run_Inr)
next
  case StreamMode
  have "stream_inv limits initial_stream" using check_limits_ok [OF assms(1)] by (intro initial_stream_inv) linarith+
  then show ?thesis using assms(2) stream_loop_ok StreamMode
    by (auto simp: runner_def run_stream_def split: stream_opening.splits)
qed

lemma failure_terminal_ok: "failure_terminal failure = Inr t \<Longrightarrow> failed_terminal_ok t"
  by (auto simp: failure_terminal_def Let_def failed_terminal_def failed_terminal_ok_def failure_event_sha256_def
      split: if_splits sum.splits)

lemma clock_wait_for_Inr: "clock_wait_for s r = Inr x \<longleftrightarrow> s = WaitCompletes \<and> r = Inr x"
  by (cases s) simp_all

lemma attempt_terminal_ok:
  assumes "is_ok (check_limits limits)" and "attempt request payload ad mode limits ck = (steps, Inr (started_at, t))"
  shows "terminal_ok limits t"
proof -
  have observed: "terminal_ok limits t" if "terminal_from_observed (clock_wait_for s (runner request payload ad mode limits)) = Inr t" for s
    using that
    by (cases "clock_wait_for s (runner request payload ad mode limits)" rule: terminal_from_observed.cases)
      (auto simp: terminal_ok_def clock_wait_for_Inr dest: failure_terminal_ok runner_ok [OF assms(1)])
  show ?thesis using assms(2) observed
    by (auto simp: attempt_def bind_run_Inr terminal_ok_def dest: failure_terminal_ok split: sum.splits if_splits)
qed

section \<open>The public result\<close>

lemma execution_result_Inr:
  "execution_result render request t started_at finished_at = Inr e \<longleftrightarrow>
     e = built_result render request t started_at finished_at
     \<and> rfc3339 (wire_time started_at) \<and> rfc3339 (wire_time finished_at)
     \<and> passes (check_execution_result e) \<and> validate_against_request render e request = Inr e"
  by (auto simp: execution_result_def Let_def is_ok_iff execution_result_model.validate_ok_iff bound_to_request)

lemma terminal_parts:
  assumes "is_ok (check_limits limits)" and "terminal_ok limits t"
  shows "0 \<le> tm_event_count t \<and> tm_event_count t \<le> 4096" "0 \<le> tm_max_buffered_events t \<and> tm_max_buffered_events t \<le> 8"
    "is_sha256 (tm_event_sha256 t)" "evidence_ok (tm_usage t) (tm_cost t)"
    "\<And>d. tm_output_sha256 t = Some d \<Longrightarrow> is_sha256 d"
    "tm_text t = None \<longleftrightarrow> tm_output_sha256 t = None"
    "\<And>text. tm_text t = Some text \<Longrightarrow> int (length (utf8 text)) \<le> 1048576 \<and> tm_status t = Completed"
  using assms(2) check_limits_ok [OF assms(1)]
  by (auto simp: terminal_ok_def completed_terminal_def failed_terminal_ok_def evidence_ok_def text_digest_def sha256_is_sha256)

lemma public_result_valid:
  assumes limits: "is_ok (check_limits limits)" and t: "terminal_ok limits t"
    and e: "execution_result render request t started_at finished_at = Inr e"
  shows "validate_model normalise_call_result check_call_result (public_result request mode t cleanup e)
    = Inr (public_result request mode t cleanup e)"
proof -
  let ?r = "public_result request mode t cleanup e"
  have e_def: "e = built_result render request t started_at finished_at" and e_ok: "passes (check_execution_result e)"
    using e unfolding execution_result_Inr by auto
  note parts = terminal_parts [OF limits t]
  have sel: "xs_request_id e = xr_request_id request" "xs_status e = tm_status t"
    "xs_output_sha256 e = tm_output_sha256 t" "xs_usage e = tm_usage t"
    by (simp_all add: e_def built_result_def)
  have id: "is_identifier (xr_request_id request)"
    using e_ok by (simp add: check_execution_result_def passes_public_id sel)
  have completed: "tm_status t = Completed \<Longrightarrow> tm_output_sha256 t \<noteq> None"
    and other: "tm_status t \<noteq> Completed \<Longrightarrow> tm_output_sha256 t = None"
    using e_ok by (auto simp: check_execution_result_def status_matches_observation_def sel split: ExecutionStatus.splits)
  have "normalise_call_result ?r = ?r"
    using parts(3,4,5) id
    by (cases "tm_output_sha256 t"; cases "tm_cost t")
      (simp_all add: normalise_call_result_def public_result_def trim_identifier trim_sha256 evidence_ok_def)
  moreover have "passes (result_is_consistent ?r)"
    using parts(6) completed other
    by (auto simp: result_is_consistent_def public_result_def sel split: option.splits)
  moreover have "0 \<le> cr_output_bytes ?r \<and> cr_output_bytes ?r \<le> 1048576"
    using parts(7) by (auto simp: public_result_def split: option.splits)
  ultimately have "passes (check_call_result ?r)"
    using parts(1-5) id e_ok
    by (auto simp: check_call_result_def public_result_def evidence_ok_def opt_ok_def split: option.splits)
  then show ?thesis using \<open>normalise_call_result ?r = ?r\<close> by (simp add: call_result_model.fixpoint_iff)
qed

lemma completed_iff_text:
  assumes "is_ok (check_limits limits)" "terminal_ok limits t" "execution_result render request t started_at finished_at = Inr e"
  shows "tm_status t = Completed \<longleftrightarrow> tm_text t \<noteq> None"
proof -
  have "e = built_result render request t started_at finished_at" "passes (check_execution_result e)"
    using assms(3) unfolding execution_result_Inr by auto
  then have "tm_status t = Completed \<Longrightarrow> tm_output_sha256 t \<noteq> None"
    by (auto simp: check_execution_result_def status_matches_observation_def built_result_def split: ExecutionStatus.splits)
  then show ?thesis using terminal_parts(6,7) [OF assms(1,2)] by auto
qed

lemma finish_call_Inr:
  assumes "is_ok (check_limits limits)" and "terminal_ok limits t"
  shows "finish_call render request mode ck cleanup (started_at, t) = Inr outcome \<longleftrightarrow>
    (\<exists>finished_at e. ck_finished ck = NowIs finished_at \<and> execution_result render request t started_at finished_at = Inr e
       \<and> outcome = \<lparr>po_public_result = public_result request mode t cleanup e, po_complete_text = tm_text t\<rparr>)"
  by (cases "ck_finished ck") (auto simp: finish_call_def bind_run_Inr public_result_valid [OF assms] raise_contract_def)

lemma lift_result_not_Inr: "lift_result (Inl e) \<noteq> Inr x"
  by (cases e) simp_all

lemma lift_result_Inl: "\<exists>f. lift_result (Inl e) = Inl f"
  by (cases e) simp_all

section \<open>What a returned outcome guarantees\<close>

lemma validated_input:
  "validate_request_and_input h request v limits = Inr (request', payload) \<Longrightarrow>
     request' = request \<and> passes (check_execution_request request) \<and> xr_prepared request
     \<and> normalize_json h (nat (pl_nesting_depth limits)) v = Inr payload
     \<and> canonical_json_sha256 payload = xr_input_sha256 request
     \<and> int (length (canonical_bytes payload)) \<le> pl_input_bytes limits"
  by (auto simp: validate_request_and_input_def and_then_Inr_iff contract_error_def is_ok_iff
      execution_request_model.validate_ok_iff not_less split: if_splits option.splits)

lemma execute_Inr:
  assumes "execute_provider_call render h request v ad limits ck = (log, Inr outcome)"
  obtains payload descriptor steps started_at t cleanup finished_at e where
    "is_ok (check_limits limits)"
    "validate_request_and_input h request v limits = Inr (request, payload)"
    "read_adapter request (ad_members ad) = Inr descriptor"
    "attempt request payload ad (td_mode descriptor) limits ck = (steps, Inr (started_at, t))"
    "terminal_ok limits t" "log = steps @ [CleanupRun]"
    "run_cleanup ck (ad_cleanup ad) = Inr cleanup"
    "execution_result render request t started_at finished_at = Inr e"
    "outcome = \<lparr>po_public_result = public_result request (td_mode descriptor) t cleanup e, po_complete_text = tm_text t\<rparr>"
proof -
  have limits: "is_ok (check_limits limits)"
    using assms by (auto simp: execute_provider_call_def raise_contract_def split: if_splits)
  obtain request' payload where input: "validate_request_and_input h request v limits = Inr (request', payload)"
    using assms limits by (cases "validate_request_and_input h request v limits")
      (auto simp: execute_provider_call_def lift_result_not_Inr)
  then have same: "request' = request" using validated_input by blast
  obtain descriptor where d: "read_adapter request (ad_members ad) = Inr descriptor"
    using assms limits input same by (auto simp: execute_provider_call_def raise_contract_def split: if_splits sum.splits)
  obtain steps observed where a: "attempt request payload ad (td_mode descriptor) limits ck = (steps, observed)" by force
  show thesis using assms limits input same d a that
    by (auto simp: execute_provider_call_def bind_run_Inr finish_call_Inr attempt_terminal_ok raise_contract_def split: if_splits)
qed

section \<open>A stream is the concatenation of its pulls\<close>

definition chunk_event :: "string \<Rightarrow> stream_event" where
  "chunk_event s = Chunk (Some (Encodable s))"

lemma consume_events_more:
  "consume_events es state limits = Inr (state', None) \<Longrightarrow>
     \<exists>chunks. es = map chunk_event chunks \<and> ss_chunks state' = ss_chunks state @ chunks"
proof (induction es state limits rule: consume_events.induct)
  case (2 e rest state limits)
  from "2.prems" obtain s m where e: "e = chunk_event s" and m: "consume_chunk (Some (Encodable s)) state limits = Inr m"
    and rest: "consume_events rest m limits = Inr (state', None)" and "\<not> pl_events limits \<le> event_count state"
    by (auto simp: bind_run_Inr event_limit_exceeded_def chunk_event_def consume_chunk_Inr split: if_splits stream_event.splits)
  then obtain chunks where "rest = map chunk_event chunks" "ss_chunks state' = ss_chunks m @ chunks"
    using "2.IH" e [unfolded chunk_event_def] by blast
  then show ?case using e m by (intro exI [of _ "s # chunks"]) (auto simp: consume_chunk_Inr)
qed simp

lemma consume_events_end:
  "consume_events es state limits = Inr (state', Some t) \<Longrightarrow>
     \<exists>chunks refs usage cost. es = map chunk_event chunks @ [TerminalEvent refs usage cost]
       \<and> ss_chunks state' = ss_chunks state @ chunks \<and> stream_terminal state' refs usage cost = Inr t \<and> tm_evidence_refs t = refs"
proof (induction es state limits rule: consume_events.induct)
  case (2 e rest state limits)
  show ?case
  proof (cases e)
    case (Chunk c)
    with "2.prems" obtain s m where e: "e = chunk_event s" and m: "consume_chunk (Some (Encodable s)) state limits = Inr m"
      and rest: "consume_events rest m limits = Inr (state', Some t)" and "\<not> pl_events limits \<le> event_count state"
      by (auto simp: bind_run_Inr event_limit_exceeded_def chunk_event_def consume_chunk_Inr split: if_splits)
    then obtain chunks refs usage cost where "rest = map chunk_event chunks @ [TerminalEvent refs usage cost]"
      "ss_chunks state' = ss_chunks m @ chunks" "stream_terminal state' refs usage cost = Inr t" "tm_evidence_refs t = refs"
      using "2.IH" e [unfolded chunk_event_def] by blast
    then show ?thesis using e m
      by (intro exI [of _ "s # chunks"] exI [of _ refs] exI [of _ usage] exI [of _ cost]) (auto simp: consume_chunk_Inr)
  next
    case (TerminalEvent refs usage cost)
    with "2.prems" have "rest = []" "stream_terminal state refs usage cost = Inr t" "state' = state"
      by (auto simp: bind_run_Inr event_limit_exceeded_def split: if_splits)
    then show ?thesis using TerminalEvent
      by (intro exI [of _ "[]"] exI [of _ refs] exI [of _ usage] exI [of _ cost])
        (auto simp: stream_terminal_def Let_def bind_run_Inr)
  qed (use "2.prems" in \<open>auto simp: event_limit_exceeded_def split: if_splits\<close>)
qed simp

text \<open>The transcript of a stream: the events of the pulls from the \<open>n\<close>-th on, while they answer.\<close>

definition pulled_events :: "(nat \<Rightarrow> pull) \<Rightarrow> nat \<Rightarrow> nat \<Rightarrow> stream_event list" where
  "pulled_events pulls n k =
     concat (map (\<lambda>i. case next_item (pulls i) of Inr pulled \<Rightarrow> (case item_events pulled of Some es \<Rightarrow> es | None \<Rightarrow> []) | Inl e \<Rightarrow> [])
       [n..<n + k])"

lemma pulled_events_Suc: "next_item (pulls n) = Inr pulled \<Longrightarrow> item_events pulled = Some es \<Longrightarrow>
    pulled_events pulls n (Suc k) = es @ pulled_events pulls (Suc n) k"
proof -
  have "[n..<n + Suc k] = n # [Suc n..<Suc n + k]" by (simp add: upt_conv_Cons)
  then show "next_item (pulls n) = Inr pulled \<Longrightarrow> item_events pulled = Some es \<Longrightarrow> ?thesis"
    by (simp add: pulled_events_def)
qed

lemma stream_step_flat:
  assumes "stream_step pulled state limits = Inr (state', o')"
  shows "\<exists>es. item_events pulled = Some es \<and>
    consume_events es (state\<lparr>ss_max_buffered_events := max (ss_max_buffered_events state) (buffered_count pulled)\<rparr>) limits
      = Inr (state', o')"
  using assms by (auto simp: stream_step_def split: option.splits if_splits)

lemma stream_terminal_fields:
  assumes "stream_terminal state refs usage cost = Inr t" "stream_inv limits state"
  shows "tm_text t = Some (concat (ss_chunks state))"
    "tm_event_sha256 t = event_digest (chunk_log (ss_chunks state) @ [terminal_json (int (length (ss_chunks state))) ''completed''])"
    "tm_event_count t = int (length (ss_chunks state)) + 1"
  using assms by (auto simp: stream_terminal_def Let_def bind_run_Inr stream_inv_def event_count_def)

lemma stream_loop_transcript:
  "stream_loop pulls n state limits = Inr t \<Longrightarrow> stream_inv limits state \<Longrightarrow>
   \<exists>k chunks usage cost. pulled_events pulls n k = map chunk_event chunks @ [TerminalEvent (tm_evidence_refs t) usage cost]
     \<and> tm_text t = Some (concat (ss_chunks state @ chunks))
     \<and> tm_event_sha256 t = event_digest (chunk_log (ss_chunks state @ chunks)
          @ [terminal_json (int (length (ss_chunks state @ chunks))) ''completed''])
     \<and> tm_event_count t = int (length (ss_chunks state @ chunks)) + 1"
proof (induction pulls n state limits rule: stream_loop.induct)
  case (1 pulls n state limits)
  from 1(2) obtain pulled state' o' where nxt: "next_item (pulls n) = Inr pulled" "\<not> event_count state \<ge> pl_events limits"
    and stp: "stream_step pulled state limits = Inr (state', o')"
    by (subst (asm) stream_loop.simps) (auto simp: event_limit_exceeded_def split: if_splits sum.splits)
  obtain es where es: "item_events pulled = Some es" and flat: "consume_events es
      (state\<lparr>ss_max_buffered_events := max (ss_max_buffered_events state) (buffered_count pulled)\<rparr>) limits = Inr (state', o')"
    using stream_step_flat [OF stp] by blast
  have inv: "stream_inv limits state'" by (rule stream_step_inv(1) [OF stp 1(3)])
  show ?case
  proof (cases o')
    case None
    then have more: "stream_loop pulls (Suc n) state' limits = Inr t"
      using 1(2) nxt stp by (subst (asm) stream_loop.simps) simp
    then obtain k chunks usage cost where ih:
      "pulled_events pulls (Suc n) k = map chunk_event chunks @ [TerminalEvent (tm_evidence_refs t) usage cost]"
      "tm_text t = Some (concat (ss_chunks state' @ chunks))"
      "tm_event_sha256 t = event_digest (chunk_log (ss_chunks state' @ chunks)
          @ [terminal_json (int (length (ss_chunks state' @ chunks))) ''completed''])"
      "tm_event_count t = int (length (ss_chunks state' @ chunks)) + 1"
      using 1(1) [OF nxt(2) nxt(1) stp refl None more inv] by blast
    obtain more where "es = map chunk_event more" "ss_chunks state' = ss_chunks state @ more"
      using consume_events_more flat None by fastforce
    then show ?thesis using ih pulled_events_Suc [where pulls = pulls, OF nxt(1) es, of k]
      by (intro exI [of _ "Suc k"] exI [of _ "more @ chunks"] exI [of _ usage] exI [of _ cost]) simp
  next
    case (Some u)
    then have "t = u" using 1(2) nxt stp by (subst (asm) stream_loop.simps) simp
    then obtain chunks refs usage cost where e: "es = map chunk_event chunks @ [TerminalEvent refs usage cost]"
      "ss_chunks state' = ss_chunks state @ chunks" "stream_terminal state' refs usage cost = Inr t" "tm_evidence_refs t = refs"
      using consume_events_end flat Some by fastforce
    moreover have "pulled_events pulls n (Suc 0) = es"
      using pulled_events_Suc [where pulls = pulls, OF nxt(1) es, of 0] by (simp add: pulled_events_def)
    ultimately show ?thesis using stream_terminal_fields [OF e(3) inv]
      by (intro exI [of _ "Suc 0"] exI [of _ chunks] exI [of _ usage] exI [of _ cost]) simp
  qed
qed

section \<open>Calls that succeed\<close>

definition times_ok :: "ProviderExecutionRequest \<Rightarrow> aware_datetime \<Rightarrow> aware_datetime \<Rightarrow> bool" where
  "times_ok request started_at finished_at \<longleftrightarrow>
     rfc3339 (wire_time started_at) \<and> rfc3339 (wire_time finished_at)
     \<and> dt_instant (xr_prepared_at request) \<le> dt_instant started_at \<and> dt_instant started_at \<le> dt_instant finished_at"

definition public_refs :: "string list \<Rightarrow> bool" where
  "public_refs refs = (distinct refs \<and> list_all portable refs \<and> list_all identity_is_public refs)"

lemma execution_result_valid:
  assumes request: "passes (check_execution_request request)" "xr_prepared request"
    and times: "times_ok request started_at finished_at" and refs: "public_refs (tm_evidence_refs t)"
    and evidence: "passes (opt_checks check_usage (tm_usage t))" "passes (opt_checks check_execution_blocker (tm_blocker t))"
      "passes (opt_checks check_execution_error (tm_error t))" "\<And>d. tm_output_sha256 t = Some d \<Longrightarrow> is_sha256 d"
    and status: "passes (status_matches_observation (built_result render request t started_at finished_at))"
  shows "execution_result render request t started_at finished_at = Inr (built_result render request t started_at finished_at)"
proof -
  let ?r = "built_result render request t started_at finished_at"
  have id: "is_identifier (xr_request_id request)" "identity_is_public (xr_request_id request)"
    using request(1) by (simp_all add: check_execution_request_def passes_public_id)
  have "passes (check_execution_result ?r)"
    using request(1) evidence status refs result_id_public [OF id]
    by (simp add: check_execution_result_def check_execution_request_def passes_public_id passes_normalized_digest
        passes_evidence built_result_def public_refs_def list_all_iff)
  moreover have "passes (request_bindings render ?r request)"
    using times request(2) by (simp add: request_bindings_def built_result_def times_ok_def)
  ultimately show ?thesis using times request(1) unfolding execution_result_Inr bound_to_request by (simp add: times_ok_def)
qed

lemma length_utf8: "length s \<le> length (utf8 s)"
proof (induction s)
  case (Cons c s)
  have "utf8 (c # s) = utf8_char c @ utf8 s" by simp
  moreover have "1 \<le> length (utf8_char c)" using utf8_char_ne [of c] by (cases "utf8_char c") auto
  ultimately show ?case using Cons by simp
qed simp

lemma run_complete_text:
  assumes "1 \<le> pl_events limits" "0 \<le> pl_buffered_events limits" "int (length (utf8 text)) \<le> pl_output_bytes limits"
  shows "\<exists>t. run_complete (CompleteAnswer (Some (Encodable text)) refs NoEvidence NoEvidence) limits = Inr t
     \<and> tm_evidence_refs t = refs \<and> completed_terminal limits text t \<and> tm_usage t = None"
proof -
  have "int (length text) \<le> pl_output_bytes limits" using assms(3) length_utf8 [of "text"] by linarith
  then show ?thesis using assms
    by (auto simp: run_complete_def utf8_bytes_def Let_def validate_usage_def validate_cost_def completed_terminal_def evidence_ok_def)
qed

lemma execute_step:
  assumes "is_ok (check_limits limits)" "validate_request_and_input h request v limits = Inr (request, payload)"
    "ck_readable ck" "read_adapter request (ad_members ad) = Inr descriptor"
    "attempt request payload ad (td_mode descriptor) limits ck = (steps, Inr (started_at, t))"
    "run_cleanup ck (ad_cleanup ad) = Inr cleanup" "ck_finished ck = NowIs finished_at"
    "execution_result render request t started_at finished_at = Inr e"
  shows "execute_provider_call render h request v ad limits ck = (steps @ [CleanupRun],
    Inr \<lparr>po_public_result = public_result request (td_mode descriptor) t cleanup e, po_complete_text = tm_text t\<rparr>)"
  using assms finish_call_Inr [OF assms(1) attempt_terminal_ok [OF assms(1,5)]]
  by (simp add: execute_provider_call_def)

lemma complete_call:
  assumes limits: "is_ok (check_limits limits)"
    and input: "validate_request_and_input h request v limits = Inr (request, payload)"
    and clock: "ck_readable ck" "ck_started ck = NowIs started_at" "ck_finished ck = NowIs finished_at" "ck_overall ck = WaitCompletes"
    and times: "times_ok request started_at finished_at"
    and adapter: "read_adapter request (ad_members ad) = Inr descriptor" "td_mode descriptor = CompleteMode"
    and capability: "xr_declared_capability request = ResponseGeneration"
    and answer: "ad_complete ad request payload = Inr (CompleteAnswer (Some (Encodable text)) refs NoEvidence NoEvidence)"
      "int (length (utf8 text)) \<le> pl_output_bytes limits" "public_refs refs" "refs \<noteq> []"
    and cleanup: "run_cleanup ck (ad_cleanup ad) = Inr cleaned"
  shows "\<exists>outcome. execute_provider_call render h request v ad limits ck = ([RunnerScheduled, CleanupRun], Inr outcome)
    \<and> po_complete_text outcome = Some text \<and> cr_status (po_public_result outcome) = Completed
    \<and> cr_output_sha256 (po_public_result outcome) = Some (text_digest text)
    \<and> cr_cleanup_succeeded (po_public_result outcome) = cleaned"
proof -
  obtain t where t: "run_complete (CompleteAnswer (Some (Encodable text)) refs NoEvidence NoEvidence) limits = Inr t"
    "tm_evidence_refs t = refs" "completed_terminal limits text t" "tm_usage t = None"
    using run_complete_text [OF _ _ answer(2)] check_limits_ok [OF limits] by metis
  have "attempt request payload ad CompleteMode limits ck = ([RunnerScheduled], Inr (started_at, t))"
    using clock capability answer(1) t(1) by (simp add: attempt_def runner_def)
  moreover have "execution_result render request t started_at finished_at = Inr (built_result render request t started_at finished_at)"
    using validated_input [OF input] times answer(3,4) t(2,3,4)
    by (intro execution_result_valid) (auto simp: completed_terminal_def text_digest_def sha256_is_sha256
        status_matches_observation_def built_result_def times_ok_def)
  ultimately show ?thesis
    using execute_step [OF limits input clock(1) adapter(1) _ cleanup clock(3)] adapter(2) t(3)
    by (auto simp: public_result_def completed_terminal_def)
qed

section \<open>Bounded work and classified failures\<close>

lemma stream_loop_bounded:
  "\<forall>i < nat (pl_events limits - event_count state). pulls (n + i) = pulls' (n + i) \<Longrightarrow>
   stream_loop pulls n state limits = stream_loop pulls' n state limits"
proof (induction pulls n state limits rule: stream_loop.induct)
  case (1 pulls n state limits)
  show ?case
  proof (cases "event_count state \<ge> pl_events limits")
    case True
    then show ?thesis by (simp add: stream_loop.simps)
  next
    case False
    then have here: "pulls n = pulls' n" using "1.prems" by (metis add.right_neutral diff_gt_0_iff_gt not_le zero_less_nat_eq)
    have rest: "stream_loop pulls (Suc n) state' limits = stream_loop pulls' (Suc n) state' limits"
      if "next_item (pulls n) = Inr pulled" "stream_step pulled state limits = Inr (state', None)" for pulled state'
    proof (rule "1.IH" [OF False that refl refl], intro allI impI)
      fix i assume "i < nat (pl_events limits - event_count state')"
      then have "Suc i < nat (pl_events limits - event_count state)"
        using stream_step_progress [OF that(2)] by linarith
      then show "pulls (Suc n + i) = pulls' (Suc n + i)" using "1.prems" by (metis add_Suc_shift)
    qed
    show ?thesis
    proof (cases "next_item (pulls n)")
      case (Inl e)
      then show ?thesis using False here by (subst (1 2) stream_loop.simps) simp
    next
      case (Inr pulled)
      show ?thesis
      proof (cases "stream_step pulled state limits")
        case (Inl e)
        then show ?thesis using False here Inr by (subst (1 2) stream_loop.simps) simp
      next
        case (Inr p)
        then show ?thesis using False here \<open>next_item (pulls n) = Inr pulled\<close> rest
          by (cases p; cases "snd p") (simp_all add: stream_loop.simps [of pulls n] stream_loop.simps [of pulls' n])
      qed
    qed
  qed
qed

lemma failure_codes_public:
  "is_identifier ''provider_call_timeout'' \<and> registry_evidence_is_redaction_safe ''provider_call_timeout''"
  "is_identifier ''provider_call_indeterminate'' \<and> registry_evidence_is_redaction_safe ''provider_call_indeterminate''"
  "is_identifier ''provider_idle_timeout'' \<and> registry_evidence_is_redaction_safe ''provider_idle_timeout''"
  "is_identifier ''unsupported_provider_capability'' \<and> registry_evidence_is_redaction_safe ''unsupported_provider_capability''"
  by code_simp+

lemma failure_codes_valid:
  "is_blocker_code ''provider_call_timeout''" "is_blocker_code ''provider_call_indeterminate''"
  "is_blocker_code ''provider_idle_timeout''" "is_blocker_code ''unsupported_provider_capability''"
  by code_simp+

lemma failure_refs_parts:
  "is_identifier ''provider-call'' \<and> registry_evidence_is_redaction_safe ''provider-call''"
  "is_identifier ''timeout'' \<and> registry_evidence_is_redaction_safe ''timeout''"
  "is_identifier ''indeterminate'' \<and> registry_evidence_is_redaction_safe ''indeterminate''"
  "is_identifier ''idle-timeout'' \<and> registry_evidence_is_redaction_safe ''idle-timeout''"
  "is_identifier ''capability'' \<and> registry_evidence_is_redaction_safe ''capability''"
  by code_simp+

lemma failure_ref_public:
  "is_identifier b \<and> registry_evidence_is_redaction_safe b \<Longrightarrow> b \<noteq> ''root'' \<Longrightarrow> identity_is_public (''provider-call/'' @ b)"
  using two_part_ref_public [of "''provider-call''" b] failure_refs_parts(1) by (simp add: identifier_public_iff)

lemma failure_refs_portable:
  "portable ''provider-call/timeout''" "portable ''provider-call/indeterminate''"
  "portable ''provider-call/idle-timeout''" "portable ''provider-call/capability''"
  by code_simp+

lemma failure_refs_public:
  "identity_is_public ''provider-call/timeout''" "identity_is_public ''provider-call/indeterminate''"
  "identity_is_public ''provider-call/idle-timeout''" "identity_is_public ''provider-call/capability''"
  using failure_ref_public [OF failure_refs_parts(2)] failure_ref_public [OF failure_refs_parts(3)]
    failure_ref_public [OF failure_refs_parts(4)] failure_ref_public [OF failure_refs_parts(5)] by simp_all

lemma passes_public_code: "is_identifier c \<and> registry_evidence_is_redaction_safe c \<Longrightarrow> c \<noteq> ''root'' \<Longrightarrow>
    passes (public_id_checks field_group message c)"
  by (simp add: public_id_checks_def require_normalized_text_def identifier_stripped identifier_public_iff)

definition sdk_error :: "ProviderAdapterFailure \<Rightarrow> ProviderExecutionError" where
  "sdk_error f = \<lparr>xe_code = pf_code f, xe_category = pf_category f, xe_retryable = pf_retryable f,
     xe_evidence_refs = pf_evidence_refs f\<rparr>"

lemma sdk_errors_valid:
  "passes (check_execution_error (sdk_error call_timeout))"
  "passes (check_execution_error (sdk_error idle_timeout))"
  "passes (check_execution_error (sdk_error call_indeterminate))"
  using failure_codes_public failure_codes_valid failure_refs_portable failure_refs_public
  by (simp_all add: check_execution_error_def sdk_error_def call_timeout_def idle_timeout_def call_indeterminate_def
      passes_public_code passes_evidence)

lemma sdk_failure_terminal:
  assumes "passes (check_execution_error (sdk_error f))" "pf_status f \<noteq> ExecutionBlocked"
  shows "failure_terminal f = Inr (failed_terminal f (pf_status f) None (Some (sdk_error f)))"
proof -
  have "validate_model id check_execution_error (sdk_error f) = Inr (sdk_error f)"
    using assms(1) by (simp add: execution_error_model.fixpoint_iff)
  then show ?thesis using assms(2) by (simp add: failure_terminal_def Let_def sdk_error_def)
qed

text \<open>What an exception of the runner becomes.\<close>

lemma observed_timeout:
  "terminal_from_observed (Inl TimeoutExc) = Inr (failed_terminal call_timeout Failed None (Some (sdk_error call_timeout)))"
  using sdk_failure_terminal [OF sdk_errors_valid(1)] by (simp add: call_timeout_def)

lemma observed_unknown:
  "terminal_from_observed (Inl OtherExc)
     = Inr (failed_terminal call_indeterminate Indeterminate None (Some (sdk_error call_indeterminate)))"
  using sdk_failure_terminal [OF sdk_errors_valid(3)] by (simp add: call_indeterminate_def)

lemma timed_out_call:
  assumes limits: "is_ok (check_limits limits)"
    and input: "validate_request_and_input h request v limits = Inr (request, payload)"
    and clock: "ck_readable ck" "ck_started ck = NowIs started_at" "ck_finished ck = NowIs finished_at" "ck_overall ck = WaitTimesOut"
    and times: "times_ok request started_at finished_at"
    and adapter: "read_adapter request (ad_members ad) = Inr descriptor"
    and capability: "xr_declared_capability request = ResponseGeneration"
    and cleanup: "run_cleanup ck (ad_cleanup ad) = Inr cleaned"
  shows "\<exists>outcome. execute_provider_call render h request v ad limits ck = ([RunnerScheduled, CleanupRun], Inr outcome)
    \<and> po_complete_text outcome = None \<and> cr_status (po_public_result outcome) = Failed
    \<and> cr_output_sha256 (po_public_result outcome) = None
    \<and> xs_error (cr_execution (po_public_result outcome)) = Some (sdk_error call_timeout)"
proof -
  let ?t = "failed_terminal call_timeout Failed None (Some (sdk_error call_timeout))"
  have "attempt request payload ad (td_mode descriptor) limits ck = ([RunnerScheduled], Inr (started_at, ?t))"
    using clock capability by (simp add: attempt_def observed_timeout del: terminal_from_observed.simps)
  moreover have "public_refs [''provider-call/timeout'']"
    using failure_refs_portable failure_refs_public by (simp add: public_refs_def)
  then have "execution_result render request ?t started_at finished_at = Inr (built_result render request ?t started_at finished_at)"
    using validated_input [OF input] times sdk_errors_valid(1)
    by (intro execution_result_valid) (auto simp: failed_terminal_def status_matches_observation_def built_result_def
        times_ok_def call_timeout_def)
  ultimately show ?thesis
    using execute_step [OF limits input clock(1) adapter _ cleanup clock(3)]
    by (auto simp: public_result_def failed_terminal_def built_result_def)
qed

end
