(* ===== verification/Demo_Provider.thy ===== *)
theory Demo_Provider
  imports Demo_Package Provider_Safety
begin

text \<open>
  A concrete provider call for the witnesses: a prepared request, an adapter that answers one text
  in complete mode or streams it in two pulls, and a clock that schedules everything.
\<close>

definition demo_identity :: ProviderIdentity where
  "demo_identity = \<lparr>pi_provider_id = ''acme'', pi_provider_kind = Llm, pi_model_id = ''acme/model-1'',
     pi_version_or_digest = ''v1'', pi_adapter_id = ''adapter'', pi_adapter_version_or_digest = ''v1''\<rparr>"

definition demo_time :: aware_datetime where
  "demo_time = \<lparr>dt_instant = 1780000000000000, dt_offset = 0\<rparr>"

definition demo_call_request :: ProviderExecutionRequest where
  "demo_call_request = \<lparr>xr_request_id = ''req-1'', xr_candidate = demo_candidate, xr_scenario_set_id = ''set-1'',
     xr_case_id = ''case-1'', xr_provider = demo_identity, xr_declared_capability = ResponseGeneration,
     xr_input_sha256 = canonical_json_sha256 (JArr [JStr ''hi'', JStr ''hi'']),
     xr_idempotency_key_sha256 = canonical_json_sha256 JNull, xr_package_safety_receipt_id = ''safety-1'',
     xr_package_safety_receipt_sha256 = canonical_json_sha256 JNull, xr_prepared_at = demo_time,
     xr_prepared = True, xr_blocker = None, xr_evidence_refs = []\<rparr>"

text \<open>The payload is a list that holds the same string twice.\<close>

definition demo_heap :: heap where
  "demo_heap n = PyList [PyStr (Encodable ''hi''), PyStr (Encodable ''hi'')]"

definition demo_hook :: hook where
  "demo_hook = \<lparr>hk_callable = True, hk_coroutine = True, hk_binds = True\<rparr>"

definition demo_pulls :: "nat \<Rightarrow> pull" where
  "demo_pulls n = PullAwaits WaitCompletes (Inr
     (if n = 0 then Batch (Some [Chunk (Some (Encodable ''o'')), Chunk (Some (Encodable ''k''))])
      else Single (TerminalEvent [''run-1.json''] NoEvidence NoEvidence)))"

definition demo_adapter :: "CallMode \<Rightarrow> adapter" where
  "demo_adapter mode = \<lparr>ad_members = Members (Some \<lparr>td_provider = demo_identity, td_mode = mode\<rparr>) demo_hook demo_hook,
     ad_complete = (\<lambda>_ _. Inr (CompleteAnswer (Some (Encodable ''ok'')) [''run-1.json''] NoEvidence NoEvidence)),
     ad_stream = (\<lambda>_ _. Opens demo_pulls), ad_cleanup = CleanupReturns True\<rparr>"

definition demo_clock :: clock where
  "demo_clock = \<lparr>ck_readable = True, ck_started = NowIs demo_time, ck_finished = NowIs demo_time,
     ck_overall = WaitCompletes, ck_cleanup = WaitCompletes, ck_cleanup_wait = WaitCompletes\<rparr>"

lemma demo_wire_time: "rfc3339 (wire_time demo_time)"
  by code_simp

lemma demo_limits: "is_ok (check_limits DEFAULT_PROVIDER_CALL_LIMITS)"
  by code_simp

lemma demo_identity_ok: "passes (check_provider_identity_v2 demo_identity)"
  by code_simp

lemma demo_public_ids:
  "is_identifier ''req-1'' \<and> registry_evidence_is_redaction_safe ''req-1''"
  "is_identifier ''set-1'' \<and> registry_evidence_is_redaction_safe ''set-1''"
  "is_identifier ''case-1'' \<and> registry_evidence_is_redaction_safe ''case-1''"
  "is_identifier ''safety-1'' \<and> registry_evidence_is_redaction_safe ''safety-1''"
  "is_identifier ''run-1.json'' \<and> registry_evidence_is_redaction_safe ''run-1.json''"
  by code_simp+

lemma demo_public_id: "registry_evidence_is_redaction_safe ''demo''"
  by code_simp

lemma demo_refs: "public_refs [''run-1.json'']"
proof -
  have "portable ''run-1.json''" by code_simp
  then show ?thesis using demo_public_ids(5) by (simp add: public_refs_def identifier_public_iff)
qed

lemma demo_request_ok: "passes (check_execution_request demo_call_request)"
proof -
  have "candidate_is_public demo_candidate"
    using demo_texts(1) demo_public_id by (simp add: candidate_is_public_def demo_candidate_def identifier_public_iff)
  then have "passes (check_public_candidate demo_candidate)"
    using demo_candidate_ok by (simp add: passes_public_candidate)
  then show ?thesis
    using demo_public_ids demo_identity_ok
    by (simp add: check_execution_request_def demo_call_request_def passes_public_id passes_normalized_digest passes_evidence
        identifier_public_iff)
qed

lemma demo_input_read: "normalize_json demo_heap 32 (PyRef 0) = Inr (JArr [JStr ''hi'', JStr ''hi''])"
  by code_simp

lemma demo_input_sizes: "length (canonical_bytes (JArr [JStr ''hi'', JStr ''hi''])) = 11"
    "metadata_of (JArr [JStr ''hi'', JStr ''hi'']) = None"
  by code_simp+

lemma demo_input_ok:
  "validate_request_and_input demo_heap demo_call_request (PyRef 0) DEFAULT_PROVIDER_CALL_LIMITS
     = Inr (demo_call_request, JArr [JStr ''hi'', JStr ''hi''])"
proof -
  have "is_ok (validate_model id check_execution_request demo_call_request)"
    using demo_request_ok by (auto simp: is_ok_iff execution_request_model.validate_ok_iff)
  moreover have "xr_prepared demo_call_request"
    "xr_input_sha256 demo_call_request = canonical_json_sha256 (JArr [JStr ''hi'', JStr ''hi''])"
    by (simp_all add: demo_call_request_def)
  moreover have "nat (pl_nesting_depth DEFAULT_PROVIDER_CALL_LIMITS) = 32"
    "pl_input_bytes DEFAULT_PROVIDER_CALL_LIMITS = 262144"
    by (simp_all add: DEFAULT_PROVIDER_CALL_LIMITS_def LIMIT_CEILINGS_def)
  ultimately show ?thesis
    by (simp add: validate_request_and_input_def demo_input_read demo_input_sizes)
qed

lemma demo_adapter_read:
  "read_adapter demo_call_request (ad_members (demo_adapter mode)) = Inr \<lparr>td_provider = demo_identity, td_mode = mode\<rparr>"
  using demo_identity_ok
  by (simp add: read_adapter_def demo_adapter_def is_ok_iff descriptor_model.validate_ok_iff check_descriptor_def
      demo_call_request_def demo_hook_def)

lemma demo_cleanup: "run_cleanup demo_clock (ad_cleanup (demo_adapter mode)) = Inr True"
  by (simp add: run_cleanup_def demo_clock_def demo_adapter_def cleanup_task_def)

lemma demo_times: "times_ok demo_call_request demo_time demo_time"
  using demo_wire_time by (simp add: times_ok_def demo_call_request_def)

lemma demo_utf8: "length (utf8 ''ok'') = 2" "length (utf8_char (CHR ''o'')) = 1" "length (utf8_char (CHR ''k'')) = 1"
  by code_simp+

lemma demo_stream_steps:
  "\<exists>s t. stream_step (Batch (Some [chunk_event ''o'', chunk_event ''k''])) initial_stream DEFAULT_PROVIDER_CALL_LIMITS = Inr (s, None)
     \<and> stream_step (Single (TerminalEvent [''run-1.json''] NoEvidence NoEvidence)) s DEFAULT_PROVIDER_CALL_LIMITS = Inr (s, Some t)
     \<and> event_count s = 2"
  using demo_utf8
  by (auto simp: stream_step_def item_events_def batch_refused_def buffered_count_def chunk_event_def consume_chunk_def
      utf8_bytes_def Let_def initial_stream_def event_count_def stream_terminal_def validate_usage_def validate_cost_def
      DEFAULT_PROVIDER_CALL_LIMITS_def LIMIT_CEILINGS_def)

lemma demo_stream_step:
  "\<exists>s. stream_step (Batch (Some [chunk_event ''o'', chunk_event ''k''])) initial_stream DEFAULT_PROVIDER_CALL_LIMITS = Inr (s, None)"
  using demo_stream_steps by blast

lemma demo_stream: "\<exists>t. stream_loop demo_pulls 0 initial_stream DEFAULT_PROVIDER_CALL_LIMITS = Inr t"
proof -
  obtain s t where "stream_step (Batch (Some [chunk_event ''o'', chunk_event ''k''])) initial_stream DEFAULT_PROVIDER_CALL_LIMITS = Inr (s, None)"
    "stream_step (Single (TerminalEvent [''run-1.json''] NoEvidence NoEvidence)) s DEFAULT_PROVIDER_CALL_LIMITS = Inr (s, Some t)"
    and "event_count s = 2" using demo_stream_steps by blast
  then show ?thesis
    by (subst stream_loop.simps, subst stream_loop.simps)
      (simp add: next_item_def demo_pulls_def chunk_event_def event_count_def initial_stream_def
        DEFAULT_PROVIDER_CALL_LIMITS_def LIMIT_CEILINGS_def)
qed

lemma demo_call_completes:
  "\<exists>outcome. execute_provider_call render demo_heap demo_call_request (PyRef 0) (demo_adapter CompleteMode)
      DEFAULT_PROVIDER_CALL_LIMITS demo_clock = ([RunnerScheduled, CleanupRun], Inr outcome)
    \<and> po_complete_text outcome = Some ''ok'' \<and> cr_status (po_public_result outcome) = Completed
    \<and> cr_output_sha256 (po_public_result outcome) = Some (text_digest ''ok'')
    \<and> cr_cleanup_succeeded (po_public_result outcome) = True"
  by (rule complete_call [OF demo_limits demo_input_ok _ _ _ _ demo_times demo_adapter_read _ _ _ _ demo_refs _ demo_cleanup])
    (simp_all add: demo_clock_def demo_adapter_def demo_call_request_def demo_utf8 DEFAULT_PROVIDER_CALL_LIMITS_def LIMIT_CEILINGS_def)

end
