(* ===== verification/Demo_Inventory.thy ===== *)
theory Demo_Inventory
  imports Demo_Package
begin

text \<open>
  Concrete records for the witnesses of the inventory and of the saved release snapshot.
\<close>

definition demo_principle :: MantraPrinciple where
  "demo_principle = \<lparr>mp_status = MantraPass, mp_evidence = [''review'']\<rparr>"

definition demo_mantra :: MantraAssessment where
  "demo_mantra = \<lparr>ma_source_revision = replicate 40 (CHR ''0''), ma_content_sha256 = sha256 [1],
     ma_taste = demo_principle, ma_thin_surfaces = demo_principle, ma_strong_guardrails = demo_principle,
     ma_simplicity = demo_principle, ma_progressive_disclosure = demo_principle, ma_durable_memory = demo_principle,
     ma_valuemaxxing = demo_principle, ma_self_improvement = demo_principle, ma_professional_output = demo_principle,
     ma_overall = MantraPass\<rparr>"

definition demo_release :: SavedReleaseSnapshot where
  "demo_release =
     (let s = \<lparr>sr_locator = ''https://example.org/demo/1'', sr_source_id = ''demo'', sr_release_id = ''r1'',
        sr_version = ''1.0.0'', sr_archive_sha256 = sha256 [1], sr_root_candidate = demo_candidate,
        sr_root_mode_manifest_sha256 = sha256 [2], sr_binding_sha256 = []\<rparr>
      in s\<lparr>sr_binding_sha256 := canonical_json_sha256 (snapshot_payload s)\<rparr>)"

lemma demo_release_texts:
  "passes (check_locator ''https://example.org/demo/1'')" "passes (check_release_token ''demo'')"
  "passes (check_release_token ''r1'')" "passes (check_release_token ''1.0.0'')"
  by code_simp+

lemma demo_release_valid: "validate_model normalise_snapshot check_snapshot demo_release = Inr demo_release"
proof -
  have payload: "snapshot_payload (s\<lparr>sr_binding_sha256 := b\<rparr>) = snapshot_payload s" for s b
    by (simp add: snapshot_payload_def)
  have "canonical_json_sha256 (snapshot_payload demo_release) = sr_binding_sha256 demo_release"
    unfolding demo_release_def Let_def payload by simp
  then show ?thesis
    using demo_candidate_ok demo_release_texts
    by (simp add: snapshot_model.fixpoint_iff normalise_snapshot_def check_snapshot_def)
      (simp add: demo_release_def Let_def check_exact_digest_def sha256_is_sha256)
qed

definition demo_source :: SourceProvenance where
  "demo_source = \<lparr>sp_repository = ''example'', sp_revision = replicate 40 (CHR ''0''), sp_path = ''SKILL.md'',
     sp_content_sha256 = sha256 [1]\<rparr>"

definition demo_rights :: RightsStatus where
  "demo_rights = \<lparr>rs_basis = Authored, rs_license = ''MIT'', rs_evidence_ref = ''LICENSE''\<rparr>"

definition demo_record :: PackageInventoryRecord where
  "demo_record = \<lparr>ir_schema_version = InventoryV2, ir_package_id = ''demo'', ir_display_name = None,
     ir_package_type = TypeSkill, ir_current_path = ''skills/demo'', ir_declared_version = None, ir_owner = ''owner'',
     ir_user_outcome = ''outcome'', ir_distinctive_value = ''value'', ir_maintenance_cost = ''low'',
     ir_context_cost = ''low'', ir_overlap_with_existing = [], ir_recommended_mechanism = StandaloneSkill,
     ir_value_decision = Retain, ir_mantra = demo_mantra, ir_source = Some demo_source, ir_rights = Some demo_rights,
     ir_direct_consumers = [], ir_runtime_visibility = [], ir_duplicate_of = None, ir_risk = RiskNone,
     ir_external_dependencies = [], ir_tessl_identity = None, ir_blocker_codes = [], ir_format_checks = None,
     ir_intended_disposition = AdmitToFoundry\<rparr>"

lemma demo_record_texts:
  "trim ''review'' = ''review''" "trim ''example'' = ''example''" "trim ''MIT'' = ''MIT''" "trim ''owner'' = ''owner''"
  "trim ''demo'' = ''demo''" "trim ''outcome'' = ''outcome''" "trim ''value'' = ''value''" "trim ''low'' = ''low''"
  "portable ''SKILL.md''" "portable ''LICENSE''" "portable ''skills/demo''"
  by code_simp+

lemma demo_mantra_valid: "normalise_mantra demo_mantra = demo_mantra" "passes (check_mantra demo_mantra)"
proof -
  have principle: "normalise_principle demo_principle = demo_principle" "passes (check_principle demo_principle)"
    by (simp_all add: demo_principle_def normalise_principle_def check_principle_def demo_record_texts texts_iff)
  show "normalise_mantra demo_mantra = demo_mantra"
    using principle demo_texts(5)
    by (simp add: demo_mantra_def normalise_mantra_def trim_git_revision trim_sha256 sha256_is_sha256)
  have "expected_overall demo_mantra = MantraPass"
    by (simp add: expected_overall_pass) (simp add: principles_def demo_mantra_def demo_principle_def)
  then show "passes (check_mantra demo_mantra)"
    using principle demo_texts(5)
    by (simp add: check_mantra_def) (simp add: demo_mantra_def principles_def sha256_is_sha256)
qed

lemma demo_record_valid: "validate_model normalise_record check_record demo_record = Inr demo_record"
proof -
  have "normalise_record demo_record = demo_record"
    using demo_mantra_valid demo_texts
    by (simp add: normalise_record_def demo_record_def normalise_source_def normalise_rights_def demo_source_def
        demo_rights_def demo_record_texts trim_git_revision trim_sha256 sha256_is_sha256)
  moreover have "passes (check_record demo_record)"
    using demo_mantra_valid demo_texts
    by (simp add: check_record_def check_record_fields_def duplicate_requires_target_def
        pending_value_review_is_blocked_def admits_or_merges_def demo_record_def check_source_def check_rights_def
        demo_source_def demo_rights_def demo_record_texts texts_iff portables_iff sha256_is_sha256)
      (simp add: demo_mantra_def)
  ultimately show ?thesis by (simp add: record_model.fixpoint_iff)
qed

end
