(* ===== verification/Floats.thy ===== *)
theory Floats
  imports Complex_Main Json
begin

text \<open>
  The finite doubles that scores and thresholds are: a value of the model is the rational a double
  stands for, between 0 and \<open>2 ^ 53\<close>. \<open>to_double\<close> rounds to the nearest double, ties to even, which is
  what Python's true division of integers returns; \<open>float_repr\<close> is the shortest decimal text that
  reads back to the double, in the layout of \<^verbatim>\<open>float.__repr__\<close>. The lemmas: rounding is monotone and
  keeps 0, 1 and the unit interval, and the text is one of a JSON number that is no integer.
\<close>

section \<open>Rounding\<close>

definition round_half_even :: "rat \<Rightarrow> int" where
  "round_half_even x =
     (let f = \<lfloor>x\<rfloor>; r = x - of_int f in if r < 1 / 2 \<or> r = 1 / 2 \<and> even f then f else f + 1)"

text \<open>The least number of binary places that leaves 53 significant bits; 1074 for a subnormal.\<close>

definition binary_places :: "rat \<Rightarrow> nat" where
  "binary_places x = (case find (\<lambda>k. 2 ^ 52 \<le> x * 2 ^ k) [0..<1074] of None \<Rightarrow> 1074 | Some k \<Rightarrow> k)"

definition to_double :: "rat \<Rightarrow> rat" where
  "to_double x = of_int (round_half_even (x * 2 ^ binary_places x)) / 2 ^ binary_places x"

text \<open>\<^verbatim>\<open>a / b\<close> of two integers.\<close>

definition true_division :: "int \<Rightarrow> int \<Rightarrow> rat" where
  "true_division a b = to_double (of_int a / of_int b)"

section \<open>The shortest text\<close>

definition reads_back :: "rat \<Rightarrow> nat \<Rightarrow> int \<Rightarrow> bool" where
  "reads_back x places m = (to_double (of_int m / 10 ^ places) = x)"

definition candidates :: "rat \<Rightarrow> nat \<Rightarrow> int list" where
  "candidates x places = filter (reads_back x places) [\<lfloor>x * 10 ^ places\<rfloor>, \<lfloor>x * 10 ^ places\<rfloor> + 1]"

definition shortest_decimal :: "rat \<Rightarrow> int \<times> nat" where
  "shortest_decimal x =
     (case find (\<lambda>places. candidates x places \<noteq> []) [1..<1100] of
        None \<Rightarrow> (0, 1)
      | Some places \<Rightarrow>
          (let nearest = round_half_even (x * 10 ^ places) in
           (if reads_back x places nearest then nearest else hd (candidates x places), places)))"

definition zero_padded :: "nat \<Rightarrow> nat \<Rightarrow> string" where
  "zero_padded width n = replicate (width - length (show_nat n)) (CHR ''0'') @ show_nat n"

definition float_repr :: "rat \<Rightarrow> string" where
  "float_repr x =
     (let (m, places) = shortest_decimal x; n = nat m; ds = show_nat n in
      if n = 0 \<or> 10 ^ places \<le> n * 10 ^ 4
      then show_nat (n div 10 ^ places) @ CHR ''.'' # zero_padded places (n mod 10 ^ places)
      else hd ds # (if tl ds = [] then [] else CHR ''.'' # tl ds) @ ''e-'' @ zero_padded 2 (places + 1 - length ds))"

definition float_json :: "rat \<Rightarrow> json" where
  "float_json x = JFloat (float_of_chars (float_repr x))"

section \<open>Lemmas\<close>

lemma round_le_int: "x \<le> of_int n \<Longrightarrow> round_half_even x \<le> n"
proof -
  assume le: "x \<le> of_int n"
  then have "\<lfloor>x\<rfloor> \<le> n" by linarith
  moreover have "\<lfloor>x\<rfloor> + 1 \<le> n" if "x - of_int \<lfloor>x\<rfloor> \<noteq> 0" using that le \<open>\<lfloor>x\<rfloor> \<le> n\<close>
    by (metis add.commute antisym_conv1 diff_self floor_of_int le_floor_iff not_less of_int_floor_le order_le_less zless_imp_add1_zle)
  ultimately show ?thesis by (auto simp: round_half_even_def Let_def)
qed

lemma round_ge_int: "of_int n \<le> x \<Longrightarrow> n \<le> round_half_even x"
  by (simp add: round_half_even_def Let_def le_floor_iff) linarith

lemma round_int [simp]: "round_half_even (of_int n) = n"
  by (simp add: round_half_even_def)

lemma round_mono: "x \<le> y \<Longrightarrow> round_half_even x \<le> round_half_even y"
proof -
  assume le: "x \<le> y"
  then consider "\<lfloor>x\<rfloor> = \<lfloor>y\<rfloor>" | "\<lfloor>x\<rfloor> + 1 \<le> \<lfloor>y\<rfloor>" using floor_mono [OF le] by linarith
  then show ?thesis
  proof cases
    case 1
    then show ?thesis using le by (auto simp: round_half_even_def Let_def)
  next
    case 2
    have "round_half_even x \<le> \<lfloor>x\<rfloor> + 1" by (simp add: round_half_even_def Let_def)
    moreover have "\<lfloor>y\<rfloor> \<le> round_half_even y" by (simp add: round_half_even_def Let_def)
    ultimately show ?thesis using 2 by linarith
  qed
qed

lemma binary_places_Some:
  assumes "binary_places x < 1074"
  shows "2 ^ 52 \<le> x * 2 ^ binary_places x"
proof (cases "find (\<lambda>k. 2 ^ 52 \<le> x * 2 ^ k) [0..<1074]")
  case None
  then show ?thesis using assms by (simp add: binary_places_def)
next
  case (Some m)
  then have "2 ^ 52 \<le> x * 2 ^ m" by (auto simp: find_Some_iff)
  then show ?thesis using Some by (simp add: binary_places_def)
qed

lemma binary_places_le: "binary_places x \<le> 1074"
proof (cases "find (\<lambda>k. 2 ^ 52 \<le> x * 2 ^ k) [0..<1074]")
  case (Some m)
  then have "m < 1074" by (auto simp: find_Some_iff)
  then show ?thesis using Some by (simp add: binary_places_def)
qed (simp add: binary_places_def)

lemma binary_places_least:
  assumes "k < binary_places x"
  shows "x * 2 ^ k < 2 ^ 52"
proof (cases "find (\<lambda>k. 2 ^ 52 \<le> x * 2 ^ k) [0..<1074]")
  case None
  then have "k < 1074" using assms by (simp add: binary_places_def)
  then show ?thesis using None by (auto simp: find_None_iff not_le)
next
  case (Some m)
  then have "k < m" using assms by (simp add: binary_places_def)
  then show ?thesis using Some by (auto simp: find_Some_iff not_le)
qed

lemma binary_places_antimono:
  assumes "x \<le> y"
  shows "binary_places y \<le> binary_places x"
proof (rule ccontr)
  assume less: "\<not> ?thesis"
  then have "y * 2 ^ binary_places x < 2 ^ 52" by (intro binary_places_least) simp
  moreover have "2 ^ 52 \<le> x * 2 ^ binary_places x" using less binary_places_le [of y] by (intro binary_places_Some) simp
  moreover have "x * 2 ^ binary_places x \<le> y * 2 ^ binary_places x" using assms by simp
  ultimately show False by linarith
qed

lemma to_double_mono:
  assumes "x \<le> y"
  shows "to_double x \<le> to_double y"
proof (cases "binary_places x = binary_places y")
  case True
  then show ?thesis using assms by (simp add: to_double_def divide_right_mono round_mono)
next
  case False
  let ?k = "binary_places x" and ?l = "binary_places y"
  have less: "?l < ?k" using False binary_places_antimono [OF assms] by simp
  then have "2 ^ 52 \<le> y * 2 ^ ?l" using binary_places_le [of x] by (intro binary_places_Some) simp
  then have "2 ^ 52 \<le> round_half_even (y * 2 ^ ?l)" by (intro round_ge_int) simp
  then have "(of_int (2 ^ 52) :: rat) \<le> of_int (round_half_even (y * 2 ^ ?l))" by (simp only: of_int_le_iff)
  then have right: "2 ^ 52 / 2 ^ ?l \<le> to_double y" by (simp add: to_double_def divide_right_mono)
  have split: "(2 :: rat) ^ ?k = 2 ^ ?l * 2 ^ (?k - ?l)" using less by (simp add: power_add [symmetric])
  have "x * 2 ^ ?l < 2 ^ 52" using less by (rule binary_places_least)
  then have "x * 2 ^ ?k \<le> 2 ^ 52 * 2 ^ (?k - ?l)" by (simp add: split mult.assoc [symmetric])
  then have "round_half_even (x * 2 ^ ?k) \<le> 2 ^ 52 * 2 ^ (?k - ?l)" by (intro round_le_int) simp
  then have "(of_int (round_half_even (x * 2 ^ ?k)) :: rat) \<le> of_int (2 ^ 52 * 2 ^ (?k - ?l))" by (simp only: of_int_le_iff)
  then have "to_double x \<le> 2 ^ 52 * 2 ^ (?k - ?l) / 2 ^ ?k" by (simp add: to_double_def divide_right_mono)
  also have "\<dots> = 2 ^ 52 / 2 ^ ?l" by (simp add: split)
  finally show ?thesis using right by linarith
qed

lemma to_double_int [simp]: "to_double (of_int n) = of_int n"
proof -
  have "(of_int n :: rat) * 2 ^ k = of_int (n * 2 ^ k)" for k by simp
  then show ?thesis by (simp only: to_double_def round_int) simp
qed

lemma to_double_0_1 [simp]: "to_double 0 = 0" "to_double 1 = 1"
  using to_double_int [of 0] to_double_int [of 1] by simp_all

lemma to_double_unit: "0 \<le> x \<Longrightarrow> x \<le> 1 \<Longrightarrow> 0 \<le> to_double x \<and> to_double x \<le> 1"
  using to_double_mono [of 0 x] to_double_mono [of x 1] by simp

lemma show_nat_digits: "c \<in> set (show_nat n) \<Longrightarrow> is_digit c"
  using show_nat_props [of n] by blast

lemma show_nat_nonempty: "show_nat n \<noteq> []"
  using show_nat_props [of n] by blast

lemma zero_padded_digits: "c \<in> set (zero_padded width n) \<Longrightarrow> is_digit c"
  using show_nat_digits by (auto simp: zero_padded_def char_class_defs code_def)

lemma float_repr_text: "is_float_text (float_repr x)"
proof -
  obtain m places where s: "shortest_decimal x = (m, places)" by fastforce
  have special: "number_char (CHR ''.'')" "number_char (CHR ''e'')" "number_char (CHR ''-'')"
    by (simp_all add: number_char_def)
  have digits: "number_char c" if "is_digit c" for c using that by (simp add: number_char_def)
  have hd_digit: "is_digit (hd (show_nat n))" for n
    using show_nat_digits [of "hd (show_nat n)" n] show_nat_nonempty [of n] by simp
  have "c \<in> set (tl (show_nat n)) \<Longrightarrow> number_char c" for c n
    using show_nat_digits digits by (meson list.set_sel(2) show_nat_nonempty)
  then show ?thesis
    using special digits hd_digit show_nat_nonempty zero_padded_digits show_nat_digits
    by (auto simp: is_float_text_def float_repr_def s Let_def list_all_iff hd_append)
qed

lemma float_chars_repr: "float_chars (float_of_chars (float_repr x)) = float_repr x"
  by (rule float_of_chars_inverse) (simp add: float_repr_text)

end
