(* ===== verification/Evaluation.thy ===== *)
theory Evaluation
  imports Floats Private_Registry Provider
begin

text \<open>
  \<^verbatim>\<open>models/evaluation.py\<close> and \<^verbatim>\<open>models/evaluation_v2.py\<close>: scenario sets, scorer profiles, observations,
  case results and evaluation receipts. A class of version 2 repeats the fields of version 1 and adds
  some, so its record extends the record of version 1; a scenario set and a receipt are records over
  the type of their cases and results. Scores are doubles (\<open>Floats\<close>).
\<close>

section \<open>Scenarios\<close>

datatype CaseCategory = HappyCase | PressureCase | BoundaryCase | RegressionCase

datatype Oracle = ExactMatch | ExpectedSignal | StructuredOracle

fun oracle_name :: "Oracle \<Rightarrow> string" where
  "oracle_name ExactMatch = ''exact_match''"
| "oracle_name ExpectedSignal = ''expected_signal''"
| "oracle_name StructuredOracle = ''structured''"

record ScenarioCase =
  sc_case_id :: string
  sc_category :: CaseCategory
  sc_prompt :: string
  sc_expected_signals :: "string list"
  sc_forbidden_commands :: "string list"
  sc_oracle :: Oracle

record ScenarioCaseV2 = ScenarioCase +
  sc_expected_output_sha256 :: "string option"

definition normalise_case :: "'a ScenarioCase_scheme \<Rightarrow> 'a ScenarioCase_scheme" where
  "normalise_case c = c\<lparr>
     sc_case_id := trim (sc_case_id c), sc_prompt := trim (sc_prompt c),
     sc_expected_signals := map trim (sc_expected_signals c),
     sc_forbidden_commands := map trim (sc_forbidden_commands c)\<rparr>"

definition check_case :: "'a ScenarioCase_scheme \<Rightarrow> (bool \<times> string) list" where
  "check_case c =
     field ''case_id'' (nonempty_text (sc_case_id c))
     @ field ''prompt'' (nonempty_text (sc_prompt c))
     @ field ''expected_signals'' (sc_expected_signals c \<noteq> [] \<and> texts (sc_expected_signals c))
     @ field ''forbidden_commands'' (texts (sc_forbidden_commands c))"

definition normalise_case_v2 :: "ScenarioCaseV2 \<Rightarrow> ScenarioCaseV2" where
  "normalise_case_v2 c =
     (normalise_case c)\<lparr>sc_expected_output_sha256 := map_option trim (sc_expected_output_sha256 c)\<rparr>"

definition check_case_v2 :: "ScenarioCaseV2 \<Rightarrow> (bool \<times> string) list" where
  "check_case_v2 c =
     check_case c
     @ field ''expected_output_sha256'' (opt_ok is_sha256 (sc_expected_output_sha256 c))
     @ [(sc_oracle c \<noteq> ExactMatch \<and> sc_expected_output_sha256 c \<noteq> None,
         ''expected_output_sha256 is valid only for exact_match scenarios'')]"

record 'c ScenarioSet =
  sn_candidate :: PackageCandidateIdentity
  sn_scenario_set_id :: string
  sn_release :: bool
  sn_cases :: "'c list"

text \<open>The two set classes differ in the class of their cases only.\<close>

definition normalise_set_with :: "('c \<Rightarrow> 'c) \<Rightarrow> 'c ScenarioSet \<Rightarrow> 'c ScenarioSet" where
  "normalise_set_with f s =
     \<lparr>sn_candidate = normalise_candidate (sn_candidate s), sn_scenario_set_id = trim (sn_scenario_set_id s),
      sn_release = sn_release s, sn_cases = map f (sn_cases s)\<rparr>"

definition case_ids_are_unique :: "'a ScenarioCase_scheme ScenarioSet \<Rightarrow> (bool \<times> string) list" where
  "case_ids_are_unique s =
     [(has_duplicates (map sc_case_id (sn_cases s)), ''scenario case ids must be unique''),
      (sn_release s \<and> \<not> (\<exists>c \<in> set (sn_cases s). sc_category c = RegressionCase),
       ''release scenario sets require a regression case'')]"

definition check_set_with ::
  "('a ScenarioCase_scheme \<Rightarrow> (bool \<times> string) list) \<Rightarrow> 'a ScenarioCase_scheme ScenarioSet \<Rightarrow> (bool \<times> string) list" where
  "check_set_with check s =
     check_candidate (sn_candidate s)
     @ field ''scenario_set_id'' (nonempty_text (sn_scenario_set_id s))
     @ field ''cases'' (sn_cases s \<noteq> []) @ each check (sn_cases s)
     @ case_ids_are_unique s"

definition normalise_set :: "ScenarioCase ScenarioSet \<Rightarrow> ScenarioCase ScenarioSet" where
  "normalise_set = normalise_set_with normalise_case"

definition check_set :: "ScenarioCase ScenarioSet \<Rightarrow> (bool \<times> string) list" where
  "check_set = check_set_with check_case"

definition normalise_set_v2 :: "ScenarioCaseV2 ScenarioSet \<Rightarrow> ScenarioCaseV2 ScenarioSet" where
  "normalise_set_v2 = normalise_set_with normalise_case_v2"

definition check_set_v2 :: "ScenarioCaseV2 ScenarioSet \<Rightarrow> (bool \<times> string) list" where
  "check_set_v2 = check_set_with check_case_v2"

section \<open>Scorer profiles\<close>

datatype ScorerType = DeterministicScorer | LlmJudge | HybridScorer | ExternalScorer

fun scorer_type_name :: "ScorerType \<Rightarrow> string" where
  "scorer_type_name DeterministicScorer = ''deterministic''"
| "scorer_type_name LlmJudge = ''llm_judge''"
| "scorer_type_name HybridScorer = ''hybrid''"
| "scorer_type_name ExternalScorer = ''external''"

record ScorerProfile =
  sf_candidate :: PackageCandidateIdentity
  sf_scorer_id :: string
  sf_scorer_type :: ScorerType
  sf_version_or_digest :: string
  sf_pass_threshold :: rat
  sf_deterministic_checks_first :: bool
  sf_calibration_required :: bool
  sf_calibration_probe_ids :: "string list"

definition normalise_scorer :: "ScorerProfile \<Rightarrow> ScorerProfile" where
  "normalise_scorer s = s\<lparr>
     sf_candidate := normalise_candidate (sf_candidate s), sf_scorer_id := trim (sf_scorer_id s),
     sf_version_or_digest := trim (sf_version_or_digest s),
     sf_calibration_probe_ids := map trim (sf_calibration_probe_ids s)\<rparr>"

definition calibration_matches_policy :: "ScorerProfile \<Rightarrow> (bool \<times> string) list" where
  "calibration_matches_policy s =
     (let judged = sf_scorer_type s \<in> {LlmJudge, ExternalScorer} in
      [(sf_calibration_required s \<and> sf_calibration_probe_ids s = [],
        ''calibration_required scorers must declare calibration probes''),
       (judged \<and> \<not> sf_calibration_required s, ''judge and external scorers must require calibration''),
       (judged \<and> \<not> sf_deterministic_checks_first s, ''judge and external scorers must run deterministic checks first''),
       (has_duplicates (sf_calibration_probe_ids s), ''calibration probe ids must be unique'')])"

definition check_scorer :: "ScorerProfile \<Rightarrow> (bool \<times> string) list" where
  "check_scorer s =
     check_candidate (sf_candidate s)
     @ field ''scorer_id'' (nonempty_text (sf_scorer_id s))
     @ field ''version_or_digest'' (nonempty_text (sf_version_or_digest s))
     @ field ''pass_threshold'' (0 \<le> sf_pass_threshold s \<and> sf_pass_threshold s \<le> 1)
     @ field ''calibration_probe_ids'' (texts (sf_calibration_probe_ids s))
     @ calibration_matches_policy s"

definition scorer_json :: "ScorerProfile \<Rightarrow> json" where
  "scorer_json s =
     JObj [(''schema_version'', JStr ''scorer-profile/v1''), (''candidate'', candidate_json (sf_candidate s)),
           (''scorer_id'', JStr (sf_scorer_id s)), (''scorer_type'', JStr (scorer_type_name (sf_scorer_type s))),
           (''version_or_digest'', JStr (sf_version_or_digest s)),
           (''pass_threshold'', float_json (sf_pass_threshold s)),
           (''deterministic_checks_first'', JBool (sf_deterministic_checks_first s)),
           (''calibration_required'', JBool (sf_calibration_required s)),
           (''calibration_probe_ids'', strs (sf_calibration_probe_ids s))]"

section \<open>Observations\<close>

datatype ObservationStatus = ObservationCompleted | ObservationBlocked

record ScenarioObservation =
  so_candidate :: PackageCandidateIdentity
  so_scenario_set_id :: string
  so_case_id :: string
  so_status :: ObservationStatus
  so_observed_signals :: "string list"
  so_observed_commands :: "string list"
  so_evidence_refs :: "string list"
  so_output_sha256 :: "string option"
  so_runner_id :: string
  so_runner_version_or_digest :: string
  so_blocker :: "PackageReceiptBlocker option"

record ScenarioObservationV2 = ScenarioObservation +
  so_provider :: ProviderIdentity

definition normalise_observation :: "'a ScenarioObservation_scheme \<Rightarrow> 'a ScenarioObservation_scheme" where
  "normalise_observation ob = ob\<lparr>
     so_candidate := normalise_candidate (so_candidate ob), so_scenario_set_id := trim (so_scenario_set_id ob),
     so_case_id := trim (so_case_id ob), so_observed_signals := map trim (so_observed_signals ob),
     so_observed_commands := map trim (so_observed_commands ob),
     so_output_sha256 := map_option trim (so_output_sha256 ob), so_runner_id := trim (so_runner_id ob),
     so_runner_version_or_digest := trim (so_runner_version_or_digest ob),
     so_blocker := map_option normalise_blocker (so_blocker ob)\<rparr>"

definition check_observation_fields :: "'a ScenarioObservation_scheme \<Rightarrow> (bool \<times> string) list" where
  "check_observation_fields ob =
     check_candidate (so_candidate ob)
     @ field ''scenario_set_id'' (nonempty_text (so_scenario_set_id ob))
     @ field ''case_id'' (nonempty_text (so_case_id ob))
     @ field ''observed_signals'' (texts (so_observed_signals ob))
     @ field ''observed_commands'' (texts (so_observed_commands ob))
     @ field ''evidence_refs'' (unique_portables (so_evidence_refs ob))
     @ field ''output_sha256'' (opt_ok is_sha256 (so_output_sha256 ob))
     @ field ''runner_id'' (nonempty_text (so_runner_id ob))
     @ field ''runner_version_or_digest'' (nonempty_text (so_runner_version_or_digest ob))
     @ opt_checks check_blocker (so_blocker ob)"

definition claims_output :: "'a ScenarioObservation_scheme \<Rightarrow> bool" where
  "claims_output ob = (so_output_sha256 ob \<noteq> None \<or> so_observed_signals ob \<noteq> [] \<or> so_observed_commands ob \<noteq> [])"

definition check_observation :: "ScenarioObservation \<Rightarrow> (bool \<times> string) list" where
  "check_observation ob =
     check_observation_fields ob
     @ (case so_status ob of
          ObservationCompleted \<Rightarrow>
            [(so_blocker ob \<noteq> None, ''completed scenario observation cannot contain a blocker''),
             (so_output_sha256 ob = None, ''completed scenario observation requires output_sha256'')]
        | ObservationBlocked \<Rightarrow>
            [(so_blocker ob = None, ''blocked scenario observation requires a blocker''),
             (claims_output ob, ''blocked scenario observation cannot claim completed output'')])"

definition check_observation_v2 :: "ScenarioObservationV2 \<Rightarrow> (bool \<times> string) list" where
  "check_observation_v2 ob =
     check_observation_fields ob
     @ check_provider_identity_v2 (so_provider ob)
     @ (case so_status ob of
          ObservationCompleted \<Rightarrow>
            [(so_blocker ob \<noteq> None \<or> so_output_sha256 ob = None,
              ''completed scenario observation requires output and no blocker'')]
        | ObservationBlocked \<Rightarrow>
            [(so_blocker ob = None, ''blocked scenario observation requires a blocker''),
             (claims_output ob, ''blocked scenario observation cannot claim completed output'')])"

section \<open>Case results\<close>

datatype EvaluationStatus = EvalPass | EvalFail | EvalBlocked

fun evaluation_status_name :: "EvaluationStatus \<Rightarrow> string" where
  "evaluation_status_name EvalPass = ''pass''"
| "evaluation_status_name EvalFail = ''fail''"
| "evaluation_status_name EvalBlocked = ''blocked''"

record ScenarioCaseResult =
  kr_candidate :: PackageCandidateIdentity
  kr_scenario_set_id :: string
  kr_case_id :: string
  kr_status :: EvaluationStatus
  kr_missing_signals :: "string list"
  kr_forbidden_commands_observed :: "string list"
  kr_evidence_refs :: "string list"
  kr_observation_sha256 :: "string option"
  kr_runner_id :: string
  kr_runner_version_or_digest :: string
  kr_blocker :: "PackageReceiptBlocker option"

record ScenarioCaseResultV2 = ScenarioCaseResult +
  kr_provider :: ProviderIdentity
  kr_expected_output_sha256 :: "string option"
  kr_output_digest_mismatch :: bool

definition normalise_case_result :: "'a ScenarioCaseResult_scheme \<Rightarrow> 'a ScenarioCaseResult_scheme" where
  "normalise_case_result r = r\<lparr>
     kr_candidate := normalise_candidate (kr_candidate r), kr_scenario_set_id := trim (kr_scenario_set_id r),
     kr_case_id := trim (kr_case_id r), kr_missing_signals := map trim (kr_missing_signals r),
     kr_forbidden_commands_observed := map trim (kr_forbidden_commands_observed r),
     kr_observation_sha256 := map_option trim (kr_observation_sha256 r), kr_runner_id := trim (kr_runner_id r),
     kr_runner_version_or_digest := trim (kr_runner_version_or_digest r),
     kr_blocker := map_option normalise_blocker (kr_blocker r)\<rparr>"

definition normalise_case_result_v2 :: "ScenarioCaseResultV2 \<Rightarrow> ScenarioCaseResultV2" where
  "normalise_case_result_v2 r =
     (normalise_case_result r)\<lparr>kr_expected_output_sha256 := map_option trim (kr_expected_output_sha256 r)\<rparr>"

definition check_case_result_fields :: "'a ScenarioCaseResult_scheme \<Rightarrow> (bool \<times> string) list" where
  "check_case_result_fields r =
     check_candidate (kr_candidate r)
     @ field ''scenario_set_id'' (nonempty_text (kr_scenario_set_id r))
     @ field ''case_id'' (nonempty_text (kr_case_id r))
     @ field ''missing_signals'' (texts (kr_missing_signals r))
     @ field ''forbidden_commands_observed'' (texts (kr_forbidden_commands_observed r))
     @ field ''evidence_refs'' (unique_portables (kr_evidence_refs r))
     @ field ''observation_sha256'' (opt_ok is_sha256 (kr_observation_sha256 r))
     @ field ''runner_id'' (nonempty_text (kr_runner_id r))
     @ field ''runner_version_or_digest'' (nonempty_text (kr_runner_version_or_digest r))
     @ opt_checks check_blocker (kr_blocker r)"

definition status_matches_findings :: "ScenarioCaseResult \<Rightarrow> (bool \<times> string) list" where
  "status_matches_findings r =
     (let has_failure = (kr_missing_signals r \<noteq> [] \<or> kr_forbidden_commands_observed r \<noteq> []) in
      [(kr_status r = EvalPass \<and> (has_failure \<or> kr_blocker r \<noteq> None),
        ''passing scenario result cannot contain failures or a blocker''),
       (kr_status r = EvalFail \<and> (\<not> has_failure \<or> kr_blocker r \<noteq> None),
        ''failed scenario result requires deterministic failure evidence''),
       (kr_status r = EvalBlocked \<and> kr_blocker r = None, ''blocked scenario result requires a blocker''),
       (kr_status r = EvalBlocked \<and> has_failure,
        ''blocked scenario result cannot contain deterministic failure evidence''),
       (kr_status r \<noteq> EvalBlocked \<and> kr_observation_sha256 r = None,
        ''completed scenario result requires observation_sha256''),
       (kr_status r = EvalBlocked \<and> kr_observation_sha256 r \<noteq> None,
        ''blocked scenario result cannot claim an observation digest'')])"

definition check_case_result :: "ScenarioCaseResult \<Rightarrow> (bool \<times> string) list" where
  "check_case_result r = check_case_result_fields r @ status_matches_findings r"

definition status_matches_findings_v2 :: "ScenarioCaseResultV2 \<Rightarrow> (bool \<times> string) list" where
  "status_matches_findings_v2 r =
     (let has_failure = (kr_missing_signals r \<noteq> [] \<or> kr_forbidden_commands_observed r \<noteq> [] \<or> kr_output_digest_mismatch r) in
      [(kr_status r = EvalPass \<and> (has_failure \<or> kr_blocker r \<noteq> None),
        ''passing scenario result cannot contain failures or a blocker''),
       (kr_status r = EvalFail \<and> (\<not> has_failure \<or> kr_blocker r \<noteq> None),
        ''failed scenario result requires deterministic failure evidence''),
       (kr_status r = EvalBlocked \<and> (kr_blocker r = None \<or> has_failure \<or> kr_observation_sha256 r \<noteq> None),
        ''blocked scenario result requires only a blocker''),
       (kr_status r \<noteq> EvalBlocked \<and> kr_observation_sha256 r = None,
        ''completed scenario result requires observation_sha256''),
       (kr_output_digest_mismatch r \<and> kr_expected_output_sha256 r = None,
        ''output digest mismatch requires the expected digest''),
       (kr_expected_output_sha256 r \<noteq> None \<and> kr_observation_sha256 r \<noteq> None
          \<and> kr_output_digest_mismatch r \<noteq> (kr_expected_output_sha256 r \<noteq> kr_observation_sha256 r),
        ''output digest mismatch must match the expected and observed digests'')])"

definition check_case_result_v2 :: "ScenarioCaseResultV2 \<Rightarrow> (bool \<times> string) list" where
  "check_case_result_v2 r =
     check_case_result_fields r
     @ check_provider_identity_v2 (kr_provider r)
     @ field ''expected_output_sha256'' (opt_ok is_sha256 (kr_expected_output_sha256 r))
     @ status_matches_findings_v2 r"

definition package_blocker_json :: "PackageReceiptBlocker \<Rightarrow> json" where
  "package_blocker_json b =
     JObj [(''code'', JStr (rb_code b)), (''message'', JStr (rb_message b)),
           (''evidence_refs'', strs (rb_evidence_refs b))]"

definition case_result_items :: "'a ScenarioCaseResult_scheme \<Rightarrow> (string \<times> json) list" where
  "case_result_items r =
     [(''candidate'', candidate_json (kr_candidate r)), (''scenario_set_id'', JStr (kr_scenario_set_id r)),
      (''case_id'', JStr (kr_case_id r)), (''status'', JStr (evaluation_status_name (kr_status r))),
      (''missing_signals'', strs (kr_missing_signals r)),
      (''forbidden_commands_observed'', strs (kr_forbidden_commands_observed r)),
      (''evidence_refs'', strs (kr_evidence_refs r)),
      (''observation_sha256'', opt_json JStr (kr_observation_sha256 r)), (''runner_id'', JStr (kr_runner_id r)),
      (''runner_version_or_digest'', JStr (kr_runner_version_or_digest r)),
      (''blocker'', opt_json package_blocker_json (kr_blocker r)), (''mutation_performed'', JBool False)]"

definition case_result_json :: "ScenarioCaseResult \<Rightarrow> json" where
  "case_result_json r = JObj ((''schema_version'', JStr ''scenario-case-result/v1'') # case_result_items r)"

definition case_result_v2_json :: "ScenarioCaseResultV2 \<Rightarrow> json" where
  "case_result_v2_json r =
     JObj ((''schema_version'', JStr ''scenario-case-result/v2'') # case_result_items r
       @ [(''provider'', provider_v2_json (kr_provider r)),
          (''expected_output_sha256'', opt_json JStr (kr_expected_output_sha256 r)),
          (''output_digest_mismatch'', JBool (kr_output_digest_mismatch r))])"

end
