(* ===== verification/Evaluator.thy ===== *)
theory Evaluator
  imports Evaluation
begin

text \<open>
  The evaluation receipt of \<^verbatim>\<open>models/evaluation.py\<close> and \<^verbatim>\<open>evaluation/deterministic.py\<close>: deciding a
  scenario set from observations that were made elsewhere. The lemmas: on valid inputs the evaluator
  always returns a receipt, the receipt passes its own validator, it is blocked exactly when the
  inputs do not determine an evaluation, and otherwise the score is the pass ratio.
\<close>

section \<open>Receipts\<close>

record 'r EvaluationReceipt =
  ev_receipt_id :: string
  ev_candidate :: PackageCandidateIdentity
  ev_scenario_set_id :: string
  ev_scorer :: ScorerProfile
  ev_status :: EvaluationStatus
  ev_score :: "rat option"
  ev_case_results :: "'r list"
  ev_completed_calibration_probe_ids :: "string list"
  ev_blocker :: "PackageReceiptBlocker option"

definition normalise_evaluation_with :: "('r \<Rightarrow> 'r) \<Rightarrow> ('r, 'a) EvaluationReceipt_scheme \<Rightarrow> ('r, 'a) EvaluationReceipt_scheme" where
  "normalise_evaluation_with f r = r\<lparr>
     ev_receipt_id := trim (ev_receipt_id r), ev_candidate := normalise_candidate (ev_candidate r),
     ev_scenario_set_id := trim (ev_scenario_set_id r), ev_scorer := normalise_scorer (ev_scorer r),
     ev_case_results := map f (ev_case_results r),
     ev_completed_calibration_probe_ids := map trim (ev_completed_calibration_probe_ids r),
     ev_blocker := map_option normalise_blocker (ev_blocker r)\<rparr>"

definition normalise_evaluation :: "ScenarioCaseResult EvaluationReceipt \<Rightarrow> ScenarioCaseResult EvaluationReceipt" where
  "normalise_evaluation = normalise_evaluation_with normalise_case_result"

definition check_evaluation_fields ::
  "('r \<Rightarrow> (bool \<times> string) list) \<Rightarrow> ('r, 'a) EvaluationReceipt_scheme \<Rightarrow> (bool \<times> string) list" where
  "check_evaluation_fields check r =
     field ''receipt_id'' (is_identifier (ev_receipt_id r))
     @ check_candidate (ev_candidate r)
     @ field ''scenario_set_id'' (nonempty_text (ev_scenario_set_id r))
     @ check_scorer (ev_scorer r)
     @ field ''score'' (opt_ok (\<lambda>x. 0 \<le> x \<and> x \<le> 1) (ev_score r))
     @ each check (ev_case_results r)
     @ field ''completed_calibration_probe_ids'' (texts (ev_completed_calibration_probe_ids r))
     @ opt_checks check_blocker (ev_blocker r)"

definition pass_ratio :: "('a ScenarioCaseResult_scheme) list \<Rightarrow> rat" where
  "pass_ratio results =
     true_division (int (length [r \<leftarrow> results. kr_status r = EvalPass])) (int (length results))"

definition threshold_status :: "rat \<Rightarrow> ScorerProfile \<Rightarrow> EvaluationStatus" where
  "threshold_status score scorer = (if score \<ge> sf_pass_threshold scorer then EvalPass else EvalFail)"

definition scorer_mismatch_blocked :: "('r, 'a) EvaluationReceipt_scheme \<Rightarrow> bool" where
  "scorer_mismatch_blocked r =
     (ev_status r = EvalBlocked \<and> map_option rb_code (ev_blocker r) = Some ''scorer_candidate_mismatch'')"

definition canonical_probes :: "ScorerProfile \<Rightarrow> string list \<Rightarrow> string list" where
  "canonical_probes scorer probes = [p \<leftarrow> sf_calibration_probe_ids scorer. p \<in> set probes]"

definition unbound_results :: "('a ScenarioCaseResult_scheme, 'b) EvaluationReceipt_scheme \<Rightarrow> bool" where
  "unbound_results r =
     (\<exists>k \<in> set (ev_case_results r). kr_candidate k \<noteq> ev_candidate r \<or> kr_scenario_set_id k \<noteq> ev_scenario_set_id r)"

definition receipt_is_candidate_bound :: "ScenarioCaseResult EvaluationReceipt \<Rightarrow> (bool \<times> string) list" where
  "receipt_is_candidate_bound r =
     (let results = ev_case_results r; scorer = ev_scorer r; probes = ev_completed_calibration_probe_ids r;
          any_blocked = (\<exists>k \<in> set results. kr_status k = EvalBlocked)
      in [(sf_candidate scorer \<noteq> ev_candidate r \<and> \<not> scorer_mismatch_blocked r,
           ''evaluation receipt scorer must bind the same candidate''),
          (has_duplicates (map kr_case_id results), ''evaluation receipt case ids must be unique''),
          (unbound_results r, ''evaluation receipt results must bind the same candidate and scenario set''),
          (has_duplicates probes, ''completed calibration probe ids must be unique''),
          (\<not> set probes \<subseteq> set (sf_calibration_probe_ids scorer),
           ''completed calibration probes must be declared by the scorer profile''),
          (probes \<noteq> canonical_probes scorer probes, ''completed calibration probes must follow scorer profile order''),
          (ev_status r \<noteq> EvalBlocked \<and> sf_calibration_required scorer
             \<and> set probes \<noteq> set (sf_calibration_probe_ids scorer),
           ''completed calibration probes must match the scorer profile'')]
         @ (if ev_status r = EvalBlocked then
              [(ev_blocker r = None \<and> \<not> any_blocked, ''blocked evaluation receipt requires a blocker''),
               (ev_score r \<noteq> None, ''blocked evaluation receipt cannot claim a score'')]
            else
              [(ev_blocker r \<noteq> None \<or> any_blocked, ''completed evaluation receipt cannot contain blockers''),
               (ev_score r = None \<or> results = [], ''completed evaluation receipt requires score and case results''),
               (sf_scorer_type scorer \<noteq> DeterministicScorer,
                ''completed evaluation receipt requires a deterministic scorer''),
               (ev_score r \<noteq> Some (pass_ratio results), ''evaluation receipt score must match the case-result pass ratio''),
               (case ev_score r of None \<Rightarrow> False | Some score \<Rightarrow> ev_status r \<noteq> threshold_status score scorer,
                ''evaluation receipt status must match the scorer threshold'')]))"

definition check_evaluation :: "ScenarioCaseResult EvaluationReceipt \<Rightarrow> (bool \<times> string) list" where
  "check_evaluation r = check_evaluation_fields check_case_result r @ receipt_is_candidate_bound r"

section \<open>The evaluator\<close>

definition evaluation_payload ::
  "'c ScenarioSet \<Rightarrow> ScorerProfile \<Rightarrow> ScenarioCaseResult list \<Rightarrow> EvaluationStatus
     \<Rightarrow> PackageReceiptBlocker option \<Rightarrow> string list \<Rightarrow> json" where
  "evaluation_payload s scorer results status blocker probes =
     JObj [(''candidate'', candidate_json (sn_candidate s)), (''scenario_set_id'', JStr (sn_scenario_set_id s)),
           (''scorer'', scorer_json scorer), (''status'', JStr (evaluation_status_name status)),
           (''case_results'', arr case_result_json results), (''blocker'', opt_json package_blocker_json blocker),
           (''completed_calibration_probe_ids'', strs (sort probes))]"

definition evaluation_receipt_id ::
  "'c ScenarioSet \<Rightarrow> ScorerProfile \<Rightarrow> ScenarioCaseResult list \<Rightarrow> EvaluationStatus
     \<Rightarrow> PackageReceiptBlocker option \<Rightarrow> string list \<Rightarrow> string" where
  "evaluation_receipt_id s scorer results status blocker probes =
     ''eval-'' @ take 24 (canonical_json_sha256 (evaluation_payload s scorer results status blocker probes))"

definition evaluation_blocker :: "string \<Rightarrow> string \<Rightarrow> string list \<Rightarrow> PackageReceiptBlocker result" where
  "evaluation_blocker blocker_code message refs =
     validate_model normalise_blocker check_blocker \<lparr>rb_code = blocker_code, rb_message = message, rb_evidence_refs = refs\<rparr>"

definition blocked_evaluation ::
  "'c ScenarioSet \<Rightarrow> ScorerProfile \<Rightarrow> PackageReceiptBlocker \<Rightarrow> ScenarioCaseResult list \<Rightarrow> string list
     \<Rightarrow> ScenarioCaseResult EvaluationReceipt result" where
  "blocked_evaluation s scorer blocker results probes =
     validate_model normalise_evaluation check_evaluation
       \<lparr>ev_receipt_id = evaluation_receipt_id s scorer results EvalBlocked (Some blocker) probes,
        ev_candidate = sn_candidate s, ev_scenario_set_id = sn_scenario_set_id s, ev_scorer = scorer,
        ev_status = EvalBlocked, ev_score = None, ev_case_results = results,
        ev_completed_calibration_probe_ids = probes, ev_blocker = Some blocker\<rparr>"

definition block_with ::
  "'c ScenarioSet \<Rightarrow> ScorerProfile \<Rightarrow> string \<Rightarrow> string \<Rightarrow> ScenarioCaseResult list \<Rightarrow> string list
     \<Rightarrow> ScenarioCaseResult EvaluationReceipt result" where
  "block_with s scorer blocker_code message results probes =
     and_then (evaluation_blocker blocker_code message []) (\<lambda>b. blocked_evaluation s scorer b results probes)"

definition missing_signals :: "'a ScenarioCase_scheme \<Rightarrow> 'b ScenarioObservation_scheme \<Rightarrow> string list" where
  "missing_signals c ob = [s \<leftarrow> sc_expected_signals c. s \<notin> set (so_observed_signals ob)]"

definition forbidden_observed :: "'a ScenarioCase_scheme \<Rightarrow> 'b ScenarioObservation_scheme \<Rightarrow> string list" where
  "forbidden_observed c ob = [x \<leftarrow> so_observed_commands ob. x \<in> set (sc_forbidden_commands c)]"

definition blocked_result :: "ScenarioCase \<Rightarrow> ScenarioObservation \<Rightarrow> PackageReceiptBlocker \<Rightarrow> ScenarioCaseResult" where
  "blocked_result c ob blocker =
     \<lparr>kr_candidate = so_candidate ob, kr_scenario_set_id = so_scenario_set_id ob, kr_case_id = sc_case_id c,
      kr_status = EvalBlocked, kr_missing_signals = [], kr_forbidden_commands_observed = [],
      kr_evidence_refs = so_evidence_refs ob, kr_observation_sha256 = None, kr_runner_id = so_runner_id ob,
      kr_runner_version_or_digest = so_runner_version_or_digest ob, kr_blocker = Some blocker\<rparr>"

definition decided_result :: "ScenarioCase \<Rightarrow> ScenarioObservation \<Rightarrow> ScenarioCaseResult" where
  "decided_result c ob =
     (let missing = missing_signals c ob; forbidden = forbidden_observed c ob in
      \<lparr>kr_candidate = so_candidate ob, kr_scenario_set_id = so_scenario_set_id ob, kr_case_id = sc_case_id c,
       kr_status = (if missing \<noteq> [] \<or> forbidden \<noteq> [] then EvalFail else EvalPass), kr_missing_signals = missing,
       kr_forbidden_commands_observed = forbidden, kr_evidence_refs = so_evidence_refs ob,
       kr_observation_sha256 = so_output_sha256 ob, kr_runner_id = so_runner_id ob,
       kr_runner_version_or_digest = so_runner_version_or_digest ob, kr_blocker = None\<rparr>)"

definition evaluate_case :: "ScenarioCase \<Rightarrow> ScenarioObservation \<Rightarrow> ScenarioCaseResult result" where
  "evaluate_case c ob =
     (let make = validate_model normalise_case_result check_case_result in
      if so_status ob = ObservationBlocked then
        (case so_blocker ob of
           None \<Rightarrow> Inl (ValueErr ''blocked observation must contain a blocker'')
         | Some blocker \<Rightarrow> make (blocked_result c ob blocker))
      else if sc_oracle c \<noteq> ExpectedSignal then
        and_then (evaluation_blocker ''unsupported_oracle''
            (''scenario-set/v1 does not define deterministic '' @ oracle_name (sc_oracle c) @ '' expectations'')
            (so_evidence_refs ob)) (\<lambda>b. make (blocked_result c ob b))
      else if so_output_sha256 ob = None then Inl (ValueErr ''completed observation must contain output_sha256'')
      else make (decided_result c ob))"

text \<open>\<^verbatim>\<open>by_case_id[case.case_id]\<close>: of two observations of one case the later one wins.\<close>

definition observation_for :: "'b ScenarioObservation_scheme list \<Rightarrow> 'a ScenarioCase_scheme \<Rightarrow> 'b ScenarioObservation_scheme option" where
  "observation_for observations c = map_of (rev (map (\<lambda>ob. (so_case_id ob, ob)) observations)) (sc_case_id c)"

definition evaluate_cases ::
  "ScenarioCase list \<Rightarrow> ScenarioObservation list \<Rightarrow> ScenarioCaseResult list result" where
  "evaluate_cases cases observations =
     map_result (\<lambda>c. case observation_for observations c of
         None \<Rightarrow> Inl (KeyErr (sc_case_id c))
       | Some ob \<Rightarrow> evaluate_case c ob) cases"

text \<open>A supplied probe that is not a string is \<open>None\<close>.\<close>

definition invalid_probe :: "string option \<Rightarrow> bool" where
  "invalid_probe p = (case p of None \<Rightarrow> True | Some t \<Rightarrow> strip t = [])"

definition unbound_observation :: "'c ScenarioSet \<Rightarrow> 'a ScenarioObservation_scheme \<Rightarrow> bool" where
  "unbound_observation s ob = (so_candidate ob \<noteq> sn_candidate s \<or> so_scenario_set_id ob \<noteq> sn_scenario_set_id s)"

definition completed_evaluation ::
  "'c ScenarioSet \<Rightarrow> ScorerProfile \<Rightarrow> ScenarioCaseResult list \<Rightarrow> string list \<Rightarrow> ScenarioCaseResult EvaluationReceipt result" where
  "completed_evaluation s scorer results completed =
     (let score = pass_ratio results; status = threshold_status score scorer in
      validate_model normalise_evaluation check_evaluation
        \<lparr>ev_receipt_id = evaluation_receipt_id s scorer results status None completed,
         ev_candidate = sn_candidate s, ev_scenario_set_id = sn_scenario_set_id s, ev_scorer = scorer,
         ev_status = status, ev_score = Some score, ev_case_results = results,
         ev_completed_calibration_probe_ids = completed, ev_blocker = None\<rparr>)"

text \<open>
  The guards before any case is decided, in order: each with the code and message of its blocker and
  the completed probes that the blocked receipt reports.
\<close>

definition input_blocks ::
  "'a ScenarioCase_scheme ScenarioSet \<Rightarrow> 'b ScenarioObservation_scheme list \<Rightarrow> ScorerProfile \<Rightarrow> string option list
     \<Rightarrow> (bool \<times> string \<times> string \<times> string list) list" where
  "input_blocks s observations scorer probes =
     (let supplied = map the probes; declared = sf_calibration_probe_ids scorer;
          completed = canonical_probes scorer supplied; ids = map so_case_id observations
      in [(sf_candidate scorer \<noteq> sn_candidate s,
           ''scorer_candidate_mismatch'', ''scorer and scenario set must bind the same candidate'', []),
          (sf_scorer_type scorer \<noteq> DeterministicScorer,
           ''provider_adapter_required'', ''the local evaluator accepts deterministic scorers only'', []),
          (\<exists>p \<in> set probes. invalid_probe p,
           ''invalid_calibration_probe'', ''completed calibration probe ids must be non-empty text'', []),
          (has_duplicates probes,
           ''duplicate_calibration_probe'', ''completed calibration probe ids must be unique'', []),
          (\<not> set supplied \<subseteq> set declared,
           ''unknown_calibration_probe'', ''completed probes must be declared by the scorer profile'', []),
          (sf_calibration_required scorer \<and> set supplied \<noteq> set declared,
           ''calibration_incomplete'', ''completed calibration probes must match the scorer profile'', completed),
          (has_duplicates ids,
           ''duplicate_observation'', ''scenario observations must have unique case ids'', completed),
          (set ids \<noteq> set (map sc_case_id (sn_cases s)),
           ''observation_set_mismatch'', ''observations must cover exactly the scenario set cases'', completed),
          (\<exists>ob \<in> set observations. unbound_observation s ob,
           ''observation_identity_mismatch'', ''observations must bind the same candidate and scenario set'', completed)])"

definition evaluate_scenario_set ::
  "ScenarioCase ScenarioSet \<Rightarrow> ScenarioObservation list \<Rightarrow> ScorerProfile \<Rightarrow> string option list
     \<Rightarrow> ScenarioCaseResult EvaluationReceipt result" where
  "evaluate_scenario_set s observations scorer probes =
     (case List.find fst (input_blocks s observations scorer probes) of
        Some (_, blocker_code, message, completed) \<Rightarrow> block_with s scorer blocker_code message [] completed
      | None \<Rightarrow>
          (let completed = canonical_probes scorer (map the probes) in
           and_then (evaluate_cases (sn_cases s) observations) (\<lambda>results.
             if \<exists>r \<in> set results. kr_status r = EvalBlocked
             then block_with s scorer ''scenario_blocked''
                    ''one or more scenarios could not be evaluated deterministically'' results completed
             else completed_evaluation s scorer results completed)))"

section \<open>The models as instances of the interface\<close>

lemma normalise_case_idem [simp]: "normalise_case (normalise_case c) = normalise_case c"
  by (simp add: normalise_case_def)

lemma normalise_scorer_idem [simp]: "normalise_scorer (normalise_scorer s) = normalise_scorer s"
  by (simp add: normalise_scorer_def)

lemma normalise_observation_idem [simp]: "normalise_observation (normalise_observation ob) = normalise_observation ob"
  by (simp add: normalise_observation_def map_option_idem)

lemma normalise_case_result_idem [simp]: "normalise_case_result (normalise_case_result r) = normalise_case_result r"
  by (simp add: normalise_case_result_def map_option_idem)

lemma normalise_set_with_idem: "(\<And>c. f (f c) = f c) \<Longrightarrow> normalise_set_with f (normalise_set_with f s) = normalise_set_with f s"
  by (simp add: normalise_set_with_def)

lemma normalise_evaluation_with_idem:
  "(\<And>r. f (f r) = f r) \<Longrightarrow> normalise_evaluation_with f (normalise_evaluation_with f r) = normalise_evaluation_with f r"
  by (simp add: normalise_evaluation_with_def map_option_idem)

interpretation set_model: contract_model normalise_set check_set
  by unfold_locales (simp add: normalise_set_def normalise_set_with_idem)

interpretation scorer_model: contract_model normalise_scorer check_scorer
  by unfold_locales simp

interpretation observation_model: contract_model normalise_observation check_observation
  by unfold_locales simp

interpretation case_result_model: contract_model normalise_case_result check_case_result
  by unfold_locales simp

interpretation evaluation_model: contract_model normalise_evaluation check_evaluation
  by unfold_locales (simp add: normalise_evaluation_def normalise_evaluation_with_idem)

section \<open>Building receipts\<close>

lemma pass_ratio_unit: "results \<noteq> [] \<Longrightarrow> 0 \<le> pass_ratio results \<and> pass_ratio results \<le> 1"
  unfolding pass_ratio_def true_division_def by (rule to_double_unit) (simp_all add: divide_le_eq_1 le_less_trans)

lemma evaluation_id: "is_identifier (evaluation_receipt_id s scorer results status blocker probes)"
proof -
  have "is_identifier ''eval''" by code_simp
  from identifier_digest [OF this] show ?thesis by (simp add: evaluation_receipt_id_def)
qed

definition valid_as :: "('m \<Rightarrow> 'm) \<Rightarrow> ('m \<Rightarrow> (bool \<times> string) list) \<Rightarrow> 'm \<Rightarrow> bool" where
  "valid_as normalise checks m = (normalise m = m \<and> passes (checks m))"

lemma validate_fixpoint: "valid_as normalise checks m \<Longrightarrow> validate_model normalise checks m = Inr m"
  by (simp add: valid_as_def validate_model_def passes_def)

abbreviation blocker_valid :: "PackageReceiptBlocker \<Rightarrow> bool" where
  "blocker_valid \<equiv> valid_as normalise_blocker check_blocker"

abbreviation results_bound :: "'c ScenarioSet \<Rightarrow> 'a ScenarioCaseResult_scheme list \<Rightarrow> bool" where
  "results_bound s results \<equiv> distinct (map kr_case_id results)
     \<and> (\<forall>k \<in> set results. kr_candidate k = sn_candidate s \<and> kr_scenario_set_id k = sn_scenario_set_id s)"

lemma set_identity:
  assumes "valid_as (normalise_set_with f) (check_set_with g) s"
  shows "passes (check_candidate (sn_candidate s))" "normalise_candidate (sn_candidate s) = sn_candidate s"
    "sn_scenario_set_id s \<noteq> []" "trim (sn_scenario_set_id s) = sn_scenario_set_id s" "sn_cases s \<noteq> []"
    "distinct (map sc_case_id (sn_cases s))" "\<forall>c \<in> set (sn_cases s). valid_as f g c"
proof -
  have n: "normalise_set_with f s = s" and p: "passes (check_set_with g s)" using assms by (simp_all add: valid_as_def)
  show "passes (check_candidate (sn_candidate s))" "sn_scenario_set_id s \<noteq> []" "sn_cases s \<noteq> []"
    "distinct (map sc_case_id (sn_cases s))"
    using p by (simp_all add: check_set_with_def case_ids_are_unique_def)
  have "map f (sn_cases s) = sn_cases s" using n by (cases s) (simp add: normalise_set_with_def)
  then have "\<forall>c \<in> set (sn_cases s). f c = c" by (simp add: map_eq_conv [of f _ id, simplified])
  then show "\<forall>c \<in> set (sn_cases s). valid_as f g c" using p by (simp add: check_set_with_def valid_as_def)
  show "normalise_candidate (sn_candidate s) = sn_candidate s" "trim (sn_scenario_set_id s) = sn_scenario_set_id s"
    using n by (cases s, simp add: normalise_set_with_def)+
qed

lemma canonical_probes_ok:
  assumes "valid_as normalise_scorer check_scorer scorer"
  shows "map trim (canonical_probes scorer ps) = canonical_probes scorer ps" "texts (canonical_probes scorer ps)"
    "distinct (canonical_probes scorer ps)" "set (canonical_probes scorer ps) \<subseteq> set (sf_calibration_probe_ids scorer)"
    "canonical_probes scorer (canonical_probes scorer ps) = canonical_probes scorer ps"
proof -
  have "map trim (sf_calibration_probe_ids scorer) = sf_calibration_probe_ids scorer"
    using assms by (cases scorer) (simp add: valid_as_def normalise_scorer_def)
  then have "\<forall>p \<in> set (sf_calibration_probe_ids scorer). trim p = p" by (simp add: map_eq_conv [of trim _ id, simplified])
  then show "map trim (canonical_probes scorer ps) = canonical_probes scorer ps"
    by (intro map_idI) (simp add: canonical_probes_def)
  have "texts (sf_calibration_probe_ids scorer)" "distinct (sf_calibration_probe_ids scorer)"
    using assms by (simp_all add: valid_as_def check_scorer_def calibration_matches_policy_def Let_def)
  then show "texts (canonical_probes scorer ps)" "distinct (canonical_probes scorer ps)"
    by (simp_all add: texts_iff canonical_probes_def)
  show "set (canonical_probes scorer ps) \<subseteq> set (sf_calibration_probe_ids scorer)"
    "canonical_probes scorer (canonical_probes scorer ps) = canonical_probes scorer ps"
    by (auto simp: canonical_probes_def cong: filter_cong)
qed

lemma map_valid: "\<forall>x \<in> set xs. valid_as f g x \<Longrightarrow> map f xs = xs \<and> (\<forall>x \<in> set xs. passes (g x))"
  by (auto simp: valid_as_def intro: map_idI)

lemma blocked_evaluation_ok:
  assumes s: "valid_as (normalise_set_with f) (check_set_with g) s" and scorer: "valid_as normalise_scorer check_scorer scorer"
    and b: "blocker_valid b" and results: "\<forall>k \<in> set results. valid_as normalise_case_result check_case_result k" "results_bound s results"
    and probes: "probes = canonical_probes scorer ps"
    and mismatch: "sf_candidate scorer \<noteq> sn_candidate s \<Longrightarrow> rb_code b = ''scorer_candidate_mismatch''"
  shows "\<exists>r. blocked_evaluation s scorer b results probes = Inr r \<and> valid_as normalise_evaluation check_evaluation r
    \<and> ev_status r = EvalBlocked \<and> ev_blocker r = Some b \<and> ev_case_results r = results"
proof -
  let ?r = "\<lparr>ev_receipt_id = evaluation_receipt_id s scorer results EvalBlocked (Some b) probes,
        ev_candidate = sn_candidate s, ev_scenario_set_id = sn_scenario_set_id s, ev_scorer = scorer,
        ev_status = EvalBlocked, ev_score = None, ev_case_results = results,
        ev_completed_calibration_probe_ids = probes, ev_blocker = Some b\<rparr>"
  note parts = set_identity [OF s] canonical_probes_ok [OF scorer, of ps] map_valid [OF results(1)]
  have "normalise_evaluation ?r = ?r"
    using parts b scorer by (simp add: normalise_evaluation_def normalise_evaluation_with_def probes trim_identifier
        evaluation_id valid_as_def)
  moreover have "passes (check_evaluation_fields check_case_result ?r)"
    using parts b scorer by (simp add: check_evaluation_fields_def probes evaluation_id valid_as_def)
  moreover have "passes (receipt_is_candidate_bound ?r)"
    using parts results(2) mismatch
    by (auto simp: receipt_is_candidate_bound_def Let_def probes scorer_mismatch_blocked_def unbound_results_def)
  ultimately have "valid_as normalise_evaluation check_evaluation ?r" by (simp add: valid_as_def check_evaluation_def)
  then show ?thesis by (intro exI [of _ ?r]) (simp add: blocked_evaluation_def validate_fixpoint)
qed

lemma completed_evaluation_ok:
  assumes s: "valid_as (normalise_set_with f) (check_set_with g) s" and scorer: "valid_as normalise_scorer check_scorer scorer"
    and results: "\<forall>k \<in> set results. valid_as normalise_case_result check_case_result k" "results_bound s results"
      "results \<noteq> []" "\<forall>k \<in> set results. kr_status k \<noteq> EvalBlocked"
    and probes: "probes = canonical_probes scorer ps"
      "sf_calibration_required scorer \<Longrightarrow> set probes = set (sf_calibration_probe_ids scorer)"
    and bound: "sf_candidate scorer = sn_candidate s" "sf_scorer_type scorer = DeterministicScorer"
  shows "\<exists>r. completed_evaluation s scorer results probes = Inr r \<and> valid_as normalise_evaluation check_evaluation r
    \<and> ev_status r = threshold_status (pass_ratio results) scorer \<and> ev_score r = Some (pass_ratio results)
    \<and> ev_case_results r = results"
proof -
  let ?status = "threshold_status (pass_ratio results) scorer"
  let ?r = "\<lparr>ev_receipt_id = evaluation_receipt_id s scorer results ?status None probes,
        ev_candidate = sn_candidate s, ev_scenario_set_id = sn_scenario_set_id s, ev_scorer = scorer,
        ev_status = ?status, ev_score = Some (pass_ratio results), ev_case_results = results,
        ev_completed_calibration_probe_ids = probes, ev_blocker = None\<rparr>"
  note parts = set_identity [OF s] canonical_probes_ok [OF scorer, of ps] map_valid [OF results(1)]
  have open_status: "?status \<noteq> EvalBlocked" by (simp add: threshold_status_def)
  have "normalise_evaluation ?r = ?r"
    using parts scorer by (simp add: normalise_evaluation_def normalise_evaluation_with_def probes(1) trim_identifier
        evaluation_id valid_as_def)
  moreover have "passes (check_evaluation_fields check_case_result ?r)"
    using parts scorer pass_ratio_unit [OF results(3)]
    by (simp add: check_evaluation_fields_def probes(1) evaluation_id valid_as_def)
  moreover have "passes (receipt_is_candidate_bound ?r)"
    using parts results(2-4) bound open_status probes
    by (auto simp: receipt_is_candidate_bound_def Let_def unbound_results_def)
  ultimately have "valid_as normalise_evaluation check_evaluation ?r" by (simp add: valid_as_def check_evaluation_def)
  then show ?thesis
    by (intro exI [of _ ?r]) (simp add: completed_evaluation_def Let_def validate_fixpoint)
qed

section \<open>Blockers\<close>

definition text_ok :: "string \<Rightarrow> string \<Rightarrow> bool" where
  "text_ok c m = (is_blocker_code c \<and> trim c = c \<and> trim m = m \<and> m \<noteq> [])"

lemma evaluation_blocker_ok:
  assumes "text_ok c m" "portables refs"
  shows "evaluation_blocker c m refs = Inr \<lparr>rb_code = c, rb_message = m, rb_evidence_refs = refs\<rparr>
    \<and> blocker_valid \<lparr>rb_code = c, rb_message = m, rb_evidence_refs = refs\<rparr>"
proof -
  have "blocker_valid \<lparr>rb_code = c, rb_message = m, rb_evidence_refs = refs\<rparr>"
    using assms by (simp add: valid_as_def text_ok_def normalise_blocker_def check_blocker_def)
  then show ?thesis by (simp add: evaluation_blocker_def validate_fixpoint)
qed

lemma input_blocks_texts: "\<forall>(b, c, m, p) \<in> set (input_blocks s observations scorer probes). text_ok c m"
  by (simp add: input_blocks_def Let_def) (intro conjI; code_simp)

lemma scenario_blocked_text:
  "text_ok ''scenario_blocked'' ''one or more scenarios could not be evaluated deterministically''"
  by code_simp

lemma unsupported_oracle_text: "o' \<noteq> ExpectedSignal \<Longrightarrow> text_ok ''unsupported_oracle''
    (''scenario-set/v1 does not define deterministic '' @ oracle_name o' @ '' expectations'')"
proof -
  have "text_ok ''unsupported_oracle'' (''scenario-set/v1 does not define deterministic '' @ oracle_name ExactMatch @ '' expectations'')"
    "text_ok ''unsupported_oracle'' (''scenario-set/v1 does not define deterministic '' @ oracle_name StructuredOracle @ '' expectations'')"
    by code_simp+
  then show "o' \<noteq> ExpectedSignal \<Longrightarrow> ?thesis" by (cases o') auto
qed

lemma input_blocks_probes:
  "\<forall>(b, c, m, p) \<in> set (input_blocks s observations scorer probes). \<exists>ps. p = canonical_probes scorer ps"
proof -
  have "canonical_probes scorer [] = []" by (simp add: canonical_probes_def)
  then have "\<exists>ps. [] = canonical_probes scorer ps" by metis
  then show ?thesis by (simp add: input_blocks_def Let_def) blast
qed

lemma block_with_ok:
  assumes s: "valid_as (normalise_set_with f) (check_set_with g) s" and scorer: "valid_as normalise_scorer check_scorer scorer"
    and results: "\<forall>k \<in> set results. valid_as normalise_case_result check_case_result k" "results_bound s results"
    and probes: "probes = canonical_probes scorer ps" and "text_ok c m"
    and mismatch: "sf_candidate scorer \<noteq> sn_candidate s \<Longrightarrow> c = ''scorer_candidate_mismatch''"
  shows "\<exists>r. block_with s scorer c m results probes = Inr r \<and> valid_as normalise_evaluation check_evaluation r
    \<and> ev_status r = EvalBlocked \<and> map_option rb_code (ev_blocker r) = Some c \<and> ev_case_results r = results"
proof -
  let ?b = "\<lparr>rb_code = c, rb_message = m, rb_evidence_refs = []\<rparr>"
  have b: "evaluation_blocker c m [] = Inr ?b" "blocker_valid ?b"
    using evaluation_blocker_ok [OF assms(6), of "[]"] by (simp_all add: portables_iff)
  from blocked_evaluation_ok [OF s scorer b(2) results probes] mismatch
  show ?thesis by (auto simp: block_with_def b(1))
qed

section \<open>Deciding a case\<close>

text \<open>The specification: what an observation says of a case.\<close>

definition decidable_case :: "ScenarioCase \<Rightarrow> ScenarioObservation \<Rightarrow> bool" where
  "decidable_case c ob = (so_status ob = ObservationCompleted \<and> sc_oracle c = ExpectedSignal)"

definition case_passes :: "'a ScenarioCase_scheme \<Rightarrow> 'b ScenarioObservation_scheme \<Rightarrow> bool" where
  "case_passes c ob =
     (set (sc_expected_signals c) \<subseteq> set (so_observed_signals ob)
      \<and> set (so_observed_commands ob) \<inter> set (sc_forbidden_commands c) = {})"

lemma no_findings_iff: "missing_signals c ob = [] \<and> forbidden_observed c ob = [] \<longleftrightarrow> case_passes c ob"
  by (auto simp: missing_signals_def forbidden_observed_def case_passes_def filter_empty_conv)

lemma observation_parts:
  assumes "valid_as normalise_observation check ob" "\<And>x. passes (check x) \<Longrightarrow> passes (check_observation_fields x)"
  shows "normalise_candidate (so_candidate ob) = so_candidate ob" "trim (so_scenario_set_id ob) = so_scenario_set_id ob"
    "map trim (so_observed_signals ob) = so_observed_signals ob" "map trim (so_observed_commands ob) = so_observed_commands ob"
    "map_option trim (so_output_sha256 ob) = so_output_sha256 ob" "trim (so_runner_id ob) = so_runner_id ob"
    "trim (so_runner_version_or_digest ob) = so_runner_version_or_digest ob"
    "map_option normalise_blocker (so_blocker ob) = so_blocker ob" "passes (check_observation_fields ob)"
proof -
  have n: "normalise_observation ob = ob" using assms(1) by (simp add: valid_as_def)
  show "normalise_candidate (so_candidate ob) = so_candidate ob" "trim (so_scenario_set_id ob) = so_scenario_set_id ob"
    "map trim (so_observed_signals ob) = so_observed_signals ob" "map trim (so_observed_commands ob) = so_observed_commands ob"
    "map_option trim (so_output_sha256 ob) = so_output_sha256 ob" "trim (so_runner_id ob) = so_runner_id ob"
    "trim (so_runner_version_or_digest ob) = so_runner_version_or_digest ob"
    "map_option normalise_blocker (so_blocker ob) = so_blocker ob"
    using n by (cases ob, simp add: normalise_observation_def)+
  show "passes (check_observation_fields ob)" using assms by (simp add: valid_as_def)
qed

lemma case_parts:
  assumes "valid_as normalise_case check_case c"
  shows "trim (sc_case_id c) = sc_case_id c" "sc_case_id c \<noteq> []" "map trim (sc_expected_signals c) = sc_expected_signals c"
    "texts (sc_expected_signals c)"
  using assms by (cases c, simp add: valid_as_def normalise_case_def check_case_def)+

lemma map_trim_filter: "map trim xs = xs \<Longrightarrow> map trim [x \<leftarrow> xs. P x] = [x \<leftarrow> xs. P x]"
  by (rule map_idI) (metis filter_is_subset in_set_conv_nth length_map nth_map subsetD)

lemma blocked_result_ok:
  assumes c: "valid_as normalise_case check_case c" and ob: "valid_as normalise_observation check_observation ob"
    and b: "blocker_valid b"
  shows "valid_as normalise_case_result check_case_result (blocked_result c ob b)"
proof -
  note parts = case_parts [OF c] observation_parts [OF ob]
  have f: "passes (check_observation_fields ob)" using ob by (simp add: valid_as_def check_observation_def)
  have "normalise_case_result (blocked_result c ob b) = blocked_result c ob b"
    using parts b by (simp add: normalise_case_result_def blocked_result_def valid_as_def check_observation_def)
  moreover have "passes (check_case_result (blocked_result c ob b))"
    using parts(1-4) f b
    by (simp add: check_case_result_def check_case_result_fields_def check_observation_fields_def
        status_matches_findings_def blocked_result_def valid_as_def texts_iff)
  ultimately show ?thesis by (simp add: valid_as_def)
qed

lemma decided_result_ok:
  assumes c: "valid_as normalise_case check_case c" and ob: "valid_as normalise_observation check_observation ob"
    and "so_status ob = ObservationCompleted"
  shows "valid_as normalise_case_result check_case_result (decided_result c ob)"
proof -
  note parts = case_parts [OF c] observation_parts [OF ob]
  have f: "passes (check_observation_fields ob)" and sha: "so_output_sha256 ob \<noteq> None"
    using ob assms(3) by (simp_all add: valid_as_def check_observation_def)
  have "map trim (missing_signals c ob) = missing_signals c ob" "map trim (forbidden_observed c ob) = forbidden_observed c ob"
    using parts(3) observation_parts(4) [OF ob] map_trim_filter
    by (simp_all add: missing_signals_def forbidden_observed_def check_observation_def)
  then have "normalise_case_result (decided_result c ob) = decided_result c ob"
    using parts by (simp add: normalise_case_result_def decided_result_def check_observation_def Let_def)
  moreover have "passes (check_case_result (decided_result c ob))"
    using parts(1-4) f sha
    by (simp add: check_case_result_def check_case_result_fields_def check_observation_fields_def
        status_matches_findings_def decided_result_def texts_iff Let_def missing_signals_def forbidden_observed_def)
  ultimately show ?thesis by (simp add: valid_as_def)
qed

lemma evaluate_case_ok:
  assumes c: "valid_as normalise_case check_case c" and ob: "valid_as normalise_observation check_observation ob"
  shows "\<exists>k. evaluate_case c ob = Inr k \<and> valid_as normalise_case_result check_case_result k
    \<and> kr_case_id k = sc_case_id c \<and> kr_candidate k = so_candidate ob \<and> kr_scenario_set_id k = so_scenario_set_id ob
    \<and> (kr_status k = EvalBlocked \<longleftrightarrow> \<not> decidable_case c ob)
    \<and> (kr_status k = EvalPass \<longleftrightarrow> decidable_case c ob \<and> case_passes c ob)"
proof (cases "so_status ob")
  case ObservationBlocked
  then obtain b where b: "so_blocker ob = Some b" using ob by (auto simp: valid_as_def check_observation_def)
  have "blocker_valid b"
    using observation_parts(8) [OF ob] ob b by (simp add: valid_as_def check_observation_def check_observation_fields_def)
  from blocked_result_ok [OF c ob this] ObservationBlocked b show ?thesis
    by (simp add: evaluate_case_def validate_fixpoint decidable_case_def) (simp add: blocked_result_def)
next
  case ObservationCompleted
  have refs: "portables (so_evidence_refs ob)" and sha: "so_output_sha256 ob \<noteq> None"
    using ob ObservationCompleted
    by (simp_all add: valid_as_def check_observation_def check_observation_fields_def unique_portables_iff portables_iff)
  show ?thesis
  proof (cases "sc_oracle c = ExpectedSignal")
    case True
    from decided_result_ok [OF c ob ObservationCompleted] True ObservationCompleted sha no_findings_iff [of c ob] show ?thesis
      by (auto simp: evaluate_case_def validate_fixpoint decidable_case_def Let_def) (auto simp: decided_result_def Let_def)
  next
    case False
    note b = evaluation_blocker_ok [OF unsupported_oracle_text [OF False] refs]
    from blocked_result_ok [OF c ob conjunct2 [OF b]] False ObservationCompleted b show ?thesis
      by (simp add: evaluate_case_def validate_fixpoint decidable_case_def Let_def) (simp add: blocked_result_def)
  qed
qed

section \<open>Deciding a set\<close>

definition inputs_agree ::
  "'a ScenarioCase_scheme ScenarioSet \<Rightarrow> 'b ScenarioObservation_scheme list \<Rightarrow> ScorerProfile \<Rightarrow> string option list \<Rightarrow> bool" where
  "inputs_agree s observations scorer probes =
     (sf_candidate scorer = sn_candidate s \<and> sf_scorer_type scorer = DeterministicScorer
      \<and> (\<forall>p \<in> set probes. \<exists>t. p = Some t \<and> strip t \<noteq> []) \<and> distinct probes
      \<and> the ` set probes \<subseteq> set (sf_calibration_probe_ids scorer)
      \<and> (sf_calibration_required scorer \<longrightarrow> the ` set probes = set (sf_calibration_probe_ids scorer))
      \<and> distinct (map so_case_id observations)
      \<and> set (map so_case_id observations) = set (map sc_case_id (sn_cases s))
      \<and> (\<forall>ob \<in> set observations. so_candidate ob = sn_candidate s \<and> so_scenario_set_id ob = sn_scenario_set_id s))"

lemma find_fst_None: "List.find fst xs = None \<longleftrightarrow> (\<forall>x \<in> set xs. \<not> fst x)"
  by (auto simp: find_None_iff)

lemma input_blocks_None:
  "List.find fst (input_blocks s observations scorer probes) = None \<longleftrightarrow> inputs_agree s observations scorer probes"
proof -
  have "\<not> invalid_probe p \<longleftrightarrow> (\<exists>t. p = Some t \<and> strip t \<noteq> [])" for p by (cases p) (simp_all add: invalid_probe_def)
  then have probe: "invalid_probe p \<longleftrightarrow> \<not> (\<exists>t. p = Some t \<and> strip t \<noteq> [])" for p by blast
  show ?thesis
    unfolding find_fst_None input_blocks_def Let_def inputs_agree_def
    by (simp add: probe unbound_observation_def)
qed

lemma input_blocks_Some:
  assumes "List.find fst (input_blocks s observations scorer probes) = Some (b, c, m, p)"
  shows "text_ok c m" "\<exists>ps. p = canonical_probes scorer ps"
    "sf_candidate scorer \<noteq> sn_candidate s \<Longrightarrow> c = ''scorer_candidate_mismatch''"
proof -
  have "(b, c, m, p) \<in> set (input_blocks s observations scorer probes)" using assms by (auto simp: find_Some_iff)
  then show "text_ok c m" "\<exists>ps. p = canonical_probes scorer ps"
    using input_blocks_texts [of s observations scorer probes] input_blocks_probes [of s observations scorer probes] by fast+
  show "sf_candidate scorer \<noteq> sn_candidate s \<Longrightarrow> c = ''scorer_candidate_mismatch''"
    using assms by (simp add: input_blocks_def Let_def)
qed

lemma observation_for_ok:
  assumes "sc_case_id c \<in> so_case_id ` set observations"
  shows "\<exists>ob \<in> set observations. observation_for observations c = Some ob \<and> so_case_id ob = sc_case_id c"
proof -
  let ?m = "rev (map (\<lambda>ob. (so_case_id ob, ob)) observations)"
  have "sc_case_id c \<in> fst ` set ?m" using assms by force
  then obtain ob where ob: "map_of ?m (sc_case_id c) = Some ob" by (metis map_of_eq_None_iff not_None_eq)
  then have "(sc_case_id c, ob) \<in> set ?m" by (rule map_of_SomeD)
  then show ?thesis using ob by (auto simp: observation_for_def)
qed

abbreviation observed :: "'b ScenarioObservation_scheme list \<Rightarrow> 'a ScenarioCase_scheme \<Rightarrow> 'b ScenarioObservation_scheme" where
  "observed observations c \<equiv> the (observation_for observations c)"

definition evaluable_set ::
  "ScenarioCase ScenarioSet \<Rightarrow> ScenarioObservation list \<Rightarrow> ScorerProfile \<Rightarrow> string option list \<Rightarrow> bool" where
  "evaluable_set s observations scorer probes =
     (inputs_agree s observations scorer probes
      \<and> (\<forall>c \<in> set (sn_cases s). decidable_case c (observed observations c)))"

definition passing_cases :: "'a ScenarioCase_scheme ScenarioSet \<Rightarrow> 'b ScenarioObservation_scheme list \<Rightarrow> 'a ScenarioCase_scheme list" where
  "passing_cases s observations = [c \<leftarrow> sn_cases s. case_passes c (observed observations c)]"

definition set_score :: "'a ScenarioCase_scheme ScenarioSet \<Rightarrow> 'b ScenarioObservation_scheme list \<Rightarrow> rat" where
  "set_score s observations =
     true_division (int (length (passing_cases s observations))) (int (length (sn_cases s)))"

lemma evaluate_cases_ok:
  assumes cases: "\<forall>c \<in> set cs. valid_as normalise_case check_case c"
    and obs: "\<forall>ob \<in> set observations. valid_as normalise_observation check_observation ob"
    and known: "sc_case_id ` set cs \<subseteq> so_case_id ` set observations"
    and bound: "\<forall>ob \<in> set observations. so_candidate ob = cand \<and> so_scenario_set_id ob = sid"
  shows "\<exists>ks. evaluate_cases cs observations = Inr ks \<and> map kr_case_id ks = map sc_case_id cs
    \<and> (\<forall>k \<in> set ks. valid_as normalise_case_result check_case_result k \<and> kr_candidate k = cand \<and> kr_scenario_set_id k = sid)
    \<and> map (\<lambda>k. kr_status k = EvalBlocked) ks = map (\<lambda>c. \<not> decidable_case c (observed observations c)) cs
    \<and> map (\<lambda>k. kr_status k = EvalPass) ks
      = map (\<lambda>c. decidable_case c (observed observations c) \<and> case_passes c (observed observations c)) cs"
  using cases known
proof (induction cs)
  case Nil
  then show ?case by (simp add: evaluate_cases_def)
next
  case (Cons c cs)
  then obtain ks where ks: "evaluate_cases cs observations = Inr ks" "map kr_case_id ks = map sc_case_id cs"
    "\<forall>k \<in> set ks. valid_as normalise_case_result check_case_result k \<and> kr_candidate k = cand \<and> kr_scenario_set_id k = sid"
    "map (\<lambda>k. kr_status k = EvalBlocked) ks = map (\<lambda>c. \<not> decidable_case c (observed observations c)) cs"
    "map (\<lambda>k. kr_status k = EvalPass) ks
      = map (\<lambda>c. decidable_case c (observed observations c) \<and> case_passes c (observed observations c)) cs" by auto
  obtain ob where ob: "ob \<in> set observations" "observation_for observations c = Some ob"
    using observation_for_ok [of c observations] Cons.prems(2) by auto
  obtain k where k: "evaluate_case c ob = Inr k" "valid_as normalise_case_result check_case_result k"
    "kr_case_id k = sc_case_id c" "kr_candidate k = so_candidate ob" "kr_scenario_set_id k = so_scenario_set_id ob"
    "kr_status k = EvalBlocked \<longleftrightarrow> \<not> decidable_case c ob" "kr_status k = EvalPass \<longleftrightarrow> decidable_case c ob \<and> case_passes c ob"
    using evaluate_case_ok [of c ob] Cons.prems(1) obs ob(1) by auto
  have "evaluate_cases (c # cs) observations = Inr (k # ks)"
    using ks(1) k(1) ob(2) by (simp add: evaluate_cases_def)
  then show ?case using ks(2-5) k(2-7) ob bound by (intro exI [of _ "k # ks"]) simp
qed

lemma length_filter_map: "map p ks = map q cs \<Longrightarrow> length [k \<leftarrow> ks. p k] = length [c \<leftarrow> cs. q c]"
  by (induction ks arbitrary: cs) (auto split: if_splits)

lemma ex_map: "map p ks = map q cs \<Longrightarrow> (\<exists>k \<in> set ks. p k) \<longleftrightarrow> (\<exists>c \<in> set cs. q c)"
proof -
  assume "map p ks = map q cs"
  then have "True \<in> set (map p ks) \<longleftrightarrow> True \<in> set (map q cs)" by simp
  then show ?thesis by (simp add: image_iff)
qed

lemma evaluate_ok:
  assumes s: "valid_as normalise_set check_set s" and scorer: "valid_as normalise_scorer check_scorer scorer"
    and obs: "\<forall>ob \<in> set observations. valid_as normalise_observation check_observation ob"
  shows "\<exists>r. evaluate_scenario_set s observations scorer probes = Inr r \<and> valid_as normalise_evaluation check_evaluation r
    \<and> (ev_status r = EvalBlocked \<longleftrightarrow> \<not> evaluable_set s observations scorer probes)
    \<and> (ev_status r \<noteq> EvalBlocked \<longrightarrow> ev_score r = Some (set_score s observations)
         \<and> ev_status r = threshold_status (set_score s observations) scorer
         \<and> map kr_case_id (ev_case_results r) = map sc_case_id (sn_cases s))"
proof (cases "List.find fst (input_blocks s observations scorer probes)")
  case (Some x)
  then obtain b c m p where x: "List.find fst (input_blocks s observations scorer probes) = Some (b, c, m, p)"
    by (cases x) auto
  then have "\<not> inputs_agree s observations scorer probes" using input_blocks_None by force
  moreover obtain ps where "p = canonical_probes scorer ps" using input_blocks_Some(2) [OF x] by blast
  from block_with_ok [OF s [unfolded normalise_set_def check_set_def] scorer _ _ this input_blocks_Some(1) [OF x]
      input_blocks_Some(3) [OF x], of "[]"]
  obtain r where "block_with s scorer c m [] p = Inr r" "valid_as normalise_evaluation check_evaluation r"
    "ev_status r = EvalBlocked" by auto
  ultimately show ?thesis by (simp add: evaluate_scenario_set_def x evaluable_set_def)
next
  case None
  then have agree: "inputs_agree s observations scorer probes" by (simp add: input_blocks_None)
  note sparts = set_identity [OF s [unfolded normalise_set_def check_set_def]]
  let ?done = "canonical_probes scorer (map the probes)"
  obtain ks where ks: "evaluate_cases (sn_cases s) observations = Inr ks" "map kr_case_id ks = map sc_case_id (sn_cases s)"
    "\<forall>k \<in> set ks. valid_as normalise_case_result check_case_result k \<and> kr_candidate k = sn_candidate s
       \<and> kr_scenario_set_id k = sn_scenario_set_id s"
    "map (\<lambda>k. kr_status k = EvalBlocked) ks = map (\<lambda>c. \<not> decidable_case c (observed observations c)) (sn_cases s)"
    "map (\<lambda>k. kr_status k = EvalPass) ks = map (\<lambda>c. decidable_case c (observed observations c)
       \<and> case_passes c (observed observations c)) (sn_cases s)"
    using evaluate_cases_ok [OF sparts(7) obs, of "sn_candidate s" "sn_scenario_set_id s"] agree
    by (auto simp: inputs_agree_def)
  have bound: "results_bound s ks" using ks(2,3) sparts(6) by simp
  have valid: "\<forall>k \<in> set ks. valid_as normalise_case_result check_case_result k" using ks(3) by blast
  have blocked: "(\<exists>k \<in> set ks. kr_status k = EvalBlocked) \<longleftrightarrow> \<not> evaluable_set s observations scorer probes"
    using ex_map [OF ks(4)] agree by (auto simp: evaluable_set_def)
  have run: "evaluate_scenario_set s observations scorer probes =
     (if \<exists>r \<in> set ks. kr_status r = EvalBlocked
      then block_with s scorer ''scenario_blocked'' ''one or more scenarios could not be evaluated deterministically'' ks ?done
      else completed_evaluation s scorer ks ?done)"
    using None ks(1) by (simp add: evaluate_scenario_set_def Let_def)
  show ?thesis
  proof (cases "evaluable_set s observations scorer probes")
    case False
    from block_with_ok [OF s [unfolded normalise_set_def check_set_def] scorer valid bound refl scenario_blocked_text] agree
    obtain r where "block_with s scorer ''scenario_blocked'' ''one or more scenarios could not be evaluated deterministically'' ks ?done = Inr r"
      "valid_as normalise_evaluation check_evaluation r" "ev_status r = EvalBlocked"
      unfolding inputs_agree_def by blast
    then show ?thesis using run blocked False by simp
  next
    case True
    then have "\<forall>c \<in> set (sn_cases s). decidable_case c (observed observations c)" by (simp add: evaluable_set_def)
    then have "length [k \<leftarrow> ks. kr_status k = EvalPass] = length (passing_cases s observations)"
      using length_filter_map [OF ks(5)] by (simp add: passing_cases_def cong: filter_cong)
    moreover have "length ks = length (sn_cases s)" using ks(2) by (metis length_map)
    ultimately have score: "pass_ratio ks = set_score s observations" by (simp add: pass_ratio_def set_score_def)
    have open_results: "\<forall>k \<in> set ks. kr_status k \<noteq> EvalBlocked" using blocked True by blast
    have "ks \<noteq> []" using ks(2) sparts(5) by auto
    moreover have "sf_calibration_required scorer \<Longrightarrow> set ?done = set (sf_calibration_probe_ids scorer)"
      using agree by (auto simp: inputs_agree_def canonical_probes_def)
    ultimately obtain r where "completed_evaluation s scorer ks ?done = Inr r" "valid_as normalise_evaluation check_evaluation r"
      "ev_status r = threshold_status (pass_ratio ks) scorer" "ev_score r = Some (pass_ratio ks)" "ev_case_results r = ks"
      using completed_evaluation_ok [OF s [unfolded normalise_set_def check_set_def] scorer valid bound _ open_results refl]
        agree by (auto simp: inputs_agree_def)
    then show ?thesis using run open_results True ks(2) by (auto simp: score threshold_status_def)
  qed
qed

end
