(* ===== verification/Evaluator_V2.thy ===== *)
theory Evaluator_V2
  imports Evaluator
begin

text \<open>
  The evaluation receipt of \<^verbatim>\<open>models/evaluation_v2.py\<close> and \<^verbatim>\<open>evaluation/deterministic_v2.py\<close>: the
  evaluator that binds every observation to one provider and decides exact matches by digest. The
  guards before the provider check are those of version 1 (\<open>input_blocks\<close>), word for word. The lemmas
  are the counterparts of \<open>Evaluator\<close>'s, and \<open>promotion\<close>: version 2 decides a version 1 evaluation the
  way version 1 does.
\<close>

section \<open>Receipts\<close>

record 'r EvaluationReceiptV2 = "'r EvaluationReceipt" +
  ev_provider :: "ProviderIdentity option"

definition normalise_evaluation_v2 ::
  "ScenarioCaseResultV2 EvaluationReceiptV2 \<Rightarrow> ScenarioCaseResultV2 EvaluationReceiptV2" where
  "normalise_evaluation_v2 = normalise_evaluation_with normalise_case_result_v2"

definition receipt_is_bound :: "ScenarioCaseResultV2 EvaluationReceiptV2 \<Rightarrow> (bool \<times> string) list" where
  "receipt_is_bound r =
     (let results = ev_case_results r; scorer = ev_scorer r; probes = ev_completed_calibration_probe_ids r;
          any_blocked = (\<exists>k \<in> set results. kr_status k = EvalBlocked)
      in [(sf_candidate scorer \<noteq> ev_candidate r \<and> \<not> scorer_mismatch_blocked r,
           ''evaluation receipt scorer must bind the same candidate''),
          (has_duplicates (map kr_case_id results), ''evaluation receipt case ids must be unique''),
          (unbound_results r, ''evaluation receipt results must bind the same candidate and scenario set''),
          (results \<noteq> [] \<and> ev_provider r = None, ''evaluation receipt with results must bind one provider''),
          (case ev_provider r of None \<Rightarrow> False | Some p \<Rightarrow> \<exists>k \<in> set results. kr_provider k \<noteq> p,
           ''evaluation receipt results must bind the same provider''),
          (has_duplicates probes \<or> \<not> set probes \<subseteq> set (sf_calibration_probe_ids scorer),
           ''completed calibration probes must be unique and declared''),
          (probes \<noteq> canonical_probes scorer probes, ''completed calibration probes must follow scorer profile order'')]
         @ (if ev_status r = EvalBlocked then
              [(ev_blocker r = None \<and> \<not> any_blocked, ''blocked evaluation receipt requires a blocker''),
               (ev_score r \<noteq> None, ''blocked evaluation receipt cannot claim a score'')]
            else
              [(ev_provider r = None \<or> ev_blocker r \<noteq> None \<or> any_blocked,
                ''completed evaluation receipt requires one provider and no blockers''),
               (ev_score r = None \<or> results = [] \<or> sf_scorer_type scorer \<noteq> DeterministicScorer,
                ''completed evaluation receipt requires deterministic results and score''),
               (sf_calibration_required scorer \<and> set probes \<noteq> set (sf_calibration_probe_ids scorer),
                ''completed calibration probes must match the scorer profile''),
               (ev_score r \<noteq> Some (pass_ratio results), ''evaluation receipt score must match the case-result pass ratio''),
               (case ev_score r of None \<Rightarrow> False | Some score \<Rightarrow> ev_status r \<noteq> threshold_status score scorer,
                ''evaluation receipt status must match the scorer threshold'')]))"

definition check_evaluation_v2 :: "ScenarioCaseResultV2 EvaluationReceiptV2 \<Rightarrow> (bool \<times> string) list" where
  "check_evaluation_v2 r =
     check_evaluation_fields check_case_result_v2 r @ opt_checks check_provider_identity_v2 (ev_provider r)
     @ receipt_is_bound r"

section \<open>The evaluator\<close>

definition evaluation_payload_v2 ::
  "'c ScenarioSet \<Rightarrow> ScorerProfile \<Rightarrow> ProviderIdentity option \<Rightarrow> ScenarioCaseResultV2 list \<Rightarrow> EvaluationStatus
     \<Rightarrow> PackageReceiptBlocker option \<Rightarrow> string list \<Rightarrow> json" where
  "evaluation_payload_v2 s scorer provider results status blocker probes =
     JObj [(''schema_version'', JStr ''evaluation-receipt/v2''), (''candidate'', candidate_json (sn_candidate s)),
           (''scenario_set_id'', JStr (sn_scenario_set_id s)), (''provider'', opt_json provider_v2_json provider),
           (''scorer'', scorer_json scorer), (''status'', JStr (evaluation_status_name status)),
           (''case_results'', arr case_result_v2_json results), (''blocker'', opt_json package_blocker_json blocker),
           (''completed_calibration_probe_ids'', strs probes)]"

definition evaluation_receipt_id_v2 ::
  "'c ScenarioSet \<Rightarrow> ScorerProfile \<Rightarrow> ProviderIdentity option \<Rightarrow> ScenarioCaseResultV2 list \<Rightarrow> EvaluationStatus
     \<Rightarrow> PackageReceiptBlocker option \<Rightarrow> string list \<Rightarrow> string" where
  "evaluation_receipt_id_v2 s scorer provider results status blocker probes =
     ''eval-v2-'' @ take 24 (canonical_json_sha256 (evaluation_payload_v2 s scorer provider results status blocker probes))"

definition blocked_evaluation_v2 ::
  "'c ScenarioSet \<Rightarrow> ScorerProfile \<Rightarrow> PackageReceiptBlocker \<Rightarrow> ProviderIdentity option \<Rightarrow> ScenarioCaseResultV2 list
     \<Rightarrow> string list \<Rightarrow> ScenarioCaseResultV2 EvaluationReceiptV2 result" where
  "blocked_evaluation_v2 s scorer blocker provider results probes =
     validate_model normalise_evaluation_v2 check_evaluation_v2
       \<lparr>ev_receipt_id = evaluation_receipt_id_v2 s scorer provider results EvalBlocked (Some blocker) probes,
        ev_candidate = sn_candidate s, ev_scenario_set_id = sn_scenario_set_id s, ev_scorer = scorer,
        ev_status = EvalBlocked, ev_score = None, ev_case_results = results,
        ev_completed_calibration_probe_ids = probes, ev_blocker = Some blocker, ev_provider = provider\<rparr>"

definition block_with_v2 ::
  "'c ScenarioSet \<Rightarrow> ScorerProfile \<Rightarrow> string \<Rightarrow> string \<Rightarrow> ProviderIdentity option \<Rightarrow> ScenarioCaseResultV2 list
     \<Rightarrow> string list \<Rightarrow> ScenarioCaseResultV2 EvaluationReceiptV2 result" where
  "block_with_v2 s scorer blocker_code message provider results probes =
     and_then (evaluation_blocker blocker_code message []) (\<lambda>b. blocked_evaluation_v2 s scorer b provider results probes)"

definition blocked_result_v2 ::
  "ScenarioCaseV2 \<Rightarrow> ScenarioObservationV2 \<Rightarrow> PackageReceiptBlocker option \<Rightarrow> ScenarioCaseResultV2" where
  "blocked_result_v2 c ob blocker =
     \<lparr>kr_candidate = so_candidate ob, kr_scenario_set_id = so_scenario_set_id ob, kr_case_id = sc_case_id c,
      kr_status = EvalBlocked, kr_missing_signals = [], kr_forbidden_commands_observed = [],
      kr_evidence_refs = so_evidence_refs ob, kr_observation_sha256 = None, kr_runner_id = so_runner_id ob,
      kr_runner_version_or_digest = so_runner_version_or_digest ob, kr_blocker = blocker,
      kr_provider = so_provider ob, kr_expected_output_sha256 = None, kr_output_digest_mismatch = False\<rparr>"

definition decided_result_v2 :: "ScenarioCaseV2 \<Rightarrow> ScenarioObservationV2 \<Rightarrow> ScenarioCaseResultV2" where
  "decided_result_v2 c ob =
     (let missing = (if sc_oracle c = ExpectedSignal then missing_signals c ob else []);
          forbidden = forbidden_observed c ob;
          mismatch = (sc_oracle c = ExactMatch \<and> so_output_sha256 ob \<noteq> sc_expected_output_sha256 c)
      in \<lparr>kr_candidate = so_candidate ob, kr_scenario_set_id = so_scenario_set_id ob, kr_case_id = sc_case_id c,
          kr_status = (if missing \<noteq> [] \<or> forbidden \<noteq> [] \<or> mismatch then EvalFail else EvalPass),
          kr_missing_signals = missing, kr_forbidden_commands_observed = forbidden,
          kr_evidence_refs = so_evidence_refs ob, kr_observation_sha256 = so_output_sha256 ob,
          kr_runner_id = so_runner_id ob, kr_runner_version_or_digest = so_runner_version_or_digest ob,
          kr_blocker = None, kr_provider = so_provider ob,
          kr_expected_output_sha256 = sc_expected_output_sha256 c, kr_output_digest_mismatch = mismatch\<rparr>)"

definition evaluate_case_v2 :: "ScenarioCaseV2 \<Rightarrow> ScenarioObservationV2 \<Rightarrow> ScenarioCaseResultV2 result" where
  "evaluate_case_v2 c ob =
     (let make = validate_model normalise_case_result_v2 check_case_result_v2;
          block = (\<lambda>blocker_code message. and_then (evaluation_blocker blocker_code message (so_evidence_refs ob))
                     (\<lambda>b. make (blocked_result_v2 c ob (Some b))))
      in if so_status ob = ObservationBlocked then make (blocked_result_v2 c ob (so_blocker ob))
         else if sc_oracle c = StructuredOracle
         then block ''unsupported_oracle'' ''scenario-set/v2 does not define deterministic structured expectations''
         else if sc_oracle c = ExactMatch \<and> sc_expected_output_sha256 c = None
         then block ''exact_match_digest_required'' ''exact_match evaluation requires expected_output_sha256''
         else if so_output_sha256 ob = None then Inl (ValueErr ''completed observation must contain output_sha256'')
         else make (decided_result_v2 c ob))"

definition evaluate_cases_v2 ::
  "ScenarioCaseV2 list \<Rightarrow> ScenarioObservationV2 list \<Rightarrow> ScenarioCaseResultV2 list result" where
  "evaluate_cases_v2 cases observations =
     map_result (\<lambda>c. case observation_for observations c of
         None \<Rightarrow> Inl (KeyErr (sc_case_id c))
       | Some ob \<Rightarrow> evaluate_case_v2 c ob) cases"

definition completed_evaluation_v2 ::
  "'c ScenarioSet \<Rightarrow> ScorerProfile \<Rightarrow> ProviderIdentity \<Rightarrow> ScenarioCaseResultV2 list \<Rightarrow> string list
     \<Rightarrow> ScenarioCaseResultV2 EvaluationReceiptV2 result" where
  "completed_evaluation_v2 s scorer provider results completed =
     (let score = pass_ratio results; status = threshold_status score scorer in
      validate_model normalise_evaluation_v2 check_evaluation_v2
        \<lparr>ev_receipt_id = evaluation_receipt_id_v2 s scorer (Some provider) results status None completed,
         ev_candidate = sn_candidate s, ev_scenario_set_id = sn_scenario_set_id s, ev_scorer = scorer,
         ev_status = status, ev_score = Some score, ev_case_results = results,
         ev_completed_calibration_probe_ids = completed, ev_blocker = None, ev_provider = Some provider\<rparr>)"

text \<open>The distinct dumps of the observations' providers: equal dumps are dumps of equal identities.\<close>

definition provider_identities :: "ScenarioObservationV2 list \<Rightarrow> json set" where
  "provider_identities observations = set (map (\<lambda>ob. provider_v2_json (so_provider ob)) observations)"

definition evaluate_scenario_set_v2 ::
  "ScenarioCaseV2 ScenarioSet \<Rightarrow> ScenarioObservationV2 list \<Rightarrow> ScorerProfile \<Rightarrow> string option list
     \<Rightarrow> ScenarioCaseResultV2 EvaluationReceiptV2 result" where
  "evaluate_scenario_set_v2 s observations scorer probes =
     (case List.find fst (input_blocks s observations scorer probes) of
        Some (_, blocker_code, message, completed) \<Rightarrow> block_with_v2 s scorer blocker_code message None [] completed
      | None \<Rightarrow>
          (let completed = canonical_probes scorer (map the probes) in
           if card (provider_identities observations) \<noteq> 1
           then block_with_v2 s scorer ''provider_identity_mismatch'' ''observations must bind exactly one provider''
                  None [] completed
           else let provider = so_provider (hd observations) in
             and_then (evaluate_cases_v2 (sn_cases s) observations) (\<lambda>results.
               if \<exists>r \<in> set results. kr_status r = EvalBlocked
               then block_with_v2 s scorer ''scenario_blocked''
                      ''one or more scenarios could not be evaluated deterministically'' (Some provider) results completed
               else completed_evaluation_v2 s scorer provider results completed)))"

section \<open>The models as instances of the interface\<close>

lemma normalise_case_v2_idem [simp]: "normalise_case_v2 (normalise_case_v2 c) = normalise_case_v2 c"
  by (simp add: normalise_case_v2_def normalise_case_def map_option_idem)

lemma normalise_case_result_v2_idem [simp]:
  "normalise_case_result_v2 (normalise_case_result_v2 r) = normalise_case_result_v2 r"
  by (simp add: normalise_case_result_v2_def normalise_case_result_def map_option_idem)

interpretation set_v2_model: contract_model normalise_set_v2 check_set_v2
  by unfold_locales (simp add: normalise_set_v2_def normalise_set_with_idem)

interpretation observation_v2_model: contract_model normalise_observation check_observation_v2
  by unfold_locales simp

interpretation case_result_v2_model: contract_model normalise_case_result_v2 check_case_result_v2
  by unfold_locales simp

interpretation evaluation_v2_model: contract_model normalise_evaluation_v2 check_evaluation_v2
  by unfold_locales (simp add: normalise_evaluation_v2_def normalise_evaluation_with_idem)

section \<open>Building receipts\<close>

lemma evaluation_id_v2: "is_identifier (evaluation_receipt_id_v2 s scorer provider results status blocker probes)"
proof -
  have "is_identifier ''eval-v2''" by code_simp
  from identifier_digest [OF this] show ?thesis by (simp add: evaluation_receipt_id_v2_def)
qed

abbreviation valid_results_v2 :: "'c ScenarioSet \<Rightarrow> ProviderIdentity option \<Rightarrow> ScenarioCaseResultV2 list \<Rightarrow> bool" where
  "valid_results_v2 s provider results \<equiv>
     (\<forall>k \<in> set results. valid_as normalise_case_result_v2 check_case_result_v2 k \<and> provider = Some (kr_provider k))
     \<and> results_bound s results"

lemma block_with_v2_ok:
  assumes s: "valid_as (normalise_set_with f) (check_set_with g) s" and scorer: "valid_as normalise_scorer check_scorer scorer"
    and results: "valid_results_v2 s provider results" "opt_ok (\<lambda>p. passes (check_provider_identity_v2 p)) provider"
    and probes: "probes = canonical_probes scorer ps" and text_ok: "text_ok c m"
    and mismatch: "sf_candidate scorer \<noteq> sn_candidate s \<Longrightarrow> c = ''scorer_candidate_mismatch''"
  shows "\<exists>r. block_with_v2 s scorer c m provider results probes = Inr r
    \<and> valid_as normalise_evaluation_v2 check_evaluation_v2 r
    \<and> ev_status r = EvalBlocked \<and> map_option rb_code (ev_blocker r) = Some c \<and> ev_case_results r = results
    \<and> ev_score r = None"
proof -
  let ?b = "\<lparr>rb_code = c, rb_message = m, rb_evidence_refs = []\<rparr>"
  have b: "evaluation_blocker c m [] = Inr ?b" "blocker_valid ?b"
    using evaluation_blocker_ok [OF text_ok, of "[]"] by (simp_all add: portables_iff)
  let ?r = "\<lparr>ev_receipt_id = evaluation_receipt_id_v2 s scorer provider results EvalBlocked (Some ?b) probes,
        ev_candidate = sn_candidate s, ev_scenario_set_id = sn_scenario_set_id s, ev_scorer = scorer,
        ev_status = EvalBlocked, ev_score = None, ev_case_results = results,
        ev_completed_calibration_probe_ids = probes, ev_blocker = Some ?b, ev_provider = provider\<rparr>"
  have "\<forall>k \<in> set results. valid_as normalise_case_result_v2 check_case_result_v2 k" using results(1) by blast
  note parts = set_identity [OF s] canonical_probes_ok [OF scorer, of ps] map_valid [OF this]
  have "normalise_evaluation_v2 ?r = ?r"
    using parts b(2) scorer by (simp add: normalise_evaluation_v2_def normalise_evaluation_with_def probes trim_identifier
        evaluation_id_v2 valid_as_def)
  moreover have "passes (check_evaluation_fields check_case_result_v2 ?r)"
    using parts b(2) scorer by (simp add: check_evaluation_fields_def probes evaluation_id_v2 valid_as_def)
  moreover have "passes (opt_checks check_provider_identity_v2 (ev_provider ?r))" using results(2) by (cases provider) simp_all
  moreover have "passes (receipt_is_bound ?r)"
    using parts results(1) mismatch
    by (cases provider) (auto simp: receipt_is_bound_def Let_def probes scorer_mismatch_blocked_def unbound_results_def)
  ultimately have "valid_as normalise_evaluation_v2 check_evaluation_v2 ?r" by (simp add: valid_as_def check_evaluation_v2_def)
  then show ?thesis by (intro exI [of _ ?r]) (simp add: block_with_v2_def blocked_evaluation_v2_def validate_fixpoint b(1))
qed

lemma completed_evaluation_v2_ok:
  assumes s: "valid_as (normalise_set_with f) (check_set_with g) s" and scorer: "valid_as normalise_scorer check_scorer scorer"
    and results: "valid_results_v2 s (Some provider) results" "results \<noteq> []" "\<forall>k \<in> set results. kr_status k \<noteq> EvalBlocked"
      "passes (check_provider_identity_v2 provider)"
    and probes: "probes = canonical_probes scorer ps"
      "sf_calibration_required scorer \<Longrightarrow> set probes = set (sf_calibration_probe_ids scorer)"
    and bound: "sf_candidate scorer = sn_candidate s" "sf_scorer_type scorer = DeterministicScorer"
  shows "\<exists>r. completed_evaluation_v2 s scorer provider results probes = Inr r
    \<and> valid_as normalise_evaluation_v2 check_evaluation_v2 r
    \<and> ev_status r = threshold_status (pass_ratio results) scorer \<and> ev_score r = Some (pass_ratio results)
    \<and> ev_case_results r = results \<and> ev_provider r = Some provider"
proof -
  let ?status = "threshold_status (pass_ratio results) scorer"
  let ?r = "\<lparr>ev_receipt_id = evaluation_receipt_id_v2 s scorer (Some provider) results ?status None probes,
        ev_candidate = sn_candidate s, ev_scenario_set_id = sn_scenario_set_id s, ev_scorer = scorer,
        ev_status = ?status, ev_score = Some (pass_ratio results), ev_case_results = results,
        ev_completed_calibration_probe_ids = probes, ev_blocker = None, ev_provider = Some provider\<rparr>"
  have "\<forall>k \<in> set results. valid_as normalise_case_result_v2 check_case_result_v2 k" using results(1) by blast
  note parts = set_identity [OF s] canonical_probes_ok [OF scorer, of ps] map_valid [OF this]
  have open_status: "?status \<noteq> EvalBlocked" by (simp add: threshold_status_def)
  have "normalise_evaluation_v2 ?r = ?r"
    using parts scorer by (simp add: normalise_evaluation_v2_def normalise_evaluation_with_def probes(1) trim_identifier
        evaluation_id_v2 valid_as_def)
  moreover have "passes (check_evaluation_fields check_case_result_v2 ?r)"
    using parts scorer pass_ratio_unit [OF results(2)]
    by (simp add: check_evaluation_fields_def probes(1) evaluation_id_v2 valid_as_def)
  moreover have "passes (receipt_is_bound ?r)"
    using parts results(1-3) bound open_status probes
    by (auto simp: receipt_is_bound_def Let_def unbound_results_def)
  ultimately have "valid_as normalise_evaluation_v2 check_evaluation_v2 ?r"
    using results(4) by (simp add: valid_as_def check_evaluation_v2_def)
  then show ?thesis
    by (intro exI [of _ ?r]) (simp add: completed_evaluation_v2_def Let_def validate_fixpoint)
qed

section \<open>Deciding a case\<close>

definition decidable_case_v2 :: "ScenarioCaseV2 \<Rightarrow> ScenarioObservationV2 \<Rightarrow> bool" where
  "decidable_case_v2 c ob =
     (so_status ob = ObservationCompleted
      \<and> (sc_oracle c = ExpectedSignal \<or> sc_oracle c = ExactMatch \<and> sc_expected_output_sha256 c \<noteq> None))"

definition case_passes_v2 :: "ScenarioCaseV2 \<Rightarrow> ScenarioObservationV2 \<Rightarrow> bool" where
  "case_passes_v2 c ob =
     (set (so_observed_commands ob) \<inter> set (sc_forbidden_commands c) = {}
      \<and> (if sc_oracle c = ExactMatch then so_output_sha256 ob = sc_expected_output_sha256 c
          else set (sc_expected_signals c) \<subseteq> set (so_observed_signals ob)))"

lemma case_parts_v2:
  assumes "valid_as normalise_case_v2 check_case_v2 c"
  shows "valid_as normalise_case check_case c" "map_option trim (sc_expected_output_sha256 c) = sc_expected_output_sha256 c"
    "opt_ok is_sha256 (sc_expected_output_sha256 c)" "sc_oracle c \<noteq> ExactMatch \<Longrightarrow> sc_expected_output_sha256 c = None"
proof -
  have n: "normalise_case_v2 c = c" and p: "passes (check_case_v2 c)" using assms by (simp_all add: valid_as_def)
  have "normalise_case c = c" using n by (cases c) (simp add: normalise_case_v2_def normalise_case_def)
  then show "valid_as normalise_case check_case c" using p by (simp add: valid_as_def check_case_v2_def)
  show "map_option trim (sc_expected_output_sha256 c) = sc_expected_output_sha256 c"
    using n by (cases c) (simp add: normalise_case_v2_def normalise_case_def)
  show "opt_ok is_sha256 (sc_expected_output_sha256 c)" "sc_oracle c \<noteq> ExactMatch \<Longrightarrow> sc_expected_output_sha256 c = None"
    using p by (simp_all add: check_case_v2_def)
qed

lemma blocked_result_v2_ok:
  assumes c: "valid_as normalise_case_v2 check_case_v2 c" and ob: "valid_as normalise_observation check_observation_v2 ob"
    and b: "blocker_valid b"
  shows "valid_as normalise_case_result_v2 check_case_result_v2 (blocked_result_v2 c ob (Some b))"
proof -
  note parts = case_parts [OF case_parts_v2(1) [OF c]] observation_parts [OF ob]
  have f: "passes (check_observation_fields ob)" "passes (check_provider_identity_v2 (so_provider ob))"
    using ob by (simp_all add: valid_as_def check_observation_v2_def)
  have "normalise_case_result_v2 (blocked_result_v2 c ob (Some b)) = blocked_result_v2 c ob (Some b)"
    using parts b by (simp add: normalise_case_result_v2_def normalise_case_result_def blocked_result_v2_def valid_as_def
        check_observation_v2_def)
  moreover have "passes (check_case_result_v2 (blocked_result_v2 c ob (Some b)))"
    using parts(1-4) f b
    by (simp add: check_case_result_v2_def check_case_result_fields_def check_observation_fields_def
        status_matches_findings_v2_def blocked_result_v2_def valid_as_def texts_iff)
  ultimately show ?thesis by (simp add: valid_as_def)
qed

lemma decided_result_v2_ok:
  assumes c: "valid_as normalise_case_v2 check_case_v2 c" and ob: "valid_as normalise_observation check_observation_v2 ob"
    and dec: "decidable_case_v2 c ob"
  shows "valid_as normalise_case_result_v2 check_case_result_v2 (decided_result_v2 c ob)"
proof -
  note parts = case_parts [OF case_parts_v2(1) [OF c]] case_parts_v2(2-4) [OF c] observation_parts [OF ob]
  have f: "passes (check_observation_fields ob)" "passes (check_provider_identity_v2 (so_provider ob))"
    and sha: "so_output_sha256 ob \<noteq> None"
    using ob dec by (simp_all add: valid_as_def check_observation_v2_def decidable_case_v2_def)
  have "map trim (missing_signals c ob) = missing_signals c ob" "map trim (forbidden_observed c ob) = forbidden_observed c ob"
    using parts(3) observation_parts(4) [OF ob] map_trim_filter
    by (simp_all add: missing_signals_def forbidden_observed_def check_observation_v2_def)
  then have "normalise_case_result_v2 (decided_result_v2 c ob) = decided_result_v2 c ob"
    using parts by (simp add: normalise_case_result_v2_def normalise_case_result_def decided_result_v2_def
        check_observation_v2_def Let_def)
  moreover have "passes (check_case_result_v2 (decided_result_v2 c ob))"
    using parts(1-7) f sha dec
    by (auto simp: check_case_result_v2_def check_case_result_fields_def check_observation_fields_def decidable_case_v2_def
        status_matches_findings_v2_def decided_result_v2_def texts_iff Let_def missing_signals_def forbidden_observed_def)
  ultimately show ?thesis by (simp add: valid_as_def)
qed

lemma v2_texts:
  "text_ok ''unsupported_oracle'' ''scenario-set/v2 does not define deterministic structured expectations''"
  "text_ok ''exact_match_digest_required'' ''exact_match evaluation requires expected_output_sha256''"
  "text_ok ''provider_identity_mismatch'' ''observations must bind exactly one provider''"
  by code_simp+

lemma evaluate_case_v2_ok:
  assumes c: "valid_as normalise_case_v2 check_case_v2 c" and ob: "valid_as normalise_observation check_observation_v2 ob"
  shows "\<exists>k. evaluate_case_v2 c ob = Inr k \<and> valid_as normalise_case_result_v2 check_case_result_v2 k
    \<and> kr_case_id k = sc_case_id c \<and> kr_candidate k = so_candidate ob \<and> kr_scenario_set_id k = so_scenario_set_id ob
    \<and> kr_provider k = so_provider ob
    \<and> (kr_status k = EvalBlocked \<longleftrightarrow> \<not> decidable_case_v2 c ob)
    \<and> (kr_status k = EvalPass \<longleftrightarrow> decidable_case_v2 c ob \<and> case_passes_v2 c ob)"
proof (cases "decidable_case_v2 c ob")
  case True
  have sha: "so_output_sha256 ob \<noteq> None" "so_status ob \<noteq> ObservationBlocked"
    using ob True by (auto simp: valid_as_def check_observation_v2_def decidable_case_v2_def)
  then have "evaluate_case_v2 c ob = Inr (decided_result_v2 c ob)"
    using True decided_result_v2_ok [OF c ob True] by (auto simp: evaluate_case_v2_def validate_fixpoint decidable_case_v2_def)
  moreover have "kr_status (decided_result_v2 c ob) = EvalPass \<longleftrightarrow> case_passes_v2 c ob"
    using True by (auto simp: decided_result_v2_def Let_def case_passes_v2_def decidable_case_v2_def missing_signals_def
        forbidden_observed_def filter_empty_conv)
  ultimately show ?thesis using True decided_result_v2_ok [OF c ob True]
    by (intro exI [of _ "decided_result_v2 c ob"]) (simp add: decided_result_v2_def Let_def)
next
  case False
  have refs: "portables (so_evidence_refs ob)"
    using ob by (simp add: valid_as_def check_observation_v2_def check_observation_fields_def unique_portables_iff portables_iff)
  have "\<exists>b. blocker_valid b \<and> evaluate_case_v2 c ob = Inr (blocked_result_v2 c ob (Some b))"
  proof (cases "so_status ob")
    case ObservationBlocked
    then obtain b where b: "so_blocker ob = Some b" using ob by (auto simp: valid_as_def check_observation_v2_def)
    have "blocker_valid b"
      using observation_parts(8) [OF ob] ob b by (simp add: valid_as_def check_observation_v2_def check_observation_fields_def)
    then show ?thesis using ObservationBlocked b blocked_result_v2_ok [OF c ob]
      by (intro exI [of _ b]) (simp add: evaluate_case_v2_def validate_fixpoint)
  next
    case ObservationCompleted
    note b = evaluation_blocker_ok [OF v2_texts(1) refs] evaluation_blocker_ok [OF v2_texts(2) refs]
    have "sc_oracle c = StructuredOracle \<or> sc_oracle c = ExactMatch \<and> sc_expected_output_sha256 c = None"
      using False ObservationCompleted by (cases "sc_oracle c") (auto simp: decidable_case_v2_def)
    then show ?thesis
    proof (elim disjE)
      assume "sc_oracle c = StructuredOracle"
      then show ?thesis using ObservationCompleted b(1) blocked_result_v2_ok [OF c ob conjunct2 [OF b(1)]]
        by (intro exI) (auto simp: evaluate_case_v2_def validate_fixpoint)
    next
      assume "sc_oracle c = ExactMatch \<and> sc_expected_output_sha256 c = None"
      then show ?thesis using ObservationCompleted b(2) blocked_result_v2_ok [OF c ob conjunct2 [OF b(2)]]
        by (intro exI) (auto simp: evaluate_case_v2_def validate_fixpoint)
    qed
  qed
  then obtain b where "blocker_valid b" "evaluate_case_v2 c ob = Inr (blocked_result_v2 c ob (Some b))" by blast
  then show ?thesis using False blocked_result_v2_ok [OF c ob]
    by (intro exI [of _ "blocked_result_v2 c ob (Some b)"]) (simp add: blocked_result_v2_def)
qed

section \<open>Deciding a set\<close>

definition one_provider :: "ScenarioObservationV2 list \<Rightarrow> bool" where
  "one_provider observations = (\<exists>p. so_provider ` set observations = {p})"

definition evaluable_set_v2 ::
  "ScenarioCaseV2 ScenarioSet \<Rightarrow> ScenarioObservationV2 list \<Rightarrow> ScorerProfile \<Rightarrow> string option list \<Rightarrow> bool" where
  "evaluable_set_v2 s observations scorer probes =
     (inputs_agree s observations scorer probes \<and> one_provider observations
      \<and> (\<forall>c \<in> set (sn_cases s). decidable_case_v2 c (observed observations c)))"

definition set_score_v2 :: "ScenarioCaseV2 ScenarioSet \<Rightarrow> ScenarioObservationV2 list \<Rightarrow> rat" where
  "set_score_v2 s observations =
     true_division (int (length [c \<leftarrow> sn_cases s. case_passes_v2 c (observed observations c)])) (int (length (sn_cases s)))"

lemma provider_json_inject: "provider_v2_json p = provider_v2_json q \<longleftrightarrow> p = q"
proof -
  have "provider_kind_name a = provider_kind_name b \<longleftrightarrow> a = b" for a b by (cases a; cases b) simp_all
  then show ?thesis by (cases p; cases q) (auto simp: provider_v2_json_def provider_identity_json_def)
qed

lemma provider_identities_card: "card (provider_identities observations) = 1 \<longleftrightarrow> one_provider observations"
proof -
  have "card (provider_identities observations) = card (so_provider ` set observations)"
    by (simp add: provider_identities_def image_image [symmetric, of provider_v2_json so_provider] card_image inj_on_def
        provider_json_inject)
  then show ?thesis by (simp add: one_provider_def card_1_singleton_iff)
qed

lemma evaluate_cases_v2_ok:
  assumes cases: "\<forall>c \<in> set cs. valid_as normalise_case_v2 check_case_v2 c"
    and obs: "\<forall>ob \<in> set observations. valid_as normalise_observation check_observation_v2 ob"
    and known: "sc_case_id ` set cs \<subseteq> so_case_id ` set observations"
    and bound: "\<forall>ob \<in> set observations. so_candidate ob = cand \<and> so_scenario_set_id ob = sid \<and> so_provider ob = p"
  shows "\<exists>ks. evaluate_cases_v2 cs observations = Inr ks \<and> map kr_case_id ks = map sc_case_id cs
    \<and> (\<forall>k \<in> set ks. valid_as normalise_case_result_v2 check_case_result_v2 k \<and> kr_candidate k = cand
         \<and> kr_scenario_set_id k = sid \<and> kr_provider k = p)
    \<and> map (\<lambda>k. kr_status k = EvalBlocked) ks = map (\<lambda>c. \<not> decidable_case_v2 c (observed observations c)) cs
    \<and> map (\<lambda>k. kr_status k = EvalPass) ks
      = map (\<lambda>c. decidable_case_v2 c (observed observations c) \<and> case_passes_v2 c (observed observations c)) cs"
  using cases known
proof (induction cs)
  case Nil
  then show ?case by (simp add: evaluate_cases_v2_def)
next
  case (Cons c cs)
  then obtain ks where ks: "evaluate_cases_v2 cs observations = Inr ks" "map kr_case_id ks = map sc_case_id cs"
    "\<forall>k \<in> set ks. valid_as normalise_case_result_v2 check_case_result_v2 k \<and> kr_candidate k = cand
       \<and> kr_scenario_set_id k = sid \<and> kr_provider k = p"
    "map (\<lambda>k. kr_status k = EvalBlocked) ks = map (\<lambda>c. \<not> decidable_case_v2 c (observed observations c)) cs"
    "map (\<lambda>k. kr_status k = EvalPass) ks
      = map (\<lambda>c. decidable_case_v2 c (observed observations c) \<and> case_passes_v2 c (observed observations c)) cs" by auto
  obtain ob where ob: "ob \<in> set observations" "observation_for observations c = Some ob"
    using observation_for_ok [of c observations] Cons.prems(2) by auto
  obtain k where k: "evaluate_case_v2 c ob = Inr k" "valid_as normalise_case_result_v2 check_case_result_v2 k"
    "kr_case_id k = sc_case_id c" "kr_candidate k = so_candidate ob" "kr_scenario_set_id k = so_scenario_set_id ob"
    "kr_provider k = so_provider ob"
    "kr_status k = EvalBlocked \<longleftrightarrow> \<not> decidable_case_v2 c ob" "kr_status k = EvalPass \<longleftrightarrow> decidable_case_v2 c ob \<and> case_passes_v2 c ob"
    using evaluate_case_v2_ok [of c ob] Cons.prems(1) obs ob(1) by auto
  have "evaluate_cases_v2 (c # cs) observations = Inr (k # ks)"
    using ks(1) k(1) ob(2) by (simp add: evaluate_cases_v2_def)
  then show ?case using ks(2-5) k(2-8) ob bound by (intro exI [of _ "k # ks"]) simp
qed

abbreviation decided_as :: "ScenarioCaseV2 ScenarioSet \<Rightarrow> ScenarioObservationV2 list \<Rightarrow> ScorerProfile \<Rightarrow> bool
    \<Rightarrow> ScenarioCaseResultV2 EvaluationReceiptV2 result \<Rightarrow> bool" where
  "decided_as s observations scorer evaluable outcome \<equiv>
     (\<exists>r. outcome = Inr r \<and> valid_as normalise_evaluation_v2 check_evaluation_v2 r
       \<and> (ev_status r = EvalBlocked \<longleftrightarrow> \<not> evaluable)
       \<and> ev_score r = (if evaluable then Some (set_score_v2 s observations) else None)
       \<and> (evaluable \<longrightarrow> ev_status r = threshold_status (set_score_v2 s observations) scorer
            \<and> ev_provider r = Some (so_provider (hd observations))
            \<and> map kr_case_id (ev_case_results r) = map sc_case_id (sn_cases s)))"

lemma decide_cases_v2:
  assumes s: "valid_as normalise_set_v2 check_set_v2 s" and scorer: "valid_as normalise_scorer check_scorer scorer"
    and obs: "\<forall>ob \<in> set observations. valid_as normalise_observation check_observation_v2 ob"
    and agree: "inputs_agree s observations scorer probes" and one: "one_provider observations"
  shows "decided_as s observations scorer (evaluable_set_v2 s observations scorer probes)
    (and_then (evaluate_cases_v2 (sn_cases s) observations) (\<lambda>results.
       if \<exists>r \<in> set results. kr_status r = EvalBlocked
       then block_with_v2 s scorer ''scenario_blocked'' ''one or more scenarios could not be evaluated deterministically''
              (Some (so_provider (hd observations))) results (canonical_probes scorer (map the probes))
       else completed_evaluation_v2 s scorer (so_provider (hd observations)) results (canonical_probes scorer (map the probes))))"
proof -
  let ?p = "so_provider (hd observations)" and ?done = "canonical_probes scorer (map the probes)"
  note s' = s [unfolded normalise_set_v2_def check_set_v2_def]
  note sparts = set_identity [OF s']
  have ne: "observations \<noteq> []" using one by (auto simp: one_provider_def)
  have p: "\<forall>ob \<in> set observations. so_provider ob = ?p"
    using one hd_in_set [OF ne] unfolding one_provider_def by (metis image_eqI singletonD)
  have provider: "passes (check_provider_identity_v2 ?p)"
    using obs hd_in_set [OF ne] by (simp add: valid_as_def check_observation_v2_def)
  obtain ks where ks: "evaluate_cases_v2 (sn_cases s) observations = Inr ks" "map kr_case_id ks = map sc_case_id (sn_cases s)"
    "\<forall>k \<in> set ks. valid_as normalise_case_result_v2 check_case_result_v2 k \<and> kr_candidate k = sn_candidate s
       \<and> kr_scenario_set_id k = sn_scenario_set_id s \<and> kr_provider k = ?p"
    "map (\<lambda>k. kr_status k = EvalBlocked) ks = map (\<lambda>c. \<not> decidable_case_v2 c (observed observations c)) (sn_cases s)"
    "map (\<lambda>k. kr_status k = EvalPass) ks = map (\<lambda>c. decidable_case_v2 c (observed observations c)
       \<and> case_passes_v2 c (observed observations c)) (sn_cases s)"
    using evaluate_cases_v2_ok [OF sparts(7) obs, of "sn_candidate s" "sn_scenario_set_id s" ?p] agree p
    by (auto simp: inputs_agree_def)
  have valid: "valid_results_v2 s (Some ?p) ks" using ks(2,3) sparts(6) by simp
  have blocked: "(\<exists>k \<in> set ks. kr_status k = EvalBlocked) \<longleftrightarrow> \<not> evaluable_set_v2 s observations scorer probes"
    using ex_map [OF ks(4)] agree one by (auto simp: evaluable_set_v2_def)
  show ?thesis
  proof (cases "evaluable_set_v2 s observations scorer probes")
    case False
    have "opt_ok (\<lambda>p. passes (check_provider_identity_v2 p)) (Some ?p)" using provider by simp
    from block_with_v2_ok [OF s' scorer valid this refl scenario_blocked_text] agree False blocked ks(1)
    show ?thesis by (auto simp: inputs_agree_def)
  next
    case True
    then have "\<forall>c \<in> set (sn_cases s). decidable_case_v2 c (observed observations c)" by (simp add: evaluable_set_v2_def)
    then have "length [k \<leftarrow> ks. kr_status k = EvalPass]
        = length [c \<leftarrow> sn_cases s. case_passes_v2 c (observed observations c)]"
      using length_filter_map [OF ks(5)] by (simp cong: filter_cong)
    moreover have "length ks = length (sn_cases s)" using ks(2) by (metis length_map)
    ultimately have score: "pass_ratio ks = set_score_v2 s observations" by (simp add: pass_ratio_def set_score_v2_def)
    have open_results: "\<forall>k \<in> set ks. kr_status k \<noteq> EvalBlocked" using blocked True by blast
    have "ks \<noteq> []" using ks(2) sparts(5) by auto
    moreover have "sf_calibration_required scorer \<Longrightarrow> set ?done = set (sf_calibration_probe_ids scorer)"
      using agree by (auto simp: inputs_agree_def canonical_probes_def)
    ultimately obtain r where "completed_evaluation_v2 s scorer ?p ks ?done = Inr r"
      "valid_as normalise_evaluation_v2 check_evaluation_v2 r" "ev_status r = threshold_status (pass_ratio ks) scorer"
      "ev_score r = Some (pass_ratio ks)" "ev_case_results r = ks" "ev_provider r = Some ?p"
      using completed_evaluation_v2_ok [OF s' scorer valid _ open_results provider refl] agree
      by (auto simp: inputs_agree_def)
    then show ?thesis using open_results True ks(1,2) by (auto simp: score threshold_status_def)
  qed
qed

lemma evaluate_v2_ok:
  assumes s: "valid_as normalise_set_v2 check_set_v2 s" and scorer: "valid_as normalise_scorer check_scorer scorer"
    and obs: "\<forall>ob \<in> set observations. valid_as normalise_observation check_observation_v2 ob"
  shows "decided_as s observations scorer (evaluable_set_v2 s observations scorer probes)
    (evaluate_scenario_set_v2 s observations scorer probes)"
proof (cases "List.find fst (input_blocks s observations scorer probes)")
  case (Some x)
  then obtain b c m p where x: "List.find fst (input_blocks s observations scorer probes) = Some (b, c, m, p)"
    by (cases x) auto
  then have "\<not> evaluable_set_v2 s observations scorer probes" using input_blocks_None by (force simp: evaluable_set_v2_def)
  moreover obtain ps where "p = canonical_probes scorer ps" using input_blocks_Some(2) [OF x] by blast
  from block_with_v2_ok [where provider = None and results = "[]", OF s [unfolded normalise_set_v2_def check_set_v2_def]
      scorer _ _ this input_blocks_Some(1) [OF x] input_blocks_Some(3) [OF x]]
  obtain r where "block_with_v2 s scorer c m None [] p = Inr r" "valid_as normalise_evaluation_v2 check_evaluation_v2 r"
    "ev_status r = EvalBlocked" "ev_score r = None" by auto
  ultimately show ?thesis by (simp add: evaluate_scenario_set_v2_def x)
next
  case None
  then have agree: "inputs_agree s observations scorer probes" by (simp add: input_blocks_None)
  show ?thesis
  proof (cases "one_provider observations")
    case True
    then have "card (provider_identities observations) = 1" by (simp only: provider_identities_card)
    then show ?thesis using decide_cases_v2 [OF s scorer obs agree True] None
      by (simp add: evaluate_scenario_set_v2_def Let_def)
  next
    case False
    then have "card (provider_identities observations) \<noteq> 1" by (simp only: provider_identities_card not_False_eq_True)
    moreover have "\<not> evaluable_set_v2 s observations scorer probes" using False by (simp add: evaluable_set_v2_def)
    moreover have "sf_candidate scorer = sn_candidate s" using agree by (simp add: inputs_agree_def)
    with block_with_v2_ok [where provider = None and results = "[]", OF s [unfolded normalise_set_v2_def check_set_v2_def]
      scorer _ _ refl v2_texts(3)]
    obtain r where "block_with_v2 s scorer ''provider_identity_mismatch'' ''observations must bind exactly one provider''
        None [] (canonical_probes scorer (map the probes)) = Inr r" "valid_as normalise_evaluation_v2 check_evaluation_v2 r"
      "ev_status r = EvalBlocked" "ev_score r = None" by auto
    ultimately show ?thesis using None by (simp add: evaluate_scenario_set_v2_def Let_def)
  qed
qed

section \<open>Promotion\<close>

text \<open>A version 1 evaluation as one of version 2: no expected digest, one provider.\<close>

definition promote_case :: "ScenarioCase \<Rightarrow> ScenarioCaseV2" where
  "promote_case c = ScenarioCase.extend c (ScenarioCaseV2.fields None)"

definition promote_observation :: "ProviderIdentity \<Rightarrow> ScenarioObservation \<Rightarrow> ScenarioObservationV2" where
  "promote_observation p ob = ScenarioObservation.extend ob (ScenarioObservationV2.fields p)"

definition promote_set :: "ScenarioCase ScenarioSet \<Rightarrow> ScenarioCaseV2 ScenarioSet" where
  "promote_set s = \<lparr>sn_candidate = sn_candidate s, sn_scenario_set_id = sn_scenario_set_id s, sn_release = sn_release s,
     sn_cases = map promote_case (sn_cases s)\<rparr>"

lemma promote_sel [simp]:
  "sc_case_id (promote_case c) = sc_case_id c" "sc_category (promote_case c) = sc_category c"
  "sc_expected_signals (promote_case c) = sc_expected_signals c" "sc_oracle (promote_case c) = sc_oracle c"
  "sc_forbidden_commands (promote_case c) = sc_forbidden_commands c" "sc_expected_output_sha256 (promote_case c) = None"
  "so_case_id (promote_observation p ob) = so_case_id ob" "so_candidate (promote_observation p ob) = so_candidate ob"
  "so_scenario_set_id (promote_observation p ob) = so_scenario_set_id ob" "so_status (promote_observation p ob) = so_status ob"
  "so_observed_signals (promote_observation p ob) = so_observed_signals ob"
  "so_observed_commands (promote_observation p ob) = so_observed_commands ob" "so_provider (promote_observation p ob) = p"
  by (simp_all add: promote_case_def promote_observation_def ScenarioCase.defs ScenarioCaseV2.defs
      ScenarioObservation.defs ScenarioObservationV2.defs)

lemma normalise_promote:
  "normalise_case_v2 (promote_case c) = promote_case (normalise_case c)"
  "normalise_observation (promote_observation p ob) = promote_observation p (normalise_observation ob)"
  by (cases c, simp add: promote_case_def normalise_case_v2_def normalise_case_def ScenarioCase.defs ScenarioCaseV2.defs)
    (cases ob, simp add: promote_observation_def normalise_observation_def ScenarioObservation.defs ScenarioObservationV2.defs)

lemma check_promote:
  "passes (check_case_v2 (promote_case c)) \<longleftrightarrow> passes (check_case c)"
  "passes (check_observation_v2 (promote_observation p ob)) \<longleftrightarrow>
     passes (check_observation ob) \<and> passes (check_provider_identity_v2 p)"
proof -
  show "passes (check_case_v2 (promote_case c)) \<longleftrightarrow> passes (check_case c)"
    by (cases c) (simp add: check_case_v2_def check_case_def promote_case_def ScenarioCase.defs ScenarioCaseV2.defs)
  show "passes (check_observation_v2 (promote_observation p ob)) \<longleftrightarrow>
     passes (check_observation ob) \<and> passes (check_provider_identity_v2 p)"
    by (cases ob; cases "so_status ob") (auto simp: check_observation_v2_def check_observation_def check_observation_fields_def
        claims_output_def promote_observation_def ScenarioObservation.defs ScenarioObservationV2.defs)
qed

lemma valid_promote_set:
  assumes "valid_as normalise_set check_set s"
  shows "valid_as normalise_set_v2 check_set_v2 (promote_set s)"
proof -
  note parts = set_identity [OF assms [unfolded normalise_set_def check_set_def]]
  have "\<forall>c \<in> set (sn_cases s). normalise_case c = c \<and> passes (check_case c)" using parts(7) by (simp add: valid_as_def)
  then have cases: "map (normalise_case_v2 \<circ> promote_case) (sn_cases s) = map promote_case (sn_cases s)"
    "\<forall>c \<in> set (sn_cases s). passes (check_case_v2 (promote_case c))"
    by (simp_all add: normalise_promote check_promote)
  have "passes (case_ids_are_unique s)" using assms by (simp add: valid_as_def check_set_def check_set_with_def)
  then have "passes (case_ids_are_unique (promote_set s))"
    by (simp add: case_ids_are_unique_def promote_set_def comp_def)
  then show ?thesis using parts(1-5) cases
    by (simp add: valid_as_def normalise_set_v2_def check_set_v2_def normalise_set_with_def check_set_with_def)
      (simp add: promote_set_def)
qed

lemma observation_for_promote:
  "observation_for (map (promote_observation p) observations) (promote_case c)
     = map_option (promote_observation p) (observation_for observations c)"
proof -
  have "map_of (map (\<lambda>(k, v). (k, f v)) xs) k = map_option f (map_of xs k)" for f xs and k :: string
    by (induction xs) auto
  from this [of "promote_observation p" "rev (map (\<lambda>ob. (so_case_id ob, ob)) observations)" "sc_case_id c"]
  show ?thesis by (simp add: observation_for_def rev_map comp_def)
qed

lemma inputs_agree_promote:
  "inputs_agree (promote_set s) (map (promote_observation p) observations) scorer probes
     \<longleftrightarrow> inputs_agree s observations scorer probes"
  by (simp add: inputs_agree_def promote_set_def comp_def image_image)

lemma decide_promote:
  assumes "observation_for observations c = Some ob"
  shows "decidable_case_v2 (promote_case c) (observed (map (promote_observation p) observations) (promote_case c))
      \<longleftrightarrow> decidable_case c (observed observations c)"
    and "decidable_case c ob \<Longrightarrow> case_passes_v2 (promote_case c) (observed (map (promote_observation p) observations) (promote_case c))
      \<longleftrightarrow> case_passes c (observed observations c)"
  using assms by (auto simp: observation_for_promote decidable_case_v2_def decidable_case_def case_passes_v2_def case_passes_def)

lemma promotion:
  assumes s: "valid_as normalise_set check_set s" and scorer: "valid_as normalise_scorer check_scorer scorer"
    and obs: "\<forall>ob \<in> set observations. valid_as normalise_observation check_observation ob"
    and p: "passes (check_provider_identity_v2 p)"
  shows "\<exists>r r2. evaluate_scenario_set s observations scorer probes = Inr r
    \<and> evaluate_scenario_set_v2 (promote_set s) (map (promote_observation p) observations) scorer probes = Inr r2
    \<and> ev_status r2 = ev_status r \<and> ev_score r2 = ev_score r"
proof -
  let ?s = "promote_set s" and ?obs = "map (promote_observation p) observations"
  note sparts = set_identity [OF s [unfolded normalise_set_def check_set_def]]
  have agreed: "\<forall>c \<in> set (sn_cases s). \<exists>ob. observation_for observations c = Some ob" "one_provider ?obs"
    if "inputs_agree s observations scorer probes"
  proof -
    have ids: "so_case_id ` set observations = sc_case_id ` set (sn_cases s)" using that by (simp add: inputs_agree_def)
    then show "\<forall>c \<in> set (sn_cases s). \<exists>ob. observation_for observations c = Some ob"
      using observation_for_ok [of _ observations] by blast
    have "observations \<noteq> []" using ids sparts(5) by auto
    then have "so_provider ` set ?obs = {p}" by (cases observations) auto
    then show "one_provider ?obs" by (auto simp: one_provider_def)
  qed
  have cases: "sn_cases ?s = map promote_case (sn_cases s)" by (simp add: promote_set_def)
  have evaluable: "evaluable_set_v2 ?s ?obs scorer probes \<longleftrightarrow> evaluable_set s observations scorer probes"
  proof (cases "inputs_agree s observations scorer probes")
    case True
    have "decidable_case_v2 (promote_case c) (observed ?obs (promote_case c)) \<longleftrightarrow> decidable_case c (observed observations c)"
      if "c \<in> set (sn_cases s)" for c
      using agreed(1) [OF True] that decide_promote(1) [of observations c _ p] by blast
    then show ?thesis using True agreed(2) [OF True]
      by (simp add: evaluable_set_v2_def evaluable_set_def inputs_agree_promote cases)
  qed (simp add: evaluable_set_v2_def evaluable_set_def inputs_agree_promote)
  have score: "set_score_v2 ?s ?obs = set_score s observations" if e: "evaluable_set s observations scorer probes"
  proof -
    have "case_passes_v2 (promote_case c) (observed ?obs (promote_case c)) \<longleftrightarrow> case_passes c (observed observations c)"
      if c: "c \<in> set (sn_cases s)" for c
    proof -
      obtain ob where "observation_for observations c = Some ob" using agreed(1) e c by (auto simp: evaluable_set_def)
      with decide_promote(2) [OF this] e c show ?thesis by (auto simp: evaluable_set_def)
    qed
    then show ?thesis
      by (simp add: set_score_v2_def set_score_def passing_cases_def promote_set_def filter_map comp_def cong: filter_cong)
  qed
  have "\<forall>ob \<in> set ?obs. valid_as normalise_observation check_observation_v2 ob"
    using obs p by (auto simp: valid_as_def normalise_promote check_promote)
  from evaluate_v2_ok [OF valid_promote_set [OF s] scorer this, of probes]
  obtain r2 where r2: "evaluate_scenario_set_v2 ?s ?obs scorer probes = Inr r2"
    "ev_status r2 = EvalBlocked \<longleftrightarrow> \<not> evaluable_set s observations scorer probes"
    "ev_score r2 = (if evaluable_set s observations scorer probes then Some (set_score s observations) else None)"
    "evaluable_set s observations scorer probes \<longrightarrow> ev_status r2 = threshold_status (set_score s observations) scorer"
    using evaluable score by auto
  obtain r where r: "evaluate_scenario_set s observations scorer probes = Inr r"
    "valid_as normalise_evaluation check_evaluation r"
    "ev_status r = EvalBlocked \<longleftrightarrow> \<not> evaluable_set s observations scorer probes"
    "ev_status r \<noteq> EvalBlocked \<longrightarrow> ev_score r = Some (set_score s observations)
         \<and> ev_status r = threshold_status (set_score s observations) scorer"
    using evaluate_ok [OF s scorer obs, of probes] by blast
  have "ev_status r = EvalBlocked \<Longrightarrow> ev_score r = None"
    using r(2) by (simp add: valid_as_def check_evaluation_def receipt_is_candidate_bound_def Let_def)
  then show ?thesis using r r2 by auto
qed

end
