(* ===== verification/Demo_Evaluation.thy ===== *)
theory Demo_Evaluation
  imports Demo_Package Evaluator_V2
begin

text \<open>
  A concrete scenario set with one case, an observation that satisfies it, a deterministic scorer and
  a provider, for the witnesses of the evaluation properties.
\<close>

definition demo_case :: ScenarioCase where
  "demo_case = \<lparr>sc_case_id = ''greets'', sc_category = RegressionCase, sc_prompt = ''hello'',
     sc_expected_signals = [''hi''], sc_forbidden_commands = [''rm''], sc_oracle = ExpectedSignal\<rparr>"

definition demo_set :: "ScenarioCase ScenarioSet" where
  "demo_set = \<lparr>sn_candidate = demo_candidate, sn_scenario_set_id = ''basic'', sn_release = True, sn_cases = [demo_case]\<rparr>"

definition demo_scorer :: ScorerProfile where
  "demo_scorer = \<lparr>sf_candidate = demo_candidate, sf_scorer_id = ''exact'', sf_scorer_type = DeterministicScorer,
     sf_version_or_digest = ''v1'', sf_pass_threshold = 1 / 2, sf_deterministic_checks_first = True,
     sf_calibration_required = False, sf_calibration_probe_ids = []\<rparr>"

definition demo_observation :: ScenarioObservation where
  "demo_observation = \<lparr>so_candidate = demo_candidate, so_scenario_set_id = ''basic'', so_case_id = ''greets'',
     so_status = ObservationCompleted, so_observed_signals = [''hi''], so_observed_commands = [''ls''],
     so_evidence_refs = [''SKILL.md''], so_output_sha256 = Some (sha256 [1]), so_runner_id = ''runner'',
     so_runner_version_or_digest = ''v1'', so_blocker = None\<rparr>"

definition demo_model :: ProviderIdentity where
  "demo_model = \<lparr>pi_provider_id = ''acme'', pi_provider_kind = Llm, pi_model_id = ''acme/model'', pi_version_or_digest = ''v1'',
     pi_adapter_id = ''text'', pi_adapter_version_or_digest = ''v2''\<rparr>"

lemma demo_evaluation_texts:
  "trim ''greets'' = ''greets''" "trim ''hello'' = ''hello''" "trim ''hi'' = ''hi''" "trim ''rm'' = ''rm''"
  "trim ''ls'' = ''ls''" "trim ''basic'' = ''basic''" "trim ''exact'' = ''exact''" "trim ''v1'' = ''v1''"
  "trim ''runner'' = ''runner''"
  by code_simp+

lemma demo_model_ok: "passes (check_provider_identity_v2 demo_model)"
  by code_simp

lemma demo_set_valid: "validate_model normalise_set check_set demo_set = Inr demo_set"
proof -
  have "normalise_case demo_case = demo_case" "passes (check_case demo_case)"
    by (simp_all add: demo_case_def normalise_case_def check_case_def demo_evaluation_texts texts_iff)
  moreover have "passes (case_ids_are_unique demo_set)"
    by (simp add: case_ids_are_unique_def demo_set_def) (simp add: demo_case_def)
  ultimately have "normalise_set demo_set = demo_set" "passes (check_set demo_set)"
    using demo_candidate_ok
    by (simp_all add: normalise_set_def normalise_set_with_def check_set_def check_set_with_def)
      (simp_all add: demo_set_def demo_evaluation_texts)
  then show ?thesis by (simp add: set_model.fixpoint_iff)
qed

lemma demo_scorer_valid: "validate_model normalise_scorer check_scorer demo_scorer = Inr demo_scorer"
  using demo_candidate_ok
  by (simp add: scorer_model.fixpoint_iff normalise_scorer_def check_scorer_def calibration_matches_policy_def Let_def
      demo_scorer_def demo_evaluation_texts texts_iff)

lemma demo_observation_valid:
  "validate_model normalise_observation check_observation demo_observation = Inr demo_observation"
  using demo_candidate_ok demo_paths
  by (simp add: observation_model.fixpoint_iff normalise_observation_def check_observation_def check_observation_fields_def
      demo_observation_def demo_evaluation_texts texts_iff unique_portables_iff sha256_is_sha256 trim_sha256)

lemma demo_observed: "observation_for [demo_observation] demo_case = Some demo_observation"
  by (simp add: observation_for_def demo_observation_def demo_case_def)

lemma demo_evaluable: "evaluable_set demo_set [demo_observation] demo_scorer []"
proof -
  have "decidable_case demo_case demo_observation" by (simp add: decidable_case_def demo_case_def demo_observation_def)
  then show ?thesis
    by (simp add: evaluable_set_def demo_set_def demo_observed)
      (simp add: inputs_agree_def demo_scorer_def demo_observation_def demo_case_def)
qed

lemma demo_score: "set_score demo_set [demo_observation] = 1"
proof -
  have "case_passes demo_case demo_observation" by (simp add: case_passes_def demo_case_def demo_observation_def)
  then have "passing_cases demo_set [demo_observation] = [demo_case]"
    by (simp add: passing_cases_def demo_set_def demo_observed)
  then show ?thesis by (simp add: set_score_def true_division_def demo_set_def)
qed

end
