(* ===== verification/Risk.thy ===== *)
theory Risk
  imports Packaging
begin

text \<open>
  \<^verbatim>\<open>models/risk.py\<close>: risk sensors and their classification, security findings and the screening result
  that static analysis of a package makes. Sensor identifiers that carry surrounding white space are
  refused before stripping, so they have no normalisation. The lemmas say what a valid
  classification guarantees of its required sensors and what a screening status says of the findings.
\<close>

section \<open>Sensors and classification\<close>

datatype SensorPlacement =
  SourceSensor | SchemaSensor | StaticSensor | RuntimeAdapterSensor | ExternalAdapterSensor | PreviewSensor

datatype CostLevel = CostLow | CostMedium | CostHigh

datatype BlockingBehavior = BlockBehavior | WarnBehavior | AdvisoryBehavior | SkipOptionalBehavior

datatype SensorStatus = SensorSelected | AvailableNotRun | SkippedOptional | SensorBlocked

record RiskSensor =
  rk_id :: string
  rk_placement :: SensorPlacement
  rk_required :: bool
  rk_cost :: CostLevel
  rk_blocking_behavior :: BlockingBehavior
  rk_status :: SensorStatus
  rk_receipt_required :: bool

definition check_sensor :: "RiskSensor \<Rightarrow> (bool \<times> string) list" where
  "check_sensor s =
     [(rk_id s \<noteq> strip (rk_id s), ''sensor ids must already be normalized'')]
     @ field ''id'' (nonempty_text (rk_id s))"

datatype SourceKind = DocsOnly | Referenced | Scripted | ExternalKind | Placeholder

datatype RiskTier = TierLow | TierMedium | TierHigh | TierPrivileged | TierPublished

datatype RiskLevel = LevelLow | LevelMedium | LevelHigh | LevelUnknown

record RiskClassification =
  rl_candidate :: PackageCandidateIdentity
  rl_source_kind :: SourceKind
  rl_risk_tier :: RiskTier
  rl_probability :: RiskLevel
  rl_impact :: RiskLevel
  rl_detectability :: RiskLevel
  rl_cost :: CostLevel
  rl_blocking_behavior :: BlockingBehavior
  rl_receipt_required :: bool
  rl_sensor_ids :: "string list"
  rl_sensors :: "RiskSensor list"
  rl_acceptance_trace :: "string list"

definition normalise_classification :: "RiskClassification \<Rightarrow> RiskClassification" where
  "normalise_classification c = c\<lparr>
     rl_candidate := normalise_candidate (rl_candidate c), rl_acceptance_trace := map trim (rl_acceptance_trace c)\<rparr>"

definition normalized_sensor_ids :: "string list \<Rightarrow> (bool \<times> string) list" where
  "normalized_sensor_ids ids =
     [(\<exists>i \<in> set ids. i \<noteq> strip i, ''sensor ids must already be normalized'')]
     @ field ''sensor_ids'' (ids \<noteq> [] \<and> texts ids)"

definition unrun :: "RiskSensor \<Rightarrow> bool" where
  "unrun s = (rk_status s \<in> {AvailableNotRun, SkippedOptional} \<or> rk_blocking_behavior s = SkipOptionalBehavior)"

definition sensors_cover_classification :: "RiskClassification \<Rightarrow> (bool \<times> string) list" where
  "sensors_cover_classification c =
     (let ids = map rk_id (rl_sensors c) in
      [(has_duplicates ids, ''risk sensor ids must be unique''),
       (has_duplicates (rl_sensor_ids c), ''sensor_ids must be unique''),
       (set (rl_sensor_ids c) \<noteq> set ids, ''sensor_ids must match the declared sensors''),
       (\<exists>s \<in> set (rl_sensors c). rk_required s \<and> unrun s, ''required sensors cannot be skipped or left unrun''),
       (\<not> rl_receipt_required c \<and> (\<exists>s \<in> set (rl_sensors c). rk_status s = SensorSelected \<and> rk_receipt_required s),
        ''selected sensors requiring receipts need a classification receipt''),
       (rl_risk_tier c \<in> {TierHigh, TierPrivileged, TierPublished} \<and> \<not> rl_receipt_required c,
        ''elevated risk tiers require a receipt'')])"

definition check_classification :: "RiskClassification \<Rightarrow> (bool \<times> string) list" where
  "check_classification c =
     check_candidate (rl_candidate c)
     @ normalized_sensor_ids (rl_sensor_ids c)
     @ field ''sensors'' (rl_sensors c \<noteq> []) @ each check_sensor (rl_sensors c)
     @ field ''acceptance_trace'' (rl_acceptance_trace c \<noteq> [] \<and> texts (rl_acceptance_trace c))
     @ sensors_cover_classification c"

section \<open>Security screening\<close>

datatype SecurityCategory =
  SecretFinding | UnsafePathFinding | ExternalServiceFinding | LicenseFinding | McpAuthFinding | DependencyFinding

fun security_category_name :: "SecurityCategory \<Rightarrow> string" where
  "security_category_name SecretFinding = ''secret''"
| "security_category_name UnsafePathFinding = ''unsafe_path''"
| "security_category_name ExternalServiceFinding = ''external_service''"
| "security_category_name LicenseFinding = ''license''"
| "security_category_name McpAuthFinding = ''mcp_auth''"
| "security_category_name DependencyFinding = ''dependency''"

datatype Severity = SeverityInfo | SeverityWarning | SeverityBlocker

fun severity_name :: "Severity \<Rightarrow> string" where
  "severity_name SeverityInfo = ''info''"
| "severity_name SeverityWarning = ''warning''"
| "severity_name SeverityBlocker = ''blocker''"

record SecurityFinding =
  sg_code :: string
  sg_category :: SecurityCategory
  sg_severity :: Severity
  sg_message :: string
  sg_evidence_refs :: "string list"

definition normalise_security_finding :: "SecurityFinding \<Rightarrow> SecurityFinding" where
  "normalise_security_finding f = f\<lparr>sg_code := trim (sg_code f), sg_message := trim (sg_message f)\<rparr>"

definition check_security_finding :: "SecurityFinding \<Rightarrow> (bool \<times> string) list" where
  "check_security_finding f =
     field ''code'' (nonempty_text (sg_code f))
     @ field ''message'' (nonempty_text (sg_message f))
     @ field ''evidence_refs'' (sg_evidence_refs f \<noteq> [] \<and> portables (sg_evidence_refs f))"

definition security_finding_json :: "SecurityFinding \<Rightarrow> json" where
  "security_finding_json f =
     JObj [(''code'', JStr (sg_code f)), (''category'', JStr (security_category_name (sg_category f))),
           (''severity'', JStr (severity_name (sg_severity f))), (''message'', JStr (sg_message f)),
           (''evidence_refs'', strs (sg_evidence_refs f))]"

datatype ScreeningStatus = ScreenPass | ScreenNeedsReview | ScreenBlocked

fun screening_status_name :: "ScreeningStatus \<Rightarrow> string" where
  "screening_status_name ScreenPass = ''pass''"
| "screening_status_name ScreenNeedsReview = ''needs_review''"
| "screening_status_name ScreenBlocked = ''blocked''"

record SecurityScreeningResult =
  sx_candidate :: PackageCandidateIdentity
  sx_sensor_ids :: "string list"
  sx_status :: ScreeningStatus
  sx_scanned_paths :: "string list"
  sx_findings :: "SecurityFinding list"

definition normalise_screening :: "SecurityScreeningResult \<Rightarrow> SecurityScreeningResult" where
  "normalise_screening r = r\<lparr>
     sx_candidate := normalise_candidate (sx_candidate r), sx_findings := map normalise_security_finding (sx_findings r)\<rparr>"

definition screening_status_matches :: "SecurityScreeningResult \<Rightarrow> (bool \<times> string) list" where
  "screening_status_matches r =
     (let severities = set (map sg_severity (sx_findings r)) in
      [(has_duplicates (sx_sensor_ids r), ''screening sensor ids must be unique''),
       (sx_status r = ScreenPass \<and> \<not> severities \<subseteq> {SeverityInfo},
        ''pass screening cannot contain warning or blocker findings''),
       (sx_status r = ScreenNeedsReview \<and> SeverityBlocker \<in> severities,
        ''needs_review screening cannot contain a blocker finding''),
       (sx_status r = ScreenNeedsReview \<and> SeverityWarning \<notin> severities,
        ''needs_review screening requires a warning finding''),
       (sx_status r = ScreenBlocked \<and> SeverityBlocker \<notin> severities,
        ''blocked screening requires a blocker finding''),
       (has_duplicates (map sg_code (sx_findings r)), ''security finding codes must be unique'')])"

definition check_screening :: "SecurityScreeningResult \<Rightarrow> (bool \<times> string) list" where
  "check_screening r =
     check_candidate (sx_candidate r)
     @ normalized_sensor_ids (sx_sensor_ids r)
     @ field ''scanned_paths'' (sx_scanned_paths r \<noteq> [] \<and> portables (sx_scanned_paths r))
     @ each check_security_finding (sx_findings r)
     @ screening_status_matches r"

definition screening_json :: "SecurityScreeningResult \<Rightarrow> json" where
  "screening_json r =
     JObj [(''schema_version'', JStr ''security-screening/v1''), (''candidate'', candidate_json (sx_candidate r)),
           (''sensor_ids'', strs (sx_sensor_ids r)), (''status'', JStr (screening_status_name (sx_status r))),
           (''scanned_paths'', strs (sx_scanned_paths r)), (''findings'', arr security_finding_json (sx_findings r)),
           (''mutation_performed'', JBool False)]"

section \<open>The models as instances of the interface\<close>

lemma normalise_security_finding_idem [simp]:
  "normalise_security_finding (normalise_security_finding f) = normalise_security_finding f"
  by (simp add: normalise_security_finding_def)

interpretation sensor_model: contract_model id check_sensor
  by unfold_locales simp

interpretation classification_model: contract_model normalise_classification check_classification
  by unfold_locales (simp add: normalise_classification_def)

interpretation security_finding_model: contract_model normalise_security_finding check_security_finding
  by unfold_locales simp

interpretation screening_model: contract_model normalise_screening check_screening
  by unfold_locales (simp add: normalise_screening_def)

section \<open>Consequences\<close>

lemma required_sensors_run:
  assumes "passes (check_classification c)" "s \<in> set (rl_sensors c)" "rk_required s"
  shows "rk_status s \<in> {SensorSelected, SensorBlocked}" "rk_id s \<in> set (rl_sensor_ids c)"
proof -
  have "\<not> unrun s" using assms by (simp add: check_classification_def sensors_cover_classification_def Let_def)
  then show "rk_status s \<in> {SensorSelected, SensorBlocked}" by (cases "rk_status s") (simp_all add: unrun_def)
  show "rk_id s \<in> set (rl_sensor_ids c)"
    using assms(1,2) by (simp add: check_classification_def sensors_cover_classification_def Let_def)
qed

lemma screening_status_iff:
  assumes "passes (check_screening r)"
  shows "sx_status r = ScreenBlocked \<longleftrightarrow> SeverityBlocker \<in> sg_severity ` set (sx_findings r)"
proof -
  have "x \<in> {SeverityInfo, SeverityWarning, SeverityBlocker}" for x by (cases x) simp_all
  then show ?thesis
    using assms by (cases "sx_status r") (auto simp: check_screening_def screening_status_matches_def Let_def)
qed

end
