(* ===== verification/Safety.thy ===== *)
theory Safety
  imports Risk Lifecycle Provider_Execution
begin

text \<open>
  \<^verbatim>\<open>models/safety.py\<close>: the package safety evidence an adapter supplies (reviewer, evidence references,
  findings, blockers), the receipt whose status must agree with them, and its binding to the built
  package; with the binding of a provider request to that receipt (\<^verbatim>\<open>models/provider_execution.py\<close>).

  The validators of identities run before stripping and refuse surrounding white space, so only
  messages are normalised. The two patterns of public text are those of \<^verbatim>\<open>models/lifecycle.py\<close>. The
  normalisation of untyped input (byte strings, cyclic containers, nesting depth) precedes the typed
  values of the model.
\<close>

section \<open>Reviewer, references, findings, blockers\<close>

definition SafetyAdapterId_rx :: rx where
  "SafetyAdapterId_rx = Seq (plus (Cls lower_or_digit))
     (Star (Seq (Cls (\<lambda>c. c \<in> set ''._/-'')) (plus (Cls lower_or_digit))))"

definition SafetyAdapterVersion_rx :: rx where
  "SafetyAdapterVersion_rx = Seq (Cls is_alnum) (up_to 127 (Cls (\<lambda>c. is_alnum c \<or> c \<in> set ''._+-'')))"

text \<open>The before-validator of an identity: no surrounding white space, and public text.\<close>

definition safe_identity :: "string \<Rightarrow> string \<Rightarrow> (bool \<times> string) list" where
  "safe_identity what value =
     [(value \<noteq> strip value, what @ '' must already be normalized''),
      (\<not> lifecycle_text_is_public_safe value, what @ '' must not contain credential-shaped values'')]"

datatype ReviewMethod = MetadataReview | StaticAnalysisReview | ManualReview | ExternalReview

fun review_method_name :: "ReviewMethod \<Rightarrow> string" where
  "review_method_name MetadataReview = ''metadata''"
| "review_method_name StaticAnalysisReview = ''static_analysis''"
| "review_method_name ManualReview = ''manual_review''"
| "review_method_name ExternalReview = ''external_review''"

record PackageSafetyReviewer =
  rv_adapter_id :: string
  rv_adapter_version_or_digest :: string
  rv_method :: ReviewMethod

definition check_reviewer :: "PackageSafetyReviewer \<Rightarrow> (bool \<times> string) list" where
  "check_reviewer r =
     safe_identity ''safety reviewer identity'' (rv_adapter_id r)
     @ field ''adapter_id'' (rx_fullmatch SafetyAdapterId_rx (rv_adapter_id r))
     @ safe_identity ''safety reviewer identity'' (rv_adapter_version_or_digest r)
     @ field ''adapter_version_or_digest'' (rx_fullmatch SafetyAdapterVersion_rx (rv_adapter_version_or_digest r))"

definition reviewer_json :: "PackageSafetyReviewer \<Rightarrow> json" where
  "reviewer_json r =
     JObj [(''adapter_id'', JStr (rv_adapter_id r)),
           (''adapter_version_or_digest'', JStr (rv_adapter_version_or_digest r)),
           (''method'', JStr (review_method_name (rv_method r)))]"

datatype EvidenceKind = ReviewEvidence ReviewMethod | PolicyEvidence

fun evidence_kind_name :: "EvidenceKind \<Rightarrow> string" where
  "evidence_kind_name (ReviewEvidence m) = review_method_name m"
| "evidence_kind_name PolicyEvidence = ''policy''"

record PackageSafetyEvidenceReference =
  se_evidence_id :: string
  se_kind :: EvidenceKind
  se_ref :: string
  se_sha256 :: string

definition normalise_evidence :: "PackageSafetyEvidenceReference \<Rightarrow> PackageSafetyEvidenceReference" where
  "normalise_evidence e = e\<lparr>se_sha256 := trim (se_sha256 e)\<rparr>"

definition check_evidence :: "PackageSafetyEvidenceReference \<Rightarrow> (bool \<times> string) list" where
  "check_evidence e =
     safe_identity ''safety evidence id'' (se_evidence_id e)
     @ field ''evidence_id'' (is_identifier (se_evidence_id e))
     @ [(\<not> portable (se_ref e), ''invalid_portable_path''),
        (\<not> lifecycle_text_is_public_safe (se_ref e), ''safety evidence ref must not contain credential-shaped values'')]
     @ field ''sha256'' (is_sha256 (se_sha256 e))"

definition evidence_json :: "PackageSafetyEvidenceReference \<Rightarrow> json" where
  "evidence_json e =
     JObj [(''evidence_id'', JStr (se_evidence_id e)), (''kind'', JStr (evidence_kind_name (se_kind e))),
           (''ref'', JStr (se_ref e)), (''sha256'', JStr (se_sha256 e))]"

datatype SafetyCategory =
  CategorySecret | CategoryPrivateData | CategoryUnsafeOperation | CategoryUnsafePath | CategoryDependency
| CategoryLicense | CategoryOther

fun safety_category_name :: "SafetyCategory \<Rightarrow> string" where
  "safety_category_name CategorySecret = ''secret''"
| "safety_category_name CategoryPrivateData = ''private_data''"
| "safety_category_name CategoryUnsafeOperation = ''unsafe_operation''"
| "safety_category_name CategoryUnsafePath = ''unsafe_path''"
| "safety_category_name CategoryDependency = ''dependency''"
| "safety_category_name CategoryLicense = ''license''"
| "safety_category_name CategoryOther = ''other''"

record PackageSafetyFinding =
  sf_code :: string
  sf_category :: SafetyCategory
  sf_severity :: Severity
  sf_message :: string
  sf_evidence_ids :: "string list"

definition normalise_safety_finding :: "PackageSafetyFinding \<Rightarrow> PackageSafetyFinding" where
  "normalise_safety_finding f = f\<lparr>sf_message := trim (sf_message f)\<rparr>"

definition check_safety_finding :: "PackageSafetyFinding \<Rightarrow> (bool \<times> string) list" where
  "check_safety_finding f =
     safe_identity ''safety finding code'' (sf_code f) @ field ''code'' (is_blocker_code (sf_code f))
     @ [(\<not> lifecycle_text_is_public_safe (sf_message f), ''safety finding text must not contain credential-shaped values'')]
     @ field ''message'' (nonempty_text (sf_message f))
     @ each (safe_identity ''safety finding evidence ids'') (sf_evidence_ids f)
     @ field ''evidence_ids'' (sf_evidence_ids f \<noteq> [] \<and> list_all is_identifier (sf_evidence_ids f))
     @ [(has_duplicates (sf_evidence_ids f), ''safety finding evidence ids must be unique'')]"

definition safety_finding_json :: "PackageSafetyFinding \<Rightarrow> json" where
  "safety_finding_json f =
     JObj [(''code'', JStr (sf_code f)), (''category'', JStr (safety_category_name (sf_category f))),
           (''severity'', JStr (severity_name (sf_severity f))), (''message'', JStr (sf_message f)),
           (''evidence_ids'', strs (sf_evidence_ids f))]"

record PackageSafetyBlocker =
  sb_code :: string
  sb_message :: string
  sb_evidence_refs :: "string list"

definition normalise_safety_blocker :: "PackageSafetyBlocker \<Rightarrow> PackageSafetyBlocker" where
  "normalise_safety_blocker b = b\<lparr>sb_message := trim (sb_message b)\<rparr>"

definition check_safety_blocker :: "PackageSafetyBlocker \<Rightarrow> (bool \<times> string) list" where
  "check_safety_blocker b =
     safe_identity ''safety blocker code'' (sb_code b) @ field ''code'' (is_blocker_code (sb_code b))
     @ [(\<not> lifecycle_text_is_public_safe (sb_message b), ''safety blocker text must not contain credential-shaped values'')]
     @ field ''message'' (nonempty_text (sb_message b))
     @ [(has_duplicates (sb_evidence_refs b), ''safety blocker evidence refs must be unique'')]
     @ each (\<lambda>value. [(\<not> portable value, ''invalid_portable_path''),
                      (\<not> lifecycle_text_is_public_safe value,
                       ''safety blocker evidence must not contain credential-shaped values'')])
         (sb_evidence_refs b)"

definition safety_blocker_json :: "PackageSafetyBlocker \<Rightarrow> json" where
  "safety_blocker_json b =
     JObj [(''code'', JStr (sb_code b)), (''message'', JStr (sb_message b)),
           (''evidence_refs'', strs (sb_evidence_refs b))]"

section \<open>The evidence receipt\<close>

datatype SafetyStatus = NotReviewed | ReviewedNoIssue | IssueFound | MetadataInsufficient

fun safety_status_name :: "SafetyStatus \<Rightarrow> string" where
  "safety_status_name NotReviewed = ''not_reviewed''"
| "safety_status_name ReviewedNoIssue = ''reviewed_no_issue''"
| "safety_status_name IssueFound = ''issue_found''"
| "safety_status_name MetadataInsufficient = ''metadata_insufficient''"

text \<open>\<open>sv_observed_at\<close> is what the text of the time stamp parses to.\<close>

record PackageSafetyEvidenceReceipt =
  sv_receipt_id :: string
  sv_candidate :: PackageCandidateIdentity
  sv_input_receipt_id :: string
  sv_package_digest :: string
  sv_reviewer :: PackageSafetyReviewer
  sv_status :: SafetyStatus
  sv_observed_at :: aware_datetime
  sv_evidence :: "PackageSafetyEvidenceReference list"
  sv_findings :: "PackageSafetyFinding list"
  sv_blocker :: "PackageSafetyBlocker option"
  sv_blockers :: "PackageSafetyBlocker list"

definition normalise_safety :: "PackageSafetyEvidenceReceipt \<Rightarrow> PackageSafetyEvidenceReceipt" where
  "normalise_safety r = r\<lparr>
     sv_evidence := map normalise_evidence (sv_evidence r),
     sv_findings := map normalise_safety_finding (sv_findings r),
     sv_blocker := map_option normalise_safety_blocker (sv_blocker r),
     sv_blockers := map normalise_safety_blocker (sv_blockers r)\<rparr>"

text \<open>\<^verbatim>\<open>self.blocker is None or not self.blockers or self.blockers[0] != self.blocker\<close>\<close>

definition lacks_primary :: "PackageSafetyEvidenceReceipt \<Rightarrow> bool" where
  "lacks_primary r = (case (sv_blocker r, sv_blockers r) of (Some b, c # rest) \<Rightarrow> c \<noteq> b | _ \<Rightarrow> True)"

definition status_matches_evidence :: "PackageSafetyEvidenceReceipt \<Rightarrow> (bool \<times> string) list" where
  "status_matches_evidence r =
     (let blocked = (sv_blocker r \<noteq> None \<or> sv_blockers r \<noteq> []) in
      case sv_status r of
        NotReviewed \<Rightarrow>
          [(sv_evidence r \<noteq> [] \<or> sv_findings r \<noteq> [] \<or> blocked,
            ''not_reviewed safety evidence cannot claim review artifacts'')]
      | ReviewedNoIssue \<Rightarrow>
          [(sv_evidence r = [] \<or> sv_findings r \<noteq> [] \<or> blocked,
            ''reviewed_no_issue requires evidence and no findings or blockers'')]
      | IssueFound \<Rightarrow>
          [(sv_evidence r = [] \<or> sv_findings r = [], ''issue_found requires evidence and findings''),
           (list_all (\<lambda>f. sf_severity f = SeverityInfo) (sv_findings r),
            ''issue_found requires a warning or blocker finding''),
           (lacks_primary r, ''issue_found requires its primary blocker first'')]
      | MetadataInsufficient \<Rightarrow>
          [(sv_findings r \<noteq> [], ''metadata_insufficient cannot claim an observed issue''),
           (lacks_primary r, ''metadata_insufficient requires its primary blocker first'')])"

definition state_matches_evidence :: "PackageSafetyEvidenceReceipt \<Rightarrow> (bool \<times> string) list" where
  "state_matches_evidence r =
     (let known_ids = map se_evidence_id (sv_evidence r); known_refs = map se_ref (sv_evidence r) in
      [(has_duplicates known_ids, ''safety evidence ids must be unique''),
       (has_duplicates known_refs, ''safety evidence refs must be unique''),
       (has_duplicates (map sf_code (sv_findings r)), ''safety finding codes must be unique''),
       (has_duplicates (sv_blockers r), ''safety blockers must be unique''),
       (\<exists>f \<in> set (sv_findings r). \<not> set (sf_evidence_ids f) \<subseteq> set known_ids,
        ''safety findings must reference supplied evidence ids''),
       (\<exists>b \<in> set (sv_blockers r). \<not> set (sb_evidence_refs b) \<subseteq> set known_refs,
        ''safety blockers must reference supplied digest-bound evidence'')]
      @ status_matches_evidence r)"

definition check_safety_candidate :: "PackageCandidateIdentity \<Rightarrow> (bool \<times> string) list" where
  "check_safety_candidate c =
     [(\<exists>value \<in> {package_id c, source_revision c, content_sha256 c}. value \<noteq> strip value,
       ''safety candidate identity fields must already be normalized'')]
     @ check_candidate c"

definition check_safety :: "PackageSafetyEvidenceReceipt \<Rightarrow> (bool \<times> string) list" where
  "check_safety r =
     safe_identity ''safety receipt identity'' (sv_receipt_id r) @ field ''receipt_id'' (is_identifier (sv_receipt_id r))
     @ check_safety_candidate (sv_candidate r)
     @ safe_identity ''safety receipt identity'' (sv_input_receipt_id r)
     @ field ''input_receipt_id'' (is_identifier (sv_input_receipt_id r))
     @ [(sv_package_digest r \<noteq> strip (sv_package_digest r), ''safety package digest must already be normalized'')]
     @ field ''package_digest'' (is_sha256 (sv_package_digest r))
     @ check_reviewer (sv_reviewer r)
     @ each check_evidence (sv_evidence r)
     @ each check_safety_finding (sv_findings r)
     @ opt_checks check_safety_blocker (sv_blocker r)
     @ each check_safety_blocker (sv_blockers r)
     @ state_matches_evidence r"

definition safety_json :: "(aware_datetime \<Rightarrow> string) \<Rightarrow> PackageSafetyEvidenceReceipt \<Rightarrow> json" where
  "safety_json render r =
     JObj [(''schema_version'', JStr ''package-safety-evidence/v1''), (''receipt_id'', JStr (sv_receipt_id r)),
           (''candidate'', candidate_json (sv_candidate r)), (''lane'', JStr ''safety_review''),
           (''input_receipt_id'', JStr (sv_input_receipt_id r)), (''package_digest'', JStr (sv_package_digest r)),
           (''reviewer'', reviewer_json (sv_reviewer r)), (''status'', JStr (safety_status_name (sv_status r))),
           (''observed_at'', JStr (render (sv_observed_at r))), (''evidence'', arr evidence_json (sv_evidence r)),
           (''findings'', arr safety_finding_json (sv_findings r)),
           (''blocker'', opt_json safety_blocker_json (sv_blocker r)),
           (''blockers'', arr safety_blocker_json (sv_blockers r)),
           (''mutation_performed'', JBool False), (''rights_decision_performed'', JBool False),
           (''admission_performed'', JBool False)]"

section \<open>Bindings\<close>

definition package_bindings :: "PackageSafetyEvidenceReceipt \<Rightarrow> PackageReceipt \<Rightarrow> (bool \<times> string) list" where
  "package_bindings r p =
     [(pr_status p \<noteq> Built \<or> pr_candidate p = None \<or> pr_package_digest p = None,
       ''safety evidence requires a built upstream package receipt''),
      (sv_input_receipt_id r \<noteq> pr_receipt_id p, ''safety input receipt id must match the upstream package receipt''),
      (Some (sv_candidate r) \<noteq> pr_candidate p, ''safety candidate must match the upstream package receipt''),
      (Some (sv_package_digest r) \<noteq> pr_package_digest p,
       ''safety package digest must match the upstream package receipt'')]"

definition require_passes :: "(bool \<times> string) list \<Rightarrow> 'a \<Rightarrow> 'a result" where
  "require_passes checks x = (case first_failure checks of Some message \<Rightarrow> Inl (ValueErr message) | None \<Rightarrow> Inr x)"

definition validate_against_package_receipt ::
  "PackageSafetyEvidenceReceipt \<Rightarrow> PackageReceipt \<Rightarrow> PackageSafetyEvidenceReceipt result" where
  "validate_against_package_receipt r p =
     (if pr_schema_version p \<noteq> ReceiptV2 then
        Inl (ValueErr ''safety evidence requires a built v2 upstream package receipt'')
      else and_then (validate_model normalise_receipt check_receipt p) (\<lambda>p. require_passes (package_bindings r p) r))"

definition safety_bindings ::
  "(aware_datetime \<Rightarrow> string) \<Rightarrow> ProviderExecutionRequest \<Rightarrow> PackageSafetyEvidenceReceipt \<Rightarrow> (bool \<times> string) list" where
  "safety_bindings render request r =
     [(xr_package_safety_receipt_id request \<noteq> sv_receipt_id r,
       ''provider execution safety receipt id must match the supplied receipt''),
      (xr_package_safety_receipt_sha256 request \<noteq> canonical_json_sha256 (safety_json render r),
       ''provider execution safety receipt digest must match the supplied receipt''),
      (xr_candidate request \<noteq> sv_candidate r, ''provider execution candidate must match the supplied safety receipt''),
      (xr_prepared request \<and> sv_status r \<noteq> ReviewedNoIssue,
       ''prepared provider execution requires reviewed_no_issue safety evidence'')]"

text \<open>
  The receipt is parsed again from its JSON, where its time stamp is the rendered text: that text
  must be RFC 3339, and parsing it gives the same time stamp.
\<close>

definition validate_against_package_safety_evidence ::
  "(aware_datetime \<Rightarrow> string) \<Rightarrow> ProviderExecutionRequest \<Rightarrow> PackageSafetyEvidenceReceipt \<Rightarrow> ProviderExecutionRequest result" where
  "validate_against_package_safety_evidence render request r =
     and_then (validate_model normalise_safety
         (\<lambda>r. check_safety r @ [(\<not> rfc3339 (render (sv_observed_at r)), ''safety observed_at must be an RFC3339 string'')]) r)
       (\<lambda>r. require_passes (safety_bindings render request r) request)"

section \<open>The models as instances of the interface\<close>

lemma normalise_safety_idem [simp]:
  "normalise_evidence (normalise_evidence e) = normalise_evidence e"
  "normalise_safety_finding (normalise_safety_finding f) = normalise_safety_finding f"
  "normalise_safety_blocker (normalise_safety_blocker b) = normalise_safety_blocker b"
  by (simp_all add: normalise_evidence_def normalise_safety_finding_def normalise_safety_blocker_def)

interpretation reviewer_model: contract_model id check_reviewer
  by unfold_locales simp

interpretation evidence_model: contract_model normalise_evidence check_evidence
  by unfold_locales simp

interpretation safety_finding_model: contract_model normalise_safety_finding check_safety_finding
  by unfold_locales simp

interpretation safety_blocker_model: contract_model normalise_safety_blocker check_safety_blocker
  by unfold_locales simp

lemma normalise_safety_twice: "normalise_safety (normalise_safety r) = normalise_safety r"
  by (simp add: normalise_safety_def option.map_comp comp_def)

interpretation safety_model: contract_model normalise_safety check_safety
  by unfold_locales (rule normalise_safety_twice)

interpretation rendered_safety_model: contract_model normalise_safety
  "\<lambda>r. check_safety r @ [(\<not> rfc3339 (render (sv_observed_at r)), ''safety observed_at must be an RFC3339 string'')]" for render
  by unfold_locales (rule normalise_safety_twice)

section \<open>What the bindings establish\<close>

lemma require_passes_Inr: "require_passes checks x = Inr y \<longleftrightarrow> passes checks \<and> y = x"
  by (auto simp: require_passes_def passes_def split: option.splits)

text \<open>
  Without an issue there is evidence, and nothing else.
\<close>

lemma reviewed_no_issue:
  assumes "passes (check_safety r)" "sv_status r = ReviewedNoIssue"
  shows "sv_evidence r \<noteq> []" "sv_findings r = []" "sv_blocker r = None" "sv_blockers r = []"
  using assms by (simp_all add: check_safety_def state_matches_evidence_def status_matches_evidence_def Let_def)

lemma bound_to_package:
  assumes "validate_against_package_receipt r p = Inr s"
  obtains q where "q = normalise_receipt p" "passes (check_receipt q)" "pr_schema_version q = ReceiptV2"
    "pr_status q = Built" "sv_input_receipt_id r = pr_receipt_id q" "pr_candidate q = Some (sv_candidate r)"
    "pr_package_digest q = Some (sv_package_digest r)"
  using assms
  by (auto simp: validate_against_package_receipt_def and_then_Inr_iff require_passes_Inr receipt_model.validate_ok_iff
      package_bindings_def normalise_receipt_def split: if_splits)

lemma bound_to_safety:
  "validate_against_package_safety_evidence render request r = Inr s \<longleftrightarrow>
     s = request \<and> passes (check_safety (normalise_safety r)) \<and> rfc3339 (render (sv_observed_at r))
     \<and> passes (safety_bindings render request (normalise_safety r))"
proof -
  have "sv_observed_at (normalise_safety r) = sv_observed_at r" by (simp add: normalise_safety_def)
  then show ?thesis
    by (auto simp: validate_against_package_safety_evidence_def and_then_Inr_iff require_passes_Inr
        rendered_safety_model.validate_ok_iff)
qed

end
