(* ===== verification/Skill_Validation.thy ===== *)
theory Skill_Validation
  imports Packaging
begin

text \<open>
  \<^verbatim>\<open>models/validation.py\<close>: the findings of a standalone skill's validation and its result. The lemmas:
  what a passing validation guarantees, and which results the class accepts.
\<close>

datatype ValidationSeverity = ValidationWarning | ValidationBlocker

fun validation_severity_name :: "ValidationSeverity \<Rightarrow> string" where
  "validation_severity_name ValidationWarning = ''warning''"
| "validation_severity_name ValidationBlocker = ''blocker''"

record SkillPackageFinding =
  kf_code :: string
  kf_severity :: ValidationSeverity
  kf_message :: string
  kf_evidence_refs :: "string list"

definition normalise_finding :: "SkillPackageFinding \<Rightarrow> SkillPackageFinding" where
  "normalise_finding f = f\<lparr>kf_code := trim (kf_code f), kf_message := trim (kf_message f)\<rparr>"

definition check_finding :: "SkillPackageFinding \<Rightarrow> (bool \<times> string) list" where
  "check_finding f =
     field ''code'' (is_blocker_code (kf_code f))
     @ field ''message'' (nonempty_text (kf_message f))
     @ field ''evidence_refs'' (portables (kf_evidence_refs f))"

definition finding_json :: "SkillPackageFinding \<Rightarrow> json" where
  "finding_json f =
     JObj [(''code'', JStr (kf_code f)), (''severity'', JStr (validation_severity_name (kf_severity f))),
           (''message'', JStr (kf_message f)), (''evidence_refs'', strs (kf_evidence_refs f))]"

datatype ValidationStatus = ValidationPass | ValidationBlocked

text \<open>The identity is a \<open>SkillIdentity\<close>; its model is the \<open>SkillId\<close> case of \<open>check_identity\<close>.\<close>

record SkillPackageValidation =
  kv_candidate :: "PackageCandidateIdentity option"
  kv_status :: ValidationStatus
  kv_identity :: "SkillIdentity option"
  kv_files :: "PackageManifestFile list"
  kv_findings :: "SkillPackageFinding list"

definition normalise_skill :: "SkillIdentity \<Rightarrow> SkillIdentity" where
  "normalise_skill s = \<lparr>si_package_id = trim (si_package_id s), si_name = trim (si_name s), si_version = trim (si_version s)\<rparr>"

definition check_skill :: "SkillIdentity \<Rightarrow> (bool \<times> string) list" where
  "check_skill s = check_identity (SkillId s)"

definition skill_json :: "SkillIdentity \<Rightarrow> json" where
  "skill_json s =
     JObj [(''schema_version'', JStr ''skill-identity/v1''), (''package_type'', JStr ''skill''), (''package_id'', JStr (si_package_id s)), (''name'', JStr (si_name s)),
           (''version'', JStr (si_version s))]"

definition normalise_validation :: "SkillPackageValidation \<Rightarrow> SkillPackageValidation" where
  "normalise_validation v = v\<lparr>
     kv_candidate := map_option normalise_candidate (kv_candidate v),
     kv_identity := map_option normalise_skill (kv_identity v),
     kv_files := map normalise_file (kv_files v),
     kv_findings := map normalise_finding (kv_findings v)\<rparr>"

definition validation_status_matches :: "SkillPackageValidation \<Rightarrow> (bool \<times> string) list" where
  "validation_status_matches v =
     (let blockers = [f \<leftarrow> kv_findings v. kf_severity f = ValidationBlocker] in
      (if kv_status v = ValidationPass then
         [(blockers \<noteq> [], ''passing skill validation cannot contain blockers''),
          (kv_candidate v = None \<or> kv_identity v = None \<or> kv_files v = [],
           ''passing skill validation requires candidate, identity, and files''),
          (map_option si_package_id (kv_identity v) \<noteq> map_option package_id (kv_candidate v),
           ''skill validation identity must bind the same candidate package'')]
       else [(blockers = [], ''blocked skill validation requires at least one blocker'')])
      @ [(has_duplicates (map mf_path (kv_files v)), ''skill validation file paths must be unique'')])"

definition check_validation :: "SkillPackageValidation \<Rightarrow> (bool \<times> string) list" where
  "check_validation v =
     opt_checks check_candidate (kv_candidate v)
     @ opt_checks check_skill (kv_identity v)
     @ each check_file (kv_files v)
     @ each check_finding (kv_findings v)
     @ validation_status_matches v"

definition validation_json :: "SkillPackageValidation \<Rightarrow> json" where
  "validation_json v =
     JObj [(''schema_version'', JStr ''skill-package-validation/v1''),
           (''candidate'', opt_json candidate_json (kv_candidate v)),
           (''status'', JStr (if kv_status v = ValidationPass then ''pass'' else ''blocked'')),
           (''identity'', opt_json skill_json (kv_identity v)), (''files'', arr file_json (kv_files v)),
           (''findings'', arr finding_json (kv_findings v)), (''mutation_performed'', JBool False)]"

lemma normalise_finding_idem [simp]: "normalise_finding (normalise_finding f) = normalise_finding f"
  by (simp add: normalise_finding_def)

lemma normalise_skill_idem [simp]: "normalise_skill (normalise_skill s) = normalise_skill s"
  by (simp add: normalise_skill_def)

interpretation finding_model: contract_model normalise_finding check_finding
  by unfold_locales simp

interpretation skill_identity_model: contract_model normalise_skill check_skill
  by unfold_locales simp

interpretation validation_model: contract_model normalise_validation check_validation
  by unfold_locales (simp add: normalise_validation_def option.map_comp comp_def)

lemma passing_validation:
  assumes "passes (check_validation v)" "kv_status v = ValidationPass"
  obtains c i where "kv_candidate v = Some c" "kv_identity v = Some i" "kv_files v \<noteq> []"
    "si_package_id i = package_id c" "distinct (map mf_path (kv_files v))"
  using assms by (auto simp: check_validation_def validation_status_matches_def Let_def)

end
