(* ===== verification/Skill_IR.thy ===== *)
theory Skill_IR
  imports Skill_Validation
begin

text \<open>
  \<^verbatim>\<open>validation/skill_ir.py\<close>: the front matter of a \<^verbatim>\<open>SKILL.md\<close> and the identity fields built from it.
  The YAML parser is third-party code: \<open>load\<close> is what \<^verbatim>\<open>yaml.load\<close> with the unique-key loader returns
  or raises for a text. A loaded value is a string, a mapping with string keys, or something else; the
  last two carry the text \<^verbatim>\<open>str()\<close> gives, and the last its truth value.
\<close>

section \<open>Text\<close>

text \<open>The line boundaries of \<^verbatim>\<open>str.splitlines()\<close> below code point 256.\<close>

definition line_break :: "char \<Rightarrow> bool" where
  "line_break c = (let n = code c in (10 \<le> n \<and> n \<le> 13) \<or> (28 \<le> n \<and> n \<le> 30) \<or> n = 133)"

text \<open>A carriage return and the line feed after it are one boundary; no line follows the last boundary.\<close>

definition after_break :: "char \<Rightarrow> string \<Rightarrow> string" where
  "after_break c cs = (if c = CHR 0x0D \<and> cs \<noteq> [] \<and> hd cs = CHR 0x0A then tl cs else cs)"

function splitlines_from :: "string \<Rightarrow> string \<Rightarrow> string list" where
  "splitlines_from line [] = (if line = [] then [] else [line])"
| "splitlines_from line (c # cs) =
     (if line_break c then line # splitlines_from [] (after_break c cs) else splitlines_from (line @ [c]) cs)"
  by pat_completeness auto
termination by (relation "measure (\<lambda>(_, cs). length cs)") (auto simp: after_break_def less_Suc_eq_le)

definition splitlines :: "string \<Rightarrow> string list" where
  "splitlines text = splitlines_from [] text"

definition join_lines :: "string list \<Rightarrow> string" where
  "join_lines lines = join_char (CHR 0x0A) lines"

section \<open>YAML values and file names\<close>

datatype yaml =
    YStr string
  | YMap "(string \<times> yaml) list" string
  | YOther bool string

fun yaml_truth :: "yaml \<Rightarrow> bool" where
  "yaml_truth (YStr s) = (s \<noteq> [])"
| "yaml_truth (YMap kvs _) = (kvs \<noteq> [])"
| "yaml_truth (YOther b _) = b"

fun yaml_str :: "yaml \<Rightarrow> string" where
  "yaml_str (YStr s) = s"
| "yaml_str (YMap _ t) = t"
| "yaml_str (YOther _ t) = t"

fun yaml_members :: "yaml \<Rightarrow> (string \<times> yaml) list" where
  "yaml_members (YMap kvs _) = kvs"
| "yaml_members _ = []"

text \<open>\<^verbatim>\<open>x or y\<close> on a value that may be \<^verbatim>\<open>None\<close>.\<close>

definition yaml_or :: "yaml option \<Rightarrow> yaml option \<Rightarrow> yaml option" where
  "yaml_or x y = (case x of Some v \<Rightarrow> if yaml_truth v then x else y | None \<Rightarrow> y)"

text \<open>
  A file name as the operating system reports it: text, or the code points of a name that is not valid
  UTF-8, which hold lone surrogates and cannot be encoded.
\<close>

datatype file_name = Name string | RawName "nat list"

definition point_space :: "nat \<Rightarrow> bool" where
  "point_space n = ((9 \<le> n \<and> n \<le> 13) \<or> (28 \<le> n \<and> n \<le> 32) \<or> n \<in> {133, 160, 5760, 8232, 8233, 8239, 8287, 12288}
     \<or> (8192 \<le> n \<and> n \<le> 8202))"

fun strip_name :: "file_name \<Rightarrow> file_name" where
  "strip_name (Name s) = Name (strip s)"
| "strip_name (RawName ns) = RawName (rev (dropWhile point_space (rev (dropWhile point_space ns))))"

section \<open>Front matter\<close>

text \<open>
  \<open>Caught\<close> stands for a \<^verbatim>\<open>ValueError\<close> or \<^verbatim>\<open>yaml.YAMLError\<close>, which the caller turns into a finding; a
  \<^verbatim>\<open>RecursionError\<close> of the parser is not caught.
\<close>

datatype ir_error = Caught | Recursion

type_synonym yaml_loader = "string \<Rightarrow> ir_error + yaml"

record front_matter =
  fm_members :: "(string \<times> yaml) list"
  fm_body :: string
  fm_closed :: bool

definition open_matter :: "string \<Rightarrow> front_matter" where
  "open_matter body = \<lparr>fm_members = [], fm_body = body, fm_closed = False\<rparr>"

definition is_fence :: "string \<Rightarrow> bool" where
  "is_fence line = (strip line = ''---'')"

definition load_matter :: "yaml_loader \<Rightarrow> string \<Rightarrow> ir_error + (string \<times> yaml) list" where
  "load_matter load text =
     (case (if strip text = [] then Inr (YMap [] ''{}'') else load text) of
        Inl e \<Rightarrow> Inl e
      | Inr (YMap kvs _) \<Rightarrow> Inr kvs
      | Inr _ \<Rightarrow> Inl Caught)"

definition read_frontmatter :: "yaml_loader \<Rightarrow> string \<Rightarrow> ir_error + front_matter" where
  "read_frontmatter load text =
     (case splitlines text of
        [] \<Rightarrow> Inr (open_matter (strip text))
      | first # rest \<Rightarrow>
          if \<not> is_fence first then Inr (open_matter (strip text))
          else
            let inner = takeWhile (\<lambda>line. \<not> is_fence line) rest; after = dropWhile (\<lambda>line. \<not> is_fence line) rest in
            if after = [] then Inr (open_matter [])
            else (case load_matter load (join_lines inner) of
                    Inl e \<Rightarrow> Inl e
                  | Inr kvs \<Rightarrow>
                      Inr \<lparr>fm_members = kvs, fm_body = strip (join_lines (tl after)), fm_closed = True\<rparr>))"

section \<open>The intermediate representation\<close>

record SkillIR =
  ir_name :: file_name
  ir_name_declared :: bool
  ir_version :: string
  ir_description :: string
  ir_frontmatter :: "(string \<times> yaml) list"
  ir_body :: string

definition declared_name :: "yaml option \<Rightarrow> bool" where
  "declared_name raw = (case raw of Some (YStr s) \<Rightarrow> strip s \<noteq> [] | _ \<Rightarrow> False)"

definition name_or_directory :: "yaml option \<Rightarrow> file_name \<Rightarrow> file_name" where
  "name_or_directory raw directory =
     (case yaml_or raw None of Some v \<Rightarrow> Name (strip (yaml_str v)) | None \<Rightarrow> strip_name directory)"

definition version_text :: "(string \<times> yaml) list \<Rightarrow> string" where
  "version_text frontmatter =
     (let metadata_version = (case map_of frontmatter ''metadata'' of
              Some v \<Rightarrow> map_of (yaml_members v) ''version'' | None \<Rightarrow> None);
          version = (case yaml_or (map_of frontmatter ''version'') (yaml_or metadata_version None) of
              Some v \<Rightarrow> strip (yaml_str v) | None \<Rightarrow> ''0.1.0'')
      in if version = [] then ''0.1.0'' else version)"

definition description_text :: "yaml option \<Rightarrow> string" where
  "description_text raw = (case raw of Some (YStr s) \<Rightarrow> strip s | _ \<Rightarrow> [])"

definition build_skill_ir :: "yaml_loader \<Rightarrow> file_name \<Rightarrow> string \<Rightarrow> ir_error + SkillIR" where
  "build_skill_ir load directory text =
     (case read_frontmatter load text of
        Inl e \<Rightarrow> Inl e
      | Inr m \<Rightarrow>
          if \<not> fm_closed m then Inl Caught
          else
            let frontmatter = fm_members m; raw_name = map_of frontmatter ''name'' in
            Inr \<lparr>ir_name = name_or_directory raw_name directory, ir_name_declared = declared_name raw_name,
                 ir_version = version_text frontmatter,
                 ir_description = description_text (map_of frontmatter ''description''),
                 ir_frontmatter = frontmatter, ir_body = fm_body m\<rparr>)"

section \<open>Lemmas\<close>

lemma version_text_nonempty: "version_text kvs \<noteq> []"
  by (simp add: version_text_def Let_def)

text \<open>A declared name is the stripped text of the front matter, never the directory's.\<close>

lemma declared_name_cases: "declared_name raw \<longleftrightarrow> (\<exists>s. raw = Some (YStr s) \<and> strip s \<noteq> [])"
  by (auto simp: declared_name_def split: option.splits yaml.splits)

lemma strip_nonempty: "strip s \<noteq> [] \<Longrightarrow> s \<noteq> []"
  by (auto simp: strip_def strip_with_def)

lemma declared_name_text:
  assumes "build_skill_ir load directory t = Inr ir" "ir_name_declared ir"
  obtains s where "map_of (ir_frontmatter ir) ''name'' = Some (YStr s)" "ir_name ir = Name (strip s)" "strip s \<noteq> []"
proof -
  obtain m where m: "ir_frontmatter ir = m" "ir_name ir = name_or_directory (map_of m ''name'') directory"
    "declared_name (map_of m ''name'')"
    using assms by (auto simp: build_skill_ir_def Let_def split: sum.splits if_splits)
  then obtain s where "map_of m ''name'' = Some (YStr s)" "strip s \<noteq> []" by (auto simp: declared_name_cases)
  with m that show thesis by (simp add: name_or_directory_def yaml_or_def strip_nonempty)
qed

text \<open>Every line break of a text ends a line: no line holds one.\<close>

definition one_line :: "string \<Rightarrow> bool" where
  "one_line l = (\<forall>c \<in> set l. \<not> line_break c)"

lemma splitlines_from_lines: "one_line line \<Longrightarrow> l \<in> set (splitlines_from line cs) \<Longrightarrow> one_line l"
proof (induction line cs rule: splitlines_from.induct)
  case (2 line c cs)
  show ?case
  proof (cases "line_break c")
    case True
    with 2 show ?thesis by (auto simp: one_line_def [of "[]"])
  next
    case False
    with 2 have "one_line (line @ [c])" by (simp add: one_line_def)
    with 2 False show ?thesis by simp
  qed
qed (simp split: if_splits)

lemma splitlines_lines: "l \<in> set (splitlines t) \<Longrightarrow> one_line l"
  using splitlines_from_lines [of "[]" l t] by (simp add: splitlines_def one_line_def [of "[]"])

end
