(* ===== verification/Package_Scan.thy ===== *)
theory Package_Scan
  imports Skill_IR Hardening
begin

text \<open>
  The file-system walk of \<^verbatim>\<open>validation/skill_package.py\<close>. A directory tree is what the walk observes:
  entries in the order the system lists them, and for each what opening or reading it answers. The
  walk records observations in order: a finding to make, or a captured file. What the walk finds and
  captures, said of the tree alone, is in \<open>Package_Places\<close>.
\<close>

section \<open>Trees\<close>

text \<open>
  A regular file's bytes and whether its descriptor was unchanged after reading; a directory's listing
  (\<open>None\<close>: listing it failed) and whether it changed during the visit.
\<close>

datatype node =
    Symlink
  | ClosedDirectory
  | Directory "(file_name \<times> node) list option" bool
  | UnreadableFile
  | RegularFile "byte list" bool

datatype package_tree =
    UnsupportedPlatform
  | UnreadableRoot
  | OpenedRoot "(file_name \<times> node) list option" bool

record SkillValidationPolicy =
  sp_max_entrypoint_lines :: "int option"
  sp_max_reference_depth :: "int option"
  sp_allowed_frontmatter :: "string list"
  sp_required_files :: "string list"
  sp_check_reference_content :: bool

definition ALLOWED_FRONTMATTER :: "string list" where
  "ALLOWED_FRONTMATTER =
     [''name'', ''description'', ''version'', ''license'', ''compatibility'', ''allowed-tools'', ''metadata'', ''triggers'']"

definition default_skill_policy :: SkillValidationPolicy where
  "default_skill_policy =
     \<lparr>sp_max_entrypoint_lines = None, sp_max_reference_depth = None, sp_allowed_frontmatter = ALLOWED_FRONTMATTER,
      sp_required_files = [], sp_check_reference_content = False\<rparr>"

definition MAX_PACKAGE_DIRECTORY_DEPTH :: nat where
  "MAX_PACKAGE_DIRECTORY_DEPTH = 64"

section \<open>Findings\<close>

definition skill_finding :: "string \<Rightarrow> string \<Rightarrow> string list \<Rightarrow> SkillPackageFinding result" where
  "skill_finding finding_code message refs =
     validate_model normalise_finding check_finding
       \<lparr>kf_code = finding_code, kf_severity = ValidationBlocker, kf_message = message, kf_evidence_refs = refs\<rparr>"

datatype observation = Found string string "string list" | Captured string "byte list"

section \<open>The walk\<close>

text \<open>\<open>pathlib.Path\<close> of the parts below the package root.\<close>

definition posix_path :: "string list \<Rightarrow> string" where
  "posix_path parts = (if parts = [] then ''.'' else join_char (CHR ''/'') parts)"

fun name_points :: "file_name \<Rightarrow> nat list" where
  "name_points (Name s) = map code s"
| "name_points (RawName ns) = ns"

definition by_name :: "(file_name \<times> node) list \<Rightarrow> (file_name \<times> node) list" where
  "by_name entries = sort_key (name_points \<circ> fst) entries"

definition invalid_name :: observation where
  "invalid_name = Found ''invalid_package_path'' ''package filenames must be portable POSIX paths'' []"

definition unreadable_directory :: "string list \<Rightarrow> observation" where
  "unreadable_directory parts =
     Found ''unreadable_package_directory'' ''package directory must remain readable'' [posix_path parts]"

definition source_changed :: "string list \<Rightarrow> observation" where
  "source_changed parts =
     Found ''source_changed'' ''package directory changed during validation'' (if parts = [] then [] else [posix_path parts])"

fun regular_file :: "string list \<Rightarrow> string \<Rightarrow> node \<Rightarrow> observation" where
  "regular_file parts name n =
     (let relative = posix_path parts in
      if \<not> portable relative then invalid_name
      else if unsafe_package_file_reason name \<noteq> None
      then Found ''unsafe_package_file'' ''credential-like files cannot enter a package'' [relative]
      else (case n of
          RegularFile payload is_stable \<Rightarrow>
            if \<not> is_stable then Found ''source_changed'' ''package source changed during validation'' [relative]
            else Captured relative payload
        | _ \<Rightarrow> Found ''unreadable_package_file'' ''package file must remain a readable regular file'' [relative]))"

definition too_deep :: "SkillValidationPolicy \<Rightarrow> string list \<Rightarrow> bool" where
  "too_deep policy parts =
     (hd parts = ''references''
      \<and> (case sp_max_reference_depth policy of None \<Rightarrow> False | Some limit \<Rightarrow> int (length parts) - 1 > limit))"

definition reference_depth :: "SkillValidationPolicy \<Rightarrow> string list \<Rightarrow> observation list" where
  "reference_depth policy parts =
     (if too_deep policy parts then
        [Found ''reference_depth_exceeded''
          (''reference depth '' @ show_int (int (length parts) - 1) @ '' exceeds configured limit ''
           @ show_int (the (sp_max_reference_depth policy))) [posix_path parts]]
      else [])"

definition unsafe_directory :: "string list \<Rightarrow> observation" where
  "unsafe_directory parts =
     Found ''unsafe_package_directory'' ''runtime and source-control directories cannot enter a package'' [posix_path parts]"

definition depth_exceeded :: "string list \<Rightarrow> observation" where
  "depth_exceeded parts =
     Found ''package_depth_exceeded'' (''package directory depth exceeds '' @ show_int (int MAX_PACKAGE_DIRECTORY_DEPTH))
       [posix_path parts]"

text \<open>The checks of one entry that come before its kind.\<close>

definition refused_name :: "string list \<Rightarrow> string \<Rightarrow> observation option" where
  "refused_name parts name =
     (if \<not> portable (posix_path parts) then Some invalid_name
      else if lower name \<in> set UNSAFE_PACKAGE_DIRECTORIES then Some (unsafe_directory parts)
      else None)"

lemma set_by_name [simp]: "set (by_name entries) = set entries"
  by (simp add: by_name_def)

lemma member_size: "(name, n) \<in> set entries \<Longrightarrow> size n < size (Directory (Some entries) changed)"
  by (induction entries) auto

function visit :: "SkillValidationPolicy \<Rightarrow> string list \<Rightarrow> nat \<Rightarrow> node \<Rightarrow> observation list"
  and visit_entry :: "SkillValidationPolicy \<Rightarrow> string list \<Rightarrow> nat \<Rightarrow> file_name \<times> node \<Rightarrow> observation list" where
  "visit policy here depth n =
     (case n of
        Directory (Some entries) changed \<Rightarrow>
          concat (map (visit_entry policy here depth) (by_name entries)) @ (if changed then [source_changed here] else [])
      | _ \<Rightarrow> [unreadable_directory here])"
| "visit_entry policy here depth e =
     (case fst e of
        RawName _ \<Rightarrow> [invalid_name]
      | Name name \<Rightarrow>
          let parts = here @ [name] in
          (case refused_name parts name of
             Some refused \<Rightarrow> [refused]
           | None \<Rightarrow>
             (case snd e of
                Symlink \<Rightarrow> [Found ''symlink_not_allowed'' ''package paths must not be symbolic links'' [posix_path parts]]
              | ClosedDirectory \<Rightarrow>
                  [if depth \<ge> MAX_PACKAGE_DIRECTORY_DEPTH then depth_exceeded parts else unreadable_directory parts]
              | Directory listing changed \<Rightarrow>
                  if depth \<ge> MAX_PACKAGE_DIRECTORY_DEPTH then [depth_exceeded parts]
                  else visit policy parts (depth + 1) (snd e)
              | _ \<Rightarrow> reference_depth policy parts @ [regular_file parts name (snd e)])))"
  by pat_completeness auto
termination
  by (relation "measure (\<lambda>x. case x of Inl (_, _, _, n) \<Rightarrow> 2 * size n | Inr (_, _, _, e) \<Rightarrow> 2 * size (snd e) + 1)")
    (auto dest: member_size)

declare visit.simps [simp del] visit_entry.simps [simp del]

fun observations :: "SkillValidationPolicy \<Rightarrow> package_tree \<Rightarrow> observation list" where
  "observations policy UnsupportedPlatform =
     [Found ''unsupported_platform'' ''host cannot enforce safe descriptor-relative traversal'' []]"
| "observations policy UnreadableRoot =
     [Found ''unreadable_package_root'' ''package root must support safe descriptor traversal'' []]"
| "observations policy (OpenedRoot listing changed) = visit policy [] 0 (Directory listing changed)"

section \<open>The records of a walk\<close>

definition file_record :: "string \<times> byte list \<Rightarrow> PackageManifestFile" where
  "file_record capture =
     \<lparr>mf_path = fst capture, mf_sha256 = sha256 (snd capture), mf_size_bytes = int (length (snd capture)),
      mf_role = file_role (fst capture)\<rparr>"

text \<open>Both kinds of record are validated models, made in the order of the walk.\<close>

fun gather :: "observation list \<Rightarrow>
    (PackageManifestFile list \<times> SkillPackageFinding list \<times> (string \<times> byte list) list) result" where
  "gather [] = Inr ([], [], [])"
| "gather (Found finding_code message refs # os) =
     and_then (skill_finding finding_code message refs) (\<lambda>f.
       and_then (gather os) (\<lambda>(files, findings, captured). Inr (files, f # findings, captured)))"
| "gather (Captured path payload # os) =
     and_then (validate_model normalise_file check_file (file_record (path, payload))) (\<lambda>record.
       and_then (gather os) (\<lambda>(files, findings, captured). Inr (record # files, findings, (path, payload) # captured)))"

definition scan_files :: "package_tree \<Rightarrow> SkillValidationPolicy \<Rightarrow>
    (PackageManifestFile list \<times> SkillPackageFinding list \<times> (string \<times> byte list) list) result" where
  "scan_files tree policy =
     and_then (gather (observations policy tree)) (\<lambda>(files, findings, captured).
       Inr (sort_key mf_path files, findings, captured))"

section \<open>Building the records\<close>

fun observation_ok :: "observation \<Rightarrow> bool" where
  "observation_ok (Found c m refs) = (is_blocker_code c \<and> trim m \<noteq> [] \<and> portables refs)"
| "observation_ok (Captured path payload) = portable path"

fun captured_of :: "observation list \<Rightarrow> (string \<times> byte list) list" where
  "captured_of [] = []"
| "captured_of (Found c m refs # os) = captured_of os"
| "captured_of (Captured path payload # os) = (path, payload) # captured_of os"

fun quiet :: "observation list \<Rightarrow> bool" where
  "quiet [] = True"
| "quiet (Found c m refs # os) = False"
| "quiet (Captured path payload # os) = quiet os"

lemma captured_of_append [simp]: "captured_of (as @ bs) = captured_of as @ captured_of bs"
  by (induction "as" rule: captured_of.induct) simp_all

lemma quiet_append [simp]: "quiet (as @ bs) \<longleftrightarrow> quiet as \<and> quiet bs"
  by (induction "as" rule: quiet.induct) simp_all

lemma captured_of_concat [simp]: "captured_of (concat xss) = concat (map captured_of xss)"
  by (induction xss) simp_all

lemma quiet_concat [simp]: "quiet (concat xss) \<longleftrightarrow> list_all quiet xss"
  by (induction xss) simp_all

lemma skill_finding_ok:
  assumes "is_blocker_code c" "trim m \<noteq> []" "portables refs"
  shows "skill_finding c m refs =
    Inr \<lparr>kf_code = c, kf_severity = ValidationBlocker, kf_message = trim m, kf_evidence_refs = refs\<rparr>"
  using assms
  by (simp add: skill_finding_def finding_model.validate_ok_iff normalise_finding_def check_finding_def trim_blocker_code)

interpretation file_model: contract_model normalise_file check_file
  by unfold_locales (simp add: normalise_file_def)

lemma file_record_normal: "normalise_file (file_record c) = file_record c"
  by (simp add: file_record_def normalise_file_def trim_sha256 sha256_is_sha256)

lemma file_record_Inr: "validate_model normalise_file check_file (file_record (path, payload)) = Inr r \<longleftrightarrow>
    portable path \<and> r = file_record (path, payload)"
  by (auto simp: file_model.validate_ok_iff file_record_normal)
    (simp_all add: file_record_def check_file_def sha256_is_sha256)

lemma gather_total: "list_all observation_ok os \<Longrightarrow> is_ok (gather os)"
proof (induction os rule: gather.induct)
  case (2 c m refs os)
  then show ?case by (auto simp: is_ok_iff skill_finding_ok)
next
  case (3 path payload os)
  then have "validate_model normalise_file check_file (file_record (path, payload)) = Inr (file_record (path, payload))"
    by (simp add: file_record_Inr)
  with 3 show ?case by (auto simp: is_ok_iff)
qed simp

lemma gather_records:
  "gather os = Inr (files, findings, captured) \<Longrightarrow>
     captured = captured_of os \<and> files = map file_record captured \<and> (findings = [] \<longleftrightarrow> quiet os)"
proof (induction os arbitrary: files findings captured rule: gather.induct)
  case (2 c m refs os)
  then show ?case by (fastforce simp: and_then_Inr_iff)
next
  case (3 path payload os)
  then show ?case by (fastforce simp: and_then_Inr_iff file_record_Inr)
qed simp

end
