(* ===== verification/Package_Places.thy ===== *)
theory Package_Places
  imports Package_Scan
begin

text \<open>
  What the walk over a package is for, said without the walk. \<open>place\<close> is reachability in the tree: a
  path of names and what is found there. \<open>admissible\<close> is when a place may be in a package. The walk is
  quiet exactly when every place is admissible, and what it captured is exactly the readable regular
  files: the traversal's order, its depth counter and its early returns are invisible in that.
\<close>

inductive place :: "file_name \<times> node \<Rightarrow> file_name list \<Rightarrow> node \<Rightarrow> bool" where
  here: "place (name, n) [name] n"
| below: "place (name, Directory (Some entries) changed) (name # path) m"
    if "e \<in> set entries" "place e path m"

inductive_cases placeE: "place (name, n) path m"

fun admissible :: "SkillValidationPolicy \<Rightarrow> string list \<Rightarrow> node \<Rightarrow> bool" where
  "admissible policy parts (RegularFile payload unchanged) =
     (unchanged \<and> unsafe_package_file_reason (last parts) = None \<and> \<not> too_deep policy parts)"
| "admissible policy parts (Directory (Some entries) changed) =
     (\<not> changed \<and> length parts \<le> MAX_PACKAGE_DIRECTORY_DEPTH)"
| "admissible policy parts _ = False"

fun is_text :: "file_name \<Rightarrow> bool" where
  "is_text (Name s) = True" | "is_text (RawName ns) = False"

fun name_text :: "file_name \<Rightarrow> string" where
  "name_text (Name s) = s" | "name_text (RawName ns) = []"

definition admitted :: "SkillValidationPolicy \<Rightarrow> string list \<Rightarrow> file_name list \<Rightarrow> node \<Rightarrow> bool" where
  "admitted policy outer path n \<longleftrightarrow>
     (let parts = outer @ map name_text path in
      list_all is_text path \<and> portable (posix_path parts)
      \<and> lower (last parts) \<notin> set UNSAFE_PACKAGE_DIRECTORIES \<and> admissible policy parts n)"

lemma place_nonempty: "place e path m \<Longrightarrow> path \<noteq> []"
  by (induction rule: place.induct) simp_all

lemma admitted_below: "admitted policy outer (Name name # path) n \<longleftrightarrow> admitted policy (outer @ [name]) path n"
  by (simp add: admitted_def)

lemma admitted_here: "admitted policy outer [Name name] n \<longleftrightarrow>
    portable (posix_path (outer @ [name])) \<and> lower name \<notin> set UNSAFE_PACKAGE_DIRECTORIES
    \<and> admissible policy (outer @ [name]) n"
  by (simp add: admitted_def Let_def)

lemma not_admitted_raw: "\<not> admitted policy outer (RawName ns # path) n"
  by (simp add: admitted_def)

lemma refused_name_iff: "refused_name parts name = None \<longleftrightarrow>
    portable (posix_path parts) \<and> lower name \<notin> set UNSAFE_PACKAGE_DIRECTORIES"
  by (simp add: refused_name_def)

text \<open>The quiet walks.\<close>

lemma quiet_single [simp]: "quiet [o'] \<longleftrightarrow> (\<exists>path payload. o' = Captured path payload)"
  by (cases o') simp_all

lemma loud [simp]: "invalid_name = Captured p b \<longleftrightarrow> False" "unsafe_directory parts = Captured p b \<longleftrightarrow> False"
    "depth_exceeded parts = Captured p b \<longleftrightarrow> False" "unreadable_directory parts = Captured p b \<longleftrightarrow> False"
    "source_changed parts = Captured p b \<longleftrightarrow> False"
  by (simp_all add: invalid_name_def unsafe_directory_def depth_exceeded_def unreadable_directory_def source_changed_def)

lemma refused_name_loud [simp]: "refused_name parts name = Some r \<Longrightarrow> r = Captured p b \<longleftrightarrow> False"
  by (auto simp: refused_name_def split: if_splits)

lemma reference_depth_quiet [simp]: "quiet (reference_depth policy parts) \<longleftrightarrow> \<not> too_deep policy parts"
  by (simp add: reference_depth_def)

lemma regular_file_captured:
  "regular_file parts name n = Captured p b \<longleftrightarrow>
     portable (posix_path parts) \<and> unsafe_package_file_reason name = None \<and> n = RegularFile b True \<and> p = posix_path parts"
  by (cases n) (auto simp: invalid_name_def Let_def)

lemma leaf_quiet:
  assumes "refused_name (here @ [name]) name = None" "\<nexists>es c. n = Directory es c"
  shows "quiet (reference_depth policy (here @ [name]) @ [regular_file (here @ [name]) name n])
    \<longleftrightarrow> admissible policy (here @ [name]) n"
  using assms by (cases n) (simp_all add: regular_file_captured refused_name_iff conj_commute del: regular_file.simps)

text \<open>The places below an entry, by the kind of the entry.\<close>

lemma place_step: "place (name, n) path m \<longleftrightarrow> path = [name] \<and> m = n
    \<or> (\<exists>entries changed e rest. n = Directory (Some entries) changed \<and> e \<in> set entries \<and> place e rest m \<and> path = name # rest)"
  by (subst place.simps) blast

lemma all_places:
  "(\<forall>path m. place (name, n) path m \<longrightarrow> P path m) \<longleftrightarrow>
     P [name] n \<and> (\<forall>entries changed. n = Directory (Some entries) changed \<longrightarrow>
       (\<forall>e \<in> set entries. \<forall>path m. place e path m \<longrightarrow> P (name # path) m))"
  (is "?all \<longleftrightarrow> ?parts")
proof
  assume ?all
  then show ?parts by (simp add: place.here) (blast intro: place.below)
next
  assume parts: ?parts
  show ?all
  proof (intro allI impI)
    fix path m
    assume "place (name, n) path m"
    then consider "path = [name]" "m = n"
      | e entries rest changed where "n = Directory (Some entries) changed" "path = name # rest" "e \<in> set entries" "place e rest m"
      by (rule placeE)
    then show "P path m" by cases (use parts in simp_all)
  qed
qed

lemma raw_places: "\<not> (\<forall>path m. place (RawName ns, n) path m \<longrightarrow> admitted policy outer path m)"
  unfolding all_places by (simp add: not_admitted_raw)

lemma visit_quiet:
  shows "n = Directory (Some entries) changed \<Longrightarrow> depth = length here \<Longrightarrow> quiet (visit policy here depth n) \<longleftrightarrow>
      \<not> changed \<and> (\<forall>e \<in> set entries. \<forall>path m. place e path m \<longrightarrow> admitted policy here path m)"
    and "depth = length here \<Longrightarrow> quiet (visit_entry policy here depth e) \<longleftrightarrow>
      (\<forall>path m. place e path m \<longrightarrow> admitted policy here path m)"
proof (induction policy here depth n and policy here depth e arbitrary: entries changed rule: visit_visit_entry.induct)
  case (1 policy here depth n)
  then show ?case by (auto simp: visit.simps list_all_iff)
next
  case (2 policy here depth e)
  obtain name n where e: "e = (name, n)" by force
  show ?case
  proof (cases name)
    case (RawName ns)
    then show ?thesis using raw_places by (simp add: e visit_entry.simps)
  next
    case (Name s)
    let ?parts = "here @ [s]"
    show ?thesis
    proof (cases "refused_name ?parts s")
      case (Some r)
      then have "\<not> admitted policy here [Name s] n" by (auto simp: admitted_here refused_name_def)
      moreover have "\<not> quiet [r]" using Some by simp
      ultimately show ?thesis using Some by (simp add: e Name visit_entry.simps all_places del: quiet_single)
    next
      case None
      show ?thesis
      proof (cases "\<exists>es c. n = Directory es c")
        case False
        then have "quiet (visit_entry policy here depth e) \<longleftrightarrow> admissible policy ?parts n"
          using leaf_quiet [OF None False, of policy] None
          by (cases n) (simp_all add: e Name visit_entry.simps Let_def del: regular_file.simps)
        then show ?thesis using False None by (auto simp: e Name all_places admitted_here refused_name_iff)
      next
        case True
        then obtain es c where n: "n = Directory es c" by blast
        show ?thesis
        proof (cases "MAX_PACKAGE_DIRECTORY_DEPTH \<le> depth")
          case True
          then have "\<not> admitted policy here [Name s] n" using 2(2) by (cases es) (simp_all add: n admitted_here)
          then show ?thesis using True None by (simp add: e Name n visit_entry.simps all_places)
        next
          case False
          have step: "visit_entry policy here depth e = visit policy ?parts (depth + 1) n"
            using None False by (simp add: e Name n visit_entry.simps)
          show ?thesis
          proof (cases es)
            case None
            then show ?thesis unfolding step by (simp add: n visit.simps e Name all_places admitted_here)
          next
            case (Some entries)
            have "admitted policy here [Name s] n \<longleftrightarrow> \<not> c"
              using None False 2(2) by (auto simp: n Some admitted_here refused_name_iff)
            moreover have "quiet (visit policy ?parts (depth + 1) n) \<longleftrightarrow>
                \<not> c \<and> (\<forall>e \<in> set entries. \<forall>path m. place e path m \<longrightarrow> admitted policy ?parts path m)"
              using 2(1) [of s ?parts es c entries c] e Name None n Some False 2(2) by simp
            ultimately show ?thesis unfolding step by (auto simp: e Name n Some all_places admitted_below)
          qed
        qed
      qed
    qed
  qed
qed

section \<open>What a quiet walk captured\<close>

lemma visit_captures:
  shows "n = Directory (Some entries) changed \<Longrightarrow> depth = length here \<Longrightarrow> quiet (visit policy here depth n) \<Longrightarrow>
      (p, b) \<in> set (captured_of (visit policy here depth n)) \<longleftrightarrow>
        (\<exists>e \<in> set entries. \<exists>path. place e path (RegularFile b True) \<and> p = posix_path (here @ map name_text path))"
    and "depth = length here \<Longrightarrow> quiet (visit_entry policy here depth e) \<Longrightarrow>
      (p, b) \<in> set (captured_of (visit_entry policy here depth e)) \<longleftrightarrow>
        (\<exists>path. place e path (RegularFile b True) \<and> p = posix_path (here @ map name_text path))"
proof (induction policy here depth n and policy here depth e arbitrary: entries changed rule: visit_visit_entry.induct)
  case (1 policy here depth n)
  then have "captured_of (visit policy here depth n) = concat (map (captured_of \<circ> visit_entry policy here depth) (by_name entries))"
    by (simp add: visit.simps source_changed_def)
  moreover have "\<forall>e \<in> set entries. quiet (visit_entry policy here depth e)"
    using 1(2-4) by (simp add: visit.simps list_all_iff)
  ultimately show ?case using 1(1) [of "Some entries" changed entries] 1(2,3) by auto
next
  case (2 policy here depth e)
  obtain name n where e: "e = (name, n)" by force
  have adm: "admitted policy here path m" if "place e path m" for path m
    using 2(2,3) visit_quiet(2) that by blast
  have "admitted policy here [name] n" using adm place.here by (simp add: e)
  then obtain s where s: "name = Name s" and ok: "admitted policy here [Name s] n"
    by (cases name) (simp_all add: not_admitted_raw)
  have none: "refused_name (here @ [s]) s = None" using ok by (simp add: admitted_here refused_name_iff)
  from ok have kind: "admissible policy (here @ [s]) n" by (simp add: admitted_here)
  show ?case
  proof (cases n)
    case (RegularFile payload unchanged)
    then have "visit_entry policy here depth e = [Captured (posix_path (here @ [s])) payload]"
      using none kind ok by (simp add: e s visit_entry.simps reference_depth_def Let_def admitted_here)
    moreover have "place e path (RegularFile b True) \<longleftrightarrow> path = [Name s] \<and> b = payload \<and> unchanged" for path
      using RegularFile by (auto simp: e s intro: place.here elim: placeE)
    ultimately show ?thesis using kind RegularFile by auto
  next
    case (Directory listing changed)
    with kind obtain es where es: "listing = Some es" "\<not> changed" "length (here @ [s]) \<le> MAX_PACKAGE_DIRECTORY_DEPTH"
      by (cases listing) simp_all
    then have step: "visit_entry policy here depth e = visit policy (here @ [s]) (depth + 1) n"
      using none Directory 2(2) by (simp add: e s visit_entry.simps)
    have places: "place e path (RegularFile b True) \<longleftrightarrow>
        (\<exists>e' \<in> set es. \<exists>rest. path = Name s # rest \<and> place e' rest (RegularFile b True))" for path
      unfolding e s by (subst place_step) (use Directory es in blast)
    have "(\<exists>path. place e path (RegularFile b True) \<and> p = posix_path (here @ map name_text path)) \<longleftrightarrow>
        (\<exists>e' \<in> set es. \<exists>rest. place e' rest (RegularFile b True) \<and> p = posix_path (here @ map name_text (Name s # rest)))"
      unfolding places by blast
    moreover have "(p, b) \<in> set (captured_of (visit policy (here @ [s]) (depth + 1) n)) \<longleftrightarrow>
        (\<exists>e' \<in> set es. \<exists>rest. place e' rest (RegularFile b True) \<and> p = posix_path ((here @ [s]) @ map name_text rest))"
      using 2(1) [of s "here @ [s]" listing changed es changed] e s none Directory es 2(2,3) step by simp
    ultimately show ?thesis unfolding step by simp
  qed (use kind in simp_all)
qed

section \<open>Observations are valid models\<close>

lemma obs_codes: "is_blocker_code ''invalid_package_path''" "is_blocker_code ''unreadable_package_directory''"
  "is_blocker_code ''source_changed''" "is_blocker_code ''unsafe_package_file''" "is_blocker_code ''unreadable_package_file''"
  "is_blocker_code ''reference_depth_exceeded''" "is_blocker_code ''unsafe_package_directory''"
  "is_blocker_code ''package_depth_exceeded''" "is_blocker_code ''symlink_not_allowed''"
  "is_blocker_code ''unsupported_platform''" "is_blocker_code ''unreadable_package_root''"
  by code_simp+

lemma regular_file_ok: "observation_ok (regular_file parts name n)"
  by (cases n) (auto simp: invalid_name_def Let_def obs_codes text_simps portables_iff)

lemma visit_observations:
  shows "here \<noteq> [] \<and> portable (posix_path here) \<or> here = [] \<and> (\<exists>entries changed. n = Directory (Some entries) changed) \<Longrightarrow>
      list_all observation_ok (visit policy here depth n)"
    and "list_all observation_ok (visit_entry policy here depth e)"
proof (induction policy here depth n and policy here depth e rule: visit_visit_entry.induct)
  case (1 policy here depth n)
  then show ?case
    by (auto simp: visit.simps unreadable_directory_def source_changed_def obs_codes text_simps portables_iff list_all_iff
        split: node.splits option.splits)
next
  case (2 policy here depth e)
  show ?case
  proof (cases "fst e")
    case (RawName ns)
    then show ?thesis by (simp add: visit_entry.simps invalid_name_def obs_codes text_simps portables_iff)
  next
    case (Name s)
    show ?thesis
    proof (cases "refused_name (here @ [s]) s")
      case (Some r)
      then have "observation_ok r"
        by (auto simp: refused_name_def invalid_name_def unsafe_directory_def obs_codes text_simps portables_iff split: if_splits)
      then show ?thesis using Name Some by (simp add: visit_entry.simps)
    next
      case None
      then have path: "portable (posix_path (here @ [s]))" by (simp add: refused_name_iff)
      show ?thesis
        using 2 [of s "here @ [s]"] Name None path
        by (cases "snd e")
          (auto simp: visit_entry.simps Let_def depth_exceeded_def unreadable_directory_def reference_depth_def obs_codes
            text_simps portables_iff regular_file_ok simp del: regular_file.simps)
    qed
  qed
qed

section \<open>Paths are unique\<close>

text \<open>
  What the operating system guarantees of a listing: its names are distinct, and a name is not empty
  and has no slash.
\<close>

definition os_name :: "file_name \<Rightarrow> bool" where
  "os_name name = (is_text name \<longrightarrow> name_text name \<noteq> [] \<and> CHR ''/'' \<notin> set (name_text name))"

fun os_tree :: "node \<Rightarrow> bool" where
  "os_tree (Directory (Some entries) changed) =
     (distinct (map fst entries) \<and> (\<forall>e \<in> set entries. os_name (fst e) \<and> os_tree (snd e)))"
| "os_tree n = True"

lemma distinct_by_name [simp]: "distinct (map f (by_name entries)) \<longleftrightarrow> distinct (map f entries)"
proof -
  have "mset (map f (by_name entries)) = mset (map f entries)" by (simp add: by_name_def)
  then show ?thesis by (rule mset_eq_imp_distinct_iff)
qed

lemma posix_path_inject:
  assumes "posix_path as = posix_path bs" "as \<noteq> []" "bs \<noteq> []"
    and "\<forall>q \<in> set as. CHR ''/'' \<notin> set q" "\<forall>q \<in> set bs. CHR ''/'' \<notin> set q"
  shows "as = bs"
  using assms split_join by (metis posix_path_def)

definition slash_free :: "string list \<Rightarrow> bool" where
  "slash_free parts = (\<forall>q \<in> set parts. CHR ''/'' \<notin> set q)"

lemma slash_free_simps [simp]: "slash_free []" "slash_free (q # qs) \<longleftrightarrow> CHR ''/'' \<notin> set q \<and> slash_free qs"
    "slash_free (as @ bs) \<longleftrightarrow> slash_free as \<and> slash_free bs"
  by (auto simp: slash_free_def)

definition captured_below :: "string list \<Rightarrow> string \<times> byte list \<Rightarrow> bool" where
  "captured_below parts capture = (\<exists>rest. slash_free rest \<and> fst capture = posix_path (parts @ rest))"

lemma captured_regular_file: "c \<in> set (captured_of [regular_file parts name n]) \<Longrightarrow> fst c = posix_path parts"
  by (cases "regular_file parts name n") (auto simp: regular_file_captured simp del: regular_file.simps)

lemma captured_reference_depth [simp]: "captured_of (reference_depth policy parts) = []"
  by (simp add: reference_depth_def)

lemma captured_loud [simp]: "captured_of [invalid_name] = []" "captured_of [unsafe_directory parts] = []"
    "captured_of [depth_exceeded parts] = []" "captured_of [unreadable_directory parts] = []"
    "captured_of [source_changed parts] = []"
  by (simp_all add: invalid_name_def unsafe_directory_def depth_exceeded_def unreadable_directory_def source_changed_def)

lemma captured_refused [simp]: "refused_name parts name = Some r \<Longrightarrow> captured_of [r] = []"
  by (auto simp: refused_name_def split: if_splits)

text \<open>The captures of an entry, by its kind.\<close>

lemma entry_captures:
  "captured_of (visit_entry policy here depth (name, n)) \<noteq> [] \<Longrightarrow> \<exists>s. name = Name s \<and>
     (captured_of (visit_entry policy here depth (name, n)) = captured_of [regular_file (here @ [s]) s n]
      \<or> (\<exists>listing changed. n = Directory listing changed \<and> refused_name (here @ [s]) s = None
         \<and> \<not> MAX_PACKAGE_DIRECTORY_DEPTH \<le> depth
         \<and> captured_of (visit_entry policy here depth (name, n)) = captured_of (visit policy (here @ [s]) (depth + 1) n)))"
  by (cases name; cases "refused_name (here @ [name_text name]) (name_text name)"; cases n)
    (auto simp: visit_entry.simps Let_def simp del: regular_file.simps split: if_splits)

lemma distinct_concat_map:
  "distinct xs \<Longrightarrow> \<forall>x \<in> set xs. distinct (map g (f x)) \<Longrightarrow>
     \<forall>x \<in> set xs. \<forall>y \<in> set xs. x \<noteq> y \<longrightarrow> g ` set (f x) \<inter> g ` set (f y) = {} \<Longrightarrow>
   distinct (map g (concat (map f xs)))"
proof (induction xs)
  case (Cons x xs)
  then have "g ` set (f x) \<inter> (\<Union>y \<in> set xs. g ` set (f y)) = {}" by fastforce
  with Cons show ?case by (simp add: image_UN)
qed simp

lemma captured_below_inject:
  assumes "captured_below (here @ [s]) c" "captured_below (here @ [t]) d" "fst c = fst d"
    "slash_free here" "CHR ''/'' \<notin> set s" "CHR ''/'' \<notin> set t"
  shows "s = t"
proof -
  obtain as bs where "slash_free as" "slash_free bs" "posix_path (here @ s # as) = posix_path (here @ t # bs)"
    using assms(1-3) by (auto simp: captured_below_def)
  then have "here @ s # as = here @ t # bs"
    using assms(4-6) by (intro posix_path_inject) (auto simp: slash_free_def)
  then show ?thesis by simp
qed

lemma visit_paths:
  shows "os_tree n \<Longrightarrow> slash_free here \<Longrightarrow> distinct (map fst (captured_of (visit policy here depth n)))
      \<and> (\<forall>c \<in> set (captured_of (visit policy here depth n)). captured_below here c)"
    and "os_name (fst e) \<and> os_tree (snd e) \<Longrightarrow> slash_free here \<Longrightarrow>
      distinct (map fst (captured_of (visit_entry policy here depth e)))
      \<and> (\<forall>c \<in> set (captured_of (visit_entry policy here depth e)). captured_below (here @ [name_text (fst e)]) c \<and> is_text (fst e))"
proof (induction policy here depth n and policy here depth e rule: visit_visit_entry.induct)
  case (1 policy here depth n)
  show ?case
  proof (cases "\<exists>es c. n = Directory (Some es) c")
    case False
    then show ?thesis by (cases n) (auto simp: visit.simps split: option.splits)
  next
    case True
    then obtain es c where n: "n = Directory (Some es) c" by blast
    let ?f = "\<lambda>e. captured_of (visit_entry policy here depth e)"
    have captured: "captured_of (visit policy here depth n) = concat (map ?f (by_name es))"
      by (simp add: n visit.simps comp_def)
    have each: "distinct (map fst (?f e)) \<and> (\<forall>c \<in> set (?f e). captured_below (here @ [name_text (fst e)]) c \<and> is_text (fst e))"
      if "e \<in> set es" for e
      using 1(1) [of "Some es" c es e] 1(2,3) that n by auto
    have "fst ` set (?f x) \<inter> fst ` set (?f y) = {}" if x: "x \<in> set es" and y: "y \<in> set es" and "x \<noteq> y" for x y
    proof (rule ccontr)
      assume "fst ` set (?f x) \<inter> fst ` set (?f y) \<noteq> {}"
      then obtain c d where cd: "c \<in> set (?f x)" "d \<in> set (?f y)" "fst c = fst d" by fastforce
      have "os_name (fst x)" "os_name (fst y)" using 1(2) x y n by auto
      then have "name_text (fst x) = name_text (fst y)"
        using captured_below_inject [of here "name_text (fst x)" c "name_text (fst y)" d] each x y cd 1(3)
        by (auto simp: os_name_def)
      moreover have "is_text (fst x)" "is_text (fst y)" using each x y cd by blast+
      ultimately have "fst x = fst y" by (cases "fst x"; cases "fst y") simp_all
      moreover have "inj_on fst (set es)" using 1(2) n by (simp add: distinct_map)
      ultimately show False using x y \<open>x \<noteq> y\<close> by (meson inj_onD)
    qed
    moreover have "distinct (by_name es)" using 1(2) n distinct_by_name [of id es] by (simp add: distinct_map)
    ultimately have "distinct (map fst (concat (map ?f (by_name es))))"
      using each by (intro distinct_concat_map) auto
    moreover have "captured_below here d" if d: "d \<in> set (captured_of (visit policy here depth n))" for d
    proof -
      obtain e where e: "e \<in> set es" "d \<in> set (?f e)" using d captured by auto
      then have "CHR ''/'' \<notin> set (name_text (fst e))" using each [OF e(1)] 1(2) n by (auto simp: os_name_def)
      moreover obtain rest where "slash_free rest" "fst d = posix_path (here @ name_text (fst e) # rest)"
        using each [OF e(1)] e(2) by (auto simp: captured_below_def)
      ultimately show ?thesis
        unfolding captured_below_def by (intro exI [of _ "name_text (fst e) # rest"]) simp
    qed
    ultimately show ?thesis by (simp add: captured)
  qed
next
  case (2 policy here depth e)
  obtain name n where e: "e = (name, n)" by force
  let ?captures = "captured_of (visit_entry policy here depth (name, n))"
  have below: "captured_below parts c" if "fst c = posix_path parts" for parts c
    using that by (auto simp: captured_below_def intro: exI [of _ "[]"])
  show ?case
  proof (cases "?captures = []")
    case False
    from entry_captures [OF this] obtain s where s: "name = Name s" and
      "?captures = captured_of [regular_file (here @ [s]) s n]
       \<or> (\<exists>listing changed. n = Directory listing changed \<and> refused_name (here @ [s]) s = None
          \<and> \<not> MAX_PACKAGE_DIRECTORY_DEPTH \<le> depth \<and> ?captures = captured_of (visit policy (here @ [s]) (depth + 1) n))"
      by blast
    then show ?thesis
    proof (elim disjE exE conjE)
      assume leaf: "?captures = captured_of [regular_file (here @ [s]) s n]"
      then have "distinct (map fst ?captures)" by (cases "regular_file (here @ [s]) s n") simp_all
      then show ?thesis using captured_regular_file [of _ "here @ [s]" s n] below leaf by (simp add: e s)
    next
      fix listing changed
      assume "n = Directory listing changed" "refused_name (here @ [s]) s = None" "\<not> MAX_PACKAGE_DIRECTORY_DEPTH \<le> depth"
        "?captures = captured_of (visit policy (here @ [s]) (depth + 1) n)"
      then show ?thesis
        using 2(1) [of s "here @ [s]" listing changed] 2(2,3) by (simp add: e s os_name_def)
    qed
  qed (simp add: e)
qed

section \<open>The whole scan\<close>

text \<open>A root whose listing fails is the one tree on which the scan raises.\<close>

fun listable :: "package_tree \<Rightarrow> bool" where
  "listable (OpenedRoot None changed) = False"
| "listable tree = True"

fun os_package :: "package_tree \<Rightarrow> bool" where
  "os_package (OpenedRoot listing changed) = os_tree (Directory listing changed)"
| "os_package tree = True"

lemma observations_ok: "listable tree \<Longrightarrow> list_all observation_ok (observations policy tree)"
  by (cases tree rule: listable.cases) (auto simp: obs_codes text_simps portables_iff intro!: visit_observations)

lemma scan_parts:
  assumes "scan_files tree policy = Inr (files, findings, captured)"
  shows "captured = captured_of (observations policy tree)" "files = sort_key mf_path (map file_record captured)"
    "findings = [] \<longleftrightarrow> quiet (observations policy tree)"
  using assms gather_records by (auto simp: scan_files_def and_then_Inr_iff)

lemma scan_total:
  assumes "listable tree"
  obtains files findings captured where "scan_files tree policy = Inr (files, findings, captured)"
  using gather_total [OF observations_ok [OF assms, of policy]] by (auto simp: scan_files_def is_ok_iff)

lemma scan_distinct:
  assumes "scan_files tree policy = Inr (files, findings, captured)" "os_package tree"
  shows "distinct (map fst captured)" "distinct (map mf_path files)" "set files = file_record ` set captured"
proof -
  note parts = scan_parts [OF assms(1)]
  show "distinct (map fst captured)"
    using assms(2) visit_paths(1) [of _ "[]"] by (cases tree) (simp_all add: parts(1))
  then have "distinct (map mf_path (map file_record captured))" by (simp add: file_record_def comp_def)
  moreover have "mset (map mf_path files) = mset (map mf_path (map file_record captured))"
    by (simp add: parts(2) multiset.map_comp)
  ultimately show "distinct (map mf_path files)" using mset_eq_imp_distinct_iff by blast
  show "set files = file_record ` set captured" by (simp add: parts(2))
qed

lemma scan_quiet_iff:
  assumes "scan_files (OpenedRoot (Some entries) changed) policy = Inr (files, findings, captured)"
  shows "findings = [] \<longleftrightarrow> \<not> changed \<and> (\<forall>e \<in> set entries. \<forall>path n. place e path n \<longrightarrow> admitted policy [] path n)"
  using scan_parts(3) [OF assms] visit_quiet(1) [of _ entries changed 0 "[]"] by simp

lemma scan_captures:
  assumes "scan_files (OpenedRoot (Some entries) changed) policy = Inr (files, [], captured)"
  shows "(p, b) \<in> set captured \<longleftrightarrow>
    (\<exists>e \<in> set entries. \<exists>path. place e path (RegularFile b True) \<and> p = posix_path (map name_text path))"
  using scan_parts [OF assms] visit_captures(1) [of _ entries changed 0 "[]" policy p b] by simp

lemma unlistable_root_raises: "scan_files (OpenedRoot None changed) policy = Inl (ValidationError ''evidence_refs'')"
proof -
  have "\<not> portable ''.''" by code_simp
  moreover have "trim ''unreadable_package_directory'' = ''unreadable_package_directory''"
    "trim ''package directory must remain readable'' = ''package directory must remain readable''" by code_simp+
  ultimately show ?thesis
    by (simp add: scan_files_def visit.simps unreadable_directory_def posix_path_def skill_finding_def validate_model_def
        normalise_finding_def check_finding_def field_def obs_codes portables_iff)
qed

text \<open>The findings are valid blockers.\<close>

definition made_finding :: "SkillPackageFinding \<Rightarrow> bool" where
  "made_finding f = (normalise_finding f = f \<and> passes (check_finding f) \<and> kf_severity f = ValidationBlocker)"

lemma skill_finding_made: "skill_finding c m refs = Inr f \<Longrightarrow> made_finding f"
  by (auto simp: skill_finding_def finding_model.validate_ok_iff made_finding_def) (simp add: normalise_finding_def)

lemma gather_made: "gather os = Inr (files, findings, captured) \<Longrightarrow> list_all made_finding findings \<and> list_all (passes \<circ> check_file) files"
proof (induction os arbitrary: files findings captured rule: gather.induct)
  case (2 c m refs os)
  then obtain f fs where "skill_finding c m refs = Inr f" "gather os = Inr (files, fs, captured)" "findings = f # fs"
    by (auto simp: and_then_Inr_iff)
  with 2(1) skill_finding_made show ?case by simp
next
  case (3 path payload os)
  then obtain r rs cs where "validate_model normalise_file check_file (file_record (path, payload)) = Inr r"
    "gather os = Inr (rs, findings, cs)" "files = r # rs" by (auto simp: and_then_Inr_iff)
  with 3(1) file_model.validated_passes show ?case by auto
qed simp

lemma scan_made: "scan_files tree policy = Inr (files, findings, captured) \<Longrightarrow>
    list_all made_finding findings \<and> (\<forall>f \<in> set files. passes (check_file f) \<and> normalise_file f = f)"
  using gather_made gather_records by (fastforce simp: scan_files_def and_then_Inr_iff list_all_iff file_record_normal)

end
