(* ===== verification/Skill_Package.thy ===== *)
theory Skill_Package
  imports Package_Places
begin

text \<open>
  \<^verbatim>\<open>validation/skill_package.py\<close> over the scan, and \<^verbatim>\<open>packaging/manifest.py\<close>: the validation of a
  standalone skill and the build receipt made from it. The decoding of bytes, the JSON and YAML parsers
  and the YAML event stream are a parameter, \<open>text_library\<close>.

  A validation raises only for a root that cannot be listed and when the YAML parser exceeds the
  recursion limit (\<open>RecursionEscaped\<close>); the lemmas show that otherwise every outcome is a valid model, and that a built
  receipt passes its own validator.
\<close>

section \<open>The library\<close>

datatype yaml_event = CollectionStart | CollectionEnd | OtherEvent

text \<open>The events of a document, and whether parsing raises after them.\<close>

record text_library =
  tl_decode :: "byte list \<Rightarrow> string option"
  tl_decode_sig :: "byte list \<Rightarrow> string option"
  tl_json_parses :: "string \<Rightarrow> bool"
  tl_yaml_events :: "string \<Rightarrow> yaml_event list \<times> bool"
  tl_load :: yaml_loader

section \<open>Policy\<close>

definition policy_observations :: "SkillValidationPolicy \<Rightarrow> observation list" where
  "policy_observations policy =
     (if list_all portable (sp_required_files policy) \<and> \<not> has_duplicates (sp_required_files policy) then []
      else [Found ''invalid_validation_policy'' ''required files must be unique portable relative paths'' []])"

section \<open>References\<close>

definition MAX_REFERENCE_TEXT_BYTES :: nat where "MAX_REFERENCE_TEXT_BYTES = 8388608"

definition MAX_YAML_COLLECTION_DEPTH :: int where "MAX_YAML_COLLECTION_DEPTH = 128"

definition MAX_YAML_EVENTS :: int where "MAX_YAML_EVENTS = 100000"

definition TEXT_REFERENCE_SUFFIXES :: "string list" where
  "TEXT_REFERENCE_SUFFIXES =
     [''.md'', ''.markdown'', ''.mdown'', ''.mkd'', ''.mkdn'', ''.mdwn'', ''.mdtxt'', ''.mdtext'', ''.txt'',
      ''.json'', ''.yaml'', ''.yml'']"

fun depth_after :: "yaml_event \<Rightarrow> int \<Rightarrow> int" where
  "depth_after CollectionStart depth = depth + 1"
| "depth_after CollectionEnd depth = depth - 1"
| "depth_after OtherEvent depth = depth"

text \<open>\<open>None\<close>: the parser raised before the budget was exceeded.\<close>

fun events_within :: "int \<Rightarrow> int \<Rightarrow> yaml_event list \<Rightarrow> bool \<Rightarrow> bool option" where
  "events_within depth seen [] raises = (if raises then None else Some True)"
| "events_within depth seen (e # es) raises =
     (if depth_after e depth > MAX_YAML_COLLECTION_DEPTH \<or> seen + 1 > MAX_YAML_EVENTS then Some False
      else events_within (depth_after e depth) (seen + 1) es raises)"

definition yaml_within_work_budget :: "text_library \<Rightarrow> string \<Rightarrow> bool option" where
  "yaml_within_work_budget lib t = (case tl_yaml_events lib t of (events, raises) \<Rightarrow> events_within 0 0 events raises)"

definition reference_observations :: "text_library \<Rightarrow> string \<Rightarrow> byte list \<Rightarrow> observation list" where
  "reference_observations lib path payload =
     (let suffix = lower (path_suffix path);
          invalid = Found ''invalid_reference_format'' ''structured reference must be parseable'' [path] in
      if suffix \<notin> set TEXT_REFERENCE_SUFFIXES then []
      else if length payload > MAX_REFERENCE_TEXT_BYTES
      then [Found ''reference_content_limit'' ''textual reference exceeds the eight MiB parsing limit'' [path]]
      else (case tl_decode_sig lib payload of
          None \<Rightarrow> [Found ''invalid_reference_utf8'' ''textual reference must be UTF-8'' [path]]
        | Some t \<Rightarrow>
            if strip t = [] then [Found ''empty_reference'' ''textual reference must contain content'' [path]]
            else if suffix = ''.json'' then (if tl_json_parses lib t then [] else [invalid])
            else if suffix \<in> {''.yaml'', ''.yml''} then
              (case yaml_within_work_budget lib t of
                 None \<Rightarrow> [invalid]
               | Some True \<Rightarrow> []
               | Some False \<Rightarrow> [Found ''reference_content_limit'' ''YAML reference exceeds the syntax work budget'' [path]])
            else []))"

definition package_policy_observations ::
  "text_library \<Rightarrow> (string \<times> byte list) list \<Rightarrow> SkillValidationPolicy \<Rightarrow> observation list" where
  "package_policy_observations lib captured policy =
     map (\<lambda>path. Found ''required_file_missing'' ''selected policy requires a readable regular file'' [path])
       [path \<leftarrow> sp_required_files policy. path \<notin> fst ` set captured]
     @ (if sp_check_reference_content policy
        then concat (map (\<lambda>(path, payload). if starts_with path ''references/'' then reference_observations lib path payload else [])
               (sort_key fst captured))
        else [])"

section \<open>The entry point\<close>

text \<open>\<^verbatim>\<open>sorted(set(ir.frontmatter) - policy.allowed_frontmatter)\<close>\<close>

definition unknown_keys :: "SkillIR \<Rightarrow> SkillValidationPolicy \<Rightarrow> string list" where
  "unknown_keys ir policy =
     sort (remdups [k \<leftarrow> map fst (ir_frontmatter ir). k \<notin> set (sp_allowed_frontmatter policy)])"

fun join_comma :: "string list \<Rightarrow> string" where
  "join_comma [] = []"
| "join_comma [k] = k"
| "join_comma (k # ks) = k @ '', '' @ join_comma ks"

definition skill_md :: "string \<Rightarrow> string \<Rightarrow> observation" where
  "skill_md finding_code message = Found finding_code message [''SKILL.md'']"

definition ir_observations :: "file_name \<Rightarrow> string \<Rightarrow> SkillIR \<Rightarrow> SkillValidationPolicy \<Rightarrow> observation list" where
  "ir_observations directory t ir policy =
     (if \<not> ir_name_declared ir then [skill_md ''missing_name'' ''SKILL.md frontmatter requires a non-empty name'']
      else if ir_name ir \<noteq> directory then [skill_md ''name_mismatch'' ''skill name must match the package directory'']
      else [])
     @ (if ir_description ir = [] then [skill_md ''missing_description'' ''SKILL.md frontmatter requires a description''] else [])
     @ (if unknown_keys ir policy \<noteq> []
        then [skill_md ''unknown_frontmatter'' (''unsupported frontmatter keys: '' @ join_comma (unknown_keys ir policy))] else [])
     @ (case sp_max_entrypoint_lines policy of
          None \<Rightarrow> []
        | Some limit \<Rightarrow>
            let line_count = int (length (splitlines t)) in
            if line_count > limit
            then [skill_md ''entrypoint_line_budget_exceeded''
                    (''SKILL.md has '' @ show_int line_count @ '' lines; configured limit is '' @ show_int limit)]
            else [])"

text \<open>\<open>_validate_ir\<close>: a directory whose name is not text never equals a declared name.\<close>

definition validate_ir :: "file_name \<Rightarrow> string \<Rightarrow> SkillIR \<Rightarrow> SkillValidationPolicy \<Rightarrow> SkillIdentity option \<times> observation list" where
  "validate_ir directory t ir policy =
     (let findings = ir_observations directory t ir policy in
      case ir_name ir of
        Name name \<Rightarrow>
          if ir_name_declared ir \<and> name \<noteq> [] \<and> ir_description ir \<noteq> [] \<and> ir_name ir = directory then
            (case validate_model normalise_skill check_skill
                  \<lparr>si_package_id = name, si_name = name, si_version = ir_version ir\<rparr> of
               Inr identity \<Rightarrow> (Some identity, findings)
             | Inl e \<Rightarrow> (None, findings @ [skill_md ''invalid_identity'' ''skill name or version is invalid'']))
          else (None, findings)
      | RawName ns \<Rightarrow> (None, findings))"

datatype skill_error = Raised py_error | RecursionEscaped

type_synonym 'a skill = "skill_error + 'a"

definition lift_skill :: "'a result \<Rightarrow> 'a skill" where
  "lift_skill r = (case r of Inl e \<Rightarrow> Inl (Raised e) | Inr x \<Rightarrow> Inr x)"

definition bind_skill :: "'a skill \<Rightarrow> ('a \<Rightarrow> 'b skill) \<Rightarrow> 'b skill" where
  "bind_skill r f = (case r of Inl e \<Rightarrow> Inl e | Inr x \<Rightarrow> f x)"

definition invalid_yaml :: "SkillIdentity option \<times> observation list" where
  "invalid_yaml = (None, [skill_md ''invalid_frontmatter'' ''SKILL.md frontmatter must be valid YAML''])"

fun handle_ir :: "ir_error + 'a \<Rightarrow> ('a \<Rightarrow> (SkillIdentity option \<times> observation list) skill)
    \<Rightarrow> (SkillIdentity option \<times> observation list) skill" where
  "handle_ir (Inl Caught) f = Inr invalid_yaml"
| "handle_ir (Inl Recursion) f = Inl RecursionEscaped"
| "handle_ir (Inr x) f = f x"

definition captured_skill_identity ::
  "text_library \<Rightarrow> file_name \<Rightarrow> byte list option \<Rightarrow> SkillValidationPolicy \<Rightarrow> (SkillIdentity option \<times> observation list) skill" where
  "captured_skill_identity lib directory payload policy =
     (case payload of
        None \<Rightarrow> Inr (None, [skill_md ''unreadable_skill_md'' ''SKILL.md must remain a readable regular file''])
      | Some bytes \<Rightarrow>
          (case tl_decode lib bytes of
             None \<Rightarrow> Inr (None, [skill_md ''invalid_utf8'' ''SKILL.md must be UTF-8''])
           | Some t \<Rightarrow>
               handle_ir (read_frontmatter (tl_load lib) t) (\<lambda>m.
                 if \<not> fm_closed m
                 then Inr (None, [skill_md ''invalid_frontmatter'' ''SKILL.md requires closed frontmatter''])
                 else handle_ir (build_skill_ir (tl_load lib) directory t) (\<lambda>ir.
                   Inr (validate_ir directory t ir policy)))))"

section \<open>validate_skill_package\<close>

text \<open>
  What the validation sees of the root: its name, whether it is a directory and not a link, whether it
  has a regular \<^verbatim>\<open>SKILL.md\<close>, and the tree of the later scan.
\<close>

record package_root =
  root_name :: file_name
  root_is_directory :: bool
  root_has_skill_md :: bool
  root_tree :: package_tree

text \<open>\<^verbatim>\<open>name.encode("utf-8", errors="surrogateescape")\<close> on code points.\<close>

definition escaped_point :: "nat \<Rightarrow> byte list" where
  "escaped_point n =
     (if 0xDC80 \<le> n \<and> n \<le> 0xDCFF then [of_nat (n - 0xDC00)]
      else if n < 0x80 then [of_nat n]
      else if n < 0x800 then [of_nat (0xC0 + n div 64), of_nat (0x80 + n mod 64)]
      else if n < 0x10000 then [of_nat (0xE0 + n div 4096), of_nat (0x80 + n div 64 mod 64), of_nat (0x80 + n mod 64)]
      else [of_nat (0xF0 + n div 262144), of_nat (0x80 + n div 4096 mod 64), of_nat (0x80 + n div 64 mod 64),
            of_nat (0x80 + n mod 64)])"

fun directory_package_id :: "file_name \<Rightarrow> string \<Rightarrow> string" where
  "directory_package_id (Name s) digest = candidate_package_id s digest"
| "directory_package_id (RawName ns) digest =
     ''invalid-package-'' @ take 6 (sha256 (concat (map escaped_point ns))) @ ''-'' @ take 12 digest"

definition candidate_of :: "file_name \<Rightarrow> string \<Rightarrow> PackageManifestFile list \<Rightarrow> PackageCandidateIdentity result" where
  "candidate_of directory revision files =
     (let digest = candidate_content_sha256 (digest_files files) in
      validate_model normalise_candidate check_candidate
        \<lparr>package_id = directory_package_id directory digest, source_revision = revision,
         content_sha256 = digest\<rparr>)"

definition root_observations :: "file_name \<Rightarrow> observation list" where
  "root_observations directory =
     (if is_text directory then []
      else [Found ''invalid_package_path'' ''package directory name must be valid UTF-8'' []])
     @ (case directory of
          Name s \<Rightarrow> if is_identifier s then [] else
            [Found ''invalid_package_root'' ''package directory must use a portable package identifier'' []]
        | RawName ns \<Rightarrow> [Found ''invalid_package_root'' ''package directory must use a portable package identifier'' []])"

definition revision_observations :: "string \<Rightarrow> observation list" where
  "revision_observations revision =
     (if is_git_revision revision then []
      else [Found ''invalid_source_revision''
              ''source revision must be a 40-character lowercase hexadecimal digest'' []])"

text \<open>The findings of a list of observations that captures nothing.\<close>

definition findings_of :: "observation list \<Rightarrow> SkillPackageFinding list skill" where
  "findings_of os = lift_skill (and_then (gather os) (\<lambda>(files, findings, captured). Inr findings))"

text \<open>Files, findings and identity of a root, after the check of the revision.\<close>

definition inspect_root ::
  "text_library \<Rightarrow> package_root \<Rightarrow> SkillValidationPolicy
   \<Rightarrow> (PackageManifestFile list \<times> SkillPackageFinding list \<times> SkillIdentity option) skill" where
  "inspect_root lib root policy =
     (if \<not> root_is_directory root then
        bind_skill (findings_of [Found ''invalid_package_root'' ''package root must be a regular directory'' []])
          (\<lambda>findings. Inr ([], findings, None))
      else
        bind_skill (findings_of (root_observations (root_name root))) (\<lambda>named.
        if \<not> root_has_skill_md root then
          bind_skill (findings_of [skill_md ''missing_skill_md'' ''package requires a regular SKILL.md''])
            (\<lambda>findings. Inr ([], named @ findings, None))
        else
          bind_skill (lift_skill (scan_files (root_tree root) policy)) (\<lambda>(files, scanned, captured).
          bind_skill (findings_of (package_policy_observations lib captured policy)) (\<lambda>selected.
          bind_skill (captured_skill_identity lib (root_name root) (map_of captured ''SKILL.md'') policy) (\<lambda>(identity, os).
          bind_skill (findings_of os) (\<lambda>authored.
            Inr (files, named @ scanned @ selected @ authored, identity)))))))"

definition validation_result ::
  "PackageCandidateIdentity option \<Rightarrow> SkillIdentity option \<Rightarrow> PackageManifestFile list \<Rightarrow> SkillPackageFinding list
   \<Rightarrow> SkillPackageValidation result" where
  "validation_result candidate identity files findings =
     validate_model normalise_validation check_validation
       \<lparr>kv_candidate = candidate,
        kv_status = (if \<exists>f \<in> set findings. kf_severity f = ValidationBlocker then ValidationBlocked else ValidationPass),
        kv_identity = identity, kv_files = files, kv_findings = findings\<rparr>"

definition validate_skill_package ::
  "text_library \<Rightarrow> package_root \<Rightarrow> string \<Rightarrow> SkillValidationPolicy option \<Rightarrow> SkillPackageValidation skill" where
  "validate_skill_package lib root revision policy =
     (let active = (case policy of None \<Rightarrow> default_skill_policy | Some p \<Rightarrow> p) in
      bind_skill (findings_of (policy_observations active)) (\<lambda>refused.
      if refused \<noteq> [] then lift_skill (validation_result None None [] refused)
      else
        bind_skill (findings_of (revision_observations revision)) (\<lambda>unbound.
        bind_skill (inspect_root lib root active) (\<lambda>(files, findings, identity).
        bind_skill (if is_git_revision revision
                    then bind_skill (lift_skill (candidate_of (root_name root) revision files)) (Inr \<circ> Some)
                    else Inr None) (\<lambda>candidate.
          lift_skill (validation_result candidate identity files (unbound @ findings)))))))"

section \<open>build_skill_package\<close>

definition receipt_id_of :: "PackageCandidateIdentity \<Rightarrow> string" where
  "receipt_id_of c = package_id c @ ''-'' @ take 16 (content_sha256 c)"

definition blocked_receipt_id :: "SkillPackageValidation \<Rightarrow> string" where
  "blocked_receipt_id v = ''blocked-'' @ take 16 (canonical_json_sha256 (validation_json v))"

definition evidence_of :: "SkillPackageValidation \<Rightarrow> string list" where
  "evidence_of v = (if kv_files v = [] then [''SKILL.md''] else map mf_path (kv_files v))"

definition blocked_build :: "SkillPackageValidation \<Rightarrow> SkillPackageFinding \<Rightarrow> int \<Rightarrow> int \<Rightarrow> PackageReceipt result" where
  "blocked_build v finding started_at finished_at =
     and_then (validate_model normalise_blocker check_blocker
         \<lparr>rb_code = kf_code finding, rb_message = kf_message finding, rb_evidence_refs = kf_evidence_refs finding\<rparr>) (\<lambda>b.
       validate_model normalise_receipt check_receipt
         \<lparr>pr_schema_version = ReceiptV2,
          pr_receipt_id = (case kv_candidate v of Some c \<Rightarrow> receipt_id_of c | None \<Rightarrow> blocked_receipt_id v),
          pr_candidate = kv_candidate v, pr_status = BuildBlocked, pr_started_at = started_at,
          pr_finished_at = finished_at, pr_evidence = evidence_of v, pr_blocker = Some b, pr_package_digest = None,
          pr_manifest = None, pr_included_files = [], pr_excluded_files = []\<rparr>)"

definition built_manifest :: "PackageCandidateIdentity \<Rightarrow> SkillIdentity \<Rightarrow> PackageManifestFile list \<Rightarrow> PackageManifest" where
  "built_manifest c identity files =
     \<lparr>pm_candidate = c, pm_version = si_version identity, pm_files = files,
      pm_provenance = \<lparr>pmp_source = [''SKILL.md''], pmp_builder = MANIFEST_BUILDER\<rparr>\<rparr>"

definition built_receipt :: "SkillPackageValidation \<Rightarrow> PackageCandidateIdentity \<Rightarrow> SkillIdentity \<Rightarrow> int \<Rightarrow> int \<Rightarrow> PackageReceipt result" where
  "built_receipt v c identity started_at finished_at =
     and_then (validate_model normalise_manifest check_manifest (built_manifest c identity (kv_files v))) (\<lambda>manifest.
       validate_model normalise_receipt check_receipt
         \<lparr>pr_schema_version = ReceiptV2, pr_receipt_id = receipt_id_of c, pr_candidate = Some c, pr_status = Built,
          pr_started_at = started_at, pr_finished_at = finished_at, pr_evidence = evidence_of v, pr_blocker = None,
          pr_package_digest = Some (canonical_json_sha256 (manifest_json manifest)), pr_manifest = Some manifest,
          pr_included_files = evidence_of v, pr_excluded_files = []\<rparr>)"

text \<open>The clock is read before the validation and when the receipt is made.\<close>

definition build_skill_package ::
  "text_library \<Rightarrow> package_root \<Rightarrow> string \<Rightarrow> SkillValidationPolicy option \<Rightarrow> int \<Rightarrow> int \<Rightarrow> PackageReceipt skill" where
  "build_skill_package lib root revision policy started_at finished_at =
     bind_skill (validate_skill_package lib root revision policy) (\<lambda>v.
       if kv_status v = ValidationBlocked
       then lift_skill (blocked_build v (hd (kv_findings v)) started_at finished_at)
       else (case (kv_candidate v, kv_identity v) of
               (Some c, Some identity) \<Rightarrow> lift_skill (built_receipt v c identity started_at finished_at)
             | _ \<Rightarrow> Inl (Raised AssertErr)))"

end
