(* ===== verification/Skill_Build.thy ===== *)
theory Skill_Build
  imports Skill_Package
begin

text \<open>
  The properties of validation and build. \<open>validation_total\<close>: given what the operating system guarantees
  of listings, validating a package never raises except on the two escapes of \<open>Skill_Package\<close>, and the
  result passes exactly when nothing was found. \<open>build_total\<close>: the receipt then is a valid version 2
  receipt, built exactly when the validation passes. \<open>built_tree\<close> says what a built receipt proves of
  the tree it was made from.
\<close>

section \<open>Raising\<close>

lemma bind_skill_simps [simp]: "bind_skill (Inl e) f = Inl e" "bind_skill (Inr x) f = f x"
  by (simp_all add: bind_skill_def)

lemma lift_skill_simps [simp]: "lift_skill (Inl e) = Inl (Raised e)" "lift_skill (Inr x) = Inr x"
  by (simp_all add: lift_skill_def)

lemma bind_skill_Inr: "bind_skill r f = Inr y \<longleftrightarrow> (\<exists>x. r = Inr x \<and> f x = Inr y)"
  by (cases r) simp_all

lemma lift_skill_Inr: "lift_skill r = Inr y \<longleftrightarrow> r = Inr y"
  by (cases r) simp_all

section \<open>Findings\<close>

definition silent :: "observation list \<Rightarrow> bool" where
  "silent os = (captured_of os = [])"

lemma findings_of_Inr:
  assumes "findings_of os = Inr fs" "silent os"
  shows "list_all made_finding fs" "fs = [] \<longleftrightarrow> os = []"
proof -
  obtain files captured where g: "gather os = Inr (files, fs, captured)"
    using assms(1) by (auto simp: findings_of_def lift_skill_Inr and_then_Inr_iff)
  have "quiet os \<longleftrightarrow> os = []" using assms(2) by (cases os rule: quiet.cases) (simp_all add: silent_def)
  then show "list_all made_finding fs" "fs = [] \<longleftrightarrow> os = []" using gather_made [OF g] gather_records [OF g] by auto
qed

lemma findings_of_ok:
  assumes "list_all observation_ok os" "silent os"
  obtains fs where "findings_of os = Inr fs" "list_all made_finding fs" "fs = [] \<longleftrightarrow> os = []"
proof -
  obtain files fs captured where "gather os = Inr (files, fs, captured)"
    using gather_total [OF assms(1)] by (auto simp: is_ok_iff)
  then have "findings_of os = Inr fs" by (simp add: findings_of_def)
  then show thesis using that findings_of_Inr [OF _ assms(2)] by blast
qed

lemma silent_simps [simp]: "silent []" "silent (Found c m refs # os) \<longleftrightarrow> silent os" "silent (as @ bs) \<longleftrightarrow> silent as \<and> silent bs"
    "silent (skill_md c m # os) \<longleftrightarrow> silent os"
  by (simp_all add: silent_def skill_md_def)

lemma silent_concat [simp]: "silent (concat xss) \<longleftrightarrow> list_all silent xss"
  by (induction xss) simp_all

lemma silent_map_Found [simp]: "silent (map (\<lambda>x. Found (c x) (m x) (r x)) xs)"
  by (induction xs) simp_all

lemma entry_codes: "is_blocker_code ''invalid_validation_policy''" "is_blocker_code ''reference_content_limit''"
  "is_blocker_code ''invalid_reference_utf8''" "is_blocker_code ''empty_reference''" "is_blocker_code ''invalid_reference_format''"
  "is_blocker_code ''required_file_missing''" "is_blocker_code ''missing_name''" "is_blocker_code ''name_mismatch''"
  "is_blocker_code ''missing_description''" "is_blocker_code ''unknown_frontmatter''"
  "is_blocker_code ''entrypoint_line_budget_exceeded''" "is_blocker_code ''invalid_identity''"
  "is_blocker_code ''invalid_frontmatter''" "is_blocker_code ''unreadable_skill_md''" "is_blocker_code ''invalid_utf8''"
  "is_blocker_code ''invalid_package_root''" "is_blocker_code ''invalid_source_revision''" "is_blocker_code ''missing_skill_md''"
  "portable ''SKILL.md''"
  by code_simp+

lemmas observed = entry_codes obs_codes text_simps portables_iff

lemma skill_md_ok: "is_blocker_code c \<Longrightarrow> trim m \<noteq> [] \<Longrightarrow> observation_ok (skill_md c m)"
  by (simp add: skill_md_def observed)

lemma policy_observations_ok: "list_all observation_ok (policy_observations policy)" "silent (policy_observations policy)"
  by (simp_all add: policy_observations_def observed)

lemma revision_observations_ok: "list_all observation_ok (revision_observations revision)" "silent (revision_observations revision)"
  by (simp_all add: revision_observations_def observed)

lemma root_observations_ok: "list_all observation_ok (root_observations directory)" "silent (root_observations directory)"
  by (cases directory; simp add: root_observations_def observed)+

lemma root_observations_Nil: "root_observations directory = [] \<longleftrightarrow> (\<exists>s. directory = Name s \<and> is_identifier s)"
  by (cases directory) (simp_all add: root_observations_def)

lemma reference_observations_ok:
  "portable path \<Longrightarrow> list_all observation_ok (reference_observations lib path payload)"
  "silent (reference_observations lib path payload)"
  by (auto simp: reference_observations_def Let_def observed split: option.splits bool.splits)

lemma package_policy_observations_ok:
  assumes "list_all portable (sp_required_files policy)" "\<forall>c \<in> set captured. portable (fst c)"
  shows "list_all observation_ok (package_policy_observations lib captured policy)"
    "silent (package_policy_observations lib captured policy)"
  using assms reference_observations_ok
  by (auto simp: package_policy_observations_def observed list_all_iff)

lemma ir_observations_ok: "list_all observation_ok (ir_observations directory t ir policy)" "silent (ir_observations directory t ir policy)"
  by (auto simp: ir_observations_def Let_def observed skill_md_def split: option.splits)

section \<open>The identity\<close>

text \<open>The outcome of the entry point: an identity for the directory, or something was found.\<close>

definition authored :: "file_name \<Rightarrow> SkillIdentity option \<Rightarrow> observation list \<Rightarrow> bool" where
  "authored directory identity os \<longleftrightarrow>
     list_all observation_ok os \<and> silent os
     \<and> (case identity of None \<Rightarrow> os \<noteq> []
        | Some i \<Rightarrow> passes (check_skill i) \<and> normalise_skill i = i \<and> (\<exists>name. directory = Name name \<and> si_package_id i = name))"

lemma validate_ir_authored:
  assumes "ir_name_declared ir \<Longrightarrow> \<exists>s. ir_name ir = Name s \<and> s \<noteq> [] \<and> trim s = s"
  shows "case validate_ir directory t ir policy of (identity, os) \<Rightarrow> authored directory identity os"
proof (cases "\<exists>name. ir_name ir = Name name \<and> ir_name_declared ir \<and> name \<noteq> [] \<and> ir_description ir \<noteq> [] \<and> ir_name ir = directory")
  case True
  then obtain name where name: "ir_name ir = Name name" "ir_name_declared ir" "name \<noteq> []" "ir_description ir \<noteq> []"
    "directory = Name name" by blast
  let ?i = "\<lparr>si_package_id = name, si_name = name, si_version = ir_version ir\<rparr>"
  show ?thesis
  proof (cases "validate_model normalise_skill check_skill ?i")
    case (Inl e)
    then show ?thesis using name by (simp add: validate_ir_def Let_def authored_def ir_observations_ok skill_md_ok observed)
  next
    case (Inr i)
    then have "normalise_skill i = i" "passes (check_skill i)"
      by (rule skill_identity_model.validated_is_normal, rule skill_identity_model.validated_passes)
    moreover have "trim name = name" using assms name(1,2) by auto
    then have "si_package_id i = name"
      using Inr unfolding skill_identity_model.validate_ok_iff by (simp add: normalise_skill_def)
    moreover have "validate_ir directory t ir policy = (Some i, ir_observations directory t ir policy)"
      using name Inr by (simp add: validate_ir_def Let_def)
    ultimately show ?thesis using name(5) by (simp add: authored_def ir_observations_ok)
  qed
next
  case False
  then have "validate_ir directory t ir policy = (None, ir_observations directory t ir policy)"
    by (auto simp: validate_ir_def Let_def split: file_name.splits)
  moreover have "ir_observations directory t ir policy \<noteq> []"
    using False assms by (auto simp: ir_observations_def)
  ultimately show ?thesis by (simp add: authored_def ir_observations_ok)
qed

lemma authored_missing: "is_blocker_code c \<Longrightarrow> trim m \<noteq> [] \<Longrightarrow> authored directory None [skill_md c m]"
  by (simp add: authored_def skill_md_ok)

definition loader_returns :: "text_library \<Rightarrow> bool" where
  "loader_returns lib = (\<forall>t. tl_load lib t \<noteq> Inl Recursion)"

lemma read_frontmatter_returns: "loader_returns lib \<Longrightarrow> read_frontmatter (tl_load lib) t \<noteq> Inl Recursion"
  by (auto simp: loader_returns_def read_frontmatter_def load_matter_def Let_def
      split: list.splits sum.splits yaml.splits if_splits)

lemma build_skill_ir_returns: "loader_returns lib \<Longrightarrow> build_skill_ir (tl_load lib) directory t \<noteq> Inl Recursion"
  using read_frontmatter_returns by (auto simp: build_skill_ir_def Let_def split: sum.splits if_splits)

lemma handle_ir_rule:
  "P (Inr invalid_yaml) \<Longrightarrow> (r = Inl Recursion \<Longrightarrow> P (Inl RecursionEscaped)) \<Longrightarrow> (\<And>x. r = Inr x \<Longrightarrow> P (f x)) \<Longrightarrow> P (handle_ir r f)"
  by (cases "(r, f)" rule: handle_ir.cases) simp_all

definition authored_outcome :: "file_name \<Rightarrow> (SkillIdentity option \<times> observation list) skill \<Rightarrow> bool" where
  "authored_outcome directory y = (case y of Inl e \<Rightarrow> e = RecursionEscaped | Inr (identity, os) \<Rightarrow> authored directory identity os)"

lemma captured_identity_outcome: "authored_outcome directory (captured_skill_identity lib directory payload policy)"
proof -
  have yaml: "authored_outcome directory (Inr invalid_yaml)" "authored_outcome directory (Inl RecursionEscaped)"
    by (simp_all add: authored_outcome_def invalid_yaml_def authored_missing observed)
  have made: "authored_outcome directory (handle_ir (build_skill_ir (tl_load lib) directory t) (\<lambda>ir. Inr (validate_ir directory t ir policy)))"
    for t
  proof (rule handle_ir_rule)
    fix ir
    assume ir: "build_skill_ir (tl_load lib) directory t = Inr ir"
    have "\<exists>s. ir_name ir = Name s \<and> s \<noteq> [] \<and> trim s = s" if "ir_name_declared ir"
      using declared_name_text [OF ir that] trim_if_stripped strip_idem by metis
    then show "authored_outcome directory (Inr (validate_ir directory t ir policy))"
      using validate_ir_authored [of ir directory t policy] by (simp add: authored_outcome_def)
  qed (rule yaml)+
  have matter: "authored_outcome directory (handle_ir (read_frontmatter (tl_load lib) t) (\<lambda>m.
      if \<not> fm_closed m then Inr (None, [skill_md ''invalid_frontmatter'' ''SKILL.md requires closed frontmatter''])
      else handle_ir (build_skill_ir (tl_load lib) directory t) (\<lambda>ir. Inr (validate_ir directory t ir policy))))" for t
    by (rule handle_ir_rule) (use yaml made in \<open>simp_all add: authored_outcome_def authored_missing observed\<close>)
  show ?thesis
    unfolding captured_skill_identity_def
    using matter by (auto simp: authored_outcome_def authored_missing observed split: option.splits)
qed

lemma handle_ir_returns: "r \<noteq> Inl Recursion \<Longrightarrow> (\<And>x. f x \<noteq> Inl e) \<Longrightarrow> handle_ir r f \<noteq> Inl e"
  by (rule handle_ir_rule [of "\<lambda>y. y \<noteq> Inl e"]) simp_all

lemma captured_identity_returns:
  assumes "loader_returns lib"
  shows "captured_skill_identity lib directory payload policy \<noteq> Inl e"
proof -
  note returns = handle_ir_returns read_frontmatter_returns [OF assms] build_skill_ir_returns [OF assms]
  have "handle_ir (build_skill_ir (tl_load lib) directory t) (\<lambda>ir. Inr (validate_ir directory t ir policy)) \<noteq> Inl e" for t
    by (intro returns) simp
  then have "handle_ir (read_frontmatter (tl_load lib) t) (\<lambda>m.
      if \<not> fm_closed m then Inr (None, [skill_md ''invalid_frontmatter'' ''SKILL.md requires closed frontmatter''])
      else handle_ir (build_skill_ir (tl_load lib) directory t) (\<lambda>ir. Inr (validate_ir directory t ir policy))) \<noteq> Inl e" for t
    by (intro returns) simp
  then show ?thesis unfolding captured_skill_identity_def by (simp split: option.splits)
qed

lemma captured_identity_total:
  assumes "loader_returns lib"
  obtains identity os where "captured_skill_identity lib directory payload policy = Inr (identity, os)" "authored directory identity os"
  using captured_identity_outcome [of directory lib payload policy] captured_identity_returns [OF assms, of directory payload policy] that
  by (cases "captured_skill_identity lib directory payload policy") (auto simp: authored_outcome_def)

text \<open>
  The parser's recursion limit is not among the errors the entry point handles: front matter nested
  beyond it makes the validation raise, where any other invalid front matter is a finding.
\<close>

lemma deep_front_matter_escapes:
  assumes "tl_decode lib payload = Some t" "read_frontmatter (tl_load lib) t = Inl Recursion"
  shows "captured_skill_identity lib directory (Some payload) policy = Inl RecursionEscaped"
  using assms by (simp add: captured_skill_identity_def)

section \<open>Inspecting a root\<close>

definition identified :: "file_name \<Rightarrow> SkillIdentity option \<Rightarrow> bool" where
  "identified directory identity = (case identity of None \<Rightarrow> True
     | Some i \<Rightarrow> passes (check_skill i) \<and> normalise_skill i = i \<and> (\<exists>name. directory = Name name \<and> si_package_id i = name))"

text \<open>What is known of an inspection, and what more when nothing was found.\<close>

definition inspected :: "PackageManifestFile list \<Rightarrow> SkillPackageFinding list \<Rightarrow> SkillIdentity option \<Rightarrow> package_root \<Rightarrow> bool" where
  "inspected files findings identity root \<longleftrightarrow>
     list_all made_finding findings \<and> distinct (map mf_path files) \<and> sorted (map mf_path files)
     \<and> (\<forall>f \<in> set files. passes (check_file f) \<and> normalise_file f = f) \<and> identified (root_name root) identity"

definition accepted_root :: "text_library \<Rightarrow> package_root \<Rightarrow> SkillValidationPolicy \<Rightarrow> PackageManifestFile list
    \<Rightarrow> SkillIdentity option \<Rightarrow> (string \<times> byte list) list \<Rightarrow> bool" where
  "accepted_root lib root policy files identity captured \<longleftrightarrow>
     root_is_directory root \<and> root_has_skill_md root \<and> (\<exists>name. root_name root = Name name \<and> is_identifier name)
     \<and> scan_files (root_tree root) policy = Inr (files, [], captured)
     \<and> package_policy_observations lib captured policy = []
     \<and> captured_skill_identity lib (root_name root) (map_of captured ''SKILL.md'') policy = Inr (identity, [])"

lemma findings_made: "findings_of os = Inr fs \<Longrightarrow> list_all made_finding fs"
  using gather_made by (fastforce simp: findings_of_def lift_skill_Inr and_then_Inr_iff)

lemma authored_identified: "authored directory identity os \<Longrightarrow> identified directory identity"
  by (cases identity) (auto simp: authored_def identified_def)

lemma scan_captured_portable:
  assumes "scan_files tree policy = Inr (files, findings, captured)" "os_package tree"
  shows "\<forall>c \<in> set captured. portable (fst c)"
  using scan_made [OF assms(1)] scan_distinct(3) [OF assms] by (auto simp: check_file_iff file_record_def)

lemma inspect_scanned:
  assumes "root_is_directory root" "root_has_skill_md root"
  shows "inspect_root lib root policy = Inr (files, findings, identity) \<longleftrightarrow>
    (\<exists>named scanned captured selected os written.
       findings_of (root_observations (root_name root)) = Inr named
       \<and> scan_files (root_tree root) policy = Inr (files, scanned, captured)
       \<and> findings_of (package_policy_observations lib captured policy) = Inr selected
       \<and> captured_skill_identity lib (root_name root) (map_of captured ''SKILL.md'') policy = Inr (identity, os)
       \<and> findings_of os = Inr written \<and> findings = named @ scanned @ selected @ written)"
  using assms by (auto simp: inspect_root_def bind_skill_Inr lift_skill_Inr)

lemma inspect_facts:
  assumes "inspect_root lib root policy = Inr (files, findings, identity)"
    and os: "os_package (root_tree root)" and req: "list_all portable (sp_required_files policy)"
  shows "inspected files findings identity root"
    and "findings = [] \<longleftrightarrow> (\<exists>captured. accepted_root lib root policy files identity captured)"
proof -
  consider "\<not> root_is_directory root" | "root_is_directory root" "\<not> root_has_skill_md root"
    | "root_is_directory root" "root_has_skill_md root" by blast
  then have "inspected files findings identity root
      \<and> (findings = [] \<longleftrightarrow> (\<exists>captured. accepted_root lib root policy files identity captured))"
  proof cases
    case 1
    then show ?thesis
      using assms(1) findings_of_Inr [of "[Found ''invalid_package_root'' ''package root must be a regular directory'' []]"]
      by (auto simp: inspect_root_def bind_skill_Inr inspected_def identified_def accepted_root_def)
  next
    case 2
    then show ?thesis
      using assms(1) findings_made findings_of_Inr [of "[skill_md ''missing_skill_md'' ''package requires a regular SKILL.md'']"]
      by (auto simp: inspect_root_def bind_skill_Inr inspected_def identified_def accepted_root_def)
  next
    case 3
    then obtain named scanned captured selected os' written where parts:
      "findings_of (root_observations (root_name root)) = Inr named"
      "scan_files (root_tree root) policy = Inr (files, scanned, captured)"
      "findings_of (package_policy_observations lib captured policy) = Inr selected"
      "captured_skill_identity lib (root_name root) (map_of captured ''SKILL.md'') policy = Inr (identity, os')"
      "findings_of os' = Inr written" "findings = named @ scanned @ selected @ written"
      using assms(1) by (auto simp: inspect_scanned)
    have id: "authored (root_name root) identity os'"
      using captured_identity_outcome [of "root_name root" lib "map_of captured ''SKILL.md''" policy] parts(4)
      by (simp add: authored_outcome_def)
    then have "silent os'" by (simp add: authored_def)
    note made = findings_of_Inr [OF parts(1) root_observations_ok(2)]
      findings_of_Inr [OF parts(3) package_policy_observations_ok(2) [OF req scan_captured_portable [OF parts(2) os]]]
      findings_of_Inr [OF parts(5) \<open>silent os'\<close>]
    have "inspected files findings identity root"
      using made scan_made [OF parts(2)] scan_distinct [OF parts(2) os] authored_identified [OF id]
      by (simp add: inspected_def parts(6) scan_parts(2) [OF parts(2)])
    moreover have "accepted_root lib root policy files identity c \<longleftrightarrow> findings = [] \<and> c = captured" for c
      using 3 made parts by (auto simp: accepted_root_def root_observations_Nil)
    ultimately show ?thesis by auto
  qed
  then show "inspected files findings identity root"
    "findings = [] \<longleftrightarrow> (\<exists>captured. accepted_root lib root policy files identity captured)" by blast+
qed

lemma findings_of_one:
  assumes "observation_ok x" "silent [x]"
  shows "\<exists>fs. findings_of [x] = Inr fs"
proof -
  from assms have "list_all observation_ok [x]" by simp
  with assms(2) findings_of_ok show ?thesis by metis
qed

lemma inspect_total:
  assumes "listable (root_tree root)" "os_package (root_tree root)" "list_all portable (sp_required_files policy)" "loader_returns lib"
  obtains files findings identity where "inspect_root lib root policy = Inr (files, findings, identity)"
proof -
  obtain named where named: "findings_of (root_observations (root_name root)) = Inr named"
    using findings_of_ok [OF root_observations_ok] by blast
  obtain scanned files captured where scan: "scan_files (root_tree root) policy = Inr (files, scanned, captured)"
    using scan_total [OF assms(1)] by metis
  obtain selected where selected: "findings_of (package_policy_observations lib captured policy) = Inr selected"
    using findings_of_ok [OF package_policy_observations_ok [OF assms(3) scan_captured_portable [OF scan assms(2)]]] by blast
  obtain identity os where id: "captured_skill_identity lib (root_name root) (map_of captured ''SKILL.md'') policy = Inr (identity, os)"
    "authored (root_name root) identity os" using captured_identity_total [OF assms(4)] by blast
  obtain written where written: "findings_of os = Inr written"
    using id(2) findings_of_ok [of os] by (auto simp: authored_def)
  have "observation_ok (skill_md ''missing_skill_md'' ''package requires a regular SKILL.md'')"
    by (rule skill_md_ok) (simp_all add: observed)
  then obtain missing where "findings_of [skill_md ''missing_skill_md'' ''package requires a regular SKILL.md''] = Inr missing"
    using findings_of_one by fastforce
  moreover have "observation_ok (Found ''invalid_package_root'' ''package root must be a regular directory'' [])"
    by (simp add: observed)
  then obtain invalid where "findings_of [Found ''invalid_package_root'' ''package root must be a regular directory'' []] = Inr invalid"
    using findings_of_one by fastforce
  ultimately show thesis
    using that named scan selected id written
    by (cases "root_is_directory root"; cases "root_has_skill_md root") (auto simp: inspect_root_def)
qed

section \<open>The validation\<close>

definition directory_candidate :: "file_name \<Rightarrow> string \<Rightarrow> PackageManifestFile list \<Rightarrow> PackageCandidateIdentity" where
  "directory_candidate directory revision files =
     (let digest = candidate_content_sha256 (digest_files files) in
      \<lparr>package_id = directory_package_id directory digest, source_revision = revision, content_sha256 = digest\<rparr>)"

lemma directory_package_id_ok: "is_sha256 digest \<Longrightarrow> is_identifier (directory_package_id directory digest)"
  using fallback_is_identifier by (cases directory) (auto simp: candidate_package_id_def is_identifier_def)

lemma directory_candidate_ok:
  "is_git_revision revision \<Longrightarrow> passes (check_candidate (directory_candidate directory revision files))"
  by (simp add: directory_candidate_def Let_def check_candidate_iff directory_package_id_ok)

lemma candidate_of_Inr: "is_git_revision revision \<Longrightarrow>
    candidate_of directory revision files = Inr (directory_candidate directory revision files)"
  using directory_candidate_ok [of revision directory files] valid_candidate_normal
  by (simp add: candidate_of_def Let_def validate_model_def passes_def directory_candidate_def)

definition validated :: "PackageCandidateIdentity option \<Rightarrow> SkillIdentity option \<Rightarrow> PackageManifestFile list
    \<Rightarrow> SkillPackageFinding list \<Rightarrow> SkillPackageValidation" where
  "validated candidate identity files findings =
     \<lparr>kv_candidate = candidate, kv_status = (if findings = [] then ValidationPass else ValidationBlocked),
      kv_identity = identity, kv_files = files, kv_findings = findings\<rparr>"

lemma made_findings_block: "list_all made_finding fs \<Longrightarrow> (\<exists>f \<in> set fs. kf_severity f = ValidationBlocker) \<longleftrightarrow> fs \<noteq> []"
  by (cases fs) (auto simp: made_finding_def list_all_iff)

lemma validation_result_Inr:
  assumes inspected: "inspected files findings identity root"
    and candidate: "\<forall>c. candidate = Some c \<longrightarrow> passes (check_candidate c)"
    and pass: "findings = [] \<Longrightarrow> (\<exists>c i. candidate = Some c \<and> identity = Some i \<and> files \<noteq> [] \<and> si_package_id i = package_id c)"
  shows "validation_result candidate identity files findings = Inr (validated candidate identity files findings)"
proof -
  let ?v = "validated candidate identity files findings"
  note parts = inspected [unfolded inspected_def]
  have "normalise_validation ?v = ?v"
    using parts candidate
    by (cases candidate; cases identity)
      (auto simp: normalise_validation_def validated_def valid_candidate_normal identified_def made_finding_def list_all_iff
        intro!: map_idI)
  moreover have "passes (check_validation ?v)"
  proof -
    have "[f \<leftarrow> findings. kf_severity f = ValidationBlocker] = findings"
      using parts by (auto simp: made_finding_def list_all_iff intro: filter_True)
    then have "passes (validation_status_matches ?v)"
      using parts pass by (auto simp: validation_status_matches_def validated_def Let_def)
    then show ?thesis
      using parts candidate
      by (auto simp: check_validation_def validated_def made_finding_def list_all_iff identified_def split: option.splits)
  qed
  moreover have "validation_result candidate identity files findings = validate_model normalise_validation check_validation ?v"
    using parts made_findings_block [of findings] by (simp add: validation_result_def validated_def)
  ultimately show ?thesis by (simp add: validation_model.fixpoint_iff)
qed

definition active_policy :: "SkillValidationPolicy option \<Rightarrow> SkillValidationPolicy" where
  "active_policy policy = (case policy of None \<Rightarrow> default_skill_policy | Some p \<Rightarrow> p)"

definition policy_ok :: "SkillValidationPolicy \<Rightarrow> bool" where
  "policy_ok policy = (list_all portable (sp_required_files policy) \<and> distinct (sp_required_files policy))"

lemma policy_observations_Nil: "policy_observations policy = [] \<longleftrightarrow> policy_ok policy"
  by (simp add: policy_observations_def policy_ok_def)

lemma revision_observations_Nil: "revision_observations revision = [] \<longleftrightarrow> is_git_revision revision"
  by (simp add: revision_observations_def)

lemma accepted_files:
  assumes "accepted_root lib root policy files identity captured" "os_package (root_tree root)"
  obtains b i name where "map_of captured ''SKILL.md'' = Some b" "file_record (''SKILL.md'', b) \<in> set files"
    "identity = Some i" "root_name root = Name name" "is_identifier name" "si_package_id i = name"
    "passes (check_skill i)" "normalise_skill i = i"
proof -
  note parts = assms(1) [unfolded accepted_root_def]
  have out: "authored (root_name root) identity []"
    using captured_identity_outcome [of "root_name root" lib "map_of captured ''SKILL.md''" policy] parts
    by (simp add: authored_outcome_def)
  then obtain i where i: "identity = Some i" "passes (check_skill i)" "normalise_skill i = i"
    "\<exists>name. root_name root = Name name \<and> si_package_id i = name"
    by (cases identity) (auto simp: authored_def)
  obtain name where name: "root_name root = Name name" "is_identifier name" using parts by blast
  have "captured_skill_identity lib (root_name root) None policy \<noteq> Inr (identity, [])"
    by (simp add: captured_skill_identity_def)
  then have "map_of captured ''SKILL.md'' \<noteq> None" using parts by metis
  then obtain b where b: "map_of captured ''SKILL.md'' = Some b" by auto
  then have "file_record (''SKILL.md'', b) \<in> set files"
    using scan_distinct(3) [of "root_tree root" policy files "[]" captured] parts assms(2) by (auto dest: map_of_SomeD)
  with i name b that trim_identifier show thesis by auto
qed

lemma validate_steps:
  assumes "policy_ok (active_policy policy)"
  shows "validate_skill_package lib root revision policy =
    bind_skill (findings_of (revision_observations revision)) (\<lambda>unbound.
    bind_skill (inspect_root lib root (active_policy policy)) (\<lambda>(files, findings, identity).
      lift_skill (validation_result
        (if is_git_revision revision then Some (directory_candidate (root_name root) revision files) else None)
        identity files (unbound @ findings))))"
proof -
  have "findings_of (policy_observations (active_policy policy)) = Inr []"
    using assms policy_observations_Nil [of "active_policy policy"] by (simp add: findings_of_def)
  then show ?thesis
    by (simp add: validate_skill_package_def active_policy_def [symmetric] candidate_of_Inr bind_skill_def
        split: sum.splits prod.splits)
qed

lemma refused_policy:
  assumes "\<not> policy_ok (active_policy policy)"
  obtains refused where "list_all made_finding refused" "refused \<noteq> []"
    "validate_skill_package lib root revision policy = Inr (validated None None [] refused)"
proof -
  obtain refused where refused: "findings_of (policy_observations (active_policy policy)) = Inr refused"
    "list_all made_finding refused" "refused \<noteq> []"
    using findings_of_ok [OF policy_observations_ok, of "active_policy policy"] assms policy_observations_Nil by metis
  have "inspected [] refused None root" using refused by (simp add: inspected_def identified_def)
  then have "validation_result None None [] refused = Inr (validated None None [] refused)"
    using refused(3) by (intro validation_result_Inr) auto
  then show thesis using that refused by (simp add: validate_skill_package_def active_policy_def [symmetric])
qed

text \<open>What the validation returns: the parts of its result, and when it passes.\<close>

definition passing :: "text_library \<Rightarrow> package_root \<Rightarrow> string \<Rightarrow> SkillValidationPolicy option \<Rightarrow> PackageManifestFile list
    \<Rightarrow> SkillIdentity option \<Rightarrow> bool" where
  "passing lib root revision policy files identity \<longleftrightarrow>
     policy_ok (active_policy policy) \<and> is_git_revision revision
     \<and> (\<exists>captured. accepted_root lib root (active_policy policy) files identity captured)"

lemma inspected_append: "inspected files findings identity root \<Longrightarrow> list_all made_finding fs \<Longrightarrow>
    inspected files (fs @ findings) identity root"
  by (simp add: inspected_def)

lemma validate_policy_ok:
  assumes policy: "policy_ok (active_policy policy)" and os: "os_package (root_tree root)"
    and inspect: "inspect_root lib root (active_policy policy) = Inr (files, findings, identity)"
  obtains fs where "validate_skill_package lib root revision policy =
      Inr (validated (if is_git_revision revision then Some (directory_candidate (root_name root) revision files) else None)
             identity files fs)"
    "fs = [] \<longleftrightarrow> passing lib root revision policy files identity" "list_all made_finding fs" "inspected files fs identity root"
proof -
  obtain unbound where unbound: "findings_of (revision_observations revision) = Inr unbound" "list_all made_finding unbound"
    "unbound = [] \<longleftrightarrow> is_git_revision revision"
    using findings_of_ok [OF revision_observations_ok] revision_observations_Nil by metis
  let ?c = "if is_git_revision revision then Some (directory_candidate (root_name root) revision files) else None"
  have req: "list_all portable (sp_required_files (active_policy policy))" using policy by (simp add: policy_ok_def)
  note facts = inspect_facts [OF inspect os req]
  have all: "inspected files (unbound @ findings) identity root" using inspected_append facts(1) unbound(2) .
  have iff: "unbound @ findings = [] \<longleftrightarrow> passing lib root revision policy files identity"
    using unbound(3) facts(2) policy by (auto simp: passing_def)
  have "validation_result ?c identity files (unbound @ findings) = Inr (validated ?c identity files (unbound @ findings))"
  proof (rule validation_result_Inr [OF all])
    show "\<forall>c. ?c = Some c \<longrightarrow> passes (check_candidate c)" by (simp add: directory_candidate_ok)
    assume none: "unbound @ findings = []"
    then obtain captured where acc: "accepted_root lib root (active_policy policy) files identity captured"
      and git: "is_git_revision revision" using iff by (auto simp: passing_def)
    from accepted_files [OF acc os] obtain b i name where "file_record (''SKILL.md'', b) \<in> set files"
      "identity = Some i" "root_name root = Name name" "is_identifier name" "si_package_id i = name" by metis
    moreover from this have "package_id (directory_candidate (root_name root) revision files) = name"
      by (simp add: directory_candidate_def Let_def candidate_package_id_def is_identifier_def)
    ultimately show "\<exists>c i. ?c = Some c \<and> identity = Some i \<and> files \<noteq> [] \<and> si_package_id i = package_id c"
      using git by auto
  qed
  then show thesis
    using that [of "unbound @ findings"] iff unbound inspect policy facts(1) all by (simp add: validate_steps inspected_def)
qed

lemma validated_valid: "validate_skill_package lib root revision policy = Inr v \<Longrightarrow>
    validate_model normalise_validation check_validation v = Inr v"
proof -
  assume "validate_skill_package lib root revision policy = Inr v"
  then have "\<exists>c i fs findings. validation_result c i fs findings = Inr v"
    by (auto simp: validate_skill_package_def bind_skill_Inr lift_skill_Inr Let_def split: if_splits)
  then show ?thesis unfolding validation_result_def using validation_model.revalidation_is_identity by blast
qed

lemma validation_total:
  assumes "os_package (root_tree root)" "listable (root_tree root)" "loader_returns lib"
  obtains files identity candidate fs where
    "validate_skill_package lib root revision policy = Inr (validated candidate identity files fs)"
    "fs = [] \<longleftrightarrow> passing lib root revision policy files identity" "list_all made_finding fs"
    "candidate = Some (directory_candidate (root_name root) revision files) \<or> candidate = None \<and> fs \<noteq> []"
proof (cases "policy_ok (active_policy policy)")
  case True
  then have req: "list_all portable (sp_required_files (active_policy policy))" by (simp add: policy_ok_def)
  obtain files findings identity where i: "inspect_root lib root (active_policy policy) = Inr (files, findings, identity)"
    using inspect_total [OF assms(2,1) req assms(3)] by metis
  obtain fs where fs: "validate_skill_package lib root revision policy =
      Inr (validated (if is_git_revision revision then Some (directory_candidate (root_name root) revision files) else None)
             identity files fs)"
    "fs = [] \<longleftrightarrow> passing lib root revision policy files identity" "list_all made_finding fs"
    using validate_policy_ok [OF True assms(1) i] by metis
  then show thesis by (rule that) (use fs(2) in \<open>auto simp: passing_def\<close>)
next
  case False
  from refused_policy [OF this] obtain refused where "list_all made_finding refused" "refused \<noteq> []"
    "validate_skill_package lib root revision policy = Inr (validated None None [] refused)" by metis
  then show thesis using False by (intro that [of None None "[]" refused]) (auto simp: passing_def)
qed

lemma validation_captured:
  assumes "os_package (root_tree root)" "listable (root_tree root)" "loader_returns lib" "policy_ok (active_policy policy)"
    and "is_git_revision revision"
  obtains files identity fs where
    "validate_skill_package lib root revision policy =
       Inr (validated (Some (directory_candidate (root_name root) revision files)) identity files fs)"
    "fs = [] \<longleftrightarrow> passing lib root revision policy files identity" "inspected files fs identity root"
proof -
  have req: "list_all portable (sp_required_files (active_policy policy))" using assms(4) by (simp add: policy_ok_def)
  obtain files findings identity where i: "inspect_root lib root (active_policy policy) = Inr (files, findings, identity)"
    using inspect_total [OF assms(2,1) req assms(3)] by metis
  from validate_policy_ok [OF assms(4,1) i, of revision] show thesis using that assms(5) by auto
qed

section \<open>The build\<close>

lemma receipt_id_ok: "passes (check_candidate c) \<Longrightarrow> is_identifier (receipt_id_of c)"
  unfolding receipt_id_of_def by (simp, rule identifier_extend_hex) (auto simp: check_candidate_iff is_sha256_iff)

lemma blocked_receipt_id_ok: "is_identifier (blocked_receipt_id v)"
proof -
  have "is_identifier ''blocked''" by code_simp
  then have "is_identifier (''blocked'' @ CHR ''-'' # take 16 (canonical_json_sha256 (validation_json v)))"
    by (rule identifier_extend_hex) (auto simp: canonical_digest_chars length_0_conv [symmetric] simp del: length_0_conv)
  then show ?thesis by (simp add: blocked_receipt_id_def)
qed

lemma evidence_ok:
  assumes "distinct (map mf_path (kv_files v))" "\<forall>f \<in> set (kv_files v). passes (check_file f)"
  shows "unique_portables (evidence_of v)" "evidence_of v \<noteq> []"
  using assms by (auto simp: evidence_of_def unique_portables_iff entry_codes check_file_iff)

lemma blocked_receipt_valid:
  assumes v: "kv_candidate v = None \<or> (\<exists>c. kv_candidate v = Some c \<and> passes (check_candidate c))"
    "distinct (map mf_path (kv_files v))" "\<forall>f \<in> set (kv_files v). passes (check_file f)"
    and f: "made_finding f" and "started_at \<le> finished_at"
  obtains r where "blocked_build v f started_at finished_at = Inr r" "pr_status r = BuildBlocked"
    "validate_model normalise_receipt check_receipt r = Inr r" "pr_candidate r = kv_candidate v" "pr_schema_version r = ReceiptV2"
proof -
  let ?b = "\<lparr>rb_code = kf_code f, rb_message = kf_message f, rb_evidence_refs = kf_evidence_refs f\<rparr>"
  let ?r = "\<lparr>pr_schema_version = ReceiptV2,
      pr_receipt_id = (case kv_candidate v of Some c \<Rightarrow> receipt_id_of c | None \<Rightarrow> blocked_receipt_id v),
      pr_candidate = kv_candidate v, pr_status = BuildBlocked, pr_started_at = started_at,
      pr_finished_at = finished_at, pr_evidence = evidence_of v, pr_blocker = Some ?b, pr_package_digest = None,
      pr_manifest = None, pr_included_files = [], pr_excluded_files = []\<rparr>"
  have "trim (kf_code f) = kf_code f" "trim (kf_message f) = kf_message f"
    using f by (cases f; simp add: made_finding_def normalise_finding_def)+
  then have b: "normalise_blocker ?b = ?b" "passes (check_blocker ?b)"
    using f by (simp_all add: normalise_blocker_def made_finding_def check_finding_def check_blocker_def)
  have id: "is_identifier (pr_receipt_id ?r)"
    using v(1) by (auto simp: receipt_id_ok blocked_receipt_id_ok)
  have "normalise_receipt ?r = ?r"
    using v(1) b(1) trim_identifier [OF id] by (auto simp: normalise_receipt_def valid_candidate_normal)
  moreover have "passes (check_receipt ?r)"
  proof -
    have "passes (receipt_matches_manifest ?r)" using assms(5) by (simp add: receipt_matches_manifest_def paths_of_def)
    then show ?thesis
      using v(1) b(2) id evidence_ok [OF v(2,3)]
      by (auto simp: check_receipt_def package_digest_matches_manifest_def unique_portables_iff)
  qed
  ultimately have valid: "validate_model normalise_receipt check_receipt ?r = Inr ?r"
    by (simp add: receipt_model.fixpoint_iff)
  have "validate_model normalise_blocker check_blocker ?b = Inr ?b" using b by (simp add: blocker_model.fixpoint_iff)
  then have "blocked_build v f started_at finished_at = Inr ?r"
    using valid by (simp add: blocked_build_def)
  then show thesis using valid by (intro that [of ?r]) simp_all
qed

lemma built_manifest_valid:
  assumes c: "passes (check_candidate c)" and i: "passes (check_skill i)" "normalise_skill i = i"
    and files: "files \<noteq> []" "distinct (map mf_path files)" "\<forall>f \<in> set files. passes (check_file f) \<and> normalise_file f = f"
  shows "validate_model normalise_manifest check_manifest (built_manifest c i files) = Inr (built_manifest c i files)"
proof -
  have "trim (si_version i) = si_version i" using i(2) by (cases i) (simp add: normalise_skill_def)
  moreover have "si_version i \<noteq> []" using i(1) by (simp add: check_skill_def)
  moreover have "trim MANIFEST_BUILDER = MANIFEST_BUILDER" by code_simp
  ultimately show ?thesis
    using c files
    by (auto simp: manifest_model.fixpoint_iff built_manifest_def normalise_manifest_def normalise_manifest_provenance_def
        check_manifest_iff check_manifest_provenance_def manifest_paths_def portables_iff entry_codes valid_candidate_normal
        MANIFEST_BUILDER_def intro!: map_idI)
qed

lemma built_receipt_valid:
  assumes c: "c = directory_candidate directory revision (kv_files v)" "is_git_revision revision"
    and i: "passes (check_skill i)" "normalise_skill i = i"
    and files: "kv_files v \<noteq> []" "distinct (map mf_path (kv_files v))"
      "\<forall>f \<in> set (kv_files v). passes (check_file f) \<and> normalise_file f = f"
    and "started_at \<le> finished_at"
  obtains r where "built_receipt v c i started_at finished_at = Inr r" "pr_status r = Built"
    "validate_model normalise_receipt check_receipt r = Inr r" "pr_candidate r = Some c" "pr_schema_version r = ReceiptV2"
    "pr_manifest r = Some (built_manifest c i (kv_files v))" "pr_included_files r = map mf_path (kv_files v)"
proof -
  let ?m = "built_manifest c i (kv_files v)"
  let ?r = "\<lparr>pr_schema_version = ReceiptV2, pr_receipt_id = receipt_id_of c, pr_candidate = Some c, pr_status = Built,
      pr_started_at = started_at, pr_finished_at = finished_at, pr_evidence = evidence_of v, pr_blocker = None,
      pr_package_digest = Some (canonical_json_sha256 (manifest_json ?m)), pr_manifest = Some ?m,
      pr_included_files = evidence_of v, pr_excluded_files = []\<rparr>"
  have cand: "passes (check_candidate c)" using c directory_candidate_ok by simp
  have m: "validate_model normalise_manifest check_manifest ?m = Inr ?m"
    by (rule built_manifest_valid [OF cand i files])
  then have m': "normalise_manifest ?m = ?m" "passes (check_manifest ?m)" by (simp_all add: manifest_model.fixpoint_iff)
  have evidence: "evidence_of v = map mf_path (kv_files v)" using files(1) by (simp add: evidence_of_def)
  have id: "is_identifier (receipt_id_of c)" by (rule receipt_id_ok [OF cand])
  have "normalise_receipt ?r = ?r"
    using m'(1) cand trim_identifier [OF id] by (simp add: normalise_receipt_def valid_candidate_normal)
  moreover have "passes (check_receipt ?r)"
  proof -
    have "passes (receipt_matches_manifest ?r)"
      using \<open>started_at \<le> finished_at\<close> files(1)
      by (simp add: receipt_matches_manifest_def paths_of_def evidence manifest_paths_def built_manifest_def)
    moreover have "passes (package_digest_matches_manifest ?r)"
      using c(1) by (simp add: package_digest_matches_manifest_def built_manifest_def directory_candidate_def Let_def)
    ultimately show ?thesis
      using cand m'(2) id evidence_ok [of v] files(2,3) by (simp add: check_receipt_def unique_portables_iff)
  qed
  ultimately have valid: "validate_model normalise_receipt check_receipt ?r = Inr ?r" by (simp add: receipt_model.fixpoint_iff)
  then have "built_receipt v c i started_at finished_at = Inr ?r" using m by (simp add: built_receipt_def)
  then show thesis using valid evidence by (intro that [of ?r]) simp_all
qed

lemma valid_file_normal: "passes (check_file f) \<Longrightarrow> normalise_file f = f"
  by (simp add: normalise_file_def check_file_iff trim_sha256)

lemma accepted_inspect:
  assumes "accepted_root lib root policy files identity captured"
  shows "inspect_root lib root policy = Inr (files, [], identity)"
proof -
  note parts = assms [unfolded accepted_root_def]
  have "findings_of [] = Inr []" by (simp add: findings_of_def)
  moreover have "root_observations (root_name root) = []" using parts by (auto simp: root_observations_Nil)
  ultimately show ?thesis using parts by (simp add: inspect_scanned)
qed

text \<open>A validation that passes determines its files and identity.\<close>

lemma passing_unique:
  assumes os: "os_package (root_tree root)"
    and v: "validate_skill_package lib root revision policy = Inr (validated candidate identity files fs)"
    and passing: "passing lib root revision policy files' identity'"
  shows "files' = files \<and> identity' = identity"
proof -
  obtain captured where acc: "accepted_root lib root (active_policy policy) files' identity' captured"
    and policy: "policy_ok (active_policy policy)" using passing by (auto simp: passing_def)
  from validate_policy_ok [OF policy os accepted_inspect [OF acc], of revision] v show ?thesis
    by (auto simp: validated_def)
qed

lemma build_total:
  assumes os: "os_package (root_tree root)" and "listable (root_tree root)" "loader_returns lib"
    and clock: "started_at \<le> finished_at"
  obtains r where "build_skill_package lib root revision policy started_at finished_at = Inr r"
    "validate_model normalise_receipt check_receipt r = Inr r" "pr_schema_version r = ReceiptV2"
    "pr_status r = Built \<longleftrightarrow> (\<exists>files identity. passing lib root revision policy files identity)"
proof -
  obtain files identity candidate fs where v:
    "validate_skill_package lib root revision policy = Inr (validated candidate identity files fs)"
    "fs = [] \<longleftrightarrow> passing lib root revision policy files identity" "list_all made_finding fs"
    "candidate = Some (directory_candidate (root_name root) revision files) \<or> candidate = None \<and> fs \<noteq> []"
    using validation_total [OF assms(1-3)] by metis
  let ?v = "validated candidate identity files fs"
  have "passes (check_validation ?v)"
    using validation_model.validated_passes [OF validated_valid [OF v(1)]] .
  then have files: "distinct (map mf_path files)" "\<forall>f \<in> set files. passes (check_file f)"
    and candidate: "\<forall>c. candidate = Some c \<longrightarrow> passes (check_candidate c)"
    by (simp_all add: check_validation_def validated_def validation_status_matches_def Let_def)
  have iff: "(\<exists>files identity. passing lib root revision policy files identity) \<longleftrightarrow> fs = []"
    using v(2) passing_unique [OF os v(1)] by blast
  have kv: "kv_files ?v = files" by (simp add: validated_def)
  show thesis
  proof (cases "fs = []")
    case True
    then obtain captured where acc: "accepted_root lib root (active_policy policy) files identity captured"
      and git: "is_git_revision revision" using v(2) by (auto simp: passing_def)
    from accepted_files [OF acc os] obtain b i where "file_record (''SKILL.md'', b) \<in> set files"
      "identity = Some i" "passes (check_skill i)" "normalise_skill i = i" by metis
    moreover from this have "files \<noteq> []" by auto
    ultimately obtain r where "built_receipt ?v (directory_candidate (root_name root) revision files) i started_at finished_at = Inr r"
      "pr_status r = Built" "validate_model normalise_receipt check_receipt r = Inr r" "pr_schema_version r = ReceiptV2"
      using built_receipt_valid [OF _ git _ _ _ _ _ clock, of _ "root_name root" ?v i] files valid_file_normal kv by metis
    then show ?thesis
      using that iff True v \<open>identity = Some i\<close> by (simp add: build_skill_package_def validated_def)
  next
    case False
    then obtain f rest where fs: "fs = f # rest" by (cases fs) auto
    have "made_finding f" using v(3) fs by simp
    moreover have "kv_candidate ?v = None \<or> (\<exists>c. kv_candidate ?v = Some c \<and> passes (check_candidate c))"
      using candidate by (cases candidate) (simp_all add: validated_def)
    ultimately obtain r where "blocked_build ?v f started_at finished_at = Inr r" "pr_status r = BuildBlocked"
      "validate_model normalise_receipt check_receipt r = Inr r" "pr_schema_version r = ReceiptV2"
      using blocked_receipt_valid [of ?v f started_at finished_at] files clock kv by metis
    then show ?thesis
      using that iff False v(1) fs by (simp add: build_skill_package_def validated_def)
  qed
qed

lemma build_valid: "build_skill_package lib root revision policy started_at finished_at = Inr r \<Longrightarrow>
    validate_model normalise_receipt check_receipt r = Inr r"
  using receipt_model.revalidation_is_identity
  by (auto simp: build_skill_package_def blocked_build_def built_receipt_def bind_skill_Inr lift_skill_Inr and_then_Inr_iff
      split: if_splits option.splits)

section \<open>What a built receipt proves of its tree\<close>

text \<open>
  If a build returns a built receipt, the root was listed and unchanged, every place of its tree is
  admissible, and the manifest lists exactly its regular files, each once, in the order of the paths.
\<close>

definition tree_captures :: "(file_name \<times> node) list \<Rightarrow> (string \<times> byte list) set" where
  "tree_captures entries =
     {(p, b). \<exists>e \<in> set entries. \<exists>path. place e path (RegularFile b True) \<and> p = posix_path (map name_text path)}"

definition tree_files :: "(file_name \<times> node) list \<Rightarrow> PackageManifestFile set" where
  "tree_files entries = file_record ` tree_captures entries"

lemma scan_captures_tree:
  assumes "scan_files (OpenedRoot (Some entries) changed) policy = Inr (files, [], captured)"
  shows "set captured = tree_captures entries"
  using scan_captures [OF assms] unfolding tree_captures_def by (intro set_eqI) (simp add: split_paired_all)

lemma build_Inr_status:
  assumes "build_skill_package lib root revision policy started_at finished_at = Inr r" "pr_status r = Built"
  obtains v c i where "validate_skill_package lib root revision policy = Inr v" "kv_status v = ValidationPass"
    "kv_candidate v = Some c" "kv_identity v = Some i" "built_receipt v c i started_at finished_at = Inr r"
  using assms
  by (auto simp: build_skill_package_def bind_skill_Inr lift_skill_Inr blocked_build_def and_then_Inr_iff
      receipt_model.validate_ok_iff normalise_receipt_def split: if_splits option.splits)
    (metis ValidationStatus.exhaust)

lemma validate_passing:
  assumes os: "os_package (root_tree root)"
    and v: "validate_skill_package lib root revision policy = Inr v" "kv_status v = ValidationPass"
  shows "passing lib root revision policy (kv_files v) (kv_identity v)"
    "kv_candidate v = Some (directory_candidate (root_name root) revision (kv_files v))"
proof -
  have policy: "policy_ok (active_policy policy)"
  proof (rule ccontr)
    assume "\<not> policy_ok (active_policy policy)"
    from refused_policy [OF this] obtain refused where "refused \<noteq> []"
      "validate_skill_package lib root revision policy = Inr (validated None None [] refused)" by metis
    then show False using v by (auto simp: validated_def)
  qed
  obtain files findings identity where i: "inspect_root lib root (active_policy policy) = Inr (files, findings, identity)"
    using v(1) by (auto simp: validate_steps [OF policy] bind_skill_Inr)
  from validate_policy_ok [OF policy os i, of revision] obtain fs where
    "v = validated (if is_git_revision revision then Some (directory_candidate (root_name root) revision files) else None) identity files fs"
    "fs = [] \<longleftrightarrow> passing lib root revision policy files identity" using v(1) by (metis sum.inject(2))
  with v(2) show "passing lib root revision policy (kv_files v) (kv_identity v)"
    "kv_candidate v = Some (directory_candidate (root_name root) revision (kv_files v))"
    by (auto simp: validated_def passing_def split: if_splits)
qed

lemma built_tree:
  assumes build: "build_skill_package lib root revision policy started_at finished_at = Inr r" "pr_status r = Built"
    and os: "os_package (root_tree root)"
  obtains entries m captured where "root_tree root = OpenedRoot (Some entries) False"
    "\<forall>e \<in> set entries. \<forall>path n. place e path n \<longrightarrow> admitted (active_policy policy) [] path n"
    "pr_manifest r = Some m" "set (pm_files m) = tree_files entries" "sorted (manifest_paths m)" "distinct (manifest_paths m)"
    "pr_included_files r = manifest_paths m" "pmp_source (pm_provenance m) = [''SKILL.md'']"
    "pmp_builder (pm_provenance m) = MANIFEST_BUILDER" "''SKILL.md'' \<in> set (manifest_paths m)"
    "pr_candidate r = Some (directory_candidate (root_name root) revision (pm_files m))"
proof -
  obtain v c i where v: "validate_skill_package lib root revision policy = Inr v" "kv_status v = ValidationPass"
    "kv_candidate v = Some c" "kv_identity v = Some i" "built_receipt v c i started_at finished_at = Inr r"
    using build_Inr_status [OF build] by metis
  note pass = validate_passing [OF os v(1,2)]
  then obtain captured where acc: "accepted_root lib root (active_policy policy) (kv_files v) (Some i) captured"
    by (auto simp: passing_def v(4))
  then have scan: "scan_files (root_tree root) (active_policy policy) = Inr (kv_files v, [], captured)"
    by (simp add: accepted_root_def)
  then have "quiet (observations (active_policy policy) (root_tree root))" using scan_parts(3) by blast
  then obtain entries where root: "root_tree root = OpenedRoot (Some entries) False"
    by (cases "root_tree root" rule: listable.cases) (auto simp: visit.simps source_changed_def split: if_splits)
  obtain b where b: "file_record (''SKILL.md'', b) \<in> set (kv_files v)" and i: "passes (check_skill i)" "normalise_skill i = i"
    using accepted_files [OF acc os] by (metis option.inject)
  have files: "set (kv_files v) = tree_files entries" "sorted (map mf_path (kv_files v))" "distinct (map mf_path (kv_files v))"
    "kv_files v \<noteq> []" "\<forall>f \<in> set (kv_files v). passes (check_file f)"
  proof -
    note scan' = scan [unfolded root]
    show "set (kv_files v) = tree_files entries"
      using scan_distinct(3) [OF scan os] scan_captures_tree [OF scan'] by (simp add: tree_files_def)
    show "sorted (map mf_path (kv_files v))" by (simp add: scan_parts(2) [OF scan])
  qed (use scan_distinct(2) [OF scan os] scan_made [OF scan] b in auto)
  have clock: "started_at \<le> finished_at"
    using v(5) by (auto simp: built_receipt_def and_then_Inr_iff receipt_model.validate_ok_iff normalise_receipt_def
        check_receipt_def receipt_matches_manifest_def Let_def)
  have git: "is_git_revision revision" using pass(1) by (simp add: passing_def)
  have c: "c = directory_candidate (root_name root) revision (kv_files v)" using pass(2) v(3) by simp
  obtain r' where r': "built_receipt v c i started_at finished_at = Inr r'" "pr_candidate r' = Some c"
    "pr_manifest r' = Some (built_manifest c i (kv_files v))" "pr_included_files r' = map mf_path (kv_files v)"
    using built_receipt_valid [OF c git i files(4,3) _ clock] files(5) valid_file_normal by metis
  then have r: "pr_candidate r = Some c" "pr_manifest r = Some (built_manifest c i (kv_files v))"
    "pr_included_files r = map mf_path (kv_files v)" using v(5) by simp_all
  have quiet: "\<forall>e \<in> set entries. \<forall>path n. place e path n \<longrightarrow> admitted (active_policy policy) [] path n"
    using scan_quiet_iff [OF scan [unfolded root]] by simp
  have "''SKILL.md'' \<in> mf_path ` set (kv_files v)" using b by (force simp: file_record_def)
  then show thesis
    by (intro that [OF root quiet r(2)]) (use r files c in \<open>simp_all add: built_manifest_def manifest_paths_def\<close>)
qed

section \<open>A built package hardens\<close>

lemma place_prefixes: "place e path n \<Longrightarrow> path = pre @ post \<Longrightarrow> pre \<noteq> [] \<Longrightarrow> \<exists>m. place e pre m"
proof (induction arbitrary: pre rule: place.induct)
  case (here name n)
  then have "pre = [name]" by (cases pre) simp_all
  then show ?case using place.here by blast
next
  case (below e entries path m name changed)
  then obtain rest where pre: "pre = name # rest" "path = rest @ post" by (cases pre) auto
  show ?case
  proof (cases "rest = []")
    case True
    then show ?thesis using pre place.here by blast
  next
    case False
    then show ?thesis using below pre place.below by blast
  qed
qed

lemma place_os_names: "place e path n \<Longrightarrow> os_name (fst e) \<and> os_tree (snd e) \<Longrightarrow> \<forall>q \<in> set path. os_name q"
  by (induction rule: place.induct) auto

text \<open>Every directory on the way to an admitted file was admitted, so no part of its path is unsafe.\<close>

lemma admitted_path_safe:
  assumes place: "place e path (RegularFile b True)" and os: "os_name (fst e) \<and> os_tree (snd e)"
    and adm: "\<forall>path n. place e path n \<longrightarrow> admitted policy [] path n"
  shows "unsafe_package_path_reason (posix_path (map name_text path)) = Inr None"
proof -
  let ?parts = "map name_text path"
  have ok: "admitted policy [] path (RegularFile b True)" using place adm by blast
  then have portable: "portable (posix_path ?parts)" and reason: "unsafe_package_file_reason (last ?parts) = None"
    by (simp_all add: admitted_def Let_def)
  have "path \<noteq> []" by (rule place_nonempty [OF place])
  have texts: "list_all is_text path" using ok by (simp add: admitted_def Let_def)
  have "CHR ''/'' \<notin> set q" if "q \<in> set ?parts" for q
    using that texts place_os_names [OF place os] by (auto simp: os_name_def list_all_iff)
  then have parts: "path_parts (posix_path ?parts) = ?parts"
    using portable_parts(1) [OF portable] split_join [of ?parts "CHR ''/''"] \<open>path \<noteq> []\<close> by (simp add: posix_path_def)
  have "lower q \<notin> set UNSAFE_PACKAGE_DIRECTORIES" if q: "q \<in> set ?parts" for q
  proof -
    obtain name where name: "name \<in> set path" "q = name_text name" using q by auto
    then obtain as bs where "path = (as @ [name]) @ bs" by (metis append.assoc append_Cons append_Nil split_list)
    from place_prefixes [OF place this] obtain m where "place e (as @ [name]) m" by blast
    then have "admitted policy [] (as @ [name]) m" using adm by blast
    then show ?thesis by (simp add: admitted_def Let_def name)
  qed
  then show ?thesis
    using reason \<open>path \<noteq> []\<close> by (auto simp: unsafe_package_path_reason_def parts Let_def last_map)
qed

lemma path_of_role:
  assumes "\<And>f. f \<in> set fs \<Longrightarrow> mf_path f = x \<Longrightarrow> P f"
  shows "(\<exists>f \<in> set fs. P f \<and> mf_path f = x) \<longleftrightarrow> x \<in> set (map mf_path fs)"
  using assms by auto

lemma built_hardened_iff:
  assumes build: "build_skill_package lib root revision policy started_at finished_at = Inr r" "pr_status r = Built"
    and os: "os_package (root_tree root)"
  shows "hardened r p \<longleftrightarrow> (hp_require_readme p \<longrightarrow> ''README.md'' \<in> set (pr_included_files r))"
proof -
  obtain entries m where t: "root_tree root = OpenedRoot (Some entries) False"
    "\<forall>e \<in> set entries. \<forall>path n. place e path n \<longrightarrow> admitted (active_policy policy) [] path n"
    "pr_manifest r = Some m" "set (pm_files m) = tree_files entries" "pr_included_files r = manifest_paths m"
    "pmp_source (pm_provenance m) = [''SKILL.md'']" "pmp_builder (pm_provenance m) = MANIFEST_BUILDER"
    "''SKILL.md'' \<in> set (manifest_paths m)"
    using built_tree [OF build os] by metis
  have files: "included_manifest_files r = pm_files m" by (simp add: included_manifest_files_def t manifest_paths_def)
  have "unsafe_package_path_reason q = Inr None" if q: "q \<in> set (pr_included_files r)" for q
  proof -
    obtain e path b where "e \<in> set entries" "place e path (RegularFile b True)" "q = posix_path (map name_text path)"
      using q t(4,5) by (auto simp: manifest_paths_def tree_files_def tree_captures_def file_record_def)
    then show ?thesis using admitted_path_safe [of e path b "active_policy policy"] os t(1,2) by simp
  qed
  moreover have "required_roles_valid (pm_files m) p \<longleftrightarrow> (hp_require_readme p \<longrightarrow> ''README.md'' \<in> set (manifest_paths m))"
  proof -
    have role: "mf_role f = file_role (mf_path f)" if "f \<in> set (pm_files m)" for f
      using that t(4) by (auto simp: tree_files_def file_record_def)
    obtain f where f: "f \<in> set (pm_files m)" "mf_path f = ''SKILL.md''" using t(8) by (auto simp: manifest_paths_def)
    then have "mf_role f = RoleSkillMd" using role file_role_special(1) by simp
    then have "''skill_md'' \<in> set (file_roles (pm_files m))" using f(1) by (force simp: file_roles_def)
    moreover have "(\<exists>f \<in> set (pm_files m). role_name (mf_role f) = ''readme'' \<and> mf_path f = ''README.md'')
        \<longleftrightarrow> ''README.md'' \<in> set (manifest_paths m)"
    proof -
      have "role_name (mf_role f) = ''readme''" if "f \<in> set (pm_files m)" "mf_path f = ''README.md''" for f
        using that role [of f] by (simp add: file_role_def)
      then show ?thesis unfolding manifest_paths_def by (rule path_of_role)
    qed
    ultimately show ?thesis by (auto simp: required_roles_valid_def)
  qed
  ultimately show ?thesis
    using build(2) t by (simp add: hardened_def provenance_valid_def files)
qed

end
