(* ===== verification/Pre_Execution.thy ===== *)
theory Pre_Execution
  imports Safety Skill_Build Provider_Call "HOL-Library.AList"
begin

text \<open>
  The admission of a provider execution on safety evidence: \<^verbatim>\<open>models/pre_execution_safety.py\<close> (the
  bundle of the actual package, safety and screening receipts with the capability checklist),
  \<^verbatim>\<open>validation/security_screening.py\<close> (the static screening of the captured bytes) and
  \<^verbatim>\<open>evaluation/pre_execution_safety.py\<close> (the assessment). The signatures a screening looks for
  (\<^verbatim>\<open>validation/security_signatures.py\<close>) are the argument \<open>indicators\<close>; every statement holds for any.
  Evidence that is not the typed bundle, or is beyond the nesting and work bounds of its normalisation,
  is \<open>Malformed\<close>.
\<close>

section \<open>The capability checklist\<close>

datatype SafetyCheckId =
  ContentAndInjection | SecretsAndPrivacy | FilesystemAndSubprocess | NetworkAndExternalWrites
| DependenciesAndBinaries | ToolsAndPrivileges

fun safety_check_name :: "SafetyCheckId \<Rightarrow> string" where
  "safety_check_name ContentAndInjection = ''content_and_injection''"
| "safety_check_name SecretsAndPrivacy = ''secrets_and_privacy''"
| "safety_check_name FilesystemAndSubprocess = ''filesystem_and_subprocess''"
| "safety_check_name NetworkAndExternalWrites = ''network_and_external_writes''"
| "safety_check_name DependenciesAndBinaries = ''dependencies_and_binaries''"
| "safety_check_name ToolsAndPrivileges = ''tools_and_privileges''"

definition SAFETY_CHECK_IDS :: "SafetyCheckId list" where
  "SAFETY_CHECK_IDS =
     [ContentAndInjection, SecretsAndPrivacy, FilesystemAndSubprocess, NetworkAndExternalWrites,
      DependenciesAndBinaries, ToolsAndPrivileges]"

record CapabilitySafetyReview =
  cv_check_id :: SafetyCheckId
  cv_reviewed :: bool
  cv_rationale :: string
  cv_evidence_ids :: "string list"

definition normalise_review :: "CapabilitySafetyReview \<Rightarrow> CapabilitySafetyReview" where
  "normalise_review r = r\<lparr>cv_rationale := trim (cv_rationale r), cv_evidence_ids := map trim (cv_evidence_ids r)\<rparr>"

definition check_review :: "CapabilitySafetyReview \<Rightarrow> (bool \<times> string) list" where
  "check_review r =
     field ''rationale'' (nonempty_text (cv_rationale r))
     @ [(strip (cv_rationale r) = [], ''checklist rationale must not be blank''),
        (\<not> lifecycle_text_is_public_safe (cv_rationale r), ''checklist rationale must not contain private values'')]
     @ field ''evidence_ids'' (cv_evidence_ids r \<noteq> [] \<and> list_all is_identifier (cv_evidence_ids r))
     @ [(has_duplicates (cv_evidence_ids r), ''checklist evidence ids must be unique'')]"

definition review_json :: "CapabilitySafetyReview \<Rightarrow> json" where
  "review_json r =
     JObj [(''check_id'', JStr (safety_check_name (cv_check_id r))),
           (''status'', JStr (if cv_reviewed r then ''reviewed_no_issue'' else ''not_applicable'')),
           (''rationale'', JStr (cv_rationale r)), (''evidence_ids'', strs (cv_evidence_ids r))]"

definition checklist_json :: "CapabilitySafetyReview list \<Rightarrow> json" where
  "checklist_json checks =
     JObj [(''version'', JStr ''sdk-capability-checklist/v1''), (''checks'', arr review_json checks)]"

section \<open>The evidence bundle\<close>

record PreExecutionSafetyEvidence =
  pe_package_receipt :: PackageReceipt
  pe_safety_receipt :: PackageSafetyEvidenceReceipt
  pe_screening :: SecurityScreeningResult
  pe_checklist :: "CapabilitySafetyReview list"

definition normalise_pre_execution :: "PreExecutionSafetyEvidence \<Rightarrow> PreExecutionSafetyEvidence" where
  "normalise_pre_execution e =
     \<lparr>pe_package_receipt = normalise_receipt (pe_package_receipt e),
      pe_safety_receipt = normalise_safety (pe_safety_receipt e),
      pe_screening = normalise_screening (pe_screening e), pe_checklist = map normalise_review (pe_checklist e)\<rparr>"

definition required_checks :: "SecurityScreeningResult \<Rightarrow> PackageManifest \<Rightarrow> SafetyCheckId set" where
  "required_checks screening manifest =
     (let categories = set (map sg_category (sx_findings screening)); codes = set (map sg_code (sx_findings screening));
          scripts = (\<exists>f \<in> set (pm_files manifest). mf_role f = RoleScript) in
      {ContentAndInjection, SecretsAndPrivacy}
      \<union> (if ExternalServiceFinding \<in> categories then {NetworkAndExternalWrites} else {})
      \<union> (if DependencyFinding \<in> categories then {DependenciesAndBinaries} else {})
      \<union> (if UnsafePathFinding \<in> categories \<or> ''executable_source_capability'' \<in> codes \<or> ''pipe_to_shell_download'' \<in> codes
         then {FilesystemAndSubprocess} else {})
      \<union> (if McpAuthFinding \<in> categories \<or> ''system_service_modification'' \<in> codes then {ToolsAndPrivileges} else {})
      \<union> (if scripts then {FilesystemAndSubprocess, DependenciesAndBinaries} else {}))"

text \<open>The evidence of a safety receipt by its identifier; the last entry of a duplicated key would win.\<close>

definition evidence_digest :: "PackageSafetyEvidenceReceipt \<Rightarrow> string \<Rightarrow> string option" where
  "evidence_digest r key = map_of (rev (map (\<lambda>e. (se_evidence_id e, se_sha256 e)) (sv_evidence r))) key"

definition check_review_bindings :: "PreExecutionSafetyEvidence \<Rightarrow> PackageManifest \<Rightarrow> (bool \<times> string) list" where
  "check_review_bindings e manifest =
     (let safety = pe_safety_receipt e; required = required_checks (pe_screening e) manifest in
      [(map cv_check_id (pe_checklist e) \<noteq> SAFETY_CHECK_IDS,
        ''checklist must contain each canonical check exactly once in order''),
       (evidence_digest safety ''static-screening'' \<noteq> Some (canonical_json_sha256 (screening_json (pe_screening e)))
          \<or> evidence_digest safety ''capability-checklist'' \<noteq> Some (canonical_json_sha256 (checklist_json (pe_checklist e))),
        ''safety review must retain the actual screening and checklist digests'')]
      @ each (\<lambda>review.
          [(\<exists>key \<in> set (cv_evidence_ids review). evidence_digest safety key = None,
            ''each checklist outcome must retain supplied review evidence''),
           (cv_check_id review \<in> required \<and> \<not> cv_reviewed review,
            ''applicable checks cannot be marked not applicable'')]) (pe_checklist e))"

definition raised_by :: "'a result \<Rightarrow> (bool \<times> string) list" where
  "raised_by r = (case r of Inl (ContractError c m) \<Rightarrow> [(True, m)] | Inl (ValidationError m) \<Rightarrow> [(True, m)]
     | Inl (ValueErr m) \<Rightarrow> [(True, m)] | Inl _ \<Rightarrow> [(True, ''unexpected'')] | Inr _ \<Rightarrow> [])"

definition upstream_and_review_must_bind :: "PreExecutionSafetyEvidence \<Rightarrow> (bool \<times> string) list" where
  "upstream_and_review_must_bind e =
     (let package = pe_package_receipt e; screening = pe_screening e in
      raised_by (validate_against_package_receipt (pe_safety_receipt e) package)
      @ (case pr_manifest package of
           None \<Rightarrow> [(True, ''screening must bind the built package'')]
         | Some manifest \<Rightarrow>
             [(Some (sx_candidate screening) \<noteq> pr_candidate package, ''screening must bind the built package''),
              (sx_scanned_paths screening \<noteq> manifest_paths manifest, ''screening must capture every manifested file in order''),
              (sx_sensor_ids screening \<noteq> [''sdk-static-signature-v1''] \<or> sx_status screening = ScreenBlocked,
               ''execution requires the supported completed static screening'')]
             @ check_review_bindings e manifest))"

definition check_pre_execution :: "PreExecutionSafetyEvidence \<Rightarrow> (bool \<times> string) list" where
  "check_pre_execution e =
     field ''package_receipt'' (pr_schema_version (pe_package_receipt e) = ReceiptV2) @ check_receipt (pe_package_receipt e)
     @ check_safety (pe_safety_receipt e) @ check_screening (pe_screening e) @ each check_review (pe_checklist e)
     @ upstream_and_review_must_bind e"

section \<open>Static screening\<close>

definition safety_blocker :: "string \<Rightarrow> string \<Rightarrow> PackageSafetyBlocker" where
  "safety_blocker blocker_code message = \<lparr>sb_code = blocker_code, sb_message = message, sb_evidence_refs = []\<rparr>"

type_synonym indicators = "string \<Rightarrow> byte list \<Rightarrow> SecurityFinding list"

text \<open>A code keeps its first position; its references are merged and sorted.\<close>

definition merge_finding :: "(string \<times> SecurityFinding) list \<Rightarrow> SecurityFinding \<Rightarrow> (string \<times> SecurityFinding) list" where
  "merge_finding by_code f =
     (let previous = (case map_of by_code (sg_code f) of None \<Rightarrow> [] | Some p \<Rightarrow> sg_evidence_refs p) in
      AList.update (sg_code f) (f\<lparr>sg_evidence_refs := sort (remdups (sg_evidence_refs f @ previous))\<rparr>) by_code)"

definition screened_findings :: "indicators \<Rightarrow> (string \<times> byte list) list \<Rightarrow> SecurityFinding list" where
  "screened_findings indicators captured =
     map snd (fold (\<lambda>f by_code. merge_finding by_code f)
       (concat (map (\<lambda>(path, content). indicators path content) (sort_key fst captured))) [])"

definition screening_of :: "PackageCandidateIdentity \<Rightarrow> (string \<times> byte list) list \<Rightarrow> SecurityFinding list \<Rightarrow> SecurityScreeningResult" where
  "screening_of c captured findings =
     \<lparr>sx_candidate = c, sx_sensor_ids = [''sdk-static-signature-v1''],
      sx_status = (if findings = [] then ScreenPass else ScreenNeedsReview),
      sx_scanned_paths = sort (map fst captured), sx_findings = findings\<rparr>"

definition screen_package_security ::
  "indicators \<Rightarrow> package_tree \<Rightarrow> PackageReceipt \<Rightarrow> PackageSafetyBlocker + SecurityScreeningResult" where
  "screen_package_security indicators tree package_receipt =
     (let invalid = Inl (safety_blocker ''invalid_security_source'' ''Security capture requires a built readable package.'') in
      case validate_model normalise_receipt check_receipt package_receipt of
        Inl e \<Rightarrow> invalid
      | Inr r \<Rightarrow>
          (case (pr_status r, pr_manifest r, pr_candidate r) of
             (Built, Some manifest, Some c) \<Rightarrow>
               (case scan_files tree default_skill_policy of
                  Inl e \<Rightarrow> invalid
                | Inr (files, capture_findings, captured) \<Rightarrow>
                    if capture_findings \<noteq> [] \<or> files \<noteq> pm_files manifest
                    then Inl (safety_blocker ''security_source_changed'' ''Security capture must match the built package.'')
                    else (case validate_model normalise_screening check_screening
                              (screening_of c captured (screened_findings indicators captured)) of
                            Inl e \<Rightarrow> invalid | Inr screening \<Rightarrow> Inr screening))
           | _ \<Rightarrow> invalid))"

section \<open>The assessment\<close>

definition execution_blocker :: "string \<Rightarrow> PackageSafetyBlocker" where
  "execution_blocker blocker_code =
     safety_blocker blocker_code ''Execution requires current bound package safety evidence.''"

definition review_recency_blocker :: "PackageSafetyEvidenceReceipt \<Rightarrow> int \<Rightarrow> int \<Rightarrow> PackageSafetyBlocker option" where
  "review_recency_blocker r checked_at max_age_seconds =
     (if sv_status r \<noteq> ReviewedNoIssue \<or> rv_method (sv_reviewer r) = MetadataReview
      then Some (execution_blocker ''package_safety_review_required'')
      else if dt_instant (sv_observed_at r) > checked_at
      then Some (execution_blocker ''package_safety_evidence_future'')
      else if checked_at - dt_instant (sv_observed_at r) > max_age_seconds * 1000000
      then Some (execution_blocker ''package_safety_evidence_stale'')
      else None)"

text \<open>The \<^verbatim>\<open>try\<close> block: the request and the evidence, validated and bound to each other.\<close>

datatype admission = RequestBlocked | InvalidEvidence | BoundEvidence PreExecutionSafetyEvidence

definition bind_evidence ::
  "(aware_datetime \<Rightarrow> string) \<Rightarrow> ProviderExecutionRequest \<Rightarrow> PreExecutionSafetyEvidence raw \<Rightarrow> admission" where
  "bind_evidence render request evidence =
     (if \<not> rfc3339 (render (xr_prepared_at request)) \<or> \<not> is_ok (validate_model id check_execution_request request)
      then InvalidEvidence
      else if \<not> xr_prepared request then RequestBlocked
      else (case evidence of
          Fields raw \<Rightarrow>
            (case validate_model normalise_pre_execution check_pre_execution raw of
               Inl e \<Rightarrow> InvalidEvidence
             | Inr parsed \<Rightarrow>
                 if is_ok (validate_against_package_receipt (pe_safety_receipt parsed) (pe_package_receipt parsed))
                   \<and> is_ok (validate_against_package_safety_evidence render request (pe_safety_receipt parsed))
                 then BoundEvidence parsed else InvalidEvidence)
        | _ \<Rightarrow> InvalidEvidence))"

text \<open>
  \<open>max_age_seconds\<close> is \<open>None\<close> when it is not exactly an \<^verbatim>\<open>int\<close>, and \<open>checked_at\<close> when it is not an aware
  time; the clock read for a missing \<open>checked_at\<close> is the host's.
\<close>

definition assess_pre_execution_safety ::
  "(aware_datetime \<Rightarrow> string) \<Rightarrow> indicators \<Rightarrow> ProviderExecutionRequest \<Rightarrow> PreExecutionSafetyEvidence raw
   \<Rightarrow> int option \<Rightarrow> int option \<Rightarrow> package_tree option \<Rightarrow> PackageSafetyBlocker option" where
  "assess_pre_execution_safety render indicators request evidence checked_at max_age_seconds package_root =
     (if evidence = NoEvidence then Some (execution_blocker ''package_safety_evidence_required'')
      else case max_age_seconds of
        None \<Rightarrow> Some (execution_blocker ''invalid_safety_freshness_policy'')
      | Some max_age \<Rightarrow>
          if max_age < 1 \<or> 86400 < max_age then Some (execution_blocker ''invalid_safety_freshness_policy'')
          else (case checked_at of
              None \<Rightarrow> Some (execution_blocker ''invalid_safety_check_time'')
            | Some now \<Rightarrow>
                (case bind_evidence render request evidence of
                   RequestBlocked \<Rightarrow> Some (execution_blocker ''provider_request_blocked'')
                 | InvalidEvidence \<Rightarrow> Some (execution_blocker ''invalid_package_safety_evidence'')
                 | BoundEvidence parsed \<Rightarrow>
                     if dt_instant (sv_observed_at (pe_safety_receipt parsed)) < pr_finished_at (pe_package_receipt parsed)
                     then Some (execution_blocker ''package_safety_evidence_predates_build'')
                     else (case review_recency_blocker (pe_safety_receipt parsed) now max_age of
                         Some b \<Rightarrow> Some b
                       | None \<Rightarrow>
                           (case package_root of
                              None \<Rightarrow> None
                            | Some tree \<Rightarrow>
                                (case screen_package_security indicators tree (pe_package_receipt parsed) of
                                   Inl b \<Rightarrow> Some b
                                 | Inr observed \<Rightarrow>
                                     if observed \<noteq> pe_screening parsed
                                     then Some (execution_blocker ''security_screening_mismatch'') else None))))))"

section \<open>The models as instances of the interface\<close>

lemma normalise_review_idem [simp]: "normalise_review (normalise_review r) = normalise_review r"
  by (simp add: normalise_review_def)

interpretation review_model: contract_model normalise_review check_review
  by unfold_locales simp

interpretation pre_execution_model: contract_model normalise_pre_execution check_pre_execution
  by unfold_locales
    (simp add: normalise_pre_execution_def receipt_model.normalise_idem safety_model.normalise_idem screening_model.normalise_idem)

section \<open>What an admission establishes\<close>

text \<open>
  One package: the request, the build receipt, the safety receipt and the screening name the same
  candidate, and each later record holds the identifier and digest of the one it rests on.
\<close>

definition one_package :: "(aware_datetime \<Rightarrow> string) \<Rightarrow> ProviderExecutionRequest \<Rightarrow> PreExecutionSafetyEvidence \<Rightarrow> bool" where
  "one_package render request e \<longleftrightarrow>
     (let p = pe_package_receipt e; s = pe_safety_receipt e in
      passes (check_receipt p) \<and> pr_status p = Built \<and> pr_candidate p = Some (xr_candidate request)
      \<and> sv_candidate s = xr_candidate request \<and> sx_candidate (pe_screening e) = xr_candidate request
      \<and> sv_input_receipt_id s = pr_receipt_id p \<and> pr_package_digest p = Some (sv_package_digest s)
      \<and> xr_package_safety_receipt_id request = sv_receipt_id s
      \<and> xr_package_safety_receipt_sha256 request = canonical_json_sha256 (safety_json render s))"

text \<open>
  Reviewed: the receipt found no issue by more than metadata, and its evidence holds the digests of the
  screening and of a complete checklist whose applicable checks were all carried out.
\<close>

definition reviewed :: "PreExecutionSafetyEvidence \<Rightarrow> PackageManifest \<Rightarrow> bool" where
  "reviewed e m \<longleftrightarrow>
     (let s = pe_safety_receipt e in
      sv_status s = ReviewedNoIssue \<and> rv_method (sv_reviewer s) \<noteq> MetadataReview
      \<and> evidence_digest s ''static-screening'' = Some (canonical_json_sha256 (screening_json (pe_screening e)))
      \<and> evidence_digest s ''capability-checklist'' = Some (canonical_json_sha256 (checklist_json (pe_checklist e)))
      \<and> map cv_check_id (pe_checklist e) = SAFETY_CHECK_IDS
      \<and> (\<forall>review \<in> set (pe_checklist e). cv_check_id review \<in> required_checks (pe_screening e) m \<longrightarrow> cv_reviewed review)
      \<and> sx_scanned_paths (pe_screening e) = manifest_paths m \<and> sx_status (pe_screening e) \<noteq> ScreenBlocked)"

text \<open>Current: observed after the build, not in the future, and within the freshness budget.\<close>

definition current :: "PreExecutionSafetyEvidence \<Rightarrow> int \<Rightarrow> int \<Rightarrow> bool" where
  "current e now max_age \<longleftrightarrow>
     pr_finished_at (pe_package_receipt e) \<le> dt_instant (sv_observed_at (pe_safety_receipt e))
     \<and> dt_instant (sv_observed_at (pe_safety_receipt e)) \<le> now
     \<and> now - dt_instant (sv_observed_at (pe_safety_receipt e)) \<le> max_age * 1000000"

lemma raised_by_passes: "passes (raised_by r) \<longleftrightarrow> is_ok r"
  by (cases r) (auto simp: raised_by_def split: py_error.splits)

lemma normalise_safety_fixed:
  assumes "validate_model normalise_pre_execution check_pre_execution raw = Inr e"
  shows "normalise_safety (pe_safety_receipt e) = pe_safety_receipt e" "normalise_receipt (pe_package_receipt e) = pe_package_receipt e"
proof -
  have "normalise_pre_execution e = e" using pre_execution_model.validated_is_normal [OF assms] .
  then show "normalise_safety (pe_safety_receipt e) = pe_safety_receipt e"
    "normalise_receipt (pe_package_receipt e) = pe_package_receipt e"
    by (cases e; simp add: normalise_pre_execution_def)+
qed

lemma bound_evidence:
  assumes "bind_evidence render request evidence = BoundEvidence e"
  obtains raw m where "evidence = Fields raw" "validate_model normalise_pre_execution check_pre_execution raw = Inr e"
    "passes (check_execution_request request)" "xr_prepared request" "one_package render request e"
    "pr_manifest (pe_package_receipt e) = Some m" "pm_candidate m = xr_candidate request"
    "passes (upstream_and_review_must_bind e)"
proof -
  obtain raw where raw: "evidence = Fields raw" "validate_model normalise_pre_execution check_pre_execution raw = Inr e"
    and request: "passes (check_execution_request request)" "xr_prepared request"
    and bound: "is_ok (validate_against_package_receipt (pe_safety_receipt e) (pe_package_receipt e))"
      "is_ok (validate_against_package_safety_evidence render request (pe_safety_receipt e))"
    using assms
    by (auto simp: bind_evidence_def is_ok_iff execution_request_model.validate_ok_iff split: if_splits raw.splits sum.splits)
  note normal = normalise_safety_fixed [OF raw(2)]
  have checks: "passes (upstream_and_review_must_bind e)"
    using pre_execution_model.validated_passes [OF raw(2)] by (simp add: check_pre_execution_def)
  obtain s where "validate_against_package_receipt (pe_safety_receipt e) (pe_package_receipt e) = Inr s"
    using bound(1) by (auto simp: is_ok_iff)
  from bound_to_package [OF this] normal(2) have package: "passes (check_receipt (pe_package_receipt e))"
    "pr_status (pe_package_receipt e) = Built"
    "sv_input_receipt_id (pe_safety_receipt e) = pr_receipt_id (pe_package_receipt e)"
    "pr_candidate (pe_package_receipt e) = Some (sv_candidate (pe_safety_receipt e))"
    "pr_package_digest (pe_package_receipt e) = Some (sv_package_digest (pe_safety_receipt e))"
    by metis+
  have safety: "passes (safety_bindings render request (pe_safety_receipt e))"
    using bound(2) normal(1) by (auto simp: is_ok_iff bound_to_safety)
  obtain m where m: "pr_manifest (pe_package_receipt e) = Some m" "pm_candidate m = sv_candidate (pe_safety_receipt e)"
    using package by (auto simp: check_receipt_def receipt_matches_manifest_def Let_def)
  have "one_package render request e"
    using package safety checks m(1) by (simp add: one_package_def safety_bindings_def upstream_and_review_must_bind_def Let_def)
  then show thesis using that raw request m safety checks by (simp add: safety_bindings_def)
qed

lemma passes_review_bindings:
  assumes "passes (upstream_and_review_must_bind e)" "pr_manifest (pe_package_receipt e) = Some m"
    "sv_status (pe_safety_receipt e) = ReviewedNoIssue" "rv_method (sv_reviewer (pe_safety_receipt e)) \<noteq> MetadataReview"
  shows "reviewed e m"
  using assms
  by (auto simp: reviewed_def upstream_and_review_must_bind_def check_review_bindings_def Let_def)

text \<open>A screening of a tree that a receipt binds saw exactly the files of its manifest.\<close>

lemma screened_tree:
  assumes "screen_package_security indicators tree p = Inr screening" "normalise_receipt p = p" "pr_manifest p = Some m"
  obtains captured where "scan_files tree default_skill_policy = Inr (pm_files m, [], captured)"
    "sx_findings screening = map normalise_security_finding (screened_findings indicators captured)"
  using assms
  by (auto simp: screen_package_security_def receipt_model.validate_ok_iff screening_model.validate_ok_iff
      screening_of_def normalise_screening_def Let_def split: sum.splits option.splits BuildStatus.splits if_splits prod.splits)

lemma assessment_None:
  assumes "assess_pre_execution_safety render indicators request evidence checked_at max_age_seconds package_root = None"
  obtains e now max_age where "bind_evidence render request evidence = BoundEvidence e" "checked_at = Some now"
    "max_age_seconds = Some max_age" "1 \<le> max_age" "max_age \<le> 86400" "current e now max_age"
    "sv_status (pe_safety_receipt e) = ReviewedNoIssue" "rv_method (sv_reviewer (pe_safety_receipt e)) \<noteq> MetadataReview"
    "\<forall>tree. package_root = Some tree \<longrightarrow>
       screen_package_security indicators tree (pe_package_receipt e) = Inr (pe_screening e)"
  using assms
  by (auto simp: assess_pre_execution_safety_def review_recency_blocker_def current_def
      split: if_splits option.splits admission.splits sum.splits)

text \<open>The assessment never raises, and a refusal is a valid blocker.\<close>

definition EXECUTION_BLOCKERS :: "string list" where
  "EXECUTION_BLOCKERS =
     [''package_safety_evidence_required'', ''invalid_safety_freshness_policy'', ''invalid_safety_check_time'',
      ''provider_request_blocked'', ''invalid_package_safety_evidence'', ''package_safety_evidence_predates_build'',
      ''package_safety_review_required'', ''package_safety_evidence_future'', ''package_safety_evidence_stale'',
      ''security_screening_mismatch'', ''security_source_changed'', ''invalid_security_source'']"

definition refused :: "PackageSafetyBlocker \<Rightarrow> bool" where
  "refused b = (sb_code b \<in> set EXECUTION_BLOCKERS \<and> sb_evidence_refs b = [])"

lemma refused_blockers [simp]:
  "c \<in> set EXECUTION_BLOCKERS \<Longrightarrow> refused (execution_blocker c)" "c \<in> set EXECUTION_BLOCKERS \<Longrightarrow> refused (safety_blocker c m)"
  by (simp_all add: refused_def execution_blocker_def safety_blocker_def)

lemma execution_blocker_codes [simp]:
  "''package_safety_evidence_required'' \<in> set EXECUTION_BLOCKERS" "''invalid_safety_freshness_policy'' \<in> set EXECUTION_BLOCKERS"
  "''invalid_safety_check_time'' \<in> set EXECUTION_BLOCKERS" "''provider_request_blocked'' \<in> set EXECUTION_BLOCKERS"
  "''invalid_package_safety_evidence'' \<in> set EXECUTION_BLOCKERS" "''package_safety_evidence_predates_build'' \<in> set EXECUTION_BLOCKERS"
  "''package_safety_review_required'' \<in> set EXECUTION_BLOCKERS" "''package_safety_evidence_future'' \<in> set EXECUTION_BLOCKERS"
  "''package_safety_evidence_stale'' \<in> set EXECUTION_BLOCKERS" "''security_screening_mismatch'' \<in> set EXECUTION_BLOCKERS"
  "''security_source_changed'' \<in> set EXECUTION_BLOCKERS" "''invalid_security_source'' \<in> set EXECUTION_BLOCKERS"
  by code_simp+

lemma screening_blocker: "screen_package_security indicators tree p = Inl b \<Longrightarrow> refused b"
  by (auto simp: screen_package_security_def Let_def
      split: sum.splits option.splits BuildStatus.splits if_splits prod.splits)

lemma recency_blocker: "review_recency_blocker r now max_age = Some b \<Longrightarrow> refused b"
  by (auto simp: review_recency_blocker_def split: if_splits)

lemma assessment_blocker:
  "assess_pre_execution_safety render indicators request evidence checked_at max_age_seconds package_root = Some b \<Longrightarrow> refused b"
  using screening_blocker recency_blocker
  by (auto simp: assess_pre_execution_safety_def split: if_splits option.splits admission.splits sum.splits)

end
