(* ===== verification/Demo_Safety.thy ===== *)
theory Demo_Safety
  imports Demo_Provider Pre_Execution
begin

text \<open>
  A concrete package tree with its build, and the safety evidence for executing it, for the witnesses:
  a directory with \<^verbatim>\<open>SKILL.md\<close> and \<^verbatim>\<open>README.md\<close>, the receipt built from it, a manual review without
  issues, and a request bound to all of that.
\<close>

section \<open>The tree\<close>

definition demo_listing :: "(file_name \<times> node) list" where
  "demo_listing = [(Name ''SKILL.md'', RegularFile [1] True), (Name ''README.md'', RegularFile [2] True)]"

definition demo_tree :: package_tree where
  "demo_tree = OpenedRoot (Some demo_listing) False"

definition demo_root :: package_root where
  "demo_root = \<lparr>root_name = Name ''demo'', root_is_directory = True, root_has_skill_md = True, root_tree = demo_tree\<rparr>"

definition demo_matter :: string where
  "demo_matter = ''---'' @ CHR 0x0A # ''name: demo'' @ CHR 0x0A # ''---''"

definition demo_texts_library :: text_library where
  "demo_texts_library = \<lparr>tl_decode = (\<lambda>_. Some demo_matter), tl_decode_sig = (\<lambda>_. None), tl_json_parses = (\<lambda>_. False),
     tl_yaml_events = (\<lambda>_. ([], False)),
     tl_load = (\<lambda>_. Inr (YMap [(''name'', YStr ''demo''), (''description'', YStr ''hi'')] ''''))\<rparr>"

definition demo_captured :: "(string \<times> byte list) list" where
  "demo_captured = [(''README.md'', [2]), (''SKILL.md'', [1])]"

definition demo_tree_files :: "PackageManifestFile list" where
  "demo_tree_files = map file_record demo_captured"

definition demo_skill :: SkillIdentity where
  "demo_skill = \<lparr>si_package_id = ''demo'', si_name = ''demo'', si_version = ''0.1.0''\<rparr>"

definition demo_revision :: string where
  "demo_revision = replicate 40 (CHR ''0'')"

lemma demo_revision_ok: "is_git_revision demo_revision"
  using demo_texts(5) by (simp add: demo_revision_def)

lemma demo_tree_os: "os_package demo_tree"
  by (simp add: demo_tree_def demo_listing_def os_name_def)

lemma demo_loader: "loader_returns demo_texts_library"
  by (simp add: loader_returns_def demo_texts_library_def)

lemma demo_visit:
  "visit default_skill_policy [] 0 (Directory (Some demo_listing) False) =
     [Captured ''README.md'' [2], Captured ''SKILL.md'' [1]]"
proof -
  have "by_name demo_listing = [(Name ''README.md'', RegularFile [2] True), (Name ''SKILL.md'', RegularFile [1] True)]"
    by code_simp
  moreover have "lower ''README.md'' = ''readme.md''" "lower ''SKILL.md'' = ''skill.md''" by code_simp+
  moreover have "unsafe_package_file_reason ''README.md'' = None" "unsafe_package_file_reason ''SKILL.md'' = None"
    by code_simp+
  ultimately show ?thesis
    using demo_paths
    by (simp add: visit.simps visit_entry.simps refused_name_def posix_path_def UNSAFE_PACKAGE_DIRECTORIES_def
        reference_depth_def too_deep_def default_skill_policy_def)
qed

lemma demo_scan: "scan_files demo_tree default_skill_policy = Inr (demo_tree_files, [], demo_captured)"
proof -
  have "''README.md'' \<le> (''SKILL.md'' :: string)" by code_simp
  then have "sort_key mf_path demo_tree_files = demo_tree_files"
    by (simp add: demo_tree_files_def demo_captured_def file_record_def)
  moreover have "validate_model normalise_file check_file (file_record (''README.md'', [2])) = Inr (file_record (''README.md'', [2]))"
    "validate_model normalise_file check_file (file_record (''SKILL.md'', [1])) = Inr (file_record (''SKILL.md'', [1]))"
    using demo_paths by (simp_all add: file_record_Inr)
  then have "gather (visit default_skill_policy [] 0 (Directory (Some demo_listing) False)) = Inr (demo_tree_files, [], demo_captured)"
    unfolding demo_visit by (simp add: demo_tree_files_def demo_captured_def)
  ultimately show ?thesis by (simp add: scan_files_def demo_tree_def)
qed

lemma demo_identity_read:
  "captured_skill_identity demo_texts_library (Name ''demo'') (Some [1]) default_skill_policy = Inr (Some demo_skill, [])"
proof -
  have "read_frontmatter (\<lambda>_. Inr (YMap [(''name'', YStr ''demo''), (''description'', YStr ''hi'')] [])) demo_matter
      = Inr \<lparr>fm_members = [(''name'', YStr ''demo''), (''description'', YStr ''hi'')], fm_body = [], fm_closed = True\<rparr>"
    by code_simp
  moreover have "strip ''demo'' = ''demo''" "strip ''hi'' = ''hi''" "strip ''0.1.0'' = ''0.1.0''" by code_simp+
  moreover have "validate_model normalise_skill check_skill demo_skill = Inr demo_skill" by code_simp
  ultimately show ?thesis
    by (simp add: captured_skill_identity_def demo_texts_library_def build_skill_ir_def declared_name_def
        name_or_directory_def yaml_or_def version_text_def description_text_def validate_ir_def ir_observations_def
        unknown_keys_def default_skill_policy_def ALLOWED_FRONTMATTER_def demo_skill_def)
qed

lemma demo_accepted:
  "accepted_root demo_texts_library demo_root default_skill_policy demo_tree_files (Some demo_skill) demo_captured"
proof -
  have "map_of demo_captured ''SKILL.md'' = Some [1]" by (simp add: demo_captured_def)
  moreover have "package_policy_observations demo_texts_library demo_captured default_skill_policy = []"
    by (simp add: package_policy_observations_def default_skill_policy_def)
  ultimately show ?thesis
    using demo_scan demo_identity_read demo_texts(1) by (simp add: accepted_root_def demo_root_def)
qed

lemma demo_passing: "passing demo_texts_library demo_root demo_revision None demo_tree_files (Some demo_skill)"
proof -
  have "policy_ok default_skill_policy" by (simp add: policy_ok_def default_skill_policy_def)
  then show ?thesis
    using demo_accepted demo_revision_ok unfolding passing_def by (auto simp: active_policy_def)
qed

lemma demo_built:
  obtains r where "build_skill_package demo_texts_library demo_root demo_revision None 0 1 = Inr r" "pr_status r = Built"
proof -
  have "os_package (root_tree demo_root)" "listable (root_tree demo_root)"
    using demo_tree_os by (simp_all add: demo_root_def demo_tree_def)
  from build_total [OF this demo_loader, of 0 1 demo_revision None] show thesis
    using that demo_passing by (metis zero_le_one)
qed

section \<open>The safety evidence\<close>

definition demo_tree_candidate :: PackageCandidateIdentity where
  "demo_tree_candidate = directory_candidate (Name ''demo'') demo_revision demo_tree_files"

definition demo_tree_manifest :: PackageManifest where
  "demo_tree_manifest = built_manifest demo_tree_candidate demo_skill demo_tree_files"

definition demo_tree_receipt :: PackageReceipt where
  "demo_tree_receipt =
     \<lparr>pr_schema_version = ReceiptV2, pr_receipt_id = ''demo-1'', pr_candidate = Some demo_tree_candidate,
      pr_status = Built, pr_started_at = 0, pr_finished_at = 1, pr_evidence = [''README.md'', ''SKILL.md''],
      pr_blocker = None, pr_package_digest = Some (canonical_json_sha256 (manifest_json demo_tree_manifest)),
      pr_manifest = Some demo_tree_manifest, pr_included_files = [''README.md'', ''SKILL.md''], pr_excluded_files = []\<rparr>"

lemma demo_tree_candidate_ok: "passes (check_candidate demo_tree_candidate)" "package_id demo_tree_candidate = ''demo''"
proof -
  show "passes (check_candidate demo_tree_candidate)"
    unfolding demo_tree_candidate_def by (rule directory_candidate_ok [OF demo_revision_ok])
  have "candidate_package_id ''demo'' d = ''demo''" for d
    using demo_texts(1) unfolding candidate_package_id_def is_identifier_def by (simp only: if_True simp_thms)
  then show "package_id demo_tree_candidate = ''demo''"
    by (simp add: demo_tree_candidate_def directory_candidate_def Let_def)
qed

lemma demo_skill_ok: "passes (check_skill demo_skill)" "normalise_skill demo_skill = demo_skill"
  by code_simp+

lemma demo_tree_manifest_ok: "normalise_manifest demo_tree_manifest = demo_tree_manifest" "passes (check_manifest demo_tree_manifest)"
proof -
  have "\<forall>f \<in> set demo_tree_files. passes (check_file f) \<and> normalise_file f = f"
    using scan_made [OF demo_scan] by blast
  moreover have "distinct (map mf_path demo_tree_files)" "demo_tree_files \<noteq> []"
    by (simp_all add: demo_tree_files_def demo_captured_def file_record_def)
  ultimately show "normalise_manifest demo_tree_manifest = demo_tree_manifest" "passes (check_manifest demo_tree_manifest)"
    using built_manifest_valid [OF demo_tree_candidate_ok(1) demo_skill_ok, of demo_tree_files]
    by (simp_all add: demo_tree_manifest_def manifest_model.fixpoint_iff)
qed

lemma demo_tree_paths: "manifest_paths demo_tree_manifest = [''README.md'', ''SKILL.md'']"
  by (simp add: manifest_paths_def demo_tree_manifest_def built_manifest_def demo_tree_files_def demo_captured_def file_record_def)

lemma demo_tree_receipt_ok: "normalise_receipt demo_tree_receipt = demo_tree_receipt" "passes (check_receipt demo_tree_receipt)"
proof -
  have "passes (receipt_matches_manifest demo_tree_receipt)"
    using demo_tree_paths
    by (simp add: receipt_matches_manifest_def demo_tree_receipt_def paths_of_def demo_tree_manifest_def built_manifest_def)
  moreover have "passes (package_digest_matches_manifest demo_tree_receipt)"
    by (simp add: package_digest_matches_manifest_def demo_tree_receipt_def demo_tree_manifest_def built_manifest_def
        demo_tree_candidate_def directory_candidate_def Let_def)
  ultimately show "passes (check_receipt demo_tree_receipt)"
    using demo_tree_candidate_ok demo_tree_manifest_ok demo_texts demo_paths
    by (simp add: check_receipt_def) (simp add: demo_tree_receipt_def unique_portables_iff)
  show "normalise_receipt demo_tree_receipt = demo_tree_receipt"
    using demo_tree_candidate_ok demo_tree_manifest_ok demo_texts
    by (simp add: normalise_receipt_def demo_tree_receipt_def trim_identifier valid_candidate_normal)
qed

definition no_indicators :: indicators where
  "no_indicators path content = []"

definition demo_screening :: SecurityScreeningResult where
  "demo_screening = screening_of demo_tree_candidate demo_captured []"

definition demo_checklist :: "CapabilitySafetyReview list" where
  "demo_checklist = map (\<lambda>check. \<lparr>cv_check_id = check, cv_reviewed = True, cv_rationale = ''default'',
     cv_evidence_ids = [''static-screening'']\<rparr>) SAFETY_CHECK_IDS"

definition demo_safety_evidence :: "PackageSafetyEvidenceReference list" where
  "demo_safety_evidence =
     [\<lparr>se_evidence_id = ''static-screening'', se_kind = ReviewEvidence StaticAnalysisReview, se_ref = ''SKILL.md'',
       se_sha256 = canonical_json_sha256 (screening_json demo_screening)\<rparr>,
      \<lparr>se_evidence_id = ''capability-checklist'', se_kind = PolicyEvidence, se_ref = ''README.md'',
       se_sha256 = canonical_json_sha256 (checklist_json demo_checklist)\<rparr>]"

definition demo_reviewer :: PackageSafetyReviewer where
  "demo_reviewer = \<lparr>rv_adapter_id = ''demo'', rv_adapter_version_or_digest = ''1.0.0'', rv_method = ManualReview\<rparr>"

definition demo_safety_receipt :: PackageSafetyEvidenceReceipt where
  "demo_safety_receipt =
     \<lparr>sv_receipt_id = ''demo-1'', sv_candidate = demo_tree_candidate, sv_input_receipt_id = ''demo-1'',
      sv_package_digest = canonical_json_sha256 (manifest_json demo_tree_manifest), sv_reviewer = demo_reviewer,
      sv_status = ReviewedNoIssue, sv_observed_at = demo_time, sv_evidence = demo_safety_evidence, sv_findings = [],
      sv_blocker = None, sv_blockers = []\<rparr>"

definition demo_safety :: PreExecutionSafetyEvidence where
  "demo_safety = \<lparr>pe_package_receipt = demo_tree_receipt, pe_safety_receipt = demo_safety_receipt,
     pe_screening = demo_screening, pe_checklist = demo_checklist\<rparr>"

definition demo_bound_request :: ProviderExecutionRequest where
  "demo_bound_request = demo_call_request\<lparr>xr_candidate := demo_tree_candidate,
     xr_package_safety_receipt_id := ''demo-1'', xr_package_safety_receipt_sha256 := canonical_json_sha256 (safety_json wire_time demo_safety_receipt)\<rparr>"

lemma demo_public_screening: "lifecycle_text_is_public_safe ''static-screening''"
  by code_simp

lemma demo_public_checklist: "lifecycle_text_is_public_safe ''capability-checklist''"
  by code_simp

lemma demo_safety_ids: "is_identifier ''static-screening''" "is_identifier ''capability-checklist''"
  "rx_fullmatch SafetyAdapterId_rx ''demo''" "rx_fullmatch SafetyAdapterVersion_rx ''1.0.0''" "strip ''default'' = ''default''"
  "strip ''demo'' = ''demo''" "strip ''1.0.0'' = ''1.0.0''" "strip ''demo-1'' = ''demo-1''"
  "strip ''static-screening'' = ''static-screening''" "strip ''capability-checklist'' = ''capability-checklist''"
  by code_simp+

lemma demo_screening_ok:
  "normalise_screening demo_screening = demo_screening" "passes (check_screening demo_screening)"
  "sx_scanned_paths demo_screening = [''README.md'', ''SKILL.md'']"
proof -
  have "''README.md'' \<le> (''SKILL.md'' :: string)" by code_simp
  then show paths: "sx_scanned_paths demo_screening = [''README.md'', ''SKILL.md'']"
    by (simp add: demo_screening_def screening_of_def demo_captured_def)
  show "normalise_screening demo_screening = demo_screening"
    using demo_tree_candidate_ok(1)
    by (simp add: demo_screening_def screening_of_def normalise_screening_def valid_candidate_normal)
  have "passes (normalized_sensor_ids [''sdk-static-signature-v1''])" by code_simp
  then show "passes (check_screening demo_screening)"
    using paths demo_tree_candidate_ok(1) demo_paths
    by (simp add: check_screening_def demo_screening_def screening_of_def portables_iff screening_status_matches_def)
qed

lemma demo_checklist_ok: "map normalise_review demo_checklist = demo_checklist" "\<forall>r \<in> set demo_checklist. passes (check_review r)"
proof -
  show "map normalise_review demo_checklist = demo_checklist"
    by (simp add: demo_checklist_def SAFETY_CHECK_IDS_def normalise_review_def) (code_simp)
  show "\<forall>r \<in> set demo_checklist. passes (check_review r)"
    using demo_public_target demo_safety_ids
    by (auto simp: demo_checklist_def check_review_def)
qed

lemma demo_safety_receipt_ok:
  "normalise_safety demo_safety_receipt = demo_safety_receipt" "passes (check_safety demo_safety_receipt)"
proof -
  show "normalise_safety demo_safety_receipt = demo_safety_receipt"
    by (simp add: normalise_safety_def demo_safety_receipt_def demo_safety_evidence_def normalise_evidence_def)
  have "passes (check_reviewer demo_reviewer)"
    using demo_safety_ids demo_public
    by (simp add: check_reviewer_def demo_reviewer_def safe_identity_def)
  moreover have "\<forall>e \<in> set demo_safety_evidence. passes (check_evidence e)"
    using demo_safety_ids demo_public demo_public_screening demo_public_checklist demo_paths
    by (simp add: demo_safety_evidence_def check_evidence_def safe_identity_def)
  moreover have "passes (check_safety_candidate demo_tree_candidate)"
    using demo_tree_candidate_ok(1)
    by (auto simp: check_safety_candidate_def check_candidate_iff identifier_stripped sha256_stripped
        git_revision_stripped)
  ultimately show "passes (check_safety demo_safety_receipt)"
    using demo_texts demo_public demo_safety_ids
    by (simp add: check_safety_def demo_safety_receipt_def sha256_stripped demo_safety_evidence_def safe_identity_def state_matches_evidence_def
        status_matches_evidence_def Let_def)
qed

lemma demo_bundle_ok: "validate_model normalise_pre_execution check_pre_execution demo_safety = Inr demo_safety"
proof -
  have "raised_by (validate_against_package_receipt demo_safety_receipt demo_tree_receipt) = []"
    using demo_tree_receipt_ok
    by (simp add: validate_against_package_receipt_def validate_model_def passes_def require_passes_def raised_by_def
        package_bindings_def) (simp add: demo_tree_receipt_def demo_safety_receipt_def)
  moreover have "passes (check_review_bindings demo_safety demo_tree_manifest)"
    by (simp add: check_review_bindings_def demo_safety_def demo_checklist_def SAFETY_CHECK_IDS_def evidence_digest_def
        demo_safety_receipt_def demo_safety_evidence_def Let_def)
  ultimately have "passes (upstream_and_review_must_bind demo_safety)"
    using demo_screening_ok(3) demo_tree_paths
    by (simp add: upstream_and_review_must_bind_def demo_safety_def demo_tree_receipt_def)
      (simp add: demo_screening_def screening_of_def)
  moreover have "pr_schema_version demo_tree_receipt = ReceiptV2" by (simp add: demo_tree_receipt_def)
  ultimately show ?thesis
    using demo_tree_receipt_ok demo_safety_receipt_ok demo_screening_ok demo_checklist_ok
    by (simp add: pre_execution_model.fixpoint_iff normalise_pre_execution_def check_pre_execution_def)
      (simp add: demo_safety_def)
qed

lemma demo_redacted: "registry_evidence_is_redaction_safe ''demo-1''"
  by code_simp

lemma demo_bound_request_ok: "passes (check_execution_request demo_bound_request)" "xr_prepared demo_bound_request"
proof -
  have "candidate_is_public demo_tree_candidate"
    using demo_texts(1) demo_public_id demo_tree_candidate_ok(2) by (simp add: candidate_is_public_def identifier_public_iff)
  then have "passes (check_public_candidate demo_tree_candidate)"
    using demo_tree_candidate_ok by (simp add: passes_public_candidate)
  then show "passes (check_execution_request demo_bound_request)" "xr_prepared demo_bound_request"
    using demo_request_ok demo_public_ids demo_texts demo_redacted
    by (simp_all add: check_execution_request_def demo_bound_request_def demo_call_request_def passes_public_id
        passes_normalized_digest passes_evidence identifier_public_iff)
qed

lemma demo_bound: "bind_evidence wire_time demo_bound_request (Fields demo_safety) = BoundEvidence demo_safety"
proof -
  have "is_ok (validate_against_package_receipt demo_safety_receipt demo_tree_receipt)"
    using demo_tree_receipt_ok
    by (simp add: validate_against_package_receipt_def validate_model_def passes_def require_passes_def package_bindings_def)
      (simp add: demo_tree_receipt_def demo_safety_receipt_def)
  moreover have "passes (safety_bindings wire_time demo_bound_request demo_safety_receipt)"
    by (simp add: safety_bindings_def demo_bound_request_def demo_safety_receipt_def)
  then have "is_ok (validate_against_package_safety_evidence wire_time demo_bound_request demo_safety_receipt)"
    using demo_safety_receipt_ok demo_wire_time
    by (auto simp: is_ok_iff bound_to_safety) (simp add: demo_safety_receipt_def)
  moreover have "is_ok (validate_model id check_execution_request demo_bound_request)"
    using demo_bound_request_ok by (auto simp: is_ok_iff execution_request_model.validate_ok_iff)
  moreover have "rfc3339 (wire_time (xr_prepared_at demo_bound_request))"
    using demo_wire_time by (simp add: demo_bound_request_def demo_call_request_def)
  ultimately show ?thesis
    using demo_bound_request_ok(2) demo_bundle_ok by (simp add: bind_evidence_def) (simp add: demo_safety_def)
qed

lemma demo_screened: "screen_package_security no_indicators demo_tree demo_tree_receipt = Inr demo_screening"
proof -
  have "screened_findings no_indicators demo_captured = []"
    by (simp add: screened_findings_def no_indicators_def demo_captured_def)
  then have "validate_model normalise_screening check_screening
      (screening_of demo_tree_candidate demo_captured (screened_findings no_indicators demo_captured)) = Inr demo_screening"
    using demo_screening_ok by (simp add: screening_model.fixpoint_iff demo_screening_def)
  moreover have "validate_model normalise_receipt check_receipt demo_tree_receipt = Inr demo_tree_receipt"
    using demo_tree_receipt_ok by (simp add: receipt_model.fixpoint_iff)
  ultimately show ?thesis
    using demo_scan
    by (simp add: screen_package_security_def) (simp add: demo_tree_receipt_def demo_tree_manifest_def built_manifest_def)
qed

lemma demo_admitted:
  "assess_pre_execution_safety wire_time no_indicators demo_bound_request (Fields demo_safety)
     (Some 1780000000000000) (Some 3600) (Some demo_tree) = None"
  using demo_bound demo_screened
  by (simp add: assess_pre_execution_safety_def)
    (simp add: demo_safety_def demo_safety_receipt_def demo_tree_receipt_def review_recency_blocker_def demo_reviewer_def
      demo_time_def)

end
