(* ===== verification/Intake.thy ===== *)
theory Intake
  imports Skill_Build Lifecycle
begin

text \<open>
  Package intake: \<^verbatim>\<open>models/intake.py\<close> (context, decision and receipt in their three versions) and
  \<^verbatim>\<open>intake/normalization.py\<close>. The version of a context is the kind of source it names: a repository,
  a saved release, or a local archive; a receipt holds records of its context's version. The traversal
  of untyped input that precedes the models is not part of the typed values.
\<close>

section \<open>Public owner metadata\<close>

text \<open>
  The alternatives of \<open>_OWNER_PRIVATE_PATTERN\<close>. The code searches the raw text of a field; white space
  around it matters to none of them, so they are stated of the stripped one.
\<close>

definition ci_space :: rx where "ci_space = Cls py_space"

definition owner_secret_rx :: rx where
  "owner_secret_rx = alts
     [Seq (lit_ci ''aiza'') (times 35 (Cls (\<lambda>c. is_alnum c \<or> c \<in> set ''_-''))),
      Seq (lit_ci ''akia'') (times 16 (Cls is_alnum)),
      seqs [lit_ci ''bearer'', plus ci_space, plus (Cls (\<lambda>c. \<not> py_space c))],
      lit_ci ''ghp_'', lit_ci ''github_pat_'', lit_ci ''hf_'', lit_ci ''sk-'',
      seqs [lit_ci ''xox'', alts [lit_ci ''b'', lit_ci ''p''], lit ''-''],
      seqs [alts [seqs [lit_ci ''api'', opt_sep, lit_ci ''key''], lit_ci ''token'', lit_ci ''secret'',
              lit_ci ''password'', lit_ci ''credential''],
            opt (Cls (\<lambda>c. c = CHR 0x22 \<or> c = CHR 0x27)), Star ci_space, one_of '':='']]"

definition pem_header_rx :: rx where
  "pem_header_rx = seqs [lit ''-----BEGIN'', Star (Cls (\<lambda>c. c = CHR '' '' \<or> is_upper c)), lit '' PRIVATE KEY-----'']"

definition url_userinfo_rx :: rx where
  "url_userinfo_rx = seqs
     [Cls lower_or_upper, Star (Cls (\<lambda>c. is_alnum c \<or> c \<in> set ''+.-'')), lit ''://'',
      Star (Cls (\<lambda>c. c \<noteq> CHR ''/'' \<and> \<not> py_space c)), lit ''@'']"

definition either_slash :: rx where
  "either_slash = Cls (\<lambda>c. c = CHR ''/'' \<or> c = CHR 0x5C)"

definition absolute_path_rx :: rx where
  "absolute_path_rx = alts
     [Seq (lit ''/'') (Cls (\<lambda>c. c \<noteq> CHR ''/'' \<and> \<not> py_space c)),
      seqs [Cls lower_or_upper, lit '':'', either_slash]]"

definition home_variable_rx :: rx where
  "home_variable_rx = alts
     [Seq (lit ''~'') either_slash,
      seqs [lit ''$'', opt (lit ''{''), alts [lit ''HOME'', lit ''USER'', lit ''USERPROFILE''], opt (lit ''}''), either_slash],
      seqs [chr (CHR 0x25), alts [lit ''HOME'', lit ''USER'', lit ''USERPROFILE''], chr (CHR 0x25), either_slash]]"

definition owner_text_is_private :: "string \<Rightarrow> bool" where
  "owner_text_is_private t =
     (after_boundary (\<lambda>c. \<not> is_alnum c) owner_secret_rx t
      \<or> rx_search (alts [pem_header_rx, url_userinfo_rx, lit_ci ''file://'',
           Seq (chr (CHR 0x5C)) (chr (CHR 0x5C)), home_variable_rx]) t
      \<or> after_boundary (\<lambda>c. py_space c \<or> c \<in> set ''(=:'' \<or> c = CHR 0x22 \<or> c = CHR 0x27) absolute_path_rx t)"

definition public_owner_metadata :: "PackageOwner \<Rightarrow> (bool \<times> string) list" where
  "public_owner_metadata w =
     [(\<exists>t \<in> {po_owner w, po_maintainer w, rs_license (po_rights w)}. owner_text_is_private t,
       ''intake owner metadata must be public text without machine paths or credential shapes'')]"

section \<open>The decision\<close>

text \<open>\<^verbatim>\<open>dict.fromkeys\<close> keeps the first of equal codes.\<close>

definition distinct_first :: "'a list \<Rightarrow> 'a list" where
  "distinct_first xs = rev (remdups (rev xs))"

definition check_blockers :: "IntakeChecks \<Rightarrow> string list" where
  "check_blockers c =
     (if ic_identity c then [] else [''identity_unconfirmed''])
     @ (if ic_provenance c then [] else [''provenance_unconfirmed''])
     @ (if ic_rights c then [] else [''rights_unconfirmed''])
     @ (if ic_owner_unchanged c then [] else [''owner_decision_required''])"

definition build_intake_decision ::
  "PackageCandidateIdentity \<Rightarrow> IntakeChecks \<Rightarrow> string list \<Rightarrow> IntakeDecision result" where
  "build_intake_decision candidate c additional =
     and_then (validate_model normalise_candidate check_candidate candidate) (\<lambda>candidate.
       validate_model normalise_decision check_decision
         \<lparr>id_candidate = candidate,
          id_decision = (if additional \<noteq> [] \<or> \<not> (ic_identity c \<and> ic_provenance c \<and> ic_rights c) then Block
                         else if \<not> ic_owner_unchanged c then DecisionNeedsOwner else Admit),
          id_checks = c, id_blocker_codes = distinct_first (additional @ check_blockers c)\<rparr>)"

section \<open>The context\<close>

record RepositorySelection =
  rz_repository :: string
  rz_revision :: string
  rz_path :: string
  rz_kind :: PackageSourceKind

datatype IntakeSource = RepositoryInput RepositorySelection | ReleaseInput SavedReleaseProvenance

record SkillPackageIntakeContext =
  cx_source :: IntakeSource
  cx_owner :: PackageOwner
  cx_checks :: IntakeChecks

definition repository_slug_rx :: rx where
  "repository_slug_rx =
     (let part = Seq (Cls is_alnum) (Star (Cls (\<lambda>c. is_alnum c \<or> c \<in> set ''._-''))) in seqs [part, lit ''/'', part])"

fun normalise_intake_source :: "IntakeSource \<Rightarrow> IntakeSource" where
  "normalise_intake_source (RepositoryInput s) = RepositoryInput (s\<lparr>rz_revision := trim (rz_revision s)\<rparr>)"
| "normalise_intake_source (ReleaseInput p) = ReleaseInput (normalise_provenance p)"

fun check_intake_source :: "IntakeSource \<Rightarrow> (bool \<times> string) list" where
  "check_intake_source (RepositoryInput s) =
     [(\<not> rx_fullmatch repository_slug_rx (rz_repository s),
       ''intake repository must be a credential-free owner/repository slug'')]
     @ field ''source_revision'' (is_git_revision (rz_revision s))
     @ field ''source_path'' (portable (rz_path s))
     @ field ''source_kind'' (rz_kind s \<noteq> KindArchive)"
| "check_intake_source (ReleaseInput p) = check_provenance p"

definition normalise_context :: "SkillPackageIntakeContext \<Rightarrow> SkillPackageIntakeContext" where
  "normalise_context c =
     \<lparr>cx_source = normalise_intake_source (cx_source c), cx_owner = normalise_owner (cx_owner c), cx_checks = cx_checks c\<rparr>"

definition check_context :: "SkillPackageIntakeContext \<Rightarrow> (bool \<times> string) list" where
  "check_context c =
     check_intake_source (cx_source c) @ public_owner_metadata (cx_owner c) @ check_owner (cx_owner c)"

fun context_revision :: "IntakeSource \<Rightarrow> string" where
  "context_revision (RepositoryInput s) = rz_revision s"
| "context_revision (ReleaseInput p) = source_revision (srp_candidate p)"

fun context_version :: "IntakeSource \<Rightarrow> NormalizedVersion" where
  "context_version (RepositoryInput s) = NormalizedV1"
| "context_version (ReleaseInput p) = (case srp_snapshot p of SavedSnapshot _ \<Rightarrow> NormalizedV2 | ArchiveSnapshot _ \<Rightarrow> NormalizedV3)"

section \<open>The receipt\<close>

datatype IntakeStatus = IntakeNormalized | IntakeBlocked

record SkillPackageIntakeReceipt =
  it_status :: IntakeStatus
  it_context :: SkillPackageIntakeContext
  it_candidate :: "PackageCandidateIdentity option"
  it_validation :: SkillPackageValidation
  it_source :: "NormalizedSource option"
  it_decision :: "IntakeDecision option"
  it_normalized_package :: "NormalizedPackage option"
  it_blocker :: "PackageReceiptBlocker option"

definition normalise_intake :: "SkillPackageIntakeReceipt \<Rightarrow> SkillPackageIntakeReceipt" where
  "normalise_intake r =
     \<lparr>it_status = it_status r, it_context = normalise_context (it_context r),
      it_candidate = map_option normalise_candidate (it_candidate r),
      it_validation = normalise_validation (it_validation r),
      it_source = map_option normalise_package_source (it_source r),
      it_decision = map_option normalise_decision (it_decision r),
      it_normalized_package = map_option normalise_package (it_normalized_package r),
      it_blocker = map_option normalise_blocker (it_blocker r)\<rparr>"

fun source_binding :: "IntakeSource \<Rightarrow> PackageCandidateIdentity \<Rightarrow> NormalizedSource \<Rightarrow> (bool \<times> string) list" where
  "source_binding (RepositoryInput x) c (RepositorySource s) =
     [(sp_revision (ps_provenance s) \<noteq> source_revision c, ''intake source revision must bind the candidate''),
      (sp_content_sha256 (ps_provenance s) \<noteq> content_sha256 c, ''intake source digest must bind the candidate''),
      (sp_repository (ps_provenance s) \<noteq> rz_repository x, ''intake source repository must match the context''),
      (sp_path (ps_provenance s) \<noteq> rz_path x, ''intake source path must match the context''),
      (ps_source_kind s \<noteq> rz_kind x, ''intake source kind must match the context'')]"
| "source_binding (ReleaseInput p) c (ReleaseSource s) =
     [(srs_provenance s \<noteq> p \<or> c \<noteq> srp_candidate p, ''saved intake source must match the selected child and context'')]"
| "source_binding _ _ _ = [(True, ''source'')]"

definition primary_blocker :: "SkillPackageValidation \<Rightarrow> SkillPackageFinding option" where
  "primary_blocker v = List.find (\<lambda>f. kf_severity f = ValidationBlocker) (kv_findings v)"

definition blocker_of :: "SkillPackageFinding \<Rightarrow> PackageReceiptBlocker" where
  "blocker_of f = \<lparr>rb_code = kf_code f, rb_message = kf_message f, rb_evidence_refs = kf_evidence_refs f\<rparr>"

definition normalized_proof :: "SkillPackageIntakeReceipt \<Rightarrow> PackageCandidateIdentity \<Rightarrow> (bool \<times> string) list" where
  "normalized_proof r c =
     [(kv_status (it_validation r) \<noteq> ValidationPass, ''normalized intake requires passing validation'')]
     @ (case (it_source r, it_decision r, it_normalized_package r) of
          (Some source, Some decision, Some package) \<Rightarrow>
            [(it_blocker r \<noteq> None, ''normalized intake cannot contain a blocker''),
             (np_lifecycle package \<noteq> Normalized, ''normalized intake requires the normalized package lifecycle''),
             (np_dependencies package \<noteq> [], ''normalized intake cannot assert dependency metadata''),
             (source_package_id source \<noteq> package_id c, ''intake source must bind the candidate package'')]
            @ source_binding (cx_source (it_context r)) c source
            @ [(id_candidate decision \<noteq> c, ''intake decision must bind the candidate''),
               (id_checks decision \<noteq> cx_checks (it_context r), ''intake decision checks must match the context''),
               (build_intake_decision c (cx_checks (it_context r)) [] \<noteq> Inr decision,
                ''intake decision must match its persisted checks''),
               (np_source package \<noteq> source, ''normalized package must retain the intake source''),
               (Some (np_identity package) \<noteq> map_option SkillId (kv_identity (it_validation r)),
                ''normalized package identity must match validation''),
               (np_owner package \<noteq> cx_owner (it_context r), ''normalized package owner must match the context'')]
        | _ \<Rightarrow> [(True, ''normalized intake requires complete source, decision, and package proof'')])"

definition blocked_proof :: "SkillPackageIntakeReceipt \<Rightarrow> PackageCandidateIdentity \<Rightarrow> (bool \<times> string) list" where
  "blocked_proof r c =
     (case primary_blocker (it_validation r) of
        None \<Rightarrow> [(True, ''blocked intake requires a validation blocker'')]
      | Some primary \<Rightarrow>
          [(it_blocker r \<noteq> Some (blocker_of primary), ''intake blocker must match the primary validation blocker''),
           (it_normalized_package r \<noteq> None \<or> it_source r \<noteq> None, ''blocked intake cannot claim normalized package proof'')]
          @ opt_checks (\<lambda>decision.
              [(id_decision decision = Admit, ''blocked intake cannot contain an admit decision''),
               (id_candidate decision \<noteq> c, ''blocked intake decision must bind the candidate''),
               (id_checks decision \<noteq> cx_checks (it_context r), ''blocked intake decision must preserve context checks''),
               (build_intake_decision c (cx_checks (it_context r)) [kf_code primary] \<noteq> Inr decision,
                ''blocked intake decision must match its persisted evidence'')]) (it_decision r))"

definition proof_is_candidate_bound :: "SkillPackageIntakeReceipt \<Rightarrow> (bool \<times> string) list" where
  "proof_is_candidate_bound r =
     (let v = it_validation r in
      case it_candidate r of
        None \<Rightarrow> [(True, ''intake receipt must retain its resolved candidate'')]
      | Some c \<Rightarrow>
          [(\<not> sorted (map mf_path (kv_files v)), ''intake validation files must be sorted by path''),
           (kv_candidate v \<noteq> Some c, ''intake receipt candidate must match validation''),
           (\<exists>i. kv_identity v = Some i \<and> si_package_id i \<noteq> package_id c, ''intake validation identity must match the candidate''),
           (it_decision r = None, ''resolved intake candidate requires a decision''),
           (content_sha256 c \<noteq> candidate_content_sha256 (digest_files (kv_files v)),
            ''intake candidate digest must match validation files''),
           (context_revision (cx_source (it_context r)) \<noteq> source_revision c,
            ''intake context revision must match the candidate'')]
          @ (if it_status r = IntakeNormalized then normalized_proof r c else blocked_proof r c))"

definition check_intake :: "SkillPackageIntakeReceipt \<Rightarrow> (bool \<times> string) list" where
  "check_intake r =
     (let version = context_version (cx_source (it_context r)) in
      check_context (it_context r)
      @ opt_checks check_candidate (it_candidate r)
      @ check_validation (it_validation r)
      @ opt_checks (\<lambda>s. field ''source'' (source_fits version s) @ check_package_source s) (it_source r)
      @ opt_checks check_decision (it_decision r)
      @ opt_checks (\<lambda>n. field ''normalized_package'' (np_schema_version n = version)
          @ public_owner_metadata (np_owner n) @ check_package n) (it_normalized_package r)
      @ opt_checks check_blocker (it_blocker r)
      @ proof_is_candidate_bound r)"

section \<open>intake_skill_package\<close>

text \<open>A saved source must be the child that was captured; another is a blocked validation with one finding.\<close>

fun selects_other :: "IntakeSource \<Rightarrow> SkillPackageValidation \<Rightarrow> bool" where
  "selects_other (RepositoryInput s) v = False"
| "selects_other (ReleaseInput p) v = (kv_status v = ValidationPass \<and> kv_candidate v \<noteq> Some (srp_candidate p))"

definition mismatch_message :: "NormalizedVersion \<Rightarrow> string" where
  "mismatch_message version =
     (if version = NormalizedV3 then ''Archive-source provenance does not bind the freshly captured child.''
      else ''Saved-release provenance does not bind the freshly captured child.'')"

definition bind_selection :: "IntakeSource \<Rightarrow> SkillPackageValidation \<Rightarrow> SkillPackageValidation result" where
  "bind_selection source v =
     (if selects_other source v then
        and_then (skill_finding ''saved_source_candidate_mismatch'' (mismatch_message (context_version source)) []) (\<lambda>f.
          validate_model normalise_validation check_validation (v\<lparr>kv_status := ValidationBlocked, kv_findings := [f]\<rparr>))
      else Inr v)"

definition intake_receipt :: "SkillPackageIntakeReceipt \<Rightarrow> SkillPackageIntakeReceipt result" where
  "intake_receipt r = validate_model normalise_intake check_intake r"

definition blocked_intake :: "SkillPackageIntakeContext \<Rightarrow> SkillPackageValidation \<Rightarrow> SkillPackageIntakeReceipt result" where
  "blocked_intake context v =
     (case primary_blocker v of
        None \<Rightarrow> Inl AssertErr
      | Some first \<Rightarrow>
          and_then (case kv_candidate v of
              None \<Rightarrow> Inr None
            | Some c \<Rightarrow> and_then (build_intake_decision c (cx_checks context) [kf_code first]) (\<lambda>d. Inr (Some d))) (\<lambda>decision.
          and_then (validate_model normalise_blocker check_blocker (blocker_of first)) (\<lambda>blocker.
            intake_receipt
              \<lparr>it_status = IntakeBlocked, it_context = context, it_candidate = kv_candidate v, it_validation = v,
               it_source = None, it_decision = decision, it_normalized_package = None, it_blocker = Some blocker\<rparr>)))"

fun intake_source :: "IntakeSource \<Rightarrow> PackageCandidateIdentity \<Rightarrow> NormalizedSource" where
  "intake_source (RepositoryInput s) c =
     RepositorySource \<lparr>ps_package_id = package_id c,
       ps_provenance = \<lparr>sp_repository = rz_repository s, sp_revision = source_revision c, sp_path = rz_path s,
                        sp_content_sha256 = content_sha256 c\<rparr>,
       ps_source_kind = rz_kind s\<rparr>"
| "intake_source (ReleaseInput p) c = ReleaseSource \<lparr>srs_package_id = package_id c, srs_provenance = p\<rparr>"

definition normalized_intake ::
  "SkillPackageIntakeContext \<Rightarrow> SkillPackageValidation \<Rightarrow> PackageCandidateIdentity \<Rightarrow> SkillIdentity \<Rightarrow> SkillPackageIntakeReceipt result" where
  "normalized_intake context v c identity =
     and_then (validate_model normalise_package_source check_package_source (intake_source (cx_source context) c)) (\<lambda>source.
     and_then (build_intake_decision c (cx_checks context) []) (\<lambda>decision.
     and_then (validate_model normalise_package check_package
         \<lparr>np_schema_version = context_version (cx_source context), np_package_type = TypeSkill, np_identity = SkillId identity,
          np_source = source, np_owner = cx_owner context, np_lifecycle = Normalized, np_dependencies = []\<rparr>) (\<lambda>normalized.
       intake_receipt
         \<lparr>it_status = IntakeNormalized, it_context = context, it_candidate = Some c, it_validation = v,
          it_source = Some source, it_decision = Some decision, it_normalized_package = Some normalized,
          it_blocker = None\<rparr>)))"

definition intake_skill_package ::
  "text_library \<Rightarrow> package_root \<Rightarrow> SkillPackageIntakeContext \<Rightarrow> SkillValidationPolicy option \<Rightarrow> SkillPackageIntakeReceipt skill" where
  "intake_skill_package lib root context policy =
     bind_skill (lift_skill (validate_model normalise_context check_context context)) (\<lambda>context.
     bind_skill (validate_skill_package lib root (context_revision (cx_source context)) policy) (\<lambda>v.
     bind_skill (lift_skill (bind_selection (cx_source context) v)) (\<lambda>v.
       if kv_status v = ValidationBlocked then lift_skill (blocked_intake context v)
       else (case (kv_candidate v, kv_identity v) of
               (Some c, Some identity) \<Rightarrow> lift_skill (normalized_intake context v c identity)
             | _ \<Rightarrow> Inl (Raised AssertErr)))))"

section \<open>The models as instances of the interface\<close>

lemma normalise_intake_source_idem [simp]: "normalise_intake_source (normalise_intake_source s) = normalise_intake_source s"
  by (cases s) simp_all

interpretation context_model: contract_model normalise_context check_context
  by unfold_locales (simp add: normalise_context_def)

interpretation source_model: contract_model normalise_package_source check_package_source
  by unfold_locales simp

interpretation intake_model: contract_model normalise_intake check_intake
  by unfold_locales
    (simp add: normalise_intake_def context_model.normalise_idem validation_model.normalise_idem decision_model.normalise_idem
      package_model.normalise_idem blocker_model.normalise_idem option.map_comp comp_def)

section \<open>Decisions\<close>

lemma set_distinct_first [simp]: "set (distinct_first xs) = set xs"
  by (simp add: distinct_first_def)

lemma distinct_first_Nil [simp]: "distinct_first xs = [] \<longleftrightarrow> xs = []"
  by (metis set_distinct_first set_empty)

lemma blocker_code_nonempty: "is_blocker_code s \<Longrightarrow> s \<noteq> []"
  by (auto simp: is_blocker_code_def plus_def)

lemma check_blockers_texts: "set (check_blockers c) \<subseteq>
    {''identity_unconfirmed'', ''provenance_unconfirmed'', ''rights_unconfirmed'', ''owner_decision_required''}"
  by (simp add: check_blockers_def)

lemma check_blockers_Nil: "check_blockers c = [] \<longleftrightarrow> checks_pass c"
  by (simp add: check_blockers_def checks_pass_def)

lemma build_intake_decision_ok:
  assumes c: "passes (check_candidate c)" and codes: "\<forall>s \<in> set additional. is_blocker_code s"
  obtains d where "build_intake_decision c checks additional = Inr d" "normalise_decision d = d" "passes (check_decision d)"
    "id_candidate d = c" "id_checks d = checks" "id_decision d = Admit \<longleftrightarrow> additional = [] \<and> checks_pass checks"
    "set (id_blocker_codes d) = set additional \<union> set (check_blockers checks)"
proof -
  let ?d = "\<lparr>id_candidate = c,
      id_decision = (if additional \<noteq> [] \<or> \<not> (ic_identity checks \<and> ic_provenance checks \<and> ic_rights checks) then Block
                     else if \<not> ic_owner_unchanged checks then DecisionNeedsOwner else Admit),
      id_checks = checks, id_blocker_codes = distinct_first (additional @ check_blockers checks)\<rparr>"
  have names: "is_blocker_code ''identity_unconfirmed''" "is_blocker_code ''provenance_unconfirmed''"
    "is_blocker_code ''rights_unconfirmed''" "is_blocker_code ''owner_decision_required''"
    by code_simp+
  have all: "\<forall>s \<in> set (distinct_first (additional @ check_blockers checks)). is_blocker_code s"
    using codes check_blockers_texts [of checks] names by auto
  then have "map trim (distinct_first (additional @ check_blockers checks)) = distinct_first (additional @ check_blockers checks)"
    using trim_blocker_code by (intro map_idI) blast
  then have n: "normalise_decision ?d = ?d" by (simp add: normalise_decision_def valid_candidate_normal [OF c])
  have "texts (distinct_first (additional @ check_blockers checks))"
    using all blocker_code_nonempty by (auto simp: texts_iff)
  then have p: "passes (check_decision ?d)"
    using c check_blockers_Nil [of checks] by (auto simp: check_decision_def checks_pass_def)
  have "validate_model normalise_candidate check_candidate c = Inr c"
    using c valid_candidate_normal by (simp add: candidate_model.fixpoint_iff)
  then have "build_intake_decision c checks additional = Inr ?d"
    using n p by (simp add: build_intake_decision_def decision_model.fixpoint_iff)
  then show thesis by (rule that) (use n p in \<open>auto simp: checks_pass_def\<close>)
qed

section \<open>Every intake is decided\<close>

lemma made_finding_blocker:
  assumes "made_finding f"
  shows "validate_model normalise_blocker check_blocker (blocker_of f) = Inr (blocker_of f)" "is_blocker_code (kf_code f)"
proof -
  have f: "is_blocker_code (kf_code f)" "kf_message f \<noteq> []" "portables (kf_evidence_refs f)" "trim (kf_message f) = kf_message f"
    using assms by (cases f; simp add: made_finding_def check_finding_def normalise_finding_def)+
  then show "is_blocker_code (kf_code f)"
    "validate_model normalise_blocker check_blocker (blocker_of f) = Inr (blocker_of f)"
    by (simp_all add: blocker_model.fixpoint_iff blocker_of_def normalise_blocker_def check_blocker_def trim_blocker_code)
qed

text \<open>What a captured validation gives an intake.\<close>

definition captured_for :: "SkillPackageIntakeContext \<Rightarrow> PackageCandidateIdentity \<Rightarrow> SkillPackageValidation \<Rightarrow> bool" where
  "captured_for context c v \<longleftrightarrow>
     normalise_context context = context \<and> passes (check_context context)
     \<and> normalise_validation v = v \<and> passes (check_validation v)
     \<and> kv_candidate v = Some c \<and> passes (check_candidate c) \<and> sorted (map mf_path (kv_files v))
     \<and> (\<forall>i. kv_identity v = Some i \<longrightarrow> si_package_id i = package_id c)
     \<and> content_sha256 c = candidate_content_sha256 (digest_files (kv_files v))
     \<and> source_revision c = context_revision (cx_source context)"

lemma blocked_intake_ok:
  assumes v: "captured_for context c v" and f: "primary_blocker v = Some f" "made_finding f"
  obtains r d where "blocked_intake context v = Inr r" "validate_model normalise_intake check_intake r = Inr r"
    "it_status r = IntakeBlocked" "it_decision r = Some d" "id_decision d \<noteq> Admit" "it_candidate r = Some c"
proof -
  note parts = v [unfolded captured_for_def]
  have "\<forall>s \<in> set [kf_code f]. is_blocker_code s" using made_finding_blocker(2) [OF f(2)] by simp
  from parts build_intake_decision_ok [OF _ this, of c "cx_checks context"] obtain d where
    d: "build_intake_decision c (cx_checks context) [kf_code f] = Inr d" "normalise_decision d = d" "passes (check_decision d)"
    "id_candidate d = c" "id_checks d = cx_checks context" "id_decision d \<noteq> Admit"
    by (metis list.distinct(1))
  note b = made_finding_blocker(1) [OF f(2)]
  have b': "normalise_blocker (blocker_of f) = blocker_of f" "passes (check_blocker (blocker_of f))"
    using b by (simp_all add: blocker_model.fixpoint_iff)
  let ?r = "\<lparr>it_status = IntakeBlocked, it_context = context, it_candidate = Some c, it_validation = v, it_source = None,
    it_decision = Some d, it_normalized_package = None, it_blocker = Some (blocker_of f)\<rparr>"
  have "normalise_intake ?r = ?r" using parts d b' valid_candidate_normal by (simp add: normalise_intake_def)
  moreover have "passes (check_intake ?r)"
    using parts d b' f(1) by (auto simp: check_intake_def proof_is_candidate_bound_def blocked_proof_def Let_def)
  ultimately have valid: "validate_model normalise_intake check_intake ?r = Inr ?r" by (simp add: intake_model.fixpoint_iff)
  moreover have "blocked_intake context v = Inr ?r"
    using parts f(1) d(1) b valid by (simp add: blocked_intake_def intake_receipt_def)
  ultimately show thesis using d(6) by (intro that [of ?r d]) simp_all
qed

lemma intake_source_ok:
  assumes cx: "normalise_context context = context" "passes (check_context context)"
    and c: "passes (check_candidate c)" and other: "\<forall>p. cx_source context = ReleaseInput p \<longrightarrow> c = srp_candidate p"
  shows "validate_model normalise_package_source check_package_source (intake_source (cx_source context) c)
      = Inr (intake_source (cx_source context) c)"
    "source_fits (context_version (cx_source context)) (intake_source (cx_source context) c)"
    "source_package_id (intake_source (cx_source context) c) = package_id c"
    "source_revision c = context_revision (cx_source context) \<Longrightarrow>
      passes (source_binding (cx_source context) c (intake_source (cx_source context) c))"
proof -
  have n: "normalise_intake_source (cx_source context) = cx_source context"
    using cx(1) by (cases "context") (simp add: normalise_context_def)
  have slug: "rx_fullmatch repository_slug_rx x \<Longrightarrow> trim x = x \<and> x \<noteq> []" for x
  proof -
    assume "rx_fullmatch repository_slug_rx x"
    then have m: "matches repository_slug_rx x" by (simp add: rx_fullmatch_iff)
    then obtain c t d u where "x = c # t @ CHR ''/'' # d # u" "is_alnum c" "is_alnum d"
      "\<forall>e \<in> set t \<union> set u. is_alnum e \<or> e \<in> set ''._-''"
      by (auto simp: repository_slug_rx_def Let_def chr_def matches_Seq [of "Seq p q" for p q] matches_Seq_Cls matches_star_iff) blast
    then have "\<forall>e \<in> set x. is_alnum e \<or> e \<in> set ''._-/''" by auto
    then have "\<forall>d \<in> set x. \<not> unicode_space d" by (auto simp: unicode_space_def char_class_defs code_def Let_def)
    then show ?thesis using m trim_no_space by (auto simp: repository_slug_rx_def Let_def matches_Seq)
  qed
  note parts = cx(2) [unfolded check_context_def] c [unfolded check_candidate_iff]
  show "validate_model normalise_package_source check_package_source (intake_source (cx_source context) c)
      = Inr (intake_source (cx_source context) c)"
    using parts n slug other
    by (cases "cx_source context")
      (auto simp: source_model.fixpoint_iff trim_identifier normalise_source_def check_source_def trim_git_revision trim_sha256)
  show "source_fits (context_version (cx_source context)) (intake_source (cx_source context) c)"
    by (cases "cx_source context") (auto split: ReleaseSnapshot.splits)
  show "source_package_id (intake_source (cx_source context) c) = package_id c" by (cases "cx_source context") simp_all
  show "source_revision c = context_revision (cx_source context) \<Longrightarrow>
      passes (source_binding (cx_source context) c (intake_source (cx_source context) c))"
    using other by (cases "cx_source context") simp_all
qed

lemma normalized_intake_ok:
  assumes v: "captured_for context c v" and pass: "kv_status v = ValidationPass" "kv_identity v = Some i"
    and own: "\<not> selects_other (cx_source context) v"
  obtains r d where "normalized_intake context v c i = Inr r" "validate_model normalise_intake check_intake r = Inr r"
    "it_status r = IntakeNormalized" "it_decision r = Some d" "id_decision d = Admit \<longleftrightarrow> checks_pass (cx_checks context)"
    "it_candidate r = Some c"
proof -
  note parts = v [unfolded captured_for_def]
  have none: "\<forall>s \<in> set []. is_blocker_code s" by simp
  from parts build_intake_decision_ok [OF _ none, of c "cx_checks context"] obtain d where
    d: "build_intake_decision c (cx_checks context) [] = Inr d" "normalise_decision d = d" "passes (check_decision d)"
    "id_candidate d = c" "id_checks d = cx_checks context" "id_decision d = Admit \<longleftrightarrow> checks_pass (cx_checks context)"
    by metis
  let ?s = "intake_source (cx_source context) c"
  have child: "\<forall>p. cx_source context = ReleaseInput p \<longrightarrow> c = srp_candidate p" using own pass parts by auto
  have ctx: "normalise_context context = context" "passes (check_context context)" "passes (check_candidate c)"
    using parts by simp_all
  note source = intake_source_ok [OF ctx child]
  have s: "normalise_package_source ?s = ?s" "passes (check_package_source ?s)" using source(1) by (simp_all add: source_model.fixpoint_iff)
  have owner: "normalise_owner (cx_owner context) = cx_owner context" "passes (check_owner (cx_owner context))"
    "passes (public_owner_metadata (cx_owner context))"
    using ctx by (cases "context"; simp add: normalise_context_def check_context_def)+
  have i: "passes (check_skill i)" "normalise_skill i = i" "si_package_id i = package_id c"
  proof -
    show "passes (check_skill i)" "si_package_id i = package_id c" using parts pass by (simp_all add: check_validation_def)
    have "kv_identity (normalise_validation v) = map_option normalise_skill (kv_identity v)" by (simp add: normalise_validation_def)
    then show "normalise_skill i = i" using pass parts by simp
  qed
  let ?n = "\<lparr>np_schema_version = context_version (cx_source context), np_package_type = TypeSkill, np_identity = SkillId i,
     np_source = ?s, np_owner = cx_owner context, np_lifecycle = Normalized, np_dependencies = []\<rparr>"
  have n: "normalise_package ?n = ?n" "passes (check_package ?n)"
    using i s owner source(2,3)
    by (simp_all add: normalise_package_def normalise_skill_def check_package_def check_skill_def texts_iff)
      (metis i(3))
  then have vn: "validate_model normalise_package check_package ?n = Inr ?n" by (simp add: package_model.fixpoint_iff)
  let ?r = "\<lparr>it_status = IntakeNormalized, it_context = context, it_candidate = Some c, it_validation = v, it_source = Some ?s,
     it_decision = Some d, it_normalized_package = Some ?n, it_blocker = None\<rparr>"
  have "normalise_intake ?r = ?r" using parts d s n valid_candidate_normal by (simp add: normalise_intake_def)
  moreover have "passes (check_intake ?r)"
    using parts d s n owner source(2-4) pass
    by (simp add: check_intake_def proof_is_candidate_bound_def normalized_proof_def Let_def)
  ultimately have valid: "validate_model normalise_intake check_intake ?r = Inr ?r" by (simp add: intake_model.fixpoint_iff)
  moreover have "normalized_intake context v c i = Inr ?r"
    unfolding normalized_intake_def source(1) d(1) and_then_simps vn intake_receipt_def by (rule valid)
  ultimately show thesis using d(6) by (intro that [of ?r d]) simp_all
qed

text \<open>The validation an intake decides on, after the selection of a saved child.\<close>

definition intake_passes :: "SkillPackageIntakeContext \<Rightarrow> package_root \<Rightarrow> PackageManifestFile list \<Rightarrow> bool" where
  "intake_passes context root files \<longleftrightarrow>
     (\<forall>p. cx_source context = ReleaseInput p \<longrightarrow>
        srp_candidate p = directory_candidate (root_name root) (context_revision (cx_source context)) files)"

lemma mismatch_found:
  "\<exists>f. skill_finding ''saved_source_candidate_mismatch'' (mismatch_message version) [] = Inr f \<and> made_finding f"
proof -
  have "is_blocker_code ''saved_source_candidate_mismatch''" by code_simp
  moreover have "trim (mismatch_message version) \<noteq> []"
    by (simp add: mismatch_message_def) (code_simp)
  ultimately show ?thesis using skill_finding_ok skill_finding_made by (metis portables_iff empty_iff empty_set)
qed

lemma intake_ok:
  assumes cx: "validate_model normalise_context check_context context = Inr context"
    and env: "os_package (root_tree root)" "listable (root_tree root)" "loader_returns lib" "policy_ok (active_policy policy)"
  obtains r d where "intake_skill_package lib root context policy = Inr r"
    "validate_model normalise_intake check_intake r = Inr r" "it_decision r = Some d"
    "it_status r = IntakeNormalized \<longleftrightarrow>
       (\<exists>files identity. passing lib root (context_revision (cx_source context)) policy files identity \<and> intake_passes context root files)"
    "id_decision d = Admit \<longleftrightarrow> it_status r = IntakeNormalized \<and> checks_pass (cx_checks context)"
    "\<exists>files. it_candidate r = Some (directory_candidate (root_name root) (context_revision (cx_source context)) files)"
proof -
  let ?rev = "context_revision (cx_source context)"
  note c0 = cx [unfolded context_model.fixpoint_iff]
  have git: "is_git_revision ?rev"
    using c0 by (cases "cx_source context") (auto simp: check_context_def check_provenance_def check_candidate_iff)
  obtain files identity fs where v: "validate_skill_package lib root ?rev policy =
      Inr (validated (Some (directory_candidate (root_name root) ?rev files)) identity files fs)"
    "fs = [] \<longleftrightarrow> passing lib root ?rev policy files identity" "inspected files fs identity root"
    by (rule validation_captured [OF env git])
  let ?c = "directory_candidate (root_name root) ?rev files"
  let ?v = "validated (Some ?c) identity files fs"
  have good: "captured_for context ?c ?v"
  proof -
    have "si_package_id i = package_id ?c" if known: "identity = Some i" for i
    proof -
      obtain name where "passes (check_skill i)" "root_name root = Name name" "si_package_id i = name"
        using v(3) unfolding inspected_def identified_def known by auto
      then show ?thesis
        by (auto simp: check_skill_def directory_candidate_def Let_def candidate_package_id_def is_identifier_def)
    qed
    then show ?thesis
      using validated_valid [OF v(1)] v(3) c0 directory_candidate_ok [OF git]
      by (simp add: captured_for_def validation_model.fixpoint_iff validated_def inspected_def directory_candidate_def Let_def)
  qed
  have only: "passing lib root ?rev policy files' identity' \<Longrightarrow> files' = files \<and> identity' = identity" for files' identity'
    using passing_unique [OF env(1) v(1)] by blast
  have passes_iff: "(\<exists>files identity. passing lib root ?rev policy files identity \<and> intake_passes context root files)
      \<longleftrightarrow> fs = [] \<and> \<not> selects_other (cx_source context) ?v"
  proof -
    have "fs = [] \<Longrightarrow> intake_passes context root files \<longleftrightarrow> \<not> selects_other (cx_source context) ?v"
      by (cases "cx_source context") (auto simp: intake_passes_def validated_def)
    then show ?thesis using only v(2) by blast
  qed
  have steps: "intake_skill_package lib root context policy = bind_skill (lift_skill (bind_selection (cx_source context) ?v)) (\<lambda>v.
       if kv_status v = ValidationBlocked then lift_skill (blocked_intake context v)
       else (case (kv_candidate v, kv_identity v) of
               (Some c, Some identity) \<Rightarrow> lift_skill (normalized_intake context v c identity)
             | _ \<Rightarrow> Inl (Raised AssertErr)))"
    using cx v(1) by (simp add: intake_skill_package_def)
  consider "selects_other (cx_source context) ?v" | "\<not> selects_other (cx_source context) ?v" "fs \<noteq> []"
    | "\<not> selects_other (cx_source context) ?v" "fs = []" by blast
  then show thesis
  proof cases
    case 1
    obtain f where f: "skill_finding ''saved_source_candidate_mismatch'' (mismatch_message (context_version (cx_source context))) [] = Inr f"
      "made_finding f" using mismatch_found by blast
    let ?w = "?v\<lparr>kv_status := ValidationBlocked, kv_findings := [f]\<rparr>"
    have w: "captured_for context ?c ?w"
      using good f(2)
      by (auto simp: captured_for_def validated_def normalise_validation_def check_validation_def validation_status_matches_def
          made_finding_def Let_def)
    moreover from w have "bind_selection (cx_source context) ?v = Inr ?w"
      using 1 f(1) by (simp add: bind_selection_def captured_for_def validation_model.fixpoint_iff)
    moreover have "primary_blocker ?w = Some f" using f(2) by (simp add: primary_blocker_def made_finding_def)
    moreover have "kv_status ?w = ValidationBlocked" by simp
    ultimately have "\<exists>w. bind_selection (cx_source context) ?v = Inr w \<and> captured_for context ?c w
        \<and> primary_blocker w = Some f \<and> kv_status w = ValidationBlocked" by blast
    then obtain w where w: "bind_selection (cx_source context) ?v = Inr w" "captured_for context ?c w"
      "primary_blocker w = Some f" "kv_status w = ValidationBlocked" by blast
    obtain r d where r: "blocked_intake context w = Inr r" "validate_model normalise_intake check_intake r = Inr r"
      "it_status r = IntakeBlocked" "it_decision r = Some d" "id_decision d \<noteq> Admit" "it_candidate r = Some ?c"
      by (rule blocked_intake_ok [OF w(2,3) f(2)])
    have "intake_skill_package lib root context policy = Inr r" by (simp add: steps w r(1))
    then show thesis using r 1 passes_iff by (intro that [of r d]) auto
  next
    case 2
    then obtain f rest where "fs = f # rest" by (cases fs) auto
    then have f: "primary_blocker ?v = Some f" "made_finding f"
      using v(3) by (simp_all add: primary_blocker_def inspected_def made_finding_def validated_def)
    have "bind_selection (cx_source context) ?v = Inr ?v" "kv_status ?v = ValidationBlocked"
      using 2 by (simp_all add: bind_selection_def validated_def)
    note step = this
    obtain r d where r: "blocked_intake context ?v = Inr r" "validate_model normalise_intake check_intake r = Inr r"
      "it_status r = IntakeBlocked" "it_decision r = Some d" "id_decision d \<noteq> Admit" "it_candidate r = Some ?c"
      by (rule blocked_intake_ok [OF good f])
    have "intake_skill_package lib root context policy = Inr r" by (simp add: steps step r(1))
    then show thesis using r 2 passes_iff by (intro that [of r d]) auto
  next
    case 3
    have pass: "kv_status ?v = ValidationPass" "kv_candidate ?v = Some ?c" using 3 by (simp_all add: validated_def)
    then obtain i where i: "kv_identity ?v = Some i"
      using good by (auto simp: captured_for_def check_validation_def validation_status_matches_def Let_def)
    have "bind_selection (cx_source context) ?v = Inr ?v" using 3 by (simp add: bind_selection_def)
    then have "intake_skill_package lib root context policy = lift_skill (normalized_intake context ?v ?c i)"
      using steps pass i by simp
    note step = this
    obtain r d where r: "normalized_intake context ?v ?c i = Inr r" "validate_model normalise_intake check_intake r = Inr r"
      "it_status r = IntakeNormalized" "it_decision r = Some d" "id_decision d = Admit \<longleftrightarrow> checks_pass (cx_checks context)"
      "it_candidate r = Some ?c"
      by (rule normalized_intake_ok [OF good pass(1) i 3(1)])
    have "intake_skill_package lib root context policy = Inr r" by (simp add: step r(1))
    then show thesis using r 3 passes_iff by (intro that [of r d]) auto
  qed
qed

text \<open>
  An invalid policy is a blocked validation without a candidate. The receipt model requires one, so the
  intake raises, although the code has a branch for a validation without a candidate.
\<close>

lemma invalid_policy_raises:
  assumes cx: "validate_model normalise_context check_context context = Inr context" and "\<not> policy_ok (active_policy policy)"
  shows "intake_skill_package lib root context policy
    = Inl (Raised (ValidationError ''intake receipt must retain its resolved candidate''))"
proof -
  obtain refused where refused: "list_all made_finding refused" "refused \<noteq> []"
    "validate_skill_package lib root (context_revision (cx_source context)) policy = Inr (validated None None [] refused)"
    by (rule refused_policy [OF assms(2)])
  let ?v = "validated None None [] refused"
  obtain f where f: "primary_blocker ?v = Some f" "made_finding f"
    using refused(1,2) by (cases refused) (auto simp: primary_blocker_def validated_def made_finding_def)
  have v: "normalise_validation ?v = ?v" "passes (check_validation ?v)"
    using validated_valid [OF refused(3)] by (simp_all add: validation_model.fixpoint_iff)
  have b: "normalise_blocker (blocker_of f) = blocker_of f" "first_failure (check_blocker (blocker_of f)) = None"
    using made_finding_blocker(1) [OF f(2)] by (simp_all add: blocker_model.fixpoint_iff passes_def)
  let ?r = "\<lparr>it_status = IntakeBlocked, it_context = context, it_candidate = None, it_validation = ?v, it_source = None,
    it_decision = None, it_normalized_package = None, it_blocker = Some (blocker_of f)\<rparr>"
  have c: "normalise_context context = context" "first_failure (check_context context) = None"
    using cx by (simp_all add: context_model.fixpoint_iff passes_def)
  have "normalise_intake ?r = ?r" using v(1) b(1) c(1) by (simp add: normalise_intake_def)
  then have "intake_receipt ?r = Inl (ValidationError ''intake receipt must retain its resolved candidate'')"
    using v(2) b(2) c(2)
    by (simp add: intake_receipt_def validate_model_def check_intake_def proof_is_candidate_bound_def first_failure_append
        Let_def passes_def)
  moreover have "kv_candidate ?v = None" "kv_status ?v = ValidationBlocked" using refused(2) by (simp_all add: validated_def)
  moreover have "bind_selection (cx_source context) ?v = Inr ?v"
    using refused(2) by (cases "cx_source context") (simp_all add: bind_selection_def validated_def)
  ultimately show ?thesis
    using cx refused(3) f(1) made_finding_blocker(1) [OF f(2)]
    by (simp add: intake_skill_package_def blocked_intake_def)
qed

end
