(* ===== verification/Demo_Intake.thy ===== *)
theory Demo_Intake
  imports Demo_Safety Intake
begin

text \<open>An intake context for the package tree of \<open>Demo_Safety\<close>: a repository, a public owner, all checks done.\<close>

definition demo_public_owner :: PackageOwner where
  "demo_public_owner = \<lparr>po_owner = ''Team'', po_maintainer = ''Team'', po_ownership_state = Canonical,
     po_rights = \<lparr>rs_basis = License, rs_license = ''MIT'', rs_evidence_ref = ''LICENSE''\<rparr>\<rparr>"

definition demo_context :: SkillPackageIntakeContext where
  "demo_context = \<lparr>cx_source = RepositoryInput \<lparr>rz_repository = ''a/b'', rz_revision = demo_revision, rz_path = ''demo'',
       rz_kind = KindGit\<rparr>,
     cx_owner = demo_public_owner,
     cx_checks = \<lparr>ic_identity = True, ic_provenance = True, ic_rights = True, ic_owner_unchanged = True\<rparr>\<rparr>"

lemma demo_context_ok: "validate_model normalise_context check_context demo_context = Inr demo_context"
proof -
  have "trim demo_revision = demo_revision" using demo_revision_ok by (rule trim_git_revision)
  moreover have "rx_fullmatch repository_slug_rx ''a/b''" "portable ''demo''" by code_simp+
  moreover have "passes (public_owner_metadata demo_public_owner)" by code_simp
  moreover have "normalise_owner demo_public_owner = demo_public_owner" "passes (check_owner demo_public_owner)" by code_simp+
  ultimately show ?thesis
    using demo_revision_ok by (simp add: context_model.fixpoint_iff demo_context_def normalise_context_def check_context_def)
qed

lemma demo_policy_ok: "policy_ok (active_policy None)"
  by (simp add: active_policy_def policy_ok_def default_skill_policy_def)

lemma demo_context_passes:
  "passing demo_texts_library demo_root (context_revision (cx_source demo_context)) None demo_tree_files (Some demo_skill)"
  "intake_passes demo_context demo_root demo_tree_files"
  using demo_passing by (simp_all add: demo_context_def intake_passes_def)

lemma demo_context_checks: "checks_pass (cx_checks demo_context)"
  by (simp add: demo_context_def checks_pass_def)

end
