(* ===== verification/Py_Values.thy ===== *)
theory Py_Values
  imports Floats Skill_Build
begin

text \<open>
  The dynamic Python values that \<^verbatim>\<open>json.loads\<close> and \<^verbatim>\<open>yaml.load\<close> return and the SDK's evaluation modules
  inspect with \<^verbatim>\<open>isinstance\<close> and \<^verbatim>\<open>.get\<close>: the value, its truth, \<^verbatim>\<open>repr\<close> and \<^verbatim>\<open>str\<close>, the float a number
  converts to, and the shared predicates of \<^verbatim>\<open>evaluation/quality.py\<close>, \<^verbatim>\<open>evaluation/scorer_quality.py\<close>
  and \<^verbatim>\<open>evaluation/scorer_calibration.py\<close>.
\<close>

text \<open>
  A float is the rational it stands for, \<open>None\<close> for an infinity or a NaN, with its \<^verbatim>\<open>repr\<close>. \<open>PAtom\<close> is a
  \<^verbatim>\<open>date\<close> or \<^verbatim>\<open>bytes\<close>, \<open>PGroup\<close> a tuple or a set with its members, \<open>PForeign\<close> any other object; the
  last three carry what \<^verbatim>\<open>str\<close> and \<^verbatim>\<open>repr\<close> give. The keys of a dictionary are texts.
\<close>

datatype pyval =
    PNone
  | PBool bool
  | PInt int
  | PFloat "rat option" string
  | PText string
  | PList "pyval list"
  | PDict "(string \<times> pyval) list"
  | PAtom bool string string
  | PGroup "pyval list" string
  | PForeign string string

fun py_truth :: "pyval \<Rightarrow> bool" where
  "py_truth PNone = False"
| "py_truth (PBool b) = b"
| "py_truth (PInt n) = (n \<noteq> 0)"
| "py_truth (PFloat x _) = (x \<noteq> Some 0)"
| "py_truth (PText s) = (s \<noteq> [])"
| "py_truth (PList xs) = (xs \<noteq> [])"
| "py_truth (PDict kvs) = (kvs \<noteq> [])"
| "py_truth (PAtom b _ _) = b"
| "py_truth (PGroup xs _) = (xs \<noteq> [])"
| "py_truth (PForeign _ _) = True"

section \<open>repr and str\<close>

text \<open>\<^verbatim>\<open>repr\<close> of a text: single quotes unless it holds one and no double quote; what is not printable is escaped.\<close>

definition nibble :: "nat \<Rightarrow> char" where
  "nibble n = ''0123456789abcdef'' ! n"

definition repr_char :: "char \<Rightarrow> char \<Rightarrow> string" where
  "repr_char q c =
     (let n = of_char c :: nat in
      if c = q \<or> c = CHR 0x5C then [CHR 0x5C, c]
      else if n = 9 then CHR 0x5C # ''t'' else if n = 10 then CHR 0x5C # ''n'' else if n = 13 then CHR 0x5C # ''r''
      else if n < 32 \<or> (127 \<le> n \<and> n \<le> 160) \<or> n = 173
      then CHR 0x5C # ''x'' @ [nibble (n div 16), nibble (n mod 16)]
      else [c])"

definition repr_text :: "string \<Rightarrow> string" where
  "repr_text s =
     (let q = (if CHR 0x27 \<in> set s \<and> CHR 0x22 \<notin> set s then CHR 0x22 else CHR 0x27) in
      q # concat (map (repr_char q) s) @ [q])"

fun py_repr :: "pyval \<Rightarrow> string" where
  "py_repr PNone = ''None''"
| "py_repr (PBool b) = (if b then ''True'' else ''False'')"
| "py_repr (PInt n) = show_int n"
| "py_repr (PFloat _ t) = t"
| "py_repr (PText s) = repr_text s"
| "py_repr (PList xs) = ''['' @ join_comma (map py_repr xs) @ '']''"
| "py_repr (PDict kvs) = ''{'' @ join_comma (map (\<lambda>(k, v). repr_text k @ '': '' @ py_repr v) kvs) @ ''}''"
| "py_repr (PAtom _ _ r) = r"
| "py_repr (PGroup _ r) = r"
| "py_repr (PForeign _ r) = r"

fun py_str :: "pyval \<Rightarrow> string" where
  "py_str (PText s) = s"
| "py_str (PAtom _ t _) = t"
| "py_str (PForeign t _) = t"
| "py_str v = py_repr v"

section \<open>Members\<close>

text \<open>\<^verbatim>\<open>value.get(key)\<close>, where an absent key and a stored \<^verbatim>\<open>None\<close> are one; \<^verbatim>\<open>key in value\<close>.\<close>

definition get :: "(string \<times> pyval) list \<Rightarrow> string \<Rightarrow> pyval" where
  "get kvs k = (case map_of kvs k of None \<Rightarrow> PNone | Some v \<Rightarrow> v)"

definition has :: "(string \<times> pyval) list \<Rightarrow> string \<Rightarrow> bool" where
  "has kvs k = (k \<in> fst ` set kvs)"

fun mapping :: "pyval \<Rightarrow> (string \<times> pyval) list option" where
  "mapping (PDict kvs) = Some kvs"
| "mapping _ = None"

fun listing :: "pyval \<Rightarrow> pyval list option" where
  "listing (PList xs) = Some xs"
| "listing _ = None"

fun text_of :: "pyval \<Rightarrow> string option" where
  "text_of (PText s) = Some s"
| "text_of _ = None"

fun is_bool :: "pyval \<Rightarrow> bool" where
  "is_bool (PBool _) = True"
| "is_bool _ = False"

text \<open>An \<^verbatim>\<open>int\<close> that is not a \<^verbatim>\<open>bool\<close>.\<close>

fun int_value :: "pyval \<Rightarrow> int option" where
  "int_value (PInt n) = Some n"
| "int_value _ = None"

definition unsupported :: "(string \<times> pyval) list \<Rightarrow> string set \<Rightarrow> string list" where
  "unsupported kvs allowed = sort (remdups [k \<leftarrow> map fst kvs. k \<notin> allowed])"

section \<open>\<open>_text\<close>, \<open>_text_list\<close> and \<open>_number\<close>\<close>

fun is_words :: "pyval \<Rightarrow> bool" where
  "is_words (PText s) = (strip s \<noteq> [])"
| "is_words _ = False"

fun is_words_list :: "pyval \<Rightarrow> bool" where
  "is_words_list (PList xs) = (xs \<noteq> [] \<and> list_all is_words xs)"
| "is_words_list _ = False"

text \<open>\<^verbatim>\<open>float(n)\<close>: the nearest double, 53 bits with ties to even; a number too large for one overflows.\<close>

fun bit_length :: "nat \<Rightarrow> nat" where
  "bit_length n = (if n = 0 then 0 else Suc (bit_length (n div 2)))"

declare bit_length.simps [simp del]

definition float_of_int :: "int \<Rightarrow> rat option" where
  "float_of_int n =
     (let m = nat \<bar>n\<bar>; k = bit_length m - 53; x = of_int (round_half_even (of_nat m / 2 ^ k)) * 2 ^ k in
      if 2 ^ 1024 \<le> x then None else Some (if n < 0 then - x else x))"

fun number_of :: "pyval \<Rightarrow> rat option" where
  "number_of (PInt n) = float_of_int n"
| "number_of (PFloat x _) = x"
| "number_of _ = None"

section \<open>Lemmas\<close>

lemma is_words_iff: "is_words v \<longleftrightarrow> (\<exists>s. v = PText s \<and> strip s \<noteq> [])"
  by (cases v) simp_all

lemma is_words_list_iff: "is_words_list v \<longleftrightarrow> (\<exists>xs. v = PList xs \<and> xs \<noteq> [] \<and> (\<forall>x \<in> set xs. is_words x))"
  by (cases v) (simp_all add: list_all_iff)

lemma mapping_Some [simp]: "mapping v = Some kvs \<longleftrightarrow> v = PDict kvs"
  by (cases v) simp_all

lemma listing_Some [simp]: "listing v = Some xs \<longleftrightarrow> v = PList xs"
  by (cases v) simp_all

lemma text_of_Some [simp]: "text_of v = Some s \<longleftrightarrow> v = PText s"
  by (cases v) simp_all

lemma int_value_Some [simp]: "int_value v = Some n \<longleftrightarrow> v = PInt n"
  by (cases v) simp_all

lemma unsupported_Nil: "unsupported kvs allowed = [] \<longleftrightarrow> fst ` set kvs \<subseteq> allowed"
proof -
  have "unsupported kvs allowed = [] \<longleftrightarrow> set (unsupported kvs allowed) = {}" by simp
  also have "\<dots> \<longleftrightarrow> fst ` set kvs \<subseteq> allowed" by (auto simp: unsupported_def simp del: set_empty)
  finally show ?thesis .
qed

end
