(* ===== verification/Closed_Yaml.thy ===== *)
theory Closed_Yaml
  imports Py_Values
begin

text \<open>
  \<^verbatim>\<open>validation/safe_yaml.py\<close> and \<^verbatim>\<open>validation/yaml_cache.py\<close>: the closed YAML loader and the parse cache
  an operation owns. The parser itself is third-party code: a text's \<open>yaml_stream\<close> is the tree of the
  events it reports, with the places where it raises. The lemmas: composition accepts exactly the
  documents without aliases that stay inside the node and depth limits; the cache never changes what
  a load returns, and stays inside its bounds.
\<close>

section \<open>The parsed stream\<close>

text \<open>
  What reading and loading raise: a \<^verbatim>\<open>yaml.YAMLError\<close>, a \<^verbatim>\<open>ValueError\<close> with its text, an \<^verbatim>\<open>OSError\<close>, or
  another exception, each by the name of its class.
\<close>

datatype load_error =
    YamlFailure string
  | ValueFailure string string
  | OsFailure string
  | OtherFailure string

text \<open>
  A node as the parser's events describe it. \<open>Unparsed\<close>: looking at the next event raises. \<open>Refused\<close>: the
  parent class refuses the node. A scalar carries what its constructor makes of it, and \<open>Tagged\<close> is a
  collection with an explicit tag, built by the constructor of that tag.
\<close>

datatype yaml_node =
    Alias
  | Unparsed load_error
  | Refused load_error
  | Scalar "load_error + pyval"
  | Sequence "yaml_node list"
  | Mapping "(yaml_node \<times> yaml_node) list"
  | Tagged "yaml_node list" "load_error + pyval"

text \<open>A stream holds no document, or one document and perhaps an error behind it (a second document is one).\<close>

datatype yaml_stream = NoDocument | OneDocument yaml_node "load_error option"

section \<open>Composition\<close>

definition MAX_YAML_NODES :: nat where "MAX_YAML_NODES = 20000"

definition MAX_YAML_DEPTH :: nat where "MAX_YAML_DEPTH = 128"

definition constructor_error :: load_error where
  "constructor_error = YamlFailure ''ConstructorError''"

fun children :: "yaml_node \<Rightarrow> yaml_node list" where
  "children (Sequence ns) = ns"
| "children (Mapping kvs) = concat (map (\<lambda>(k, v). [k, v]) kvs)"
| "children (Tagged ns r) = ns"
| "children n = []"

lemma size_pairs: "size_list size (concat (map (\<lambda>(k, v). [k, v]) kvs)) \<le> Suc (size_list (size_prod size size) kvs)"
  by (induction kvs) auto

lemma size_children: "size_list size (children n) \<le> size n"
  by (cases n) (simp_all add: size_pairs)

text \<open>\<open>compose_node\<close> at a depth, with the number of nodes so far: the new number, or what was raised.\<close>

fun raised_first :: "yaml_node \<Rightarrow> load_error option" where
  "raised_first Alias = Some constructor_error"
| "raised_first (Unparsed e) = Some e"
| "raised_first n = None"

fun refusal :: "yaml_node \<Rightarrow> load_error option" where
  "refusal (Refused e) = Some e"
| "refusal n = None"

function compose :: "nat \<Rightarrow> nat \<Rightarrow> yaml_node \<Rightarrow> load_error + nat"
  and compose_all :: "nat \<Rightarrow> nat \<Rightarrow> yaml_node list \<Rightarrow> load_error + nat" where
  "compose depth seen n =
     (case raised_first n of
        Some e \<Rightarrow> Inl e
      | None \<Rightarrow>
          if seen + 1 > MAX_YAML_NODES then Inl constructor_error
          else if depth + 1 > MAX_YAML_DEPTH then Inl constructor_error
          else (case refusal n of
                  Some e \<Rightarrow> Inl e
                | None \<Rightarrow> compose_all (depth + 1) (seen + 1) (children n)))"
| "compose_all depth seen [] = Inr seen"
| "compose_all depth seen (n # ns) =
     (case compose depth seen n of Inl e \<Rightarrow> Inl e | Inr now \<Rightarrow> compose_all depth now ns)"
  by pat_completeness auto
termination
  by (relation "measure (case_sum (\<lambda>(_, _, n). 2 * size n + 1) (\<lambda>(_, _, ns). 2 * size_list size ns))")
    (simp_all add: less_Suc_eq_le size_children)

declare compose.simps [simp del]

section \<open>Construction\<close>

text \<open>
  The constructed value, when nothing raises. Sequences are constructed by generators that run after the
  document's root, level by level; the rest is constructed at once. \<open>first_error\<close> follows that order.
\<close>

fun value_of :: "yaml_node \<Rightarrow> pyval" where
  "value_of (Scalar (Inr v)) = v"
| "value_of (Tagged ns (Inr v)) = v"
| "value_of (Sequence ns) = PList (map value_of ns)"
| "value_of (Mapping kvs) = PDict (map (\<lambda>(k, v). (case value_of k of PText s \<Rightarrow> s | _ \<Rightarrow> [], value_of v)) kvs)"
| "value_of n = PNone"

text \<open>\<open>_mapping\<close>: every key is a string that is not yet in the result.\<close>

function (sequential) eager_error :: "yaml_node \<Rightarrow> load_error option"
  and pairs_error :: "string list \<Rightarrow> (yaml_node \<times> yaml_node) list \<Rightarrow> load_error option" where
  "eager_error (Scalar (Inl e)) = Some e"
| "eager_error (Tagged ns (Inl e)) = Some e"
| "eager_error (Mapping kvs) = pairs_error [] kvs"
| "eager_error n = None"
| "pairs_error seen [] = None"
| "pairs_error seen ((k, v) # kvs) =
     (case eager_error k of
        Some e \<Rightarrow> Some e
      | None \<Rightarrow>
          (case value_of k of
             PText s \<Rightarrow>
               if s \<in> set seen then Some constructor_error
               else (case eager_error v of Some e \<Rightarrow> Some e | None \<Rightarrow> pairs_error (s # seen) kvs)
           | _ \<Rightarrow> Some constructor_error))"
  by pat_completeness auto
termination
  by (relation "measure (case_sum (\<lambda>n. 2 * size n) (\<lambda>(_, kvs). 2 * size_list (size_prod size size) kvs + 1))") auto

fun deferred :: "yaml_node \<Rightarrow> yaml_node list" where
  "deferred (Sequence ns) = ns"
| "deferred (Mapping kvs) = concat (map (\<lambda>(k, v). deferred v) kvs)"
| "deferred n = []"

lemma size_deferred: "size_list size (deferred n) \<le> size n"
proof (induction n rule: deferred.induct)
  case (2 kvs)
  then show ?case by (induction kvs) fastforce+
qed simp_all

fun first_some :: "'a option list \<Rightarrow> 'a option" where
  "first_some [] = None"
| "first_some (None # xs) = first_some xs"
| "first_some (Some x # xs) = Some x"

lemma first_some_singleton [simp]: "first_some [x] = x"
  by (cases x) simp_all

lemma size_all_deferred: "size_list size (concat (map deferred ns)) \<le> sum_list (map size ns)"
proof (induction ns)
  case (Cons n ns)
  then show ?case using size_deferred [of n] by simp
qed simp

function first_error :: "yaml_node list \<Rightarrow> load_error option" where
  "first_error ns =
     (if ns = [] then None
      else (case first_some (map eager_error ns) of
              Some e \<Rightarrow> Some e
            | None \<Rightarrow> first_error (concat (map deferred ns))))"
  by pat_completeness auto
termination
proof (relation "measure (size_list size)")
  fix ns :: "yaml_node list"
  assume "ns \<noteq> []"
  then have "sum_list (map size ns) < size_list size ns" by (cases ns) (simp_all add: size_list_conv_sum_list)
  then show "(concat (map deferred ns), ns) \<in> measure (size_list size)" using size_all_deferred [of ns] by simp
qed simp

declare first_error.simps [simp del]

definition construct :: "yaml_node \<Rightarrow> load_error + pyval" where
  "construct n = (case first_error [n] of Some e \<Rightarrow> Inl e | None \<Rightarrow> Inr (value_of n))"

text \<open>\<^verbatim>\<open>yaml.load(text, Loader=_ClosedLoader)\<close> on the events of the text.\<close>

fun closed_load :: "yaml_stream \<Rightarrow> load_error + pyval" where
  "closed_load NoDocument = Inr PNone"
| "closed_load (OneDocument n behind) =
     (case compose 0 0 n of
        Inl e \<Rightarrow> Inl e
      | Inr _ \<Rightarrow> (case behind of Some e \<Rightarrow> Inl e | None \<Rightarrow> construct n))"

section \<open>What composition accepts\<close>

lemma child_size: "c \<in> set (children n) \<Longrightarrow> size c < size n"
proof -
  have in_list: "c \<in> set ns \<Longrightarrow> size c < size_list size ns" for ns by (induction ns) auto
  assume "c \<in> set (children n)"
  then have "size c < size_list size (children n)" by (rule in_list)
  then show ?thesis using size_children [of n] by simp
qed

function nodes :: "yaml_node \<Rightarrow> yaml_node list" where
  "nodes n = n # concat (map nodes (children n))"
  by pat_completeness auto
termination by (relation "measure size") (simp_all add: child_size)

declare nodes.simps [simp del]

primrec fits :: "nat \<Rightarrow> yaml_node \<Rightarrow> bool" where
  "fits 0 n = False"
| "fits (Suc depth) n = list_all (fits depth) (children n)"

definition plain_nodes :: "yaml_node list \<Rightarrow> bool" where
  "plain_nodes ns = (\<forall>n \<in> set ns. raised_first n = None \<and> refusal n = None)"

lemma plain_nodes_simps [simp]:
  "plain_nodes []" "plain_nodes (n # ns) \<longleftrightarrow> raised_first n = None \<and> refusal n = None \<and> plain_nodes ns"
  "plain_nodes (as @ bs) \<longleftrightarrow> plain_nodes as \<and> plain_nodes bs"
  by (auto simp: plain_nodes_def)

lemma fits_children: "depth + 1 \<le> MAX_YAML_DEPTH \<Longrightarrow>
    fits (MAX_YAML_DEPTH - depth) n \<longleftrightarrow> list_all (fits (MAX_YAML_DEPTH - (depth + 1))) (children n)"
  by (simp flip: Suc_diff_Suc)

lemma compose_spec:
  "seen \<le> MAX_YAML_NODES \<Longrightarrow> compose depth seen n = Inr m \<longleftrightarrow>
     plain_nodes (nodes n) \<and> m = seen + length (nodes n) \<and> m \<le> MAX_YAML_NODES \<and> fits (MAX_YAML_DEPTH - depth) n"
  "seen \<le> MAX_YAML_NODES \<Longrightarrow> compose_all depth seen ns = Inr m \<longleftrightarrow>
     plain_nodes (concat (map nodes ns)) \<and> m = seen + length (concat (map nodes ns)) \<and> m \<le> MAX_YAML_NODES
     \<and> list_all (fits (MAX_YAML_DEPTH - depth)) ns"
proof (induction depth seen n and depth seen ns arbitrary: m and m rule: compose_compose_all.induct)
  case (1 depth seen n)
  show ?case
  proof (cases "raised_first n = None \<and> seen + 1 \<le> MAX_YAML_NODES \<and> depth + 1 \<le> MAX_YAML_DEPTH \<and> refusal n = None")
    case True
    then show ?thesis
      using "1.IH" [of m] fits_children [of depth n] by (auto simp: compose.simps [of depth seen n] nodes.simps [of n])
  next
    case False
    then show ?thesis
      by (auto simp: compose.simps [of depth seen n] nodes.simps [of n] split: option.splits)
  qed
next
  case (3 depth seen n ns)
  show ?case
  proof (cases "compose depth seen n")
    case (Inl e)
    then show ?thesis using "3.IH"(1) [OF "3.prems", of "seen + length (nodes n)"] by auto
  next
    case (Inr now)
    then show ?thesis using "3.IH"(1) [OF "3.prems", of now] "3.IH"(2) [OF Inr, of m] by auto
  qed
qed auto

text \<open>
  A document is composed exactly when it has no alias and no refused node, at most 20000 nodes and
  no node below 128 levels.
\<close>

lemma compose_document:
  "(\<exists>m. compose 0 0 n = Inr m) \<longleftrightarrow>
     plain_nodes (nodes n) \<and> length (nodes n) \<le> MAX_YAML_NODES \<and> fits MAX_YAML_DEPTH n"
  using compose_spec(1) [of 0 0 n] by simp

lemma pairs_error_keys:
  "pairs_error seen kvs = None \<Longrightarrow>
     \<exists>ks. map (value_of \<circ> fst) kvs = map PText ks \<and> distinct ks \<and> set ks \<inter> set seen = {}"
proof (induction kvs arbitrary: seen)
  case (Cons kv kvs)
  obtain k v where kv: "kv = (k, v)" by (cases kv)
  from Cons.prems obtain s where s: "value_of k = PText s" "s \<notin> set seen" "pairs_error (s # seen) kvs = None"
    by (auto simp: kv split: option.splits pyval.splits if_splits)
  from Cons.IH [OF s(3)] obtain ks where "map (value_of \<circ> fst) kvs = map PText ks" "distinct ks" "set ks \<inter> set (s # seen) = {}"
    by blast
  then show ?case using s by (intro exI [of _ "s # ks"]) (auto simp: kv comp_def)
qed simp

text \<open>A loaded mapping has distinct keys, each a string.\<close>

lemma constructed_mapping:
  assumes "construct (Mapping kvs) = Inr v"
  shows "\<exists>m. v = PDict m \<and> distinct (map fst m) \<and> length m = length kvs"
proof -
  have none: "pairs_error [] kvs = None"
    using assms by (auto simp: construct_def first_error.simps [of "[Mapping kvs]"] split: option.splits)
  obtain ks where ks: "map (value_of \<circ> fst) kvs = map PText ks" "distinct ks"
    using pairs_error_keys [OF none] by blast
  have "map fst (map (\<lambda>(k, v). (case value_of k of PText s \<Rightarrow> s | _ \<Rightarrow> [], value_of v)) kvs) =
      map (\<lambda>w. case w of PText s \<Rightarrow> s | _ \<Rightarrow> []) (map (value_of \<circ> fst) kvs)"
    by (simp add: comp_def case_prod_unfold)
  also have "\<dots> = ks" by (simp only: ks(1)) (simp add: comp_def)
  finally show ?thesis using assms ks(2) by (auto simp: construct_def split: option.splits)
qed

section \<open>The parse cache\<close>

text \<open>
  \<open>sizeof\<close> is \<^verbatim>\<open>sys.getsizeof\<close>. \<open>retained_size\<close> counts down the levels the code allows (it gives up beyond
  depth 128), and stops as soon as the remaining budget is exceeded.
\<close>

fun members :: "pyval \<Rightarrow> pyval list option" where
  "members (PDict kvs) = Some (concat (map (\<lambda>(k, v). [PText k, v]) kvs))"
| "members (PList xs) = Some xs"
| "members (PGroup xs r) = Some xs"
| "members (PForeign t r) = None"
| "members v = Some []"

fun add_sizes :: "(pyval \<Rightarrow> int \<Rightarrow> int) \<Rightarrow> int \<Rightarrow> int \<Rightarrow> pyval list \<Rightarrow> int" where
  "add_sizes f tally remaining [] = tally"
| "add_sizes f tally remaining (v # vs) =
     (let now = tally + f v (remaining - tally) in if now > remaining then now else add_sizes f now remaining vs)"

primrec retained_size :: "(pyval \<Rightarrow> int) \<Rightarrow> nat \<Rightarrow> pyval \<Rightarrow> int \<Rightarrow> int" where
  "retained_size sizeof 0 v remaining = remaining + 1"
| "retained_size sizeof (Suc levels) v remaining =
     (if sizeof v > remaining then sizeof v
      else (case members v of
              None \<Rightarrow> remaining + 1
            | Some vs \<Rightarrow> add_sizes (retained_size sizeof levels) (sizeof v) remaining vs))"

definition MAX_ENTRIES :: nat where "MAX_ENTRIES = 32"
definition MAX_INPUT_BYTES :: nat where "MAX_INPUT_BYTES = 65536"
definition MAX_RETAINED_BYTES :: int where "MAX_RETAINED_BYTES = 2 * 1024 * 1024"

text \<open>An owner is a thread with its task, a policy the configuration of the loader; both are compared only.\<close>

record ('o, 'p) yaml_cache =
  yc_owner :: 'o
  yc_entries :: "(string \<times> pyval \<times> int) list"
  yc_retained :: int
  yc_policy :: 'p

definition new_cache :: "'o \<Rightarrow> 'p \<Rightarrow> ('o, 'p) yaml_cache" where
  "new_cache owner policy = \<lparr>yc_owner = owner, yc_entries = [], yc_retained = 0, yc_policy = policy\<rparr>"

definition under_policy :: "'p \<Rightarrow> ('o, 'p) yaml_cache \<Rightarrow> ('o, 'p) yaml_cache" where
  "under_policy policy c =
     (if policy \<noteq> yc_policy c then c\<lparr>yc_entries := [], yc_retained := 0, yc_policy := policy\<rparr> else c)"

text \<open>The oldest entries, which come first, go until the new one fits.\<close>

fun evict :: "int \<Rightarrow> (string \<times> pyval \<times> int) list \<Rightarrow> int \<Rightarrow> (string \<times> pyval \<times> int) list \<times> int" where
  "evict cost [] retained = ([], retained)"
| "evict cost (e # es) retained =
     (if MAX_ENTRIES \<le> length (e # es) \<or> retained + cost > MAX_RETAINED_BYTES
      then evict cost es (retained - snd (snd e))
      else (e # es, retained))"

definition entry_size :: "(pyval \<Rightarrow> int) \<Rightarrow> string \<Rightarrow> pyval \<Rightarrow> int" where
  "entry_size sizeof t v =
     (let base = sizeof (PText t) + 1024 in base + retained_size sizeof 129 v (MAX_RETAINED_BYTES - base))"

definition cache_load ::
  "('p \<Rightarrow> string \<Rightarrow> load_error + pyval) \<Rightarrow> (pyval \<Rightarrow> int) \<Rightarrow> 'p \<Rightarrow> string \<Rightarrow> ('o, 'p) yaml_cache
   \<Rightarrow> (load_error + pyval) \<times> ('o, 'p) yaml_cache" where
  "cache_load parse sizeof policy t cache =
     (let c = under_policy policy cache in
      case map_of (yc_entries c) t of
        Some (v, cost) \<Rightarrow>
          (Inr v, c\<lparr>yc_entries := [e \<leftarrow> yc_entries c. fst e \<noteq> t] @ [(t, v, cost)]\<rparr>)
      | None \<Rightarrow>
          (case parse policy t of
             Inl e \<Rightarrow> (Inl e, c)
           | Inr v \<Rightarrow>
               let cost = entry_size sizeof t v; kept = evict cost (yc_entries c) (yc_retained c) in
               (Inr v,
                if cost \<le> MAX_RETAINED_BYTES
                then c\<lparr>yc_entries := fst kept @ [(t, v, cost)], yc_retained := snd kept + cost\<rparr>
                else c)))"

definition load_closed_yaml ::
  "('p \<Rightarrow> string \<Rightarrow> load_error + pyval) \<Rightarrow> (pyval \<Rightarrow> int) \<Rightarrow> 'o \<Rightarrow> 'p \<Rightarrow> string \<Rightarrow> ('o, 'p) yaml_cache option
   \<Rightarrow> (load_error + pyval) \<times> ('o, 'p) yaml_cache option" where
  "load_closed_yaml parse sizeof me policy t current =
     (case current of
        None \<Rightarrow> (parse policy t, None)
      | Some c \<Rightarrow>
          if yc_owner c \<noteq> me \<or> length t > MAX_INPUT_BYTES \<or> length (utf8 t) > MAX_INPUT_BYTES
          then (parse policy t, Some c)
          else (case cache_load parse sizeof policy t c of (r, c') \<Rightarrow> (r, Some c')))"

text \<open>
  The scopes that are open, innermost first: a cache for one that owns it, \<open>None\<close> for one that borrows the
  next. Leaving a scope drops its cache.
\<close>

datatype ('o, 'p) yaml_operation =
    EnterScope bool 'o 'p
  | LeaveScope
  | LoadText 'o 'p string

fun current_cache :: "('o, 'p) yaml_cache option list \<Rightarrow> ('o, 'p) yaml_cache option" where
  "current_cache [] = None"
| "current_cache (Some c # scopes) = Some c"
| "current_cache (None # scopes) = current_cache scopes"

fun set_current :: "('o, 'p) yaml_cache option \<Rightarrow> ('o, 'p) yaml_cache option list \<Rightarrow> ('o, 'p) yaml_cache option list" where
  "set_current c [] = []"
| "set_current c (Some _ # scopes) = c # scopes"
| "set_current c (None # scopes) = None # set_current c scopes"

fun yaml_step ::
  "('p \<Rightarrow> string \<Rightarrow> load_error + pyval) \<Rightarrow> (pyval \<Rightarrow> int) \<Rightarrow> ('o, 'p) yaml_operation \<Rightarrow> ('o, 'p) yaml_cache option list
   \<Rightarrow> (load_error + pyval) list \<times> ('o, 'p) yaml_cache option list" where
  "yaml_step parse sizeof (EnterScope reuse_current me policy) scopes =
     (case current_cache scopes of
        Some c \<Rightarrow> ([], (if reuse_current \<and> yc_owner c = me then None else Some (new_cache me policy)) # scopes)
      | None \<Rightarrow> ([], Some (new_cache me policy) # scopes))"
| "yaml_step parse sizeof LeaveScope scopes = ([], tl scopes)"
| "yaml_step parse sizeof (LoadText me policy t) scopes =
     (case load_closed_yaml parse sizeof me policy t (current_cache scopes) of
        (r, c) \<Rightarrow> ([r], set_current c scopes))"

fun yaml_steps ::
  "('p \<Rightarrow> string \<Rightarrow> load_error + pyval) \<Rightarrow> (pyval \<Rightarrow> int) \<Rightarrow> ('o, 'p) yaml_operation list \<Rightarrow> ('o, 'p) yaml_cache option list
   \<Rightarrow> (load_error + pyval) list \<times> ('o, 'p) yaml_cache option list" where
  "yaml_steps parse sizeof [] scopes = ([], scopes)"
| "yaml_steps parse sizeof (s # ss) scopes =
     (case yaml_step parse sizeof s scopes of
        (rs, now) \<Rightarrow> (case yaml_steps parse sizeof ss now of (rs', final) \<Rightarrow> (rs @ rs', final)))"

section \<open>The cache is transparent and bounded\<close>

definition cache_within :: "('o, 'p) yaml_cache \<Rightarrow> bool" where
  "cache_within c \<longleftrightarrow>
     distinct (map fst (yc_entries c)) \<and> length (yc_entries c) \<le> MAX_ENTRIES
     \<and> yc_retained c = sum_list (map (snd \<circ> snd) (yc_entries c)) \<and> yc_retained c \<le> MAX_RETAINED_BYTES"

definition cache_faithful :: "('p \<Rightarrow> string \<Rightarrow> load_error + pyval) \<Rightarrow> ('o, 'p) yaml_cache \<Rightarrow> bool" where
  "cache_faithful parse c \<longleftrightarrow> (\<forall>(t, v, cost) \<in> set (yc_entries c). parse (yc_policy c) t = Inr v)"

definition cache_ok :: "('p \<Rightarrow> string \<Rightarrow> load_error + pyval) \<Rightarrow> ('o, 'p) yaml_cache \<Rightarrow> bool" where
  "cache_ok parse c \<longleftrightarrow> cache_within c \<and> cache_faithful parse c"

lemma new_cache_ok: "cache_ok parse (new_cache me policy)" "cache_ok parse c \<Longrightarrow> cache_ok parse (under_policy policy c)"
  "yc_policy (under_policy policy c) = policy"
  by (auto simp: cache_ok_def cache_within_def cache_faithful_def new_cache_def under_policy_def MAX_RETAINED_BYTES_def)

lemma evict_suffix:
  assumes "evict cost es retained = (kept, left)"
  shows "\<exists>gone. es = gone @ kept \<and> left = retained - sum_list (map (snd \<circ> snd) gone)"
    "kept \<noteq> [] \<Longrightarrow> length kept < MAX_ENTRIES \<and> left + cost \<le> MAX_RETAINED_BYTES"
proof -
  show "\<exists>gone. es = gone @ kept \<and> left = retained - sum_list (map (snd \<circ> snd) gone)"
    using assms
  proof (induction es arbitrary: retained)
    case (Cons e es)
    then show ?case
    proof (cases "MAX_ENTRIES \<le> length (e # es) \<or> retained + cost > MAX_RETAINED_BYTES")
      case True
      with Cons.prems have "evict cost es (retained - snd (snd e)) = (kept, left)" by simp
      from Cons.IH [OF this] obtain gone where "es = gone @ kept"
        "left = retained - snd (snd e) - sum_list (map (snd \<circ> snd) gone)" by blast
      then show ?thesis by (intro exI [of _ "e # gone"]) (simp add: comp_def)
    qed (use Cons.prems in auto)
  qed simp
  show "kept \<noteq> [] \<Longrightarrow> length kept < MAX_ENTRIES \<and> left + cost \<le> MAX_RETAINED_BYTES"
    using assms by (induction es arbitrary: retained) (auto split: if_splits)
qed

lemma cache_load_ok:
  assumes "cache_ok parse cache"
  shows "fst (cache_load parse sizeof policy t cache) = parse policy t"
    "cache_ok parse (snd (cache_load parse sizeof policy t cache))"
proof -
  let ?c = "under_policy policy cache"
  have ok: "cache_within ?c" "cache_faithful parse ?c" and policy: "yc_policy ?c = policy"
    using new_cache_ok(2) [OF assms, of policy] new_cache_ok(3) [of policy cache] by (simp_all add: cache_ok_def)
  have "fst (cache_load parse sizeof policy t cache) = parse policy t \<and> cache_ok parse (snd (cache_load parse sizeof policy t cache))"
  proof (cases "map_of (yc_entries ?c) t")
    case (Some vs)
    obtain v cost where vs: "vs = (v, cost)" by (cases vs)
    have mem: "(t, v, cost) \<in> set (yc_entries ?c)" using Some vs by (auto dest: map_of_SomeD)
    let ?rest = "[e \<leftarrow> yc_entries ?c. fst e \<noteq> t]"
    obtain as bs where split: "yc_entries ?c = as @ (t, v, cost) # bs" using mem by (auto dest: split_list)
    have "t \<notin> fst ` set as" "t \<notin> fst ` set bs" using ok(1) by (auto simp: cache_within_def split)
    then have "[e \<leftarrow> as. fst e \<noteq> t] = as" "[e \<leftarrow> bs. fst e \<noteq> t] = bs" by (auto simp: filter_id_conv)
    then have rest: "?rest = as @ bs" by (simp add: split)
    have "cache_ok parse (?c\<lparr>yc_entries := ?rest @ [(t, v, cost)]\<rparr>)"
      using ok unfolding rest by (auto simp: cache_ok_def cache_within_def cache_faithful_def split)
    moreover have "parse policy t = Inr v" using ok(2) mem policy by (auto simp: cache_faithful_def)
    ultimately show ?thesis using Some vs by (simp add: cache_load_def Let_def)
  next
    case None
    show ?thesis
    proof (cases "parse policy t")
      case (Inl e)
      then show ?thesis using None ok by (simp add: cache_load_def Let_def cache_ok_def)
    next
      case (Inr v)
      let ?cost = "entry_size sizeof t v"
      obtain kept left where e: "evict ?cost (yc_entries ?c) (yc_retained ?c) = (kept, left)" by force
      obtain gone where gone: "yc_entries ?c = gone @ kept" "left = yc_retained ?c - sum_list (map (snd \<circ> snd) gone)"
        using evict_suffix(1) [OF e] by blast
      have left: "left = sum_list (map (snd \<circ> snd) kept)" using ok(1) gone by (simp add: cache_within_def)
      have "cache_ok parse (?c\<lparr>yc_entries := kept @ [(t, v, ?cost)], yc_retained := left + ?cost\<rparr>)"
        if "?cost \<le> MAX_RETAINED_BYTES"
        using that ok None evict_suffix(2) [OF e] gone left Inr policy
        by (cases "kept = []") (auto simp: cache_ok_def cache_within_def cache_faithful_def map_of_eq_None_iff MAX_ENTRIES_def)
      then show ?thesis using None Inr e ok by (simp add: cache_load_def Let_def cache_ok_def)
    qed
  qed
  then show "fst (cache_load parse sizeof policy t cache) = parse policy t"
    "cache_ok parse (snd (cache_load parse sizeof policy t cache))" by simp_all
qed

lemma current_cache_mem: "current_cache scopes = Some c \<Longrightarrow> Some c \<in> set scopes"
  by (induction scopes rule: current_cache.induct) auto

lemma set_current_set: "set (set_current c scopes) \<subseteq> insert c (set scopes)"
  by (induction c scopes rule: set_current.induct) auto

lemma set_current_None: "current_cache scopes = None \<Longrightarrow> set_current None scopes = scopes"
  by (induction scopes rule: current_cache.induct) auto

definition scopes_ok :: "('p \<Rightarrow> string \<Rightarrow> load_error + pyval) \<Rightarrow> ('o, 'p) yaml_cache option list \<Rightarrow> bool" where
  "scopes_ok parse scopes \<longleftrightarrow> (\<forall>c. Some c \<in> set scopes \<longrightarrow> cache_ok parse c)"

fun loaded :: "('p \<Rightarrow> string \<Rightarrow> load_error + pyval) \<Rightarrow> ('o, 'p) yaml_operation \<Rightarrow> (load_error + pyval) list" where
  "loaded parse (LoadText me policy t) = [parse policy t]"
| "loaded parse s = []"

lemma yaml_step_ok:
  assumes "scopes_ok parse scopes"
  shows "fst (yaml_step parse sizeof s scopes) = loaded parse s \<and> scopes_ok parse (snd (yaml_step parse sizeof s scopes))"
proof (cases s)
  case (EnterScope reuse_current me policy)
  then show ?thesis using assms new_cache_ok(1) by (auto simp: scopes_ok_def split: option.splits)
next
  case LeaveScope
  then show ?thesis using assms by (cases scopes) (auto simp: scopes_ok_def)
next
  case (LoadText me policy t)
  show ?thesis
  proof (cases "current_cache scopes")
    case None
    then show ?thesis using assms LoadText by (simp add: load_closed_yaml_def set_current_None)
  next
    case (Some c)
    have "cache_ok parse c" using assms current_cache_mem [OF Some] by (simp add: scopes_ok_def)
    note c = this cache_load_ok [OF this, of sizeof policy t]
    have "\<exists>d. load_closed_yaml parse sizeof me policy t (Some c) = (parse policy t, Some d) \<and> cache_ok parse d"
      using c by (simp add: load_closed_yaml_def case_prod_unfold)
    then obtain d where "load_closed_yaml parse sizeof me policy t (Some c) = (parse policy t, Some d)" "cache_ok parse d"
      by blast
    then show ?thesis
      using assms LoadText Some set_current_set [of "Some d" scopes] by (auto simp: scopes_ok_def)
  qed
qed

lemma yaml_steps_ok:
  "scopes_ok parse scopes \<Longrightarrow>
     fst (yaml_steps parse sizeof ss scopes) = concat (map (loaded parse) ss) \<and> scopes_ok parse (snd (yaml_steps parse sizeof ss scopes))"
proof (induction ss arbitrary: scopes)
  case (Cons s ss)
  have step: "fst (yaml_step parse sizeof s scopes) = loaded parse s" "scopes_ok parse (snd (yaml_step parse sizeof s scopes))"
    using yaml_step_ok [OF Cons.prems] by simp_all
  from Cons.IH [OF step(2)] step(1) show ?case by (simp add: case_prod_unfold)
qed simp

end
