(* ===== verification/Scenario_Quality.thy ===== *)
theory Scenario_Quality
  imports Closed_Yaml
begin

text \<open>
  \<^verbatim>\<open>models/scenario_quality.py\<close> and \<^verbatim>\<open>evaluation/quality.py\<close>: the findings and receipt of an assessment of
  a package's \<^verbatim>\<open>references/evals.yaml\<close>, and the assessment. What the operating system answers when the
  file is read again (\<open>package_files\<close>), the YAML parser and \<^verbatim>\<open>re.compile\<close> are parameters. Findings are
  collected as they are appended and validated together: each is valid, so where that happens is not
  observable (\<open>quality_total\<close> in \<open>Quality_Evidence\<close>).
\<close>

section \<open>The models\<close>

record ScenarioQualityFinding =
  qf_code :: string
  qf_message :: string
  qf_case_id :: "string option"
  qf_evidence_refs :: "string list"

definition normalise_qf :: "ScenarioQualityFinding \<Rightarrow> ScenarioQualityFinding" where
  "normalise_qf f = f\<lparr>qf_code := trim (qf_code f), qf_message := trim (qf_message f), qf_case_id := map_option trim (qf_case_id f)\<rparr>"

definition check_qf :: "ScenarioQualityFinding \<Rightarrow> (bool \<times> string) list" where
  "check_qf f =
     field ''code'' (is_blocker_code (qf_code f))
     @ field ''message'' (nonempty_text (qf_message f))
     @ field ''case_id'' (opt_ok nonempty_text (qf_case_id f))
     @ field ''evidence_refs'' (portables (qf_evidence_refs f))"

datatype QualityVersion = QualityV1 | QualityV2

record ScenarioQualityPolicy =
  qp_minimum_release_cases :: int
  qp_target_release_cases :: int
  qp_maximum_release_cases :: int
  qp_minimum_pressure_or_regression :: int
  qp_minimum_negative_or_edge :: int

definition portable_policy :: ScenarioQualityPolicy where
  "portable_policy = \<lparr>qp_minimum_release_cases = 5, qp_target_release_cases = 8, qp_maximum_release_cases = 10,
     qp_minimum_pressure_or_regression = 1, qp_minimum_negative_or_edge = 1\<rparr>"

definition active_set_policy :: ScenarioQualityPolicy where
  "active_set_policy = \<lparr>qp_minimum_release_cases = 10, qp_target_release_cases = 10, qp_maximum_release_cases = 10,
     qp_minimum_pressure_or_regression = 1, qp_minimum_negative_or_edge = 1\<rparr>"

text \<open>The literals of the applied policy of each version.\<close>

fun applied_policy :: "QualityVersion \<Rightarrow> ScenarioQualityPolicy" where
  "applied_policy QualityV1 = portable_policy"
| "applied_policy QualityV2 = active_set_policy"

datatype QualityScope = ScopeAll | ScopeRelease

datatype QualityStatus = QualityPass | QualityBlocked

record ScenarioQualityReceipt =
  qr_schema_version :: QualityVersion
  qr_candidate :: "PackageCandidateIdentity option"
  qr_scenario_set_id :: "string option"
  qr_scope :: QualityScope
  qr_status :: QualityStatus
  qr_scenario_count :: int
  qr_pressure_or_regression_count :: int
  qr_negative_or_edge_count :: int
  qr_effective_policy :: ScenarioQualityPolicy
  qr_findings :: "ScenarioQualityFinding list"

definition normalise_quality :: "ScenarioQualityReceipt \<Rightarrow> ScenarioQualityReceipt" where
  "normalise_quality r = r\<lparr>qr_candidate := map_option normalise_candidate (qr_candidate r),
     qr_scenario_set_id := map_option trim (qr_scenario_set_id r), qr_findings := map normalise_qf (qr_findings r)\<rparr>"

definition quality_matches_evidence :: "ScenarioQualityReceipt \<Rightarrow> (bool \<times> string) list" where
  "quality_matches_evidence r =
     (let pass = (qr_status r = QualityPass); p = qr_effective_policy r in
      [((qr_scope r = ScopeRelease) \<noteq> (qr_scenario_set_id r \<noteq> None),
        ''release scope requires exactly one scenario set identifier''),
       (pass \<and> (qr_findings r \<noteq> [] \<or> qr_candidate r = None),
        ''passing scenario quality requires a candidate and no findings''),
       (pass \<and> qr_scenario_count r = 0, ''passing scenario quality requires at least one scenario''),
       (qr_pressure_or_regression_count r > qr_scenario_count r,
        ''pressure or regression count cannot exceed scenario count''),
       (qr_negative_or_edge_count r > qr_scenario_count r, ''negative or edge count cannot exceed scenario count''),
       (pass \<and> qr_scope r = ScopeRelease
        \<and> (qr_scenario_count r < qp_minimum_release_cases p
           \<or> qr_scenario_count r > qp_maximum_release_cases p
           \<or> qr_pressure_or_regression_count r < qp_minimum_pressure_or_regression p
           \<or> qr_negative_or_edge_count r < qp_minimum_negative_or_edge p),
        ''passing release quality must satisfy the effective policy''),
       (qr_status r = QualityBlocked \<and> qr_findings r = [], ''blocked scenario quality requires findings'')])"

definition passing_active_set_has_ten_cases :: "ScenarioQualityReceipt \<Rightarrow> (bool \<times> string) list" where
  "passing_active_set_has_ten_cases r =
     [(qr_schema_version r = QualityV2 \<and> qr_status r = QualityPass \<and> (qr_scope r \<noteq> ScopeRelease \<or> qr_scenario_count r \<noteq> 10),
       ''passing active scenario quality requires one explicit set of ten cases'')]"

definition check_quality :: "ScenarioQualityReceipt \<Rightarrow> (bool \<times> string) list" where
  "check_quality r =
     opt_checks check_candidate (qr_candidate r)
     @ field ''scenario_set_id'' (opt_ok nonempty_text (qr_scenario_set_id r))
     @ field ''scenario_count'' (0 \<le> qr_scenario_count r)
     @ field ''pressure_or_regression_count'' (0 \<le> qr_pressure_or_regression_count r)
     @ field ''negative_or_edge_count'' (0 \<le> qr_negative_or_edge_count r)
     @ field ''effective_policy'' (qr_effective_policy r = applied_policy (qr_schema_version r))
     @ each check_qf (qr_findings r)
     @ quality_matches_evidence r @ passing_active_set_has_ten_cases r"

interpretation qf_model: contract_model normalise_qf check_qf
  by unfold_locales (simp add: normalise_qf_def option.map_comp comp_def)

lemma normalise_qf_idem [simp]: "normalise_qf (normalise_qf f) = normalise_qf f"
  by (rule qf_model.normalise_idem)

interpretation quality_model: contract_model normalise_quality check_quality
  by unfold_locales (simp add: normalise_quality_def option.map_comp comp_def)

section \<open>What an assessment raises\<close>

datatype assess_error =
    ValidationRaised skill_error
  | ModelRaised py_error
  | TypeErrorRaised
  | StopIterationRaised
  | LoaderRaised string

type_synonym 'a assess = "assess_error + 'a"

definition bind_assess :: "'a assess \<Rightarrow> ('a \<Rightarrow> 'b assess) \<Rightarrow> 'b assess" where
  "bind_assess r f = (case r of Inl e \<Rightarrow> Inl e | Inr x \<Rightarrow> f x)"

definition lift_assess :: "'a result \<Rightarrow> 'a assess" where
  "lift_assess r = (case r of Inl e \<Rightarrow> Inl (ModelRaised e) | Inr x \<Rightarrow> Inr x)"

definition lift_validation :: "'a skill \<Rightarrow> 'a assess" where
  "lift_validation r = (case r of Inl e \<Rightarrow> Inl (ValidationRaised e) | Inr x \<Rightarrow> Inr x)"

lemma bind_assess_simps [simp]: "bind_assess (Inl e) f = Inl e" "bind_assess (Inr x) f = f x"
  by (simp_all add: bind_assess_def)

lemma lift_assess_simps [simp]: "lift_assess (Inl e) = Inl (ModelRaised e)" "lift_assess (Inr x) = Inr x"
  "lift_validation (Inl s) = Inl (ValidationRaised s)" "lift_validation (Inr y) = Inr y"
  by (simp_all add: lift_assess_def lift_validation_def)

text \<open>The models of a list of findings, each built as it is appended.\<close>

fun made_findings :: "ScenarioQualityFinding list \<Rightarrow> ScenarioQualityFinding list result" where
  "made_findings [] = Inr []"
| "made_findings (f # fs) =
     and_then (validate_model normalise_qf check_qf f) (\<lambda>f. and_then (made_findings fs) (\<lambda>fs. Inr (f # fs)))"

section \<open>Reading the file\<close>

text \<open>
  The answer to opening a file below the package without following links: an \<^verbatim>\<open>OSError\<close> by its class, or
  whether it is regular, its size, what each \<^verbatim>\<open>os.read\<close> returns, an error after those, and whether size,
  modification time and inode are the same after the reads.
\<close>

record opened_file =
  of_regular :: bool
  of_size :: nat
  of_chunks :: "byte list list"
  of_failure :: "string option"
  of_unchanged :: bool

type_synonym package_files = "string \<Rightarrow> string + opened_file"

record evals_library =
  el_texts :: text_library
  el_stream :: "string \<Rightarrow> yaml_stream"
  el_compiles :: "string \<Rightarrow> bool"

definition EVALS_PATH :: string where "EVALS_PATH = ''references/evals.yaml''"

definition MAX_EVALS_BYTES :: nat where "MAX_EVALS_BYTES = 1048576"

fun read_chunks :: "nat \<Rightarrow> string option \<Rightarrow> byte list \<Rightarrow> byte list list \<Rightarrow> load_error + byte list" where
  "read_chunks limit failure got [] =
     (if length got > limit then Inr got else (case failure of Some e \<Rightarrow> Inl (OsFailure e) | None \<Rightarrow> Inr got))"
| "read_chunks limit failure got (c # cs) =
     (if length got > limit \<or> c = [] then Inr got else read_chunks limit failure (got @ c) cs)"

definition capture_evals :: "package_files \<Rightarrow> string \<Rightarrow> load_error + byte list" where
  "capture_evals files expected_sha256 =
     (case files EVALS_PATH of
        Inl e \<Rightarrow> Inl (OsFailure e)
      | Inr f \<Rightarrow>
          if \<not> of_regular f then Inl (ValueFailure ''ValueError'' ''invalid_evals_file_type'')
          else if of_size f > MAX_EVALS_BYTES then Inl (ValueFailure ''ValueError'' ''evals_file_too_large'')
          else (case read_chunks MAX_EVALS_BYTES (of_failure f) [] (of_chunks f) of
                  Inl e \<Rightarrow> Inl e
                | Inr payload \<Rightarrow>
                    if length payload > MAX_EVALS_BYTES then Inl (ValueFailure ''ValueError'' ''evals_file_too_large'')
                    else if \<not> of_unchanged f \<or> sha256 payload \<noteq> expected_sha256
                    then Inl (ValueFailure ''ValueError'' ''evals_source_changed'')
                    else Inr payload))"

definition load_payload :: "evals_library \<Rightarrow> package_files \<Rightarrow> string \<Rightarrow> load_error + pyval" where
  "load_payload ev files expected_sha256 =
     (case capture_evals files expected_sha256 of
        Inl e \<Rightarrow> Inl e
      | Inr raw \<Rightarrow>
          (case tl_decode (el_texts ev) raw of
             None \<Rightarrow> Inl (ValueFailure ''UnicodeDecodeError'' '''')
           | Some t \<Rightarrow> closed_load (el_stream ev t)))"

definition evals_finding :: "string \<Rightarrow> string \<Rightarrow> string option \<Rightarrow> ScenarioQualityFinding" where
  "evals_finding c message case_id =
     \<lparr>qf_code = c, qf_message = message, qf_case_id = case_id, qf_evidence_refs = [EVALS_PATH]\<rparr>"

text \<open>The finding for an exception of the load; \<open>None\<close> when it is not caught.\<close>

fun payload_finding :: "load_error \<Rightarrow> ScenarioQualityFinding option" where
  "payload_finding (ValueFailure class t) =
     Some (if class = ''UnicodeDecodeError'' then evals_finding ''invalid_evals_utf8'' ''evals.yaml must be UTF-8'' None
       else evals_finding (if t \<in> {''evals_file_too_large'', ''evals_source_changed'', ''invalid_evals_file_type''} then t
                           else ''invalid_evals_yaml'')
              (''evals.yaml could not be safely loaded: '' @ class) None)"
| "payload_finding (YamlFailure class) =
     Some (evals_finding ''invalid_evals_yaml'' (''evals.yaml could not be safely loaded: '' @ class) None)"
| "payload_finding (OsFailure class) =
     Some (evals_finding ''invalid_evals_yaml'' (''evals.yaml could not be safely loaded: '' @ class) None)"
| "payload_finding (OtherFailure class) =
     (if class = ''RecursionError'' \<or> class = ''TypeError''
      then Some (evals_finding ''invalid_evals_yaml'' (''evals.yaml could not be safely loaded: '' @ class) None)
      else None)"

section \<open>Acceptance assertions\<close>

definition CASE_FIELDS :: "string set" where
  "CASE_FIELDS = {''id'', ''name'', ''category'', ''task'', ''given'', ''should'', ''realistic'', ''why_realistic'', ''unit'',
     ''actual_artifact'', ''expected_artifact'', ''reproduce'', ''deterministic_checks'', ''eval_modes'', ''smoke_mode'',
     ''should_trigger'', ''prepend_skill'', ''claim_ids'', ''prompt'', ''acceptance'', ''output_contract''}"

definition TOP_FIELDS :: "string set" where
  "TOP_FIELDS = {''schema_version'', ''skill_name'', ''scorer_quality'', ''claims'', ''release_scenario_sets'', ''cases''}"

definition VALUE_ASSERTIONS :: "string set" where
  "VALUE_ASSERTIONS = {''contains'', ''not_contains'', ''regex'', ''not_regex'', ''expected_signal'', ''discovery_question'', ''must_not''}"

definition SKILL_ASSERTIONS :: "string set" where
  "SKILL_ASSERTIONS = {''skill_selected'', ''skill_not_selected''}"

definition FIELD_ASSERTIONS :: "string set" where
  "FIELD_ASSERTIONS = {''text_field_equals'', ''text_field_in'', ''text_field_present''}"

definition ASSERTION_TYPES :: "string set" where
  "ASSERTION_TYPES =
     VALUE_ASSERTIONS \<union> SKILL_ASSERTIONS \<union> FIELD_ASSERTIONS \<union> {''semantic_requirements'', ''text_field_absent''}"

definition assertion_fields :: "string \<Rightarrow> string set" where
  "assertion_fields kind =
     (if kind \<in> VALUE_ASSERTIONS then {''type'', ''value''}
      else if kind \<in> SKILL_ASSERTIONS then {''type'', ''expected_skill''}
      else if kind = ''semantic_requirements'' then {''type'', ''requirements''}
      else if kind = ''text_field_equals'' then {''type'', ''field'', ''value''}
      else if kind = ''text_field_in'' then {''type'', ''field'', ''values''}
      else {''type'', ''field''})"

definition requirement_valid :: "pyval \<Rightarrow> bool" where
  "requirement_valid v =
     (case mapping v of
        None \<Rightarrow> False
      | Some r \<Rightarrow>
          unsupported r {''id'', ''all_of'', ''any_of''} = [] \<and> is_words (get r ''id'')
          \<and> (is_words_list (get r ''all_of'') \<or> is_words_list (get r ''any_of''))
          \<and> (get r ''all_of'' = PNone \<or> is_words_list (get r ''all_of''))
          \<and> (get r ''any_of'' = PNone \<or> is_words_list (get r ''any_of'')))"

definition assertion_valid :: "(string \<Rightarrow> bool) \<Rightarrow> string \<Rightarrow> (string \<times> pyval) list \<Rightarrow> bool" where
  "assertion_valid compiles kind a =
     (unsupported a (assertion_fields kind) = []
      \<and> (if kind \<in> VALUE_ASSERTIONS
         then (case get a ''value'' of
                 PText s \<Rightarrow> strip s \<noteq> [] \<and> (kind \<in> {''regex'', ''not_regex''} \<longrightarrow> compiles s)
               | _ \<Rightarrow> False)
         else if kind \<in> SKILL_ASSERTIONS then is_words (get a ''expected_skill'')
         else if kind = ''text_field_equals'' then is_words (get a ''field'') \<and> is_words (get a ''value'')
         else if kind = ''text_field_in'' then is_words (get a ''field'') \<and> is_words_list (get a ''values'')
         else if kind \<in> {''text_field_present'', ''text_field_absent''} then is_words (get a ''field'')
         else (case listing (get a ''requirements'') of
                 None \<Rightarrow> False
               | Some rs \<Rightarrow> rs \<noteq> [] \<and> list_all requirement_valid rs)))"

text \<open>The findings of the assertions of a case, and the output fields they prove.\<close>

fun acceptance_findings ::
  "(string \<Rightarrow> bool) \<Rightarrow> string option \<Rightarrow> pyval list \<Rightarrow> ScenarioQualityFinding list \<times> string list" where
  "acceptance_findings compiles case_id [] = ([], [])"
| "acceptance_findings compiles case_id (v # vs) =
     (let (fs, proved) = acceptance_findings compiles case_id vs;
          a = (case mapping v of None \<Rightarrow> [] | Some a \<Rightarrow> a) in
      case text_of (get a ''type'') of
        None \<Rightarrow> (evals_finding ''unsupported_acceptance_assertion'' ''acceptance assertion type is unsupported'' case_id # fs, proved)
      | Some kind \<Rightarrow>
          if kind \<notin> ASSERTION_TYPES
          then (evals_finding ''unsupported_acceptance_assertion'' ''acceptance assertion type is unsupported'' case_id # fs, proved)
          else if \<not> assertion_valid compiles kind a
          then (evals_finding ''invalid_acceptance_assertion'' ''acceptance assertion payload is invalid'' case_id # fs, proved)
          else (fs, if kind \<in> FIELD_ASSERTIONS then py_str (get a ''field'') # proved else proved))"

section \<open>Cases\<close>

definition REQUIRED_TEXTS :: "string list" where
  "REQUIRED_TEXTS = [''id'', ''category'', ''unit'', ''given'', ''should'', ''why_realistic'', ''prompt'', ''reproduce'']"

definition case_id_of :: "(string \<times> pyval) list \<Rightarrow> string option" where
  "case_id_of kvs = (if is_words (get kvs ''id'') then text_of (get kvs ''id'') else None)"

definition field_findings :: "(string \<times> pyval) list \<Rightarrow> ScenarioQualityFinding list" where
  "field_findings kvs =
     (let case_id = case_id_of kvs; invalid = (\<lambda>message. evals_finding ''invalid_scenario_field'' message case_id) in
      (let extra = unsupported kvs CASE_FIELDS in
       if extra = [] then [] else
         [evals_finding ''unsupported_scenario_field'' (''unsupported scenario fields: '' @ join_comma extra) case_id])
      @ map (\<lambda>k. evals_finding ''missing_scenario_field'' (''scenario requires non-empty '' @ k) case_id)
          [k \<leftarrow> REQUIRED_TEXTS. \<not> is_words (get kvs k)]
      @ (if get kvs ''realistic'' = PBool True then [] else
           [evals_finding ''scenario_not_realistic'' ''scenario realistic must be true'' case_id])
      @ map (\<lambda>k. invalid (''scenario '' @ k @ '' must be non-empty text''))
          [k \<leftarrow> [''name'', ''task'', ''actual_artifact'', ''expected_artifact'']. has kvs k \<and> \<not> is_words (get kvs k)]
      @ map (\<lambda>k. invalid (''scenario '' @ k @ '' must be boolean''))
          [k \<leftarrow> [''smoke_mode'', ''should_trigger'', ''prepend_skill'']. has kvs k \<and> \<not> is_bool (get kvs k)]
      @ (if has kvs ''claim_ids'' \<and> \<not> is_words_list (get kvs ''claim_ids'')
         then [invalid ''scenario claim_ids must contain text IDs''] else []))"

definition modes_valid :: "pyval \<Rightarrow> bool" where
  "modes_valid v =
     (case listing v of
        None \<Rightarrow> False
      | Some modes \<Rightarrow> modes \<noteq> [] \<and> list_all (\<lambda>m. m \<in> {PText ''smoke'', PText ''release''}) modes)"

definition commands_valid :: "pyval \<Rightarrow> bool" where
  "commands_valid checks =
     (case mapping checks of
        None \<Rightarrow> False
      | Some c \<Rightarrow> (case listing (get c ''forbidden_commands'') of None \<Rightarrow> False | Some cs \<Rightarrow> list_all is_words cs))"

definition output_findings :: "string option \<Rightarrow> string list \<Rightarrow> pyval \<Rightarrow> ScenarioQualityFinding list" where
  "output_findings case_id proved contract =
     (if contract = PNone then [] else
        let c = (case mapping contract of None \<Rightarrow> [] | Some c \<Rightarrow> c) in
        if mapping contract = None \<or> unsupported c {''required_fields''} \<noteq> [] \<or> \<not> is_words_list (get c ''required_fields'')
        then [evals_finding ''invalid_output_contract'' ''output_contract requires non-empty required_fields'' case_id]
        else
          map (\<lambda>k. evals_finding ''missing_field_assertion'' (''required output field lacks field-aware proof: '' @ k) case_id)
            [k \<leftarrow> map py_str (the (listing (get c ''required_fields''))). k \<notin> set proved])"

definition case_findings :: "(string \<Rightarrow> bool) \<Rightarrow> pyval \<Rightarrow> ScenarioQualityFinding list" where
  "case_findings compiles v =
     (case mapping v of
        None \<Rightarrow> [evals_finding ''invalid_scenario_case'' ''scenario cases must be mappings'' None]
      | Some kvs \<Rightarrow>
          let case_id = case_id_of kvs;
              acceptance = (case listing (get kvs ''acceptance'') of None \<Rightarrow> [] | Some as \<Rightarrow> as);
              (asserted, proved) = acceptance_findings compiles case_id acceptance in
          field_findings kvs
          @ (if modes_valid (get kvs ''eval_modes'') then [] else
               [evals_finding ''invalid_eval_modes'' ''eval_modes must contain smoke or release'' case_id])
          @ (if commands_valid (get kvs ''deterministic_checks'') then [] else
               [evals_finding ''missing_deterministic_checks'' ''scenario requires forbidden_commands'' case_id])
          @ (if acceptance \<noteq> [] then [] else
               [evals_finding ''missing_acceptance'' ''scenario requires acceptance assertions'' case_id])
          @ asserted @ output_findings case_id proved (get kvs ''output_contract''))"

section \<open>The document and its release sets\<close>

definition document_cases :: "pyval \<Rightarrow> string \<Rightarrow> pyval list \<times> ScenarioQualityFinding list" where
  "document_cases payload package =
     (case mapping payload of
        None \<Rightarrow> ([], [evals_finding ''invalid_evals_document'' ''evals.yaml must contain a mapping'' None])
      | Some doc \<Rightarrow>
          let extra = unsupported doc TOP_FIELDS;
              cases = (case listing (get doc ''cases'') of None \<Rightarrow> [] | Some cs \<Rightarrow> cs) in
          (cases,
           (if extra = [] then [] else
              [evals_finding ''unsupported_evals_field'' (''unsupported eval fields: '' @ join_comma extra) None])
           @ (if get doc ''schema_version'' = PText ''2.0'' then [] else
                [evals_finding ''unsupported_evals_schema'' ''evals.yaml schema_version must be 2.0'' None])
           @ (if get doc ''skill_name'' = PText package then [] else
                [evals_finding ''skill_name_mismatch'' ''evals.yaml skill_name must match the candidate'' None])
           @ (if cases \<noteq> [] then [] else
                [evals_finding ''missing_scenarios'' ''evals.yaml requires a non-empty cases list'' None])))"

definition declared_budget :: "(string \<times> pyval) list \<Rightarrow> (int \<times> int \<times> int) option" where
  "declared_budget kvs =
     (case (int_value (get kvs ''minimum_scenarios''), int_value (get kvs ''target_scenarios''), int_value (get kvs ''maximum_scenarios'')) of
        (Some a, Some b, Some c) \<Rightarrow> Some (a, b, c)
      | _ \<Rightarrow> None)"

definition groups_valid :: "pyval \<Rightarrow> bool" where
  "groups_valid v = (case mapping v of None \<Rightarrow> False | Some gs \<Rightarrow> gs \<noteq> [] \<and> list_all (is_words_list \<circ> snd) gs)"

text \<open>The finding a declared set gets, \<open>None\<close> when it is one.\<close>

definition set_refusal :: "QualityVersion \<Rightarrow> string option \<Rightarrow> pyval \<Rightarrow> string option" where
  "set_refusal version selected_set_id v =
     (let kvs = (case mapping v of None \<Rightarrow> [] | Some kvs \<Rightarrow> kvs); name = get kvs ''id'';
          selected = (selected_set_id \<noteq> None \<and> name = PText (the selected_set_id));
          small = (5, 8, 10) :: int \<times> int \<times> int; full = (10, 10, 10);
          allowed = (if \<not> selected then {small, full} else if version = QualityV2 then {full} else {small});
          expected = (if \<not> selected then ''5/8/10 or 10/10/10'' else if version = QualityV2 then ''10/10/10'' else ''5/8/10'') in
      if mapping v = None \<or> \<not> is_words name then Some ''release scenario set identifiers must be non-empty text''
      else if declared_budget kvs = None \<or> the (declared_budget kvs) \<notin> allowed
      then Some (''release scenario set budget must declare integer minimum/target/maximum values of '' @ expected)
      else if \<not> groups_valid (get kvs ''groups'') \<and> \<not> is_words_list (get kvs ''cases'')
      then Some ''release scenario set groups or cases must contain text IDs''
      else if strip (py_str name) \<noteq> py_str name
      then Some ''release scenario set identifiers must not have surrounding whitespace''
      else None)"

definition set_finding :: "string \<Rightarrow> ScenarioQualityFinding" where
  "set_finding message = evals_finding ''invalid_scenario_set'' message None"

definition release_sets :: "(string \<times> pyval) list \<Rightarrow> QualityVersion \<Rightarrow> string option
    \<Rightarrow> (string \<times> pyval) list list \<times> ScenarioQualityFinding list" where
  "release_sets doc version selected_set_id =
     (let raw = get doc ''release_scenario_sets'' in
      if raw = PNone then ([], [])
      else (case listing raw of
              None \<Rightarrow> ([], [set_finding ''release scenario sets must be a list''])
            | Some [] \<Rightarrow> ([], [set_finding ''release scenario sets must not be empty''])
            | Some items \<Rightarrow>
                let refused = map set_finding (List.map_filter (set_refusal version selected_set_id) items);
                    sets = map (the \<circ> mapping) [v \<leftarrow> items. set_refusal version selected_set_id v = None] in
                if has_duplicates (map (\<lambda>kvs. py_str (get kvs ''id'')) sets)
                then ([], refused @ [set_finding ''release scenario set identifiers must be unique''])
                else (sets, refused)))"

section \<open>The selected cases\<close>

text \<open>What iterating over a value yields, \<open>None\<close> for a \<^verbatim>\<open>TypeError\<close>. An empty \<^verbatim>\<open>bytes\<close> yields nothing, others integers.\<close>

fun iterated :: "pyval \<Rightarrow> pyval list option" where
  "iterated (PText s) = Some (map (\<lambda>c. PText [c]) s)"
| "iterated (PList xs) = Some xs"
| "iterated (PDict kvs) = Some (map (PText \<circ> fst) kvs)"
| "iterated (PGroup xs _) = Some xs"
| "iterated (PAtom b _ _) = (if b then None else Some [])"
| "iterated _ = None"

fun all_some :: "'a option list \<Rightarrow> 'a list option" where
  "all_some [] = Some []"
| "all_some (None # xs) = None"
| "all_some (Some x # xs) = map_option (Cons x) (all_some xs)"

text \<open>
  The identifiers of a set. A mapping of groups is used as it is, even when only the flat list was
  valid; an identifier that is no text raises a \<^verbatim>\<open>TypeError\<close> when it is looked up or joined.
\<close>

definition set_case_ids :: "(string \<times> pyval) list \<Rightarrow> string list assess" where
  "set_case_ids kvs =
     (let ids = (case mapping (get kvs ''groups'') of
                   Some gs \<Rightarrow> map_option concat (all_some (map (iterated \<circ> snd) gs))
                 | None \<Rightarrow> listing (get kvs ''cases'')) in
      case ids of
        None \<Rightarrow> Inl TypeErrorRaised
      | Some vs \<Rightarrow> (case all_some (map text_of vs) of None \<Rightarrow> Inl TypeErrorRaised | Some ids \<Rightarrow> Inr ids))"

definition text_id :: "pyval \<Rightarrow> string option" where
  "text_id v = (case mapping v of None \<Rightarrow> None | Some kvs \<Rightarrow> case_id_of kvs)"

text \<open>The mapping from identifiers to cases keeps the last case of an identifier.\<close>

definition case_named :: "pyval list \<Rightarrow> string \<Rightarrow> pyval option" where
  "case_named cases name = List.find (\<lambda>v. text_id v = Some name) (rev cases)"

definition chosen_cases :: "pyval list \<Rightarrow> string list \<Rightarrow> pyval list \<times> ScenarioQualityFinding list" where
  "chosen_cases cases ids =
     (let unknown = [i \<leftarrow> ids. case_named cases i = None] in
      if ids = [] then ([], [set_finding ''selected release scenario set is missing or empty''])
      else (List.map_filter (case_named cases) ids,
            if unknown = [] then [] else
              [evals_finding ''unknown_scenario_id'' (''release scenario set contains unknown ids: '' @ join_comma unknown) None]))"

definition selected_ids :: "(string \<times> pyval) list list \<Rightarrow> string \<Rightarrow> string list assess" where
  "selected_ids sets name =
     (case [kvs \<leftarrow> sets. get kvs ''id'' = PText name] of [kvs] \<Rightarrow> set_case_ids kvs | _ \<Rightarrow> Inr [])"

definition select_release_cases ::
  "pyval list \<Rightarrow> (string \<times> pyval) list list \<Rightarrow> string option \<Rightarrow> (pyval list \<times> ScenarioQualityFinding list) assess" where
  "select_release_cases cases sets scenario_set_id =
     (case scenario_set_id of
        None \<Rightarrow> Inr (cases, [])
      | Some name \<Rightarrow> bind_assess (selected_ids sets name) (\<lambda>ids. Inr (chosen_cases cases ids)))"

section \<open>assess_scenario_quality\<close>

definition category_of :: "pyval \<Rightarrow> string" where
  "category_of v = (case mapping v of None \<Rightarrow> [] | Some kvs \<Rightarrow> py_str (get kvs ''category''))"

definition count_categories :: "string set \<Rightarrow> pyval list \<Rightarrow> int" where
  "count_categories names vs = int (length [v \<leftarrow> vs. category_of v \<in> names])"

definition duplicate_findings :: "pyval list \<Rightarrow> ScenarioQualityFinding list" where
  "duplicate_findings vs =
     (if has_duplicates (List.map_filter text_id vs)
      then [evals_finding ''duplicate_scenario_id'' ''scenario ids must be unique'' None] else [])"

definition eligible :: "pyval \<Rightarrow> bool" where
  "eligible v =
     (case mapping v of
        None \<Rightarrow> True
      | Some kvs \<Rightarrow>
          (case listing (get kvs ''eval_modes'') of
             None \<Rightarrow> False
           | Some modes \<Rightarrow> list_all (\<lambda>m. text_of m \<noteq> None) modes \<and> PText ''release'' \<in> set modes))"

definition shown_case_id :: "pyval \<Rightarrow> string option" where
  "shown_case_id v =
     (let i = get (case mapping v of None \<Rightarrow> [] | Some kvs \<Rightarrow> kvs) ''id''; s = (if py_truth i then py_str i else []) in
      if s = [] then None else Some s)"

definition release_findings :: "QualityVersion \<Rightarrow> pyval list \<Rightarrow> int \<Rightarrow> int \<Rightarrow> ScenarioQualityFinding list" where
  "release_findings version selected pressure negative =
     (let n = int (length selected); p = portable_policy in
      map (\<lambda>v. evals_finding ''release_case_not_eligible'' ''release scenario set cases must include release in eval_modes''
             (shown_case_id v)) [v \<leftarrow> selected. \<not> eligible v]
      @ (if n < qp_minimum_release_cases p
         then [evals_finding ''release_case_floor''
                 (''release scenario set requires at least '' @ show_int (qp_minimum_release_cases p) @ '' cases'') None] else [])
      @ (if n > qp_maximum_release_cases p
         then [evals_finding ''release_case_ceiling''
                 (''release scenario set permits at most '' @ show_int (qp_maximum_release_cases p) @ '' cases'') None] else [])
      @ (if version = QualityV2 \<and> n \<noteq> 10
         then [evals_finding ''active_case_count'' ''active scenario set requires exactly ten cases'' None] else [])
      @ (if pressure < qp_minimum_pressure_or_regression p
         then [evals_finding ''release_pressure_floor'' ''release scenario set requires pressure or regression coverage'' None] else [])
      @ (if negative < qp_minimum_negative_or_edge p
         then [evals_finding ''release_negative_floor'' ''release scenario set requires negative or edge coverage'' None] else []))"

definition sorted_findings :: "ScenarioQualityFinding list \<Rightarrow> ScenarioQualityFinding list" where
  "sorted_findings fs =
     sort_key (\<lambda>f. case qf_case_id f of None \<Rightarrow> [] | Some s \<Rightarrow> s) (sort_key qf_code (sort_key qf_message fs))"

definition versioned_receipt :: "QualityVersion \<Rightarrow> ScenarioQualityReceipt \<Rightarrow> ScenarioQualityReceipt assess" where
  "versioned_receipt version r =
     (if version = QualityV1 then Inr r
      else lift_assess (validate_model normalise_quality check_quality
             (r\<lparr>qr_schema_version := QualityV2, qr_effective_policy := active_set_policy\<rparr>)))"

definition quality_receipt :: "ScenarioQualityReceipt \<Rightarrow> ScenarioQualityReceipt assess" where
  "quality_receipt r = lift_assess (validate_model normalise_quality check_quality r)"

definition blocked_validation_receipt ::
  "SkillPackageValidation \<Rightarrow> string option \<Rightarrow> ScenarioQualityReceipt assess" where
  "blocked_validation_receipt v scenario_set_id =
     bind_assess (lift_assess (made_findings (map (\<lambda>f.
         \<lparr>qf_code = kf_code f, qf_message = kf_message f, qf_case_id = None, qf_evidence_refs = kf_evidence_refs f\<rparr>) (kv_findings v)))) (\<lambda>fs.
       quality_receipt
         \<lparr>qr_schema_version = QualityV1, qr_candidate = kv_candidate v, qr_scenario_set_id = scenario_set_id,
          qr_scope = (if scenario_set_id = None then ScopeAll else ScopeRelease), qr_status = QualityBlocked,
          qr_scenario_count = 0, qr_pressure_or_regression_count = 0, qr_negative_or_edge_count = 0,
          qr_effective_policy = portable_policy, qr_findings = fs\<rparr>)"

text \<open>The document, when it could be loaded, and the findings made on the way.\<close>

definition load_evals :: "evals_library \<Rightarrow> package_files \<Rightarrow> PackageManifestFile option \<Rightarrow> bool
    \<Rightarrow> (pyval option \<times> ScenarioQualityFinding list) assess" where
  "load_evals ev files manifest selector_invalid =
     (if selector_invalid then Inr (None, [set_finding ''scenario set identifier must be non-empty text''])
      else (case manifest of
              None \<Rightarrow> Inr (None, [evals_finding ''missing_evals_yaml'' ''package requires references/evals.yaml'' None])
            | Some m \<Rightarrow>
                (case load_payload ev files (mf_sha256 m) of
                   Inr payload \<Rightarrow> Inr (Some payload, [])
                 | Inl e \<Rightarrow>
                     (case payload_finding e of
                        Some f \<Rightarrow> Inr (None, [f])
                      | None \<Rightarrow> (case e of OtherFailure class \<Rightarrow> Inl (LoaderRaised class) | _ \<Rightarrow> Inl TypeErrorRaised)))))"

definition selector_invalid :: "string option \<Rightarrow> bool" where
  "selector_invalid scenario_set_id = (case scenario_set_id of None \<Rightarrow> False | Some s \<Rightarrow> strip s = [] \<or> s \<noteq> strip s)"

text \<open>The cases and release sets of a loaded document, none of one that could not be loaded, with their findings.\<close>

fun loaded_cases :: "string \<Rightarrow> pyval option \<Rightarrow> pyval list \<times> ScenarioQualityFinding list" where
  "loaded_cases package None = ([], [])"
| "loaded_cases package (Some payload) = document_cases payload package"

fun loaded_sets :: "QualityVersion \<Rightarrow> string option \<Rightarrow> pyval option \<Rightarrow> (string \<times> pyval) list list \<times> ScenarioQualityFinding list" where
  "loaded_sets version set_id (Some (PDict doc)) = release_sets doc version set_id"
| "loaded_sets version set_id payload = ([], [])"

definition document_findings :: "(string \<Rightarrow> bool) \<Rightarrow> QualityVersion \<Rightarrow> string option \<Rightarrow> string \<Rightarrow> pyval option
    \<Rightarrow> (pyval list \<times> ScenarioQualityFinding list) assess" where
  "document_findings compiles version set_id package payload =
     (let described = loaded_cases package payload; grouped = loaded_sets version set_id payload in
      bind_assess (select_release_cases (fst described) (fst grouped) set_id) (\<lambda>(selected, chosen).
        Inr (selected,
             snd described @ snd grouped @ duplicate_findings (fst described) @ chosen @ duplicate_findings selected
             @ concat (map (case_findings compiles) selected))))"

definition active_set :: "string option \<Rightarrow> string option" where
  "active_set scenario_set_id = (if selector_invalid scenario_set_id then None else scenario_set_id)"

definition required_findings :: "QualityVersion \<Rightarrow> string option \<Rightarrow> ScenarioQualityFinding list" where
  "required_findings version scenario_set_id =
     (if version = QualityV2 \<and> scenario_set_id = None
      then [evals_finding ''active_scenario_set_required'' ''v2 requires an explicit active scenario set'' None] else [])"

definition released_findings :: "QualityVersion \<Rightarrow> string option \<Rightarrow> pyval list \<Rightarrow> ScenarioQualityFinding list" where
  "released_findings version set_id selected =
     (if set_id = None then [] else
        release_findings version selected (count_categories {''pressure'', ''regression''} selected)
          (count_categories {''negative'', ''edge''} selected))"

definition assessed_receipt ::
  "PackageCandidateIdentity \<Rightarrow> string option \<Rightarrow> pyval list \<Rightarrow> ScenarioQualityFinding list \<Rightarrow> ScenarioQualityReceipt" where
  "assessed_receipt c set_id selected fs =
     \<lparr>qr_schema_version = QualityV1, qr_candidate = Some c, qr_scenario_set_id = set_id,
      qr_scope = (if set_id = None then ScopeAll else ScopeRelease),
      qr_status = (if fs = [] then QualityPass else QualityBlocked), qr_scenario_count = int (length selected),
      qr_pressure_or_regression_count = (if set_id = None then 0 else count_categories {''pressure'', ''regression''} selected),
      qr_negative_or_edge_count = (if set_id = None then 0 else count_categories {''negative'', ''edge''} selected),
      qr_effective_policy = portable_policy, qr_findings = sorted_findings fs\<rparr>"

definition assess_scenario_quality ::
  "evals_library \<Rightarrow> package_root \<Rightarrow> package_files \<Rightarrow> string \<Rightarrow> string option \<Rightarrow> bool \<Rightarrow> QualityVersion
   \<Rightarrow> ScenarioQualityReceipt assess" where
  "assess_scenario_quality ev package files revision scenario_set_id policy_given version =
     (if version = QualityV2 \<and> policy_given
      then Inl (ModelRaised (ValueErr ''scenario-quality/v2 uses a fixed ten-case policy''))
      else
        let set_id = active_set scenario_set_id in
        bind_assess (lift_validation (validate_skill_package (el_texts ev) package revision None)) (\<lambda>v.
          case kv_candidate v of
            None \<Rightarrow> bind_assess (blocked_validation_receipt v set_id) (versioned_receipt version)
          | Some c \<Rightarrow>
              if kv_status v = ValidationBlocked
              then bind_assess (blocked_validation_receipt v set_id) (versioned_receipt version)
              else
                let manifest = List.find (\<lambda>f. mf_path f = EVALS_PATH) (kv_files v) in
                bind_assess (load_evals ev files manifest (selector_invalid scenario_set_id)) (\<lambda>(payload, unread).
                bind_assess (document_findings (el_compiles ev) version set_id (package_id c) payload) (\<lambda>(selected, found).
                bind_assess (lift_assess (made_findings
                    (required_findings version scenario_set_id @ unread @ found @ released_findings version set_id selected))) (\<lambda>fs.
                  bind_assess (quality_receipt (assessed_receipt c set_id selected fs)) (versioned_receipt version))))))"

end
