(* ===== verification/Quality_Evidence.thy ===== *)
theory Quality_Evidence
  imports Scenario_Quality
begin

text \<open>
  What a scenario-quality assessment guarantees. \<open>quality_total\<close>: it returns a valid receipt, or raises the
  \<^verbatim>\<open>TypeError\<close> of a set whose groups were never validated; \<open>quality_pass\<close>: what a passing receipt for a
  release set says of the document.
\<close>

section \<open>Findings\<close>

definition qf_ok :: "ScenarioQualityFinding \<Rightarrow> bool" where
  "qf_ok f \<longleftrightarrow> is_blocker_code (qf_code f) \<and> trim (qf_message f) \<noteq> [] \<and> opt_ok (\<lambda>s. trim s \<noteq> []) (qf_case_id f)
     \<and> portables (qf_evidence_refs f)"

lemma qf_ok_valid: "qf_ok f \<Longrightarrow> passes (check_qf (normalise_qf f))"
  by (cases "qf_case_id f") (simp_all add: qf_ok_def check_qf_def normalise_qf_def trim_blocker_code)

lemma made_findings_ok: "list_all qf_ok fs \<Longrightarrow> made_findings fs = Inr (map normalise_qf fs)"
proof (induction fs)
  case (Cons f fs)
  then have "validate_model normalise_qf check_qf f = Inr (normalise_qf f)"
    using qf_ok_valid by (simp add: qf_model.validate_ok_iff)
  with Cons show ?case by simp
qed simp

lemma evals_codes: "is_blocker_code ''invalid_evals_utf8''" "is_blocker_code ''invalid_evals_yaml''"
  "is_blocker_code ''evals_file_too_large''" "is_blocker_code ''evals_source_changed''" "is_blocker_code ''invalid_evals_file_type''"
  "is_blocker_code ''unsupported_acceptance_assertion''" "is_blocker_code ''invalid_acceptance_assertion''"
  "is_blocker_code ''invalid_scenario_field''" "is_blocker_code ''unsupported_scenario_field''"
  "is_blocker_code ''missing_scenario_field''" "is_blocker_code ''scenario_not_realistic''" "is_blocker_code ''invalid_output_contract''"
  "is_blocker_code ''missing_field_assertion''" "is_blocker_code ''invalid_scenario_case''" "is_blocker_code ''invalid_eval_modes''"
  "is_blocker_code ''missing_deterministic_checks''" "is_blocker_code ''missing_acceptance''"
  "is_blocker_code ''invalid_evals_document''" "is_blocker_code ''unsupported_evals_field''"
  "is_blocker_code ''unsupported_evals_schema''" "is_blocker_code ''skill_name_mismatch''" "is_blocker_code ''missing_scenarios''"
  "is_blocker_code ''invalid_scenario_set''" "is_blocker_code ''unknown_scenario_id''" "is_blocker_code ''duplicate_scenario_id''"
  "is_blocker_code ''release_case_not_eligible''" "is_blocker_code ''release_case_floor''" "is_blocker_code ''release_case_ceiling''"
  "is_blocker_code ''active_case_count''" "is_blocker_code ''release_pressure_floor''" "is_blocker_code ''release_negative_floor''"
  "is_blocker_code ''active_scenario_set_required''" "is_blocker_code ''missing_evals_yaml''"
  "portable EVALS_PATH"
  by code_simp+

lemma evals_finding_ok:
  "qf_ok (evals_finding c m case_id) \<longleftrightarrow> is_blocker_code c \<and> trim m \<noteq> [] \<and> opt_ok (\<lambda>s. trim s \<noteq> []) case_id"
  by (simp add: qf_ok_def evals_finding_def portables_iff evals_codes)

lemma trim_first: "\<not> unicode_space c \<Longrightarrow> trim (c # s) \<noteq> []"
  by (rule trim_nonempty) simp_all

lemma case_id_ok: "opt_ok (\<lambda>s. trim s \<noteq> []) (case_id_of kvs)"
  using trim_nonempty_if_strip by (auto simp: case_id_of_def is_words_iff)

lemma set_finding_ok: "qf_ok (set_finding m) \<longleftrightarrow> trim m \<noteq> []"
  by (simp add: set_finding_def evals_finding_ok evals_codes)

lemmas qf_simps = evals_finding_ok evals_codes set_finding_ok trim_first unicode_space_def code_def Let_def

lemma payload_finding_ok: "payload_finding e = Some f \<Longrightarrow> qf_ok f"
  by (cases e rule: payload_finding.cases) (auto simp: qf_simps split: if_splits)

lemma acceptance_findings_ok:
  "opt_ok (\<lambda>s. trim s \<noteq> []) case_id \<Longrightarrow> list_all qf_ok (fst (acceptance_findings compiles case_id vs))"
  by (induction compiles case_id vs rule: acceptance_findings.induct)
    (simp_all add: qf_simps case_prod_unfold split: option.splits)

lemma all_mapped: "(\<And>x. qf_ok (g x)) \<Longrightarrow> list_all qf_ok (map g xs)"
  by (simp add: list_all_iff)

lemma field_findings_ok: "list_all qf_ok (field_findings kvs)"
  unfolding field_findings_def Let_def list_all_append
  by (intro conjI; (rule all_mapped)?; simp add: qf_simps case_id_ok)

lemma output_findings_ok: "opt_ok (\<lambda>s. trim s \<noteq> []) case_id \<Longrightarrow> list_all qf_ok (output_findings case_id proved contract)"
  by (simp add: output_findings_def list_all_iff qf_simps)

lemma case_findings_ok: "list_all qf_ok (case_findings compiles v)"
proof (cases "mapping v")
  case (Some kvs)
  note case_id = case_id_ok [of kvs]
  show ?thesis
    using Some field_findings_ok acceptance_findings_ok [OF case_id] output_findings_ok [OF case_id] case_id
    by (simp add: case_findings_def qf_simps case_prod_unfold)
qed (simp add: case_findings_def qf_simps)

lemma document_cases_ok: "list_all qf_ok (snd (document_cases payload package))"
  by (cases "mapping payload") (simp_all add: document_cases_def qf_simps)

lemma set_refusal_message: "set_refusal version selected v = Some m \<Longrightarrow> trim m \<noteq> []"
  by (auto simp: set_refusal_def qf_simps split: if_splits)

lemma release_sets_ok: "list_all qf_ok (snd (release_sets doc version selected))"
proof -
  have "list_all qf_ok (map set_finding (List.map_filter (set_refusal version selected) items))" for items
    using set_refusal_message by (auto simp: list_all_iff set_finding_ok List.map_filter_def)
  then show ?thesis
    by (simp add: release_sets_def Let_def set_finding_ok trim_first unicode_space_def code_def
        del: List.map_filter_simps
        split: option.splits list.splits)
qed

lemma duplicate_findings_ok: "list_all qf_ok (duplicate_findings vs)"
  by (simp add: duplicate_findings_def qf_simps)

lemma release_findings_ok:
  assumes "\<forall>v \<in> set selected. text_id v \<noteq> None"
  shows "list_all qf_ok (release_findings version selected pressure negative)"
proof -
  have "opt_ok (\<lambda>s. trim s \<noteq> []) (shown_case_id v)" if "v \<in> set selected" for v
    using assms that trim_nonempty_if_strip
    by (fastforce simp: shown_case_id_def text_id_def case_id_of_def is_words_iff Let_def split: option.splits if_splits)
  then show ?thesis by (auto simp: release_findings_def list_all_iff qf_simps)
qed

lemma find_Some_mem: "List.find P xs = Some v \<Longrightarrow> P v \<and> v \<in> set xs"
  by (induction xs) (auto split: if_splits)

lemma set_mapped: "set (List.map_filter f xs) = {y. \<exists>x \<in> set xs. f x = Some y}"
  by (induction xs) (auto simp: List.map_filter_simps split: option.splits)

lemma select_ok:
  assumes "select_release_cases cases sets set_id = Inr (selected, chosen)"
  shows "list_all qf_ok chosen" "set_id \<noteq> None \<Longrightarrow> \<forall>v \<in> set selected. \<exists>i. text_id v = Some i \<and> v \<in> set cases"
proof -
  have named: "case_named cases i = Some v \<Longrightarrow> text_id v = Some i \<and> v \<in> set cases" for i v
    unfolding case_named_def by (auto dest!: find_Some_mem)
  have parts: "list_all qf_ok chosen \<and> (set_id \<noteq> None \<longrightarrow> (\<forall>v \<in> set selected. \<exists>i. text_id v = Some i \<and> v \<in> set cases))"
  proof (cases set_id)
    case None
    then show ?thesis using assms by (simp add: select_release_cases_def)
  next
    case (Some name)
    obtain ids where ids: "chosen_cases cases ids = (selected, chosen)"
      using assms by (cases "selected_ids sets name") (simp_all add: select_release_cases_def Some)
    then have "list_all qf_ok chosen" by (auto simp: chosen_cases_def qf_simps split: if_splits)
    moreover have "set selected \<subseteq> {v. \<exists>i. case_named cases i = Some v}"
      using ids by (auto simp: chosen_cases_def set_mapped Let_def split: if_splits)
    ultimately show ?thesis using named by blast
  qed
  then show "list_all qf_ok chosen" "set_id \<noteq> None \<Longrightarrow> \<forall>v \<in> set selected. \<exists>i. text_id v = Some i \<and> v \<in> set cases"
    by simp_all
qed

section \<open>The stages\<close>

text \<open>The exceptions of the YAML constructors are among those the assessment catches.\<close>

definition catches :: "evals_library \<Rightarrow> bool" where
  "catches ev \<longleftrightarrow> (\<forall>t class. closed_load (el_stream ev t) = Inl (OtherFailure class) \<longrightarrow> class = ''RecursionError'' \<or> class = ''TypeError'')"

lemma read_chunks_error: "read_chunks limit failure got cs = Inl e \<Longrightarrow> \<exists>class. e = OsFailure class"
  by (induction limit failure got cs rule: read_chunks.induct) (auto split: if_splits option.splits)

lemma capture_error: "capture_evals files sha \<noteq> Inl (OtherFailure class)"
  by (auto simp: capture_evals_def split: sum.splits if_splits dest: read_chunks_error)

lemma load_payload_error: "catches ev \<Longrightarrow> load_payload ev files sha = Inl e \<Longrightarrow> payload_finding e \<noteq> None"
  by (cases e) (auto simp: load_payload_def catches_def capture_error split: sum.splits option.splits)

lemma load_evals_outcome:
  assumes "catches ev"
  obtains payload fs where "load_evals ev files manifest bad = Inr (payload, fs)" "list_all qf_ok fs" "payload = None \<longleftrightarrow> fs \<noteq> []"
    "\<And>p. payload = Some p \<Longrightarrow> \<not> bad \<and> (\<exists>m. manifest = Some m \<and> load_payload ev files (mf_sha256 m) = Inr p)"
proof (cases "bad \<or> manifest = None")
  case True
  then show thesis by (cases bad) (auto simp: load_evals_def qf_simps intro!: that)
next
  case False
  then obtain m where m: "manifest = Some m" by auto
  show thesis
  proof (cases "load_payload ev files (mf_sha256 m)")
    case (Inl e)
    then obtain f where "payload_finding e = Some f" using load_payload_error [OF assms] by blast
    then show thesis
      using that [of None "[f]"] payload_finding_ok m False Inl by (simp add: load_evals_def)
  next
    case (Inr p)
    then show thesis using that [of "Some p" "[]"] m False by (simp add: load_evals_def)
  qed
qed

lemma set_case_ids_error: "set_case_ids kvs = Inl e \<Longrightarrow> e = TypeErrorRaised"
  by (auto simp: set_case_ids_def Let_def split: option.splits)

lemma select_error: "select_release_cases cases sets set_id = Inl e \<Longrightarrow> e = TypeErrorRaised"
  by (auto simp: select_release_cases_def selected_ids_def bind_assess_def split: option.splits sum.splits list.splits
      dest: set_case_ids_error)

lemma document_findings_ok:
  assumes "document_findings compiles version set_id package payload = Inr (selected, found)"
  shows "list_all qf_ok found" "set_id \<noteq> None \<Longrightarrow> \<forall>v \<in> set selected. text_id v \<noteq> None"
proof -
  let ?d = "loaded_cases package payload" and ?g = "loaded_sets version set_id payload"
  obtain chosen where c: "select_release_cases (fst ?d) (fst ?g) set_id = Inr (selected, chosen)"
    and found: "found = snd ?d @ snd ?g @ duplicate_findings (fst ?d) @ chosen @ duplicate_findings selected
       @ concat (map (case_findings compiles) selected)"
    using assms by (auto simp: document_findings_def bind_assess_def Let_def split: sum.splits)
  have "list_all qf_ok (snd ?d)" using document_cases_ok by (cases payload) simp_all
  moreover have "list_all qf_ok (snd ?g)"
    using release_sets_ok by (cases "(version, set_id, payload)" rule: loaded_sets.cases) simp_all
  moreover have "list_all qf_ok (concat (map (case_findings compiles) selected))"
    using case_findings_ok by (auto simp: list_all_iff)
  ultimately show "list_all qf_ok found" using select_ok(1) [OF c] duplicate_findings_ok by (simp add: found)
  show "set_id \<noteq> None \<Longrightarrow> \<forall>v \<in> set selected. text_id v \<noteq> None" using select_ok(2) [OF c] by fastforce
qed

lemma document_findings_error: "document_findings compiles version set_id package payload = Inl e \<Longrightarrow> e = TypeErrorRaised"
  by (auto simp: document_findings_def bind_assess_def Let_def case_prod_unfold split: sum.splits dest: select_error)

section \<open>The receipt\<close>

definition quality_record :: "QualityVersion \<Rightarrow> PackageCandidateIdentity option \<Rightarrow> string option \<Rightarrow> int \<Rightarrow> int \<Rightarrow> int
    \<Rightarrow> ScenarioQualityFinding list \<Rightarrow> ScenarioQualityReceipt" where
  "quality_record version c set_id n p q fs =
     \<lparr>qr_schema_version = version, qr_candidate = c, qr_scenario_set_id = set_id,
      qr_scope = (if set_id = None then ScopeAll else ScopeRelease),
      qr_status = (if fs = [] then QualityPass else QualityBlocked), qr_scenario_count = n,
      qr_pressure_or_regression_count = p, qr_negative_or_edge_count = q, qr_effective_policy = applied_policy version,
      qr_findings = fs\<rparr>"

lemma quality_record_simps [simp]:
  "qr_schema_version (quality_record version c set_id n p q fs) = version"
  "qr_candidate (quality_record version c set_id n p q fs) = c"
  "qr_scenario_set_id (quality_record version c set_id n p q fs) = set_id"
  "qr_status (quality_record version c set_id n p q fs) = (if fs = [] then QualityPass else QualityBlocked)"
  "qr_scenario_count (quality_record version c set_id n p q fs) = n"
  "qr_findings (quality_record version c set_id n p q fs) = fs"
  by (simp_all add: quality_record_def)

definition receipt_parts :: "QualityVersion \<Rightarrow> PackageCandidateIdentity option \<Rightarrow> string option \<Rightarrow> int \<Rightarrow> int \<Rightarrow> int
    \<Rightarrow> ScenarioQualityFinding list \<Rightarrow> bool" where
  "receipt_parts version c set_id n p q fs \<longleftrightarrow>
     (\<forall>x. c = Some x \<longrightarrow> passes (check_candidate x)) \<and> (\<forall>s. set_id = Some s \<longrightarrow> s \<noteq> [] \<and> trim s = s)
     \<and> (\<forall>f \<in> set fs. normalise_qf f = f \<and> passes (check_qf f)) \<and> 0 \<le> p \<and> 0 \<le> q \<and> p \<le> n \<and> q \<le> n
     \<and> (fs = [] \<longrightarrow> c \<noteq> None \<and> 0 < n \<and> (set_id \<noteq> None \<longrightarrow> 5 \<le> n \<and> n \<le> 10 \<and> 1 \<le> p \<and> 1 \<le> q)
          \<and> (version = QualityV2 \<longrightarrow> set_id \<noteq> None \<and> n = 10))"

lemma quality_record_valid:
  assumes "receipt_parts version c set_id n p q fs"
  shows "validate_model normalise_quality check_quality (quality_record version c set_id n p q fs)
    = Inr (quality_record version c set_id n p q fs)"
proof -
  note parts = assms [unfolded receipt_parts_def]
  have "normalise_quality (quality_record version c set_id n p q fs) = quality_record version c set_id n p q fs"
    using parts by (cases c; cases set_id) (auto simp: normalise_quality_def quality_record_def valid_candidate_normal intro!: map_idI)
  moreover have "passes (check_quality (quality_record version c set_id n p q fs))"
    using parts
    by (cases version; cases set_id; cases "fs = []")
      (auto simp: check_quality_def quality_record_def quality_matches_evidence_def passing_active_set_has_ten_cases_def
        portable_policy_def active_set_policy_def Let_def)
  ultimately show ?thesis by (simp add: quality_model.fixpoint_iff)
qed

lemma versioned_record:
  assumes "receipt_parts version c set_id n p q fs"
  shows "bind_assess (quality_receipt (quality_record QualityV1 c set_id n p q fs)) (versioned_receipt version)
    = Inr (quality_record version c set_id n p q fs)"
proof -
  have "receipt_parts QualityV1 c set_id n p q fs" using assms by (auto simp: receipt_parts_def)
  then have "quality_receipt (quality_record QualityV1 c set_id n p q fs) = Inr (quality_record QualityV1 c set_id n p q fs)"
    by (simp add: quality_receipt_def quality_record_valid)
  moreover have "(quality_record QualityV1 c set_id n p q fs)
      \<lparr>qr_schema_version := QualityV2, qr_effective_policy := active_set_policy\<rparr> = quality_record QualityV2 c set_id n p q fs"
    by (simp add: quality_record_def)
  ultimately show ?thesis using quality_record_valid [OF assms] by (cases version) (simp_all add: versioned_receipt_def)
qed

section \<open>The assessment\<close>

lemma sorted_findings_simps [simp]: "sorted_findings fs = [] \<longleftrightarrow> fs = []" "set (sorted_findings fs) = set fs"
  by (simp_all add: sorted_findings_def flip: length_0_conv)

lemma count_categories_bounds: "0 \<le> count_categories names vs" "count_categories names vs \<le> int (length vs)"
  by (simp_all add: count_categories_def)

lemma active_set_Some: "active_set s = Some name \<Longrightarrow> s = Some name \<and> name \<noteq> [] \<and> trim name = name \<and> \<not> selector_invalid s"
  using trim_if_stripped by (auto simp: active_set_def selector_invalid_def split: if_splits option.splits)

lemma release_findings_Nil:
  "release_findings version selected p q = [] \<longleftrightarrow>
     list_all eligible selected \<and> 5 \<le> length selected \<and> length selected \<le> 10
     \<and> (version = QualityV2 \<longrightarrow> length selected = 10) \<and> 1 \<le> p \<and> 1 \<le> q"
  by (auto simp: release_findings_def Let_def portable_policy_def list_all_iff filter_empty_conv)

lemma document_cases_Nil: "snd (document_cases payload package) = [] \<Longrightarrow> fst (document_cases payload package) \<noteq> []"
  by (auto simp: document_cases_def Let_def split: option.splits if_splits)

text \<open>A validation that passes decides the assessment by its stages.\<close>

lemma assess_stages:
  assumes v: "validate_skill_package (el_texts ev) package revision None = Inr v" "kv_candidate v = Some c" "kv_status v = ValidationPass"
    and "\<not> (version = QualityV2 \<and> given)"
    and load: "load_evals ev files (List.find (\<lambda>f. mf_path f = EVALS_PATH) (kv_files v)) (selector_invalid set_id) = Inr (payload, unread)"
    and found: "document_findings (el_compiles ev) version (active_set set_id) (package_id c) payload = Inr (selected, found)"
    and fs: "made_findings (required_findings version set_id @ unread @ found @ released_findings version (active_set set_id) selected) = Inr fs"
  shows "assess_scenario_quality ev package files revision set_id given version =
    bind_assess (quality_receipt (assessed_receipt c (active_set set_id) selected fs)) (versioned_receipt version)"
  using assms(4) by (simp only: assess_scenario_quality_def Let_def if_False v lift_assess_simps bind_assess_simps option.case
      ValidationStatus.distinct load found fs prod.case)

lemma assessed_record:
  "assessed_receipt c set_id selected fs = quality_record QualityV1 (Some c) set_id (int (length selected))
     (if set_id = None then 0 else count_categories {''pressure'', ''regression''} selected)
     (if set_id = None then 0 else count_categories {''negative'', ''edge''} selected) (sorted_findings fs)"
  by (simp add: assessed_receipt_def quality_record_def)

definition restated :: "SkillPackageFinding list \<Rightarrow> ScenarioQualityFinding list" where
  "restated fs = map (\<lambda>f. \<lparr>qf_code = kf_code f, qf_message = kf_message f, qf_case_id = None, qf_evidence_refs = kf_evidence_refs f\<rparr>) fs"

lemma blocked_validation:
  assumes "list_all made_finding fs" "fs \<noteq> []" "\<forall>x. c = Some x \<longrightarrow> passes (check_candidate x)"
  shows "bind_assess (blocked_validation_receipt (validated c identity files fs) (active_set set_id)) (versioned_receipt version)
     = Inr (quality_record version c (active_set set_id) 0 0 0 (restated fs))"
    "validate_model normalise_quality check_quality (quality_record version c (active_set set_id) 0 0 0 (restated fs))
     = Inr (quality_record version c (active_set set_id) 0 0 0 (restated fs))"
proof -
  let ?g = "\<lambda>f. \<lparr>qf_code = kf_code f, qf_message = kf_message f, qf_case_id = None, qf_evidence_refs = kf_evidence_refs f\<rparr>"
  have g: "normalise_qf (?g f) = ?g f \<and> qf_ok (?g f)" if "f \<in> set fs" for f
  proof -
    have f: "normalise_finding f = f" "passes (check_finding f)" using that assms(1) by (auto simp: list_all_iff made_finding_def)
    then have "trim (kf_code f) = kf_code f" "trim (kf_message f) = kf_message f"
      by (cases f; simp add: normalise_finding_def)+
    then show ?thesis using f(2) by (simp add: normalise_qf_def qf_ok_def check_finding_def)
  qed
  have "made_findings (map ?g fs) = Inr (map normalise_qf (map ?g fs))"
    using g by (intro made_findings_ok) (simp add: list_all_iff)
  also have "map normalise_qf (map ?g fs) = map ?g fs" using g by simp
  finally have made: "made_findings (map ?g fs) = Inr (map ?g fs)" .
  have "receipt_parts version c (active_set set_id) 0 0 0 (map ?g fs)"
    using assms(2,3) g qf_ok_valid by (fastforce simp: receipt_parts_def dest: active_set_Some)
  note versioned = versioned_record [OF this] quality_record_valid [OF this]
  show "bind_assess (blocked_validation_receipt (validated c identity files fs) (active_set set_id)) (versioned_receipt version)
     = Inr (quality_record version c (active_set set_id) 0 0 0 (restated fs))"
    using versioned(1) made assms(2) unfolding blocked_validation_receipt_def validated_def restated_def
    by (simp add: quality_record_def)
  show "validate_model normalise_quality check_quality (quality_record version c (active_set set_id) 0 0 0 (restated fs))
     = Inr (quality_record version c (active_set set_id) 0 0 0 (restated fs))"
    using versioned(2) by (simp only: restated_def)
qed

lemma stages_receipt_parts:
  assumes load: "load_evals ev files manifest (selector_invalid set_id) = Inr (payload, unread)" "payload = None \<longleftrightarrow> unread \<noteq> []"
    and found: "document_findings (el_compiles ev) version (active_set set_id) package payload = Inr (selected, found)"
    and fs: "fs = required_findings version set_id @ unread @ found @ released_findings version (active_set set_id) selected"
    and ok: "list_all qf_ok fs" "passes (check_candidate c)"
  shows "receipt_parts version (Some c) (active_set set_id) (int (length selected))
     (if active_set set_id = None then 0 else count_categories {''pressure'', ''regression''} selected)
     (if active_set set_id = None then 0 else count_categories {''negative'', ''edge''} selected)
     (sorted_findings (map normalise_qf fs))"
proof -
  have all: "\<forall>f \<in> set (sorted_findings (map normalise_qf fs)). normalise_qf f = f \<and> passes (check_qf f)"
    using ok(1) qf_ok_valid by (auto simp: list_all_iff)
  have "0 < int (length selected) \<and> (active_set set_id \<noteq> None \<longrightarrow> 5 \<le> int (length selected) \<and> int (length selected) \<le> 10
      \<and> 1 \<le> count_categories {''pressure'', ''regression''} selected \<and> 1 \<le> count_categories {''negative'', ''edge''} selected)
      \<and> (version = QualityV2 \<longrightarrow> active_set set_id \<noteq> None \<and> int (length selected) = 10)" if "fs = []"
  proof -
    have Nil: "required_findings version set_id = []" "unread = []" "found = []" "released_findings version (active_set set_id) selected = []"
      using that fs by simp_all
    obtain p where p: "payload = Some p" using load(2) Nil(2) by auto
    then have valid: "\<not> selector_invalid set_id" using load(1) by (auto simp: load_evals_def)
    show ?thesis
    proof (cases "active_set set_id")
      case None
      then have "set_id = None" using valid by (simp add: active_set_def)
      then have "version \<noteq> QualityV2" using Nil(1) by (auto simp: required_findings_def)
      moreover have "selected \<noteq> []"
        using found Nil(3) document_cases_Nil [of p package]
        by (auto simp: document_findings_def p None select_release_cases_def Let_def)
      ultimately show ?thesis using None by simp
    next
      case (Some name)
      then show ?thesis using Nil(4) by (auto simp: released_findings_def release_findings_Nil)
    qed
  qed
  then show ?thesis
    using all ok(2) count_categories_bounds by (auto simp: receipt_parts_def dest: active_set_Some)
qed

text \<open>
  An assessment returns a valid receipt for the candidate of the validation, or raises the
  \<^verbatim>\<open>TypeError\<close> of a declared set.
\<close>

lemma quality_total:
  assumes env: "os_package (root_tree package)" "listable (root_tree package)" "loader_returns (el_texts ev)" "catches ev"
    and "\<not> (version = QualityV2 \<and> given)"
  shows "assess_scenario_quality ev package files revision set_id given version = Inl TypeErrorRaised
    \<or> (\<exists>v r. validate_skill_package (el_texts ev) package revision None = Inr v
        \<and> assess_scenario_quality ev package files revision set_id given version = Inr r
        \<and> validate_model normalise_quality check_quality r = Inr r
        \<and> qr_schema_version r = version \<and> qr_candidate r = kv_candidate v \<and> qr_scenario_set_id r = active_set set_id
        \<and> (kv_status v = ValidationBlocked \<longrightarrow> qr_status r = QualityBlocked))"
proof -
  obtain captured identity candidate fs where v: "validate_skill_package (el_texts ev) package revision None =
      Inr (validated candidate identity captured fs)" "list_all made_finding fs"
    "candidate = Some (directory_candidate (root_name package) revision captured) \<or> candidate = None \<and> fs \<noteq> []"
    using validation_total [OF env(1-3)] by metis
  let ?v = "validated candidate identity captured fs"
  have c: "\<forall>c. candidate = Some c \<longrightarrow> passes (check_candidate c)"
    using validation_model.validated_passes [OF validated_valid [OF v(1)]] by (simp add: check_validation_def validated_def)
  show ?thesis
  proof (cases "fs = []")
    case False
    note blocked = blocked_validation [OF v(2) False c]
    have "kv_status ?v = ValidationBlocked" "kv_candidate ?v = candidate" using False by (simp_all add: validated_def)
    then have "assess_scenario_quality ev package files revision set_id given version =
        bind_assess (blocked_validation_receipt ?v (active_set set_id)) (versioned_receipt version)"
      using v(1) assms(5) by (cases candidate) (auto simp: assess_scenario_quality_def Let_def)
    then show ?thesis using blocked v(1) False by (simp add: restated_def validated_def)
  next
    case True
    then obtain cand where cand: "candidate = Some cand" "passes (check_candidate cand)" using v(3) c by auto
    have pass: "kv_candidate ?v = Some cand" "kv_status ?v = ValidationPass" using True cand by (simp_all add: validated_def)
    let ?manifest = "List.find (\<lambda>f. mf_path f = EVALS_PATH) (kv_files ?v)"
    obtain payload unread where load: "load_evals ev files ?manifest (selector_invalid set_id) = Inr (payload, unread)"
      "list_all qf_ok unread" "payload = None \<longleftrightarrow> unread \<noteq> []"
      by (rule load_evals_outcome [OF env(4), of files ?manifest "selector_invalid set_id"]) blast
    show ?thesis
    proof (cases "document_findings (el_compiles ev) version (active_set set_id) (package_id cand) payload")
      case (Inl e)
      then have "e = TypeErrorRaised" by (rule document_findings_error)
      then show ?thesis
        using Inl v(1) pass assms(5) load(1) by (auto simp: assess_scenario_quality_def Let_def)
    next
      case (Inr result)
      obtain selected found where found: "document_findings (el_compiles ev) version (active_set set_id) (package_id cand) payload
          = Inr (selected, found)" using Inr by (cases result) simp
      let ?fs = "required_findings version set_id @ unread @ found @ released_findings version (active_set set_id) selected"
      have ok: "list_all qf_ok ?fs"
        using document_findings_ok [OF found] load(2) release_findings_ok
        by (auto simp: required_findings_def released_findings_def qf_simps)
      note stages = assess_stages [OF v(1) pass assms(5) load(1) found made_findings_ok [OF ok]]
      note parts = stages_receipt_parts [OF load(1,3) found refl ok cand(2)]
      let ?r = "quality_record version (Some cand) (active_set set_id) (int (length selected))
         (if active_set set_id = None then 0 else count_categories {''pressure'', ''regression''} selected)
         (if active_set set_id = None then 0 else count_categories {''negative'', ''edge''} selected)
         (sorted_findings (map normalise_qf ?fs))"
      have "assess_scenario_quality ev package files revision set_id given version = Inr ?r"
        unfolding stages assessed_record by (rule versioned_record [OF parts])
      moreover have "validate_model normalise_quality check_quality ?r = Inr ?r" by (rule quality_record_valid [OF parts])
      ultimately show ?thesis using v(1) pass cand(1) by (simp add: validated_def)
    qed
  qed
qed

section \<open>What a passing receipt says\<close>

lemma made_findings_Nil: "made_findings fs = Inr [] \<Longrightarrow> fs = []"
  by (cases fs) (auto simp: and_then_Inr_iff)

lemma versioned_fields:
  assumes "bind_assess (quality_receipt q) (versioned_receipt version) = Inr r"
  shows "qr_status r = qr_status q" "qr_scenario_count r = qr_scenario_count q"
    "qr_candidate r = map_option normalise_candidate (qr_candidate q)"
  using assms
  by (auto simp: quality_receipt_def versioned_receipt_def lift_assess_def bind_assess_def quality_model.validate_ok_iff
      normalise_quality_def option.map_comp comp_def split: sum.splits if_splits)

lemma blocked_validation_status:
  assumes "bind_assess (blocked_validation_receipt v set_id) (versioned_receipt version) = Inr r"
  shows "qr_status r = QualityBlocked"
proof -
  let ?fs = "made_findings (map (\<lambda>f.
      \<lparr>qf_code = kf_code f, qf_message = kf_message f, qf_case_id = None, qf_evidence_refs = kf_evidence_refs f\<rparr>) (kv_findings v))"
  obtain fs where "?fs = Inr fs"
    using assms by (cases ?fs) (simp_all add: blocked_validation_receipt_def)
  then show ?thesis
    using assms by (auto simp: blocked_validation_receipt_def dest: versioned_fields(1))
qed

lemma assess_Inr:
  assumes a: "assess_scenario_quality ev package files revision set_id given version = Inr r" and pass: "qr_status r = QualityPass"
  obtains v c m doc selected where
    "validate_skill_package (el_texts ev) package revision None = Inr v" "kv_status v = ValidationPass" "kv_candidate v = Some c"
    "qr_candidate r = Some c" "qr_scenario_count r = int (length selected)"
    "\<not> selector_invalid set_id" "required_findings version set_id = []"
    "List.find (\<lambda>f. mf_path f = EVALS_PATH) (kv_files v) = Some m" "load_payload ev files (mf_sha256 m) = Inr doc"
    "document_findings (el_compiles ev) version (active_set set_id) (package_id c) (Some doc) = Inr (selected, [])"
    "released_findings version (active_set set_id) selected = []"
proof -
  obtain v where v: "validate_skill_package (el_texts ev) package revision None = Inr v"
    using a by (cases "validate_skill_package (el_texts ev) package revision None")
      (auto simp: assess_scenario_quality_def Let_def split: if_splits)
  have given: "\<not> (version = QualityV2 \<and> given)" using a by (auto simp: assess_scenario_quality_def)
  have open_case: "kv_status v = ValidationPass \<and> kv_candidate v \<noteq> None"
    using a v given pass blocked_validation_status
    by (cases "kv_candidate v"; cases "kv_status v") (fastforce simp: assess_scenario_quality_def Let_def)+
  then obtain c where c: "kv_candidate v = Some c" "kv_status v = ValidationPass" by blast
  let ?m = "List.find (\<lambda>f. mf_path f = EVALS_PATH) (kv_files v)"
  obtain payload unread selected found fs where stages:
    "load_evals ev files ?m (selector_invalid set_id) = Inr (payload, unread)"
    "document_findings (el_compiles ev) version (active_set set_id) (package_id c) payload = Inr (selected, found)"
    "made_findings (required_findings version set_id @ unread @ found @ released_findings version (active_set set_id) selected) = Inr fs"
    "bind_assess (quality_receipt (assessed_receipt c (active_set set_id) selected fs)) (versioned_receipt version) = Inr r"
    using a given
    by (auto simp: assess_scenario_quality_def Let_def v c bind_assess_def [of "load_evals ev files ?m (selector_invalid set_id)"]
        bind_assess_def [of "document_findings x1 x2 x3 x4 x5" for x1 x2 x3 x4 x5] bind_assess_def [of "lift_assess (made_findings x)" for x]
        lift_assess_def split: sum.splits prod.splits)
  note fields = versioned_fields [OF stages(4)]
  have "fs = []" using fields(1) pass by (simp add: assessed_receipt_def split: if_splits)
  then have none: "required_findings version set_id = []" "unread = []" "found = []"
    "released_findings version (active_set set_id) selected = []"
    using made_findings_Nil stages(3) by auto
  have "normalise_candidate c = c"
    using validation_model.validated_is_normal [OF validated_valid [OF v]] c by (cases v) (simp add: normalise_validation_def)
  moreover obtain m doc where "?m = Some m" "load_payload ev files (mf_sha256 m) = Inr doc" "payload = Some doc" "\<not> selector_invalid set_id"
    using stages(1) none(2) by (auto simp: load_evals_def split: if_splits option.splits sum.splits load_error.splits)
  ultimately show thesis
    using that v c fields none stages(2) by (simp add: assessed_receipt_def)
qed

lemma document_Nil:
  assumes "document_findings compiles version (Some name) package (Some payload) = Inr (selected, [])"
  obtains doc cases sets ids where "payload = PDict doc" "get doc ''cases'' = PList cases" "cases \<noteq> []"
    "get doc ''schema_version'' = PText ''2.0''" "get doc ''skill_name'' = PText package"
    "release_sets doc version (Some name) = (sets, [])" "selected_ids sets name = Inr ids" "chosen_cases cases ids = (selected, [])"
    "duplicate_findings selected = []" "\<forall>v \<in> set selected. case_findings compiles v = []"
proof -
  let ?d = "document_cases payload package" and ?g = "loaded_sets version (Some name) (Some payload)"
  obtain ids where ids: "selected_ids (fst ?g) name = Inr ids"
    using assms by (cases "selected_ids (fst ?g) name") (simp_all add: document_findings_def select_release_cases_def)
  obtain chosen where chosen: "chosen_cases (fst ?d) ids = (selected, chosen)"
    using assms ids
    by (cases "chosen_cases (fst ?d) ids") (simp add: document_findings_def select_release_cases_def Let_def)
  have "snd ?d @ snd ?g @ duplicate_findings (fst ?d) @ chosen @ duplicate_findings selected
       @ concat (map (case_findings compiles) selected) = []"
    using assms ids chosen by (simp add: document_findings_def select_release_cases_def Let_def)
  then have found: "selected_ids (fst ?g) name = Inr ids" "chosen_cases (fst ?d) ids = (selected, [])" "snd ?d = []" "snd ?g = []"
    "duplicate_findings selected = []" "\<forall>v \<in> set selected. case_findings compiles v = []"
    using ids chosen by simp_all
  from found(3) obtain doc where doc: "payload = PDict doc" "get doc ''cases'' = PList (fst ?d)" "fst ?d \<noteq> []"
    "get doc ''schema_version'' = PText ''2.0''" "get doc ''skill_name'' = PText package"
    by (auto simp: document_cases_def Let_def split: option.splits if_splits)
  then show thesis using that [OF doc, of "fst ?g" ids] found by (metis loaded_sets.simps(1) prod.collapse)
qed

lemma case_named_mem: "case_named cases i = Some v \<Longrightarrow> text_id v = Some i \<and> v \<in> set cases"
  unfolding case_named_def by (auto dest!: find_Some_mem)

text \<open>The selected cases are the named ones, in the order of the set; none is missing and none is named twice.\<close>

lemma chosen_named:
  assumes "chosen_cases cases ids = (selected, [])" "duplicate_findings selected = []"
  shows "ids \<noteq> []" "distinct ids" "length selected = length ids" "map text_id selected = map Some ids"
    "\<forall>v \<in> set selected. v \<in> set cases"
proof -
  have all: "\<forall>i \<in> set ids. case_named cases i \<noteq> None" and "ids \<noteq> []" and sel: "selected = List.map_filter (case_named cases) ids"
    using assms(1) by (auto simp: chosen_cases_def Let_def set_finding_def filter_empty_conv split: if_splits)
  then show "ids \<noteq> []" by simp
  have "\<forall>i \<in> set xs. case_named cases i \<noteq> None \<Longrightarrow>
      map text_id (List.map_filter (case_named cases) xs) = map Some xs \<and> List.map_filter text_id (List.map_filter (case_named cases) xs) = xs"
    for xs
  proof (induction xs)
    case (Cons i xs)
    then obtain w where w: "case_named cases i = Some w" by auto
    with Cons case_named_mem [OF w] show ?case by (simp add: List.map_filter_simps)
  qed (simp add: List.map_filter_simps)
  from this [OF all] have names: "map text_id selected = map Some ids" "List.map_filter text_id selected = ids" by (simp_all add: sel)
  then show "map text_id selected = map Some ids" by simp
  then show "length selected = length ids" by (metis length_map)
  show "distinct ids" using assms(2) names(2) by (auto simp: duplicate_findings_def split: if_splits)
  show "\<forall>v \<in> set selected. v \<in> set cases" using case_named_mem by (auto simp: sel set_mapped)
qed

definition release_budget :: "QualityVersion \<Rightarrow> int \<times> int \<times> int" where
  "release_budget version = (if version = QualityV2 then (10, 10, 10) else (5, 8, 10))"

lemma declared_set:
  assumes "release_sets doc version (Some name) = (sets, [])" "selected_ids sets name = Inr ids" "ids \<noteq> []"
  obtains items kvs where "get doc ''release_scenario_sets'' = PList items" "PDict kvs \<in> set items" "get kvs ''id'' = PText name"
    "strip name = name" "declared_budget kvs = Some (release_budget version)"
    "groups_valid (get kvs ''groups'') \<or> is_words_list (get kvs ''cases'')" "set_case_ids kvs = Inr ids"
proof -
  obtain kvs where kvs: "[kvs \<leftarrow> sets. get kvs ''id'' = PText name] = [kvs]" "set_case_ids kvs = Inr ids"
    using assms(2,3) by (auto simp: selected_ids_def split: list.splits)
  have mem: "kvs \<in> set sets" "get kvs ''id'' = PText name"
    using arg_cong [OF kvs(1), of set] by auto
  then obtain items where items: "get doc ''release_scenario_sets'' = PList items"
    "sets = map (the \<circ> mapping) [v \<leftarrow> items. set_refusal version (Some name) v = None]"
    using assms(1) by (auto simp: release_sets_def Let_def split: if_splits option.splits list.splits)
  then obtain v where v: "v \<in> set items" "set_refusal version (Some name) v = None" "kvs = the (mapping v)" using mem(1) by auto
  have "v = PDict kvs" using v(2,3) by (cases v) (auto simp: set_refusal_def Let_def)
  then show thesis
    using that [OF items(1), of kvs] v kvs(2) mem(2)
    by (auto simp: set_refusal_def release_budget_def Let_def split: if_splits)
qed

definition ready_case :: "(string \<Rightarrow> bool) \<Rightarrow> pyval list \<Rightarrow> string \<Rightarrow> bool" where
  "ready_case compiles cases i \<longleftrightarrow>
     (\<exists>v \<in> set cases. text_id v = Some i \<and> case_findings compiles v = [] \<and> eligible v)"

definition covers_category :: "pyval list \<Rightarrow> string list \<Rightarrow> string set \<Rightarrow> bool" where
  "covers_category cases ids names \<longleftrightarrow>
     (\<exists>i \<in> set ids. \<exists>v \<in> set cases. text_id v = Some i \<and> category_of v \<in> names)"

lemma quality_pass:
  assumes a: "assess_scenario_quality ev package files revision (Some name) given version = Inr r" "qr_status r = QualityPass"
  obtains v c m doc cases items kvs ids where
    "validate_skill_package (el_texts ev) package revision None = Inr v" "kv_status v = ValidationPass"
    "kv_candidate v = Some c" "qr_candidate r = Some c"
    "m \<in> set (kv_files v)" "mf_path m = EVALS_PATH" "load_payload ev files (mf_sha256 m) = Inr (PDict doc)"
    "get doc ''schema_version'' = PText ''2.0''" "get doc ''skill_name'' = PText (package_id c)"
    "get doc ''cases'' = PList cases" "get doc ''release_scenario_sets'' = PList items" "PDict kvs \<in> set items"
    "get kvs ''id'' = PText name" "declared_budget kvs = Some (release_budget version)"
    "set_case_ids kvs = Inr ids" "distinct ids" "qr_scenario_count r = int (length ids)"
    "5 \<le> length ids" "length ids \<le> 10" "version = QualityV2 \<Longrightarrow> length ids = 10"
    "\<forall>i \<in> set ids. ready_case (el_compiles ev) cases i"
    "covers_category cases ids {''pressure'', ''regression''}" "covers_category cases ids {''negative'', ''edge''}"
proof -
  obtain v c m payload selected where s:
    "validate_skill_package (el_texts ev) package revision None = Inr v" "kv_status v = ValidationPass" "kv_candidate v = Some c"
    "qr_candidate r = Some c" "qr_scenario_count r = int (length selected)"
    "\<not> selector_invalid (Some name)" "required_findings version (Some name) = []"
    "List.find (\<lambda>f. mf_path f = EVALS_PATH) (kv_files v) = Some m" "load_payload ev files (mf_sha256 m) = Inr payload"
    "document_findings (el_compiles ev) version (active_set (Some name)) (package_id c) (Some payload) = Inr (selected, [])"
    "released_findings version (active_set (Some name)) selected = []"
    by (rule assess_Inr [OF a])
  have active: "active_set (Some name) = Some name" using s(6) by (simp add: active_set_def)
  obtain doc cases sets ids where d: "payload = PDict doc" "get doc ''cases'' = PList cases" "cases \<noteq> []"
    "get doc ''schema_version'' = PText ''2.0''" "get doc ''skill_name'' = PText (package_id c)"
    "release_sets doc version (Some name) = (sets, [])" "selected_ids sets name = Inr ids" "chosen_cases cases ids = (selected, [])"
    "duplicate_findings selected = []" "\<forall>v \<in> set selected. case_findings (el_compiles ev) v = []"
    by (rule document_Nil [OF s(10) [unfolded active]])
  note chosen = chosen_named [OF d(8,9)]
  obtain items kvs where k: "get doc ''release_scenario_sets'' = PList items" "PDict kvs \<in> set items" "get kvs ''id'' = PText name"
    "declared_budget kvs = Some (release_budget version)" "set_case_ids kvs = Inr ids"
    by (rule declared_set [OF d(6,7) chosen(1)])
  have m: "m \<in> set (kv_files v)" "mf_path m = EVALS_PATH" using find_Some_mem [OF s(8)] by simp_all
  have released: "list_all eligible selected" "5 \<le> length ids" "length ids \<le> 10" "version = QualityV2 \<Longrightarrow> length ids = 10"
    "1 \<le> count_categories {''pressure'', ''regression''} selected" "1 \<le> count_categories {''negative'', ''edge''} selected"
    using s(11) by (simp_all add: active released_findings_def release_findings_Nil chosen(3))
  have at: "\<exists>w \<in> set selected. text_id w = Some i" if "i \<in> set ids" for i
  proof -
    have "Some i \<in> set (map text_id selected)" unfolding chosen(4) using that by simp
    then show ?thesis by auto
  qed
  have ready: "\<forall>i \<in> set ids. ready_case (el_compiles ev) cases i"
    unfolding ready_case_def using at chosen(5) d(10) released(1) by (metis list_all_iff)
  have covers: "covers_category cases ids names" if "1 \<le> count_categories names selected" for names
  proof -
    have "[w \<leftarrow> selected. category_of w \<in> names] \<noteq> []" using that by (auto simp: count_categories_def)
    then obtain w where w: "w \<in> set selected" "category_of w \<in> names" by (metis filter_False)
    then have "text_id w \<in> Some ` set ids" using chosen(4) by (metis image_eqI set_map)
    then show ?thesis unfolding covers_category_def using w chosen(5) by auto
  qed
  show thesis
    using that [OF s(1-4) m s(9) [unfolded d(1)] d(4,5,2) k chosen(2) _ released(2,3) _ ready covers [OF released(5)] covers [OF released(6)]]
      s(5) chosen(3) released(4) by simp
qed

text \<open>A set whose groups hold something that cannot be iterated is declared valid by its flat list, and raises.\<close>

lemma unvalidated_groups_raise:
  assumes "get kvs ''groups'' = PDict [(g, PInt n)]" "is_words_list (get kvs ''cases'')"
    and "get kvs ''id'' = PText name" "strip name = name" "name \<noteq> []" "declared_budget kvs = Some (release_budget version)"
  shows "set_refusal version (Some name) (PDict kvs) = None" "set_case_ids kvs = Inl TypeErrorRaised"
  using assms by (auto simp: set_refusal_def release_budget_def set_case_ids_def Let_def)

end
