(* ===== verification/Coverage.thy ===== *)
theory Coverage
  imports Quality_Evidence
begin

text \<open>
  \<^verbatim>\<open>models/coverage.py\<close> and \<^verbatim>\<open>evaluation/coverage.py\<close>: the caller's claim-to-case-or-gap plan, its audit
  against the active cases, and the assessment, which reads the package three times. \<open>audit_Nil\<close> says what
  an audit without findings means; \<open>coverage_pass\<close> what a passing result means.
\<close>

section \<open>The plan\<close>

record CoverageClaim =
  cl_id :: string
  cl_statement :: string

record CoverageGap =
  cg_id :: string
  cg_reason :: string
  cg_owner :: string

record ClaimCoverage =
  cm_claim_id :: string
  cm_case_ids :: "string list"
  cm_gap_ids :: "string list"

record ScenarioCoveragePlan =
  cp_candidate :: PackageCandidateIdentity
  cp_scenario_set_id :: string
  cp_claims :: "CoverageClaim list"
  cp_mappings :: "ClaimCoverage list"
  cp_gaps :: "CoverageGap list"

text \<open>\<open>ExactCaseId\<close> is not stripped; it holds a character that is not white space.\<close>

definition exact_case_id :: "string \<Rightarrow> bool" where
  "exact_case_id s = list_ex (\<lambda>c. \<not> unicode_space c) s"

definition normalise_claim :: "CoverageClaim \<Rightarrow> CoverageClaim" where
  "normalise_claim c = \<lparr>cl_id = trim (cl_id c), cl_statement = trim (cl_statement c)\<rparr>"

definition check_claim :: "CoverageClaim \<Rightarrow> (bool \<times> string) list" where
  "check_claim c = field ''id'' (is_identifier (cl_id c)) @ field ''statement'' (nonempty_text (cl_statement c))"

definition normalise_gap :: "CoverageGap \<Rightarrow> CoverageGap" where
  "normalise_gap g = \<lparr>cg_id = trim (cg_id g), cg_reason = trim (cg_reason g), cg_owner = trim (cg_owner g)\<rparr>"

definition check_gap :: "CoverageGap \<Rightarrow> (bool \<times> string) list" where
  "check_gap g = field ''id'' (is_identifier (cg_id g)) @ field ''reason'' (nonempty_text (cg_reason g))
     @ field ''owner'' (nonempty_text (cg_owner g))"

definition normalise_mapping :: "ClaimCoverage \<Rightarrow> ClaimCoverage" where
  "normalise_mapping m = m\<lparr>cm_claim_id := trim (cm_claim_id m), cm_gap_ids := map trim (cm_gap_ids m)\<rparr>"

definition check_mapping :: "ClaimCoverage \<Rightarrow> (bool \<times> string) list" where
  "check_mapping m = field ''claim_id'' (is_identifier (cm_claim_id m)) @ field ''case_ids'' (list_all exact_case_id (cm_case_ids m))
     @ field ''gap_ids'' (list_all is_identifier (cm_gap_ids m))"

definition coverage_finding :: "string \<Rightarrow> string \<Rightarrow> ScenarioQualityFinding" where
  "coverage_finding c message = \<lparr>qf_code = c, qf_message = message, qf_case_id = None, qf_evidence_refs = []\<rparr>"

definition invalid_mapping_finding :: ScenarioQualityFinding where
  "invalid_mapping_finding = coverage_finding ''invalid_claim_mapping'' ''map claims only to active cases or declared gaps''"

definition mapping_invalid :: "ScenarioCoveragePlan \<Rightarrow> ClaimCoverage \<Rightarrow> bool" where
  "mapping_invalid p m =
     ((cm_case_ids m = [] \<and> cm_gap_ids m = [])
      \<or> cm_claim_id m \<notin> set (map cl_id (cp_claims p))
      \<or> has_duplicates (cm_case_ids m) \<or> has_duplicates (cm_gap_ids m)
      \<or> \<not> set (cm_gap_ids m) \<subseteq> set (map cg_id (cp_gaps p)))"

definition declaration_findings :: "ScenarioCoveragePlan \<Rightarrow> ScenarioQualityFinding list" where
  "declaration_findings p =
     (if has_duplicates (map cl_id (cp_claims p)) \<or> has_duplicates (map cg_id (cp_gaps p))
         \<or> has_duplicates (map cm_claim_id (cp_mappings p))
      then [coverage_finding ''duplicate_coverage_id'' ''coverage ids must be unique''] else [])
     @ map (\<lambda>m. invalid_mapping_finding) [m \<leftarrow> cp_mappings p. mapping_invalid p m]
     @ (if set (concat (map cm_gap_ids (cp_mappings p))) \<noteq> set (map cg_id (cp_gaps p))
        then [coverage_finding ''unused_coverage_gap'' ''every gap must map to a claim''] else [])"

fun join_semicolon :: "string list \<Rightarrow> string" where
  "join_semicolon [] = []"
| "join_semicolon [k] = k"
| "join_semicolon (k # ks) = k @ ''; '' @ join_semicolon ks"

definition normalise_plan_coverage :: "ScenarioCoveragePlan \<Rightarrow> ScenarioCoveragePlan" where
  "normalise_plan_coverage p =
     \<lparr>cp_candidate = normalise_candidate (cp_candidate p), cp_scenario_set_id = trim (cp_scenario_set_id p),
      cp_claims = map normalise_claim (cp_claims p), cp_mappings = map normalise_mapping (cp_mappings p),
      cp_gaps = map normalise_gap (cp_gaps p)\<rparr>"

definition check_coverage_plan :: "ScenarioCoveragePlan \<Rightarrow> (bool \<times> string) list" where
  "check_coverage_plan p =
     check_candidate (cp_candidate p)
     @ field ''scenario_set_id'' (nonempty_text (cp_scenario_set_id p))
     @ field ''claims'' (cp_claims p \<noteq> []) @ each check_claim (cp_claims p)
     @ each check_mapping (cp_mappings p) @ each check_gap (cp_gaps p)
     @ [(declaration_findings p \<noteq> [], join_semicolon (map qf_message (declaration_findings p)))]"

interpretation coverage_plan_model: contract_model normalise_plan_coverage check_coverage_plan
  by unfold_locales
    (simp add: normalise_plan_coverage_def normalise_claim_def normalise_mapping_def normalise_gap_def comp_def)

text \<open>\<open>audit\<close>: the declarations again, every claim mapped, and only active cases named.\<close>

definition audit :: "ScenarioCoveragePlan \<Rightarrow> string list \<Rightarrow> ScenarioQualityFinding list" where
  "audit p active_case_ids =
     declaration_findings p
     @ (if set (map cm_claim_id (cp_mappings p)) \<noteq> set (map cl_id (cp_claims p))
        then [coverage_finding ''unmapped_claim'' ''map every declared claim exactly once''] else [])
     @ map (\<lambda>m. invalid_mapping_finding) [m \<leftarrow> cp_mappings p. \<not> set (cm_case_ids m) \<subseteq> set active_case_ids]"

section \<open>The result\<close>

record ScenarioCoverageResult =
  cov_candidate :: "PackageCandidateIdentity option"
  cov_scenario_set_id :: "string option"
  cov_status :: QualityStatus
  cov_quality :: ScenarioQualityReceipt
  cov_plan :: "ScenarioCoveragePlan option"
  cov_active_case_ids :: "string list"
  cov_open_gap_ids :: "string list"
  cov_coverage_complete :: bool
  cov_findings :: "ScenarioQualityFinding list"

definition normalise_coverage :: "ScenarioCoverageResult \<Rightarrow> ScenarioCoverageResult" where
  "normalise_coverage r = r\<lparr>cov_candidate := map_option normalise_candidate (cov_candidate r),
     cov_scenario_set_id := map_option trim (cov_scenario_set_id r), cov_quality := normalise_quality (cov_quality r),
     cov_plan := map_option normalise_plan_coverage (cov_plan r), cov_open_gap_ids := map trim (cov_open_gap_ids r),
     cov_findings := map normalise_qf (cov_findings r)\<rparr>"

definition sorted_gaps :: "ScenarioCoveragePlan option \<Rightarrow> string list" where
  "sorted_gaps plan = (case plan of None \<Rightarrow> [] | Some p \<Rightarrow> sort (map cg_id (cp_gaps p)))"

definition result_matches_evidence :: "ScenarioCoverageResult \<Rightarrow> (bool \<times> string) list" where
  "result_matches_evidence r =
     [(cov_candidate r \<noteq> qr_candidate (cov_quality r) \<or> cov_scenario_set_id r \<noteq> qr_scenario_set_id (cov_quality r),
       ''coverage must bind its quality receipt''),
      (has_duplicates (cov_active_case_ids r), ''active coverage case ids must be unique''),
      (cov_open_gap_ids r \<noteq> sorted_gaps (cov_plan r), ''coverage must preserve all declared gaps'')]
     @ (if cov_status r = QualityPass then
          [(cov_findings r \<noteq> [] \<or> qr_status (cov_quality r) \<noteq> QualityPass \<or> cov_plan r = None \<or> length (cov_active_case_ids r) \<noteq> 10,
            ''passing coverage requires quality, a plan, ten active cases and no findings'')]
          @ opt_checks (\<lambda>p.
              [(Some (cp_candidate p) \<noteq> cov_candidate r \<or> Some (cp_scenario_set_id p) \<noteq> cov_scenario_set_id r,
                ''passing coverage plan must bind the same candidate and set''),
               (audit p (cov_active_case_ids r) \<noteq> [], ''passing coverage requires a complete declared map'')]) (cov_plan r)
        else [(cov_findings r = [], ''blocked coverage requires findings'')])
     @ [(cov_coverage_complete r \<noteq> (cov_status r = QualityPass \<and> cov_open_gap_ids r = []),
         ''coverage completeness requires a passing audit without open gaps'')]"

definition check_coverage :: "ScenarioCoverageResult \<Rightarrow> (bool \<times> string) list" where
  "check_coverage r =
     opt_checks check_candidate (cov_candidate r)
     @ field ''scenario_set_id'' (opt_ok nonempty_text (cov_scenario_set_id r))
     @ field ''quality'' (qr_schema_version (cov_quality r) = QualityV2) @ check_quality (cov_quality r)
     @ opt_checks check_coverage_plan (cov_plan r)
     @ field ''active_case_ids'' (list_all exact_case_id (cov_active_case_ids r))
     @ field ''open_gap_ids'' (list_all is_identifier (cov_open_gap_ids r))
     @ each check_qf (cov_findings r) @ result_matches_evidence r"

interpretation coverage_model: contract_model normalise_coverage check_coverage
  by unfold_locales
    (simp add: normalise_coverage_def option.map_comp comp_def coverage_plan_model.normalise_idem quality_model.normalise_idem)

section \<open>The assessment\<close>

text \<open>A moment at which the package is looked at: its tree, and the files as they are then opened.\<close>

record package_moment =
  mo_root :: package_root
  mo_files :: package_files

definition moment_validation :: "evals_library \<Rightarrow> package_moment \<Rightarrow> string \<Rightarrow> SkillPackageValidation assess" where
  "moment_validation ev moment revision = lift_validation (validate_skill_package (el_texts ev) (mo_root moment) revision None)"

definition changed_finding :: "string \<Rightarrow> ScenarioQualityFinding" where
  "changed_finding message = coverage_finding ''candidate_changed'' message"

text \<open>The document read a second time; a load that failed leaves \<^verbatim>\<open>None\<close>, which is no mapping.\<close>

definition reread_evals :: "evals_library \<Rightarrow> package_files \<Rightarrow> string \<Rightarrow> (pyval \<times> ScenarioQualityFinding list) assess" where
  "reread_evals ev files sha =
     (case load_payload ev files sha of
        Inr payload \<Rightarrow> Inr (payload, [])
      | Inl e \<Rightarrow>
          (case payload_finding e of
             Some f \<Rightarrow> Inr (PNone, [f])
           | None \<Rightarrow> (case e of OtherFailure class \<Rightarrow> Inl (LoaderRaised class) | _ \<Rightarrow> Inl TypeErrorRaised)))"

definition active_ids :: "evals_library \<Rightarrow> package_moment \<Rightarrow> string \<Rightarrow> ScenarioQualityReceipt
    \<Rightarrow> (string list \<times> ScenarioQualityFinding list) assess" where
  "active_ids ev moment revision quality =
     bind_assess (moment_validation ev moment revision) (\<lambda>v.
       if kv_status v \<noteq> ValidationPass \<or> kv_candidate v \<noteq> qr_candidate quality
       then Inr ([], [changed_finding ''candidate changed after scenario quality assessment''])
       else
         (case (List.find (\<lambda>f. mf_path f = EVALS_PATH) (kv_files v), kv_candidate v) of
            (Some m, Some c) \<Rightarrow>
              bind_assess (reread_evals ev (mo_files moment) (mf_sha256 m)) (\<lambda>(payload, unread).
                let described = document_cases payload (package_id c) in
                (case payload of
                   PDict doc \<Rightarrow>
                     let grouped = release_sets doc QualityV2 (qr_scenario_set_id quality) in
                     bind_assess (select_release_cases (fst described) (fst grouped) (qr_scenario_set_id quality)) (\<lambda>(selected, chosen).
                       Inr (map (\<lambda>v. py_str (get (case mapping v of None \<Rightarrow> [] | Some kvs \<Rightarrow> kvs) ''id'')) [v \<leftarrow> selected. mapping v \<noteq> None],
                            unread @ snd described @ snd grouped @ chosen))
                 | _ \<Rightarrow> Inr ([], unread @ snd described)))
          | _ \<Rightarrow> Inl StopIterationRaised))"

text \<open>A plan that is not of the contract's shape is \<open>None\<close>.\<close>

definition validated_plan :: "ScenarioCoveragePlan option \<Rightarrow> ScenarioCoveragePlan option \<times> ScenarioQualityFinding list" where
  "validated_plan raw =
     (let refused = (None, [coverage_finding ''invalid_coverage_plan'' ''coverage plan must match the closed versioned contract'']) in
      case raw of
        None \<Rightarrow> refused
      | Some p \<Rightarrow>
          (case validate_model normalise_plan_coverage check_coverage_plan p of Inl e \<Rightarrow> refused | Inr p \<Rightarrow> (Some p, [])))"

definition plan_findings :: "ScenarioCoveragePlan option \<Rightarrow> ScenarioQualityReceipt \<Rightarrow> string list \<Rightarrow> ScenarioQualityFinding list" where
  "plan_findings plan quality active =
     (case plan of
        None \<Rightarrow> []
      | Some p \<Rightarrow>
          (if Some (cp_candidate p) \<noteq> qr_candidate quality \<or> Some (cp_scenario_set_id p) \<noteq> qr_scenario_set_id quality
           then [coverage_finding ''coverage_identity_mismatch'' ''coverage plan must bind the current candidate and set''] else [])
          @ (if active = [] then [] else audit p active))"

definition final_check :: "evals_library \<Rightarrow> package_moment \<Rightarrow> string \<Rightarrow> ScenarioQualityReceipt \<Rightarrow> string list
    \<Rightarrow> ScenarioQualityFinding list assess" where
  "final_check ev moment revision quality active =
     (if active = [] then Inr []
      else bind_assess (moment_validation ev moment revision) (\<lambda>v.
        Inr (if kv_status v \<noteq> ValidationPass \<or> kv_candidate v \<noteq> qr_candidate quality
             then [changed_finding ''candidate changed during coverage assessment''] else [])))"

definition coverage_result :: "ScenarioQualityReceipt \<Rightarrow> ScenarioCoveragePlan option \<Rightarrow> string list
    \<Rightarrow> ScenarioQualityFinding list \<Rightarrow> ScenarioCoverageResult" where
  "coverage_result quality plan active fs =
     \<lparr>cov_candidate = qr_candidate quality, cov_scenario_set_id = qr_scenario_set_id quality,
      cov_status = (if fs = [] then QualityPass else QualityBlocked), cov_quality = quality, cov_plan = plan,
      cov_active_case_ids = active, cov_open_gap_ids = sorted_gaps plan,
      cov_coverage_complete = (case plan of None \<Rightarrow> False | Some p \<Rightarrow> fs = [] \<and> cp_gaps p = []),
      cov_findings = sort_key qf_code (sort_key qf_message fs)\<rparr>"

definition assess_scenario_coverage ::
  "evals_library \<Rightarrow> package_moment \<Rightarrow> package_moment \<Rightarrow> package_moment \<Rightarrow> string \<Rightarrow> string \<Rightarrow> ScenarioCoveragePlan option
   \<Rightarrow> ScenarioCoverageResult assess" where
  "assess_scenario_coverage ev first second third revision scenario_set_id coverage_plan =
     bind_assess (assess_scenario_quality ev (mo_root first) (mo_files first) revision (Some scenario_set_id) False QualityV2) (\<lambda>quality.
       let plan = validated_plan coverage_plan in
       bind_assess (if qr_status quality = QualityPass then active_ids ev second revision quality else Inr ([], [])) (\<lambda>(active, reread).
       bind_assess (final_check ev third revision quality active) (\<lambda>final.
       bind_assess (lift_assess (made_findings (snd plan @ reread @ plan_findings (fst plan) quality active @ final))) (\<lambda>fs.
         lift_assess (validate_model normalise_coverage check_coverage
           (coverage_result quality (fst plan) active (qr_findings quality @ fs)))))))"

section \<open>What the audit and a passing result mean\<close>

definition well_mapped :: "ScenarioCoveragePlan \<Rightarrow> string list \<Rightarrow> ClaimCoverage \<Rightarrow> bool" where
  "well_mapped p active m \<longleftrightarrow>
     (cm_case_ids m \<noteq> [] \<or> cm_gap_ids m \<noteq> []) \<and> distinct (cm_case_ids m) \<and> distinct (cm_gap_ids m)
     \<and> set (cm_case_ids m) \<subseteq> set active \<and> set (cm_gap_ids m) \<subseteq> cg_id ` set (cp_gaps p)"

lemma declaration_Nil:
  "declaration_findings p = [] \<longleftrightarrow>
     distinct (map cl_id (cp_claims p)) \<and> distinct (map cg_id (cp_gaps p)) \<and> distinct (map cm_claim_id (cp_mappings p))
     \<and> (\<forall>m \<in> set (cp_mappings p). cm_claim_id m \<in> cl_id ` set (cp_claims p) \<and> well_mapped p (cm_case_ids m) m)
     \<and> (\<Union>m \<in> set (cp_mappings p). set (cm_gap_ids m)) = cg_id ` set (cp_gaps p)"
  by (auto simp: declaration_findings_def mapping_invalid_def well_mapped_def filter_empty_conv)

lemma audit_Nil:
  "audit p active = [] \<longleftrightarrow>
     distinct (map cl_id (cp_claims p)) \<and> distinct (map cg_id (cp_gaps p)) \<and> distinct (map cm_claim_id (cp_mappings p))
     \<and> cm_claim_id ` set (cp_mappings p) = cl_id ` set (cp_claims p)
     \<and> (\<forall>m \<in> set (cp_mappings p). well_mapped p active m)
     \<and> (\<Union>m \<in> set (cp_mappings p). set (cm_gap_ids m)) = cg_id ` set (cp_gaps p)"
proof -
  have "audit p active = [] \<longleftrightarrow> declaration_findings p = [] \<and> cm_claim_id ` set (cp_mappings p) = cl_id ` set (cp_claims p)
      \<and> (\<forall>m \<in> set (cp_mappings p). set (cm_case_ids m) \<subseteq> set active)"
    by (auto simp: audit_def filter_empty_conv)
  then show ?thesis unfolding declaration_Nil by (auto simp: well_mapped_def)
qed

text \<open>An audited plan maps each claim exactly once.\<close>

lemma audited_claim:
  assumes "audit p active = []" "c \<in> set (cp_claims p)"
  shows "\<exists>!m. m \<in> set (cp_mappings p) \<and> cm_claim_id m = cl_id c"
proof -
  note parts = assms(1) [unfolded audit_Nil]
  then obtain m where m: "m \<in> set (cp_mappings p)" "cm_claim_id m = cl_id c" using assms(2) by (metis image_iff)
  have "inj_on cm_claim_id (set (cp_mappings p))" using parts by (simp add: distinct_map)
  then show ?thesis using m by (metis inj_onD)
qed

lemma coverage_valid:
  "assess_scenario_coverage ev first second third revision set_id plan = Inr r \<Longrightarrow>
     validate_model normalise_coverage check_coverage r = Inr r"
  by (auto simp: assess_scenario_coverage_def bind_assess_def lift_assess_def Let_def coverage_model.revalidation_is_identity
      split: sum.splits prod.splits)

lemma coverage_pass:
  assumes "assess_scenario_coverage ev first second third revision set_id plan = Inr r" "cov_status r = QualityPass"
  obtains p where "cov_plan r = Some p" "audit p (cov_active_case_ids r) = []" "length (cov_active_case_ids r) = 10"
    "distinct (cov_active_case_ids r)" "qr_status (cov_quality r) = QualityPass" "Some (cp_candidate p) = qr_candidate (cov_quality r)"
    "Some (cp_scenario_set_id p) = qr_scenario_set_id (cov_quality r)" "cov_candidate r = qr_candidate (cov_quality r)"
    "cov_coverage_complete r \<longleftrightarrow> cp_gaps p = []"
proof -
  have "passes (result_matches_evidence r)"
    using coverage_model.validated_passes [OF coverage_valid [OF assms(1)]] by (simp add: check_coverage_def)
  then obtain p where p: "cov_plan r = Some p" "audit p (cov_active_case_ids r) = []" "length (cov_active_case_ids r) = 10"
    "distinct (cov_active_case_ids r)" "qr_status (cov_quality r) = QualityPass" "Some (cp_candidate p) = qr_candidate (cov_quality r)"
    "Some (cp_scenario_set_id p) = qr_scenario_set_id (cov_quality r)" "cov_candidate r = qr_candidate (cov_quality r)"
    "cov_open_gap_ids r = sorted_gaps (cov_plan r)" "cov_coverage_complete r \<longleftrightarrow> cov_open_gap_ids r = []"
    using assms(2) by (auto simp: result_matches_evidence_def)
  moreover have "sorted_gaps (Some p) = [] \<longleftrightarrow> cp_gaps p = []" by (simp add: sorted_gaps_def flip: length_0_conv)
  ultimately show thesis using that by simp
qed

text \<open>Without open gaps every claim is backed by an active case.\<close>

lemma complete_claims_backed:
  assumes "audit p active = []" "cp_gaps p = []" "c \<in> set (cp_claims p)"
  shows "\<exists>m \<in> set (cp_mappings p). cm_claim_id m = cl_id c \<and> cm_case_ids m \<noteq> [] \<and> set (cm_case_ids m) \<subseteq> set active"
  using audited_claim [OF assms(1,3)] assms(1,2) by (fastforce simp: audit_Nil well_mapped_def)

end
