(* ===== verification/Scorer.thy ===== *)
theory Scorer
  imports Coverage
begin

text \<open>
  \<^verbatim>\<open>models/scorer_quality.py\<close>, \<^verbatim>\<open>evaluation/scorer_artifacts.py\<close>, \<^verbatim>\<open>evaluation/scorer_quality.py\<close> and
  \<^verbatim>\<open>evaluation/scorer_calibration.py\<close>: the declared scorer of a package and its held-out calibration. The JSON
  scanner is a parameter: the tree it yields for a text, with the places where it raises.
\<close>

section \<open>The models\<close>

record ScorerJudgeParameters =
  sj_model :: string
  sj_temperature :: rat
  sj_trial_count :: int

definition normalise_parameters :: "ScorerJudgeParameters \<Rightarrow> ScorerJudgeParameters" where
  "normalise_parameters p = p\<lparr>sj_model := trim (sj_model p)\<rparr>"

definition check_parameters :: "ScorerJudgeParameters \<Rightarrow> (bool \<times> string) list" where
  "check_parameters p = field ''model'' (nonempty_text (sj_model p)) @ field ''trial_count'' (1 \<le> sj_trial_count p)"

record ScorerQualityReceipt =
  sq_candidate :: "PackageCandidateIdentity option"
  sq_status :: QualityStatus
  sq_scorer_id :: string
  sq_scorer_version_or_digest :: string
  sq_parameters :: "ScorerJudgeParameters option"
  sq_pass_threshold :: "rat option"
  sq_calibration_probe_count :: int
  sq_findings :: "ScenarioQualityFinding list"

definition normalise_declared :: "ScorerQualityReceipt \<Rightarrow> ScorerQualityReceipt" where
  "normalise_declared r = r\<lparr>sq_candidate := map_option normalise_candidate (sq_candidate r), sq_scorer_id := trim (sq_scorer_id r),
     sq_scorer_version_or_digest := trim (sq_scorer_version_or_digest r),
     sq_parameters := map_option normalise_parameters (sq_parameters r), sq_findings := map normalise_qf (sq_findings r)\<rparr>"

text \<open>\<open>Field(gt=0, le=1)\<close> and \<open>Field(ge=0, le=1)\<close>\<close>

definition positive_unit :: "rat \<Rightarrow> bool" where "positive_unit x = (0 < x \<and> x \<le> 1)"

definition unit_interval :: "rat \<Rightarrow> bool" where "unit_interval x = (0 \<le> x \<and> x \<le> 1)"

definition check_declared :: "ScorerQualityReceipt \<Rightarrow> (bool \<times> string) list" where
  "check_declared r =
     opt_checks check_candidate (sq_candidate r) @ opt_checks check_parameters (sq_parameters r)
     @ field ''pass_threshold'' (opt_ok positive_unit (sq_pass_threshold r))
     @ field ''calibration_probe_count'' (0 \<le> sq_calibration_probe_count r)
     @ each check_qf (sq_findings r)
     @ [(sq_status r = QualityPass
         \<and> (sq_candidate r = None \<or> sq_findings r \<noteq> [] \<or> sq_calibration_probe_count r < 6 \<or> strip (sq_scorer_id r) = []
            \<or> strip (sq_scorer_version_or_digest r) = [] \<or> sq_pass_threshold r = None),
         ''passing scorer quality requires a candidate, probes, and no findings''),
        (sq_status r = QualityBlocked \<and> sq_findings r = [], ''blocked scorer quality requires findings'')]"

record ScorerCalibrationMetrics =
  cf_tp :: int
  cf_tn :: int
  cf_fp :: int
  cf_fn :: int

record ScorerCalibrationAppliedPolicy =
  ca_threshold :: rat
  ca_minimum_examples :: int
  ca_minimum_true_positives :: int
  ca_minimum_true_negatives :: int
  ca_max_false_positives :: int
  ca_max_false_negatives :: int

record ScorerCalibrationRates =
  ra_tpr :: "rat option"
  ra_tnr :: "rat option"
  ra_precision :: "rat option"
  ra_accuracy :: "rat option"

record ScorerCalibrationReceipt =
  sc_candidate :: "PackageCandidateIdentity option"
  sc_status :: QualityStatus
  sc_scorer_id :: string
  sc_scorer_version_or_digest :: string
  sc_prompt_version :: string
  sc_parameters :: "ScorerJudgeParameters option"
  sc_example_count :: int
  sc_effective_policy :: "ScorerCalibrationAppliedPolicy option"
  sc_confusion_matrix :: ScorerCalibrationMetrics
  sc_metrics :: ScorerCalibrationRates
  sc_findings :: "ScenarioQualityFinding list"

text \<open>\<^verbatim>\<open>round(a / b, 6)\<close>: the double nearest to the quotient, rounded to six decimals, as a double.\<close>

definition rounded_ratio :: "int \<Rightarrow> int \<Rightarrow> rat" where
  "rounded_ratio a b = to_double (of_int (round_half_even (true_division a b * 10 ^ 6)) / 10 ^ 6)"

definition ratio :: "int \<Rightarrow> int \<Rightarrow> rat option" where
  "ratio numerator denominator = (if denominator = 0 then None else Some (rounded_ratio numerator denominator))"

definition normalise_calibration :: "ScorerCalibrationReceipt \<Rightarrow> ScorerCalibrationReceipt" where
  "normalise_calibration r = r\<lparr>sc_candidate := map_option normalise_candidate (sc_candidate r), sc_scorer_id := trim (sc_scorer_id r),
     sc_scorer_version_or_digest := trim (sc_scorer_version_or_digest r), sc_prompt_version := trim (sc_prompt_version r),
     sc_parameters := map_option normalise_parameters (sc_parameters r), sc_findings := map normalise_qf (sc_findings r)\<rparr>"

definition check_matrix :: "ScorerCalibrationMetrics \<Rightarrow> (bool \<times> string) list" where
  "check_matrix m = field ''tp'' (0 \<le> cf_tp m) @ field ''tn'' (0 \<le> cf_tn m) @ field ''fp'' (0 \<le> cf_fp m) @ field ''fn'' (0 \<le> cf_fn m)"

definition check_applied :: "ScorerCalibrationAppliedPolicy \<Rightarrow> (bool \<times> string) list" where
  "check_applied p =
     field ''threshold'' (positive_unit (ca_threshold p)) @ field ''minimum_examples'' (1 \<le> ca_minimum_examples p)
     @ field ''minimum_true_positives'' (1 \<le> ca_minimum_true_positives p)
     @ field ''minimum_true_negatives'' (1 \<le> ca_minimum_true_negatives p)
     @ field ''max_false_positives'' (0 \<le> ca_max_false_positives p) @ field ''max_false_negatives'' (0 \<le> ca_max_false_negatives p)"

definition check_rates :: "ScorerCalibrationRates \<Rightarrow> (bool \<times> string) list" where
  "check_rates r =
     field ''tpr'' (opt_ok unit_interval (ra_tpr r)) @ field ''tnr'' (opt_ok unit_interval (ra_tnr r))
     @ field ''precision'' (opt_ok unit_interval (ra_precision r)) @ field ''accuracy'' (opt_ok unit_interval (ra_accuracy r))"

definition policy_violated :: "ScorerCalibrationAppliedPolicy \<Rightarrow> ScorerCalibrationMetrics \<Rightarrow> int \<Rightarrow> bool" where
  "policy_violated p m examples =
     (examples \<noteq> cf_tp m + cf_tn m + cf_fp m + cf_fn m \<or> examples < ca_minimum_examples p
      \<or> cf_tp m < ca_minimum_true_positives p \<or> cf_tn m < ca_minimum_true_negatives p
      \<or> cf_fp m > ca_max_false_positives p \<or> cf_fn m > ca_max_false_negatives p)"

definition calibration_rates :: "ScorerCalibrationMetrics \<Rightarrow> ScorerCalibrationRates" where
  "calibration_rates m =
     \<lparr>ra_tpr = ratio (cf_tp m) (cf_tp m + cf_fn m), ra_tnr = ratio (cf_tn m) (cf_tn m + cf_fp m),
      ra_precision = ratio (cf_tp m) (cf_tp m + cf_fp m),
      ra_accuracy = ratio (cf_tp m + cf_tn m) (cf_tp m + cf_tn m + cf_fp m + cf_fn m)\<rparr>"

text \<open>
  The rates a passing receipt must have. A passing receipt satisfies its policy, so the divisors of the code
  are not zero when they are reached, and the number of examples is the sum of the matrix.
\<close>

definition calibration_status_matches :: "ScorerCalibrationReceipt \<Rightarrow> (bool \<times> string) list" where
  "calibration_status_matches r =
     [(sc_status r = QualityPass
       \<and> (sc_candidate r = None \<or> sc_findings r \<noteq> [] \<or> sc_example_count r = 0 \<or> sc_effective_policy r = None
          \<or> sc_parameters r = None \<or> strip (sc_scorer_id r) = [] \<or> strip (sc_scorer_version_or_digest r) = []
          \<or> strip (sc_prompt_version r) = []),
       ''passing calibration requires a candidate, examples, and no findings'')]
     @ (if sc_status r = QualityPass then
          opt_checks (\<lambda>p.
            [(policy_violated p (sc_confusion_matrix r) (sc_example_count r), ''passing calibration must satisfy its effective policy''),
             (sc_metrics r \<noteq> calibration_rates (sc_confusion_matrix r),
              ''passing calibration metrics must match the confusion matrix'')]) (sc_effective_policy r)
        else [])
     @ [(sc_status r = QualityBlocked \<and> sc_findings r = [], ''blocked calibration requires findings'')]"

definition check_calibration :: "ScorerCalibrationReceipt \<Rightarrow> (bool \<times> string) list" where
  "check_calibration r =
     opt_checks check_candidate (sc_candidate r) @ opt_checks check_parameters (sc_parameters r)
     @ field ''example_count'' (0 \<le> sc_example_count r) @ opt_checks check_applied (sc_effective_policy r)
     @ check_matrix (sc_confusion_matrix r) @ check_rates (sc_metrics r) @ each check_qf (sc_findings r)
     @ calibration_status_matches r"

interpretation parameters_model: contract_model normalise_parameters check_parameters
  by unfold_locales (simp add: normalise_parameters_def)

interpretation declared_model: contract_model normalise_declared check_declared
  by unfold_locales (simp add: normalise_declared_def parameters_model.normalise_idem option.map_comp comp_def)

interpretation calibration_model: contract_model normalise_calibration check_calibration
  by unfold_locales (simp add: normalise_calibration_def parameters_model.normalise_idem option.map_comp comp_def)

section \<open>Reading artifacts\<close>

definition MAX_ARTIFACT_BYTES :: nat where "MAX_ARTIFACT_BYTES = 1048576"

definition value_failure :: "string \<Rightarrow> load_error" where
  "value_failure message = ValueFailure ''ValueError'' message"

definition read_candidate_artifact :: "package_files \<Rightarrow> SkillPackageValidation \<Rightarrow> string \<Rightarrow> load_error + byte list" where
  "read_candidate_artifact files v path =
     (if is_absolute path \<or> path_parts path = [] \<or> ''..'' \<in> set (path_parts path) then Inl (value_failure ''invalid_artifact_path'')
      else (case List.find (\<lambda>f. mf_path f = path) (kv_files v) of
              None \<Rightarrow> Inl (value_failure ''artifact_not_in_candidate'')
            | Some m \<Rightarrow>
                (case files path of
                   Inl e \<Rightarrow> Inl (OsFailure e)
                 | Inr f \<Rightarrow>
                     if \<not> of_regular f \<or> of_size f > MAX_ARTIFACT_BYTES then Inl (value_failure ''invalid_artifact_file'')
                     else (case read_chunks MAX_ARTIFACT_BYTES (of_failure f) [] (of_chunks f) of
                             Inl e \<Rightarrow> Inl e
                           | Inr payload \<Rightarrow>
                               if length payload > MAX_ARTIFACT_BYTES \<or> \<not> of_unchanged f then Inl (value_failure ''artifact_changed'')
                               else if sha256 payload \<noteq> mf_sha256 m then Inl (value_failure ''artifact_changed'')
                               else Inr payload))))"

text \<open>The exceptions the assessments catch, by class name: \<^verbatim>\<open>OSError\<close>, \<^verbatim>\<open>ValueError\<close> and its subclasses, and YAML errors.\<close>

fun caught_class :: "load_error \<Rightarrow> string option" where
  "caught_class (YamlFailure class) = Some class"
| "caught_class (ValueFailure class t) = Some class"
| "caught_class (OsFailure class) = Some class"
| "caught_class (OtherFailure class) = None"

fun escaped_class :: "load_error \<Rightarrow> string" where
  "escaped_class (OtherFailure class) = class"
| "escaped_class e = []"

section \<open>The declared scorer\<close>

definition SCORER_TYPES :: "string set" where
  "SCORER_TYPES = {''deterministic'', ''llm_judge'', ''hybrid'', ''external_tessl''}"

definition JUDGE_TYPES :: "string set" where "JUDGE_TYPES = SCORER_TYPES - {''deterministic''}"

definition SCORER_SCOPES :: "string set" where "SCORER_SCOPES = {''span'', ''trace'', ''suite''}"

definition SCORER_PROBES :: "string set" where
  "SCORER_PROBES = {''obvious_correct'', ''obvious_wrong'', ''short_correct_vs_verbose_wrong'', ''rubric_copying_rejected'',
     ''skill_name_mention_not_enough'', ''evidence_lane_overclaim_rejected''}"

definition SCORER_SEGMENTS :: "string set" where "SCORER_SEGMENTS = {''category'', ''claim_ids'', ''eval_modes''}"

definition SCORER_FIELDS :: "string set" where
  "SCORER_FIELDS = {''schema_version'', ''scorer_id'', ''scorer_type'', ''scope'', ''scorer_version_or_digest'', ''pass_threshold'',
     ''deterministic_checks_first'', ''parameters'', ''rationale_audit'', ''bias_probes'', ''segmentation_fields'', ''calibration_cases''}"

definition text_in :: "string set \<Rightarrow> pyval \<Rightarrow> bool" where
  "text_in names v = (case text_of v of None \<Rightarrow> False | Some s \<Rightarrow> s \<in> names)"

definition int_at_least :: "int \<Rightarrow> pyval \<Rightarrow> bool" where
  "int_at_least n v = (case int_value v of None \<Rightarrow> False | Some i \<Rightarrow> n \<le> i)"

definition keys_are :: "string set \<Rightarrow> (string \<times> pyval) list \<Rightarrow> bool" where
  "keys_are names kvs = (fst ` set kvs = names)"

definition PARAMETER_FIELDS :: "string set" where "PARAMETER_FIELDS = {''model'', ''temperature'', ''trial_count''}"

definition valid_parameters :: "pyval \<Rightarrow> bool" where
  "valid_parameters v =
     (case mapping v of
        None \<Rightarrow> False
      | Some kvs \<Rightarrow>
          keys_are PARAMETER_FIELDS kvs \<and> is_words (get kvs ''model'') \<and> number_of (get kvs ''temperature'') \<noteq> None
          \<and> int_at_least 1 (get kvs ''trial_count''))"

definition judge_parameters :: "(string \<times> pyval) list \<Rightarrow> ScorerJudgeParameters" where
  "judge_parameters kvs =
     \<lparr>sj_model = py_str (get kvs ''model''), sj_temperature = the (number_of (get kvs ''temperature'')),
      sj_trial_count = the (int_value (get kvs ''trial_count''))\<rparr>"

definition declared_parameters :: "pyval \<Rightarrow> ScorerJudgeParameters option" where
  "declared_parameters v =
     (case mapping v of None \<Rightarrow> None | Some kvs \<Rightarrow> if valid_parameters v then Some (judge_parameters kvs) else None)"

definition valid_rationale :: "pyval \<Rightarrow> bool" where
  "valid_rationale v =
     (case mapping v of
        None \<Rightarrow> False
      | Some kvs \<Rightarrow> keys_are {''required'', ''sampled_count''} kvs \<and> is_bool (get kvs ''required'')
          \<and> int_at_least 0 (get kvs ''sampled_count''))"

definition scorer_note :: "string \<Rightarrow> string \<Rightarrow> ScenarioQualityFinding" where
  "scorer_note c message = evals_finding c message None"

definition judge_findings :: "(string \<times> pyval) list \<Rightarrow> pyval \<Rightarrow> ScenarioQualityFinding list" where
  "judge_findings metadata scorer_type =
     (let judge = text_in JUDGE_TYPES scorer_type; parameters = get metadata ''parameters'';
          rationale = get metadata ''rationale_audit'';
          audited = (case mapping rationale of None \<Rightarrow> [] | Some kvs \<Rightarrow> kvs) in
      (if (parameters \<noteq> PNone \<or> judge) \<and> \<not> valid_parameters parameters
       then [scorer_note ''judge_parameters_versioned'' ''judge parameters need model, temperature, and trial_count''] else [])
      @ (if (rationale \<noteq> PNone \<or> judge) \<and> \<not> valid_rationale rationale
         then [scorer_note ''invalid_rationale_audit'' ''rationale audit has invalid fields or types''] else [])
      @ (if judge \<and> get audited ''required'' \<noteq> PBool True
         then [scorer_note ''rationale_audit_required'' ''judge rationale audit must be required''] else [])
      @ (if judge \<and> \<not> int_at_least 3 (get audited ''sampled_count'')
         then [scorer_note ''rationale_audit_sampled'' ''judge rationale audit needs at least three samples''] else []))"

text \<open>
  \<open>_expected_outcome\<close>; the lookup of the probe type among the probes raises a \<^verbatim>\<open>TypeError\<close> for a value that
  cannot be hashed.
\<close>

fun unhashable :: "pyval \<Rightarrow> bool" where
  "unhashable (PList xs) = True"
| "unhashable (PDict kvs) = True"
| "unhashable (PGroup xs r) = (starts_with r ''{'' \<or> r = ''set()'' \<or> list_ex unhashable xs)"
| "unhashable v = False"

definition score_label :: "rat \<Rightarrow> rat \<Rightarrow> string" where
  "score_label threshold score = (if threshold \<le> score then ''pass'' else ''fail'')"

definition expected_outcome :: "(string \<times> pyval) list \<Rightarrow> pyval \<Rightarrow> rat option \<Rightarrow> bool assess" where
  "expected_outcome kvs probe_type threshold =
     (let score = get kvs ''expected_score''; number = number_of score; label = get kvs ''expected_label'';
          direction = get kvs ''expected_direction'' in
      if score \<noteq> PNone \<and> (case number of None \<Rightarrow> True | Some x \<Rightarrow> \<not> unit_interval x) then Inr False
      else if label \<noteq> PNone \<and> \<not> text_in {''pass'', ''fail''} label then Inr False
      else if probe_type = PText ''short_correct_vs_verbose_wrong''
      then Inr (direction = PText ''short_correct_wins'' \<and> (label = PNone \<longleftrightarrow> score = PNone) \<and> label \<in> {PNone, PText ''fail''}
                \<and> (case number of None \<Rightarrow> True | Some x \<Rightarrow> threshold \<noteq> None \<and> x < the threshold))
      else if unhashable probe_type then Inl TypeErrorRaised
      else if \<not> text_in SCORER_PROBES probe_type \<or> direction \<noteq> PNone \<or> (score = PNone \<and> label = PNone) then Inr False
      else
        let expected = (if probe_type = PText ''obvious_correct'' then ''pass'' else ''fail'') in
        Inr (label \<in> {PNone, PText expected}
             \<and> (case number of None \<Rightarrow> True | Some x \<Rightarrow> threshold \<noteq> None \<and> score_label (the threshold) x = expected)))"

text \<open>The findings of the calibration cases, with the probe types and identifiers seen so far.\<close>

fun calibration_case_findings ::
  "rat option \<Rightarrow> string list \<Rightarrow> pyval list \<Rightarrow> (ScenarioQualityFinding list \<times> string list) assess" where
  "calibration_case_findings threshold seen [] = Inr ([], [])"
| "calibration_case_findings threshold seen (v # vs) =
     (case mapping v of
        None \<Rightarrow>
          bind_assess (calibration_case_findings threshold seen vs) (\<lambda>(fs, probes).
            Inr (scorer_note ''invalid_calibration_case'' ''calibration case has unsupported structure'' # fs, probes))
      | Some kvs \<Rightarrow>
          if unsupported kvs {''id'', ''probe_type'', ''expected_score'', ''expected_label'', ''expected_direction''} \<noteq> []
          then bind_assess (calibration_case_findings threshold seen vs) (\<lambda>(fs, probes).
            Inr (scorer_note ''invalid_calibration_case'' ''calibration case has unsupported structure'' # fs, probes))
          else
            let name = (if is_words (get kvs ''id'') then Some (strip (py_str (get kvs ''id''))) else None);
                repeated = (case name of None \<Rightarrow> False | Some i \<Rightarrow> i \<in> set seen);
                probe_type = get kvs ''probe_type''; good = (name \<noteq> None \<and> text_in SCORER_PROBES probe_type) in
            bind_assess (expected_outcome kvs probe_type threshold) (\<lambda>outcome.
            bind_assess (calibration_case_findings threshold ((case name of None \<Rightarrow> [] | Some i \<Rightarrow> [i]) @ seen) vs) (\<lambda>(fs, probes).
              Inr ((if repeated then [scorer_note ''duplicate_calibration_case'' ''calibration case ids must be unique''] else [])
                   @ (if good then [] else
                        [scorer_note ''invalid_calibration_case'' ''calibration case needs an id and supported probe_type''])
                   @ (if outcome then [] else
                        [scorer_note ''calibration_expected_outcomes'' ''calibration outcome must match its probe type''])
                   @ fs,
                   (if good then [py_str probe_type] else []) @ probes))))"

definition BIAS_PROBES :: "string set" where "BIAS_PROBES = {''verbosity_bias'', ''short_correct_vs_verbose_wrong''}"

definition probe_findings :: "(string \<times> pyval) list \<Rightarrow> ScenarioQualityFinding list assess" where
  "probe_findings metadata =
     (let segments = (case listing (get metadata ''segmentation_fields'') of None \<Rightarrow> [] | Some xs \<Rightarrow> xs);
          segmented = (list_all (text_in SCORER_SEGMENTS) segments \<and> set (map py_str segments) = SCORER_SEGMENTS);
          unsegmented = (if segmented then [] else
            [scorer_note ''segmentation_fields_present'' ''category, claim_ids, and eval_modes are required'']);
          cases = (case listing (get metadata ''calibration_cases'') of None \<Rightarrow> [] | Some cs \<Rightarrow> cs) in
      if cases = [] then Inr (unsegmented @ [scorer_note ''calibration_cases_present'' ''calibration cases are required''])
      else
        bind_assess (calibration_case_findings (number_of (get metadata ''pass_threshold'')) [] cases) (\<lambda>(fs, probes).
          let bias = (if has metadata ''bias_probes'' then get metadata ''bias_probes'' else PList []);
              values = (case listing bias of None \<Rightarrow> [] | Some xs \<Rightarrow> xs) in
          Inr (unsegmented @ fs
               @ (if set probes \<noteq> SCORER_PROBES
                  then [scorer_note ''calibration_probe_coverage'' ''all six scorer calibration probes are required''] else [])
               @ (if listing bias = None \<or> \<not> list_all (text_in BIAS_PROBES) values
                  then [scorer_note ''invalid_bias_probes'' ''bias_probes contains an unsupported entry''] else [])
               @ (if ''short_correct_vs_verbose_wrong'' \<notin> set probes \<and> PText ''verbosity_bias'' \<notin> set values
                  then [scorer_note ''verbosity_bias_probe_present'' ''a verbosity-bias probe is required''] else []))))"

definition strict_metadata :: "(string \<times> pyval) list \<Rightarrow> ScenarioQualityFinding list assess" where
  "strict_metadata metadata =
     bind_assess (probe_findings metadata) (\<lambda>probes.
       Inr ((if unsupported metadata SCORER_FIELDS = [] then [] else
              [scorer_note ''unknown_scorer_field'' ''scorer_quality contains unsupported fields''])
            @ (if get metadata ''schema_version'' = PText ''skills-sdk.scorer-quality.v1'' then [] else
                 [scorer_note ''invalid_scorer_schema'' ''scorer_quality schema_version is unsupported''])
            @ map (\<lambda>k. scorer_note (''invalid_'' @ k) (k @ '' must be non-empty text''))
                [k \<leftarrow> [''scorer_id'', ''scorer_version_or_digest'']. \<not> is_words (get metadata k)]
            @ (if text_in SCORER_TYPES (get metadata ''scorer_type'') then [] else
                 [scorer_note ''invalid_scorer_type'' ''scorer_type is unsupported''])
            @ (if text_in SCORER_SCOPES (get metadata ''scope'') then [] else
                 [scorer_note ''invalid_scorer_scope'' ''scope is unsupported''])
            @ (case number_of (get metadata ''pass_threshold'') of
                 Some x \<Rightarrow> if positive_unit x then [] else
                   [scorer_note ''invalid_pass_threshold'' ''pass_threshold must be a number in (0, 1]'']
               | None \<Rightarrow> [scorer_note ''invalid_pass_threshold'' ''pass_threshold must be a number in (0, 1]''])
            @ (if get metadata ''deterministic_checks_first'' = PBool True then [] else
                 [scorer_note ''deterministic_checks_first'' ''deterministic checks must run first''])
            @ judge_findings metadata (get metadata ''scorer_type'') @ probes))"

section \<open>assess_scorer_quality\<close>

definition blocker_findings :: "SkillPackageValidation \<Rightarrow> ScenarioQualityFinding list" where
  "blocker_findings v =
     map (\<lambda>f. \<lparr>qf_code = kf_code f, qf_message = kf_message f, qf_case_id = None, qf_evidence_refs = kf_evidence_refs f\<rparr>)
       [f \<leftarrow> kv_findings v. kf_severity f = ValidationBlocker]"

definition scorer_document :: "evals_library \<Rightarrow> package_files \<Rightarrow> SkillPackageValidation \<Rightarrow> load_error + pyval" where
  "scorer_document ev files v =
     (case read_candidate_artifact files v EVALS_PATH of
        Inl e \<Rightarrow> Inl e
      | Inr raw \<Rightarrow>
          (case tl_decode (el_texts ev) raw of
             None \<Rightarrow> Inl (ValueFailure ''UnicodeDecodeError'' '''')
           | Some t \<Rightarrow> closed_load (el_stream ev t)))"

definition document_scorer_findings :: "SkillPackageValidation \<Rightarrow> pyval \<Rightarrow> ScenarioQualityFinding list" where
  "document_scorer_findings v payload =
     (case mapping payload of
        None \<Rightarrow> []
      | Some doc \<Rightarrow>
          (if unsupported doc TOP_FIELDS = [] then [] else [scorer_note ''unsupported_evals_field'' ''evals.yaml has unsupported fields''])
          @ (if get doc ''schema_version'' = PText ''2.0'' then [] else
               [scorer_note ''unsupported_evals_schema'' ''evals.yaml schema_version must be 2.0''])
          @ (case kv_candidate v of
               None \<Rightarrow> []
             | Some c \<Rightarrow> if get doc ''skill_name'' = PText (package_id c) then [] else
                 [scorer_note ''skill_name_mismatch'' ''evals.yaml skill_name must match the candidate'']))"

text \<open>The declared metadata, empty when there is none, and the findings.\<close>

definition scorer_metadata :: "evals_library \<Rightarrow> package_files \<Rightarrow> SkillPackageValidation
    \<Rightarrow> ((string \<times> pyval) list \<times> ScenarioQualityFinding list) assess" where
  "scorer_metadata ev files v =
     (case scorer_document ev files v of
        Inl e \<Rightarrow>
          (case caught_class e of
             None \<Rightarrow> Inl (LoaderRaised (escaped_class e))
           | Some class \<Rightarrow> Inr ([], [scorer_note ''invalid_evals_yaml'' (''cannot safely load scorer metadata: '' @ class)]))
      | Inr payload \<Rightarrow>
          (case mapping (get (case mapping payload of None \<Rightarrow> [] | Some doc \<Rightarrow> doc) ''scorer_quality'') of
             None \<Rightarrow> Inr ([], document_scorer_findings v payload
               @ [scorer_note ''scorer_quality_declared'' ''references/evals.yaml must declare scorer_quality''])
           | Some metadata \<Rightarrow>
               bind_assess (strict_metadata metadata) (\<lambda>fs. Inr (metadata, document_scorer_findings v payload @ fs))))"

text \<open>\<^verbatim>\<open>str(value or "")\<close>\<close>

definition text_or_empty :: "pyval \<Rightarrow> string" where
  "text_or_empty v = (if py_truth v then py_str v else [])"

definition declared_threshold :: "pyval \<Rightarrow> rat option" where
  "declared_threshold v = (case number_of v of None \<Rightarrow> None | Some x \<Rightarrow> if positive_unit x then Some x else None)"

definition made_parameters :: "ScorerJudgeParameters option \<Rightarrow> ScorerJudgeParameters option result" where
  "made_parameters p =
     (case p of None \<Rightarrow> Inr None
      | Some p \<Rightarrow> and_then (validate_model normalise_parameters check_parameters p) (\<lambda>p. Inr (Some p)))"

definition assess_scorer_quality :: "evals_library \<Rightarrow> package_moment \<Rightarrow> string \<Rightarrow> ScorerQualityReceipt assess" where
  "assess_scorer_quality ev moment revision =
     bind_assess (moment_validation ev moment revision) (\<lambda>v.
     bind_assess (if kv_status v = ValidationPass then scorer_metadata ev (mo_files moment) v else Inr ([], [])) (\<lambda>(metadata, declared).
     bind_assess (lift_assess (made_findings (blocker_findings v @ declared))) (\<lambda>fs.
     bind_assess (lift_assess (made_parameters (declared_parameters (get metadata ''parameters'')))) (\<lambda>parameters.
       lift_assess (validate_model normalise_declared check_declared
         \<lparr>sq_candidate = kv_candidate v, sq_status = (if fs = [] then QualityPass else QualityBlocked),
          sq_scorer_id = text_or_empty (get metadata ''scorer_id''),
          sq_scorer_version_or_digest = text_or_empty (get metadata ''scorer_version_or_digest''),
          sq_parameters = parameters, sq_pass_threshold = declared_threshold (get metadata ''pass_threshold''),
          sq_calibration_probe_count = (case listing (get metadata ''calibration_cases'') of None \<Rightarrow> 0 | Some cs \<Rightarrow> int (length cs)),
          sq_findings = fs\<rparr>)))))"

section \<open>The held-out bundle\<close>

text \<open>
  The tree the JSON scanner yields: members in order, the constants \<^verbatim>\<open>NaN\<close>, \<^verbatim>\<open>Infinity\<close> and \<^verbatim>\<open>-Infinity\<close>
  apart, and \<open>JsonBroken\<close> where the scanner raises. Behind the value it may raise once more.
\<close>

datatype json_tree =
    JsonLeaf pyval
  | JsonConstant
  | JsonBroken string
  | JsonArray "json_tree list"
  | JsonObject "(string \<times> json_tree) list"

text \<open>The value, with the hooks of the code: a constant and a repeated member raise a \<^verbatim>\<open>ValueError\<close>.\<close>

fun json_value :: "json_tree \<Rightarrow> load_error + pyval"
  and json_values :: "json_tree list \<Rightarrow> load_error + pyval list"
  and json_members :: "(string \<times> json_tree) list \<Rightarrow> load_error + (string \<times> pyval) list" where
  "json_value (JsonLeaf v) = Inr v"
| "json_value JsonConstant = Inl (value_failure ''nonstandard_json_constant'')"
| "json_value (JsonBroken class) =
     Inl (if class = ''RecursionError'' then value_failure ''json_nesting_exceeded'' else ValueFailure class '''')"
| "json_value (JsonArray ts) = (case json_values ts of Inl e \<Rightarrow> Inl e | Inr vs \<Rightarrow> Inr (PList vs))"
| "json_value (JsonObject kts) =
     (case json_members kts of
        Inl e \<Rightarrow> Inl e
      | Inr kvs \<Rightarrow>
          if has_duplicates (map fst kvs) then Inl (value_failure ''duplicate_json_member'') else Inr (PDict kvs))"
| "json_values [] = Inr []"
| "json_values (t # ts) =
     (case json_value t of Inl e \<Rightarrow> Inl e
      | Inr v \<Rightarrow> (case json_values ts of Inl e \<Rightarrow> Inl e | Inr vs \<Rightarrow> Inr (v # vs)))"
| "json_members [] = Inr []"
| "json_members ((k, t) # kts) =
     (case json_value t of Inl e \<Rightarrow> Inl e
      | Inr v \<Rightarrow> (case json_members kts of Inl e \<Rightarrow> Inl e | Inr kvs \<Rightarrow> Inr ((k, v) # kvs)))"

record calibration_library =
  ci_evals :: evals_library
  ci_json :: "string \<Rightarrow> json_tree \<times> string option"

definition json_object_text :: "calibration_library \<Rightarrow> string \<Rightarrow> load_error + (string \<times> pyval) list" where
  "json_object_text lib t =
     (case ci_json lib t of (tree, behind) \<Rightarrow>
        (case json_value tree of
           Inl e \<Rightarrow> Inl e
         | Inr v \<Rightarrow>
             (case behind of
                Some class \<Rightarrow> Inl (ValueFailure class '''')
              | None \<Rightarrow>
                  (case mapping v of None \<Rightarrow> Inl (value_failure ''json_root_not_object'') | Some kvs \<Rightarrow> Inr kvs))))"

definition decoded :: "calibration_library \<Rightarrow> byte list \<Rightarrow> load_error + string" where
  "decoded lib payload =
     (case tl_decode (el_texts (ci_evals lib)) payload of
        None \<Rightarrow> Inl (ValueFailure ''UnicodeDecodeError'' '''') | Some t \<Rightarrow> Inr t)"

definition bind_load :: "load_error + 'a \<Rightarrow> ('a \<Rightarrow> load_error + 'b) \<Rightarrow> load_error + 'b" where
  "bind_load r f = (case r of Inl e \<Rightarrow> Inl e | Inr x \<Rightarrow> f x)"

lemma bind_load_simps [simp]: "bind_load (Inl e) f = Inl e" "bind_load (Inr x) f = f x"
  by (simp_all add: bind_load_def)

definition json_object :: "calibration_library \<Rightarrow> byte list \<Rightarrow> load_error + (string \<times> pyval) list" where
  "json_object lib payload = bind_load (decoded lib payload) (json_object_text lib)"

text \<open>Python's \<^verbatim>\<open>==\<close> on these values: numbers by their value, mappings regardless of order.\<close>

fun numeric :: "pyval \<Rightarrow> rat option" where
  "numeric (PBool b) = Some (if b then 1 else 0)"
| "numeric (PInt n) = Some (of_int n)"
| "numeric (PFloat x _) = x"
| "numeric v = None"

fun py_equal :: "pyval \<Rightarrow> pyval \<Rightarrow> bool" where
  "py_equal (PList xs) w = (case w of PList ys \<Rightarrow> list_all2 py_equal xs ys | _ \<Rightarrow> False)"
| "py_equal (PDict a) w =
     (case w of
        PDict b \<Rightarrow> length a = length b \<and> list_all (\<lambda>(k, v). case map_of b k of None \<Rightarrow> False | Some u \<Rightarrow> py_equal v u) a
      | _ \<Rightarrow> False)"
| "py_equal (PFloat None r) w = (w = PFloat None r \<and> r \<noteq> ''nan'')"
| "py_equal v w = (if numeric v \<noteq> None then numeric w = numeric v else w = v)"

definition CALIBRATION_BUNDLE :: string where "CALIBRATION_BUNDLE = ''references/scorer-calibration/''"

definition CALIBRATION_MANIFEST :: string where "CALIBRATION_MANIFEST = ''references/scorer-calibration/manifest.json''"

text \<open>The limits with their fallback and their least value.\<close>

definition CALIBRATION_LIMITS :: "(string \<times> int \<times> int) list" where
  "CALIBRATION_LIMITS = [(''minimum_examples'', 1, 1), (''minimum_true_positives'', 1, 1), (''minimum_true_negatives'', 1, 1),
     (''max_false_positives'', 0, 0), (''max_false_negatives'', 0, 0)]"

definition MANIFEST_FIELDS :: "string set" where
  "MANIFEST_FIELDS = {''schema_version'', ''scorer_id'', ''scorer_version_or_digest'', ''prompt_version'', ''threshold'', ''split'',
     ''parameters'', ''examples_path'', ''raw_artifacts_dir''} \<union> fst ` set CALIBRATION_LIMITS"

definition calibration_note :: "string \<Rightarrow> string \<Rightarrow> string \<Rightarrow> ScenarioQualityFinding" where
  "calibration_note c message path = \<lparr>qf_code = c, qf_message = message, qf_case_id = None, qf_evidence_refs = [path]\<rparr>"

definition manifest_note :: "string \<Rightarrow> string \<Rightarrow> ScenarioQualityFinding" where
  "manifest_note c message = calibration_note c message CALIBRATION_MANIFEST"

text \<open>\<open>_bundle_path\<close>; \<^verbatim>\<open>None\<close> for a \<^verbatim>\<open>ValueError\<close>.\<close>

definition bundle_path :: "pyval \<Rightarrow> string \<Rightarrow> string option" where
  "bundle_path value fallback =
     (case (if value = PNone then Some fallback else text_of value) of
        None \<Rightarrow> None
      | Some raw \<Rightarrow>
          if strip raw = [] \<or> is_absolute raw \<or> path_parts raw = [] \<or> ''..'' \<in> set (path_parts raw) then None
          else Some (CALIBRATION_BUNDLE @ as_posix raw))"

definition limit_value :: "(string \<times> pyval) list \<Rightarrow> string \<Rightarrow> int \<Rightarrow> pyval" where
  "limit_value manifest k fallback = (if has manifest k then get manifest k else PInt fallback)"

definition manifest_findings :: "(string \<times> pyval) list \<Rightarrow> ScenarioQualityFinding list" where
  "manifest_findings manifest =
     (let parameters = get manifest ''parameters''; p = (case mapping parameters of None \<Rightarrow> [] | Some kvs \<Rightarrow> kvs) in
      (if unsupported manifest MANIFEST_FIELDS = [] then [] else
         [manifest_note ''unknown_calibration_bundle_field'' ''calibration bundle has unsupported fields''])
      @ (if get manifest ''schema_version'' = PText ''skills-sdk.scorer-calibration-bundle.v1'' then [] else
           [manifest_note ''calibration_bundle_schema_version'' ''unsupported calibration bundle schema''])
      @ (if get manifest ''split'' = PText ''held_out'' then [] else
           [manifest_note ''calibration_split_held_out'' ''calibration examples must be held out''])
      @ map (\<lambda>k. manifest_note (k @ ''_present'') (k @ '' must be non-empty text''))
          [k \<leftarrow> [''scorer_id'', ''scorer_version_or_digest'', ''prompt_version'']. \<not> is_words (get manifest k)]
      @ (if declared_threshold (get manifest ''threshold'') = None
         then [manifest_note ''threshold_valid'' ''threshold must be a number in (0, 1]''] else [])
      @ (if mapping parameters \<noteq> None \<and> \<not> keys_are PARAMETER_FIELDS p
         then [manifest_note ''judge_parameters_fields'' ''judge parameters must contain exactly model, temperature, and trial_count''] else [])
      @ (if mapping parameters = None \<or> \<not> is_words (get p ''model'') \<or> number_of (get p ''temperature'') = None
            \<or> \<not> int_at_least 1 (get p ''trial_count'')
         then [manifest_note ''judge_parameters_present'' ''model, temperature, and trial_count are required''] else [])
      @ map (\<lambda>(k, fallback, least). manifest_note k (k @ '' must be an integer at least '' @ show_int least))
          [(k, fallback, least) \<leftarrow> CALIBRATION_LIMITS. \<not> int_at_least least (limit_value manifest k fallback)])"

section \<open>The examples\<close>

text \<open>Rows up to the first line that is no JSON object.\<close>

fun read_rows :: "calibration_library \<Rightarrow> string \<Rightarrow> nat \<Rightarrow> string list
    \<Rightarrow> (string \<times> pyval) list list \<times> ScenarioQualityFinding list" where
  "read_rows lib path number [] = ([], [])"
| "read_rows lib path number (line # lines) =
     (if strip line = [] then read_rows lib path (number + 1) lines
      else (case json_object_text lib line of
              Inr row \<Rightarrow> (case read_rows lib path (number + 1) lines of (rows, fs) \<Rightarrow> (row # rows, fs))
            | Inl e \<Rightarrow>
                ([], [calibration_note ''calibration_examples_parse''
                        (''line '' @ show_int (int number) @ '': '' @ the (caught_class e)) path])))"

definition read_examples :: "calibration_library \<Rightarrow> package_files \<Rightarrow> SkillPackageValidation \<Rightarrow> string
    \<Rightarrow> (string \<times> pyval) list list \<times> ScenarioQualityFinding list" where
  "read_examples lib files v path =
     (case bind_load (read_candidate_artifact files v path) (decoded lib) of
        Inl e \<Rightarrow> ([], [calibration_note ''calibration_examples_parse'' (''cannot load examples: '' @ the (caught_class e)) path])
      | Inr t \<Rightarrow> read_rows lib path 1 (splitlines t))"

definition row_findings :: "(string \<times> pyval) list \<Rightarrow> string \<Rightarrow> ScenarioQualityFinding list" where
  "row_findings row path =
     (let shape = calibration_note ''calibration_example_shape'' in
      (if is_words (get row ''id'') \<and> is_words (get row ''probe_type'') \<and> is_words (get row ''raw_artifact'') then [] else
         [shape ''example needs id, probe_type, and raw_artifact'' path])
      @ (if text_in {''pass'', ''fail''} (get row ''expected_label'') \<and> text_in {''pass'', ''fail''} (get row ''predicted_label'') then [] else
           [shape ''example labels must be pass or fail'' path])
      @ (case number_of (get row ''score'') of
           Some x \<Rightarrow> if unit_interval x then [] else [shape ''example score must be in [0, 1]'' path]
         | None \<Rightarrow> [shape ''example score must be in [0, 1]'' path]))"

definition count_labels :: "string \<Rightarrow> string \<Rightarrow> (string \<times> pyval) list list \<Rightarrow> int" where
  "count_labels expected predicted rows =
     int (length [row \<leftarrow> rows. get row ''expected_label'' = PText expected \<and> get row ''predicted_label'' = PText predicted])"

definition confusion :: "(string \<times> pyval) list list \<Rightarrow> ScorerCalibrationMetrics" where
  "confusion rows =
     \<lparr>cf_tp = count_labels ''pass'' ''pass'' rows, cf_tn = count_labels ''fail'' ''fail'' rows,
      cf_fp = count_labels ''fail'' ''pass'' rows, cf_fn = count_labels ''pass'' ''fail'' rows\<rparr>"

definition repeated_example_findings :: "(string \<times> pyval) list list \<Rightarrow> string \<Rightarrow> ScenarioQualityFinding list" where
  "repeated_example_findings rows path =
     (let ids = List.map_filter (\<lambda>row. if is_words (get row ''id'') then Some (strip (py_str (get row ''id''))) else None) rows;
          raw_paths = List.map_filter (\<lambda>row. bundle_path (get row ''raw_artifact'') []) rows in
      if has_duplicates ids \<or> has_duplicates raw_paths
      then [calibration_note ''duplicate_calibration_example'' ''held-out ids and raw artifacts must be unique'' path] else [])"

definition raw_artifact :: "calibration_library \<Rightarrow> package_files \<Rightarrow> SkillPackageValidation \<Rightarrow> (string \<times> pyval) list \<Rightarrow> string
    \<Rightarrow> load_error + string \<times> (string \<times> pyval) list" where
  "raw_artifact lib files v row raw_dir =
     (case bundle_path (get row ''raw_artifact'') [] of
        None \<Rightarrow> Inl (value_failure ''invalid_bundle_path'')
      | Some path \<Rightarrow>
          if \<not> starts_with path (raw_dir @ ''/'') then Inl (value_failure ''raw_artifact_outside_declared_dir'')
          else bind_load (read_candidate_artifact files v path) (\<lambda>payload.
               bind_load (json_object lib payload) (\<lambda>raw. Inr (path, raw))))"

definition artifact_findings :: "calibration_library \<Rightarrow> package_files \<Rightarrow> SkillPackageValidation
    \<Rightarrow> (string \<times> pyval) list \<Rightarrow> string \<Rightarrow> string \<Rightarrow> (string \<times> pyval) list \<Rightarrow> ScenarioQualityFinding list" where
  "artifact_findings lib files v manifest examples_path raw_dir row =
     row_findings row examples_path
     @ (case (number_of (get manifest ''threshold''), number_of (get row ''score'')) of
          (Some threshold, Some score) \<Rightarrow>
            if get row ''predicted_label'' = PText (score_label threshold score) then [] else
              [calibration_note ''score_threshold_consistent'' ''prediction conflicts with threshold'' examples_path]
        | _ \<Rightarrow> [])
     @ (case raw_artifact lib files v row raw_dir of
          Inl e \<Rightarrow> [calibration_note ''raw_artifacts_present'' (''raw artifact unavailable: '' @ the (caught_class e)) examples_path]
        | Inr (path, raw) \<Rightarrow>
            if number_of (get raw ''score'') = None
               \<or> (\<exists>k \<in> {''id'', ''predicted_label'', ''score''}. \<not> py_equal (get raw k) (get row k))
               \<or> \<not> py_equal (get raw ''scorer_id'') (get manifest ''scorer_id'')
            then [calibration_note ''raw_artifacts_match_examples'' ''raw artifact does not match example'' path] else [])"

definition coverage_findings :: "(string \<times> pyval) list \<Rightarrow> int \<Rightarrow> ScorerCalibrationMetrics \<Rightarrow> ScenarioQualityFinding list" where
  "coverage_findings manifest examples m =
     (let failing = (\<lambda>k observed fallback.
            case int_value (limit_value manifest k fallback) of
              None \<Rightarrow> False | Some limit \<Rightarrow> if starts_with k ''max_'' then observed > limit else observed < limit) in
      map (\<lambda>(k, c, observed, fallback). manifest_note c (k @ '' limit is not met''))
        [(k, c, observed, fallback) \<leftarrow>
           [(''minimum_examples'', ''held_out_example_count'', examples, 1),
            (''minimum_true_positives'', ''true_positive_coverage'', cf_tp m, 1),
            (''minimum_true_negatives'', ''true_negative_coverage'', cf_tn m, 1),
            (''max_false_positives'', ''false_positive_limit'', cf_fp m, 0),
            (''max_false_negatives'', ''false_negative_limit'', cf_fn m, 0)]. failing k observed fallback])"

section \<open>assess_scorer_calibration\<close>

definition applied_limits :: "(string \<times> pyval) list \<Rightarrow> ScorerCalibrationAppliedPolicy option" where
  "applied_limits manifest =
     (let limit = (\<lambda>k fallback. the (int_value (limit_value manifest k fallback))) in
      case declared_threshold (get manifest ''threshold'') of
        None \<Rightarrow> None
      | Some threshold \<Rightarrow>
          if \<exists>(k, fallback, least) \<in> set CALIBRATION_LIMITS. \<not> int_at_least least (limit_value manifest k fallback) then None
          else Some
            \<lparr>ca_threshold = threshold, ca_minimum_examples = limit ''minimum_examples'' 1,
             ca_minimum_true_positives = limit ''minimum_true_positives'' 1,
             ca_minimum_true_negatives = limit ''minimum_true_negatives'' 1,
             ca_max_false_positives = limit ''max_false_positives'' 0, ca_max_false_negatives = limit ''max_false_negatives'' 0\<rparr>)"

definition unsafe_examples :: ScenarioQualityFinding where
  "unsafe_examples = manifest_note ''calibration_examples_parse'' ''examples path is unsafe''"

text \<open>
  The rows and findings of the examples. A finding about a path that is not portable is itself refused, with
  a \<^verbatim>\<open>ValueError\<close> that the assessment takes for an unsafe path.
\<close>

definition examined_rows :: "calibration_library \<Rightarrow> package_files \<Rightarrow> SkillPackageValidation \<Rightarrow> (string \<times> pyval) list
    \<Rightarrow> (string \<times> pyval) list list \<times> ScenarioQualityFinding list" where
  "examined_rows lib files v manifest =
     (case (bundle_path (get manifest ''examples_path'') ''examples.jsonl'', bundle_path (get manifest ''raw_artifacts_dir'') ''raw'') of
        (Some examples_path, Some raw_dir) \<Rightarrow>
          let (rows, parsed) = read_examples lib files v examples_path;
              repeated = repeated_example_findings rows examples_path;
              matched = concat (map (artifact_findings lib files v manifest examples_path raw_dir) rows) in
          if \<not> is_ok (made_findings parsed) then ([], [unsafe_examples])
          else if \<not> is_ok (made_findings repeated) then (rows, parsed @ [unsafe_examples])
          else if repeated \<noteq> [] then (rows, parsed @ repeated)
          else if has_duplicates (map mf_path (kv_files v)) \<or> \<not> is_ok (made_findings matched)
          then (rows, parsed @ [unsafe_examples])
          else (rows, parsed @ matched)
      | _ \<Rightarrow> ([], [unsafe_examples]))"

definition bundle_manifest :: "calibration_library \<Rightarrow> package_files \<Rightarrow> SkillPackageValidation
    \<Rightarrow> (string \<times> pyval) list \<times> ScenarioQualityFinding list" where
  "bundle_manifest lib files v =
     (case bind_load (read_candidate_artifact files v CALIBRATION_MANIFEST) (json_object lib) of
        Inl e \<Rightarrow> ([], [manifest_note ''calibration_bundle_parse'' (''cannot load bundle: '' @ the (caught_class e))])
      | Inr manifest \<Rightarrow> (manifest, []))"

definition calibration_parameters :: "(string \<times> pyval) list \<Rightarrow> ScorerJudgeParameters option" where
  "calibration_parameters manifest = declared_parameters (get manifest ''parameters'')"

text \<open>The declarations are assessed again, and must name the same scorer, version, threshold and parameters.\<close>

definition identity_findings :: "(string \<times> pyval) list \<Rightarrow> ScorerJudgeParameters option \<Rightarrow> SkillPackageValidation
    \<Rightarrow> ScorerQualityReceipt \<Rightarrow> ScenarioQualityFinding list" where
  "identity_findings manifest parameters v declared =
     (if sq_status declared \<noteq> QualityPass \<or> sq_candidate declared \<noteq> kv_candidate v
         \<or> get manifest ''scorer_id'' \<noteq> PText (sq_scorer_id declared)
         \<or> get manifest ''scorer_version_or_digest'' \<noteq> PText (sq_scorer_version_or_digest declared)
         \<or> number_of (get manifest ''threshold'') \<noteq> sq_pass_threshold declared
      then [manifest_note ''scorer_identity_mismatch'' ''held-out bundle must match valid scorer declarations'']
      else if sq_parameters declared \<noteq> None \<and> parameters \<noteq> sq_parameters declared
      then [manifest_note ''judge_parameters_mismatch'' ''held-out judge parameters must match scorer declarations'']
      else [])"

definition assess_scorer_calibration ::
  "calibration_library \<Rightarrow> package_moment \<Rightarrow> package_moment \<Rightarrow> string \<Rightarrow> ScorerCalibrationReceipt assess" where
  "assess_scorer_calibration lib first second revision =
     bind_assess (moment_validation (ci_evals lib) first revision) (\<lambda>v.
       let pass = (kv_status v = ValidationPass);
           (manifest, unread) = (if pass then bundle_manifest lib (mo_files first) v else ([], []));
           described = (if pass then manifest_findings manifest else []);
           (rows, examined) = (if pass then examined_rows lib (mo_files first) v manifest else ([], []));
           matrix = confusion rows in
       bind_assess (lift_assess (made_parameters (calibration_parameters manifest))) (\<lambda>parameters.
       bind_assess (if pass then bind_assess (assess_scorer_quality (ci_evals lib) second revision) (\<lambda>declared.
                      Inr (identity_findings manifest parameters v declared)) else Inr []) (\<lambda>bound.
       bind_assess (lift_assess (made_findings (blocker_findings v @ unread @ described @ examined
           @ coverage_findings manifest (int (length rows)) matrix @ bound))) (\<lambda>fs.
         lift_assess (validate_model normalise_calibration check_calibration
           \<lparr>sc_candidate = kv_candidate v, sc_status = (if fs = [] then QualityPass else QualityBlocked),
            sc_scorer_id = text_or_empty (get manifest ''scorer_id''),
            sc_scorer_version_or_digest = text_or_empty (get manifest ''scorer_version_or_digest''),
            sc_prompt_version = text_or_empty (get manifest ''prompt_version''),
            sc_parameters = parameters, sc_example_count = int (length rows), sc_effective_policy = applied_limits manifest,
            sc_confusion_matrix = matrix, sc_metrics = calibration_rates matrix, sc_findings = fs\<rparr>)))))"

end
