(* ===== verification/Scorer_Evidence.thy ===== *)
theory Scorer_Evidence
  imports Scorer
begin

text \<open>
  What the scorer assessments guarantee: \<open>scorer_total\<close> and \<open>calibration_total\<close> say that they return valid
  receipts, the first unless a calibration case has a probe type that cannot be hashed; \<open>calibration_pass\<close>
  says what a passing calibration proves of the held-out examples. The rates of a confusion matrix lie in
  the unit interval.
\<close>

section \<open>Findings and parameters\<close>

definition qf_valid :: "ScenarioQualityFinding \<Rightarrow> bool" where
  "qf_valid f = passes (check_qf (normalise_qf f))"

lemma made_findings_iff: "is_ok (made_findings fs) \<longleftrightarrow> list_all qf_valid fs"
proof (induction fs)
  case (Cons f fs)
  show ?case
  proof (cases "qf_valid f")
    case True
    then have "validate_model normalise_qf check_qf f = Inr (normalise_qf f)" by (simp add: qf_valid_def qf_model.validate_ok_iff)
    then show ?thesis using Cons True by (cases "made_findings fs") simp_all
  next
    case False
    then obtain e where "validate_model normalise_qf check_qf f = Inl e"
      by (cases "validate_model normalise_qf check_qf f") (auto simp: qf_valid_def qf_model.validate_ok_iff)
    then show ?thesis using False by simp
  qed
qed simp

lemma made_findings_Inr: "list_all qf_valid fs \<Longrightarrow> made_findings fs = Inr (map normalise_qf fs)"
proof (induction fs)
  case (Cons f fs)
  then have "validate_model normalise_qf check_qf f = Inr (normalise_qf f)" by (simp add: qf_valid_def qf_model.validate_ok_iff)
  with Cons show ?case by simp
qed simp

lemma qf_ok_qf_valid: "qf_ok f \<Longrightarrow> qf_valid f"
  using qf_ok_valid by (simp add: qf_valid_def)

lemma list_qf_valid: "list_all qf_ok fs \<Longrightarrow> list_all qf_valid fs"
  using qf_ok_qf_valid by (auto simp: list_all_iff)

lemma kept_by_trim: "c \<in> set s \<Longrightarrow> \<not> unicode_space c \<Longrightarrow> c \<in> set (trim s)"
proof -
  have kept: "c \<in> set t \<Longrightarrow> \<not> unicode_space c \<Longrightarrow> c \<in> set (dropWhile unicode_space t)" for t
    by (induction t) auto
  assume "c \<in> set s" "\<not> unicode_space c"
  then show ?thesis using kept [of "rev (dropWhile unicode_space s)"] kept [of s] by (simp add: trim_def strip_with_def)
qed

lemma strip_trim_nonempty: "strip s \<noteq> [] \<Longrightarrow> strip (trim s) \<noteq> []"
  using unicode_space_py_space kept_by_trim [of _ s] by (auto simp: strip_def strip_with_Nil_iff)

lemma text_or_empty_text: "is_words v \<Longrightarrow> strip (trim (text_or_empty v)) \<noteq> []"
proof -
  assume "is_words v"
  then obtain s where s: "v = PText s" "strip s \<noteq> []" by (auto simp: is_words_iff)
  then have "s \<noteq> []" by (auto simp: strip_def strip_with_Nil_iff)
  then show ?thesis using strip_trim_nonempty [OF s(2)] by (simp add: s(1) text_or_empty_def)
qed

lemma valid_parameters_made:
  assumes "declared_parameters v = Some p"
  shows "passes (check_parameters (normalise_parameters p))"
  using assms trim_nonempty_if_strip
  by (fastforce simp: declared_parameters_def valid_parameters_def judge_parameters_def normalise_parameters_def check_parameters_def
      is_words_iff int_at_least_def split: option.splits if_splits)

lemma made_parameters_declared:
  "made_parameters (declared_parameters v) = Inr (map_option normalise_parameters (declared_parameters v))"
proof (cases "declared_parameters v")
  case (Some p)
  then have "validate_model normalise_parameters check_parameters p = Inr (normalise_parameters p)"
    using valid_parameters_made [OF Some] by (simp add: parameters_model.validate_ok_iff)
  then show ?thesis by (simp add: made_parameters_def Some)
qed (simp add: made_parameters_def)

lemma declared_parameters_valid: "declared_parameters v \<noteq> None \<longleftrightarrow> valid_parameters v"
  by (cases v) (simp_all add: declared_parameters_def valid_parameters_def)

lemma declared_threshold_Some: "declared_threshold v = Some x \<longleftrightarrow> number_of v = Some x \<and> positive_unit x"
  by (auto simp: declared_threshold_def split: option.splits)

section \<open>Rates\<close>

lemma rounded_ratio_unit:
  assumes "0 \<le> a" "a \<le> b" "0 < b"
  shows "unit_interval (rounded_ratio a b)"
proof -
  have q: "0 \<le> true_division a b" "true_division a b \<le> 1"
    using to_double_unit [of "of_int a / of_int b"] assms by (simp_all add: true_division_def)
  let ?k = "round_half_even (true_division a b * 10 ^ 6)"
  have "0 \<le> ?k" using q(1) by (intro round_ge_int) simp
  moreover have "?k \<le> 10 ^ 6" using q(2) by (intro round_le_int) simp
  then have "of_int ?k \<le> (10 ^ 6 :: rat)" by (metis of_int_le_iff of_int_numeral of_int_power)
  ultimately show ?thesis
    using to_double_unit [of "of_int ?k / 10 ^ 6"] by (simp add: rounded_ratio_def unit_interval_def)
qed

lemma ratio_unit: "0 \<le> a \<Longrightarrow> a \<le> b \<Longrightarrow> opt_ok unit_interval (ratio a b)"
  using rounded_ratio_unit [of a b] by (cases "b = 0") (simp_all add: ratio_def)

lemma rates_ok: "passes (check_matrix m) \<Longrightarrow> passes (check_rates (calibration_rates m))"
  by (simp add: check_matrix_def check_rates_def calibration_rates_def ratio_unit)

lemma confusion_ok: "passes (check_matrix (confusion rows))"
  by (simp add: check_matrix_def confusion_def count_labels_def)

text \<open>When every row has two labels, the matrix counts every row once.\<close>

lemma confusion_total:
  assumes "\<forall>row \<in> set rows. text_in {''pass'', ''fail''} (get row ''expected_label'') \<and> text_in {''pass'', ''fail''} (get row ''predicted_label'')"
  shows "cf_tp (confusion rows) + cf_tn (confusion rows) + cf_fp (confusion rows) + cf_fn (confusion rows) = int (length rows)"
  using assms
proof (induction rows)
  case (Cons row rows)
  have label: "get row k = PText ''pass'' \<or> get row k = PText ''fail''" if "text_in {''pass'', ''fail''} (get row k)" for k
    using that by (auto simp: text_in_def split: option.splits)
  have "get row ''expected_label'' = PText ''pass'' \<or> get row ''expected_label'' = PText ''fail''"
    "get row ''predicted_label'' = PText ''pass'' \<or> get row ''predicted_label'' = PText ''fail''"
    using Cons.prems label by simp_all
  then show ?case using Cons by (auto simp: confusion_def count_labels_def)
qed (simp add: confusion_def count_labels_def)

section \<open>The scorer assessment returns\<close>

lemma scorer_codes:
  "is_blocker_code ''judge_parameters_versioned''" "is_blocker_code ''invalid_rationale_audit''"
  "is_blocker_code ''rationale_audit_required''" "is_blocker_code ''rationale_audit_sampled''"
  "is_blocker_code ''invalid_calibration_case''" "is_blocker_code ''duplicate_calibration_case''"
  "is_blocker_code ''calibration_expected_outcomes''" "is_blocker_code ''segmentation_fields_present''"
  "is_blocker_code ''calibration_cases_present''" "is_blocker_code ''calibration_probe_coverage''"
  "is_blocker_code ''invalid_bias_probes''" "is_blocker_code ''verbosity_bias_probe_present''"
  "is_blocker_code ''unknown_scorer_field''" "is_blocker_code ''invalid_scorer_schema''" "is_blocker_code ''invalid_scorer_id''"
  "is_blocker_code ''invalid_scorer_version_or_digest''" "is_blocker_code ''invalid_scorer_type''"
  "is_blocker_code ''invalid_scorer_scope''" "is_blocker_code ''invalid_pass_threshold''"
  "is_blocker_code ''deterministic_checks_first''" "is_blocker_code ''scorer_quality_declared''"
  by code_simp+

lemma scorer_note_ok: "qf_ok (scorer_note c m) \<longleftrightarrow> is_blocker_code c \<and> trim m \<noteq> []"
  by (simp add: scorer_note_def evals_finding_ok)

lemmas note_simps = scorer_note_ok evals_codes scorer_codes trim_first unicode_space_def code_def Let_def

lemma judge_findings_ok: "list_all qf_ok (judge_findings metadata scorer_type)"
  by (simp add: judge_findings_def note_simps)

lemma bind_assess_Inr_iff: "bind_assess r f = Inr y \<longleftrightarrow> (\<exists>x. r = Inr x \<and> f x = Inr y)"
  by (cases r) simp_all

lemma bind_assess_Inl_iff: "bind_assess r f = Inl e \<longleftrightarrow> r = Inl e \<or> (\<exists>x. r = Inr x \<and> f x = Inl e)"
  by (cases r) simp_all

lemma case_notes_ok:
  "qf_ok (scorer_note ''invalid_calibration_case'' ''calibration case has unsupported structure'')"
  "qf_ok (scorer_note ''duplicate_calibration_case'' ''calibration case ids must be unique'')"
  "qf_ok (scorer_note ''invalid_calibration_case'' ''calibration case needs an id and supported probe_type'')"
  "qf_ok (scorer_note ''calibration_expected_outcomes'' ''calibration outcome must match its probe type'')"
  by (simp_all add: note_simps)

lemma probe_named: "text_in names v \<Longrightarrow> py_str v \<in> names"
  by (auto simp: text_in_def split: option.splits)

text \<open>One case adds at most one probe, and only findings the model accepts.\<close>

lemma calibration_case_step:
  assumes "calibration_case_findings threshold seen (v # vs) = Inr (fs, probes)"
  obtains seen' mine rest new found where "calibration_case_findings threshold seen' vs = Inr (rest, found)" "fs = mine @ rest"
    "probes = new @ found" "list_all qf_ok mine" "length new \<le> 1" "set new \<subseteq> SCORER_PROBES"
proof -
  let ?note = "scorer_note ''invalid_calibration_case'' ''calibration case has unsupported structure''"
  note result = that
  have other: thesis
    if same: "bind_assess (calibration_case_findings threshold seen vs) (\<lambda>(fs, probes). Inr (?note # fs, probes)) = Inr (fs, probes)"
  proof -
    obtain rest where "calibration_case_findings threshold seen vs = Inr (rest, probes)" "fs = [?note] @ rest"
      using same by (auto simp: bind_assess_Inr_iff)
    then show thesis by (rule result [where new = "[]"]) (simp_all add: case_notes_ok)
  qed
  show thesis
  proof (cases "mapping v")
    case None
    then show thesis using assms by (intro other) simp
  next
    case (Some kvs)
    show thesis
    proof (cases "unsupported kvs {''id'', ''probe_type'', ''expected_score'', ''expected_label'', ''expected_direction''} = []")
      case False
      then show thesis using assms Some by (intro other) (simp del: mapping_Some)
    next
      case True
      let ?name = "if is_words (get kvs ''id'') then Some (strip (py_str (get kvs ''id''))) else None"
      let ?seen = "(case ?name of None \<Rightarrow> [] | Some i \<Rightarrow> [i]) @ seen" and ?type = "get kvs ''probe_type''"
      let ?good = "?name \<noteq> None \<and> text_in SCORER_PROBES ?type"
      obtain outcome rest found where parts: "expected_outcome kvs ?type threshold = Inr outcome"
        "calibration_case_findings threshold ?seen vs = Inr (rest, found)"
        using assms Some True by (auto simp: bind_assess_Inr_iff Let_def simp del: mapping_Some)
      define mine where "mine =
         (if case ?name of None \<Rightarrow> False | Some i \<Rightarrow> i \<in> set seen
          then [scorer_note ''duplicate_calibration_case'' ''calibration case ids must be unique''] else [])
         @ (if ?good then [] else [scorer_note ''invalid_calibration_case'' ''calibration case needs an id and supported probe_type''])
         @ (if outcome then [] else
              [scorer_note ''calibration_expected_outcomes'' ''calibration outcome must match its probe type''])"
      have "fs = mine @ rest" "probes = (if ?good then [py_str ?type] else []) @ found"
        using assms Some True parts by (simp_all add: mine_def Let_def del: mapping_Some)
      moreover have "list_all qf_ok mine" unfolding mine_def list_all_append using case_notes_ok by (simp del: mapping_Some)
      moreover have "set (if ?good then [py_str ?type] else []) \<subseteq> SCORER_PROBES" using probe_named by auto
      ultimately show thesis using parts(2) by (intro result) (assumption | simp)+
    qed
  qed
qed

lemma calibration_case_findings_ok:
  "calibration_case_findings threshold seen vs = Inr (fs, probes) \<Longrightarrow>
     list_all qf_ok fs \<and> length probes \<le> length vs \<and> set probes \<subseteq> SCORER_PROBES"
proof (induction vs arbitrary: seen fs probes)
  case (Cons v vs)
  obtain seen' mine rest new found where s: "calibration_case_findings threshold seen' vs = Inr (rest, found)" "fs = mine @ rest"
    "probes = new @ found" "list_all qf_ok mine" "length new \<le> 1" "set new \<subseteq> SCORER_PROBES"
    by (rule calibration_case_step [OF Cons.prems])
  show ?case using Cons.IH [OF s(1)] s(2-) by simp
qed simp

lemma expected_outcome_error: "expected_outcome kvs probe threshold = Inl e \<Longrightarrow> e = TypeErrorRaised"
  by (auto simp: expected_outcome_def Let_def split: if_splits)

lemma calibration_case_error: "calibration_case_findings threshold seen vs = Inl e \<Longrightarrow> e = TypeErrorRaised"
proof (induction vs arbitrary: seen)
  case (Cons v vs)
  show ?case
  proof (rule ccontr)
    assume "e \<noteq> TypeErrorRaised"
    then have "calibration_case_findings threshold seen' vs \<noteq> Inl e" "expected_outcome kvs probe threshold \<noteq> Inl e" for seen' kvs probe
      using Cons.IH expected_outcome_error by blast+
    then show False using Cons.prems by (cases "mapping v") (simp_all add: bind_assess_Inl_iff Let_def split_def split: if_splits)
  qed
qed simp

lemma probe_findings_error: "probe_findings metadata = Inl e \<Longrightarrow> e = TypeErrorRaised"
  by (auto simp: probe_findings_def bind_assess_def Let_def dest: calibration_case_error split: sum.splits if_splits)

lemma probe_findings_ok: "probe_findings metadata = Inr fs \<Longrightarrow> list_all qf_ok fs"
  by (auto simp: probe_findings_def bind_assess_def note_simps dest!: calibration_case_findings_ok split: sum.splits if_splits)

lemma card_SCORER_PROBES: "card SCORER_PROBES = 6"
  by (simp add: SCORER_PROBES_def)

lemma probe_findings_Nil:
  assumes "probe_findings metadata = Inr []"
  obtains cs where "get metadata ''calibration_cases'' = PList cs" "6 \<le> length cs"
proof -
  let ?cs = "case listing (get metadata ''calibration_cases'') of None \<Rightarrow> [] | Some cs \<Rightarrow> cs"
  have ne: "?cs \<noteq> []"
    using assms by (auto simp: probe_findings_def Let_def)
  then obtain fs probes where c: "calibration_case_findings (number_of (get metadata ''pass_threshold'')) [] ?cs = Inr (fs, probes)"
    using assms by (auto simp: probe_findings_def Let_def bind_assess_def split: sum.splits)
  then have "set probes = SCORER_PROBES"
    using assms ne by (auto simp: probe_findings_def Let_def split: if_splits)
  then have "6 \<le> length probes" using card_length [of probes] by (simp add: card_SCORER_PROBES)
  then have "6 \<le> length ?cs" using calibration_case_findings_ok [OF c] by simp
  then show thesis using that ne by (auto split: option.splits)
qed

lemma strict_metadata_ok: "strict_metadata metadata = Inr fs \<Longrightarrow> list_all qf_ok fs"
  by (auto simp: strict_metadata_def bind_assess_def note_simps judge_findings_ok dest: probe_findings_ok
      split: sum.splits option.splits)

lemma strict_metadata_error: "strict_metadata metadata = Inl e \<Longrightarrow> e = TypeErrorRaised"
  by (auto simp: strict_metadata_def bind_assess_def dest: probe_findings_error split: sum.splits)

lemma strict_metadata_Nil:
  assumes "strict_metadata metadata = Inr []"
  shows "is_words (get metadata ''scorer_id'')" "is_words (get metadata ''scorer_version_or_digest'')"
    "declared_threshold (get metadata ''pass_threshold'') \<noteq> None"
    "\<exists>cs. get metadata ''calibration_cases'' = PList cs \<and> 6 \<le> length cs"
proof -
  have probes: "probe_findings metadata = Inr []"
    using assms by (cases "probe_findings metadata") (simp_all add: strict_metadata_def)
  then show "\<exists>cs. get metadata ''calibration_cases'' = PList cs \<and> 6 \<le> length cs" by (rule probe_findings_Nil) blast
  show "is_words (get metadata ''scorer_id'')" "is_words (get metadata ''scorer_version_or_digest'')"
    using assms probes by (auto simp: strict_metadata_def split: if_splits)
  show "declared_threshold (get metadata ''pass_threshold'') \<noteq> None"
    using assms probes by (auto simp: strict_metadata_def declared_threshold_def split: if_splits option.splits)
qed

lemma document_scorer_findings_ok: "list_all qf_ok (document_scorer_findings v payload)"
  by (auto simp: document_scorer_findings_def note_simps split: option.splits)

text \<open>The exceptions name their classes.\<close>

definition scorer_error :: "assess_error \<Rightarrow> bool" where
  "scorer_error e = (e = TypeErrorRaised \<or> (\<exists>class. e = LoaderRaised class))"

lemma scorer_metadata_ok:
  "scorer_metadata ev files v = Inr (metadata, fs) \<Longrightarrow> list_all qf_ok fs \<and>
     (fs = [] \<longrightarrow> strict_metadata metadata = Inr [])"
  by (auto simp: scorer_metadata_def bind_assess_def note_simps document_scorer_findings_ok dest: strict_metadata_ok
      split: sum.splits option.splits)

lemma scorer_metadata_error: "scorer_metadata ev files v = Inl e \<Longrightarrow> scorer_error e"
  by (auto simp: scorer_metadata_def bind_assess_def scorer_error_def Let_def dest: strict_metadata_error
      split: sum.splits option.splits)

lemma restated_ok:
  assumes "made_finding f"
  shows "qf_ok \<lparr>qf_code = kf_code f, qf_message = kf_message f, qf_case_id = None, qf_evidence_refs = kf_evidence_refs f\<rparr>"
proof -
  have f: "normalise_finding f = f" "passes (check_finding f)" using assms by (auto simp: made_finding_def)
  then have "trim (kf_code f) = kf_code f" "trim (kf_message f) = kf_message f" by (cases f; simp add: normalise_finding_def)+
  then show ?thesis using f(2) by (simp add: qf_ok_def check_finding_def)
qed

text \<open>A validation is a value, whose blockers become findings, and a passing one has a candidate.\<close>

definition restatable :: "SkillPackageValidation \<Rightarrow> bool" where
  "restatable v \<longleftrightarrow>
     list_all qf_ok (blocker_findings v) \<and> (kv_status v = ValidationPass \<longleftrightarrow> blocker_findings v = [])
     \<and> (kv_status v = ValidationPass \<longrightarrow> kv_candidate v \<noteq> None)
     \<and> (\<forall>c. kv_candidate v = Some c \<longrightarrow> normalise_candidate c = c \<and> passes (check_candidate c))"

lemma moment_outcome:
  assumes "os_package (root_tree (mo_root moment))" "listable (root_tree (mo_root moment))" "loader_returns (el_texts ev)"
  obtains v where "validate_skill_package (el_texts ev) (mo_root moment) revision None = Inr v"
    "moment_validation ev moment revision = Inr v" "restatable v"
proof -
  obtain files identity candidate fs where v: "validate_skill_package (el_texts ev) (mo_root moment) revision None =
      Inr (validated candidate identity files fs)" "list_all made_finding fs"
    "candidate = Some (directory_candidate (root_name (mo_root moment)) revision files) \<or> candidate = None \<and> fs \<noteq> []"
    using validation_total [OF assms] by metis
  let ?v = "validated candidate identity files fs"
  have blockers: "[f \<leftarrow> fs. kf_severity f = ValidationBlocker] = fs"
    using v(2) by (auto simp: list_all_iff made_finding_def intro!: filter_True)
  have "\<forall>c. candidate = Some c \<longrightarrow> normalise_candidate c = c \<and> passes (check_candidate c)"
    using validation_model.validated_passes [OF validated_valid [OF v(1)]]
    by (auto simp: check_validation_def validated_def valid_candidate_normal)
  then have "restatable ?v"
    using v(2,3) restated_ok by (auto simp: restatable_def validated_def blocker_findings_def blockers list_all_iff)
  then show thesis using that v(1) by (simp add: moment_validation_def)
qed

definition scorer_record :: "SkillPackageValidation \<Rightarrow> (string \<times> pyval) list \<Rightarrow> ScenarioQualityFinding list \<Rightarrow> ScorerQualityReceipt" where
  "scorer_record v metadata fs =
     \<lparr>sq_candidate = kv_candidate v, sq_status = (if fs = [] then QualityPass else QualityBlocked),
      sq_scorer_id = text_or_empty (get metadata ''scorer_id''),
      sq_scorer_version_or_digest = text_or_empty (get metadata ''scorer_version_or_digest''),
      sq_parameters = map_option normalise_parameters (declared_parameters (get metadata ''parameters'')),
      sq_pass_threshold = declared_threshold (get metadata ''pass_threshold''),
      sq_calibration_probe_count = (case listing (get metadata ''calibration_cases'') of None \<Rightarrow> 0 | Some cs \<Rightarrow> int (length cs)),
      sq_findings = map normalise_qf fs\<rparr>"

lemma declared_parameters_ok:
  "declared_parameters v = Some p \<Longrightarrow> passes (check_parameters (normalise_parameters p))"
  by (rule valid_parameters_made)

lemma scorer_record_checks:
  assumes v: "restatable v" and fs: "list_all qf_ok fs"
    and none: "fs = [] \<Longrightarrow> kv_candidate v \<noteq> None \<and> strict_metadata metadata = Inr []"
  shows "passes (check_declared (normalise_declared (scorer_record v metadata fs)))"
proof -
  have "\<forall>c. kv_candidate v = Some c \<longrightarrow> normalise_candidate c = c \<and> passes (check_candidate c)" using v by (simp add: restatable_def)
  then have candidate: "passes (opt_checks check_candidate (map_option normalise_candidate (kv_candidate v)))"
    by (cases "kv_candidate v") simp_all
  have parameters: "passes (opt_checks check_parameters
      (map_option normalise_parameters (map_option normalise_parameters (declared_parameters w))))" for w
    using valid_parameters_made by (cases "declared_parameters w") (simp_all add: parameters_model.normalise_idem)
  have threshold: "opt_ok positive_unit (declared_threshold w)" for w
    by (simp add: declared_threshold_def split: option.splits)
  have findings: "\<forall>f \<in> set fs. passes (check_qf (normalise_qf f))" using fs qf_ok_valid by (simp add: list_all_iff)
  show ?thesis
  proof (cases "fs = []")
    case True
    note Nil = none [OF True] strict_metadata_Nil [of metadata]
    obtain cs where cs: "get metadata ''calibration_cases'' = PList cs" "6 \<le> length cs" using Nil by blast
    show ?thesis
      using True Nil cs candidate parameters threshold text_or_empty_text
      by (simp add: check_declared_def normalise_declared_def scorer_record_def)
  next
    case False
    then show ?thesis
      using candidate parameters threshold findings
      by (simp add: check_declared_def normalise_declared_def scorer_record_def split: option.splits)
  qed
qed

lemma scorer_stages:
  assumes v: "moment_validation ev moment revision = Inr v" "restatable v"
    and d: "(if kv_status v = ValidationPass then scorer_metadata ev (mo_files moment) v else Inr ([], [])) = Inr (metadata, declared)"
  defines "r \<equiv> normalise_declared (scorer_record v metadata (blocker_findings v @ declared))"
  shows "assess_scorer_quality ev moment revision = Inr r" "validate_model normalise_declared check_declared r = Inr r"
proof -
  let ?fs = "blocker_findings v @ declared"
  have declared: "list_all qf_ok declared" "kv_status v = ValidationPass \<Longrightarrow> declared = [] \<Longrightarrow> strict_metadata metadata = Inr []"
    using d scorer_metadata_ok by (auto split: if_splits)
  have fs: "list_all qf_ok ?fs" "?fs = [] \<Longrightarrow> kv_candidate v \<noteq> None \<and> strict_metadata metadata = Inr []"
    using v(2) declared by (auto simp: restatable_def)
  have valid: "validate_model normalise_declared check_declared (scorer_record v metadata ?fs) = Inr r"
    using scorer_record_checks [OF v(2) fs] by (simp add: declared_model.validate_ok_iff r_def)
  then show "assess_scorer_quality ev moment revision = Inr r"
    using v(1) d made_findings_ok [OF fs(1)] made_parameters_declared
    by (simp add: assess_scorer_quality_def scorer_record_def)
  show "validate_model normalise_declared check_declared r = Inr r" by (rule declared_model.revalidation_is_identity [OF valid])
qed

text \<open>
  The assessment returns a valid receipt for the candidate of the validation, blocked when that is, or raises
  one of the errors the code does not catch.
\<close>

lemma scorer_total:
  assumes env: "os_package (root_tree (mo_root moment))" "listable (root_tree (mo_root moment))" "loader_returns (el_texts ev)"
  shows "(\<exists>e. assess_scorer_quality ev moment revision = Inl e \<and> scorer_error e)
    \<or> (\<exists>v r. validate_skill_package (el_texts ev) (mo_root moment) revision None = Inr v
        \<and> assess_scorer_quality ev moment revision = Inr r \<and> validate_model normalise_declared check_declared r = Inr r
        \<and> sq_candidate r = kv_candidate v \<and> (kv_status v = ValidationBlocked \<longrightarrow> sq_status r = QualityBlocked))"
proof -
  obtain v where v: "validate_skill_package (el_texts ev) (mo_root moment) revision None = Inr v"
    "moment_validation ev moment revision = Inr v" "restatable v"
    by (rule moment_outcome [OF env, where revision = revision])
  let ?d = "if kv_status v = ValidationPass then scorer_metadata ev (mo_files moment) v else Inr ([], [])"
  show ?thesis
  proof (cases ?d)
    case (Inl e)
    then have "scorer_error e" using scorer_metadata_error by (auto split: if_splits)
    then show ?thesis using Inl v(2) by (simp add: assess_scorer_quality_def)
  next
    case (Inr d)
    obtain metadata declared where d: "?d = Inr (metadata, declared)" using Inr by (cases d) simp
    let ?fs = "blocker_findings v @ declared"
    let ?r = "normalise_declared (scorer_record v metadata ?fs)"
    have "assess_scorer_quality ev moment revision = Inr ?r" "validate_model normalise_declared check_declared ?r = Inr ?r"
      by (rule scorer_stages [OF v(2,3) d])+
    moreover have "sq_candidate ?r = kv_candidate v"
      using v(3) by (cases "kv_candidate v") (simp_all add: normalise_declared_def scorer_record_def restatable_def)
    moreover have "kv_status v = ValidationBlocked \<longrightarrow> sq_status ?r = QualityBlocked"
      using v(3) by (auto simp: normalise_declared_def scorer_record_def restatable_def)
    ultimately show ?thesis using v(1) by blast
  qed
qed

text \<open>A probe type that is a list or a mapping raises, whatever else the case declares correctly.\<close>

lemma unhashable_probe_raises:
  assumes "unhashable probe_type" "get kvs ''expected_score'' = PNone" "get kvs ''expected_label'' = PNone"
  shows "expected_outcome kvs probe_type threshold = Inl TypeErrorRaised"
  using assms by (cases probe_type) (simp_all add: expected_outcome_def Let_def)

end
