(* ===== verification/Calibration_Evidence.thy ===== *)
theory Calibration_Evidence
  imports Scorer_Evidence
begin

text \<open>
  What a held-out calibration guarantees: \<open>calibration_total\<close> says that it returns a valid receipt, unless the
  assessment of the declared scorer raises, and \<open>calibration_pass\<close> says what a passing receipt proves of the
  examples, their raw artifacts and the declared scorer.
\<close>

section \<open>Findings\<close>

lemma calibration_codes:
  "is_blocker_code ''unknown_calibration_bundle_field''" "is_blocker_code ''calibration_bundle_schema_version''"
  "is_blocker_code ''calibration_split_held_out''" "is_blocker_code ''scorer_id_present''"
  "is_blocker_code ''scorer_version_or_digest_present''" "is_blocker_code ''prompt_version_present''"
  "is_blocker_code ''threshold_valid''" "is_blocker_code ''judge_parameters_fields''"
  "is_blocker_code ''judge_parameters_present''" "is_blocker_code ''minimum_examples''"
  "is_blocker_code ''minimum_true_positives''" "is_blocker_code ''minimum_true_negatives''"
  "is_blocker_code ''max_false_positives''" "is_blocker_code ''max_false_negatives''"
  "is_blocker_code ''held_out_example_count''" "is_blocker_code ''true_positive_coverage''"
  "is_blocker_code ''true_negative_coverage''" "is_blocker_code ''false_positive_limit''"
  "is_blocker_code ''false_negative_limit''" "is_blocker_code ''calibration_bundle_parse''"
  "is_blocker_code ''calibration_examples_parse''" "is_blocker_code ''scorer_identity_mismatch''"
  "is_blocker_code ''judge_parameters_mismatch''" "portable CALIBRATION_MANIFEST"
  by code_simp+

lemma manifest_note_ok: "qf_ok (manifest_note c m) \<longleftrightarrow> is_blocker_code c \<and> trim m \<noteq> []"
  by (simp add: manifest_note_def calibration_note_def qf_ok_def portables_iff calibration_codes)

lemmas manifest_simps = manifest_note_ok calibration_codes trim_first unicode_space_def code_def Let_def

lemma mapped_filter: "list_all Q (map f xs) \<Longrightarrow> list_all Q (map f [x \<leftarrow> xs. P x])"
  by (auto simp: list_all_iff)

lemma manifest_findings_ok: "list_all qf_ok (manifest_findings manifest)"
  unfolding manifest_findings_def Let_def list_all_append
  by (intro conjI mapped_filter; simp add: manifest_simps CALIBRATION_LIMITS_def)

lemma unsafe_examples_ok: "qf_ok unsafe_examples"
  by (simp add: unsafe_examples_def manifest_simps)

lemma bundle_manifest_ok: "list_all qf_ok (snd (bundle_manifest lib files v))"
  by (simp add: bundle_manifest_def manifest_simps split: sum.splits)

lemma coverage_findings_ok: "list_all qf_ok (coverage_findings manifest n m)"
  unfolding coverage_findings_def Let_def by (intro mapped_filter; simp add: manifest_simps)

lemma identity_findings_ok: "list_all qf_ok (identity_findings manifest parameters v declared)"
  by (simp add: identity_findings_def manifest_simps)

text \<open>The findings of the examples are those that could be made.\<close>

lemma examined_rows_ok: "list_all qf_valid (snd (examined_rows lib files v manifest))"
  using qf_ok_qf_valid [OF unsafe_examples_ok]
  by (simp add: examined_rows_def Let_def case_prod_unfold made_findings_iff split: option.splits)

lemma examined_rows_Nil:
  assumes "examined_rows lib files v manifest = (rows, [])"
  obtains examples_path raw_dir where "bundle_path (get manifest ''examples_path'') ''examples.jsonl'' = Some examples_path"
    "bundle_path (get manifest ''raw_artifacts_dir'') ''raw'' = Some raw_dir"
    "read_examples lib files v examples_path = (rows, [])" "repeated_example_findings rows examples_path = []"
    "\<forall>row \<in> set rows. artifact_findings lib files v manifest examples_path raw_dir row = []"
  using assms by (auto simp: examined_rows_def Let_def case_prod_unfold split: option.splits if_splits) (metis prod.collapse)

section \<open>A manifest without findings\<close>

definition manifest_limit :: "(string \<times> pyval) list \<Rightarrow> string \<Rightarrow> int \<Rightarrow> int" where
  "manifest_limit manifest k fallback = the (int_value (limit_value manifest k fallback))"

lemma int_at_least_iff: "int_at_least n v \<longleftrightarrow> (\<exists>i. v = PInt i \<and> n \<le> i)"
  by (auto simp: int_at_least_def split: option.splits)

lemma manifest_findings_Nil:
  assumes "manifest_findings manifest = []"
  shows "is_words (get manifest ''scorer_id'')" "is_words (get manifest ''scorer_version_or_digest'')"
    "is_words (get manifest ''prompt_version'')" "declared_threshold (get manifest ''threshold'') \<noteq> None"
    "calibration_parameters manifest \<noteq> None" "get manifest ''split'' = PText ''held_out''"
    "\<forall>(k, fallback, least) \<in> set CALIBRATION_LIMITS. int_at_least least (limit_value manifest k fallback)"
proof -
  show "is_words (get manifest ''scorer_id'')" "is_words (get manifest ''scorer_version_or_digest'')"
    "is_words (get manifest ''prompt_version'')" "declared_threshold (get manifest ''threshold'') \<noteq> None"
    "get manifest ''split'' = PText ''held_out''"
    using assms by (simp_all add: manifest_findings_def Let_def split: if_splits)
  show "\<forall>(k, fallback, least) \<in> set CALIBRATION_LIMITS. int_at_least least (limit_value manifest k fallback)"
    using assms by (simp add: manifest_findings_def Let_def filter_empty_conv case_prod_unfold)
  have "mapping (get manifest ''parameters'') \<noteq> None" "valid_parameters (get manifest ''parameters'')"
    using assms by (auto simp: manifest_findings_def Let_def valid_parameters_def split: if_splits option.splits)
  then show "calibration_parameters manifest \<noteq> None" 
    using declared_parameters_valid by (auto simp: calibration_parameters_def)
qed

lemma applied_limits_ok: "applied_limits manifest = Some p \<Longrightarrow> passes (check_applied p)"
  by (auto simp: applied_limits_def check_applied_def CALIBRATION_LIMITS_def declared_threshold_Some int_at_least_iff Let_def
      split: option.splits if_splits)

lemma manifest_limits:
  assumes "manifest_findings manifest = []"
  obtains p where "applied_limits manifest = Some p" "Some (ca_threshold p) = number_of (get manifest ''threshold'')"
    "ca_minimum_examples p = manifest_limit manifest ''minimum_examples'' 1"
    "ca_minimum_true_positives p = manifest_limit manifest ''minimum_true_positives'' 1"
    "ca_minimum_true_negatives p = manifest_limit manifest ''minimum_true_negatives'' 1"
    "ca_max_false_positives p = manifest_limit manifest ''max_false_positives'' 0"
    "ca_max_false_negatives p = manifest_limit manifest ''max_false_negatives'' 0"
proof -
  obtain t where t: "declared_threshold (get manifest ''threshold'') = Some t"
    using manifest_findings_Nil(4) [OF assms] by blast
  have limits: "(\<exists>(k, fallback, least) \<in> set CALIBRATION_LIMITS. \<not> int_at_least least (limit_value manifest k fallback)) = False"
    using manifest_findings_Nil(7) [OF assms] by (simp add: case_prod_unfold)
  have "applied_limits manifest = Some
     \<lparr>ca_threshold = t, ca_minimum_examples = manifest_limit manifest ''minimum_examples'' 1,
      ca_minimum_true_positives = manifest_limit manifest ''minimum_true_positives'' 1,
      ca_minimum_true_negatives = manifest_limit manifest ''minimum_true_negatives'' 1,
      ca_max_false_positives = manifest_limit manifest ''max_false_positives'' 0,
      ca_max_false_negatives = manifest_limit manifest ''max_false_negatives'' 0\<rparr>"
    unfolding applied_limits_def Let_def limits by (simp add: t manifest_limit_def)
  from that [OF this] show thesis using declared_threshold_Some [of "get manifest ''threshold''" t] t by simp
qed

lemma limit_kinds:
  "\<not> starts_with ''minimum_examples'' ''max_''" "\<not> starts_with ''minimum_true_positives'' ''max_''"
  "\<not> starts_with ''minimum_true_negatives'' ''max_''" "starts_with ''max_false_positives'' ''max_''"
  "starts_with ''max_false_negatives'' ''max_''"
  by code_simp+

lemma coverage_findings_Nil:
  assumes "coverage_findings manifest n m = []" "manifest_findings manifest = []" "applied_limits manifest = Some p"
    "n = cf_tp m + cf_tn m + cf_fp m + cf_fn m"
  shows "\<not> policy_violated p m n" "0 < n"
proof -
  note limits = manifest_findings_Nil(7) [OF assms(2)]
  obtain q where q: "applied_limits manifest = Some q" "ca_minimum_examples q = manifest_limit manifest ''minimum_examples'' 1"
    "ca_minimum_true_positives q = manifest_limit manifest ''minimum_true_positives'' 1"
    "ca_minimum_true_negatives q = manifest_limit manifest ''minimum_true_negatives'' 1"
    "ca_max_false_positives q = manifest_limit manifest ''max_false_positives'' 0"
    "ca_max_false_negatives q = manifest_limit manifest ''max_false_negatives'' 0"
    by (rule manifest_limits [OF assms(2)])
  have p: "p = q" using assms(3) q(1) by simp
  obtain a b c d e where at: "limit_value manifest ''minimum_examples'' 1 = PInt a" "1 \<le> a"
    "limit_value manifest ''minimum_true_positives'' 1 = PInt b" "limit_value manifest ''minimum_true_negatives'' 1 = PInt c"
    "limit_value manifest ''max_false_positives'' 0 = PInt d" "limit_value manifest ''max_false_negatives'' 0 = PInt e"
    using limits by (auto simp: CALIBRATION_LIMITS_def int_at_least_iff)
  have "a \<le> n \<and> b \<le> cf_tp m \<and> c \<le> cf_tn m \<and> cf_fp m \<le> d \<and> cf_fn m \<le> e"
    using assms(1) by (simp add: coverage_findings_def at(1,3-) limit_kinds filter_empty_conv not_less split: if_splits)
  then show "\<not> policy_violated p m n" "0 < n"
    using assms(4) at(2) by (auto simp: policy_violated_def p q(2-) manifest_limit_def at(1,3-))
qed

section \<open>The receipt\<close>

text \<open>The receipt of a validation, a manifest, its rows and the findings, as it is handed to the model.\<close>

definition calibration_record :: "SkillPackageValidation \<Rightarrow> (string \<times> pyval) list \<Rightarrow> (string \<times> pyval) list list
    \<Rightarrow> ScenarioQualityFinding list \<Rightarrow> ScorerCalibrationReceipt" where
  "calibration_record v manifest rows fs =
     \<lparr>sc_candidate = kv_candidate v, sc_status = (if fs = [] then QualityPass else QualityBlocked),
      sc_scorer_id = text_or_empty (get manifest ''scorer_id''),
      sc_scorer_version_or_digest = text_or_empty (get manifest ''scorer_version_or_digest''),
      sc_prompt_version = text_or_empty (get manifest ''prompt_version''),
      sc_parameters = map_option normalise_parameters (calibration_parameters manifest), sc_example_count = int (length rows),
      sc_effective_policy = applied_limits manifest, sc_confusion_matrix = confusion rows,
      sc_metrics = calibration_rates (confusion rows), sc_findings = map normalise_qf fs\<rparr>"

lemma count_matrix:
  "cf_tp (confusion rows) + cf_tn (confusion rows) + cf_fp (confusion rows) + cf_fn (confusion rows) = int (length rows)"
  if "\<forall>row \<in> set rows. row_findings row path = []"
proof (rule confusion_total)
  show "\<forall>row \<in> set rows. text_in {''pass'', ''fail''} (get row ''expected_label'') \<and> text_in {''pass'', ''fail''} (get row ''predicted_label'')"
    using that by (auto simp: row_findings_def Let_def split: if_splits)
qed

lemma artifact_row: "artifact_findings lib files v manifest path raw_dir row = [] \<Longrightarrow> row_findings row path = []"
  by (simp add: artifact_findings_def)

lemma calibration_checks_parts:
  assumes v: "restatable v" and fs: "list_all qf_valid fs"
  shows "passes (opt_checks check_candidate (map_option normalise_candidate (kv_candidate v)))"
    "passes (opt_checks check_parameters (map_option normalise_parameters
       (map_option normalise_parameters (calibration_parameters manifest))))"
    "passes (opt_checks check_applied (applied_limits manifest))" "passes (check_matrix (confusion rows))"
    "passes (check_rates (calibration_rates (confusion rows)))" "\<forall>f \<in> set fs. passes (check_qf (normalise_qf f))"
proof -
  have "\<forall>c. kv_candidate v = Some c \<longrightarrow> normalise_candidate c = c \<and> passes (check_candidate c)" using v by (simp add: restatable_def)
  then show "passes (opt_checks check_candidate (map_option normalise_candidate (kv_candidate v)))"
    by (cases "kv_candidate v") simp_all
  show "passes (opt_checks check_parameters (map_option normalise_parameters
       (map_option normalise_parameters (calibration_parameters manifest))))"
    using valid_parameters_made [of "get manifest ''parameters''"]
    by (cases "declared_parameters (get manifest ''parameters'')")
      (simp_all add: calibration_parameters_def parameters_model.normalise_idem)
  show "passes (opt_checks check_applied (applied_limits manifest))"
    using applied_limits_ok [of manifest] by (cases "applied_limits manifest") simp_all
  show "passes (check_matrix (confusion rows))" by (rule confusion_ok)
  show "passes (check_rates (calibration_rates (confusion rows)))" by (rule rates_ok [OF confusion_ok])
  show "\<forall>f \<in> set fs. passes (check_qf (normalise_qf f))" using fs by (simp add: list_all_iff qf_valid_def)
qed

text \<open>A receipt without findings satisfies its own policy.\<close>

definition clean_calibration :: "calibration_library \<Rightarrow> package_files \<Rightarrow> SkillPackageValidation \<Rightarrow> (string \<times> pyval) list
    \<Rightarrow> (string \<times> pyval) list list \<Rightarrow> bool" where
  "clean_calibration lib files v manifest rows \<longleftrightarrow>
     kv_status v = ValidationPass \<and> kv_candidate v \<noteq> None \<and> manifest_findings manifest = []
     \<and> examined_rows lib files v manifest = (rows, [])
     \<and> coverage_findings manifest (int (length rows)) (confusion rows) = []"

lemma calibration_record_checks:
  assumes v: "restatable v" and fs: "list_all qf_valid fs"
    and none: "fs = [] \<Longrightarrow> clean_calibration lib files v manifest rows"
  shows "passes (check_calibration (normalise_calibration (calibration_record v manifest rows fs)))"
proof (cases "fs = []")
  case True
  note clean = none [OF True, unfolded clean_calibration_def]
  then have m: "manifest_findings manifest = []" and c: "coverage_findings manifest (int (length rows)) (confusion rows) = []" by simp_all
  obtain path raw_dir where "\<forall>row \<in> set rows. artifact_findings lib files v manifest path raw_dir row = []"
    using clean by (elim conjE examined_rows_Nil)
  then have n: "int (length rows) = cf_tp (confusion rows) + cf_tn (confusion rows) + cf_fp (confusion rows) + cf_fn (confusion rows)"
    using count_matrix artifact_row by metis
  obtain p where p: "applied_limits manifest = Some p" by (rule manifest_limits [OF m])
  note policy = coverage_findings_Nil [OF c m p n]
  show ?thesis
    using True clean p policy calibration_checks_parts [OF v fs] manifest_findings_Nil [OF m] text_or_empty_text
    by (simp add: check_calibration_def calibration_status_matches_def normalise_calibration_def calibration_record_def)
next
  case False
  then show ?thesis
    using calibration_checks_parts [OF v fs]
    by (simp add: check_calibration_def calibration_status_matches_def normalise_calibration_def calibration_record_def)
qed

section \<open>The assessment\<close>

definition calibration_view :: "calibration_library \<Rightarrow> package_files \<Rightarrow> SkillPackageValidation
    \<Rightarrow> (string \<times> pyval) list \<times> (string \<times> pyval) list list \<times> ScenarioQualityFinding list" where
  "calibration_view lib files v =
     (if kv_status v = ValidationPass then
        let (manifest, unread) = bundle_manifest lib files v; (rows, examined) = examined_rows lib files v manifest in
        (manifest, rows, unread @ manifest_findings manifest @ examined)
      else ([], [], []))"

lemma calibration_view_ok: "calibration_view lib files v = (manifest, rows, found) \<Longrightarrow> list_all qf_valid found"
  using list_qf_valid [OF bundle_manifest_ok [of lib files v]] list_qf_valid [OF manifest_findings_ok [of manifest]]
    examined_rows_ok [of lib files v manifest]
  by (auto simp: calibration_view_def Let_def split: if_splits prod.splits)

lemma calibration_view_clean:
  assumes "calibration_view lib files v = (manifest, rows, [])" "kv_status v = ValidationPass"
  shows "manifest_findings manifest = []" "examined_rows lib files v manifest = (rows, [])"
  using assms by (auto simp: calibration_view_def Let_def split: prod.splits)

definition bound_findings :: "calibration_library \<Rightarrow> package_moment \<Rightarrow> string \<Rightarrow> SkillPackageValidation \<Rightarrow> (string \<times> pyval) list
    \<Rightarrow> ScenarioQualityFinding list assess" where
  "bound_findings lib second revision v manifest =
     (if kv_status v = ValidationPass then
        bind_assess (assess_scorer_quality (ci_evals lib) second revision) (\<lambda>declared.
          Inr (identity_findings manifest (map_option normalise_parameters (calibration_parameters manifest)) v declared))
      else Inr [])"

lemma assess_view:
  assumes "moment_validation (ci_evals lib) first revision = Inr v" "calibration_view lib (mo_files first) v = (manifest, rows, found)"
  shows "assess_scorer_calibration lib first second revision =
     bind_assess (bound_findings lib second revision v manifest) (\<lambda>bound.
     bind_assess (lift_assess (made_findings (blocker_findings v @ found
         @ coverage_findings manifest (int (length rows)) (confusion rows) @ bound))) (\<lambda>fs.
       lift_assess (validate_model normalise_calibration check_calibration
         ((calibration_record v manifest rows [])\<lparr>sc_status := if fs = [] then QualityPass else QualityBlocked, sc_findings := fs\<rparr>))))"
  using assms made_parameters_declared [of "get manifest ''parameters''"]
  by (cases "kv_status v = ValidationPass")
    (auto simp: assess_scorer_calibration_def calibration_view_def bound_findings_def calibration_record_def
      calibration_parameters_def made_parameters_def Let_def split: prod.splits)

text \<open>Either the declared scorer raises, or the receipt is valid; without findings everything that was read is clean.\<close>

lemma calibration_outcome:
  assumes env: "os_package (root_tree (mo_root first))" "listable (root_tree (mo_root first))" "loader_returns (el_texts (ci_evals lib))"
  obtains (raised) e where "assess_scorer_calibration lib first second revision = Inl e"
      "assess_scorer_quality (ci_evals lib) second revision = Inl e"
  | (returned) v manifest rows fs where
      "validate_skill_package (el_texts (ci_evals lib)) (mo_root first) revision None = Inr v" "restatable v"
      "assess_scorer_calibration lib first second revision = Inr (normalise_calibration (calibration_record v manifest rows fs))"
      "fs = [] \<Longrightarrow> clean_calibration lib (mo_files first) v manifest rows"
      "fs = [] \<Longrightarrow> bound_findings lib second revision v manifest = Inr []" "kv_status v = ValidationBlocked \<Longrightarrow> fs \<noteq> []"
proof -
  obtain v where v: "validate_skill_package (el_texts (ci_evals lib)) (mo_root first) revision None = Inr v"
    "moment_validation (ci_evals lib) first revision = Inr v" "restatable v"
    by (rule moment_outcome [OF env, where revision = revision])
  obtain manifest rows found where view: "calibration_view lib (mo_files first) v = (manifest, rows, found)"
    by (cases "calibration_view lib (mo_files first) v") simp
  note stages = assess_view [OF v(2) view, of second]
  show thesis
  proof (cases "bound_findings lib second revision v manifest")
    case (Inl e)
    then show thesis using raised [of e] stages by (auto simp: bound_findings_def bind_assess_Inl_iff split: if_splits)
  next
    case (Inr bound)
    let ?fs = "blocker_findings v @ found @ coverage_findings manifest (int (length rows)) (confusion rows) @ bound"
    have bound: "list_all qf_ok bound"
      using Inr identity_findings_ok by (auto simp: bound_findings_def bind_assess_Inr_iff split: if_splits)
    have fs: "list_all qf_valid ?fs"
      using v(3) calibration_view_ok [OF view] list_qf_valid [OF bound] list_qf_valid [OF coverage_findings_ok] list_qf_valid
      by (simp add: restatable_def)
    have clean: "clean_calibration lib (mo_files first) v manifest rows" if none: "?fs = []"
    proof -
      have pass: "kv_status v = ValidationPass" "kv_candidate v \<noteq> None" using none v(3) by (simp_all add: restatable_def)
      have "found = []" using none by simp
      then show ?thesis using pass none calibration_view_clean [OF view [unfolded \<open>found = []\<close>] pass(1)] by (simp add: clean_calibration_def)
    qed
    have "validate_model normalise_calibration check_calibration (calibration_record v manifest rows ?fs)
        = Inr (normalise_calibration (calibration_record v manifest rows ?fs))"
      using calibration_record_checks [OF v(3) fs clean] by (simp add: calibration_model.validate_ok_iff)
    moreover have "(calibration_record v manifest rows [])\<lparr>sc_status := if map normalise_qf ?fs = [] then QualityPass else QualityBlocked,
        sc_findings := map normalise_qf ?fs\<rparr> = calibration_record v manifest rows ?fs"
      unfolding calibration_record_def map_is_Nil_conv by simp
    ultimately have "assess_scorer_calibration lib first second revision = Inr (normalise_calibration (calibration_record v manifest rows ?fs))"
      using stages Inr made_findings_Inr [OF fs] by (simp del: map_append append_is_Nil_conv)
    moreover have "kv_status v = ValidationBlocked \<Longrightarrow> ?fs \<noteq> []" using v(3) by (auto simp: restatable_def)
    moreover have "?fs = [] \<Longrightarrow> bound_findings lib second revision v manifest = Inr []" using Inr by simp
    ultimately show thesis using returned [OF v(1,3)] clean by blast
  qed
qed

section \<open>What a calibration says\<close>

lemma calibration_valid:
  assumes "assess_scorer_calibration lib first second revision = Inr r"
  shows "validate_model normalise_calibration check_calibration r = Inr r"
proof -
  obtain raw where "lift_assess (validate_model normalise_calibration check_calibration raw) = Inr r"
    using assms unfolding assess_scorer_calibration_def Let_def case_prod_unfold bind_assess_Inr_iff by blast
  then show ?thesis
    by (cases "validate_model normalise_calibration check_calibration raw") (auto dest: calibration_model.revalidation_is_identity)
qed

text \<open>A held-out row: its label follows from its score and the threshold, and its raw artifact says the same.\<close>

definition held_out_row :: "calibration_library \<Rightarrow> package_files \<Rightarrow> SkillPackageValidation \<Rightarrow> (string \<times> pyval) list \<Rightarrow> string
    \<Rightarrow> (string \<times> pyval) list \<Rightarrow> bool" where
  "held_out_row lib files v manifest raw_dir row \<longleftrightarrow>
     (\<exists>threshold score path raw.
        number_of (get manifest ''threshold'') = Some threshold \<and> number_of (get row ''score'') = Some score \<and> unit_interval score
        \<and> get row ''expected_label'' \<in> {PText ''pass'', PText ''fail''}
        \<and> get row ''predicted_label'' = PText (score_label threshold score)
        \<and> raw_artifact lib files v row raw_dir = Inr (path, raw)
        \<and> list_all (\<lambda>k. py_equal (get raw k) (get row k)) [''id'', ''predicted_label'', ''score'']
        \<and> py_equal (get raw ''scorer_id'') (get manifest ''scorer_id''))"

lemma artifact_findings_Nil:
  assumes "artifact_findings lib files v manifest path raw_dir row = []" "declared_threshold (get manifest ''threshold'') = Some threshold"
  shows "held_out_row lib files v manifest raw_dir row"
proof -
  have t: "number_of (get manifest ''threshold'') = Some threshold" using assms(2) by (simp add: declared_threshold_Some)
  note row = artifact_row [OF assms(1)]
  obtain score where score: "number_of (get row ''score'') = Some score" "unit_interval score"
    using row by (auto simp: row_findings_def Let_def split: option.splits if_splits)
  have labels: "get row ''expected_label'' \<in> {PText ''pass'', PText ''fail''}"
    using row by (auto simp: row_findings_def text_in_def Let_def split: option.splits if_splits)
  have predicted: "get row ''predicted_label'' = PText (score_label threshold score)"
    using assms(1) t score by (simp add: artifact_findings_def split: if_splits)
  obtain found raw where raw: "raw_artifact lib files v row raw_dir = Inr (found, raw)"
    using assms(1) by (cases "raw_artifact lib files v row raw_dir") (auto simp: artifact_findings_def)
  then have "list_all (\<lambda>k. py_equal (get raw k) (get row k)) [''id'', ''predicted_label'', ''score'']"
    "py_equal (get raw ''scorer_id'') (get manifest ''scorer_id'')"
    using assms(1) by (simp_all add: artifact_findings_def split: if_splits)
  then show ?thesis using t score labels predicted raw unfolding held_out_row_def by blast
qed

text \<open>The declared scorer a passing calibration is bound to.\<close>

definition bound_to :: "ScorerCalibrationReceipt \<Rightarrow> ScorerQualityReceipt \<Rightarrow> bool" where
  "bound_to r declared \<longleftrightarrow>
     sq_status declared = QualityPass \<and> sq_candidate declared = sc_candidate r
     \<and> sc_scorer_id r = trim (sq_scorer_id declared)
     \<and> sc_scorer_version_or_digest r = trim (sq_scorer_version_or_digest declared)
     \<and> sq_pass_threshold declared = map_option ca_threshold (sc_effective_policy r)"

lemma text_or_empty_PText [simp]: "text_or_empty (PText s) = s"
  by (cases s) (simp_all add: text_or_empty_def)

lemma calibration_pass:
  assumes env: "os_package (root_tree (mo_root first))" "listable (root_tree (mo_root first))" "loader_returns (el_texts (ci_evals lib))"
    and r: "assess_scorer_calibration lib first second revision = Inr r" "sc_status r = QualityPass"
  obtains v manifest examples_path raw_dir rows p declared where
    "validate_skill_package (el_texts (ci_evals lib)) (mo_root first) revision None = Inr v" "kv_status v = ValidationPass"
    "sc_candidate r = kv_candidate v" "get manifest ''split'' = PText ''held_out''"
    "read_examples lib (mo_files first) v examples_path = (rows, [])" "repeated_example_findings rows examples_path = []"
    "list_all (held_out_row lib (mo_files first) v manifest raw_dir) rows"
    "sc_example_count r = int (length rows)" "sc_confusion_matrix r = confusion rows" "sc_effective_policy r = Some p"
    "\<not> policy_violated p (confusion rows) (int (length rows))"
    "assess_scorer_quality (ci_evals lib) second revision = Inr declared" "bound_to r declared"
proof (rule calibration_outcome [OF env, of second revision])
  fix v manifest rows fs
  assume v: "validate_skill_package (el_texts (ci_evals lib)) (mo_root first) revision None = Inr v" "restatable v"
    and assessed: "assess_scorer_calibration lib first second revision = Inr (normalise_calibration (calibration_record v manifest rows fs))"
    and none: "fs = [] \<Longrightarrow> clean_calibration lib (mo_files first) v manifest rows"
      "fs = [] \<Longrightarrow> bound_findings lib second revision v manifest = Inr []"
  have req: "r = normalise_calibration (calibration_record v manifest rows fs)" using r(1) assessed by simp
  then have fs: "fs = []" using r(2) by (auto simp: normalise_calibration_def calibration_record_def split: if_splits)
  note clean = none(1) [OF fs, unfolded clean_calibration_def]
  then have pass: "kv_status v = ValidationPass" and m: "manifest_findings manifest = []"
    and c: "coverage_findings manifest (int (length rows)) (confusion rows) = []" by simp_all
  obtain path raw_dir where ex: "read_examples lib (mo_files first) v path = (rows, [])" "repeated_example_findings rows path = []"
    "\<forall>row \<in> set rows. artifact_findings lib (mo_files first) v manifest path raw_dir row = []"
    using clean by (elim conjE examined_rows_Nil)
  obtain threshold where t: "declared_threshold (get manifest ''threshold'') = Some threshold" using manifest_findings_Nil(4) [OF m] by blast
  have held: "list_all (held_out_row lib (mo_files first) v manifest raw_dir) rows"
    using ex(3) artifact_findings_Nil [OF _ t] by (auto simp: list_all_iff)
  have n: "int (length rows) = cf_tp (confusion rows) + cf_tn (confusion rows) + cf_fp (confusion rows) + cf_fn (confusion rows)"
    using count_matrix artifact_row ex(3) by metis
  obtain p where p: "applied_limits manifest = Some p" "Some (ca_threshold p) = number_of (get manifest ''threshold'')"
    by (rule manifest_limits [OF m])
  obtain declared where d: "assess_scorer_quality (ci_evals lib) second revision = Inr declared"
    "identity_findings manifest (map_option normalise_parameters (calibration_parameters manifest)) v declared = []"
    using none(2) [OF fs] pass by (auto simp: bound_findings_def bind_assess_Inr_iff)
  have candidate: "sc_candidate r = kv_candidate v"
    using v(2) by (cases "kv_candidate v") (auto simp: req normalise_calibration_def calibration_record_def restatable_def)
  have "bound_to r declared"
    using d(2) p candidate
    by (auto simp: bound_to_def identity_findings_def req normalise_calibration_def calibration_record_def split: if_splits)
  then show thesis
    using that [OF v(1) pass candidate manifest_findings_Nil(6) [OF m] ex(1,2) held _ _ _ coverage_findings_Nil(1) [OF c m p(1) n] d(1)] p
    by (simp add: req normalise_calibration_def calibration_record_def)
qed (use r in simp)

end
