(* ===== verification/Demo_Quality.thy ===== *)
theory Demo_Quality
  imports Demo_Safety Calibration_Evidence
begin

text \<open>
  A package whose evaluations pass, for the witnesses: the skill of \<open>Demo_Safety\<close> with ten scenario cases, a
  declared scorer, and a held-out calibration bundle of two examples. The files hold one byte each; the
  decoder, the YAML parser and the JSON scanner of the library give them their contents.
\<close>

section \<open>The tree\<close>

definition quality_listing :: "(file_name \<times> Package_Scan.node) list" where
  "quality_listing =
     [(Name ''SKILL.md'', RegularFile [1] True), (Name ''README.md'', RegularFile [2] True),
      (Name ''references'', Directory (Some
        [(Name ''evals.yaml'', RegularFile [3] True),
         (Name ''scorer-calibration'', Directory (Some
           [(Name ''manifest.json'', RegularFile [4] True), (Name ''examples.jsonl'', RegularFile [5] True),
            (Name ''raw'', Directory (Some
              [(Name ''a.json'', RegularFile [6] True), (Name ''b.json'', RegularFile [7] True)]) False)]) False)]) False)]"

definition quality_captured :: "(string \<times> byte list) list" where
  "quality_captured =
     [(''README.md'', [2]), (''SKILL.md'', [1]), (''references/evals.yaml'', [3]),
      (''references/scorer-calibration/examples.jsonl'', [5]), (''references/scorer-calibration/manifest.json'', [4]),
      (''references/scorer-calibration/raw/a.json'', [6]), (''references/scorer-calibration/raw/b.json'', [7])]"

definition quality_tree :: package_tree where
  "quality_tree = OpenedRoot (Some quality_listing) False"

definition quality_root :: package_root where
  "quality_root = \<lparr>root_name = Name ''demo'', root_is_directory = True, root_has_skill_md = True, root_tree = quality_tree\<rparr>"

definition quality_files :: "PackageManifestFile list" where
  "quality_files = map file_record quality_captured"

definition quality_texts :: text_library where
  "quality_texts = demo_texts_library\<lparr>tl_decode := (\<lambda>b.
     if b = [3] then Some ''evals'' else if b = [4] then Some ''manifest'' else if b = [5] then Some (''a'' @ CHR 0x0A # ''b'')
     else if b = [6] then Some ''raw a'' else if b = [7] then Some ''raw b'' else Some demo_matter)\<rparr>"

lemma quality_tree_os: "os_package (root_tree quality_root)" "listable (root_tree quality_root)"
  by (simp_all add: quality_root_def quality_tree_def quality_listing_def os_name_def)

lemma quality_loader: "loader_returns quality_texts"
  using demo_loader by (simp add: loader_returns_def quality_texts_def)

lemma quality_visit:
  "visit default_skill_policy [] 0 (Directory (Some quality_listing) False) = map (\<lambda>(p, b). Captured p b) quality_captured"
  by code_simp

lemma quality_portable: "list_all (\<lambda>(p, b). portable p) quality_captured" "sorted (map fst quality_captured)"
  "distinct (map fst quality_captured)"
  by code_simp+

lemma gather_captures:
  "list_all (\<lambda>(p, b). portable p) cs \<Longrightarrow> gather (map (\<lambda>(p, b). Captured p b) cs) = Inr (map file_record cs, [], cs)"
proof (induction cs)
  case (Cons c cs)
  obtain p b where c: "c = (p, b)" by (cases c)
  then have "validate_model normalise_file check_file (file_record (p, b)) = Inr (file_record (p, b))"
    using Cons.prems by (simp add: file_record_Inr)
  then show ?case using Cons c by simp
qed simp

lemma quality_scan: "scan_files quality_tree default_skill_policy = Inr (quality_files, [], quality_captured)"
proof -
  have "map mf_path (map file_record cs) = map fst cs" for cs by (induction cs) (simp_all add: file_record_def case_prod_unfold)
  then have "map mf_path quality_files = map fst quality_captured" by (simp only: quality_files_def)
  then have "sort_key mf_path quality_files = quality_files"
    using quality_portable(2) by (simp add: sort_key_id_if_sorted)
  then show ?thesis
    using gather_captures [OF quality_portable(1)] quality_visit by (simp add: scan_files_def quality_tree_def quality_files_def)
qed

lemma quality_identity_read:
  "captured_skill_identity quality_texts (Name ''demo'') (Some [1]) default_skill_policy = Inr (Some demo_skill, [])"
proof -
  have same: "tl_load quality_texts = tl_load demo_texts_library" "tl_decode quality_texts [1] = tl_decode demo_texts_library [1]"
    by (simp_all add: quality_texts_def demo_texts_library_def)
  have "captured_skill_identity quality_texts (Name ''demo'') (Some [1]) default_skill_policy
     = captured_skill_identity demo_texts_library (Name ''demo'') (Some [1]) default_skill_policy"
    unfolding captured_skill_identity_def option.case same ..
  then show ?thesis using demo_identity_read by simp
qed

lemma quality_accepted:
  "accepted_root quality_texts quality_root default_skill_policy quality_files (Some demo_skill) quality_captured"
proof -
  have "map_of quality_captured ''SKILL.md'' = Some [1]" by code_simp
  moreover have "package_policy_observations quality_texts quality_captured default_skill_policy = []"
    by (simp add: package_policy_observations_def default_skill_policy_def)
  ultimately show ?thesis
    using quality_scan quality_identity_read demo_texts(1) by (simp add: accepted_root_def quality_root_def)
qed

definition quality_candidate :: PackageCandidateIdentity where
  "quality_candidate = directory_candidate (Name ''demo'') demo_revision quality_files"

lemma quality_candidate_id: "package_id quality_candidate = ''demo''"
  using demo_texts(1) by (simp add: quality_candidate_def directory_candidate_def candidate_package_id_def is_identifier_def Let_def)

text \<open>The package validates, with its seven files.\<close>

definition quality_validation :: SkillPackageValidation where
  "quality_validation = validated (Some quality_candidate) (Some demo_skill) quality_files []"

lemma quality_validated: "validate_skill_package quality_texts quality_root demo_revision None = Inr quality_validation"
proof -
  have policy: "policy_ok (active_policy None)" "active_policy None = default_skill_policy"
    by (simp_all add: active_policy_def policy_ok_def default_skill_policy_def)
  have passing: "passing quality_texts quality_root demo_revision None quality_files (Some demo_skill)"
    using policy demo_revision_ok quality_accepted unfolding passing_def by auto
  have "root_observations (Name ''demo'') = []" using demo_texts(1) by (simp add: root_observations_def)
  then have "inspect_root quality_texts quality_root (active_policy None) = Inr (quality_files, [], Some demo_skill)"
    using quality_accepted policy(2) by (auto simp: inspect_root_def accepted_root_def quality_root_def findings_of_def)
  from validate_policy_ok [OF policy(1) quality_tree_os(1) this, of demo_revision] passing demo_revision_ok show ?thesis
    by (metis quality_validation_def quality_candidate_def quality_root_def package_root.select_convs(1))
qed

section \<open>The scenarios\<close>

text \<open>The events of a value written without aliases and tags.\<close>

fun node_of :: "pyval \<Rightarrow> yaml_node" where
  "node_of (PList xs) = Sequence (map node_of xs)"
| "node_of (PDict kvs) = Mapping (map (\<lambda>(k, v). (Scalar (Inr (PText k)), node_of v)) kvs)"
| "node_of v = Scalar (Inr v)"

definition quality_case :: "string \<Rightarrow> string \<Rightarrow> pyval" where
  "quality_case name category =
     PDict [(''id'', PText name), (''category'', PText category), (''unit'', PText ''u''), (''given'', PText ''g''),
       (''should'', PText ''s''), (''why_realistic'', PText ''w''), (''prompt'', PText ''p''), (''reproduce'', PText ''r''),
       (''realistic'', PBool True), (''eval_modes'', PList [PText ''release'']),
       (''deterministic_checks'', PDict [(''forbidden_commands'', PList [])]),
       (''acceptance'', PList [PDict [(''type'', PText ''contains''), (''value'', PText ''x'')]])]"

definition quality_ids :: "string list" where
  "quality_ids = [''c1'', ''c2'', ''c3'', ''c4'', ''c5'', ''c6'', ''c7'', ''c8'', ''c9'', ''c10'']"

definition quality_cases :: "pyval list" where
  "quality_cases = map (\<lambda>i. quality_case i (if i = ''c1'' then ''negative'' else ''pressure'')) quality_ids"

definition calibration_case :: "string \<Rightarrow> string \<Rightarrow> pyval" where
  "calibration_case name kind =
     PDict ([(''id'', PText name), (''probe_type'', PText kind),
        (''expected_label'', PText (if kind = ''obvious_correct'' then ''pass'' else ''fail'')),
        (''expected_score'', PFloat (Some (if kind = ''obvious_correct'' then 1 else 0)) (if kind = ''obvious_correct'' then ''1.0'' else ''0.0''))]
       @ (if kind = ''short_correct_vs_verbose_wrong'' then [(''expected_direction'', PText ''short_correct_wins'')] else []))"

definition quality_scorer :: pyval where
  "quality_scorer =
     PDict [(''schema_version'', PText ''skills-sdk.scorer-quality.v1''), (''scorer_id'', PText ''s''),
       (''scorer_type'', PText ''deterministic''), (''scope'', PText ''suite''), (''scorer_version_or_digest'', PText ''1''),
       (''pass_threshold'', PFloat (Some (1 / 2)) ''0.5''), (''deterministic_checks_first'', PBool True),
       (''segmentation_fields'', PList [PText ''category'', PText ''claim_ids'', PText ''eval_modes'']),
       (''calibration_cases'', PList
          [calibration_case ''p1'' ''obvious_correct'', calibration_case ''p2'' ''obvious_wrong'',
           calibration_case ''p3'' ''short_correct_vs_verbose_wrong'', calibration_case ''p4'' ''rubric_copying_rejected'',
           calibration_case ''p5'' ''skill_name_mention_not_enough'', calibration_case ''p6'' ''evidence_lane_overclaim_rejected''])]"

definition quality_document :: "(string \<times> pyval) list" where
  "quality_document =
     [(''schema_version'', PText ''2.0''), (''skill_name'', PText ''demo''), (''scorer_quality'', quality_scorer),
      (''release_scenario_sets'', PList [PDict [(''id'', PText ''active''), (''minimum_scenarios'', PInt 10),
          (''target_scenarios'', PInt 10), (''maximum_scenarios'', PInt 10), (''cases'', PList (map PText quality_ids))]]),
      (''cases'', PList quality_cases)]"

fun plain_value :: "pyval \<Rightarrow> bool" where
  "plain_value (PList xs) = list_all plain_value xs"
| "plain_value (PDict kvs) = (distinct (map fst kvs) \<and> list_all (\<lambda>(k, v). plain_value v) kvs)"
| "plain_value v = True"

fun weight :: "pyval \<Rightarrow> int" where
  "weight (PList xs) = 1 + sum_list (map weight xs)"
| "weight (PDict kvs) = 1 + sum_list (map (\<lambda>(k, v). 1 + weight v) kvs)"
| "weight v = 1"

lemma value_of_node_of: "value_of (node_of v) = v"
  by (induction v rule: node_of.induct) (auto simp: comp_def case_prod_unfold intro!: map_idI)

lemma pairs_plain: "distinct (map fst kvs) \<Longrightarrow> fst ` set kvs \<inter> set seen = {} \<Longrightarrow> \<forall>kv \<in> set kvs. eager_error (node_of (snd kv)) = None \<Longrightarrow>
    pairs_error seen (map (\<lambda>(k, v). (Scalar (Inr (PText k)), node_of v)) kvs) = None"
  by (induction kvs arbitrary: seen) auto

lemma eager_plain: "plain_value v \<Longrightarrow> eager_error (node_of v) = None"
  by (induction v rule: node_of.induct) (auto simp: list_all_iff intro!: pairs_plain)

lemma deferred_plain: "plain_value v \<Longrightarrow> n \<in> set (deferred (node_of v)) \<Longrightarrow> \<exists>w. plain_value w \<and> n = node_of w"
  by (induction v rule: node_of.induct) (fastforce simp: list_all_iff)+

lemma first_error_plain: "\<forall>n \<in> set ns. \<exists>v. plain_value v \<and> n = node_of v \<Longrightarrow> first_error ns = None"
proof (induction ns rule: first_error.induct)
  case (1 ns)
  have "first_some (map eager_error ns) = None"
    using "1.prems" eager_plain by (induction ns) auto
  moreover have "\<forall>n \<in> set (concat (map deferred ns)). \<exists>v. plain_value v \<and> n = node_of v"
    using "1.prems" deferred_plain by fastforce
  ultimately show ?case using "1.IH" by (simp add: first_error.simps [of ns])
qed

lemma nodes_node_of: "plain_nodes (nodes (node_of v)) \<and> int (length (nodes (node_of v))) = weight v"
proof (induction v rule: node_of.induct)
  case (1 xs)
  then show ?case
    by (induction xs) (auto simp: nodes.simps [of "Sequence ns" for ns])
next
  case (2 kvs)
  have "\<forall>kv \<in> set kvs. plain_nodes (nodes (node_of (snd kv))) \<and> int (length (nodes (node_of (snd kv)))) = weight (snd kv)"
    using 2 by auto
  then show ?case
    by (induction kvs) (auto simp: nodes.simps [of "Mapping ns" for ns] nodes.simps [of "Scalar r" for r])
qed (simp_all add: nodes.simps [of "Scalar r" for r])

lemma fits_mono: "fits d n \<Longrightarrow> d \<le> e \<Longrightarrow> fits e n"
proof (induction d arbitrary: n e)
  case (Suc d)
  then show ?case by (cases e) (auto simp: list_all_iff)
qed simp

lemma plain_loads:
  assumes "plain_value v" "weight v \<le> 20000" "fits (Suc (Suc (Suc (Suc (Suc (Suc (Suc (Suc 0)))))))) (node_of v)"
  shows "closed_load (OneDocument (node_of v) None) = Inr v"
proof -
  have "fits MAX_YAML_DEPTH (node_of v)" by (rule fits_mono [OF assms(3)]) (simp add: MAX_YAML_DEPTH_def)
  moreover have "length (nodes (node_of v)) \<le> MAX_YAML_NODES" using nodes_node_of [of v] assms(2) by (simp add: MAX_YAML_NODES_def)
  ultimately obtain m where "compose 0 0 (node_of v) = Inr m" using compose_document nodes_node_of by blast
  moreover have "first_error [node_of v] = None" using assms(1) by (intro first_error_plain) auto
  then have "construct (node_of v) = Inr v" by (simp add: construct_def value_of_node_of)
  ultimately show ?thesis by simp
qed

lemma quality_loads: "closed_load (OneDocument (node_of (PDict quality_document)) None) = Inr (PDict quality_document)"
proof (rule plain_loads)
  show "plain_value (PDict quality_document)" by code_simp
  show "weight (PDict quality_document) \<le> 20000" by code_simp
  show "fits (Suc (Suc (Suc (Suc (Suc (Suc (Suc (Suc 0)))))))) (node_of (PDict quality_document))" by code_simp
qed

text \<open>Every file opens, and holds its captured byte.\<close>

definition quality_package_files :: package_files where
  "quality_package_files path =
     (case map_of quality_captured path of
        None \<Rightarrow> Inl ''FileNotFoundError''
      | Some b \<Rightarrow> Inr \<lparr>of_regular = True, of_size = 1, of_chunks = [b], of_failure = None, of_unchanged = True\<rparr>)"

definition quality_library :: evals_library where
  "quality_library = \<lparr>el_texts = quality_texts, el_stream = (\<lambda>_. OneDocument (node_of (PDict quality_document)) None),
     el_compiles = (\<lambda>_. True)\<rparr>"

definition quality_moment :: package_moment where
  "quality_moment = \<lparr>mo_root = quality_root, mo_files = quality_package_files\<rparr>"

definition evals_record :: PackageManifestFile where
  "evals_record = file_record (EVALS_PATH, [3])"

lemma quality_evals_found: "List.find (\<lambda>f. mf_path f = EVALS_PATH) (kv_files quality_validation) = Some evals_record"
  by (simp add: quality_validation_def validated_def quality_files_def quality_captured_def file_record_def evals_record_def EVALS_PATH_def)

lemma quality_payload: "load_payload quality_library quality_package_files (mf_sha256 evals_record) = Inr (PDict quality_document)"
proof -
  have "capture_evals quality_package_files (mf_sha256 evals_record) = Inr [3]"
    by (simp add: capture_evals_def quality_package_files_def quality_captured_def EVALS_PATH_def MAX_EVALS_BYTES_def evals_record_def
        file_record_def)
  then show ?thesis using quality_loads by (simp add: load_payload_def quality_library_def quality_texts_def)
qed

lemma quality_found: "document_findings (\<lambda>_. True) QualityV2 (Some ''active'') ''demo'' (Some (PDict quality_document))
    = Inr (quality_cases, [])"
  by code_simp

lemma quality_released: "released_findings QualityV2 (Some ''active'') quality_cases = []"
  by code_simp

definition quality_receipt_passed :: ScenarioQualityReceipt where
  "quality_receipt_passed = quality_record QualityV2 (Some quality_candidate) (Some ''active'') 10 9 1 []"

lemma quality_candidate_ok: "passes (check_candidate quality_candidate)"
  unfolding quality_candidate_def by (rule directory_candidate_ok [OF demo_revision_ok])

lemma quality_passes:
  "assess_scenario_quality quality_library quality_root quality_package_files demo_revision (Some ''active'') False QualityV2
     = Inr quality_receipt_passed"
proof -
  have "active_set (Some ''active'') = Some ''active''" "selector_invalid (Some ''active'') = False"
    "required_findings QualityV2 (Some ''active'') = []" "int (length quality_cases) = 10"
    "count_categories {''pressure'', ''regression''} quality_cases = 9" "count_categories {''negative'', ''edge''} quality_cases = 1"
    "trim ''active'' = ''active''"
    by code_simp+
  note facts = this
  have parts: "receipt_parts QualityV2 (Some quality_candidate) (Some ''active'') 10 9 1 []"
    using quality_candidate_ok facts(7) by (simp add: receipt_parts_def)
  have v: "validate_skill_package (el_texts quality_library) quality_root demo_revision None = Inr quality_validation"
    using quality_validated by (simp add: quality_library_def)
  have pass: "kv_candidate quality_validation = Some quality_candidate" "kv_status quality_validation = ValidationPass"
    by (simp_all add: quality_validation_def validated_def)
  have load: "load_evals quality_library quality_package_files
      (List.find (\<lambda>f. mf_path f = EVALS_PATH) (kv_files quality_validation)) (selector_invalid (Some ''active'')) = Inr (Some (PDict quality_document), [])"
    using quality_payload by (simp add: load_evals_def quality_evals_found facts)
  have found: "document_findings (el_compiles quality_library) QualityV2 (active_set (Some ''active'')) (package_id quality_candidate)
      (Some (PDict quality_document)) = Inr (quality_cases, [])"
    using quality_found by (simp add: quality_candidate_id facts quality_library_def)
  have none: "made_findings (required_findings QualityV2 (Some ''active'') @ [] @ []
      @ released_findings QualityV2 (active_set (Some ''active'')) quality_cases) = Inr []"
    using quality_released by (simp add: facts)
  note stages = assess_stages [OF v pass _ load found none, of False]
  show ?thesis
    using stages versioned_record [OF parts] by (simp add: assessed_record facts quality_receipt_passed_def sorted_findings_def)
qed

section \<open>The coverage plan\<close>

definition quality_plan :: ScenarioCoveragePlan where
  "quality_plan =
     \<lparr>cp_candidate = quality_candidate, cp_scenario_set_id = ''active'', cp_claims = [\<lparr>cl_id = ''claim'', cl_statement = ''works''\<rparr>],
      cp_mappings = [\<lparr>cm_claim_id = ''claim'', cm_case_ids = quality_ids, cm_gap_ids = []\<rparr>], cp_gaps = []\<rparr>"

lemma quality_plan_ok: "normalise_plan_coverage quality_plan = quality_plan" "passes (check_coverage_plan quality_plan)"
proof -
  have texts: "is_identifier ''claim''" "trim ''claim'' = ''claim''" "trim ''works'' = ''works''" "trim ''active'' = ''active''"
    "list_all exact_case_id quality_ids" "distinct quality_ids"
    by code_simp+
  show "normalise_plan_coverage quality_plan = quality_plan"
    using texts quality_candidate_ok
    by (simp add: normalise_plan_coverage_def quality_plan_def normalise_claim_def normalise_mapping_def valid_candidate_normal)
  have "quality_ids \<noteq> []" by (simp add: quality_ids_def)
  then have "declaration_findings quality_plan = []"
    using texts by (simp add: declaration_findings_def mapping_invalid_def quality_plan_def)
  then show "passes (check_coverage_plan quality_plan)"
    using texts quality_candidate_ok
    by (simp add: check_coverage_plan_def check_claim_def check_mapping_def) (simp add: quality_plan_def check_claim_def check_mapping_def)
qed

lemma quality_audit: "audit quality_plan quality_ids = []"
  by (simp add: audit_Nil quality_plan_def well_mapped_def) (simp add: quality_ids_def)

lemma quality_moment_validated: "moment_validation quality_library quality_moment demo_revision = Inr quality_validation"
  using quality_validated by (simp add: moment_validation_def quality_library_def quality_moment_def)

lemma quality_validation_parts: "kv_candidate quality_validation = Some quality_candidate" "kv_status quality_validation = ValidationPass"
  "kv_files quality_validation = quality_files" "kv_findings quality_validation = []"
  by (simp_all add: quality_validation_def validated_def)

lemma quality_selected:
  "document_cases (PDict quality_document) ''demo'' = (quality_cases, [])"
  "select_release_cases quality_cases (fst (release_sets quality_document QualityV2 (Some ''active''))) (Some ''active'') = Inr (quality_cases, [])"
  "snd (release_sets quality_document QualityV2 (Some ''active'')) = []"
  "map (\<lambda>v. py_str (get (case mapping v of None \<Rightarrow> [] | Some kvs \<Rightarrow> kvs) ''id'')) [v \<leftarrow> quality_cases. mapping v \<noteq> None] = quality_ids"
  by code_simp+

lemma quality_active: "active_ids quality_library quality_moment demo_revision quality_receipt_passed = Inr (quality_ids, [])"
proof -
  have "reread_evals quality_library (mo_files quality_moment) (mf_sha256 evals_record) = Inr (PDict quality_document, [])"
    using quality_payload by (simp add: reread_evals_def quality_moment_def)
  then show ?thesis
    using quality_moment_validated quality_evals_found quality_selected
    by (simp add: active_ids_def quality_validation_parts quality_receipt_passed_def quality_candidate_id Let_def)
qed

definition quality_coverage :: ScenarioCoverageResult where
  "quality_coverage = coverage_result quality_receipt_passed (Some quality_plan) quality_ids []"

lemma quality_receipt_ok: "normalise_quality quality_receipt_passed = quality_receipt_passed" "passes (check_quality quality_receipt_passed)"
proof -
  have "receipt_parts QualityV2 (Some quality_candidate) (Some ''active'') 10 9 1 []"
    using quality_candidate_ok by (simp add: receipt_parts_def trim_def strip_with_def unicode_space_def code_def Let_def)
  from quality_record_valid [OF this] show "normalise_quality quality_receipt_passed = quality_receipt_passed"
    "passes (check_quality quality_receipt_passed)"
    by (simp_all add: quality_model.fixpoint_iff quality_receipt_passed_def)
qed

lemma quality_covered:
  "assess_scenario_coverage quality_library quality_moment quality_moment quality_moment demo_revision ''active'' (Some quality_plan)
     = Inr quality_coverage" "cov_status quality_coverage = QualityPass"
proof -
  have plan: "validated_plan (Some quality_plan) = (Some quality_plan, [])"
    using quality_plan_ok by (simp add: validated_plan_def coverage_plan_model.fixpoint_iff [THEN iffD2])
  have nonempty: "quality_ids \<noteq> []" by (simp add: quality_ids_def)
  then have findings: "plan_findings (Some quality_plan) quality_receipt_passed quality_ids = []"
    using quality_audit by (simp add: plan_findings_def) (simp add: quality_plan_def quality_receipt_passed_def)
  have last: "final_check quality_library quality_moment demo_revision quality_receipt_passed quality_ids = Inr []"
    using nonempty quality_moment_validated by (simp add: final_check_def quality_validation_parts quality_receipt_passed_def)
  have ids: "list_all exact_case_id quality_ids" "distinct quality_ids" "length quality_ids = 10" "trim ''active'' = ''active''"
    by code_simp+
  have fields: "qr_candidate quality_receipt_passed = Some quality_candidate" "qr_scenario_set_id quality_receipt_passed = Some ''active''"
    "qr_status quality_receipt_passed = QualityPass" "qr_schema_version quality_receipt_passed = QualityV2"
    "qr_findings quality_receipt_passed = []"
    by (simp_all add: quality_receipt_passed_def)
  have gaps: "sorted_gaps (Some quality_plan) = []" "cp_gaps quality_plan = []" "cp_candidate quality_plan = quality_candidate"
    "cp_scenario_set_id quality_plan = ''active''"
    by (simp_all add: sorted_gaps_def quality_plan_def)
  have "normalise_coverage quality_coverage = quality_coverage"
    using quality_receipt_ok(1) quality_plan_ok(1) ids(4) gaps quality_candidate_ok
    by (simp add: normalise_coverage_def quality_coverage_def coverage_result_def fields valid_candidate_normal)
  moreover have "passes (check_coverage quality_coverage)"
    using quality_receipt_ok(2) quality_plan_ok(2) ids gaps quality_candidate_ok quality_audit
    by (simp add: check_coverage_def result_matches_evidence_def quality_coverage_def coverage_result_def fields)
  ultimately have "validate_model normalise_coverage check_coverage quality_coverage = Inr quality_coverage"
    by (simp add: coverage_model.fixpoint_iff)
  then show "assess_scenario_coverage quality_library quality_moment quality_moment quality_moment demo_revision ''active'' (Some quality_plan)
     = Inr quality_coverage"
    using quality_passes plan quality_active findings last fields
    by (simp add: assess_scenario_coverage_def quality_moment_def quality_coverage_def)
  show "cov_status quality_coverage = QualityPass" by (simp add: quality_coverage_def coverage_result_def)
qed

end
