(* ===== verification/Demo_Calibration.thy ===== *)
theory Demo_Calibration
  imports Demo_Quality
begin

text \<open>
  The package of \<open>Demo_Quality\<close> passes its scorer assessment and its held-out calibration: one example that is
  rightly passed and one that is rightly failed.
\<close>

section \<open>The declared scorer\<close>

definition quality_metadata :: "(string \<times> pyval) list" where
  "quality_metadata = the (mapping quality_scorer)"

lemma calibration_case_outcome:
  "kind \<in> SCORER_PROBES \<Longrightarrow> expected_outcome (the (mapping (calibration_case name kind))) (PText kind) (Some (1 / 2)) = Inr True"
  by (auto simp: SCORER_PROBES_def expected_outcome_def calibration_case_def get_def text_in_def unit_interval_def score_label_def)

lemma calibration_case_passes:
  assumes "kind \<in> SCORER_PROBES" "strip name \<noteq> []" "strip name \<notin> set seen"
    "calibration_case_findings (Some (1 / 2)) (strip name # seen) vs = Inr (fs, probes)"
  shows "calibration_case_findings (Some (1 / 2)) seen (calibration_case name kind # vs) = Inr (fs, kind # probes)"
proof -
  obtain kvs where kvs: "calibration_case name kind = PDict kvs" by (simp add: calibration_case_def)
  have "unsupported kvs {''id'', ''probe_type'', ''expected_score'', ''expected_label'', ''expected_direction''} = []"
    "get kvs ''id'' = PText name" "get kvs ''probe_type'' = PText kind"
    using kvs by (auto simp: unsupported_Nil calibration_case_def get_def split: if_splits)
  moreover have "expected_outcome kvs (PText kind) (Some (1 / 2)) = Inr True"
    using calibration_case_outcome [OF assms(1), of name] by (simp add: kvs)
  ultimately show ?thesis
    using assms by (simp add: kvs text_in_def)
qed

lemma quality_probes: "probe_findings quality_metadata = Inr []"
proof -
  let ?kinds = "[''obvious_correct'', ''obvious_wrong'', ''short_correct_vs_verbose_wrong'', ''rubric_copying_rejected'',
     ''skill_name_mention_not_enough'', ''evidence_lane_overclaim_rejected'']"
  have names: "strip ''p1'' = ''p1''" "strip ''p2'' = ''p2''" "strip ''p3'' = ''p3''" "strip ''p4'' = ''p4''" "strip ''p5'' = ''p5''"
    "strip ''p6'' = ''p6''" by code_simp+
  have cases: "calibration_case_findings (Some (1 / 2)) []
      [calibration_case ''p1'' ''obvious_correct'', calibration_case ''p2'' ''obvious_wrong'',
       calibration_case ''p3'' ''short_correct_vs_verbose_wrong'', calibration_case ''p4'' ''rubric_copying_rejected'',
       calibration_case ''p5'' ''skill_name_mention_not_enough'', calibration_case ''p6'' ''evidence_lane_overclaim_rejected'']
     = Inr ([], ?kinds)"
    by (intro calibration_case_passes) (simp_all add: names SCORER_PROBES_def)
  have "number_of (get quality_metadata ''pass_threshold'') = Some (1 / 2)"
    by (simp add: quality_metadata_def quality_scorer_def get_def)
  moreover have "set ?kinds = SCORER_PROBES" by (simp add: SCORER_PROBES_def)
  moreover have "has quality_metadata ''bias_probes'' = False" by code_simp
  moreover have "''short_correct_vs_verbose_wrong'' \<in> SCORER_PROBES" by (simp add: SCORER_PROBES_def)
  moreover have "get quality_metadata ''segmentation_fields'' = PList [PText ''category'', PText ''claim_ids'', PText ''eval_modes'']"
    "get quality_metadata ''calibration_cases'' = PList
      [calibration_case ''p1'' ''obvious_correct'', calibration_case ''p2'' ''obvious_wrong'',
       calibration_case ''p3'' ''short_correct_vs_verbose_wrong'', calibration_case ''p4'' ''rubric_copying_rejected'',
       calibration_case ''p5'' ''skill_name_mention_not_enough'', calibration_case ''p6'' ''evidence_lane_overclaim_rejected'']"
    by (simp_all add: quality_metadata_def quality_scorer_def get_def)
  moreover have "list_all (text_in SCORER_SEGMENTS) [PText ''category'', PText ''claim_ids'', PText ''eval_modes'']"
    "set (map py_str [PText ''category'', PText ''claim_ids'', PText ''eval_modes'']) = SCORER_SEGMENTS"
    by (simp_all add: text_in_def SCORER_SEGMENTS_def)
  ultimately show ?thesis using cases by (simp add: probe_findings_def)
qed

lemma quality_strict: "strict_metadata quality_metadata = Inr []"
proof -
  have "unsupported quality_metadata SCORER_FIELDS = []" "judge_findings quality_metadata (get quality_metadata ''scorer_type'') = []"
    by code_simp+
  moreover have "get quality_metadata ''schema_version'' = PText ''skills-sdk.scorer-quality.v1''"
    "is_words (get quality_metadata ''scorer_id'')" "is_words (get quality_metadata ''scorer_version_or_digest'')"
    "text_in SCORER_TYPES (get quality_metadata ''scorer_type'')" "text_in SCORER_SCOPES (get quality_metadata ''scope'')"
    "get quality_metadata ''deterministic_checks_first'' = PBool True"
    by code_simp+
  moreover have "number_of (get quality_metadata ''pass_threshold'') = Some (1 / 2)" "positive_unit (1 / 2)"
    by (simp_all add: quality_metadata_def quality_scorer_def get_def positive_unit_def)
  ultimately show ?thesis using quality_probes by (simp add: strict_metadata_def)
qed

lemma quality_declared:
  "get quality_document ''scorer_quality'' = PDict quality_metadata" "unsupported quality_document TOP_FIELDS = []"
  "get quality_document ''schema_version'' = PText ''2.0''" "get quality_document ''skill_name'' = PText ''demo''"
  by (simp_all add: quality_document_def quality_metadata_def quality_scorer_def get_def unsupported_Nil TOP_FIELDS_def)

text \<open>A file of the package is read back as it was captured.\<close>

lemma quality_artifact:
  assumes "map_of quality_captured path = Some [b]" "\<not> is_absolute path" "path_parts path \<noteq> []" "''..'' \<notin> set (path_parts path)"
  shows "read_candidate_artifact quality_package_files quality_validation path = Inr [b]"
proof -
  have found: "map_of cs path = Some c \<Longrightarrow> List.find (\<lambda>f. mf_path f = path) (map file_record cs) = Some (file_record (path, c))" for cs c
    by (induction cs) (auto simp: file_record_def split: if_splits)
  have "quality_package_files path = Inr \<lparr>of_regular = True, of_size = 1, of_chunks = [[b]], of_failure = None, of_unchanged = True\<rparr>"
    using assms(1) by (simp add: quality_package_files_def)
  then show ?thesis
    using assms(2-) found [OF assms(1)]
    by (simp add: read_candidate_artifact_def quality_validation_def validated_def quality_files_def MAX_ARTIFACT_BYTES_def file_record_def)
qed

lemma quality_artifacts:
  "read_candidate_artifact quality_package_files quality_validation EVALS_PATH = Inr [3]"
  "read_candidate_artifact quality_package_files quality_validation CALIBRATION_MANIFEST = Inr [4]"
  "read_candidate_artifact quality_package_files quality_validation ''references/scorer-calibration/examples.jsonl'' = Inr [5]"
  "read_candidate_artifact quality_package_files quality_validation ''references/scorer-calibration/raw/a.json'' = Inr [6]"
  "read_candidate_artifact quality_package_files quality_validation ''references/scorer-calibration/raw/b.json'' = Inr [7]"
  by (rule quality_artifact; code_simp)+

section \<open>The scorer passes\<close>

lemma quality_restatable: "restatable quality_validation"
  using quality_candidate_ok
  by (simp add: restatable_def blocker_findings_def quality_validation_parts valid_candidate_normal)

lemma quality_blockers: "blocker_findings quality_validation = []"
  by (simp add: blocker_findings_def quality_validation_parts)

definition quality_declaration :: ScorerQualityReceipt where
  "quality_declaration = normalise_declared (scorer_record quality_validation quality_metadata [])"

lemma quality_scorer_assessed: "assess_scorer_quality quality_library quality_moment demo_revision = Inr quality_declaration"
proof -
  have "scorer_document quality_library quality_package_files quality_validation = Inr (PDict quality_document)"
    using quality_artifacts(1) quality_loads by (simp add: scorer_document_def quality_library_def quality_texts_def)
  moreover have "document_scorer_findings quality_validation (PDict quality_document) = []"
    by (simp add: document_scorer_findings_def quality_declared quality_validation_parts quality_candidate_id)
  ultimately have "scorer_metadata quality_library (mo_files quality_moment) quality_validation = Inr (quality_metadata, [])"
    using quality_strict by (simp add: scorer_metadata_def quality_moment_def quality_declared(1))
  then show ?thesis
    using scorer_stages(1) [OF quality_moment_validated quality_restatable] quality_blockers
    by (simp add: quality_validation_parts quality_declaration_def)
qed

lemma quality_declaration_fields:
  "sq_status quality_declaration = QualityPass" "sq_candidate quality_declaration = Some quality_candidate"
  "sq_scorer_id quality_declaration = ''s''" "sq_scorer_version_or_digest quality_declaration = ''1''"
  "sq_pass_threshold quality_declaration = Some (1 / 2)" "sq_parameters quality_declaration = None"
proof -
  have "trim ''s'' = ''s''" "trim ''1'' = ''1''" by code_simp+
  then show "sq_status quality_declaration = QualityPass" "sq_candidate quality_declaration = Some quality_candidate"
    "sq_scorer_id quality_declaration = ''s''" "sq_scorer_version_or_digest quality_declaration = ''1''"
    "sq_pass_threshold quality_declaration = Some (1 / 2)" "sq_parameters quality_declaration = None"
    using quality_candidate_ok
    by (simp_all add: quality_declaration_def normalise_declared_def scorer_record_def quality_validation_parts quality_metadata_def
        quality_scorer_def get_def declared_threshold_def positive_unit_def declared_parameters_def valid_candidate_normal)
qed

section \<open>The held-out bundle\<close>

definition bundle_members :: "(string \<times> pyval) list" where
  "bundle_members =
     [(''schema_version'', PText ''skills-sdk.scorer-calibration-bundle.v1''), (''split'', PText ''held_out''),
      (''scorer_id'', PText ''s''), (''scorer_version_or_digest'', PText ''1''), (''prompt_version'', PText ''p''),
      (''threshold'', PFloat (Some (1 / 2)) ''0.5''),
      (''parameters'', PDict [(''model'', PText ''m''), (''temperature'', PFloat (Some 0) ''0.0''), (''trial_count'', PInt 1)])]"

definition example_row :: "string \<Rightarrow> string \<Rightarrow> rat \<Rightarrow> (string \<times> pyval) list" where
  "example_row name label score =
     [(''id'', PText name), (''probe_type'', PText ''x''), (''raw_artifact'', PText (''raw/'' @ name @ ''.json'')),
      (''expected_label'', PText label), (''predicted_label'', PText label), (''score'', PFloat (Some score) ''1.0'')]"

definition raw_members :: "string \<Rightarrow> string \<Rightarrow> rat \<Rightarrow> (string \<times> pyval) list" where
  "raw_members name label score =
     [(''id'', PText name), (''predicted_label'', PText label), (''score'', PFloat (Some score) ''1.0''), (''scorer_id'', PText ''s'')]"

definition json_leaves :: "(string \<times> pyval) list \<Rightarrow> json_tree" where
  "json_leaves kvs = JsonObject (map (\<lambda>(k, v). (k, JsonLeaf v)) kvs)"

definition quality_calibration_library :: calibration_library where
  "quality_calibration_library = \<lparr>ci_evals = quality_library, ci_json = (\<lambda>t.
     (json_leaves (if t = ''manifest'' then bundle_members else if t = ''a'' then example_row ''a'' ''pass'' 1
        else if t = ''b'' then example_row ''b'' ''fail'' 0 else if t = ''raw a'' then raw_members ''a'' ''pass'' 1
        else raw_members ''b'' ''fail'' 0), None))\<rparr>"

lemma json_leaves_value: "distinct (map fst kvs) \<Longrightarrow> json_value (json_leaves kvs) = Inr (PDict kvs)"
proof -
  have members: "json_members (map (\<lambda>(k, v). (k, JsonLeaf v)) kvs) = Inr kvs" for kvs :: "(string \<times> pyval) list"
    by (induction kvs) auto
  assume "distinct (map fst kvs)"
  then show ?thesis by (simp add: json_leaves_def members)
qed

lemma quality_json:
  "json_object_text quality_calibration_library ''manifest'' = Inr bundle_members"
  "json_object_text quality_calibration_library ''a'' = Inr (example_row ''a'' ''pass'' 1)"
  "json_object_text quality_calibration_library ''b'' = Inr (example_row ''b'' ''fail'' 0)"
  "json_object_text quality_calibration_library ''raw a'' = Inr (raw_members ''a'' ''pass'' 1)"
  "json_object_text quality_calibration_library ''raw b'' = Inr (raw_members ''b'' ''fail'' 0)"
proof -
  have "distinct (map fst bundle_members)" "distinct (map fst (example_row name label score))"
    "distinct (map fst (raw_members name label score))" for name label score
    by (simp_all add: bundle_members_def example_row_def raw_members_def)
  note leaves = this [THEN json_leaves_value]
  show "json_object_text quality_calibration_library ''manifest'' = Inr bundle_members"
    "json_object_text quality_calibration_library ''a'' = Inr (example_row ''a'' ''pass'' 1)"
    "json_object_text quality_calibration_library ''b'' = Inr (example_row ''b'' ''fail'' 0)"
    "json_object_text quality_calibration_library ''raw a'' = Inr (raw_members ''a'' ''pass'' 1)"
    "json_object_text quality_calibration_library ''raw b'' = Inr (raw_members ''b'' ''fail'' 0)"
    by (simp_all add: json_object_text_def quality_calibration_library_def leaves)
qed

lemma quality_decodes:
  "decoded quality_calibration_library [4] = Inr ''manifest''" "decoded quality_calibration_library [5] = Inr (''a'' @ CHR 0x0A # ''b'')"
  "decoded quality_calibration_library [6] = Inr ''raw a''" "decoded quality_calibration_library [7] = Inr ''raw b''"
  by (simp_all add: decoded_def quality_calibration_library_def quality_library_def quality_texts_def)

definition quality_rows :: "(string \<times> pyval) list list" where
  "quality_rows = [example_row ''a'' ''pass'' 1, example_row ''b'' ''fail'' 0]"

lemma bundle_values:
  "get bundle_members ''threshold'' = PFloat (Some (1 / 2)) ''0.5''" "get bundle_members ''scorer_id'' = PText ''s''"
  "get bundle_members ''scorer_version_or_digest'' = PText ''1''" "get bundle_members ''examples_path'' = PNone"
  "get bundle_members ''raw_artifacts_dir'' = PNone"
  by (simp_all add: bundle_members_def get_def)

lemma row_values:
  "get (example_row name label score) ''id'' = PText name" "get (example_row name label score) ''probe_type'' = PText ''x''"
  "get (example_row name label score) ''raw_artifact'' = PText (''raw/'' @ name @ ''.json'')"
  "get (example_row name label score) ''expected_label'' = PText label"
  "get (example_row name label score) ''predicted_label'' = PText label"
  "get (example_row name label score) ''score'' = PFloat (Some score) ''1.0''"
  "get (raw_members name label score) ''id'' = PText name" "get (raw_members name label score) ''predicted_label'' = PText label"
  "get (raw_members name label score) ''score'' = PFloat (Some score) ''1.0''" "get (raw_members name label score) ''scorer_id'' = PText ''s''"
  by (simp_all add: example_row_def raw_members_def get_def)

lemma quality_rows_read:
  "read_examples quality_calibration_library quality_package_files quality_validation ''references/scorer-calibration/examples.jsonl''
     = (quality_rows, [])"
proof -
  have "splitlines (''a'' @ CHR 0x0A # ''b'') = [''a'', ''b'']" "strip ''a'' = ''a''" "strip ''b'' = ''b''" by code_simp+
  then show ?thesis by (simp add: read_examples_def quality_artifacts quality_decodes quality_json quality_rows_def)
qed

lemma quality_raw_found:
  "raw_artifact quality_calibration_library quality_package_files quality_validation (example_row ''a'' ''pass'' 1)
     ''references/scorer-calibration/raw'' = Inr (''references/scorer-calibration/raw/a.json'', raw_members ''a'' ''pass'' 1)"
  "raw_artifact quality_calibration_library quality_package_files quality_validation (example_row ''b'' ''fail'' 0)
     ''references/scorer-calibration/raw'' = Inr (''references/scorer-calibration/raw/b.json'', raw_members ''b'' ''fail'' 0)"
proof -
  have "bundle_path (PText ''raw/a.json'') [] = Some ''references/scorer-calibration/raw/a.json''"
    "bundle_path (PText ''raw/b.json'') [] = Some ''references/scorer-calibration/raw/b.json''"
    "starts_with ''references/scorer-calibration/raw/a.json'' (''references/scorer-calibration/raw'' @ ''/'')"
    "starts_with ''references/scorer-calibration/raw/b.json'' (''references/scorer-calibration/raw'' @ ''/'')"
    by code_simp+
  then show "raw_artifact quality_calibration_library quality_package_files quality_validation (example_row ''a'' ''pass'' 1)
     ''references/scorer-calibration/raw'' = Inr (''references/scorer-calibration/raw/a.json'', raw_members ''a'' ''pass'' 1)"
    "raw_artifact quality_calibration_library quality_package_files quality_validation (example_row ''b'' ''fail'' 0)
     ''references/scorer-calibration/raw'' = Inr (''references/scorer-calibration/raw/b.json'', raw_members ''b'' ''fail'' 0)"
    by (simp_all add: raw_artifact_def row_values quality_artifacts json_object_def quality_decodes quality_json)
qed

lemma quality_matched:
  "artifact_findings quality_calibration_library quality_package_files quality_validation bundle_members path
     ''references/scorer-calibration/raw'' row = []" if "row \<in> set quality_rows"
proof -
  have "strip ''a'' = ''a''" "strip ''b'' = ''b''" "strip ''x'' = ''x''" "strip ''raw/a.json'' = ''raw/a.json''"
    "strip ''raw/b.json'' = ''raw/b.json''" by code_simp+
  then show ?thesis
    using that
    by (auto simp: quality_rows_def artifact_findings_def row_findings_def row_values bundle_values quality_raw_found text_in_def
        unit_interval_def score_label_def)
qed

lemma quality_examined:
  "examined_rows quality_calibration_library quality_package_files quality_validation bundle_members = (quality_rows, [])"
proof -
  have paths: "bundle_path PNone ''examples.jsonl'' = Some ''references/scorer-calibration/examples.jsonl''"
    "bundle_path PNone ''raw'' = Some ''references/scorer-calibration/raw''"
    by code_simp+
  have "bundle_path (PText ''raw/a.json'') [] = Some ''references/scorer-calibration/raw/a.json''"
    "bundle_path (PText ''raw/b.json'') [] = Some ''references/scorer-calibration/raw/b.json''"
    "strip ''a'' = ''a''" "strip ''b'' = ''b''"
    by code_simp+
  then have repeated: "repeated_example_findings quality_rows path = []" for path
    by (simp add: repeated_example_findings_def quality_rows_def row_values List.map_filter_simps)
  have "distinct (map mf_path quality_files)"
    using quality_portable(3) by (simp add: quality_files_def comp_def file_record_def case_prod_unfold)
  then have indexed: "distinct (map mf_path (kv_files quality_validation))" by (simp add: quality_validation_parts)
  have matched: "concat (map (artifact_findings quality_calibration_library quality_package_files quality_validation bundle_members path
      ''references/scorer-calibration/raw'') quality_rows) = []" for path
    using quality_matched by simp
  show ?thesis
    by (simp add: matched indexed examined_rows_def bundle_values paths quality_rows_read repeated Let_def del: concat_eq_Nil_conv)
qed

lemma quality_manifest_clean: "manifest_findings bundle_members = []"
proof -
  let ?p = "[(''model'', PText ''m''), (''temperature'', PFloat (Some 0) ''0.0''), (''trial_count'', PInt 1)]"
  have "unsupported bundle_members MANIFEST_FIELDS = []" by code_simp
  moreover have "is_words (PText ''s'')" "is_words (PText ''1'')" "is_words (PText ''p'')" "is_words (PText ''m'')" by code_simp+
  moreover have "get bundle_members ''prompt_version'' = PText ''p''" "get bundle_members ''split'' = PText ''held_out''"
    "get bundle_members ''schema_version'' = PText ''skills-sdk.scorer-calibration-bundle.v1''"
    "get bundle_members ''parameters'' = PDict ?p"
    by (simp_all add: bundle_members_def get_def)
  moreover have "get ?p ''model'' = PText ''m''" "get ?p ''temperature'' = PFloat (Some 0) ''0.0''" "get ?p ''trial_count'' = PInt 1"
    by (simp_all add: get_def)
  moreover have "declared_threshold (PFloat (Some (1 / 2)) ''0.5'') = Some (1 / 2)" by (simp add: declared_threshold_def positive_unit_def)
  moreover have "[(k, fallback, least) \<leftarrow> CALIBRATION_LIMITS. \<not> int_at_least least (limit_value bundle_members k fallback)] = []"
    by (simp add: CALIBRATION_LIMITS_def limit_value_def has_def bundle_members_def int_at_least_def)
  moreover have "keys_are PARAMETER_FIELDS ?p" by (auto simp: keys_are_def PARAMETER_FIELDS_def)
  moreover have "int_at_least 1 (PInt 1)" by (simp add: int_at_least_def)
  ultimately show ?thesis by (simp add: manifest_findings_def bundle_values del: is_words.simps)
qed

lemma quality_limits_met: "coverage_findings bundle_members (int (length quality_rows)) (confusion quality_rows) = []"
proof -
  have "confusion quality_rows = \<lparr>cf_tp = 1, cf_tn = 1, cf_fp = 0, cf_fn = 0\<rparr>"
    by (simp add: confusion_def count_labels_def quality_rows_def row_values)
  moreover have "limit_value bundle_members k fallback = PInt fallback" if "k \<in> fst ` set CALIBRATION_LIMITS" for k fallback
    using that by (auto simp: CALIBRATION_LIMITS_def limit_value_def has_def bundle_members_def)
  ultimately show ?thesis
    by (simp add: coverage_findings_def CALIBRATION_LIMITS_def limit_kinds quality_rows_def)
qed

section \<open>The calibration passes\<close>

definition quality_calibration :: ScorerCalibrationReceipt where
  "quality_calibration = normalise_calibration (calibration_record quality_validation bundle_members quality_rows [])"

lemma quality_calibrated:
  "assess_scorer_calibration quality_calibration_library quality_moment quality_moment demo_revision = Inr quality_calibration"
  "sc_status quality_calibration = QualityPass"
proof -
  have evals: "ci_evals quality_calibration_library = quality_library" by (simp add: quality_calibration_library_def)
  have "bundle_manifest quality_calibration_library quality_package_files quality_validation = (bundle_members, [])"
    by (simp add: bundle_manifest_def quality_artifacts json_object_def quality_decodes quality_json)
  then have view: "calibration_view quality_calibration_library (mo_files quality_moment) quality_validation = (bundle_members, quality_rows, [])"
    by (simp add: calibration_view_def quality_validation_parts quality_moment_def quality_examined quality_manifest_clean)
  have bound: "bound_findings quality_calibration_library quality_moment demo_revision quality_validation bundle_members = Inr []"
    by (simp add: bound_findings_def quality_validation_parts evals quality_scorer_assessed identity_findings_def
        quality_declaration_fields bundle_values)
  have "clean_calibration quality_calibration_library quality_package_files quality_validation bundle_members quality_rows"
    by (simp add: clean_calibration_def quality_validation_parts quality_manifest_clean quality_examined quality_limits_met)
  then have "passes (check_calibration (normalise_calibration (calibration_record quality_validation bundle_members quality_rows [])))"
    by (intro calibration_record_checks [OF quality_restatable]) simp_all
  then have valid: "validate_model normalise_calibration check_calibration (calibration_record quality_validation bundle_members quality_rows [])
      = Inr quality_calibration"
    by (simp add: calibration_model.validate_ok_iff quality_calibration_def)
  have "(calibration_record quality_validation bundle_members quality_rows [])\<lparr>sc_status := QualityPass, sc_findings := []\<rparr>
      = calibration_record quality_validation bundle_members quality_rows []"
    by (simp add: calibration_record_def)
  then show "assess_scorer_calibration quality_calibration_library quality_moment quality_moment demo_revision = Inr quality_calibration"
    using assess_view [OF _ view, of demo_revision quality_moment] quality_moment_validated valid
    by (simp add: evals bound quality_blockers quality_limits_met)
  show "sc_status quality_calibration = QualityPass"
    by (simp add: quality_calibration_def normalise_calibration_def calibration_record_def)
qed

end
