(* ===== verification/Spec2Isabelle.thy ===== *)
theory Spec2Isabelle
  imports Demo_Archive Demo_Provider Demo_Inventory Demo_Evaluation Demo_Intake Demo_Calibration
begin

text \<open>
  A verification development for the Skills SDK, a Python library (\<^verbatim>\<open>src/src/skills_sdk\<close>) that packages
  agent skills, verifies and hardens the packages, prepares them for a private registry, plans their
  installation into a runtime, and calls text providers within fixed bounds. All of it is written as
  immutable, validated contract models (pydantic) and functions that turn them into one another, so
  the development is a set of records with validators and of functions over them.

  \<^bold>\<open>How the program is modelled.\<close> A contract model is a record, a function \<open>normalise_X\<close> (the
  white-space stripping pydantic performs on its text fields), and a list of checks \<open>check_X\<close>, pairs
  of a condition that is violated and the message, in the order of the class; \<open>validate_model\<close>
  normalises and returns the first violated check as a \<open>py_error\<close>. \<open>contract_model\<close> (in \<open>Prelude\<close>)
  is the interface of such a model and is interpreted for every one of them. A Python exception is the
  left of a sum (\<open>result\<close>); an exception of a called hook is a \<open>run\<close>. Integers are unbounded as in
  Python; bytes are \<open>8 word\<close>; SHA-256 is defined on 32-bit words and never evaluated in a proof.
  Regular expressions are values of the datatype \<open>rx\<close> with a matcher by derivatives; searches are
  lemmas about it. What the source imports from a third party or from the standard library's parsers
  (ZIP, JSON text, the schema registry, pydantic's rendering of a time stamp) is a parameter; a
  caller's hook or an awaited operation is a value that says how it behaves, so every theorem holds
  for each behaviour.

  \<^bold>\<open>The theories and the code they model.\<close>
  \<^item> \<open>Prelude\<close>, \<open>Py_Strings\<close>, \<open>Regex\<close>: results, validators, string operations, regular expressions.
  \<^item> \<open>Sha256\<close>, \<open>Json\<close>: \<^verbatim>\<open>core/digests.py\<close> (canonical JSON, its digest, the content digest).
  \<^item> \<open>Core_Paths\<close>: \<^verbatim>\<open>core/paths.py\<close>, \<^verbatim>\<open>core/package_safety.py\<close>.
  \<^item> \<open>Contracts\<close>, \<open>Inventory\<close>: \<^verbatim>\<open>models/inventory.py\<close>; \<open>Package\<close>: \<^verbatim>\<open>models/package.py\<close>;
    \<open>Packaging\<close>: \<^verbatim>\<open>models/packaging.py\<close>.
  \<^item> \<open>Hardening\<close>: \<^verbatim>\<open>packaging/hardening.py\<close>.
  \<^item> \<open>Central_Directory\<close>, \<open>Archive_Verification\<close>, \<open>Archive_Round_Trip\<close>:
    \<^verbatim>\<open>packaging/archive_verification.py\<close>, from the bytes of the ZIP end record to the receipt.
  \<^item> \<open>Registry\<close>, \<open>Private_Registry\<close>: \<^verbatim>\<open>models/registry.py\<close>, \<^verbatim>\<open>distribution/private_registry.py\<close>.
  \<^item> \<open>Lifecycle\<close>, \<open>Planning\<close>: \<^verbatim>\<open>models/lifecycle.py\<close>, \<^verbatim>\<open>lifecycle/planning.py\<close> (the runtime lock is the
    state; a plan proposes its next value).
  \<^item> \<open>Provider\<close>, \<open>Provider_Execution\<close>, \<open>Provider_Evidence\<close>: \<^verbatim>\<open>models/provider.py\<close>,
    \<^verbatim>\<open>models/provider_execution.py\<close>, \<^verbatim>\<open>models/provider_call.py\<close>.
  \<^item> \<open>Provider_Input\<close>, \<open>Provider_Call\<close>, \<open>Provider_Safety\<close>: \<^verbatim>\<open>providers/types.py\<close>,
    \<^verbatim>\<open>providers/call.py\<close>: payload normalisation over a heap, the stream as a state machine, failure
    classification, cleanup, and the invariants of all that.
  \<^item> \<open>Risk\<close>, \<open>Safety\<close>: \<^verbatim>\<open>models/risk.py\<close>, \<^verbatim>\<open>models/safety.py\<close> and the binding of a provider request to a
    safety receipt.
  \<^item> \<open>Skill_Validation\<close>, \<open>Skill_IR\<close>, \<open>Package_Scan\<close>, \<open>Skill_Package\<close>: \<^verbatim>\<open>models/validation.py\<close>,
    \<^verbatim>\<open>validation/skill_ir.py\<close>, \<^verbatim>\<open>validation/skill_package.py\<close> (the walk over a package tree and the
    validation of a skill) and \<^verbatim>\<open>packaging/manifest.py\<close> (the build). \<open>Package_Places\<close> says what the walk finds
    without the walk, by reachability in the tree; \<open>Skill_Build\<close> that builds are total, valid and faithful.
  \<^item> \<open>Intake\<close>: \<^verbatim>\<open>models/intake.py\<close>, \<^verbatim>\<open>intake/normalization.py\<close>: a validated skill normalized, or blocked, for
    its owner's decision.
  \<^item> \<open>Pre_Execution\<close>: \<^verbatim>\<open>models/pre_execution_safety.py\<close>, \<^verbatim>\<open>validation/security_screening.py\<close>,
    \<^verbatim>\<open>evaluation/pre_execution_safety.py\<close>: the admission of an execution on safety evidence.
  \<^item> \<open>Floats\<close>, \<open>Evaluation\<close>, \<open>Evaluator\<close>, \<open>Evaluator_V2\<close>: \<^verbatim>\<open>models/evaluation.py\<close>,
    \<^verbatim>\<open>models/evaluation_v2.py\<close>, \<^verbatim>\<open>evaluation/deterministic.py\<close>, \<^verbatim>\<open>evaluation/deterministic_v2.py\<close>, with
    Python's division and printing of doubles.
  \<^item> \<open>Py_Values\<close>, \<open>Closed_Yaml\<close>: the dynamic values that the evaluation modules inspect;
    \<^verbatim>\<open>validation/safe_yaml.py\<close>, \<^verbatim>\<open>validation/yaml_cache.py\<close> (the closed loader and the cache as a state machine
    over the scopes that own it).
  \<^item> \<open>Scenario_Quality\<close>, \<open>Coverage\<close>: \<^verbatim>\<open>models/scenario_quality.py\<close>, \<^verbatim>\<open>evaluation/quality.py\<close>,
    \<^verbatim>\<open>models/coverage.py\<close>, \<^verbatim>\<open>evaluation/coverage.py\<close>; \<open>Quality_Evidence\<close>: the assessment is total but for one error,
    and what a passing receipt proves of the document.
  \<^item> \<open>Scorer\<close>: \<^verbatim>\<open>models/scorer_quality.py\<close>, \<^verbatim>\<open>evaluation/scorer_artifacts.py\<close>,
    \<^verbatim>\<open>evaluation/scorer_quality.py\<close>, \<^verbatim>\<open>evaluation/scorer_calibration.py\<close>; \<open>Scorer_Evidence\<close>,
    \<open>Calibration_Evidence\<close>: both assessments return valid receipts, and what a passing calibration proves.
  \<^item> \<open>Demo_Package\<close>, \<open>Demo_Archive\<close>, \<open>Demo_Provider\<close>, \<open>Demo_Inventory\<close>, \<open>Demo_Evaluation\<close>, \<open>Demo_Safety\<close>,
    \<open>Demo_Intake\<close>, \<open>Demo_Quality\<close>, \<open>Demo_Calibration\<close>: one concrete package, archive, provider call, inventory
    record, evaluation, package tree with its safety evidence and intake context, and a package with ten
    scenarios, a scorer and a held-out bundle that all pass; the properties with hypotheses are applied to them.

  \<^bold>\<open>How the components interact.\<close> Validation walks a package tree and a build makes a manifest of what the
  walk captured, bound by digests (\<open>Json\<close>) into a build receipt (\<open>Packaging\<close>); hardening reads the receipt;
  archive verification compares an archive with it; registry preparation combines receipt and hardening
  receipt; planning combines receipt, registry preparation and lock. Safety evidence binds a review and a
  screening of the tree to the build receipt, and a provider request to that evidence; the provider call
  runs the request; evaluation scores what was observed. The quality assessments validate the package and read
  its evaluation document through the manifest of that validation; coverage assesses quality first and looks
  at the package twice more, calibration assesses the declared scorer again. A property of this file is about one such step,
  or the composition of two, and shows that the next step may rely on its result.

  \<^bold>\<open>What the properties show.\<close> C1-C3, C5: archives. C4: the YAML cache. C6-C9: hardening and registry. C10-C13:
  plans and the lock. C14-C20, C22, C23: provider calls. C21, C28, C29, C31: scenario quality, coverage and
  calibration. C24-C26, C30: digests and paths. C27: every build returns a valid receipt. C32, C33: intake and
  inventory. C34-C37: evaluation. C38-C40: the tree walk against its specification, building composed with
  hardening, and the admission of an execution.

  \<^bold>\<open>Loops and bounds.\<close> The walk over the central directory and the search for the end record are
  functions with a termination proof. The stream's loop terminates because every pull consumes an
  event or fails, and the event limit bounds the events. The payload normaliser recurses on the depth
  that the limits still allow, which is the code's own bound. The walk over a package tree
  recurses on the tree itself; its depth limit is the code's. The YAML loader recurses on the nodes
  the parser reports, and stops at the code's 20000 nodes and 128 levels; the size of a cached value counts down
  the code's 129 levels. No fuel is used.

  \<^bold>\<open>Parameters.\<close> Besides the parsers: what the system answers to a walk (\<open>package_tree\<close>, with links, unreadable
  entries and changes under the walk), decoding and YAML (\<open>text_library\<close>), the signatures a screening looks
  for (\<open>indicators\<close>), what opening and reading a file gives (\<open>package_files\<close>), the tree of the YAML parser's events
  (\<open>yaml_stream\<close>) and of the JSON scanner (\<open>json_tree\<close>), \<^verbatim>\<open>re.compile\<close>, \<^verbatim>\<open>sys.getsizeof\<close>, and clocks. \<open>os_package\<close> states what every file system gives: the names in a directory
  are distinct and hold no slash.

  \<^bold>\<open>Not modelled.\<close> Characters above code point 255 in text (a character is an Isabelle \<open>char\<close>; a file name may
  also be raw code points), the cancellation of the caller's own task during a provider call, the
  normalisation of untyped input that precedes some models (cyclic containers, byte strings, nesting), and
  the SDK's plugin intake, matched-comparison, observed-calibration, quality-workflow, plugin, host and
  command-line modules, which the manifest lists with the reason for each.
\<close>

section \<open>Archives, hardening and the registry\<close>



text \<open>
  C2: Verifying an archive always returns a receipt, never an escaping exception, and the receipt
  passes its own validator unchanged, whatever the file system, the ZIP parser and the JSON parser answer.
\<close>

theorem verify_archive_total:
  "\<exists>r. verify_package_archive lib file sha receipt policy = Inr r
     \<and> validate_model normalise_verification check_verification r = Inr r"
  by (rule verify_package_archive_cases [of "lib" "file" "sha" "receipt" "policy"]) (auto dest: pass_receipt_valid)





text \<open>
  C6: Hardening a valid build receipt under a valid policy always returns a receipt that passes its
  own validator, keeps the candidate and the package digest, and passes exactly when the package
  was built, its paths are safe, its provenance is the builder's and the required roles are there.
\<close>

theorem hardening_decides:
  assumes "validate_model normalise_receipt check_receipt receipt = Inr r" "passes (check_hardening_policy policy)"
  shows "\<exists>h. harden_skill_package receipt (Some policy) = Inr h
     \<and> validate_model normalise_hardening check_hardening h = Inr h
     \<and> (hr_status h = PassResult \<longleftrightarrow> hardened r policy)
     \<and> hr_candidate h = pr_candidate r \<and> hr_package_digest h = pr_package_digest r"
  by (rule harden_ok [OF assms(1), of policy "Some policy"]) (use assms(2) in auto)

theorem hardening_decides_witness:
  "\<exists>h. harden_skill_package demo_receipt (Some default_hardening_policy) = Inr h \<and> hr_status h = PassResult"
  using hardening_decides [OF demo_receipt_valid default_hardening_policy_ok] demo_hardened by blast

text \<open>
  C7: Preparing a registry candidate from a valid version 2 build receipt, hardening receipt and
  request always returns a receipt that passes its own validator and keeps the candidate; it is
  prepared exactly when the build, the hardening and the request fit together.
\<close>

theorem preparation_decides:
  assumes "validate_model normalise_receipt check_receipt package = Inr p" "pr_schema_version package = ReceiptV2"
    and "validate_model normalise_hardening check_hardening hardening = Inr h"
    and "validate_model normalise_request check_request request = Inr q"
  shows "\<exists>r. prepare_private_registry_candidate package hardening request = Inr r
    \<and> validate_model normalise_preparation check_preparation r = Inr r
    \<and> (gr_status r = Prepared \<longleftrightarrow> preparable p h q) \<and> gr_candidate r = pr_candidate p"
  by (rule prepare_ok [OF assms])

theorem preparation_decides_witness:
  "\<exists>h r. harden_skill_package demo_receipt (Some default_hardening_policy) = Inr h
     \<and> prepare_private_registry_candidate demo_receipt h demo_request = Inr r \<and> gr_status r = Prepared"
proof (rule harden_ok [OF demo_receipt_valid, of default_hardening_policy "Some default_hardening_policy"])
  fix h assume h: "harden_skill_package demo_receipt (Some default_hardening_policy) = Inr h"
    "validate_model normalise_hardening check_hardening h = Inr h"
    "hr_status h = PassResult \<longleftrightarrow> hardened demo_receipt default_hardening_policy"
    "hr_candidate h = pr_candidate demo_receipt" "hr_package_digest h = pr_package_digest demo_receipt"
  have "preparable demo_receipt h demo_request"
    using h(3,4,5) demo_hardened demo_version_ok
    by (simp add: preparable_def demo_receipt_def demo_request_def demo_manifest_def demo_candidate_def
        REGISTRY_PACKAGE_NAME_MAX_LENGTH_def)
  moreover have "pr_schema_version demo_receipt = ReceiptV2" by (simp add: demo_receipt_def)
  ultimately show ?thesis
    using preparation_decides [OF demo_receipt_valid _ h(2) demo_request_valid] h(1) by blast
qed (simp_all add: default_hardening_policy_ok)

text \<open>
  C8: Projecting source evidence for the public registry loses nothing and exposes nothing: what is
  kept verbatim is portable and carries no credential, and everything else is kept as its digest.
\<close>

theorem evidence_neither_lost_nor_exposed:
  "(\<lambda>(refs, digests). distinct refs
      \<and> set refs = {v \<in> set values. registry_evidence_is_redaction_safe v \<and> portable v}
      \<and> set digests = (\<lambda>v. canonical_json_sha256 (JStr v)) ` {v \<in> set values. \<not> (registry_evidence_is_redaction_safe v \<and> portable v)})
     (split_evidence values)"
proof (cases "split_evidence values")
  case (Pair refs digests)
  then show ?thesis
    using split_evidence_loop_ok [of "values" "[]" "[]" refs digests] by (auto simp: split_evidence_def public_ref_def)
qed

text \<open>
  C9: The search for credential shapes is the linear scan that looks, at the start of the text and
  after every separator, for one of the credential prefixes.
\<close>

theorem credential_search_is_a_scan:
  "registry_evidence_is_redaction_safe v = (\<not> credential_scan True v)"
  by (rule redaction_safe_scan)

section \<open>Runtime installation\<close>

text \<open>
  C10: An install plan's identifier binds its whole content: two valid plans with one identifier are
  equal, unless two different canonical texts share the first 24 digits of their SHA-256.
\<close>

theorem plan_identifier_binds:
  assumes "passes (check_plan p)" "passes (check_plan q)" "ip_plan_id p = ip_plan_id q"
  shows "p = q \<or> dumps (identity_payload p) \<noteq> dumps (identity_payload q)
    \<and> take 24 (sha256 (utf8 (dumps (identity_payload p)))) = take 24 (sha256 (utf8 (dumps (identity_payload q))))"
  by (rule plan_id_binds [OF assms])

theorem plan_identifier_binds_witness:
  "\<exists>p. plan_runtime_install demo_receipt demo_preparation [demo_entry] demo_target [''SKILL.md''] = Inr p
     \<and> (p = p \<or> dumps (identity_payload p) \<noteq> dumps (identity_payload p)
        \<and> take 24 (sha256 (utf8 (dumps (identity_payload p)))) = take 24 (sha256 (utf8 (dumps (identity_payload p)))))"
  using plan_identifier_binds [of demo_plan demo_plan] plan_model.validated_passes [OF demo_plan_valid] demo_plan_made
  by blast

text \<open>
  C11: Planning is idempotent: after a planned transition, planning the same package against the
  lock that the plan proposes proposes the same entry and changes nothing.
\<close>

theorem replanning_changes_nothing:
  assumes "plan_runtime_install package registry lock target evidence = Inr plan" "ip_status plan = Planned"
    and "validate_model normalise_lock check_lock lock = Inr l"
  shows "\<exists>e plan'. ip_proposed_entry plan = Some e
     \<and> ip_proposed_lock_sha256 plan = Some (lock_digest (proposed_entries l e))
     \<and> plan_runtime_install package registry (proposed_entries l e) target evidence = Inr plan'
     \<and> ip_operation plan' = Some OpNoChange \<and> ip_proposed_entry plan' = Some e
     \<and> ip_proposed_lock_sha256 plan' = Some (ip_current_lock_sha256 plan')"
  by (rule replan [OF assms]) auto

theorem replanning_witness:
  "\<exists>e plan'. ip_proposed_entry demo_plan = Some e
     \<and> plan_runtime_install demo_receipt demo_preparation (proposed_entries [demo_entry] e) demo_target [''SKILL.md''] = Inr plan'
     \<and> ip_operation plan' = Some OpNoChange"
proof -
  have "ip_status demo_plan = Planned" by (simp add: demo_plan_eq planned_plan_sel)
  then show ?thesis using replanning_changes_nothing [OF demo_plan_made _ demo_lock_valid] by blast
qed

text \<open>
  C12: The lock is a finite map from targets and package names to entries, and the lock a transition
  proposes is the functional update of that map at the new entry's key.
\<close>

theorem proposed_lock_refines_update:
  "lock_lookup (proposed_entries l x) = (lock_lookup l)(entry_key x \<mapsto> x)"
  by (rule ext) (simp add: proposed_lookup)

text \<open>
  C13: A valid lock and a valid entry give a valid proposed lock, in which every key still occurs once.
\<close>

theorem proposed_lock_stays_valid:
  assumes "validate_model normalise_lock check_lock l0 = Inr l" "validate_model normalise_entry check_lock_entry e0 = Inr e"
  shows "validate_model normalise_lock check_lock (proposed_entries l e) = Inr (proposed_entries l e)
    \<and> distinct (map entry_key (proposed_entries l e))"
  using proposed_valid [OF assms] proposed_distinct [OF valid_lock_parts(1) [OF assms(1)]] by simp

theorem proposed_lock_witness:
  "validate_model normalise_lock check_lock (proposed_entries [demo_entry] demo_entry) = Inr (proposed_entries [demo_entry] demo_entry)"
  using proposed_lock_stays_valid [OF demo_lock_valid demo_entry_valid] by simp

section \<open>Provider calls\<close>

text \<open>
  C14: When a provider call returns an outcome, its public evidence passes its own validator
  unchanged and binds the request; text is returned exactly when the call completed, and then it is
  within the caller's output limit and its digest is the one reported; the numbers of events and
  of buffered events stay within the caller's limits; and the payload was the request's.
\<close>

theorem provider_outcome_is_sound:
  assumes "execute_provider_call render h request v ad limits ck = (trace, Inr outcome)"
  shows "validate_model normalise_call_result check_call_result (po_public_result outcome) = Inr (po_public_result outcome)
     \<and> validate_against_request render (cr_execution (po_public_result outcome)) request = Inr (cr_execution (po_public_result outcome))
     \<and> (cr_status (po_public_result outcome) = Completed \<longleftrightarrow> po_complete_text outcome \<noteq> None)
     \<and> cr_output_sha256 (po_public_result outcome) = map_option text_digest (po_complete_text outcome)
     \<and> cr_output_bytes (po_public_result outcome) \<le> pl_output_bytes limits
     \<and> cr_event_count (po_public_result outcome) \<le> pl_events limits
     \<and> cr_max_buffered_events (po_public_result outcome) \<le> pl_buffered_events limits
     \<and> (\<exists>payload. normalize_json h (nat (pl_nesting_depth limits)) v = Inr payload
          \<and> canonical_json_sha256 payload = xr_input_sha256 request)"
proof (rule execute_Inr [OF assms])
  fix payload descriptor steps started_at t cleanup finished_at e
  assume c: "is_ok (check_limits limits)" "validate_request_and_input h request v limits = Inr (request, payload)"
    "terminal_ok limits t" "execution_result render request t started_at finished_at = Inr e"
    "outcome = \<lparr>po_public_result = public_result request (td_mode descriptor) t cleanup e, po_complete_text = tm_text t\<rparr>"
  note limits = check_limits_ok [OF c(1)]
  have e: "validate_against_request render e request = Inr e" using c(4) unfolding execution_result_Inr by blast
  have "tm_status t = Completed \<longleftrightarrow> tm_text t \<noteq> None" by (rule completed_iff_text [OF c(1,3,4)])
  moreover have "tm_output_sha256 t = map_option text_digest (tm_text t)"
    and "(case tm_text t of None \<Rightarrow> 0 | Some s \<Rightarrow> int (length (utf8 s))) \<le> pl_output_bytes limits"
    and "tm_event_count t \<le> pl_events limits" "tm_max_buffered_events t \<le> pl_buffered_events limits"
    using c(3) limits by (auto simp: terminal_ok_def completed_terminal_def failed_terminal_ok_def)
  ultimately show ?thesis
    using public_result_valid [OF c(1,3,4)] e validated_input [OF c(2)] by (simp add: c(5) public_result_def)
qed

theorem provider_outcome_witness:
  "\<exists>trace outcome. execute_provider_call (\<lambda>_. []) demo_heap demo_call_request (PyRef 0) (demo_adapter CompleteMode)
       DEFAULT_PROVIDER_CALL_LIMITS demo_clock = (trace, Inr outcome)
     \<and> cr_output_sha256 (po_public_result outcome) = map_option text_digest (po_complete_text outcome)
     \<and> cr_event_count (po_public_result outcome) \<le> 4096"
proof -
  obtain outcome where o: "execute_provider_call (\<lambda>_. []) demo_heap demo_call_request (PyRef 0) (demo_adapter CompleteMode)
      DEFAULT_PROVIDER_CALL_LIMITS demo_clock = ([RunnerScheduled, CleanupRun], Inr outcome)"
    using demo_call_completes by blast
  have "pl_events DEFAULT_PROVIDER_CALL_LIMITS = 4096" by (simp add: DEFAULT_PROVIDER_CALL_LIMITS_def LIMIT_CEILINGS_def)
  then show ?thesis using provider_outcome_is_sound [OF o] o by auto
qed


text \<open>
  C16: A stream that completes is the transcript of its pulls: the events pulled are chunks of text and
  then one terminal, however they were batched; the text is the chunks' concatenation, and the
  event digest is that of the chunks, numbered in order, and the terminal.
\<close>

theorem stream_is_its_transcript:
  assumes "run_stream (Opens pulls) limits = Inr t" "is_ok (check_limits limits)"
  shows "\<exists>k chunks usage cost.
     pulled_events pulls 0 k = map chunk_event chunks @ [TerminalEvent (tm_evidence_refs t) usage cost]
     \<and> tm_text t = Some (concat chunks)
     \<and> tm_event_sha256 t = event_digest (chunk_log chunks @ [terminal_json (int (length chunks)) ''completed''])
     \<and> tm_event_count t = int (length chunks) + 1"
proof -
  have "stream_inv limits initial_stream" using check_limits_ok [OF assms(2)] by (intro initial_stream_inv) linarith+
  moreover have "stream_loop pulls 0 initial_stream limits = Inr t" using assms(1) by (simp add: run_stream_def)
  ultimately show ?thesis using stream_loop_transcript [of pulls 0 initial_stream limits t] by (simp add: initial_stream_def)
qed

theorem stream_transcript_witness:
  "\<exists>t k chunks usage cost. run_stream (Opens demo_pulls) DEFAULT_PROVIDER_CALL_LIMITS = Inr t
     \<and> pulled_events demo_pulls 0 k = map chunk_event chunks @ [TerminalEvent (tm_evidence_refs t) usage cost]
     \<and> tm_text t = Some (concat chunks)"
proof -
  obtain t where t: "run_stream (Opens demo_pulls) DEFAULT_PROVIDER_CALL_LIMITS = Inr t"
    using demo_stream by (auto simp: run_stream_def)
  then show ?thesis using stream_is_its_transcript [OF t demo_limits] by blast
qed

text \<open>
  C17: Consuming the events of a pull keeps the stream's invariant: the byte count is the size of the
  text so far and within the output limit, the trace holds the chunks in order and never more events
  than the limit.
\<close>

theorem stream_step_keeps_invariant:
  assumes "stream_step pulled state limits = Inr (state', terminal)" "stream_inv limits state"
  shows "stream_inv limits state'"
  by (rule stream_step_inv(1) [OF assms])

theorem stream_step_witness:
  "\<exists>state'. stream_step (Batch (Some [chunk_event ''o'', chunk_event ''k''])) initial_stream DEFAULT_PROVIDER_CALL_LIMITS = Inr (state', None)
     \<and> stream_inv DEFAULT_PROVIDER_CALL_LIMITS state'"
proof -
  obtain state' where s: "stream_step (Batch (Some [chunk_event ''o'', chunk_event ''k''])) initial_stream DEFAULT_PROVIDER_CALL_LIMITS
      = Inr (state', None)" using demo_stream_step by blast
  have "stream_inv DEFAULT_PROVIDER_CALL_LIMITS initial_stream"
    using check_limits_ok [OF demo_limits] by (intro initial_stream_inv) linarith+
  then show ?thesis using stream_step_keeps_invariant [OF s] s by blast
qed

text \<open>
  C18: A stream is pulled at most as often as the event limit allows, so it ends even if the adapter
  would go on for ever: its result depends only on that many pulls.
\<close>

theorem stream_pulls_are_bounded:
  assumes "\<forall>i < nat (pl_events limits). pulls i = pulls' i"
  shows "run_stream (Opens pulls) limits = run_stream (Opens pulls') limits"
  using stream_loop_bounded [of limits initial_stream pulls 0 pulls'] assms
  by (simp add: run_stream_def event_count_def initial_stream_def)

theorem stream_pulls_witness:
  "run_stream (Opens demo_pulls) DEFAULT_PROVIDER_CALL_LIMITS
     = run_stream (Opens (\<lambda>i. if i < 4096 then demo_pulls i else PullNotAwaitable)) DEFAULT_PROVIDER_CALL_LIMITS"
  by (rule stream_pulls_are_bounded) (simp add: DEFAULT_PROVIDER_CALL_LIMITS_def LIMIT_CEILINGS_def)

text \<open>
  C19: The payload normaliser accepts exactly the values that unfold, within the depth limit, to a
  finite JSON tree with encodable strings and keys, and returns that tree; a container that is
  shared but not cyclic is accepted, and a cyclic one is always refused.
\<close>

theorem payload_normalisation_is_unfolding:
  "normalize_json h depth v = Inr j \<longleftrightarrow> reads h (Suc depth) v j"
  by (rule normalize_reads)



text \<open>
  A call that exceeds the overall deadline returns a failed outcome with the SDK's retryable
  timeout error and no text or output digest, after cleanup.
\<close>

theorem timed_out_call_fails:
  assumes "is_ok (check_limits limits)"
    and "validate_request_and_input h request v limits = Inr (request, payload)"
    and "ck_readable ck" "ck_started ck = NowIs started_at" "ck_finished ck = NowIs finished_at" "ck_overall ck = WaitTimesOut"
    and "times_ok request started_at finished_at"
    and "read_adapter request (ad_members ad) = Inr descriptor"
    and "xr_declared_capability request = ResponseGeneration"
    and "run_cleanup ck (ad_cleanup ad) = Inr cleaned"
  shows "\<exists>outcome. execute_provider_call render h request v ad limits ck = ([RunnerScheduled, CleanupRun], Inr outcome)
    \<and> po_complete_text outcome = None \<and> cr_status (po_public_result outcome) = Failed
    \<and> cr_output_sha256 (po_public_result outcome) = None
    \<and> xs_error (cr_execution (po_public_result outcome)) = Some (sdk_error call_timeout)"
  by (rule timed_out_call [OF assms])

theorem timed_out_call_witness:
  "\<exists>outcome. execute_provider_call (\<lambda>_. []) demo_heap demo_call_request (PyRef 0) (demo_adapter StreamMode)
      DEFAULT_PROVIDER_CALL_LIMITS (demo_clock\<lparr>ck_overall := WaitTimesOut\<rparr>) = ([RunnerScheduled, CleanupRun], Inr outcome)
    \<and> po_complete_text outcome = None \<and> cr_status (po_public_result outcome) = Failed
    \<and> cr_output_sha256 (po_public_result outcome) = None
    \<and> xs_error (cr_execution (po_public_result outcome)) = Some (sdk_error call_timeout)"
  by (rule timed_out_call_fails [OF demo_limits demo_input_ok _ _ _ _ demo_times demo_adapter_read])
    (simp_all add: demo_clock_def demo_adapter_def demo_call_request_def run_cleanup_def cleanup_task_def)

text \<open>
  C22: A cost observation survives the validation of its own dump, unchanged, exactly when its amount
  is written without an exponent.
\<close>

theorem cost_survives_iff_plain:
  assumes "observe_cost amount currency observed_at = Inr c"
  shows "(validate_cost (Fields c) = Inr (Some c) \<longleftrightarrow> plain_decimal (co_amount c))
    \<and> (plain_decimal (co_amount c) \<longrightarrow> decimal_of (decimal_str (co_amount c)) = co_amount c)"
proof -
  have "normalise_cost c = c" "is_currency_code (co_currency c)"
    using assms by (auto simp: observe_cost_def normalise_cost_def split: if_splits)
  then show ?thesis
    using decimal_round_trip [of "co_amount c"]
    by (auto simp: validate_cost_def Let_def validate_model_def check_cost_def decimal_str_accepted raise_contract_def field_def)
qed

theorem cost_survives_witness:
  "\<exists>c. observe_cost ''0.1250'' ''USD'' demo_time = Inr c \<and> validate_cost (Fields c) = Inr (Some c)"
proof -
  have "observe_cost ''0.1250'' ''USD'' demo_time
      = Inr \<lparr>co_amount = \<lparr>coefficient = 1250, scale = 4\<rparr>, co_currency = ''USD'', co_observed_at = demo_time\<rparr>"
    by code_simp
  moreover have "plain_decimal \<lparr>coefficient = 1250, scale = 4\<rparr>" by code_simp
  ultimately show ?thesis using cost_survives_iff_plain [of "''0.1250''" "''USD''" demo_time] by fastforce
qed

text \<open>
  C23: A valid observation of a small cost is refused: the amount 0.0000001, accepted when the
  observation is made, is dumped as 1E-7, which the same validator rejects, so that the call's
  answer is lost.
\<close>

theorem small_cost_is_refused:
  "\<exists>c. observe_cost ''0.0000001'' ''USD'' observed_at = Inr c \<and> decimal_str (co_amount c) = ''1E-7''
     \<and> run_complete (CompleteAnswer (Some (Encodable ''ok'')) refs NoEvidence (Fields c)) DEFAULT_PROVIDER_CALL_LIMITS
       = raise_contract ''invalid_provider_event'' ''provider cost evidence failed validation''"
proof -
  have wire: "is_decimal_string ''0.0000001''" "is_currency_code ''USD''" "trim ''USD'' = ''USD''"
    "decimal_of ''0.0000001'' = \<lparr>coefficient = 1, scale = 7\<rparr>"
    and str: "decimal_str \<lparr>coefficient = 1, scale = 7\<rparr> = ''1E-7''" "\<not> is_decimal_string ''1E-7''"
    by code_simp+
  let ?c = "\<lparr>co_amount = \<lparr>coefficient = 1, scale = 7\<rparr>, co_currency = ''USD'', co_observed_at = observed_at\<rparr>"
  have "observe_cost ''0.0000001'' ''USD'' observed_at = Inr ?c" using wire by (simp add: observe_cost_def)
  moreover have "validate_cost (Fields ?c) = raise_contract ''invalid_provider_event'' ''provider cost evidence failed validation''"
    using str by (simp add: validate_cost_def Let_def validate_model_def check_cost_def normalise_cost_def field_def)
  ultimately show ?thesis
    using str demo_utf8
    by (intro exI [of _ ?c]) (simp add: run_complete_def utf8_bytes_def validate_usage_def raise_contract_def
        DEFAULT_PROVIDER_CALL_LIMITS_def LIMIT_CEILINGS_def)
qed

section \<open>Digests, identities and paths\<close>

text \<open>
  C24: Canonical JSON is unambiguous and independent of the order in which object members are
  given: two values have the same canonical text exactly when they agree up to that order.
\<close>

theorem canonical_json_unambiguous: "dumps v = dumps w \<longleftrightarrow> Json.norm v = Json.norm w"
  by (rule dumps_inject)

text \<open>
  C25: The content digest's framing is unambiguous for paths and digests without NUL bytes: equal
  preimages come from equal lists of files.
\<close>

theorem content_framing_unambiguous:
  assumes "content_preimage fs = content_preimage gs"
    and "\<forall>(p, d) \<in> set fs. nul_free p \<and> is_sha256 d" "\<forall>(p, d) \<in> set gs. nul_free p \<and> is_sha256 d"
  shows "fs = gs"
  by (rule content_preimage_inject [OF _ _ assms(1)]) (use assms(2,3) is_sha256_nul_free in fastforce)+

theorem content_framing_witness:
  "digest_files demo_files = digest_files demo_files \<and> nul_free ''SKILL.md''"
proof -
  have "nul_free ''SKILL.md''" "nul_free ''README.md''" by code_simp+
  then have "\<forall>(p, d) \<in> set (digest_files demo_files). nul_free p \<and> is_sha256 d"
    by (simp add: digest_files_def demo_files_def sha256_is_sha256)
  then show ?thesis
    using content_framing_unambiguous [of "digest_files demo_files" "digest_files demo_files"] \<open>nul_free ''SKILL.md''\<close> by blast
qed

text \<open>
  C26: Portable paths may contain a NUL byte, and then the framing is ambiguous: two different lists
  of portable paths with SHA-256 digests have one candidate content digest.
\<close>

theorem content_digest_collides_on_nul:
  assumes "is_sha256 d" "is_sha256 e"
  shows "\<exists>fs gs. fs \<noteq> gs \<and> (\<forall>(p, x) \<in> set fs. portable p \<and> is_sha256 x) \<and> (\<forall>(p, x) \<in> set gs. portable p \<and> is_sha256 x)
    \<and> candidate_content_sha256 fs = candidate_content_sha256 gs"
proof -
  let ?p = "''a'' @ CHR 0x00 # d @ CHR 0x00 # ''b''"
  have chars: "\<forall>c \<in> set d. is_hex_lower c" using assms(1) by (simp add: is_sha256_iff)
  have "portable ?p" by (rule portable_nul_path [OF chars])
  moreover have "portable ''a''" "portable ''b''" by code_simp+
  moreover have "content_preimage [(''a'', d), (''b'', e)] = content_preimage [(?p, e)]"
    by (simp add: utf8_append utf8_char_def code_def)
  ultimately show ?thesis using assms
    by (intro exI [of _ "[(''a'', d), (''b'', e)]"] exI [of _ "[(?p, e)]"]) (simp add: candidate_content_sha256_def utf8_char_def code_def)
qed

theorem content_digest_collides_witness:
  "\<exists>fs gs. fs \<noteq> gs \<and> candidate_content_sha256 fs = candidate_content_sha256 gs"
  using content_digest_collides_on_nul [OF sha256_is_sha256 [of "[1]"] sha256_is_sha256 [of "[2]"]] by blast

text \<open>
  The fallback package identifier is always an identifier, whatever the directory is called,
  and the directory's own name is kept whenever it is one.
\<close>

theorem candidate_identifier_is_valid:
  assumes "is_sha256 content"
  shows "is_identifier (candidate_package_id directory content)
    \<and> (is_identifier directory \<longrightarrow> candidate_package_id directory content = directory)"
  using fallback_is_identifier [OF assms, of "utf8 directory"] by (simp add: candidate_package_id_def is_identifier_def)

theorem candidate_identifier_witness:
  "is_identifier (candidate_package_id ''My Skill'' (sha256 [1])) \<and> candidate_package_id ''demo'' (sha256 [1]) = ''demo''"
  using candidate_identifier_is_valid [OF sha256_is_sha256, of "''My Skill''" "[1]"]
    candidate_identifier_is_valid [OF sha256_is_sha256, of "''demo''" "[1]"] demo_texts(1) by simp



text \<open>
  A portable path never leaves its root: resolving it component by component from any depth goes
  strictly down, and its components joined again are the path.
\<close>

theorem portable_path_stays_inside:
  assumes "require_portable_relative_path p = Inr q"
  shows "q = p \<and> walk (path_parts p) depth = Some (depth + length (path_parts p)) \<and> path_parts p \<noteq> []
    \<and> join_char (CHR ''/'') (path_parts p) = p"
proof -
  have p: "portable p" using assms by (simp add: portable_def)
  have "walk (path_parts p) depth = Some (depth + length (path_parts p))"
    using portable_parts(3) [OF p] by (intro walk_names) auto
  then show ?thesis using portable_parts(2) [OF p] portable_join [OF p] require_portable_Inr [OF assms] by simp
qed

theorem portable_path_witness: "walk (path_parts ''a/b.md'') 0 = Some 2"
proof -
  have "require_portable_relative_path ''a/b.md'' = Inr ''a/b.md''" "length (path_parts ''a/b.md'') = 2" by code_simp+
  then show ?thesis using portable_path_stays_inside [of "''a/b.md''" "''a/b.md''" 0] by simp
qed

text \<open>
  A path the safety policy lets through has, in no capitalisation, an unsafe directory among its
  components, and its file name is no credential file, environment file, generated receipt or
  key; the decision does not depend on letter case.
\<close>

theorem safe_path_has_no_unsafe_part:
  assumes "unsafe_package_path_reason path = Inr None"
  shows "(\<forall>part \<in> set (path_parts path). lower part \<notin> set UNSAFE_PACKAGE_DIRECTORIES)
    \<and> (let name = lower (last (path_parts path)) in
        name \<notin> set UNSAFE_PACKAGE_FILENAMES \<and> \<not> starts_with name ''.env.'' \<and> \<not> ends_with name ''-receipt.json''
        \<and> (\<forall>s \<in> set UNSAFE_PACKAGE_SUFFIXES. \<not> ends_with name s))"
proof -
  have parts: "path_parts path \<noteq> []" "\<forall>part \<in> set (path_parts path). lower part \<notin> set UNSAFE_PACKAGE_DIRECTORIES"
    and "unsafe_package_file_reason (last (map lower (path_parts path))) = None"
    using assms by (auto simp: unsafe_package_path_reason_def Let_def split: if_splits)
  then have "unsafe_package_file_reason (last (path_parts path)) = None" by (simp add: last_map)
  then show ?thesis using parts by (simp add: unsafe_file_reason_None Let_def)
qed

theorem safe_path_witness: "\<not> ends_with (lower (last (path_parts ''skills/Demo/SKILL.md''))) ''-receipt.json''"
proof -
  have "unsafe_package_path_reason ''skills/Demo/SKILL.md'' = Inr None" by code_simp
  from safe_path_has_no_unsafe_part [OF this] show ?thesis by (simp only: Let_def) blast
qed



section \<open>Inventory and intake\<close>

text \<open>
  A valid inventory record that is to be admitted or merged has a passing assessment: every one
  of the nine principles passes with evidence, and if it is admitted its source and rights are
  recorded and the assessment is bound to the source's revision and content.
\<close>

theorem admission_requires_passing_assessment:
  assumes "validate_model normalise_record check_record raw = Inr r" "admits_or_merges r"
  shows "(\<forall>p \<in> set (principles (ir_mantra r)). mp_status p = MantraPass \<and> mp_evidence p \<noteq> [])
    \<and> (ir_intended_disposition r = AdmitToFoundry \<longrightarrow> (\<exists>s rights. ir_source r = Some s \<and> ir_rights r = Some rights
        \<and> ma_source_revision (ir_mantra r) = sp_revision s \<and> ma_content_sha256 (ir_mantra r) = sp_content_sha256 s))"
proof -
  have ok: "passes (check_record r)" by (rule record_model.validated_passes [OF assms(1)])
  then have mantra: "passes (check_mantra (ir_mantra r))" by (rule check_record_mantra)
  have "ma_overall (ir_mantra r) = MantraPass"
    using ok assms(2) by (simp add: check_record_def duplicate_requires_target_def)
  then have "\<forall>p \<in> set (principles (ir_mantra r)). mp_status p = MantraPass"
    using check_mantra_overall [OF mantra] expected_overall_pass by metis
  moreover have "\<forall>p \<in> set (principles (ir_mantra r)). mp_evidence p \<noteq> []"
    using mantra by (auto simp: check_mantra_def check_principle_def)
  moreover have "ir_intended_disposition r = AdmitToFoundry \<longrightarrow> (\<exists>s rights. ir_source r = Some s \<and> ir_rights r = Some rights
        \<and> ma_source_revision (ir_mantra r) = sp_revision s \<and> ma_content_sha256 (ir_mantra r) = sp_content_sha256 s)"
    using ok by (auto simp: check_record_def duplicate_requires_target_def split: option.splits)
  ultimately show ?thesis by blast
qed

theorem admission_witness:
  "mp_status ` set (principles (ir_mantra demo_record)) \<subseteq> {MantraPass}"
  using admission_requires_passing_assessment [OF demo_record_valid] by (auto simp: admits_or_merges_def demo_record_def)



text \<open>
  C33: A saved release snapshot is bound by its digest: two valid snapshots with one binding digest are
  equal, unless two different canonical texts have the same SHA-256.
\<close>

theorem snapshot_binding_binds:
  assumes "validate_model normalise_snapshot check_snapshot s0 = Inr s" "validate_model normalise_snapshot check_snapshot t0 = Inr t"
    and "sr_binding_sha256 s = sr_binding_sha256 t"
  shows "s = t \<or> dumps (snapshot_payload s) \<noteq> dumps (snapshot_payload t)
    \<and> sha256 (utf8 (dumps (snapshot_payload s))) = sha256 (utf8 (dumps (snapshot_payload t)))"
proof (cases "dumps (snapshot_payload s) = dumps (snapshot_payload t)")
  case True
  then show ?thesis using norm_snapshot_inject assms(3) by (simp add: dumps_inject)
next
  case False
  have "canonical_json_sha256 (snapshot_payload s) = sr_binding_sha256 s"
    "canonical_json_sha256 (snapshot_payload t) = sr_binding_sha256 t"
    using snapshot_model.validated_passes [OF assms(1)] snapshot_model.validated_passes [OF assms(2)]
    by (simp_all add: check_snapshot_def)
  then show ?thesis using False assms(3) by (simp add: canonical_json_sha256_def)
qed

theorem snapshot_binding_witness:
  "canonical_json_sha256 (snapshot_payload demo_release) = sr_binding_sha256 demo_release"
  using snapshot_binding_binds [OF demo_release_valid demo_release_valid refl]
    snapshot_model.validated_passes [OF demo_release_valid] by (simp add: check_snapshot_def)

section \<open>Deterministic evaluation\<close>

text \<open>
  C34: Evaluating a valid scenario set with a valid scorer and valid observations always returns a
  receipt that passes its own validator. It is blocked exactly when the inputs do not determine an
  evaluation; otherwise its score is the double nearest to the ratio of passing cases, the status
  compares that score with the scorer's threshold, and there is one result per case, in order.
\<close>

theorem evaluation_decides:
  assumes "validate_model normalise_set check_set s = Inr s" "validate_model normalise_scorer check_scorer scorer = Inr scorer"
    and "\<forall>ob \<in> set obs. validate_model normalise_observation check_observation ob = Inr ob"
  shows "\<exists>r. evaluate_scenario_set s obs scorer probes = Inr r
    \<and> validate_model normalise_evaluation check_evaluation r = Inr r
    \<and> (ev_status r = EvalBlocked \<longleftrightarrow> \<not> evaluable_set s obs scorer probes)
    \<and> (ev_status r \<noteq> EvalBlocked \<longrightarrow> ev_score r = Some (set_score s obs)
         \<and> ev_status r = threshold_status (set_score s obs) scorer
         \<and> map kr_case_id (ev_case_results r) = map sc_case_id (sn_cases s))"
  using assms evaluate_ok [of s scorer obs probes]
  by (simp add: set_model.fixpoint_iff scorer_model.fixpoint_iff observation_model.fixpoint_iff evaluation_model.fixpoint_iff
      valid_as_def)

theorem evaluation_witness:
  "\<exists>r. evaluate_scenario_set demo_set [demo_observation] demo_scorer [] = Inr r \<and> ev_status r = EvalPass \<and> ev_score r = Some 1"
  using evaluation_decides [OF demo_set_valid demo_scorer_valid, of "[demo_observation]" "[]"] demo_evaluable demo_score
    demo_observation_valid by (auto simp: threshold_status_def demo_scorer_def)

text \<open>
  C35: The same for version 2: evaluation is total and its receipts are valid; it is blocked exactly
  when the inputs disagree, come from no or several providers, or leave a case undecidable; an exact
  match is decided by digest.
\<close>

theorem evaluation_v2_decides:
  assumes "validate_model normalise_set_v2 check_set_v2 s = Inr s" "validate_model normalise_scorer check_scorer scorer = Inr scorer"
    and "\<forall>ob \<in> set obs. validate_model normalise_observation check_observation_v2 ob = Inr ob"
  shows "\<exists>r. evaluate_scenario_set_v2 s obs scorer probes = Inr r
    \<and> validate_model normalise_evaluation_v2 check_evaluation_v2 r = Inr r
    \<and> (ev_status r = EvalBlocked \<longleftrightarrow> \<not> evaluable_set_v2 s obs scorer probes)
    \<and> (ev_status r \<noteq> EvalBlocked \<longrightarrow> ev_score r = Some (set_score_v2 s obs)
         \<and> ev_status r = threshold_status (set_score_v2 s obs) scorer
         \<and> ev_provider r = Some (so_provider (hd obs))
         \<and> map kr_case_id (ev_case_results r) = map sc_case_id (sn_cases s))"
  using assms evaluate_v2_ok [of s scorer obs probes]
  by (auto simp: set_v2_model.fixpoint_iff scorer_model.fixpoint_iff observation_v2_model.fixpoint_iff
      evaluation_v2_model.fixpoint_iff valid_as_def)

theorem evaluation_v2_witness:
  "\<exists>r. evaluate_scenario_set_v2 (promote_set demo_set) [promote_observation demo_model demo_observation] demo_scorer [] = Inr r
     \<and> validate_model normalise_evaluation_v2 check_evaluation_v2 r = Inr r"
proof -
  have s: "validate_model normalise_set_v2 check_set_v2 (promote_set demo_set) = Inr (promote_set demo_set)"
    using valid_promote_set [of demo_set] demo_set_valid
    by (simp add: set_model.fixpoint_iff set_v2_model.fixpoint_iff valid_as_def)
  have ob: "validate_model normalise_observation check_observation_v2 (promote_observation demo_model demo_observation)
      = Inr (promote_observation demo_model demo_observation)"
    using demo_observation_valid demo_model_ok
    by (simp add: observation_model.fixpoint_iff observation_v2_model.fixpoint_iff normalise_promote check_promote)
  from evaluation_v2_decides [OF s demo_scorer_valid, of "[promote_observation demo_model demo_observation]" "[]"] ob
  show ?thesis by auto
qed

text \<open>
  C36: Version 2 decides a version 1 evaluation, promoted to one provider and no expected digest, the
  way version 1 does: the same status and the same score, on every branch.
\<close>

theorem versions_agree:
  assumes "validate_model normalise_set check_set s = Inr s" "validate_model normalise_scorer check_scorer scorer = Inr scorer"
    and "\<forall>ob \<in> set obs. validate_model normalise_observation check_observation ob = Inr ob"
    and "passes (check_provider_identity_v2 p)"
  shows "\<exists>r r2. evaluate_scenario_set s obs scorer probes = Inr r
    \<and> evaluate_scenario_set_v2 (promote_set s) (map (promote_observation p) obs) scorer probes = Inr r2
    \<and> ev_status r2 = ev_status r \<and> ev_score r2 = ev_score r"
  by (rule promotion) (use assms in \<open>simp_all add: set_model.fixpoint_iff scorer_model.fixpoint_iff
      observation_model.fixpoint_iff valid_as_def\<close>)

theorem versions_agree_witness:
  "\<exists>r r2. evaluate_scenario_set demo_set [demo_observation] demo_scorer [] = Inr r
     \<and> evaluate_scenario_set_v2 (promote_set demo_set) [promote_observation demo_model demo_observation] demo_scorer [] = Inr r2
     \<and> ev_score r2 = ev_score r"
  using versions_agree [OF demo_set_valid demo_scorer_valid _ demo_model_ok, of "[demo_observation]" "[]"]
    demo_observation_valid by auto

text \<open>
  C37: Scores are well behaved although they are doubles: the score of a set lies in the unit
  interval, never falls when more cases pass, and is 1 when all do, so that such a set passes
  whatever valid threshold the scorer has.
\<close>

theorem score_is_monotone:
  assumes "length as = length bs" "bs \<noteq> []"
    and "\<forall>(a, b) \<in> set (zip as bs). kr_status a = EvalPass \<longrightarrow> kr_status b = EvalPass"
  shows "0 \<le> pass_ratio as \<and> pass_ratio as \<le> pass_ratio bs \<and> pass_ratio bs \<le> 1
    \<and> ((\<forall>b \<in> set bs. kr_status b = EvalPass) \<longrightarrow> pass_ratio bs = 1)"
proof -
  have "length [r \<leftarrow> as. kr_status r = EvalPass] \<le> length [r \<leftarrow> bs. kr_status r = EvalPass]"
    using assms(1,3) by (induction as bs rule: list_induct2) auto
  then have "pass_ratio as \<le> pass_ratio bs"
    unfolding pass_ratio_def true_division_def assms(1) by (intro to_double_mono) (simp add: divide_right_mono)
  moreover have "pass_ratio bs = 1" if "\<forall>b \<in> set bs. kr_status b = EvalPass"
    using that assms(2) by (simp add: pass_ratio_def true_division_def filter_True)
  moreover have "as \<noteq> []" using assms(1,2) by auto
  ultimately show ?thesis using pass_ratio_unit [of "as"] pass_ratio_unit [OF assms(2)] by blast
qed

theorem score_witness:
  "pass_ratio [decided_result demo_case demo_observation] = 1"
proof -
  let ?r = "decided_result demo_case demo_observation"
  have "missing_signals demo_case demo_observation = [] \<and> forbidden_observed demo_case demo_observation = []"
    by (simp add: no_findings_iff case_passes_def demo_case_def demo_observation_def)
  then have "kr_status ?r = EvalPass" by (simp add: decided_result_def)
  then show ?thesis using score_is_monotone [of "[?r]" "[?r]"] by simp
qed

section \<open>Building packages and admitting their execution\<close>

text \<open>
  C38: The walk over a package tree always returns, and it reports nothing exactly when the tree did
  not change and every place in it, wherever reached, is admissible (portable and textual name, no unsafe
  directory or file, no symbolic link, readable and unchanged, within the depth limits). It then captured
  exactly the regular files, each once, and its records are theirs in the order of the paths.
\<close>

theorem scan_is_the_tree:
  assumes "os_package (OpenedRoot (Some entries) changed)"
  shows "\<exists>files findings captured. scan_files (OpenedRoot (Some entries) changed) policy = Inr (files, findings, captured)
    \<and> files = sort_key mf_path (map file_record captured) \<and> distinct (map fst captured)
    \<and> (findings = [] \<longleftrightarrow> \<not> changed \<and> (\<forall>e \<in> set entries. \<forall>path n. place e path n \<longrightarrow> admitted policy [] path n))
    \<and> (findings = [] \<longrightarrow> set captured = tree_captures entries)"
proof -
  obtain files findings captured where scan: "scan_files (OpenedRoot (Some entries) changed) policy = Inr (files, findings, captured)"
    using scan_total [of "OpenedRoot (Some entries) changed" policy] by auto
  then show ?thesis
    using scan_parts(2) [OF scan] scan_distinct(1) [OF scan assms] scan_quiet_iff [OF scan] scan_captures_tree by blast
qed

theorem scan_is_the_tree_witness:
  "\<exists>captured. scan_files demo_tree default_skill_policy = Inr (demo_tree_files, [], captured)
     \<and> set captured = tree_captures demo_listing"
  using scan_is_the_tree [of demo_listing False default_skill_policy] demo_tree_os demo_scan
  by (auto simp: demo_tree_def)

text \<open>
  C39: A built receipt binds the tree it was built from: the root was listed and unchanged, every place
  in it was admissible, the manifest lists exactly its regular files with their digests, each once and in
  the order of the paths, and the candidate's content digest is that of the manifest's files. Hardening
  the receipt under any valid policy returns a receipt that passes unless a required README is missing.
\<close>

theorem built_package_binds_its_tree:
  assumes "build_skill_package lib package revision policy started_at finished_at = Inr r" "pr_status r = Built"
    and "os_package (root_tree package)" "passes (check_hardening_policy p)"
  shows "\<exists>entries m h. root_tree package = OpenedRoot (Some entries) False
    \<and> (\<forall>e \<in> set entries. \<forall>path n. place e path n \<longrightarrow> admitted (active_policy policy) [] path n)
    \<and> pr_manifest r = Some m \<and> set (pm_files m) = tree_files entries
    \<and> sorted (manifest_paths m) \<and> distinct (manifest_paths m)
    \<and> pr_candidate r = Some (directory_candidate (root_name package) revision (pm_files m))
    \<and> harden_skill_package r (Some p) = Inr h
    \<and> (hr_status h = PassResult \<longleftrightarrow> (hp_require_readme p \<longrightarrow> ''README.md'' \<in> set (manifest_paths m)))"
proof -
  have valid: "validate_model normalise_receipt check_receipt r = Inr r" by (rule build_valid [OF assms(1)])
  obtain h where h: "harden_skill_package r (Some p) = Inr h" "hr_status h = PassResult \<longleftrightarrow> hardened r p"
    using harden_ok [OF valid, of p "Some p"] assms(4) by auto
  obtain entries m captured where "root_tree package = OpenedRoot (Some entries) False"
    "\<forall>e \<in> set entries. \<forall>path n. place e path n \<longrightarrow> admitted (active_policy policy) [] path n"
    "pr_manifest r = Some m" "set (pm_files m) = tree_files entries" "sorted (manifest_paths m)" "distinct (manifest_paths m)"
    "pr_included_files r = manifest_paths m" "pr_candidate r = Some (directory_candidate (root_name package) revision (pm_files m))"
    using built_tree [OF assms(1-3)] by metis
  then show ?thesis using h built_hardened_iff [OF assms(1-3), of p] by auto
qed

theorem built_package_witness:
  "\<exists>r m. build_skill_package demo_texts_library demo_root demo_revision None 0 1 = Inr r
     \<and> pr_manifest r = Some m \<and> set (pm_files m) = tree_files demo_listing"
proof -
  obtain r where r: "build_skill_package demo_texts_library demo_root demo_revision None 0 1 = Inr r" "pr_status r = Built"
    by (rule demo_built)
  have "os_package (root_tree demo_root)" using demo_tree_os by (simp add: demo_root_def)
  from built_package_binds_its_tree [OF r this default_hardening_policy_ok] r show ?thesis
    by (auto simp: demo_root_def demo_tree_def)
qed



section \<open>Quality evidence\<close>



text \<open>
  C28: A receipt that passes for a scenario set proves it of the validated package: the evaluation document is
  one of the candidate's files, unchanged, and names the candidate; it declares the set with the
  budget of the contract version; the set names distinct cases, as many as the receipt counts and as the
  version demands; each of them is a case of the document without findings and eligible for release,
  and both pressure and negative scenarios are covered.
\<close>

theorem passing_quality_proves_the_set:
  assumes "assess_scenario_quality ev package files revision (Some name) given version = Inr r" "qr_status r = QualityPass"
  shows "\<exists>v c m doc cases items kvs ids.
     validate_skill_package (el_texts ev) package revision None = Inr v \<and> kv_status v = ValidationPass
     \<and> kv_candidate v = Some c \<and> qr_candidate r = Some c
     \<and> m \<in> set (kv_files v) \<and> mf_path m = EVALS_PATH \<and> load_payload ev files (mf_sha256 m) = Inr (PDict doc)
     \<and> get doc ''skill_name'' = PText (package_id c) \<and> get doc ''cases'' = PList cases
     \<and> get doc ''release_scenario_sets'' = PList items \<and> PDict kvs \<in> set items \<and> get kvs ''id'' = PText name
     \<and> declared_budget kvs = Some (release_budget version) \<and> set_case_ids kvs = Inr ids
     \<and> distinct ids \<and> qr_scenario_count r = int (length ids) \<and> length ids \<in> (if version = QualityV2 then {10} else {5..10})
     \<and> list_all (ready_case (el_compiles ev) cases) ids
     \<and> covers_category cases ids {''pressure'', ''regression''} \<and> covers_category cases ids {''negative'', ''edge''}"
proof (rule quality_pass [OF assms], goal_cases)
  case (1 v c m doc cases items kvs ids)
  have "length ids \<in> (if version = QualityV2 then {10} else {5..10})" "list_all (ready_case (el_compiles ev) cases) ids"
    using 1(18-21) by (auto simp: list_all_iff)
  with 1 show ?case by blast
qed

theorem passing_quality_witness:
  "\<exists>ids cases. length ids = 10 \<and> distinct ids \<and> list_all (ready_case (el_compiles quality_library) cases) ids"
proof -
  have "qr_status quality_receipt_passed = QualityPass" by (simp add: quality_receipt_passed_def)
  from passing_quality_proves_the_set [OF quality_passes this] obtain ids cases where
    "length ids \<in> (if QualityV2 = QualityV2 then {10} else {5..10})" "distinct ids"
    "list_all (ready_case (el_compiles quality_library) cases) ids"
    by blast
  then show ?thesis by (intro exI [of _ ids] exI [of _ cases]) simp
qed

text \<open>
  C29: A passing coverage result maps the whole plan: the plan is for the assessed candidate, every claim is
  mapped exactly once, to distinct cases among the ten active ones and to declared gaps, every gap is
  used, and coverage is called complete exactly when no gap is open.
\<close>

theorem passing_coverage_maps_every_claim:
  assumes "assess_scenario_coverage ev first second third revision set_id plan = Inr r" "cov_status r = QualityPass"
  shows "\<exists>p. cov_plan r = Some p \<and> Some (cp_candidate p) = cov_candidate r \<and> qr_status (cov_quality r) = QualityPass
     \<and> length (cov_active_case_ids r) = 10 \<and> distinct (cov_active_case_ids r)
     \<and> list_all (\<lambda>c. \<exists>!m. m \<in> set (cp_mappings p) \<and> cm_claim_id m = cl_id c) (cp_claims p)
     \<and> list_all (well_mapped p (cov_active_case_ids r)) (cp_mappings p)
     \<and> (\<Union>m \<in> set (cp_mappings p). set (cm_gap_ids m)) = cg_id ` set (cp_gaps p)
     \<and> (cov_coverage_complete r \<longleftrightarrow> cp_gaps p = [])"
proof -
  obtain p where p: "cov_plan r = Some p" "audit p (cov_active_case_ids r) = []" "length (cov_active_case_ids r) = 10"
    "distinct (cov_active_case_ids r)" "qr_status (cov_quality r) = QualityPass" "Some (cp_candidate p) = qr_candidate (cov_quality r)"
    "cov_candidate r = qr_candidate (cov_quality r)" "cov_coverage_complete r \<longleftrightarrow> cp_gaps p = []"
    by (rule coverage_pass [OF assms])
  have "list_all (\<lambda>c. \<exists>!m. m \<in> set (cp_mappings p) \<and> cm_claim_id m = cl_id c) (cp_claims p)"
    using audited_claim [OF p(2)] by (simp add: list_all_iff)
  moreover have "list_all (well_mapped p (cov_active_case_ids r)) (cp_mappings p)"
    "(\<Union>m \<in> set (cp_mappings p). set (cm_gap_ids m)) = cg_id ` set (cp_gaps p)"
    using p(2) by (simp_all add: audit_Nil list_all_iff)
  ultimately show ?thesis using p by auto
qed

theorem passing_coverage_witness:
  "cov_coverage_complete quality_coverage \<and> length (cov_active_case_ids quality_coverage) = 10"
  using passing_coverage_maps_every_claim [OF quality_covered]
  by (auto simp: quality_coverage_def coverage_result_def quality_plan_def)



end
